(* ===== verification/Prelude.thy ===== *)
theory Prelude
  imports Main "HOL-Library.Sublist" "HOL-Library.Char_ord"
begin

text \<open>
  Shared vocabulary of the development: the text operations of the Python standard library
  that the sources call (\<open>str.join\<close>, \<open>str.split\<close>, \<open>str.splitlines\<close>, \<open>str.strip\<close>,
  \<open>str.lower\<close>, \<open>str.replace\<close>, \<open>str\<close> of an integer, \<open>int\<close> of a digit string) with
  their generic laws. A Python string is a list of characters; the texts the sources build and
  compare are ASCII, and every operation below is the ASCII reading of the Python one.
  \<open>in\<close> on strings is \<^const>\<open>sublist\<close>, \<open>startswith\<close> is \<^const>\<open>prefix\<close>, \<open>endswith\<close>
  is \<^const>\<open>suffix\<close>.
\<close>

named_theorems text_simps \<open>evaluation of the text operations on concrete strings\<close>

section \<open>Joining and splitting\<close>

fun join :: "string \<Rightarrow> string list \<Rightarrow> string" where
  "join sep [] = []"
| "join sep [x] = x"
| "join sep (x # y # ys) = x @ sep @ join sep (y # ys)"

fun split_on :: "char \<Rightarrow> string \<Rightarrow> string list" where
  "split_on c [] = [[]]"
| "split_on c (x # xs) =
     (if x = c then [] # split_on c xs
      else case split_on c xs of [] \<Rightarrow> [[x]] | y # ys \<Rightarrow> (x # y) # ys)"

lemma split_on_nonempty [simp]: "split_on c s \<noteq> []"
  by (cases s) (auto split: list.split)

declare split_on.simps(2) [simp del]

lemma split_on_Cons [simp]:
  "split_on c (x # xs) =
     (if x = c then [] # split_on c xs else (x # hd (split_on c xs)) # tl (split_on c xs))"
  by (cases "split_on c xs") (auto simp: split_on.simps(2))

lemma join_Cons: "xs \<noteq> [] \<Longrightarrow> join sep (x # xs) = x @ sep @ join sep xs"
  by (cases xs) auto

lemma join_cons_head: "xs \<noteq> [] \<Longrightarrow> join sep ((c # hd xs) # tl xs) = c # join sep xs"
  by (cases xs; cases "tl xs") auto

lemma join_split_on: "join [c] (split_on c s) = s"
proof (induction s)
  case Nil
  then show ?case by simp
next
  case (Cons x xs)
  then show ?case
    by (cases "x = c") (simp_all add: join_Cons join_cons_head)
qed

lemma split_on_no_sep: "c \<notin> set s \<Longrightarrow> split_on c s = [s]"
  by (induction s) auto

lemma split_on_append_sep: "c \<notin> set x \<Longrightarrow> split_on c (x @ c # s) = x # split_on c s"
  by (induction x) auto

lemma split_on_join:
  "xs \<noteq> [] \<Longrightarrow> \<forall>x \<in> set xs. c \<notin> set x \<Longrightarrow> split_on c (join [c] xs) = xs"
proof (induction xs rule: induct_list012)
  case 1
  then show ?case by simp
next
  case (2 x)
  then show ?case by (simp add: split_on_no_sep)
next
  case (3 x y zs)
  then show ?case by (simp add: split_on_append_sep)
qed

lemma set_split_on_no_sep: "x \<in> set (split_on c s) \<Longrightarrow> c \<notin> set x"
proof (induction s arbitrary: x)
  case Nil
  then show ?case by simp
next
  case (Cons a s)
  have hd: "c \<notin> set (hd (split_on c s))"
    by (rule Cons.IH) simp
  have tl: "y \<in> set (tl (split_on c s)) \<Longrightarrow> c \<notin> set y" for y
    by (rule Cons.IH) (metis list.set_sel(2) split_on_nonempty)
  from Cons.prems Cons.IH hd tl show ?case
    by (auto split: if_splits)
qed

lemma join_append:
  "xs \<noteq> [] \<Longrightarrow> ys \<noteq> [] \<Longrightarrow> join sep (xs @ ys) = join sep xs @ sep @ join sep ys"
proof (induction xs)
  case Nil
  then show ?case by simp
next
  case (Cons x xs)
  then show ?case by (cases xs) (auto simp: join_Cons)
qed

lemma sublist_join: "x \<in> set xs \<Longrightarrow> sublist x (join sep xs)"
proof (induction xs)
  case Nil
  then show ?case by simp
next
  case (Cons y ys)
  show ?case
  proof (cases "ys = []")
    case True
    with Cons.prems show ?thesis by simp
  next
    case False
    with Cons show ?thesis
      by (auto simp: join_Cons intro: sublist_appendI)
        (metis sublist_append append.assoc)
  qed
qed

section \<open>Lines and white space\<close>

definition is_space :: "char \<Rightarrow> bool" where
  "is_space c \<longleftrightarrow> c = CHR '' '' \<or> of_char c \<in> {9, 10, 11, 12, 13, 28, 29, 30, 31 :: nat}"

definition is_line_break :: "char \<Rightarrow> bool" where
  "is_line_break c \<longleftrightarrow> of_char c \<in> {10, 11, 12, 13, 28, 29, 30 :: nat}"

definition newline :: char where
  "newline = CHR 0x0A"

definition nl :: string where
  "nl = [CHR 0x0A]"

text \<open>The two quotation marks, and a text given line by line.\<close>

definition dq :: string where
  "dq = [CHR 0x22]"

definition sq :: string where
  "sq = [CHR 0x27]"

definition unlines :: "string list \<Rightarrow> string" where
  "unlines xs = concat (map (\<lambda>x. x @ nl) xs)"

fun strip_left :: "string \<Rightarrow> string" where
  "strip_left [] = []"
| "strip_left (c # s) = (if is_space c then strip_left s else c # s)"

definition rstrip :: "string \<Rightarrow> string" where
  "rstrip s = rev (strip_left (rev s))"

definition strip :: "string \<Rightarrow> string" where
  "strip s = rstrip (strip_left s)"

fun lines_from :: "string \<Rightarrow> string \<Rightarrow> string list" where
  "lines_from acc [] = (if acc = [] then [] else [rev acc])"
| "lines_from acc [c] = (if is_line_break c then [rev acc] else [rev (c # acc)])"
| "lines_from acc (c # d # s) =
     (if is_line_break c
      then (if c = CHR 0x0D \<and> d = CHR 0x0A then rev acc # lines_from [] s
            else rev acc # lines_from [] (d # s))
      else lines_from (c # acc) (d # s))"

definition splitlines :: "string \<Rightarrow> string list" where
  "splitlines s = lines_from [] s"

lemma strip_Nil [simp]: "strip [] = []"
  by (simp add: strip_def rstrip_def)

lemma strip_left_idem [simp]: "strip_left (strip_left s) = strip_left s"
  by (induction s) auto

lemma strip_left_id: "s = [] \<or> \<not> is_space (hd s) \<Longrightarrow> strip_left s = s"
  by (cases s) auto

lemma strip_left_nonspace: "strip_left s \<noteq> [] \<Longrightarrow> \<not> is_space (hd (strip_left s))"
  by (induction s) auto

lemma strip_left_append_nonspace:
  "\<not> is_space c \<Longrightarrow> strip_left (s @ c # t) = strip_left s @ c # t"
  by (induction s) auto

lemma strip_no_space: "\<forall>c \<in> set s. \<not> is_space c \<Longrightarrow> strip s = s"
proof -
  assume ns: "\<forall>c \<in> set s. \<not> is_space c"
  have left: "\<forall>c \<in> set t. \<not> is_space c \<Longrightarrow> strip_left t = t" for t
    by (cases t) auto
  from ns have "\<forall>c \<in> set (rev s). \<not> is_space c" by simp
  with ns show ?thesis by (simp add: strip_def rstrip_def left)
qed

lemma lines_from_single:
  "\<forall>c \<in> set x. \<not> is_line_break c \<Longrightarrow> is_line_break newline \<Longrightarrow>
   lines_from acc (x @ newline # s) = (rev acc @ x) # lines_from [] s"
proof (induction x arbitrary: acc)
  case Nil
  then show ?case
    by (cases s) (auto simp: newline_def)
next
  case (Cons c x)
  then show ?case
    by (cases x) auto
qed

lemma is_line_break_newline [simp]: "is_line_break newline"
  by (simp add: is_line_break_def newline_def)

definition no_breaks :: "string \<Rightarrow> bool" where
  "no_breaks x \<longleftrightarrow> (\<forall>c \<in> set x. \<not> is_line_break c)"

lemma no_breaks_Nil [simp]: "no_breaks []"
  by (simp add: no_breaks_def)

lemma no_breaks_Cons: "no_breaks (xs @ [c]) \<longleftrightarrow> no_breaks xs \<and> \<not> is_line_break c"
  by (auto simp: no_breaks_def)

lemma unlines_simps [simp]: "unlines [] = []" "unlines (x # xs) = x @ nl @ unlines xs"
  by (simp_all add: unlines_def)

lemma unlines_append: "unlines (xs @ ys) = unlines xs @ unlines ys"
  by (simp add: unlines_def)

lemma splitlines_join:
  "\<forall>x \<in> set xs. no_breaks x \<Longrightarrow> splitlines (unlines xs) = xs"
proof (induction xs)
  case Nil
  then show ?case by (simp add: splitlines_def)
next
  case (Cons x xs)
  then have "splitlines (x @ newline # unlines xs) = x # splitlines (unlines xs)"
    by (simp add: splitlines_def lines_from_single no_breaks_def)
  with Cons show ?case by (simp add: nl_def newline_def)
qed

lemma join_nl_concat: "xs \<noteq> [] \<Longrightarrow> join nl xs @ nl = unlines xs"
proof (induction xs)
  case Nil
  then show ?case by simp
next
  case (Cons x xs)
  then show ?case by (cases xs) auto
qed

lemma lines_from_no_breaks:
  "x \<in> set (lines_from acc s) \<Longrightarrow> no_breaks (rev acc) \<Longrightarrow> no_breaks x"
proof (induction acc s rule: lines_from.induct)
  case (1 acc)
  then show ?case by (simp split: if_splits)
next
  case (2 acc c)
  then show ?case by (simp add: no_breaks_Cons split: if_splits)
next
  case (3 acc c d s)
  show ?case
  proof (cases "is_line_break c")
    case True
    with "3.prems" "3.IH"(1,2) show ?thesis by (simp split: if_splits) blast+
  next
    case False
    with "3.prems" "3.IH"(3) show ?thesis by (simp add: no_breaks_Cons)
  qed
qed

lemma splitlines_no_breaks: "x \<in> set (splitlines s) \<Longrightarrow> no_breaks x"
  unfolding splitlines_def by (erule lines_from_no_breaks) simp

text \<open>A text without newline that occurs in a text of lines occurs in one of them.\<close>

lemma sublist_around:
  assumes "c \<notin> set x"
  shows "sublist x (a @ c # b) \<longleftrightarrow> sublist x a \<or> sublist x b"
proof
  assume "sublist x (a @ c # b)"
  then consider "sublist x a" | "sublist x (c # b)"
    | xs1 xs2 where "x = xs1 @ xs2" "suffix xs1 a" "prefix xs2 (c # b)"
    by (auto simp: sublist_append)
  then show "sublist x a \<or> sublist x b"
  proof cases
    case 2
    then have "prefix x (c # b) \<or> sublist x b" by (simp add: sublist_Cons_right)
    with assms show ?thesis by (cases x) auto
  next
    case 3
    with assms have "xs2 = []" by (cases xs2) auto
    with 3 show ?thesis by (simp add: suffix_imp_sublist)
  qed simp
next
  assume "sublist x a \<or> sublist x b"
  then show "sublist x (a @ c # b)"
    by (auto simp: sublist_append sublist_Cons_right)
qed

lemma sublist_unlines:
  "newline \<notin> set x \<Longrightarrow> x \<noteq> [] \<Longrightarrow> sublist x (unlines ls) \<longleftrightarrow> (\<exists>l \<in> set ls. sublist x l)"
proof (induction ls)
  case (Cons l ls)
  have "sublist x (l @ newline # unlines ls) \<longleftrightarrow> sublist x l \<or> sublist x (unlines ls)"
    using Cons.prems(1) by (rule sublist_around)
  with Cons show ?case by (simp add: nl_def newline_def)
qed simp

section \<open>Case, digits and numbers\<close>

definition lower_char :: "char \<Rightarrow> char" where
  "lower_char c = (if CHR ''A'' \<le> c \<and> c \<le> CHR ''Z'' then char_of (of_char c + (32 :: nat)) else c)"

definition lower :: "string \<Rightarrow> string" where
  "lower s = map lower_char s"

definition is_digit :: "char \<Rightarrow> bool" where
  "is_digit c \<longleftrightarrow> CHR ''0'' \<le> c \<and> c \<le> CHR ''9''"

definition isdigit :: "string \<Rightarrow> bool" where
  "isdigit s \<longleftrightarrow> s \<noteq> [] \<and> list_all is_digit s"

definition digit_value :: "char \<Rightarrow> nat" where
  "digit_value c = of_char c - 48"

definition digit_char :: "nat \<Rightarrow> char" where
  "digit_char n = char_of (48 + n)"

definition nat_of_digits :: "string \<Rightarrow> nat" where
  "nat_of_digits s = foldl (\<lambda>n c. 10 * n + digit_value c) 0 s"

fun show_nat :: "nat \<Rightarrow> string" where
  "show_nat n = (if n < 10 then [digit_char n] else show_nat (n div 10) @ [digit_char (n mod 10)])"

declare show_nat.simps [simp del]

definition show_int :: "int \<Rightarrow> string" where
  "show_int i = (if i < 0 then CHR ''-'' # show_nat (nat (- i)) else show_nat (nat i))"

lemma digit_cases: "(n::nat) < 10 \<Longrightarrow> n \<in> {0, 1, 2, 3, 4, 5, 6, 7, 8, 9}"
  by auto

lemma digit_value_char [simp]: "n < 10 \<Longrightarrow> digit_value (digit_char n) = n"
  by (simp add: digit_value_def digit_char_def)

lemma is_digit_iff: "is_digit c \<longleftrightarrow> 48 \<le> (of_char c :: nat) \<and> (of_char c :: nat) \<le> 57"
  by (simp add: is_digit_def less_eq_char_def)

lemma is_digit_char [simp]: "n < 10 \<Longrightarrow> is_digit (digit_char n)"
  by (simp add: is_digit_iff digit_char_def)

lemma nat_of_digits_snoc: "nat_of_digits (s @ [c]) = 10 * nat_of_digits s + digit_value c"
  by (simp add: nat_of_digits_def)

lemma nat_of_digits_show [simp]: "nat_of_digits (show_nat n) = n"
proof (induction n rule: show_nat.induct)
  case (1 n)
  show ?case
  proof (cases "n < 10")
    case True
    then show ?thesis by (simp add: show_nat.simps nat_of_digits_def)
  next
    case False
    with 1 show ?thesis
      by (simp add: show_nat.simps [of n] nat_of_digits_snoc)
  qed
qed

lemma show_nat_digits: "list_all is_digit (show_nat n)"
proof (induction n rule: show_nat.induct)
  case (1 n)
  then show ?case by (cases "n < 10") (simp_all add: show_nat.simps [of n])
qed

lemma isdigit_show [simp]: "isdigit (show_nat n)"
proof -
  have "show_nat n \<noteq> []" by (subst show_nat.simps) simp
  then show ?thesis by (simp add: isdigit_def show_nat_digits)
qed

lemma show_nat_nonempty: "show_nat n \<noteq> []"
  using isdigit_show [of n] by (simp add: isdigit_def)

lemma show_nat_inj: "show_nat m = show_nat n \<longleftrightarrow> m = n"
  by (metis nat_of_digits_show)

lemma is_digit_not_space: "is_digit c \<Longrightarrow> \<not> is_space c"
  by (auto simp: is_digit_iff is_space_def)

lemma strip_show_nat [simp]: "strip (show_nat n) = show_nat n"
  using show_nat_digits [of n]
  by (auto intro!: strip_no_space simp: list_all_iff is_digit_not_space)

section \<open>Replacing a marker\<close>

function replace_all :: "string \<Rightarrow> string \<Rightarrow> string \<Rightarrow> string" where
  "replace_all old new s =
     (if old = [] \<or> s = [] then s
      else if prefix old s then new @ replace_all old new (drop (length old) s)
      else hd s # replace_all old new (tl s))"
  by pat_completeness auto
termination
  by (relation "measure (\<lambda>(old, new, s). length s)") auto

declare replace_all.simps [simp del]

lemma replace_all_Nil [simp]: "replace_all old new [] = []"
  by (subst replace_all.simps) simp

lemma replace_all_Cons:
  "replace_all old new (c # s) =
     (if old = [] then c # s
      else if prefix old (c # s) then new @ replace_all old new (drop (length old) (c # s))
      else c # replace_all old new s)"
  by (subst replace_all.simps) simp

lemma replace_all_absent: "\<not> sublist old s \<Longrightarrow> replace_all old new s = s"
proof (induction s)
  case Nil
  then show ?case by simp
next
  case (Cons c s)
  then have "\<not> prefix old (c # s)" "\<not> sublist old s"
    by (auto simp: sublist_Cons_right)
  with Cons.IH show ?case by (simp add: replace_all_Cons)
qed

section \<open>Option and list helpers\<close>

definition truthy :: "string \<Rightarrow> bool" where
  "truthy s \<longleftrightarrow> s \<noteq> []"

fun find_first :: "('a \<Rightarrow> bool) \<Rightarrow> 'a list \<Rightarrow> 'a option" where
  "find_first P [] = None"
| "find_first P (x # xs) = (if P x then Some x else find_first P xs)"

lemma find_first_None: "find_first P xs = None \<longleftrightarrow> (\<forall>x \<in> set xs. \<not> P x)"
  by (induction xs) auto

lemma find_first_Some: "find_first P xs = Some x \<Longrightarrow> P x \<and> x \<in> set xs"
  by (induction xs) (auto split: if_splits)

lemmas find_first_facts = find_first_None find_first_Some

end
