(* ===== verification/Paths.thy ===== *)
theory Paths
  imports Prelude "HOL-Library.List_Lexorder"
begin

text \<open>
  Paths as \<open>pathlib.PurePosixPath\<close> keeps them: an anchor flag and the list of components, with
  empty and \<open>.\<close> components dropped by the constructor. \<open>p / "name"\<close> with a literal name is
  \<open>child\<close>; \<open>p / s\<close> with a string the user supplies is \<open>p_sub\<close>, where an absolute
  right operand replaces the left one. \<open>Path.resolve\<close> is relative to the working directory and
  folds \<open>..\<close>; symbolic links are not modelled.
\<close>

datatype path = Path (absolute: bool) (parts: "string list")

definition mk_path :: "string \<Rightarrow> path" where
  "mk_path s = Path (prefix ''/'' s)
     (filter (\<lambda>c. c \<noteq> [] \<and> c \<noteq> ''.'') (split_on (CHR ''/'') s))"

definition path_str :: "path \<Rightarrow> string" where
  "path_str p = (if absolute p then ''/'' @ join ''/'' (parts p)
                 else if parts p = [] then ''.'' else join ''/'' (parts p))"

definition child :: "path \<Rightarrow> string \<Rightarrow> path" where
  "child p n = Path (absolute p) (parts p @ [n])"

definition p_join :: "path \<Rightarrow> path \<Rightarrow> path" where
  "p_join p q = (if absolute q then q else Path (absolute p) (parts p @ parts q))"

definition p_sub :: "path \<Rightarrow> string \<Rightarrow> path" where
  "p_sub p s = p_join p (mk_path s)"

definition parent :: "path \<Rightarrow> path" where
  "parent p = Path (absolute p) (butlast (parts p))"

definition path_name :: "path \<Rightarrow> string" where
  "path_name p = (if parts p = [] then [] else last (parts p))"

fun fold_dots :: "string list \<Rightarrow> string list \<Rightarrow> string list" where
  "fold_dots acc [] = rev acc"
| "fold_dots acc (c # cs) = (if c = ''..'' then fold_dots (tl acc) cs else fold_dots (c # acc) cs)"

definition resolve :: "path \<Rightarrow> path \<Rightarrow> path" where
  "resolve cwd p = Path True (fold_dots [] ((if absolute p then [] else parts cwd) @ parts p))"

text \<open>A name that is one ordinary component.\<close>

definition plain :: "string \<Rightarrow> bool" where
  "plain n \<longleftrightarrow> n \<noteq> [] \<and> n \<noteq> ''.'' \<and> n \<noteq> ''..'' \<and> CHR ''/'' \<notin> set n"

lemma child_sel [simp]: "absolute (child p n) = absolute p" "parts (child p n) = parts p @ [n]"
  by (simp_all add: child_def)

lemma child_inj [simp]: "child p m = child q n \<longleftrightarrow> p = q \<and> m = n"
  by (cases p; cases q) (auto simp: child_def)

lemma child_neq [simp]: "child p n \<noteq> p" "p \<noteq> child p n"
  by (cases p; auto simp: child_def)+

lemma child_child_neq [simp]: "child (child p m) n \<noteq> p" "p \<noteq> child (child p m) n"
  by (cases p; auto simp: child_def)+

lemma child_nest_neq [simp]: "child (child p m) n \<noteq> child p k" "child p k \<noteq> child (child p m) n"
  by (cases p; auto simp: child_def)+

lemma parent_child [simp]: "parent (child p n) = p"
  by (cases p) (simp add: parent_def child_def)

lemma path_name_child [simp]: "path_name (child p n) = n"
  by (simp add: path_name_def child_def)

lemma p_sub_plain: "plain n \<Longrightarrow> p_sub p n = child p n"
proof -
  assume pl: "plain n"
  then have "\<not> prefix ''/'' n" by (cases n) (auto simp: plain_def)
  moreover have "split_on (CHR ''/'') n = [n]"
    using pl by (intro split_on_no_sep) (simp add: plain_def)
  ultimately show ?thesis
    using pl by (simp add: p_sub_def p_join_def mk_path_def child_def plain_def)
qed

lemma fold_dots_snoc: "n \<noteq> ''..'' \<Longrightarrow> fold_dots acc (xs @ [n]) = fold_dots acc xs @ [n]"
  by (induction acc xs rule: fold_dots.induct) auto

lemma resolve_child [simp]: "n \<noteq> ''..'' \<Longrightarrow> resolve cwd (child p n) = child (resolve cwd p) n"
  by (simp add: resolve_def child_def fold_dots_snoc flip: append_assoc)

lemma absolute_resolve [simp]: "absolute (resolve cwd p)"
  by (simp add: resolve_def)

lemma fold_dots_clean: "''..'' \<notin> set xs \<Longrightarrow> fold_dots acc xs = rev acc @ xs"
  by (induction xs arbitrary: acc) auto

lemma notin_set_tl: "x \<notin> set xs \<Longrightarrow> x \<notin> set (tl xs)"
  by (cases xs) auto

lemma fold_dots_no_dots: "''..'' \<notin> set acc \<Longrightarrow> ''..'' \<notin> set (fold_dots acc xs)"
  by (induction acc xs rule: fold_dots.induct) (auto simp: notin_set_tl)

lemma resolve_idem [simp]: "resolve cwd (resolve cwd p) = resolve cwd p"
proof -
  have "''..'' \<notin> set (fold_dots [] ((if absolute p then [] else parts cwd) @ parts p))"
    by (rule fold_dots_no_dots) simp
  then show ?thesis by (simp add: resolve_def fold_dots_clean)
qed

lemmas path_simps = child_def p_sub_plain resolve_child parent_child path_name_child

text \<open>A path and its parents, the nearest first.\<close>

definition up_dirs :: "path \<Rightarrow> path list" where
  "up_dirs p = map (\<lambda>n. Path (absolute p) (take n (parts p))) (rev [0..<Suc (length (parts p))])"

section \<open>The order of paths\<close>

text \<open>Paths compare by the components of their text, the empty one before the leading slash included.\<close>

definition sort_key :: "path \<Rightarrow> string list" where
  "sort_key p = (if absolute p then [] # parts p else parts p)"

instantiation path :: linorder
begin

definition less_eq_path :: "path \<Rightarrow> path \<Rightarrow> bool" where
  "less_eq_path p q \<longleftrightarrow> sort_key p < sort_key q \<or> sort_key p = sort_key q \<and> absolute p \<le> absolute q"

definition less_path :: "path \<Rightarrow> path \<Rightarrow> bool" where
  "less_path p q \<longleftrightarrow> sort_key p < sort_key q \<or> sort_key p = sort_key q \<and> absolute p < absolute q"

instance
proof
  fix p q r :: path
  show "p < q \<longleftrightarrow> p \<le> q \<and> \<not> q \<le> p"
    by (auto simp: less_path_def less_eq_path_def)
  show "p \<le> p" by (simp add: less_eq_path_def)
  show "p \<le> q \<Longrightarrow> q \<le> r \<Longrightarrow> p \<le> r" by (auto simp: less_eq_path_def)
  show "p \<le> q \<Longrightarrow> q \<le> p \<Longrightarrow> p = q"
    by (cases p; cases q) (auto simp: less_eq_path_def sort_key_def split: if_splits)
  show "p \<le> q \<or> q \<le> p" by (auto simp: less_eq_path_def)
qed

end

lemma child_less: "child d m \<le> child d n \<longleftrightarrow> m \<le> n"
proof -
  have "xs @ [m] < xs @ [n] \<longleftrightarrow> m < n" for xs :: "string list"
    by (induction xs) auto
  then show ?thesis by (auto simp: less_eq_path_def sort_key_def child_def)
qed

section \<open>Relative paths\<close>

fun drop_common :: "string list \<Rightarrow> string list \<Rightarrow> string list \<times> string list" where
  "drop_common (x # xs) (y # ys) = (if x = y then drop_common xs ys else (x # xs, y # ys))"
| "drop_common xs ys = (xs, ys)"

text \<open>\<open>os.path.relpath(target, start)\<close> on resolved paths.\<close>

definition relpath :: "path \<Rightarrow> path \<Rightarrow> path" where
  "relpath target start =
     (case drop_common (parts target) (parts start) of
        (t, s) \<Rightarrow> Path False (replicate (length s) ''..'' @ t))"

lemma drop_common_append: "drop_common (xs @ t) xs = (t, [])"
proof (induction xs)
  case Nil
  then show ?case by (cases t) auto
next
  case (Cons x xs)
  then show ?case by simp
qed

lemma relpath_below: "relpath (Path True (xs @ t)) (Path True xs) = Path False t"
  by (simp add: relpath_def drop_common_append)

end
