(* ===== verification/VmTypes.thy ===== *)
theory VmTypes
  imports Prelude
begin

text \<open>
  The configuration types of \<open>workspace/types/vm.py\<close>: every pydantic model is a record with the
  same fields, every \<open>Literal\<close> an enumeration, and every \<open>model_validator(mode="after")\<close> a
  function that returns the validated model or the exception it raises. Pydantic itself (parsing of
  the YAML mapping into the fields) is outside the repository; a value of these records is what
  pydantic hands to the validators.
\<close>

section \<open>Constants and enumerations\<close>

definition VM_CONTAINER_USER :: string where "VM_CONTAINER_USER = ''workspace''"
definition VM_CONTAINER_HOME :: string where "VM_CONTAINER_HOME = ''/home/workspace''"
definition VM_IMAGE_PREFIX :: string where "VM_IMAGE_PREFIX = ''workspace-vm''"
definition VM_LABEL_PREFIX :: string where "VM_LABEL_PREFIX = ''workspace''"
definition VM_NETWORK_NAME :: string where "VM_NETWORK_NAME = ''workspace-vm-net''"
definition VM_INSTALL_ROOT :: string where "VM_INSTALL_ROOT = ''/opt/workspace''"

datatype cred_mode = CredNone | CredClone | CredApi
datatype ssh_mode = SshNone | SshInherit | SshCustom
datatype sync_strategy = StMerge | StOverwrite | StSkip
datatype net_mode = NetNone | NetBridge | NetHost | NetOpenvpn
datatype net_policy = PolNone | PolInternet | PolProxy | PolUnrestricted
datatype vpn_type = VpnContainer | VpnNetns
datatype guest_arch = Aarch64 | X86_64
datatype accel = AccAuto | AccKvm | AccHvf | AccWhpx | AccTcg
datatype provision = ProvNone | ProvGuard | ProvFullCi
datatype vm_mode = Persistent | Ephemeral
datatype backend_kind = Podman | Qemu

datatype config_error =
    SSHCustomRequiresFiles | ProxyRequiresURL | OpenVPNRequiresConfig | OpenVPNRequiresNetNS
  | OpenVPNNetnsUnsupportedOnDarwin | DiskOutOfRange | SshPortOutOfRange

section \<open>Models\<close>

record provider_config =
  prov_name :: string
  prov_options :: "(string \<times> string) list"

record ssh_config =
  ssh_mode :: ssh_mode
  ssh_files :: "string list"

record file_entry =
  fe_src :: string
  fe_dst :: string

record sync_entry =
  sy_dir :: string
  sy_strategy :: sync_strategy
  sy_exclude :: "string list"

record resources_config =
  memory :: string
  cpus :: int
  pids_limit :: int

record network_config =
  net_mode :: net_mode
  network_name :: string
  net_policy :: net_policy
  proxy_url :: string
  whitelist :: "string list"
  vpn_type :: vpn_type
  vpn_config :: string
  vpn_auth :: string
  vpn_netns :: string

record security_config =
  purge_sudo :: bool
  no_new_privileges :: bool
  read_only_rootfs :: bool
  cap_drop :: "string list"
  cap_add :: "string list"

record qemu_config =
  guest_arch :: guest_arch
  q_accel :: accel
  disk_gb :: int
  ssh_host_port :: int
  image :: string
  q_provision :: provision
  q_mode :: vm_mode

record isolation_config =
  backend :: backend_kind
  qemu :: qemu_config

record vm_config =
  components :: "string list"
  extra_apt :: "string list"
  resources :: resources_config
  provider :: "provider_config option"
  credentials :: cred_mode
  ssh :: ssh_config
  files :: "file_entry list"
  sync :: "sync_entry list"
  mounts :: "string list"
  network :: network_config
  isolation :: isolation_config
  web_ui :: bool
  env :: "(string \<times> string) list"
  security :: security_config

section \<open>Defaults\<close>

definition default_resources :: resources_config where
  "default_resources = \<lparr>memory = ''4g'', cpus = 2, pids_limit = 256\<rparr>"

definition default_network :: network_config where
  "default_network = \<lparr>net_mode = NetNone, network_name = VM_NETWORK_NAME,
     net_policy = PolUnrestricted, proxy_url = [], whitelist = [], vpn_type = VpnContainer,
     vpn_config = [], vpn_auth = [], vpn_netns = []\<rparr>"

definition default_security :: security_config where
  "default_security = \<lparr>purge_sudo = True, no_new_privileges = True, read_only_rootfs = True,
     cap_drop = [''ALL''], cap_add = []\<rparr>"

definition default_guest_arch :: "string \<Rightarrow> guest_arch" where
  "default_guest_arch machine =
     (if lower machine \<in> {''aarch64'', ''arm64''} then Aarch64 else X86_64)"

definition default_qemu_image_name :: "guest_arch \<Rightarrow> string" where
  "default_qemu_image_name a =
     ''workspace-vm-base-ubuntu-24.04-'' @ (if a = Aarch64 then ''aarch64'' else ''x86_64'') @ ''.qcow2''"

definition default_qemu :: "string \<Rightarrow> qemu_config" where
  "default_qemu machine = \<lparr>guest_arch = default_guest_arch machine, q_accel = AccAuto, disk_gb = 20,
     ssh_host_port = 0, image = [], q_provision = ProvNone, q_mode = Persistent\<rparr>"

definition default_config :: "string \<Rightarrow> string list \<Rightarrow> vm_config" where
  "default_config machine comps = \<lparr>components = comps, extra_apt = [], resources = default_resources,
     provider = None, credentials = CredNone, ssh = \<lparr>ssh_mode = SshNone, ssh_files = []\<rparr>,
     files = [], sync = [], mounts = [], network = default_network,
     isolation = \<lparr>backend = Podman, qemu = default_qemu machine\<rparr>, web_ui = True, env = [],
     security = default_security\<rparr>"

section \<open>Validators\<close>

definition require_files_for_custom :: "ssh_config \<Rightarrow> config_error + ssh_config" where
  "require_files_for_custom s =
     (if ssh_mode s = SshCustom \<and> ssh_files s = [] then Inl SSHCustomRequiresFiles else Inr s)"

definition require_proxy_url :: "network_config \<Rightarrow> config_error + network_config" where
  "require_proxy_url n =
     (if net_mode n = NetBridge \<and> net_policy n = PolProxy \<and> proxy_url n = [] then Inl ProxyRequiresURL
      else Inr n)"

definition require_vpn_config :: "network_config \<Rightarrow> config_error + network_config" where
  "require_vpn_config n =
     (if net_mode n = NetOpenvpn \<and> vpn_type n = VpnContainer \<and> vpn_config n = []
      then Inl OpenVPNRequiresConfig else Inr n)"

definition require_vpn_netns :: "network_config \<Rightarrow> config_error + network_config" where
  "require_vpn_netns n =
     (if net_mode n = NetOpenvpn \<and> vpn_type n = VpnNetns \<and> vpn_netns n = []
      then Inl OpenVPNRequiresNetNS else Inr n)"

definition reject_netns_on_darwin :: "bool \<Rightarrow> network_config \<Rightarrow> config_error + network_config" where
  "reject_netns_on_darwin darwin n =
     (if net_mode n = NetOpenvpn \<and> vpn_type n = VpnNetns \<and> darwin
      then Inl OpenVPNNetnsUnsupportedOnDarwin else Inr n)"

fun check_then :: "('e + 'a) \<Rightarrow> ('a \<Rightarrow> 'e + 'b) \<Rightarrow> 'e + 'b" where
  "check_then (Inl e) f = Inl e"
| "check_then (Inr a) f = f a"

definition validate_network_config :: "bool \<Rightarrow> network_config \<Rightarrow> config_error + network_config" where
  "validate_network_config darwin n =
     check_then (require_proxy_url n) (\<lambda>n.
     check_then (require_vpn_config n) (\<lambda>n.
     check_then (require_vpn_netns n) (reject_netns_on_darwin darwin)))"

definition stale_images :: "string list" where
  "stale_images = [''workspace-vm-base-ubuntu-24.04-aarch64.qcow2'',
                   ''workspace-vm-base-ubuntu-24.04-x86_64.qcow2'']"

definition sync_image_to_guest_arch :: "qemu_config \<Rightarrow> qemu_config" where
  "sync_image_to_guest_arch q =
     (if image q = [] then q\<lparr>image := default_qemu_image_name (guest_arch q)\<rparr>
      else if image q \<in> set stale_images then q\<lparr>image := default_qemu_image_name (guest_arch q)\<rparr>
      else q)"

definition validate_qemu :: "qemu_config \<Rightarrow> config_error + qemu_config" where
  "validate_qemu q =
     (if \<not> (8 \<le> disk_gb q \<and> disk_gb q \<le> 512) then Inl DiskOutOfRange
      else if \<not> (0 \<le> ssh_host_port q \<and> ssh_host_port q \<le> 65535) then Inl SshPortOutOfRange
      else Inr (sync_image_to_guest_arch q))"

definition ensure_openvpn_component :: "vm_config \<Rightarrow> vm_config" where
  "ensure_openvpn_component c =
     (if net_mode (network c) = NetOpenvpn \<and> vpn_type (network c) = VpnContainer
         \<and> ''openvpn'' \<notin> set (components c)
      then c\<lparr>components := components c @ [''openvpn'']\<rparr> else c)"

text \<open>\<open>VMConfig.model_validate\<close>: the nested models in field order, then the model's own validator.\<close>

definition validate_config :: "bool \<Rightarrow> vm_config \<Rightarrow> config_error + vm_config" where
  "validate_config darwin c =
     check_then (require_files_for_custom (ssh c)) (\<lambda>s.
     check_then (validate_network_config darwin (network c)) (\<lambda>n.
     check_then (validate_qemu (qemu (isolation c))) (\<lambda>q.
       Inr (ensure_openvpn_component
              (c\<lparr>ssh := s, network := n, isolation := (isolation c)\<lparr>qemu := q\<rparr>\<rparr>)))))"

section \<open>Facts\<close>

lemma check_then_Inr: "check_then r f = Inr b \<longleftrightarrow> (\<exists>a. r = Inr a \<and> f a = Inr b)"
  by (cases r) auto

lemma check_then_Inl: "check_then r f = Inl e \<longleftrightarrow> r = Inl e \<or> (\<exists>a. r = Inr a \<and> f a = Inl e)"
  by (cases r) auto

lemmas network_validators = require_proxy_url_def require_vpn_config_def require_vpn_netns_def
  reject_netns_on_darwin_def

definition network_ok :: "bool \<Rightarrow> network_config \<Rightarrow> bool" where
  "network_ok darwin n \<longleftrightarrow>
     (net_mode n = NetBridge \<and> net_policy n = PolProxy \<longrightarrow> proxy_url n \<noteq> []) \<and>
     (net_mode n = NetOpenvpn \<and> vpn_type n = VpnContainer \<longrightarrow> vpn_config n \<noteq> []) \<and>
     (net_mode n = NetOpenvpn \<and> vpn_type n = VpnNetns \<longrightarrow> vpn_netns n \<noteq> [] \<and> \<not> darwin)"

lemma validate_network_Inr:
  "validate_network_config darwin n = Inr m \<longleftrightarrow> m = n \<and> network_ok darwin n"
  by (auto simp: validate_network_config_def check_then_Inr network_validators network_ok_def)

lemma default_image_stale: "default_qemu_image_name a \<in> set stale_images"
  by (cases a) (simp_all add: default_qemu_image_name_def stale_images_def)

lemma default_image_nonempty [simp]: "default_qemu_image_name a \<noteq> []"
  by (simp add: default_qemu_image_name_def)

lemma sync_image_sel [simp]:
  "guest_arch (sync_image_to_guest_arch q) = guest_arch q"
  "disk_gb (sync_image_to_guest_arch q) = disk_gb q"
  "ssh_host_port (sync_image_to_guest_arch q) = ssh_host_port q"
  "q_provision (sync_image_to_guest_arch q) = q_provision q"
  "q_mode (sync_image_to_guest_arch q) = q_mode q"
  "q_accel (sync_image_to_guest_arch q) = q_accel q"
  by (simp_all add: sync_image_to_guest_arch_def)

lemma sync_image_idem [simp]:
  "sync_image_to_guest_arch (sync_image_to_guest_arch q) = sync_image_to_guest_arch q"
  by (simp add: sync_image_to_guest_arch_def)

lemma sync_image_consistent:
  "image (sync_image_to_guest_arch q) \<in> set stale_images \<Longrightarrow>
   image (sync_image_to_guest_arch q) = default_qemu_image_name (guest_arch q)"
  by (auto simp: sync_image_to_guest_arch_def split: if_splits)

lemma ensure_openvpn_sel [simp]:
  "network (ensure_openvpn_component c) = network c"
  "isolation (ensure_openvpn_component c) = isolation c"
  "ssh (ensure_openvpn_component c) = ssh c"
  by (simp_all add: ensure_openvpn_component_def)

lemma ensure_openvpn_idem [simp]:
  "ensure_openvpn_component (ensure_openvpn_component c) = ensure_openvpn_component c"
  by (simp add: ensure_openvpn_component_def)

text \<open>What every validated configuration satisfies.\<close>

definition config_ok :: "bool \<Rightarrow> vm_config \<Rightarrow> bool" where
  "config_ok darwin c \<longleftrightarrow>
     (ssh_mode (ssh c) = SshCustom \<longrightarrow> ssh_files (ssh c) \<noteq> []) \<and>
     network_ok darwin (network c) \<and>
     8 \<le> disk_gb (qemu (isolation c)) \<and> disk_gb (qemu (isolation c)) \<le> 512 \<and>
     0 \<le> ssh_host_port (qemu (isolation c)) \<and> ssh_host_port (qemu (isolation c)) \<le> 65535 \<and>
     image (qemu (isolation c)) \<noteq> [] \<and>
     (image (qemu (isolation c)) \<in> set stale_images \<longrightarrow>
        image (qemu (isolation c)) = default_qemu_image_name (guest_arch (qemu (isolation c)))) \<and>
     (net_mode (network c) = NetOpenvpn \<and> vpn_type (network c) = VpnContainer \<longrightarrow>
        ''openvpn'' \<in> set (components c))"

lemma sync_image_nonempty [simp]: "image (sync_image_to_guest_arch q) \<noteq> []"
  by (simp add: sync_image_to_guest_arch_def)

lemma validate_config_Inr:
  "validate_config darwin c = Inr c' \<longleftrightarrow>
     \<not> (ssh_mode (ssh c) = SshCustom \<and> ssh_files (ssh c) = []) \<and> network_ok darwin (network c) \<and>
     8 \<le> disk_gb (qemu (isolation c)) \<and> disk_gb (qemu (isolation c)) \<le> 512 \<and>
     0 \<le> ssh_host_port (qemu (isolation c)) \<and> ssh_host_port (qemu (isolation c)) \<le> 65535 \<and>
     c' = ensure_openvpn_component
            (c\<lparr>isolation := (isolation c)\<lparr>qemu := sync_image_to_guest_arch (qemu (isolation c))\<rparr>\<rparr>)"
  by (auto simp: validate_config_def check_then_Inr validate_network_Inr require_files_for_custom_def
      validate_qemu_def split: if_splits)

lemma ensure_openvpn_has:
  "net_mode (network c) = NetOpenvpn \<Longrightarrow> vpn_type (network c) = VpnContainer \<Longrightarrow>
   ''openvpn'' \<in> set (components (ensure_openvpn_component c))"
  by (simp add: ensure_openvpn_component_def)

lemma validate_config_ok: "validate_config darwin c = Inr c' \<Longrightarrow> config_ok darwin c'"
  by (auto simp: validate_config_Inr config_ok_def ensure_openvpn_has sync_image_consistent)

lemma image_fixed:
  "image q \<noteq> [] \<Longrightarrow> (image q \<in> set stale_images \<longrightarrow> image q = default_qemu_image_name (guest_arch q))
   \<Longrightarrow> sync_image_to_guest_arch q = q"
  by (simp add: sync_image_to_guest_arch_def)

lemma config_ok_validates: "config_ok darwin c \<Longrightarrow> validate_config darwin c = Inr c"
  by (auto simp: validate_config_Inr config_ok_def image_fixed ensure_openvpn_component_def)

section \<open>Properties\<close>

text \<open>C9: a validated configuration is a fixed point. Whatever \<open>model_validate\<close> accepts satisfies the
  requirements of every validator (files for custom SSH keys, a proxy URL for the proxy policy, the files or the
  namespace of a VPN, disk size and port in range, an image that matches the guest architecture, the openvpn
  component of a container tunnel), and validating it again returns it unchanged.\<close>

theorem validated_config_stable:
  assumes "validate_config darwin c = Inr c'"
  shows "config_ok darwin c' \<and> validate_config darwin c' = Inr c'"
  using validate_config_ok [OF assms] config_ok_validates by blast

theorem validated_config_stable_witness:
  "config_ok False (ensure_openvpn_component ((default_config ''x86_64'' [])
      \<lparr>isolation := \<lparr>backend = Podman, qemu = sync_image_to_guest_arch (default_qemu ''x86_64'')\<rparr>\<rparr>))"
  by (rule conjunct1 [OF validated_config_stable [of False "default_config ''x86_64'' []"]])
    (simp add: validate_config_Inr default_config_def network_ok_def default_network_def default_qemu_def)

end
