(* ===== verification/World.thy ===== *)
theory World
  imports Paths VmTypes
begin

text \<open>
  The effects of the program. A Python function that touches the machine is a computation
  \<open>'a io\<close>: it takes the world, and either raises an exception or returns a value, with the
  changed world. The world holds what the sources read and write themselves: the file system, the
  process table, the monotonic clock (in nanoseconds), the position in the stream of random draws,
  the two output streams and the log of the external requests the program made.

  Everything outside the repository is the record \<open>host\<close>, an argument of every operation:
  the environment of the process (variables, working directory, home, platform, PATH lookup) and
  \<open>h_run\<close>, the behaviour of the external programs (podman, qemu, ssh, rsync, kill, ps, ...),
  which may change files and processes arbitrarily and take time. Nothing is assumed of it here;
  the few theorems that need an assumption name it.
\<close>

section \<open>Exceptions\<close>

datatype exn =
    ValueError string | JSONDecodeError | TypeError string | KeyError string | IndexError | RuntimeError string
  | NotImplementedError string
  | FileNotFoundError string | FileExistsError string | PermissionError string
  | TimeoutError string | OSError string
  | CalledProcessError int string string | TimeoutExpired
  | QmpClosedError string | QmpCommandError string string | QmpProtocolError | QmpConnectError string
  | QemuStateError string | ConfigError config_error | YAMLError string
  | VPNBinaryNotFoundError | VPNConfigNotFoundError string | URLError string | HTTPError int
  | SqliteError string | AttributeError string | ArchiveError string
  | SystemExit int

text \<open>The parts of Python's class hierarchy that the \<open>except\<close> clauses of the sources name.\<close>

fun is_os_error :: "exn \<Rightarrow> bool" where
  "is_os_error (FileNotFoundError _) = True"
| "is_os_error (FileExistsError _) = True"
| "is_os_error (PermissionError _) = True"
| "is_os_error (TimeoutError _) = True"
| "is_os_error (OSError _) = True"
| "is_os_error VPNBinaryNotFoundError = True"
| "is_os_error (VPNConfigNotFoundError _) = True"
| "is_os_error (URLError _) = True"
| "is_os_error (HTTPError _) = True"
| "is_os_error _ = False"

text \<open>\<open>json.JSONDecodeError\<close>, the validation errors of pydantic and \<open>QemuStateError\<close> are \<open>ValueError\<close>s.\<close>

fun is_value_error :: "exn \<Rightarrow> bool" where
  "is_value_error (ValueError _) = True"
| "is_value_error JSONDecodeError = True"
| "is_value_error (QemuStateError _) = True"
| "is_value_error (ConfigError _) = True"
| "is_value_error _ = False"

fun is_qmp_error :: "exn \<Rightarrow> bool" where
  "is_qmp_error (QmpClosedError _) = True"
| "is_qmp_error (QmpCommandError _ _) = True"
| "is_qmp_error QmpProtocolError = True"
| "is_qmp_error (QmpConnectError _) = True"
| "is_qmp_error _ = False"

fun is_runtime_error :: "exn \<Rightarrow> bool" where
  "is_runtime_error (RuntimeError _) = True"
| "is_runtime_error (NotImplementedError _) = True"
| "is_runtime_error e = is_qmp_error e"

fun is_called_process_error :: "exn \<Rightarrow> bool" where
  "is_called_process_error (CalledProcessError _ _ _) = True"
| "is_called_process_error _ = False"

definition is_subprocess_error :: "exn \<Rightarrow> bool" where
  "is_subprocess_error e \<longleftrightarrow> is_called_process_error e \<or> e = TimeoutExpired"

section \<open>Results that may be errors\<close>

fun all_inr :: "(exn + 'a) list \<Rightarrow> exn + 'a list" where
  "all_inr [] = Inr []"
| "all_inr (x # xs) = (case x of Inl e \<Rightarrow> Inl e | Inr a \<Rightarrow> (case all_inr xs of Inl e \<Rightarrow> Inl e | Inr as \<Rightarrow> Inr (a # as)))"

definition sum_bind :: "exn + 'a \<Rightarrow> ('a \<Rightarrow> exn + 'b) \<Rightarrow> exn + 'b" where
  "sum_bind x f = (case x of Inl e \<Rightarrow> Inl e | Inr a \<Rightarrow> f a)"

lemma sum_bind_Inr: "sum_bind x f = Inr b \<longleftrightarrow> (\<exists>a. x = Inr a \<and> f a = Inr b)"
  by (auto simp: sum_bind_def split: sum.split)

lemma sum_bind_simps [simp]: "sum_bind (Inl e) f = Inl e" "sum_bind (Inr a) f = f a"
  by (simp_all add: sum_bind_def)

definition sum_map :: "('a \<Rightarrow> 'b) \<Rightarrow> exn + 'a \<Rightarrow> exn + 'b" where
  "sum_map f x = sum_bind x (\<lambda>a. Inr (f a))"

lemma sum_map_Inr: "sum_map f x = Inr b \<longleftrightarrow> (\<exists>a. x = Inr a \<and> b = f a)"
  by (auto simp: sum_map_def sum_bind_Inr)

lemma all_inr_map [simp]: "all_inr (map Inr ys) = Inr ys"
  by (induction ys) auto

lemma all_inr_Inr: "all_inr xs = Inr ys \<longleftrightarrow> xs = map Inr ys"
proof
  show "all_inr xs = Inr ys \<Longrightarrow> xs = map Inr ys"
    by (induction xs arbitrary: ys) (auto split: sum.splits)
qed simp

section \<open>Files, processes, world\<close>

record qemu_state =
  qs_mode :: vm_mode
  qs_profile :: string
  qs_created_at :: string
  qs_last_started_at :: "string option"
  qs_last_stopped_at :: "string option"
  qs_last_error :: "string option"
  qs_ssh_port :: "int option"
  qs_pid_start :: "string option"

text \<open>The cloud-init document: users (name and attributes), packages and the two command lists.\<close>

record cloud_config =
  cc_users :: "(string \<times> (string \<times> string) list) list"
  cc_packages :: "string list"
  cc_bootcmd :: "string list"
  cc_runcmd :: "string list"

text \<open>
  A file holds text, or a document the code writes and reads through a serialiser: \<open>state.yaml\<close>
  (the JSON of a \<^typ>\<open>qemu_state\<close>), \<open>vm.yaml\<close> (the YAML mapping that pydantic parses to a
  configuration, before validation), the JSON manifest of an exported bundle (\<open>format\<close>, \<open>source_uuid\<close>,
  \<open>created_at\<close>, \<open>files\<close>; the format may be missing), the image pins (key, url, digest), the cloud-init user data and the install defaults
  (components and extra packages). A document is kept
  as the value its text denotes.
\<close>

datatype content =
    Text string
  | StateDoc qemu_state
  | ConfigDoc vm_config
  | ManifestDoc "int option" string string "string list"
  | PinsDoc "(string \<times> string \<times> string) list"
  | CloudInitDoc cloud_config
  | DefaultsDoc "string list" "string list option"

datatype node = File content | Dir | Special

record proc =
  p_start :: string
  p_foreign :: bool

record call =
  c_argv :: "string list"
  c_input :: string
  c_timeout :: "int option"
  c_cwd :: "path option"

datatype request = Run call | QmpSend path string | Execvp "string list"

record world =
  fs :: "path \<Rightarrow> node option"
  procs :: "nat \<Rightarrow> proc option"
  clock :: nat
  draws :: nat
  out :: "string list"
  err :: "string list"
  requests :: "request list"

datatype outcome = Exit int string string | RunTimeout | RunOSError string

record reply =
  r_result :: outcome
  r_fs :: "path \<Rightarrow> node option"
  r_procs :: "nat \<Rightarrow> proc option"
  r_time :: nat

text \<open>One line of a QMP session as the client sees it: an object with its keys (and the text of its
  \<open>error\<close> member), a line that is not JSON, or a failing read.\<close>

datatype qmp_line = QmpObj "string list" string | QmpBadJson | QmpRecvError

record qmp_session =
  qm_lines :: "qmp_line list option"
  qm_procs :: "nat \<Rightarrow> proc option"
  qm_time :: nat

text \<open>A value of a template context: an object of the configuration, a flag or a text.\<close>

datatype ctx_value =
    CtxText string | CtxBool bool | CtxSecurity security_config | CtxCredentials cred_mode
  | CtxSsh ssh_config | CtxNetwork network_config | CtxPolicy net_policy

record host =
  h_cwd :: path
  h_home :: path
  h_home_of :: "string \<Rightarrow> string option"
  h_env :: "string \<Rightarrow> string option"
  h_darwin :: bool
  h_system :: string
  h_which :: "world \<Rightarrow> string \<Rightarrow> string option"
  h_executable :: "path \<Rightarrow> bool"
  h_unwritable :: "path \<Rightarrow> bool"
  h_torn :: "world \<Rightarrow> path \<Rightarrow> content \<Rightarrow> content option"
  h_run :: "call \<Rightarrow> world \<Rightarrow> reply"
  h_qmp :: "path \<Rightarrow> world \<Rightarrow> qmp_session"
  h_idle :: "nat \<Rightarrow> world \<Rightarrow> (nat \<Rightarrow> proc option) \<times> nat"
  h_random :: "nat \<Rightarrow> nat"
  h_now :: "world \<Rightarrow> string"
  h_epoch_ms :: "world \<Rightarrow> nat"
  h_str :: "exn \<Rightarrow> string"
  h_render :: "string \<Rightarrow> (string \<times> ctx_value) list \<Rightarrow> string"
  h_config_json :: "vm_config \<Rightarrow> string"
  h_opencode_json :: "provider_config option \<Rightarrow> string"
  h_text :: "content \<Rightarrow> string"
  h_sha256 :: "string \<Rightarrow> string"
  h_free_port :: "world \<Rightarrow> int"
  h_provider_b64 :: "provider_config \<Rightarrow> string"
  h_children :: "world \<Rightarrow> path \<Rightarrow> string list"

section \<open>Computations\<close>

type_synonym 'a io = "world \<Rightarrow> (exn + 'a) \<times> world"

definition ret :: "'a \<Rightarrow> 'a io" where
  "ret a w = (Inr a, w)"

definition raise :: "exn \<Rightarrow> 'a io" where
  "raise e w = (Inl e, w)"

definition bnd :: "'a io \<Rightarrow> ('a \<Rightarrow> 'b io) \<Rightarrow> 'b io" where
  "bnd m f w = (case m w of (Inl e, w') \<Rightarrow> (Inl e, w') | (Inr a, w') \<Rightarrow> f a w')"

definition andthen :: "'a io \<Rightarrow> 'b io \<Rightarrow> 'b io" where
  "andthen m k = bnd m (\<lambda>_. k)"

text \<open>\<open>try: m / except P: h e\<close>.\<close>

definition catch :: "(exn \<Rightarrow> bool) \<Rightarrow> 'a io \<Rightarrow> (exn \<Rightarrow> 'a io) \<Rightarrow> 'a io" where
  "catch P m h w = (case m w of (Inl e, w') \<Rightarrow> if P e then h e w' else (Inl e, w') | (Inr a, w') \<Rightarrow> (Inr a, w'))"

definition finally_do :: "'a io \<Rightarrow> unit io \<Rightarrow> 'a io" where
  "finally_do m k w =
     (case m w of (r, w') \<Rightarrow> (case k w' of (Inl e, w'') \<Rightarrow> (Inl e, w'') | (Inr _, w'') \<Rightarrow> (r, w'')))"

definition when_io :: "bool \<Rightarrow> unit io \<Rightarrow> unit io" where
  "when_io b m = (if b then m else ret ())"

definition get_world :: "world io" where
  "get_world w = (Inr w, w)"

definition asks :: "(world \<Rightarrow> 'a) \<Rightarrow> 'a io" where
  "asks f w = (Inr (f w), w)"

definition update :: "(world \<Rightarrow> world) \<Rightarrow> unit io" where
  "update f w = (Inr (), f w)"

fun each :: "('a \<Rightarrow> unit io) \<Rightarrow> 'a list \<Rightarrow> unit io" where
  "each f [] = ret ()"
| "each f (x # xs) = andthen (f x) (each f xs)"

fun collect :: "('a \<Rightarrow> 'b io) \<Rightarrow> 'a list \<Rightarrow> 'b list io" where
  "collect f [] = ret []"
| "collect f (x # xs) = bnd (f x) (\<lambda>y. bnd (collect f xs) (\<lambda>ys. ret (y # ys)))"

section \<open>Weakest preconditions\<close>

text \<open>
  \<open>wp m Q E w\<close>: running \<open>m\<close> in \<open>w\<close> either returns into \<open>Q\<close> or raises into \<open>E\<close>. The
  rules below push \<open>wp\<close> through a computation, so a property of a handler is a simplification.
\<close>

definition wp :: "'a io \<Rightarrow> ('a \<Rightarrow> world \<Rightarrow> bool) \<Rightarrow> (exn \<Rightarrow> world \<Rightarrow> bool) \<Rightarrow> world \<Rightarrow> bool" where
  "wp m Q E w \<longleftrightarrow> (case m w of (Inl e, w') \<Rightarrow> E e w' | (Inr a, w') \<Rightarrow> Q a w')"

named_theorems wps \<open>weakest preconditions of the combinators and operations\<close>

lemma wp_ret [wps]: "wp (ret a) Q E w \<longleftrightarrow> Q a w"
  by (simp add: wp_def ret_def)

lemma wp_raise [wps]: "wp (raise e) Q E w \<longleftrightarrow> E e w"
  by (simp add: wp_def raise_def)

lemma wp_bnd [wps]: "wp (bnd m f) Q E w \<longleftrightarrow> wp m (\<lambda>a. wp (f a) Q E) E w"
  by (auto simp: wp_def bnd_def split: prod.splits sum.splits)

lemma wp_andthen [wps]: "wp (andthen m k) Q E w \<longleftrightarrow> wp m (\<lambda>_. wp k Q E) E w"
  by (simp add: andthen_def wp_bnd)

lemma wp_catch [wps]:
  "wp (catch P m h) Q E w \<longleftrightarrow> wp m Q (\<lambda>e w'. if P e then wp (h e) Q E w' else E e w') w"
  by (auto simp: wp_def catch_def split: prod.splits sum.splits)

lemma wp_finally [wps]:
  "wp (finally_do m k) Q E w \<longleftrightarrow>
   wp m (\<lambda>a. wp k (\<lambda>_. Q a) E) (\<lambda>e. wp k (\<lambda>_. E e) E) w"
  by (auto simp: wp_def finally_do_def split: prod.splits sum.splits)

lemma wp_when [wps]: "wp (when_io b m) Q E w \<longleftrightarrow> (if b then wp m Q E w else Q () w)"
  by (simp add: when_io_def wp_ret)

lemma wp_get_world [wps]: "wp get_world Q E w \<longleftrightarrow> Q w w"
  by (simp add: wp_def get_world_def)

lemma wp_asks [wps]: "wp (asks f) Q E w \<longleftrightarrow> Q (f w) w"
  by (simp add: wp_def asks_def)

lemma wp_update [wps]: "wp (update f) Q E w \<longleftrightarrow> Q () (f w)"
  by (simp add: wp_def update_def)

lemma wp_if [wps]: "wp (if b then m else k) Q E w \<longleftrightarrow> (if b then wp m Q E w else wp k Q E w)"
  by simp

lemma wp_case_option [wps]:
  "wp (case x of None \<Rightarrow> m | Some a \<Rightarrow> k a) Q E w \<longleftrightarrow>
   (case x of None \<Rightarrow> wp m Q E w | Some a \<Rightarrow> wp (k a) Q E w)"
  by (cases x) auto

lemma wp_case_prod [wps]: "wp (case x of (a, b) \<Rightarrow> k a b) Q E w \<longleftrightarrow> wp (k (fst x) (snd x)) Q E w"
  by (simp add: case_prod_beta)

lemma wp_mono:
  assumes "wp m Q E w" "\<And>a w'. Q a w' \<Longrightarrow> Q' a w'" "\<And>e w'. E e w' \<Longrightarrow> E' e w'"
  shows "wp m Q' E' w"
  using assms by (auto simp: wp_def split: prod.splits sum.splits)

lemma wp_conj: "wp m Q E w \<Longrightarrow> wp m Q' E' w \<Longrightarrow> wp m (\<lambda>a w. Q a w \<and> Q' a w) (\<lambda>e w. E e w \<and> E' e w) w"
  by (auto simp: wp_def split: prod.splits sum.splits)

lemma wp_returns: "wp m Q E w \<Longrightarrow> m w = (Inr a, w') \<Longrightarrow> Q a w'"
  by (simp add: wp_def)

lemma wp_raises: "wp m Q E w \<Longrightarrow> m w = (Inl e, w') \<Longrightarrow> E e w'"
  by (simp add: wp_def)

lemma wp_exists: "wp m Q (\<lambda>_ _. False) w \<Longrightarrow> \<exists>a w'. m w = (Inr a, w') \<and> Q a w'"
  by (auto simp: wp_def split: prod.splits sum.splits)

lemma wp_result: "(\<And>a w'. m w = (Inr a, w') \<Longrightarrow> Q a w') \<Longrightarrow> (\<And>e w'. m w = (Inl e, w') \<Longrightarrow> E e w') \<Longrightarrow> wp m Q E w"
  by (auto simp: wp_def split: prod.splits sum.splits)

text \<open>Nothing is asked of a computation when every outcome will do.\<close>

lemma wp_any: "(\<And>a w'. Q a w') \<Longrightarrow> (\<And>e w'. E e w') \<Longrightarrow> wp m Q E w"
  by (auto simp: wp_def split: prod.splits sum.splits)

lemma after_any: "(\<And>a w. wp (f a) Q (\<lambda>_ _. True) w) \<Longrightarrow> wp (bnd m f) Q (\<lambda>_ _. True) w"
  by (auto simp: wp_bnd intro: wp_any)

lemma andthen_any: "(\<And>w. wp k Q (\<lambda>_ _. True) w) \<Longrightarrow> wp (andthen m k) Q (\<lambda>_ _. True) w"
  by (auto simp: wp_andthen intro: wp_any)

lemma raise_any: "wp (raise e) Q (\<lambda>_ _. True) w"
  by (simp add: wp_raise)

text \<open>A relation between worlds that every step of a computation keeps, on return and on raise.\<close>

definition keeps :: "(world \<Rightarrow> world \<Rightarrow> bool) \<Rightarrow> 'a io \<Rightarrow> bool" where
  "keeps R m \<longleftrightarrow> (\<forall>w. R w (snd (m w)))"

lemma keepsI: "(\<And>w. wp m (\<lambda>_. R w) (\<lambda>_. R w) w) \<Longrightarrow> keeps R m"
proof -
  assume h: "\<And>w. wp m (\<lambda>_. R w) (\<lambda>_. R w) w"
  show ?thesis
    unfolding keeps_def
  proof
    fix w
    show "R w (snd (m w))"
      using h [of w] by (cases "m w"; cases "fst (m w)") (auto simp: wp_def)
  qed
qed

lemma keepsD: "keeps R m \<Longrightarrow> wp m (\<lambda>_. R w) (\<lambda>_. R w) w"
  unfolding keeps_def
  by (rule wp_result) (metis snd_conv)+

section \<open>Operations of the standard library\<close>

text \<open>Every file operation works on the resolved path.\<close>

definition at :: "host \<Rightarrow> world \<Rightarrow> path \<Rightarrow> node option" where
  "at H w p = fs w (resolve (h_cwd H) p)"

definition p_exists :: "host \<Rightarrow> world \<Rightarrow> path \<Rightarrow> bool" where
  "p_exists H w p \<longleftrightarrow> at H w p \<noteq> None"

definition is_file :: "host \<Rightarrow> world \<Rightarrow> path \<Rightarrow> bool" where
  "is_file H w p \<longleftrightarrow> (case at H w p of Some (File _) \<Rightarrow> True | _ \<Rightarrow> False)"

definition is_dir :: "host \<Rightarrow> world \<Rightarrow> path \<Rightarrow> bool" where
  "is_dir H w p \<longleftrightarrow> at H w p = Some Dir"

definition set_node :: "host \<Rightarrow> path \<Rightarrow> node option \<Rightarrow> world \<Rightarrow> world" where
  "set_node H p n w = w\<lparr>fs := (fs w)(resolve (h_cwd H) p := n)\<rparr>"

fun content_text :: "host \<Rightarrow> content \<Rightarrow> string" where
  "content_text H (Text s) = s"
| "content_text H c = h_text H c"

definition read_content :: "host \<Rightarrow> path \<Rightarrow> content io" where
  "read_content H p w =
     (case at H w p of
        Some (File c) \<Rightarrow> (Inr c, w)
      | None \<Rightarrow> (Inl (FileNotFoundError (path_str p)), w)
      | _ \<Rightarrow> (Inl (OSError (path_str p)), w))"

definition read_text :: "host \<Rightarrow> path \<Rightarrow> string io" where
  "read_text H p = bnd (read_content H p) (\<lambda>c. ret (content_text H c))"

text \<open>A write opens the file, which empties it, and then puts the content. The second step can fail (a full disk, say) and
  leave what \<open>h_torn\<close> says in the place of the old content.\<close>

definition write_content :: "host \<Rightarrow> path \<Rightarrow> content \<Rightarrow> unit io" where
  "write_content H p c w =
     (if h_unwritable H (resolve (h_cwd H) p) then (Inl (PermissionError (path_str p)), w)
      else if at H w p = Some Dir then (Inl (OSError (path_str p)), w)
      else if \<not> is_dir H w (parent (resolve (h_cwd H) p)) then (Inl (FileNotFoundError (path_str p)), w)
      else case h_torn H w (resolve (h_cwd H) p) c of
             Some c' \<Rightarrow> (Inl (OSError (path_str p)), set_node H p (Some (File c')) w)
           | None \<Rightarrow> (Inr (), set_node H p (Some (File c)) w))"

definition write_text :: "host \<Rightarrow> path \<Rightarrow> string \<Rightarrow> unit io" where
  "write_text H p s = write_content H p (Text s)"

definition unlink_missing_ok :: "host \<Rightarrow> path \<Rightarrow> unit io" where
  "unlink_missing_ok H p w =
     (if is_dir H w p then (Inl (OSError (path_str p)), w) else (Inr (), set_node H p None w))"

definition unlink :: "host \<Rightarrow> path \<Rightarrow> unit io" where
  "unlink H p w =
     (if is_dir H w p then (Inl (OSError (path_str p)), w)
      else if at H w p = None then (Inl (FileNotFoundError (path_str p)), w)
      else (Inr (), set_node H p None w))"

text \<open>\<open>mkdir(parents=True, exist_ok=True)\<close>: every missing prefix becomes a directory.\<close>

definition mkdir_parents :: "host \<Rightarrow> path \<Rightarrow> unit io" where
  "mkdir_parents H p w =
     (let q = resolve (h_cwd H) p;
          ancestors = map (\<lambda>k. Path True (take k (parts q))) [0..<Suc (length (parts q))]
      in if \<exists>a \<in> set ancestors. fs w a \<noteq> None \<and> fs w a \<noteq> Some Dir
         then (Inl (FileExistsError (path_str p)), w)
         else (Inr (), w\<lparr>fs := (\<lambda>x. if x \<in> set ancestors then Some Dir else fs w x)\<rparr>))"

text \<open>\<open>Path.replace\<close> of a file: the target is overwritten and the source is gone.\<close>

definition rename_file :: "host \<Rightarrow> path \<Rightarrow> path \<Rightarrow> unit io" where
  "rename_file H p q w =
     (case at H w p of
        None \<Rightarrow> (Inl (FileNotFoundError (path_str p)), w)
      | Some n \<Rightarrow>
          if at H w q = Some Dir then (Inl (OSError (path_str q)), w)
          else if \<not> is_dir H w (parent (resolve (h_cwd H) q)) then (Inl (FileNotFoundError (path_str q)), w)
          else (Inr (), set_node H q (Some n) (set_node H p None w)))"

definition copy_file :: "host \<Rightarrow> path \<Rightarrow> path \<Rightarrow> unit io" where
  "copy_file H p q = bnd (read_content H p) (\<lambda>c. write_content H q c)"

text \<open>The subtree below a directory, itself included.\<close>

definition below :: "path \<Rightarrow> path \<Rightarrow> bool" where
  "below d p \<longleftrightarrow> absolute p = absolute d \<and> prefix (parts d) (parts p)"

definition rmtree :: "host \<Rightarrow> path \<Rightarrow> unit io" where
  "rmtree H d w =
     (let r = resolve (h_cwd H) d
      in if \<not> is_dir H w d then (Inl (FileNotFoundError (path_str d)), w)
         else (Inr (), w\<lparr>fs := (\<lambda>p. if below r p then None else fs w p)\<rparr>))"

text \<open>\<open>shutil.move\<close> of a directory to a path that does not exist.\<close>

definition move_tree :: "host \<Rightarrow> path \<Rightarrow> path \<Rightarrow> unit io" where
  "move_tree H d e w =
     (let r = resolve (h_cwd H) d; t = resolve (h_cwd H) e
      in if \<not> is_dir H w d then (Inl (FileNotFoundError (path_str d)), w)
         else (Inr (), w\<lparr>fs := (\<lambda>p.
            if below t p then fs w (Path True (parts r @ drop (length (parts t)) (parts p)))
            else if below r p then None else fs w p)\<rparr>))"

text \<open>\<open>shutil.copytree(src, dst, dirs_exist_ok=True)\<close>: every node below the source is laid over the
  destination, which is created with its parents.\<close>

definition copy_tree :: "host \<Rightarrow> path \<Rightarrow> path \<Rightarrow> unit io" where
  "copy_tree H d e =
     bnd (asks (\<lambda>w. is_dir H w d)) (\<lambda>ok.
     if \<not> ok then raise (FileNotFoundError (path_str d))
     else andthen (mkdir_parents H e) (update (\<lambda>w.
       let r = resolve (h_cwd H) d; t = resolve (h_cwd H) e
       in w\<lparr>fs := (\<lambda>p. if below t p
            then (case fs w (Path True (parts r @ drop (length (parts t)) (parts p))) of
                    None \<Rightarrow> fs w p | Some n \<Rightarrow> Some n)
            else fs w p)\<rparr>)))"

text \<open>\<open>Path.touch\<close> and \<open>mkdir(parents=True)\<close> without \<open>exist_ok\<close>.\<close>

definition touch :: "host \<Rightarrow> path \<Rightarrow> unit io" where
  "touch H p = bnd (asks (\<lambda>w. p_exists H w p)) (\<lambda>ex. if ex then ret () else write_content H p (Text []))"

definition mkdir_new :: "host \<Rightarrow> path \<Rightarrow> unit io" where
  "mkdir_new H p = bnd (asks (\<lambda>w. p_exists H w p)) (\<lambda>ex.
     if ex then raise (FileExistsError (path_str p)) else mkdir_parents H p)"

definition print_out :: "string \<Rightarrow> unit io" where
  "print_out s = update (\<lambda>w. w\<lparr>out := out w @ [s]\<rparr>)"

definition print_err :: "string \<Rightarrow> unit io" where
  "print_err s = update (\<lambda>w. w\<lparr>err := err w @ [s]\<rparr>)"

text \<open>The monotonic clock and \<open>time.sleep\<close>: a sleep takes at least its length, and the rest of
  the machine moves on meanwhile (\<open>h_idle\<close>).\<close>

definition second :: nat where
  "second = 1000000000"

definition sleep :: "host \<Rightarrow> nat \<Rightarrow> unit io" where
  "sleep H s w =
     (case h_idle H s w of (ps, extra) \<Rightarrow>
        (Inr (), w\<lparr>procs := ps, clock := clock w + s * second + extra\<rparr>))"

text \<open>\<open>os.kill(pid, 0)\<close> as the sources use it: is there such a process (one of another user counts).\<close>

definition process_alive :: "nat \<Rightarrow> bool io" where
  "process_alive pid w = (Inr (procs w pid \<noteq> None), w)"

section \<open>External commands\<close>

definition run_raw :: "host \<Rightarrow> call \<Rightarrow> outcome io" where
  "run_raw H c w =
     (let r = h_run H c w
      in (Inr (r_result r),
          w\<lparr>fs := r_fs r, procs := r_procs r, clock := clock w + r_time r,
            requests := requests w @ [Run c]\<rparr>))"

text \<open>\<open>subprocess.run(argv, input=..., timeout=..., check=True)\<close>: standard output and error of a command that
  exits with zero, otherwise the exception.\<close>

definition run_checked :: "host \<Rightarrow> call \<Rightarrow> (string \<times> string) io" where
  "run_checked H c =
     bnd (run_raw H c) (\<lambda>r.
       case r of
         Exit rc so se \<Rightarrow> if rc = 0 then ret (so, se) else raise (CalledProcessError rc so se)
       | RunTimeout \<Rightarrow> raise TimeoutExpired
       | RunOSError m \<Rightarrow> raise (OSError m))"

definition plain_call :: "string list \<Rightarrow> call" where
  "plain_call argv = \<lparr>c_argv = argv, c_input = [], c_timeout = None, c_cwd = None\<rparr>"

definition timed_call :: "string list \<Rightarrow> int \<Rightarrow> call" where
  "timed_call argv t = \<lparr>c_argv = argv, c_input = [], c_timeout = Some t, c_cwd = None\<rparr>"

text \<open>With a working directory of its own: \<open>cwd=\<close>. The commands of a module that always runs them in the workspace
  root carry none.\<close>

definition call_in :: "path \<Rightarrow> call \<Rightarrow> call" where
  "call_in dir c = c\<lparr>c_cwd := Some dir\<rparr>"

definition run_cmd :: "host \<Rightarrow> string list \<Rightarrow> unit io" where
  "run_cmd H argv = bnd (run_checked H (plain_call argv)) (\<lambda>_. ret ())"

definition execvp :: "string list \<Rightarrow> 'a io" where
  "execvp argv = andthen (update (\<lambda>w. w\<lparr>requests := requests w @ [Execvp argv]\<rparr>)) (raise (SystemExit 0))"

section \<open>Rules for the operations\<close>

lemma wp_case_run_result [wps]:
  "wp (case r of Exit rc so se \<Rightarrow> f rc so se | RunTimeout \<Rightarrow> g | RunOSError m \<Rightarrow> h m) Q E w \<longleftrightarrow>
   (case r of Exit rc so se \<Rightarrow> wp (f rc so se) Q E w | RunTimeout \<Rightarrow> wp g Q E w
    | RunOSError m \<Rightarrow> wp (h m) Q E w)"
  by (cases r) auto

lemma wp_run_raw [wps]:
  "wp (run_raw H c) Q E w \<longleftrightarrow>
   Q (r_result (h_run H c w))
     (w\<lparr>fs := r_fs (h_run H c w), procs := r_procs (h_run H c w), clock := clock w + r_time (h_run H c w),
        requests := requests w @ [Run c]\<rparr>)"
  by (simp add: wp_def run_raw_def Let_def)

lemma wp_print_out [wps]: "wp (print_out s) Q E w \<longleftrightarrow> Q () (w\<lparr>out := out w @ [s]\<rparr>)"
  by (simp add: print_out_def wp_update)

lemma wp_print_err [wps]: "wp (print_err s) Q E w \<longleftrightarrow> Q () (w\<lparr>err := err w @ [s]\<rparr>)"
  by (simp add: print_err_def wp_update)

lemma wp_process_alive [wps]: "wp (process_alive pid) Q E w \<longleftrightarrow> Q (procs w pid \<noteq> None) w"
  by (simp add: wp_def process_alive_def)

lemma wp_unlink_missing_ok [wps]:
  "wp (unlink_missing_ok H p) Q E w \<longleftrightarrow>
   (if is_dir H w p then E (OSError (path_str p)) w else Q () (set_node H p None w))"
  by (simp add: wp_def unlink_missing_ok_def)

lemma wp_write_content [wps]:
  "wp (write_content H p c) Q E w \<longleftrightarrow>
   (if h_unwritable H (resolve (h_cwd H) p) then E (PermissionError (path_str p)) w
    else if at H w p = Some Dir then E (OSError (path_str p)) w
    else if \<not> is_dir H w (parent (resolve (h_cwd H) p)) then E (FileNotFoundError (path_str p)) w
    else case h_torn H w (resolve (h_cwd H) p) c of
           Some c' \<Rightarrow> E (OSError (path_str p)) (set_node H p (Some (File c')) w)
         | None \<Rightarrow> Q () (set_node H p (Some (File c)) w))"
  by (simp add: wp_def write_content_def split: option.split)

lemma wp_write_text [wps]: "wp (write_text H p s) Q E w \<longleftrightarrow> wp (write_content H p (Text s)) Q E w"
  by (simp add: write_text_def)

lemma wp_read_content [wps]:
  "wp (read_content H p) Q E w \<longleftrightarrow>
   (case at H w p of Some (File c) \<Rightarrow> Q c w | None \<Rightarrow> E (FileNotFoundError (path_str p)) w
    | _ \<Rightarrow> E (OSError (path_str p)) w)"
  by (auto simp: wp_def read_content_def split: option.splits node.splits)

lemma wp_read_text [wps]:
  "wp (read_text H p) Q E w \<longleftrightarrow>
   (case at H w p of Some (File c) \<Rightarrow> Q (content_text H c) w
    | None \<Rightarrow> E (FileNotFoundError (path_str p)) w | _ \<Rightarrow> E (OSError (path_str p)) w)"
  by (simp add: read_text_def wps split: option.split node.split)

lemma wp_rename_file [wps]:
  "wp (rename_file H p q) Q E w \<longleftrightarrow>
   (case at H w p of
      None \<Rightarrow> E (FileNotFoundError (path_str p)) w
    | Some n \<Rightarrow> if at H w q = Some Dir then E (OSError (path_str q)) w
                else if \<not> is_dir H w (parent (resolve (h_cwd H) q)) then E (FileNotFoundError (path_str q)) w
                else Q () (set_node H q (Some n) (set_node H p None w)))"
  by (simp add: wp_def rename_file_def split: option.splits)

lemma wp_sleep [wps]:
  "wp (sleep H s) Q E w \<longleftrightarrow>
   Q () (w\<lparr>procs := fst (h_idle H s w), clock := clock w + s * second + snd (h_idle H s w)\<rparr>)"
  by (simp add: wp_def sleep_def split: prod.splits)

lemma wp_rmtree [wps]:
  "wp (rmtree H d) Q E w \<longleftrightarrow>
   (if is_dir H w d
    then Q () (w\<lparr>fs := (\<lambda>p. if below (resolve (h_cwd H) d) p then None else fs w p)\<rparr>)
    else E (FileNotFoundError (path_str d)) w)"
  by (simp add: wp_def rmtree_def Let_def)

lemma wp_move_tree [wps]:
  "wp (move_tree H d e) Q E w \<longleftrightarrow>
   (if is_dir H w d
    then Q () (w\<lparr>fs := (\<lambda>p.
      if below (resolve (h_cwd H) e) p
      then fs w (Path True (parts (resolve (h_cwd H) d) @ drop (length (parts (resolve (h_cwd H) e))) (parts p)))
      else if below (resolve (h_cwd H) d) p then None else fs w p)\<rparr>)
    else E (FileNotFoundError (path_str d)) w)"
  by (simp add: wp_def move_tree_def Let_def)

lemma at_set_node [simp]:
  "at H (set_node H p n w) q = (if resolve (h_cwd H) p = resolve (h_cwd H) q then n else at H w q)"
  by (auto simp: at_def set_node_def)

lemma set_node_sel [simp]:
  "procs (set_node H p n w) = procs w" "clock (set_node H p n w) = clock w"
  "draws (set_node H p n w) = draws w" "out (set_node H p n w) = out w"
  "err (set_node H p n w) = err w" "requests (set_node H p n w) = requests w"
  by (simp_all add: set_node_def)

lemma at_updates [simp]:
  "at H (w\<lparr>out := x\<rparr>) p = at H w p" "at H (w\<lparr>err := x\<rparr>) p = at H w p"
  "at H (w\<lparr>requests := y\<rparr>) p = at H w p" "at H (w\<lparr>clock := z\<rparr>) p = at H w p"
  "at H (w\<lparr>draws := z\<rparr>) p = at H w p" "at H (w\<lparr>procs := q\<rparr>) p = at H w p"
  by (simp_all add: at_def)

lemma at_resolve [simp]: "at H w (resolve (h_cwd H) p) = at H w p"
  by (simp add: at_def)

lemmas file_tests = is_file_def is_dir_def p_exists_def

lemma run_checked_requests: "run_checked H c w = (r, w') \<Longrightarrow> requests w' = requests w @ [Run c]"
  by (auto simp: run_checked_def bnd_def run_raw_def Let_def ret_def raise_def
      split: outcome.splits if_splits)

lemma run_checked_frame: "run_checked H c w = (r, w') \<Longrightarrow>
  out w' = out w \<and> err w' = err w \<and> draws w' = draws w"
  by (auto simp: run_checked_def bnd_def run_raw_def Let_def ret_def raise_def
      split: outcome.splits if_splits)

section \<open>Home directory and integers from text\<close>

text \<open>\<open>os.path.expanduser\<close>: \<open>~\<close> is the home of the current user, \<open>~name\<close> the home that the account database has for the
  name; an unknown name is left alone.\<close>

definition expanduser :: "host \<Rightarrow> string \<Rightarrow> string" where
  "expanduser H s =
     (if s = ''~'' \<or> prefix ''~/'' s then path_str (h_home H) @ tl s
      else if prefix ''~'' s then
        (let name = takeWhile (\<lambda>c. c \<noteq> CHR ''/'') (tl s) in
         case h_home_of H name of None \<Rightarrow> s | Some home \<Rightarrow>
           (let p = rev (dropWhile (\<lambda>c. c = CHR ''/'') (rev home)) @ drop (Suc (length name)) s in if p = [] then ''/'' else p))
      else s)"

text \<open>\<open>Path.expanduser\<close> looks at the first part of a relative path, and raises where the name is unknown.\<close>

definition path_expanduser :: "host \<Rightarrow> path \<Rightarrow> exn + path" where
  "path_expanduser H p =
     (if absolute p \<or> parts p = [] \<or> \<not> prefix ''~'' (hd (parts p)) then Inr p
      else let home = expanduser H (hd (parts p)) in
        if prefix ''~'' home then Inl (RuntimeError ''Could not determine home directory.'')
        else Inr (Path (absolute (mk_path home)) (parts (mk_path home) @ tl (parts p))))"

definition py_int :: "string \<Rightarrow> exn + int" where
  "py_int s =
     (let t = strip s; neg = prefix ''-'' t; body = (if neg \<or> prefix ''+'' t then tl t else t)
      in if isdigit body then Inr (if neg then - int (nat_of_digits body) else int (nat_of_digits body))
         else Inl (ValueError s))"

text \<open>\<open>repr\<close> of a string without quotes, backslashes or control characters.\<close>

definition quoted :: "string \<Rightarrow> string" where
  "quoted s = sq @ s @ sq"

definition lift_sum :: "(exn + 'a) \<Rightarrow> 'a io" where
  "lift_sum r w = (r, w)"

lemma wp_lift_sum [wps]:
  "wp (lift_sum r) Q E w \<longleftrightarrow> (case r of Inl e \<Rightarrow> E e w | Inr a \<Rightarrow> Q a w)"
  by (simp add: wp_def lift_sum_def split: sum.split)

lemma py_int_show [simp]: "py_int (show_nat n) = Inr (int n)"
proof -
  have "list_all is_digit (show_nat n)" by (rule show_nat_digits)
  moreover have "show_nat n \<noteq> []" by (subst show_nat.simps) simp
  ultimately have "\<not> prefix ''-'' (show_nat n)" "\<not> prefix ''+'' (show_nat n)"
    by (auto simp: neq_Nil_conv is_digit_iff)
  then show ?thesis by (simp add: py_int_def Let_def)
qed

section \<open>Polling\<close>

text \<open>
  The four waiting loops of the sources have one shape: until a deadline, probe; stop when the probe
  answers, otherwise sleep. \<open>poll\<close> is that loop over a loop variable \<open>s\<close>: a probe returns
  \<open>Inr a\<close> to stop with \<open>a\<close> or \<open>Inl s'\<close> to go on, and the loop returns \<open>Inl s\<close> at the
  deadline. It ends because the monotonic clock never goes back and every sleep moves it forward.
\<close>

definition not_before :: "world \<Rightarrow> world \<Rightarrow> world" where
  "not_before w w' = w'\<lparr>clock := max (clock w) (clock w')\<rparr>"

function poll :: "host \<Rightarrow> nat \<Rightarrow> nat \<Rightarrow> ('s \<Rightarrow> ('s + 'a) io) \<Rightarrow> 's \<Rightarrow> ('s + 'a) io" where
  "poll H deadline pause probe s w =
     (if clock w < deadline \<and> 0 < pause
      then (case probe s w of
              (Inl e, w') \<Rightarrow> (Inl e, w')
            | (Inr (Inr a), w') \<Rightarrow> (Inr (Inr a), w')
            | (Inr (Inl s'), w') \<Rightarrow>
                poll H deadline pause probe s' (snd (sleep H pause (not_before w w'))))
      else (Inr (Inl s), w))"
  by pat_completeness auto
termination
  by (relation "measure (\<lambda>(H, deadline, pause, probe, s, w). deadline - clock w)")
    (auto simp: sleep_def not_before_def second_def split: prod.splits)

declare poll.simps [simp del]

definition after_sleep :: "host \<Rightarrow> nat \<Rightarrow> world \<Rightarrow> world" where
  "after_sleep H pause w =
     w\<lparr>procs := fst (h_idle H pause w), clock := clock w + pause * second + snd (h_idle H pause w)\<rparr>"

lemma sleep_eq: "sleep H pause w = (Inr (), after_sleep H pause w)"
  by (simp add: sleep_def after_sleep_def split: prod.splits)

text \<open>The loop rule: an invariant that a probe and a sleep keep holds at every exit.\<close>

lemma wp_poll:
  assumes inv: "I s w"
    and probe: "\<And>s w. I s w \<Longrightarrow> wp (probe s)
        (\<lambda>r w'. case r of Inr a \<Rightarrow> Q (Inr a) w' | Inl s' \<Rightarrow> I s' w' \<and> clock w \<le> clock w') E w"
    and idle: "\<And>s w. I s w \<Longrightarrow> I s (after_sleep H pause w)"
    and fin: "\<And>s w. I s w \<Longrightarrow> Q (Inl s) w"
  shows "wp (poll H deadline pause probe s) Q E w"
  using assms
proof (induction H deadline pause probe s w rule: poll.induct)
  case (1 H deadline pause probe s w)
  have step: "wp (probe s)
      (\<lambda>r w'. case r of Inr a \<Rightarrow> Q (Inr a) w' | Inl s' \<Rightarrow> I s' w' \<and> clock w \<le> clock w') E w"
    using "1.prems"(1,2) by blast
  show ?case
  proof (cases "clock w < deadline \<and> 0 < pause")
    case False
    then have "poll H deadline pause probe s w = (Inr (Inl s), w)"
      by (subst poll.simps) (simp only: if_False)
    with "1.prems"(1,4) show ?thesis by (simp add: wp_def)
  next
    case True
    obtain r w' where r: "probe s w = (r, w')" by (cases "probe s w")
    show ?thesis
    proof (cases r)
      case (Inl e)
      with step r True show ?thesis by (simp add: wp_def poll.simps [of H deadline pause probe s w])
    next
      case (Inr v)
      show ?thesis
      proof (cases v)
        case (Inr a)
        with step r \<open>r = Inr v\<close> True show ?thesis
          by (simp add: wp_def poll.simps [of H deadline pause probe s w])
      next
        case (Inl s')
        with step r Inr have I: "I s' w'" and le: "clock w \<le> clock w'" by (simp_all add: wp_def)
        have nb: "not_before w w' = w'" using le by (simp add: not_before_def)
        have "wp (poll H deadline pause probe s') Q E (snd (sleep H pause (not_before w w')))"
          using "1.IH" [OF True, of r w' v s'] r Inr Inl "1.prems" I nb by (simp add: sleep_eq)
        with r Inr Inl True show ?thesis
          by (simp add: wp_def poll.simps [of H deadline pause probe s w])
      qed
    qed
  qed
qed

text \<open>A loop whose probe sends at most one request sends at most one for each pause that fits before its deadline.\<close>

lemma poll_bounded:
  assumes probe: "\<And>s w. \<exists>rs. requests (snd (probe s w)) = requests w @ rs \<and> length rs \<le> 1"
    and room: "deadline \<le> clock w + n * (pause * second)" and pause: "0 < pause"
  shows "\<exists>rs. requests (snd (poll H deadline pause probe s w)) = requests w @ rs \<and> length rs \<le> n"
  using room
proof (induction n arbitrary: s w)
  case 0
  then have "poll H deadline pause probe s w = (Inr (Inl s), w)" by (subst poll.simps) simp
  then show ?case by simp
next
  case (Suc n)
  obtain r w' where r: "probe s w = (r, w')" by (cases "probe s w")
  obtain rs where rs: "requests w' = requests w @ rs" "length rs \<le> 1" using probe [of s w] r by auto
  show ?case
  proof (cases "clock w < deadline")
    case False
    then have "poll H deadline pause probe s w = (Inr (Inl s), w)" by (subst poll.simps) simp
    then show ?thesis by simp
  next
    case True
    let ?v = "snd (sleep H pause (not_before w w'))"
    have "deadline \<le> clock ?v + n * (pause * second)"
      using Suc.prems by (simp add: sleep_eq after_sleep_def not_before_def max_def)
    from Suc.IH [OF this] have next_step: "\<exists>ss. requests (snd (poll H deadline pause probe s' ?v)) = requests w' @ ss \<and> length ss \<le> n" for s'
      by (simp add: sleep_eq after_sleep_def not_before_def)
    show ?thesis
    proof (cases r)
      case (Inl e)
      with rs r True pause show ?thesis by (simp add: poll.simps [of H deadline pause probe s w])
    next
      case (Inr v)
      show ?thesis
      proof (cases v)
        case (Inr a)
        with rs r \<open>r = Inr v\<close> True pause show ?thesis by (simp add: poll.simps [of H deadline pause probe s w])
      next
        case (Inl s')
        from next_step [of s'] obtain ss where "requests (snd (poll H deadline pause probe s' ?v)) = requests w' @ ss" "length ss \<le> n"
          by blast
        with rs r Inr Inl True pause show ?thesis by (simp add: poll.simps [of H deadline pause probe s w])
      qed
    qed
  qed
qed

section \<open>The requests of a computation\<close>

text \<open>
  \<open>emits P m\<close>: whatever the world and the outcome, every request that \<open>m\<close> sends to the outside
  satisfies \<open>P\<close>, and the log of earlier requests is kept. The rules follow the structure of a
  computation, so a safety property of a handler (\<open>it only ever runs these commands\<close>) is a
  traversal of its code.
\<close>

definition emits :: "(request \<Rightarrow> bool) \<Rightarrow> 'a io \<Rightarrow> bool" where
  "emits P m \<longleftrightarrow> (\<forall>w. \<exists>rs. requests (snd (m w)) = requests w @ rs \<and> list_all P rs)"

named_theorems emits_intros \<open>request effects of the combinators and operations\<close>

lemma emits_same: "(\<And>w. requests (snd (m w)) = requests w) \<Longrightarrow> emits P m"
  by (simp add: emits_def)

lemma emitsD: "emits P m \<Longrightarrow> m w = (r, w') \<Longrightarrow> \<exists>rs. requests w' = requests w @ rs \<and> list_all P rs"
  unfolding emits_def by (metis snd_conv)

lemma emits_mono: "emits P m \<Longrightarrow> (\<And>r. P r \<Longrightarrow> Q r) \<Longrightarrow> emits Q m"
  unfolding emits_def by (metis list.pred_mono_strong)

lemma emits_seq:
  assumes "emits P m" "m w = (r, w')" "emits P k"
  shows "\<exists>rs. requests (snd (k w')) = requests w @ rs \<and> list_all P rs"
proof -
  obtain rs where rs: "requests w' = requests w @ rs" "list_all P rs" using emitsD assms(1,2) by blast
  obtain ss where "requests (snd (k w')) = requests w' @ ss" "list_all P ss"
    using assms(3) unfolding emits_def by blast
  with rs show ?thesis by simp
qed

lemma emits_bnd [emits_intros]:
  assumes m: "emits P m" and f: "\<And>a. emits P (f a)"
  shows "emits P (bnd m f)"
  unfolding emits_def
proof
  fix w
  obtain r w' where r: "m w = (r, w')" by (cases "m w")
  show "\<exists>rs. requests (snd (bnd m f w)) = requests w @ rs \<and> list_all P rs"
    using emitsD [OF m r] emits_seq [OF m r f]
    by (cases r) (simp_all add: bnd_def r)
qed

lemma emits_catch [emits_intros]:
  assumes m: "emits P m" and h: "\<And>e. emits P (h e)"
  shows "emits P (catch X m h)"
  unfolding emits_def
proof
  fix w
  obtain r w' where r: "m w = (r, w')" by (cases "m w")
  show "\<exists>rs. requests (snd (catch X m h w)) = requests w @ rs \<and> list_all P rs"
    using emitsD [OF m r] emits_seq [OF m r h]
    by (cases r) (simp_all add: catch_def r)
qed

lemma emits_finally [emits_intros]:
  assumes m: "emits P m" and k: "emits P k"
  shows "emits P (finally_do m k)"
  unfolding emits_def
proof
  fix w
  obtain r w' where r: "m w = (r, w')" by (cases "m w")
  obtain r2 w2 where r2: "k w' = (r2, w2)" by (cases "k w'")
  show "\<exists>rs. requests (snd (finally_do m k w)) = requests w @ rs \<and> list_all P rs"
    using emits_seq [OF m r k]
    by (cases r2) (simp_all add: finally_do_def r r2)
qed

lemma emits_simple [emits_intros]:
  "emits P (ret a)" "emits P (raise e)" "emits P get_world" "emits P (asks f)" "emits P (lift_sum s)"
  "emits P (read_content H p)" "emits P (read_text H p)" "emits P (write_content H p c)"
  "emits P (write_text H p t)" "emits P (unlink_missing_ok H p)" "emits P (unlink H p)"
  "emits P (mkdir_parents H p)" "emits P (rename_file H p q)" "emits P (copy_file H p q)"
  "emits P (rmtree H p)" "emits P (move_tree H p q)" "emits P (print_out t)" "emits P (print_err t)"
  "emits P (sleep H n)" "emits P (process_alive pid)"
  "emits P (copy_tree H p q)" "emits P (touch H p)" "emits P (mkdir_new H p)"
  by (rule emits_same; simp add: ret_def raise_def get_world_def asks_def lift_sum_def read_content_def
      read_text_def bnd_def write_content_def write_text_def unlink_missing_ok_def unlink_def
      mkdir_parents_def Let_def rename_file_def copy_file_def rmtree_def move_tree_def print_out_def
      print_err_def update_def sleep_eq after_sleep_def process_alive_def copy_tree_def touch_def
      mkdir_new_def andthen_def
      split: option.split node.split)+

lemma emits_andthen [emits_intros]: "emits P m \<Longrightarrow> emits P k \<Longrightarrow> emits P (andthen m k)"
  unfolding andthen_def by (rule emits_bnd)

lemma emits_when [emits_intros]: "(b \<Longrightarrow> emits P m) \<Longrightarrow> emits P (when_io b m)"
  by (simp add: when_io_def emits_simple)

lemma emits_if [emits_intros]: "(b \<Longrightarrow> emits P m) \<Longrightarrow> (\<not> b \<Longrightarrow> emits P k) \<Longrightarrow> emits P (if b then m else k)"
  by simp

lemma emits_option [emits_intros]:
  "(x = None \<Longrightarrow> emits P m) \<Longrightarrow> (\<And>a. x = Some a \<Longrightarrow> emits P (k a)) \<Longrightarrow>
   emits P (case x of None \<Rightarrow> m | Some a \<Rightarrow> k a)"
  by (cases x) auto

lemma emits_sum [emits_intros]:
  "(\<And>e. emits P (h e)) \<Longrightarrow> (\<And>a. emits P (k a)) \<Longrightarrow> emits P (case x of Inl e \<Rightarrow> h e | Inr a \<Rightarrow> k a)"
  by (cases x) auto

lemma emits_prod [emits_intros]:
  "(\<And>a b. x = (a, b) \<Longrightarrow> emits P (k a b)) \<Longrightarrow> emits P (case x of (a, b) \<Rightarrow> k a b)"
  by (cases x) auto

lemma emits_list [emits_intros]:
  "(x = [] \<Longrightarrow> emits P m) \<Longrightarrow> (\<And>a b. x = a # b \<Longrightarrow> emits P (k a b)) \<Longrightarrow>
   emits P (case x of [] \<Rightarrow> m | a # b \<Rightarrow> k a b)"
  by (cases x) auto

lemma emits_Let [emits_intros]: "(\<And>x. x = a \<Longrightarrow> emits P (f x)) \<Longrightarrow> emits P (let x = a in f x)"
  by (simp add: Let_def)

lemma emits_run_result [emits_intros]:
  "(\<And>a b c. emits P (f a b c)) \<Longrightarrow> emits P g \<Longrightarrow> (\<And>m. emits P (h m)) \<Longrightarrow>
   emits P (case r of Exit a b c \<Rightarrow> f a b c | RunTimeout \<Rightarrow> g | RunOSError m \<Rightarrow> h m)"
  by (cases r) auto

lemma emits_exn [emits_intros]:
  "(\<And>rc so se. e = CalledProcessError rc so se \<Longrightarrow> emits P (f rc so se)) \<Longrightarrow> emits P k \<Longrightarrow>
   emits P (case e of CalledProcessError rc so se \<Rightarrow> f rc so se | _ \<Rightarrow> k)"
  by (cases e) auto

lemma emits_run_raw [emits_intros]: "P (Run c) \<Longrightarrow> emits P (run_raw H c)"
  by (simp add: emits_def run_raw_def Let_def)

lemma emits_run_checked [emits_intros]: "P (Run c) \<Longrightarrow> emits P (run_checked H c)"
  unfolding run_checked_def by (intro emits_intros)

lemma emits_run_cmd [emits_intros]: "P (Run (plain_call argv)) \<Longrightarrow> emits P (run_cmd H argv)"
  unfolding run_cmd_def by (intro emits_intros)

lemma emits_execvp [emits_intros]: "P (Execvp argv) \<Longrightarrow> emits P (execvp argv)"
  by (simp add: emits_def execvp_def andthen_def bnd_def update_def raise_def)

lemma emits_lift_bnd: "(\<And>a. s = Inr a \<Longrightarrow> emits P (f a)) \<Longrightarrow> emits P (bnd (lift_sum s) f)"
  by (cases s) (auto simp: emits_def bnd_def lift_sum_def)

lemma emits_each [emits_intros]: "(\<And>x. x \<in> set xs \<Longrightarrow> emits P (f x)) \<Longrightarrow> emits P (each f xs)"
  by (induction xs) (auto intro: emits_intros)

lemma emits_collect [emits_intros]: "(\<And>x. x \<in> set xs \<Longrightarrow> emits P (f x)) \<Longrightarrow> emits P (collect f xs)"
  by (induction xs) (auto intro: emits_intros)

lemma emits_poll [emits_intros]:
  assumes probe: "\<And>s. emits P (probe s)"
  shows "emits P (poll H deadline pause probe s)"
proof -
  have "\<exists>rs. requests (snd (poll H deadline pause probe s w)) = requests w @ rs \<and> list_all P rs" for w
    using probe
  proof (induction H deadline pause probe s w rule: poll.induct)
    case (1 H deadline pause probe s w)
    note unfold = poll.simps [of H deadline pause probe s w]
    show ?case
    proof (cases "clock w < deadline \<and> 0 < pause")
      case False
      then show ?thesis unfolding unfold by (simp only: if_False) simp
    next
      case True
      obtain r w' where r: "probe s w = (r, w')" by (cases "probe s w")
      from emitsD [OF "1.prems" r]
      obtain rs where rs: "requests w' = requests w @ rs" "list_all P rs" by blast
      show ?thesis
      proof (cases r)
        case (Inl e)
        with rs r True show ?thesis by (simp add: unfold)
      next
        case (Inr v)
        show ?thesis
        proof (cases v)
          case (Inr a)
          with rs r \<open>r = Inr v\<close> True show ?thesis by (simp add: unfold)
        next
          case (Inl s')
          let ?w = "snd (sleep H pause (not_before w w'))"
          obtain ss where "requests (snd (poll H deadline pause probe s' ?w)) = requests ?w @ ss" "list_all P ss"
            using "1.IH" [OF True, of r w' v s'] r Inr Inl "1.prems" by auto
          moreover have "requests ?w = requests w'" by (simp add: sleep_eq after_sleep_def not_before_def)
          ultimately show ?thesis using rs r Inr Inl True by (simp add: unfold)
        qed
      qed
    qed
  qed
  then show ?thesis by (simp add: emits_def)
qed

text \<open>
  \<open>orderly plan m\<close>: the requests of \<open>m\<close>, in their order, are some of those of the plan, each
  at most as often as it is planned.
\<close>

definition orderly :: "request list \<Rightarrow> 'a io \<Rightarrow> bool" where
  "orderly plan m \<longleftrightarrow> (\<forall>w. \<exists>rs. requests (snd (m w)) = requests w @ rs \<and> subseq rs plan)"

lemma emits_none: "emits (\<lambda>_. False) m \<Longrightarrow> requests (snd (m w)) = requests w"
proof -
  assume "emits (\<lambda>_. False) m"
  then obtain rs where "requests (snd (m w)) = requests w @ rs" "list_all (\<lambda>_. False) rs"
    unfolding emits_def by blast
  then show ?thesis by (cases rs) auto
qed

lemma orderly_quiet: "emits (\<lambda>_. False) m \<Longrightarrow> orderly plan m"
  unfolding orderly_def using emits_none by fastforce

lemma orderly_mono: "orderly xs m \<Longrightarrow> subseq xs ys \<Longrightarrow> orderly ys m"
  unfolding orderly_def by (meson subseq_order.trans)

lemma orderly_bnd:
  assumes m: "orderly xs m" and f: "\<And>a. orderly ys (f a)"
  shows "orderly (xs @ ys) (bnd m f)"
  unfolding orderly_def
proof
  fix w
  obtain r w' where r: "m w = (r, w')" by (cases "m w")
  obtain rs where rs: "requests w' = requests w @ rs" "subseq rs xs"
    using m r unfolding orderly_def by (metis snd_conv)
  show "\<exists>rs. requests (snd (bnd m f w)) = requests w @ rs \<and> subseq rs (xs @ ys)"
  proof (cases r)
    case (Inl e)
    with r rs show ?thesis
      by (auto simp: bnd_def intro: subseq_rev_drop_many)
  next
    case (Inr a)
    obtain ss where "requests (snd (f a w')) = requests w' @ ss" "subseq ss ys"
      using f unfolding orderly_def by blast
    with r rs Inr show ?thesis by (auto simp: bnd_def intro: list_emb_append_mono)
  qed
qed

lemma orderly_andthen: "orderly xs m \<Longrightarrow> orderly ys k \<Longrightarrow> orderly (xs @ ys) (andthen m k)"
  unfolding andthen_def by (rule orderly_bnd)

lemma orderly_catch:
  assumes m: "orderly xs m" and h: "\<And>e. emits (\<lambda>_. False) (h e)"
  shows "orderly xs (catch X m h)"
  unfolding orderly_def
proof
  fix w
  obtain r w' where r: "m w = (r, w')" by (cases "m w")
  obtain rs where rs: "requests w' = requests w @ rs" "subseq rs xs"
    using m r unfolding orderly_def by (metis snd_conv)
  have "requests (snd (h e w')) = requests w'" for e
    using h [of e] by (rule emits_none)
  with r rs show "\<exists>rs. requests (snd (catch X m h w)) = requests w @ rs \<and> subseq rs xs"
    by (cases r) (simp_all add: catch_def)
qed

lemma orderly_after: "emits (\<lambda>_. False) m \<Longrightarrow> (\<And>a. orderly ys (f a)) \<Longrightarrow> orderly ys (bnd m f)"
  using orderly_bnd [OF orderly_quiet, of m ys f "[]"] by simp

lemma orderly_last: "orderly xs m \<Longrightarrow> (\<And>a. emits (\<lambda>_. False) (f a)) \<Longrightarrow> orderly xs (bnd m f)"
  using orderly_bnd [of xs m "[]" f, OF _ orderly_quiet] by simp

lemma orderly_first:
  "orderly [x] m \<Longrightarrow> (\<And>a. orderly ys (f a)) \<Longrightarrow> orderly (x # ys) (bnd m f)"
  "orderly [x] m \<Longrightarrow> orderly ys k \<Longrightarrow> orderly (x # ys) (andthen m k)"
  using orderly_bnd [of "[x]" m ys f] orderly_andthen [of "[x]" m ys k] by simp_all

lemma orderly_run_checked: "orderly [Run c] (run_checked H c)"
  unfolding orderly_def by (metis run_checked_requests prod.collapse subseq_order.refl)

lemma orderly_if: "(b \<Longrightarrow> orderly xs m) \<Longrightarrow> (\<not> b \<Longrightarrow> orderly xs k) \<Longrightarrow> orderly xs (if b then m else k)"
  by simp

end
