(* ===== verification/Storage.thy ===== *)
theory Storage
  imports World
begin

text \<open>
  Two contracts of stored data. \<open>text_codec\<close>: what one program writes as text another reads back; its interpretations are
  the formats of the sources, each in the theory of its component. \<open>record_store\<close>: a record that is loaded, changed and
  saved as a whole; its interpretation is the \<open>state.yaml\<close> of a machine.
\<close>

section \<open>Values as text\<close>

locale text_codec =
  fixes enc :: "'a \<Rightarrow> string" and dec :: "string \<Rightarrow> exn + 'a" and valid :: "'a \<Rightarrow> bool"
  assumes dec_enc: "valid x \<Longrightarrow> dec (enc x) = Inr x"
begin

text \<open>Different values have different texts.\<close>

lemma enc_inj: "valid x \<Longrightarrow> valid y \<Longrightarrow> enc x = enc y \<longleftrightarrow> x = y"
  by (metis dec_enc sum.inject(2))

text \<open>What is written to a file is what is read from it.\<close>

lemma written_is_read:
  assumes "valid x" "write_text H p (enc x) w = (Inr (), w')"
  shows "bnd (read_text H p) (\<lambda>t. lift_sum (dec t)) w' = (Inr x, w')"
proof -
  have "at H w' p = Some (File (Text (enc x)))"
    using assms(2) by (auto simp: write_text_def write_content_def split: if_splits option.splits)
  then show ?thesis
    using assms(1) by (simp add: read_text_def read_content_def bnd_def ret_def lift_sum_def dec_enc)
qed

end

section \<open>Records saved as a whole\<close>

text \<open>\<open>seen w\<close> is what is found in the place of the record, \<open>holding s\<close> the place that holds the record \<open>s\<close>.\<close>

locale record_store =
  fixes load :: "'s option io" and save :: "'s \<Rightarrow> unit io" and seen :: "world \<Rightarrow> 'v" and holding :: "'s \<Rightarrow> 'v"
  assumes save_holds: "save s w = (Inr (), w') \<Longrightarrow> seen w' = holding s"
    and save_fails: "save s w = (Inl e, w') \<Longrightarrow> seen w' = seen w"
    and load_held: "seen w = holding s \<Longrightarrow> load w = (Inr (Some s), w)"
begin

text \<open>An operation that computes a record without touching the store, saves it and returns it: the next load gives it
  back, and a failure at any of its steps leaves what was found there, whether a record or not.\<close>

lemma saved_is_loaded:
  assumes "bnd m (\<lambda>s. andthen (save s) (ret s)) w = (Inr s, w')"
  shows "load w' = (Inr (Some s), w')"
  using assms by (auto simp: bnd_def andthen_def ret_def split: prod.splits sum.splits dest: save_holds intro: load_held)

lemma failure_keeps_the_record:
  assumes "\<And>r w'. m w = (r, w') \<Longrightarrow> seen w' = seen w"
    and "bnd m (\<lambda>s. andthen (save s) (ret s)) w = (Inl e, w')"
  shows "seen w' = seen w"
  using assms by (auto simp: bnd_def andthen_def ret_def split: prod.splits sum.splits dest: save_fails)

end

end
