(* ===== verification/QemuState.thy ===== *)
theory QemuState
  imports Storage
begin

text \<open>
  \<open>workspace/cli/hypervisor/qemu_state.py\<close>: the durable record of a QEMU virtual machine in
  \<open>state.yaml\<close> and the identity of its process. A record is written to a temporary file that
  replaces the old one; reading a file that does not parse raises \<open>QemuStateError\<close>.
\<close>

definition STATE_FILE :: string where "STATE_FILE = ''state.yaml''"

definition state_path :: "path \<Rightarrow> path" where
  "state_path vm_dir = child vm_dir STATE_FILE"

text \<open>\<open>path.with_suffix(".tmp")\<close> of \<open>state.yaml\<close>.\<close>

definition state_tmp :: "path \<Rightarrow> path" where
  "state_tmp vm_dir = child vm_dir ''state.tmp''"

definition new_state :: "host \<Rightarrow> world \<Rightarrow> string \<Rightarrow> vm_mode \<Rightarrow> qemu_state" where
  "new_state H w profile mode = \<lparr>qs_mode = mode, qs_profile = profile, qs_created_at = h_now H w,
     qs_last_started_at = None, qs_last_stopped_at = None, qs_last_error = None,
     qs_ssh_port = None, qs_pid_start = None\<rparr>"

definition load_state :: "host \<Rightarrow> path \<Rightarrow> qemu_state option io" where
  "load_state H vm_dir w =
     (case at H w (state_path vm_dir) of
        Some (File (StateDoc s)) \<Rightarrow> (Inr (Some s), w)
      | Some (File _) \<Rightarrow> (Inl (QemuStateError (path_str (state_path vm_dir))), w)
      | _ \<Rightarrow> (Inr None, w))"

definition save_state :: "host \<Rightarrow> path \<Rightarrow> qemu_state \<Rightarrow> unit io" where
  "save_state H vm_dir s =
     andthen (write_content H (state_tmp vm_dir) (StateDoc s))
       (rename_file H (state_tmp vm_dir) (state_path vm_dir))"

definition ensure_state :: "host \<Rightarrow> path \<Rightarrow> string \<Rightarrow> vm_mode \<Rightarrow> qemu_state io" where
  "ensure_state H vm_dir profile mode =
     bnd (load_state H vm_dir) (\<lambda>current.
       case current of
         Some s \<Rightarrow> ret s
       | None \<Rightarrow> bnd (asks (\<lambda>w. new_state H w profile mode)) (\<lambda>s.
                   andthen (save_state H vm_dir s) (ret s)))"

definition required_state :: "host \<Rightarrow> path \<Rightarrow> qemu_state io" where
  "required_state H vm_dir =
     bnd (load_state H vm_dir) (\<lambda>current.
       case current of
         Some s \<Rightarrow> ret s
       | None \<Rightarrow> asks (\<lambda>w. new_state H w ''none'' Persistent))"

definition mark_started :: "host \<Rightarrow> path \<Rightarrow> int \<Rightarrow> string option \<Rightarrow> qemu_state io" where
  "mark_started H vm_dir ssh_port pid_start =
     bnd (required_state H vm_dir) (\<lambda>s.
     bnd (asks (h_now H)) (\<lambda>now.
     let s' = s\<lparr>qs_last_started_at := Some now, qs_last_stopped_at := None, qs_last_error := None,
                qs_ssh_port := Some ssh_port, qs_pid_start := pid_start\<rparr>
     in andthen (save_state H vm_dir s') (ret s')))"

definition mark_stopped :: "host \<Rightarrow> path \<Rightarrow> string option \<Rightarrow> qemu_state io" where
  "mark_stopped H vm_dir error =
     bnd (required_state H vm_dir) (\<lambda>s.
     bnd (asks (h_now H)) (\<lambda>now.
     let s' = s\<lparr>qs_last_stopped_at := Some now, qs_last_error := error, qs_pid_start := None\<rparr>
     in andthen (save_state H vm_dir s') (ret s')))"

definition mark_error :: "host \<Rightarrow> path \<Rightarrow> string \<Rightarrow> qemu_state io" where
  "mark_error H vm_dir message =
     bnd (required_state H vm_dir) (\<lambda>s.
     let s' = s\<lparr>qs_last_error := Some message\<rparr>
     in andthen (save_state H vm_dir s') (ret s'))"

definition is_persistent :: "host \<Rightarrow> path \<Rightarrow> bool io" where
  "is_persistent H vm_dir =
     bnd (load_state H vm_dir) (\<lambda>s. case s of None \<Rightarrow> ret True | Some s \<Rightarrow> ret (qs_mode s = Persistent))"

definition ps_call :: "nat \<Rightarrow> call" where
  "ps_call pid = timed_call [''ps'', ''-o'', ''lstart='', ''-p'', show_nat pid] 5"

definition process_identity :: "host \<Rightarrow> nat \<Rightarrow> string option io" where
  "process_identity H pid =
     catch (\<lambda>e. is_called_process_error e \<or> e = TimeoutExpired \<or> is_os_error e)
       (bnd (run_checked H (ps_call pid)) (\<lambda>r.
          let value = strip (fst r) in ret (if value = [] then None else Some value)))
       (\<lambda>e. case e of
              CalledProcessError rc so se \<Rightarrow>
                andthen (print_err (''vm: process '' @ show_nat pid @ '' is gone: '' @ strip se)) (ret None)
            | _ \<Rightarrow> andthen (print_err (''vm: cannot read process identity for '' @ show_nat pid @ '': '' @ h_str H e)) (ret None))"

definition process_matches :: "host \<Rightarrow> nat \<Rightarrow> string option \<Rightarrow> bool io" where
  "process_matches H pid identity =
     bnd (asks (\<lambda>w. procs w pid)) (\<lambda>p.
       case p of
         None \<Rightarrow> ret False
       | Some q \<Rightarrow>
           if p_foreign q then ret True
           else if identity = None then ret True
           else bnd (process_identity H pid) (\<lambda>i. ret (i = identity)))"

section \<open>The store laws\<close>

text \<open>What is in \<open>state.yaml\<close>, without the file system.\<close>

datatype stored_record = NoState | Stored qemu_state | Corrupt

definition stored :: "host \<Rightarrow> world \<Rightarrow> path \<Rightarrow> stored_record" where
  "stored H w vm_dir =
     (case at H w (state_path vm_dir) of
        Some (File (StateDoc s)) \<Rightarrow> Stored s
      | Some (File _) \<Rightarrow> Corrupt
      | _ \<Rightarrow> NoState)"

text \<open>A directory the program can write its record into.\<close>

definition vm_dir_ready :: "host \<Rightarrow> world \<Rightarrow> path \<Rightarrow> bool" where
  "vm_dir_ready H w d \<longleftrightarrow> is_dir H w d \<and>
     (\<forall>n. \<not> h_unwritable H (child (resolve (h_cwd H) d) n) \<and>
        (\<forall>v c. h_torn H v (child (resolve (h_cwd H) d) n) c = None)) \<and>
     at H w (state_path d) \<noteq> Some Dir \<and> at H w (state_tmp d) \<noteq> Some Dir"

lemma state_names [simp]: "STATE_FILE \<noteq> ''..''" "STATE_FILE \<noteq> ''state.tmp''"
  by (simp_all add: STATE_FILE_def)

text \<open>Saving leaves exactly this file-system update behind.\<close>

definition saved :: "host \<Rightarrow> path \<Rightarrow> qemu_state \<Rightarrow> world \<Rightarrow> world" where
  "saved H d s w = set_node H (state_path d) (Some (File (StateDoc s)))
     (set_node H (state_tmp d) None (set_node H (state_tmp d) (Some (File (StateDoc s))) w))"

lemma wp_load_state [wps]:
  "wp (load_state H d) Q E w \<longleftrightarrow>
   (case stored H w d of
      Stored s \<Rightarrow> Q (Some s) w | NoState \<Rightarrow> Q None w
    | Corrupt \<Rightarrow> E (QemuStateError (path_str (state_path d))) w)"
  by (auto simp: wp_def load_state_def stored_def split: option.splits node.splits content.splits)

lemma wp_save_state:
  assumes "vm_dir_ready H w d"
  shows "wp (save_state H d s) Q E w \<longleftrightarrow> Q () (saved H d s w)"
  using assms
  by (auto simp: save_state_def wps vm_dir_ready_def is_dir_def saved_def state_path_def state_tmp_def)

lemma wp_save_state_any:
  assumes "\<And>e w'. fs w' = fs w \<or> (\<exists>n. fs w' = (fs w)(resolve (h_cwd H) (state_tmp d) := n)) \<Longrightarrow>
      procs w' = procs w \<Longrightarrow> requests w' = requests w \<Longrightarrow> E e w'"
    and "Q () (saved H d s w)"
  shows "wp (save_state H d s) Q E w"
  using assms(2)
  by (auto simp: save_state_def wps is_dir_def saved_def state_path_def state_tmp_def
      set_node_def at_def split: option.splits intro!: assms(1))

lemma stored_saved [simp]: "stored H (saved H d s w) d = Stored s"
  by (simp add: stored_def saved_def)

lemma saved_frame [simp]:
  "procs (saved H d s w) = procs w" "clock (saved H d s w) = clock w"
  "requests (saved H d s w) = requests w" "draws (saved H d s w) = draws w"
  "out (saved H d s w) = out w" "err (saved H d s w) = err w"
  by (simp_all add: saved_def)

lemma at_saved [simp]:
  "n \<noteq> STATE_FILE \<Longrightarrow> n \<noteq> ''state.tmp'' \<Longrightarrow> n \<noteq> ''..'' \<Longrightarrow> at H (saved H d s w) (child d n) = at H w (child d n)"
  "at H (saved H d s w) d = at H w d"
  by (simp_all add: saved_def state_path_def state_tmp_def)

lemma ready_saved [simp]: "vm_dir_ready H w d \<Longrightarrow> vm_dir_ready H (saved H d s w) d"
  by (auto simp: vm_dir_ready_def is_dir_def saved_def state_path_def state_tmp_def)

text \<open>The record a marking operation starts from.\<close>

definition base_state :: "host \<Rightarrow> world \<Rightarrow> path \<Rightarrow> qemu_state" where
  "base_state H w d = (case stored H w d of Stored s \<Rightarrow> s | _ \<Rightarrow> new_state H w ''none'' Persistent)"

lemma wp_required_state [wps]:
  "wp (required_state H d) Q E w \<longleftrightarrow>
   (if stored H w d = Corrupt then E (QemuStateError (path_str (state_path d))) w
    else Q (base_state H w d) w)"
  by (auto simp: required_state_def base_state_def wps split: stored_record.splits)

lemma wp_mark_stopped:
  assumes "vm_dir_ready H w d"
  shows "wp (mark_stopped H d er) Q E w \<longleftrightarrow>
    (if stored H w d = Corrupt then E (QemuStateError (path_str (state_path d))) w
     else let s = (base_state H w d)\<lparr>qs_last_stopped_at := Some (h_now H w), qs_last_error := er,
                                       qs_pid_start := None\<rparr>
          in Q s (saved H d s w))"
  by (simp add: mark_stopped_def wps Let_def wp_save_state [OF assms])

lemma wp_mark_started:
  assumes "vm_dir_ready H w d"
  shows "wp (mark_started H d port ident) Q E w \<longleftrightarrow>
    (if stored H w d = Corrupt then E (QemuStateError (path_str (state_path d))) w
     else let s = (base_state H w d)\<lparr>qs_last_started_at := Some (h_now H w), qs_last_stopped_at := None,
                    qs_last_error := None, qs_ssh_port := Some port, qs_pid_start := ident\<rparr>
          in Q s (saved H d s w))"
  by (simp add: mark_started_def wps Let_def wp_save_state [OF assms])

lemma wp_mark_error:
  assumes "vm_dir_ready H w d"
  shows "wp (mark_error H d msg) Q E w \<longleftrightarrow>
    (if stored H w d = Corrupt then E (QemuStateError (path_str (state_path d))) w
     else let s = (base_state H w d)\<lparr>qs_last_error := Some msg\<rparr> in Q s (saved H d s w))"
  by (simp add: mark_error_def wps Let_def wp_save_state [OF assms])

lemma wp_ensure_state:
  assumes "vm_dir_ready H w d"
  shows "wp (ensure_state H d profile mode) Q E w \<longleftrightarrow>
    (case stored H w d of
       Corrupt \<Rightarrow> E (QemuStateError (path_str (state_path d))) w
     | Stored s \<Rightarrow> Q s w
     | NoState \<Rightarrow> Q (new_state H w profile mode) (saved H d (new_state H w profile mode) w))"
  by (simp add: ensure_state_def wps wp_save_state [OF assms] split: stored_record.splits)

text \<open>What \<open>process_identity\<close> makes of the outcome of \<open>ps\<close>, and its effect: one \<open>ps\<close>.\<close>

fun read_identity :: "outcome \<Rightarrow> string option" where
  "read_identity (Exit rc so se) = (if rc = 0 \<and> strip so \<noteq> [] then Some (strip so) else None)"
| "read_identity RunTimeout = None"
| "read_identity (RunOSError m) = None"

lemma process_identity_effect:
  "wp (process_identity H pid)
     (\<lambda>i w'. i = read_identity (r_result (h_run H (ps_call pid) w)) \<and> fs w' = r_fs (h_run H (ps_call pid) w) \<and>
        procs w' = r_procs (h_run H (ps_call pid) w) \<and> requests w' = requests w @ [Run (ps_call pid)])
     (\<lambda>_ _. False) w"
  by (simp add: process_identity_def run_checked_def wps Let_def split: outcome.split)

lemma emits_state [emits_intros]:
  "emits P (load_state H d)" "emits P (save_state H d s)" "emits P (required_state H d)"
  "emits P (ensure_state H d prof mode)" "emits P (mark_started H d port ident)"
  "emits P (mark_stopped H d er)" "emits P (mark_error H d msg)"
proof -
  show 1: "emits P (load_state H d)"
    by (rule emits_same) (simp add: load_state_def split: option.split node.split content.split)
  show 2: "emits P (save_state H d s)" for s unfolding save_state_def by (intro emits_intros)
  show 3: "emits P (required_state H d)" unfolding required_state_def by (intro emits_intros 1)
  show "emits P (ensure_state H d prof mode)" unfolding ensure_state_def by (intro emits_intros 1 2)
  show "emits P (mark_started H d port ident)" "emits P (mark_stopped H d er)" "emits P (mark_error H d msg)"
    unfolding mark_started_def mark_stopped_def mark_error_def by (intro emits_intros 2 3)+
qed

lemma emits_process_identity [emits_intros]: "P (Run (ps_call pid)) \<Longrightarrow> emits P (process_identity H pid)"
  unfolding process_identity_def by (intro emits_intros)

lemma emits_process_matches [emits_intros]: "P (Run (ps_call pid)) \<Longrightarrow> emits P (process_matches H pid i)"
  unfolding process_matches_def by (intro emits_intros)

section \<open>The store as a contract\<close>

lemma save_state_stored:
  "wp (save_state H d s) (\<lambda>_ w'. stored H w' d = Stored s) (\<lambda>_ w'. stored H w' d = stored H w d) w"
proof -
  have frame: "fs w' = fs w \<or> (\<exists>n. fs w' = (fs w)(resolve (h_cwd H) (state_tmp d) := n)) \<Longrightarrow>
      stored H w' d = stored H w d" for w'
    unfolding stored_def at_def state_path_def state_tmp_def
    by (elim disjE exE) simp_all
  show ?thesis by (rule wp_save_state_any) (erule frame, simp)
qed

interpretation state_file: record_store "load_state H d" "save_state H d" "\<lambda>w. stored H w d" Stored for H d
proof
  show "save_state H d s w = (Inr (), w') \<Longrightarrow> stored H w' d = Stored s" for s w w'
    using wp_returns [OF save_state_stored] by simp
  show "save_state H d s w = (Inl e, w') \<Longrightarrow> stored H w' d = stored H w d" for s w e w'
    by (rule wp_raises [OF save_state_stored])
  show "load_state H d w = (Inr (Some s), w)" if "stored H w d = Stored s" for s w
    using that wp_exists [of "load_state H d" "\<lambda>r w'. r = Some s \<and> w' = w" w]
    by (auto simp: wps split: stored_record.splits)
qed

text \<open>Every marking operation computes the new record without touching the store, saves it and returns it.\<close>

lemma marks_by_update:
  "mark_started H d port ident = bnd (bnd (required_state H d) (\<lambda>s. asks (\<lambda>w. s\<lparr>qs_last_started_at := Some (h_now H w),
     qs_last_stopped_at := None, qs_last_error := None, qs_ssh_port := Some port, qs_pid_start := ident\<rparr>)))
     (\<lambda>s. andthen (save_state H d s) (ret s))"
  "mark_stopped H d er = bnd (bnd (required_state H d) (\<lambda>s. asks (\<lambda>w. s\<lparr>qs_last_stopped_at := Some (h_now H w),
     qs_last_error := er, qs_pid_start := None\<rparr>))) (\<lambda>s. andthen (save_state H d s) (ret s))"
  "mark_error H d msg = bnd (bnd (required_state H d) (\<lambda>s. ret (s\<lparr>qs_last_error := Some msg\<rparr>)))
     (\<lambda>s. andthen (save_state H d s) (ret s))"
  by (auto simp: mark_started_def mark_stopped_def mark_error_def bnd_def asks_def ret_def Let_def fun_eq_iff
      split: prod.splits sum.splits)

lemma required_state_same: "snd (required_state H d w) = w"
proof -
  have "wp (required_state H d) (\<lambda>_ w'. w' = w) (\<lambda>_ w'. w' = w) w" by (simp add: wps)
  then show ?thesis by (auto simp: wp_def split: prod.splits sum.splits)
qed

lemma required_then_same:
  "bnd (required_state H d) (\<lambda>s. asks (f s)) w = (r, w') \<Longrightarrow> w' = w"
  "bnd (required_state H d) (\<lambda>s. ret (g s)) w = (r, w') \<Longrightarrow> w' = w"
  using required_state_same [of H d w] by (auto simp: bnd_def asks_def ret_def split: prod.splits sum.splits)

lemma mark_read_or_kept:
  assumes "m = bnd k (\<lambda>s. andthen (save_state H d s) (ret s))" "\<And>r w'. k w = (r, w') \<Longrightarrow> w' = w"
  shows "case m w of (Inl _, w') \<Rightarrow> stored H w' d = stored H w d
       | (Inr s, w') \<Rightarrow> load_state H d w' = (Inr (Some s), w')"
  using state_file.saved_is_loaded [of k H d w] state_file.failure_keeps_the_record [of k w H d] assms(2)
  unfolding assms(1) by (fastforce split: prod.split sum.split)

section \<open>Properties\<close>

text \<open>The state record is replaced as a whole. When saving returns, \<open>state.yaml\<close> holds exactly the new
  record; when it raises, at whichever of its steps, it holds what it held before.\<close>

theorem state_saved_atomically:
  "stored H (snd (save_state H d s w)) d =
     (case fst (save_state H d s w) of Inr _ \<Rightarrow> Stored s | Inl _ \<Rightarrow> stored H w d)"
  using save_state_stored [of H d s w] by (auto simp: wp_def split: prod.splits sum.splits)

text \<open>C14: every change of the record is all or nothing. When an operation that marks a start, a stop or an error returns
  a record, the next load of \<open>state.yaml\<close> gives this record. When it raises, at whichever of its steps, \<open>state.yaml\<close> is
  what it was before: the same record, missing, or unreadable. This holds for writes that fail half way too, because a
  record is written beside the old one, which is replaced only once the new one is complete.\<close>

theorem marks_are_atomic:
  "list_all (\<lambda>mark. case mark w of
        (Inl _, w') \<Rightarrow> stored H w' d = stored H w d
      | (Inr s, w') \<Rightarrow> load_state H d w' = (Inr (Some s), w'))
     [mark_started H d port ident, mark_stopped H d er, mark_error H d msg]"
proof -
  have "case mark_started H d port ident w of (Inl _, w') \<Rightarrow> stored H w' d = stored H w d
      | (Inr s, w') \<Rightarrow> load_state H d w' = (Inr (Some s), w')"
    by (rule mark_read_or_kept [OF marks_by_update(1)]) (erule required_then_same)
  moreover have "case mark_stopped H d er w of (Inl _, w') \<Rightarrow> stored H w' d = stored H w d
      | (Inr s, w') \<Rightarrow> load_state H d w' = (Inr (Some s), w')"
    by (rule mark_read_or_kept [OF marks_by_update(2)]) (erule required_then_same)
  moreover have "case mark_error H d msg w of (Inl _, w') \<Rightarrow> stored H w' d = stored H w d
      | (Inr s, w') \<Rightarrow> load_state H d w' = (Inr (Some s), w')"
    by (rule mark_read_or_kept [OF marks_by_update(3)]) (erule required_then_same)
  ultimately show ?thesis by simp
qed

text \<open>What is marked is what is read. After a start or a stop has been recorded, the next read of the record
  gives it back: with the port and the process identity of the start and no error, respectively without identity,
  and in both cases with the mode, profile and creation time that were stored.\<close>

theorem marks_are_read_back:
  "(case mark_started H d port ident w of (Inl _, _) \<Rightarrow> True | (Inr s, w') \<Rightarrow>
      load_state H d w' = (Inr (Some s), w') \<and> qs_ssh_port s = Some port \<and> qs_pid_start s = ident \<and>
      qs_last_error s = None \<and> qs_last_stopped_at s = None \<and> qs_mode s = qs_mode (base_state H w d) \<and>
      qs_created_at s = qs_created_at (base_state H w d)) \<and>
   (case mark_stopped H d er w of (Inl _, _) \<Rightarrow> True | (Inr s, w') \<Rightarrow>
      load_state H d w' = (Inr (Some s), w') \<and> qs_ssh_port s = qs_ssh_port (base_state H w d) \<and>
      qs_pid_start s = None \<and> qs_last_error s = er \<and> qs_mode s = qs_mode (base_state H w d) \<and>
      qs_created_at s = qs_created_at (base_state H w d))"
proof -
  have load: "load_state H d (saved H d s w) = (Inr (Some s), saved H d s w)" for s w
    using wp_exists [of "load_state H d" "\<lambda>r w'. r = Some s \<and> w' = saved H d s w" "saved H d s w"] by (simp add: wps)
  have "wp (mark_started H d port ident) (\<lambda>s w'. load_state H d w' = (Inr (Some s), w') \<and> qs_ssh_port s = Some port \<and>
      qs_pid_start s = ident \<and> qs_last_error s = None \<and> qs_last_stopped_at s = None \<and>
      qs_mode s = qs_mode (base_state H w d) \<and> qs_created_at s = qs_created_at (base_state H w d)) (\<lambda>_ _. True) w"
    by (auto simp: mark_started_def wps Let_def load intro!: wp_save_state_any)
  moreover have "wp (mark_stopped H d er) (\<lambda>s w'. load_state H d w' = (Inr (Some s), w') \<and>
      qs_ssh_port s = qs_ssh_port (base_state H w d) \<and> qs_pid_start s = None \<and> qs_last_error s = er \<and>
      qs_mode s = qs_mode (base_state H w d) \<and> qs_created_at s = qs_created_at (base_state H w d)) (\<lambda>_ _. True) w"
    by (auto simp: mark_stopped_def wps Let_def load intro!: wp_save_state_any)
  ultimately show ?thesis
    by (auto simp: wp_def split: prod.splits sum.splits)
qed

end
