(* ===== verification/VpnCore.thy ===== *)
theory VpnCore
  imports World
begin

text \<open>
  \<open>workspace/cli/vpn_core.py\<close>: workspace discovery, the resolution of OpenVPN files (explicit
  argument, then environment variable, then the default location), and the health of the tunnel.
\<close>

section \<open>Locations\<close>

definition boot_name :: "host \<Rightarrow> string" where
  "boot_name H = (if h_system H = ''Darwin'' then ''.boot-macos'' else ''.boot-linux'')"

fun climb :: "host \<Rightarrow> world \<Rightarrow> nat \<Rightarrow> path \<Rightarrow> path option" where
  "climb H w 0 current = None"
| "climb H w (Suc k) current =
     (if is_dir H w (child current ''workspace'') then Some current
      else if current = parent current then None
      else climb H w k (parent current))"

definition find_workspace_root_from :: "host \<Rightarrow> world \<Rightarrow> path \<Rightarrow> path" where
  "find_workspace_root_from H w start =
     (case climb H w 12 (resolve (h_cwd H) start) of
        Some r \<Rightarrow> r | None \<Rightarrow> resolve (h_cwd H) (h_cwd H))"

definition find_workspace_root :: "host \<Rightarrow> world \<Rightarrow> path" where
  "find_workspace_root H w = find_workspace_root_from H w (h_cwd H)"

definition find_openvpn_binary :: "host \<Rightarrow> path \<Rightarrow> string io" where
  "find_openvpn_binary H root =
     (let boot_bin = child (child (child root (boot_name H)) ''bin'') ''openvpn''
      in bnd (asks (\<lambda>w. is_file H w boot_bin)) (\<lambda>f.
         if f then ret (path_str boot_bin) else raise VPNBinaryNotFoundError))"

definition default_vpn_config_path :: "path \<Rightarrow> path" where
  "default_vpn_config_path root = child (child (child (child root ''workspace'') ''config'') ''vpn'') ''client.ovpn''"

definition default_vpn_auth_path :: "path \<Rightarrow> path" where
  "default_vpn_auth_path root = child (child (child (child root ''workspace'') ''config'') ''vpn'') ''auth.txt''"

definition env_stripped :: "host \<Rightarrow> string \<Rightarrow> string" where
  "env_stripped H k = strip (case h_env H k of None \<Rightarrow> [] | Some v \<Rightarrow> v)"

definition resolve_vpn_config :: "host \<Rightarrow> path \<Rightarrow> string \<Rightarrow> path io" where
  "resolve_vpn_config H root explicit =
     (let env_val = env_stripped H ''OPENVPN_CONFIG_FILE'';
          try = (\<lambda>p e. bnd (asks (\<lambda>w. is_file H w p)) (\<lambda>f.
                  if f then ret (resolve (h_cwd H) p) else raise (VPNConfigNotFoundError e)))
      in if explicit \<noteq> [] then
           (let p = mk_path (expanduser H explicit) in try p (path_str p))
         else if env_val \<noteq> [] then
           (let p = mk_path (expanduser H env_val)
            in try p (''OPENVPN_CONFIG_FILE not found: '' @ path_str p))
         else (let p = default_vpn_config_path root in try p (path_str p)))"

definition resolve_vpn_auth :: "host \<Rightarrow> world \<Rightarrow> path \<Rightarrow> string \<Rightarrow> path option" where
  "resolve_vpn_auth H w root explicit =
     (let env_val = env_stripped H ''OPENVPN_AUTH_FILE'';
          p = (if explicit \<noteq> [] then mk_path (expanduser H explicit)
               else if env_val \<noteq> [] then mk_path (expanduser H env_val)
               else default_vpn_auth_path root)
      in if is_file H w p then Some (resolve (h_cwd H) p) else None)"

definition validate_ovpn :: "host \<Rightarrow> path \<Rightarrow> bool io" where
  "validate_ovpn H p =
     bnd (asks (\<lambda>w. is_file H w p)) (\<lambda>f.
       if \<not> f then ret False
       else catch is_os_error
         (bnd (read_text H p) (\<lambda>t.
            let content = lower t
            in ret (sublist ''remote '' content \<or> sublist ''proto '' content \<or> sublist ''dev '' content)))
         (\<lambda>_. ret False))"

section \<open>Health of the tunnel\<close>

definition probe_command :: "host \<Rightarrow> string list \<Rightarrow> bool io" where
  "probe_command H cmd =
     catch is_os_error
       (catch is_called_process_error (andthen (run_cmd H cmd) (ret True)) (\<lambda>_. ret False))
       (\<lambda>e. andthen (print_err (''vpn: probe failed ('' @ join '' '' cmd @ ''): '' @ h_str H e)) (ret False))"

definition tunnel_interface_up :: "host \<Rightarrow> bool io" where
  "tunnel_interface_up H =
     (if h_darwin H then
        catch is_os_error
          (catch is_called_process_error
             (bnd (run_checked H (plain_call [''ifconfig'', ''-l''])) (\<lambda>r. ret (sublist ''utun'' (fst r))))
             (\<lambda>_. ret False))
          (\<lambda>e. andthen (print_err (''vpn: ifconfig failed: '' @ h_str H e)) (ret False))
      else probe_command H [''ip'', ''addr'', ''show'', ''tun0''])"

definition process_running :: "host \<Rightarrow> string \<Rightarrow> bool io" where
  "process_running H binary = probe_command H [''pgrep'', ''-f'', binary]"

fun is_vpn_lookup_error :: "exn \<Rightarrow> bool" where
  "is_vpn_lookup_error VPNBinaryNotFoundError = True"
| "is_vpn_lookup_error (VPNConfigNotFoundError _) = True"
| "is_vpn_lookup_error _ = False"

definition workspace_openvpn_running :: "host \<Rightarrow> path \<Rightarrow> bool io" where
  "workspace_openvpn_running H root =
     bnd (catch is_vpn_lookup_error
            (bnd (resolve_vpn_config H root []) (\<lambda>config.
             bnd (find_openvpn_binary H root) (\<lambda>binary. ret (Some (config, binary)))))
            (\<lambda>_. ret None)) (\<lambda>found.
       case found of
         None \<Rightarrow> ret False
       | Some cb \<Rightarrow>
           bnd (process_running H (path_str (fst cb))) (\<lambda>r.
             if r then ret True else process_running H (snd cb)))"

definition vpn_log_path :: "host \<Rightarrow> path" where
  "vpn_log_path H =
     (if h_darwin H then mk_path ''/var/log/workspace/openvpn.log''
      else child (child (child (child (h_home H) ''.local'') ''state'') ''workspace'') ''openvpn.log'')"

definition take_last :: "nat \<Rightarrow> 'a list \<Rightarrow> 'a list" where
  "take_last n xs = (if n = 0 then xs else drop (length xs - n) xs)"

definition read_vpn_log_lines :: "host \<Rightarrow> path \<Rightarrow> nat \<Rightarrow> string list option io" where
  "read_vpn_log_lines H p n =
     catch is_os_error
       (bnd (read_text H p) (\<lambda>t. ret (Some (take_last n (splitlines t)))))
       (\<lambda>e. andthen (print_err (''vpn: cannot read log '' @ path_str p @ '': '' @ h_str H e)) (ret None))"

text \<open>The scan of the log from its last line upwards.\<close>

definition log_line_down :: "string \<Rightarrow> bool" where
  "log_line_down l \<longleftrightarrow> sublist ''SIGTERM'' l \<or> sublist ''process exiting'' l"

definition log_line_up :: "string \<Rightarrow> bool" where
  "log_line_up l \<longleftrightarrow> sublist ''Initialization Sequence Completed'' l"

fun scan_back :: "string list \<Rightarrow> bool" where
  "scan_back [] = False"
| "scan_back (l # ls) = (if log_line_down l then False else if log_line_up l then True else scan_back ls)"

definition log_connected :: "string list \<Rightarrow> bool" where
  "log_connected content = scan_back (rev content)"

definition recent_log_connected :: "host \<Rightarrow> nat \<Rightarrow> bool io" where
  "recent_log_connected H n =
     bnd (read_vpn_log_lines H (vpn_log_path H) n) (\<lambda>content.
       case content of None \<Rightarrow> ret False | Some ls \<Rightarrow> ret (ls \<noteq> [] \<and> log_connected ls))"

definition vpn_connected :: "host \<Rightarrow> path \<Rightarrow> bool io" where
  "vpn_connected H root =
     bnd (tunnel_interface_up H) (\<lambda>up.
       if \<not> up then ret False
       else bnd (workspace_openvpn_running H root) (\<lambda>r.
              if r then ret True else recent_log_connected H 20))"

definition health_result :: "host \<Rightarrow> path \<Rightarrow> (string \<times> bool) io" where
  "health_result H root =
     bnd (vpn_connected H root) (\<lambda>c. ret (if c then ''connected'' else ''disconnected'', c))"

definition openvpn_cmd :: "string \<Rightarrow> path \<Rightarrow> path option \<Rightarrow> string list \<Rightarrow> string list" where
  "openvpn_cmd binary config auth extra =
     [binary, ''--config'', path_str config]
     @ (case auth of None \<Rightarrow> [] | Some a \<Rightarrow> [''--auth-user-pass'', path_str a]) @ extra"

definition emit_vpn_log_tail :: "host \<Rightarrow> nat \<Rightarrow> unit io" where
  "emit_vpn_log_tail H n =
     (let p = vpn_log_path H in
      andthen (print_out (''--- OpenVPN log: '' @ path_str p @ '' (last '' @ show_nat n @ '' lines) ---''))
        (bnd (asks (\<lambda>w. is_file H w p)) (\<lambda>f.
           if \<not> f then print_out ''(log file not created yet)''
           else bnd (read_vpn_log_lines H p n) (\<lambda>content.
             case content of
               None \<Rightarrow> print_out ''(cannot read log; try: make vpn-logs)''
             | Some ls \<Rightarrow> if ls = [] then print_out ''(empty)'' else each print_out ls))))"

section \<open>Facts\<close>

text \<open>The scan looks at the latest line that says anything about the tunnel.\<close>

lemma scan_back_append:
  "(\<forall>l \<in> set ls. \<not> log_line_down l \<and> \<not> log_line_up l) \<Longrightarrow> scan_back (ls @ ms) = scan_back ms"
  by (induction ls) auto

lemma scan_back_True:
  "scan_back ls \<longleftrightarrow> (\<exists>xs l ys. ls = xs @ l # ys \<and> log_line_up l \<and> \<not> log_line_down l \<and>
     (\<forall>x \<in> set xs. \<not> log_line_down x \<and> \<not> log_line_up x))"
proof (induction ls)
  case Nil
  then show ?case by simp
next
  case (Cons l ls)
  show ?case
  proof (cases "log_line_down l \<or> log_line_up l")
    case True
    show ?thesis
    proof (cases "log_line_down l")
      case True
      then show ?thesis by (auto simp: Cons_eq_append_conv)
    next
      case False
      with True have "scan_back (l # ls) \<and> l # ls = [] @ l # ls \<and> log_line_up l \<and> \<not> log_line_down l"
        by simp
      then show ?thesis by fastforce
    qed
  next
    case False
    then have "scan_back (l # ls) = scan_back ls" by simp
    also have "\<dots> \<longleftrightarrow> (\<exists>xs k ys. ls = xs @ k # ys \<and> log_line_up k \<and> \<not> log_line_down k \<and>
       (\<forall>x \<in> set xs. \<not> log_line_down x \<and> \<not> log_line_up x))" by (rule Cons.IH)
    also have "\<dots> \<longleftrightarrow> (\<exists>xs k ys. l # ls = xs @ k # ys \<and> log_line_up k \<and> \<not> log_line_down k \<and>
       (\<forall>x \<in> set xs. \<not> log_line_down x \<and> \<not> log_line_up x))"
    proof
      assume "\<exists>xs k ys. ls = xs @ k # ys \<and> log_line_up k \<and> \<not> log_line_down k \<and>
        (\<forall>x \<in> set xs. \<not> log_line_down x \<and> \<not> log_line_up x)"
      then obtain xs k ys where "ls = xs @ k # ys" "log_line_up k" "\<not> log_line_down k"
        "\<forall>x \<in> set xs. \<not> log_line_down x \<and> \<not> log_line_up x" by blast
      with False show "\<exists>xs k ys. l # ls = xs @ k # ys \<and> log_line_up k \<and> \<not> log_line_down k \<and>
        (\<forall>x \<in> set xs. \<not> log_line_down x \<and> \<not> log_line_up x)"
        by (intro exI [of _ "l # xs"] exI [of _ k] exI [of _ ys]) simp
    next
      assume "\<exists>xs k ys. l # ls = xs @ k # ys \<and> log_line_up k \<and> \<not> log_line_down k \<and>
        (\<forall>x \<in> set xs. \<not> log_line_down x \<and> \<not> log_line_up x)"
      then obtain xs k ys where *: "l # ls = xs @ k # ys" "log_line_up k" "\<not> log_line_down k"
        "\<forall>x \<in> set xs. \<not> log_line_down x \<and> \<not> log_line_up x" by blast
      with False show "\<exists>xs k ys. ls = xs @ k # ys \<and> log_line_up k \<and> \<not> log_line_down k \<and>
        (\<forall>x \<in> set xs. \<not> log_line_down x \<and> \<not> log_line_up x)"
        by (cases xs) auto
    qed
    finally show ?thesis .
  qed
qed

lemma climb_root: "climb H w k p = Some r \<Longrightarrow> is_dir H w (child r ''workspace'')"
  by (induction k arbitrary: p) (auto split: if_splits)

lemma climb_above: "climb H w k p = Some r \<Longrightarrow> below r p"
proof (induction k arbitrary: p)
  case 0
  then show ?case by simp
next
  case (Suc k)
  show ?case
  proof (cases "is_dir H w (child p ''workspace'')")
    case True
    with Suc.prems show ?thesis by (simp add: below_def)
  next
    case False
    with Suc.prems have "climb H w k (parent p) = Some r" by (auto split: if_splits)
    then have "below r (parent p)" by (rule Suc.IH)
    then show ?thesis
      by (auto simp: below_def parent_def intro: prefix_order.trans [OF _ prefixeq_butlast])
  qed
qed

lemma wp_asks_file: "wp (bnd (asks (\<lambda>w. is_file H w p)) f) Q E w \<longleftrightarrow> wp (f (is_file H w p)) Q E w"
  by (simp add: wps)

lemma resolve_vpn_config_explicit:
  "explicit \<noteq> [] \<Longrightarrow> resolve_vpn_config H root explicit w = (r, w') \<Longrightarrow>
   w' = w \<and> (r = Inr (resolve (h_cwd H) (mk_path (expanduser H explicit)))
              \<and> is_file H w (mk_path (expanduser H explicit))
            \<or> r = Inl (VPNConfigNotFoundError (path_str (mk_path (expanduser H explicit))))
              \<and> \<not> is_file H w (mk_path (expanduser H explicit)))"
  by (auto simp: resolve_vpn_config_def Let_def bnd_def asks_def ret_def raise_def split: if_splits)

lemma validate_ovpn_pure: "\<exists>b. validate_ovpn H p w = (Inr b, w) \<and> (b \<longrightarrow> is_file H w p)"
  by (auto simp: validate_ovpn_def bnd_def asks_def ret_def catch_def read_text_def read_content_def
      is_file_def Let_def split: option.splits node.splits)

text \<open>Looking for the tunnel's files runs nothing.\<close>

lemma emits_resolve_vpn [emits_intros]: "emits P (resolve_vpn_config H root e)"
  unfolding resolve_vpn_config_def Let_def by (intro emits_intros)

section \<open>Properties\<close>

text \<open>The VPN log decides by its latest word. The log says connected exactly when its last line about the
  tunnel, if any, reports a completed initialisation and no termination.\<close>

theorem log_connected_latest:
  "log_connected content \<longleftrightarrow>
   (\<exists>before l after. content = before @ l # after \<and> log_line_up l \<and> \<not> log_line_down l \<and>
      list_all (\<lambda>x. \<not> log_line_down x \<and> \<not> log_line_up x) after)"
  unfolding log_connected_def scan_back_True
proof
  assume "\<exists>xs l ys. rev content = xs @ l # ys \<and> log_line_up l \<and> \<not> log_line_down l \<and>
      (\<forall>x\<in>set xs. \<not> log_line_down x \<and> \<not> log_line_up x)"
  then obtain xs l ys where a: "rev content = xs @ l # ys" "log_line_up l" "\<not> log_line_down l"
    "\<forall>x\<in>set xs. \<not> log_line_down x \<and> \<not> log_line_up x" by blast
  then have "content = rev ys @ l # rev xs" by (metis append.assoc append_Cons append_Nil rev.simps(2) rev_append rev_rev_ident)
  with a show "\<exists>before l after. content = before @ l # after \<and> log_line_up l \<and> \<not> log_line_down l \<and>
      list_all (\<lambda>x. \<not> log_line_down x \<and> \<not> log_line_up x) after"
    by (intro exI [of _ "rev ys"] exI [of _ l] exI [of _ "rev xs"]) (simp add: list_all_iff)
next
  assume "\<exists>before l after. content = before @ l # after \<and> log_line_up l \<and> \<not> log_line_down l \<and>
      list_all (\<lambda>x. \<not> log_line_down x \<and> \<not> log_line_up x) after"
  then obtain b l a where *: "content = b @ l # a" "log_line_up l" "\<not> log_line_down l"
    "list_all (\<lambda>x. \<not> log_line_down x \<and> \<not> log_line_up x) a" by blast
  then show "\<exists>xs l ys. rev content = xs @ l # ys \<and> log_line_up l \<and> \<not> log_line_down l \<and>
      (\<forall>x\<in>set xs. \<not> log_line_down x \<and> \<not> log_line_up x)"
    by (intro exI [of _ "rev a"] exI [of _ l] exI [of _ "rev b"]) (simp add: list_all_iff)
qed

end
