(* ===== verification/QemuResolve.thy ===== *)
theory QemuResolve
  imports VpnCore
begin

text \<open>
  \<open>workspace/cli/hypervisor/qemu_resolve.py\<close> and \<open>qemu_qmp.py\<close>: QEMU binaries come from the
  boot directory, then from the search path; the accelerator is probed; and the controlled shutdown
  talks to the machine's QMP socket.
\<close>

section \<open>Binaries and firmware\<close>

fun guest_bin :: "guest_arch \<Rightarrow> string" where
  "guest_bin Aarch64 = ''qemu-system-aarch64''"
| "guest_bin X86_64 = ''qemu-system-x86_64''"

definition workspace_boot_dir :: "host \<Rightarrow> world \<Rightarrow> path" where
  "workspace_boot_dir H w = child (find_workspace_root H w) (boot_name H)"

definition binary_not_found :: "string \<Rightarrow> exn" where
  "binary_not_found name = FileNotFoundError
     (name @ '' not found; run: make install-qemu (or workspace/scripts/bootstrap/bootstrap_qemu.sh)'')"

definition resolve_binary :: "host \<Rightarrow> string \<Rightarrow> bool \<Rightarrow> bool \<Rightarrow> path io" where
  "resolve_binary H name allow_path warn =
     bnd (asks (\<lambda>w. (child (child (workspace_boot_dir H w) ''bin'') name, w))) (\<lambda>(boot_bin, w).
       if is_file H w boot_bin then ret boot_bin
       else if allow_path then
         (case h_which H w name of
            None \<Rightarrow> raise (binary_not_found name)
          | Some found \<Rightarrow>
              andthen (when_io warn (print_err (''vm: WARNING: using PATH '' @ name
                         @ '' (boot-dir missing; run make install-qemu)'')))
                (ret (mk_path found)))
       else raise (binary_not_found name))"

definition resolve_qemu_system :: "host \<Rightarrow> guest_arch \<Rightarrow> path io" where
  "resolve_qemu_system H a = resolve_binary H (guest_bin a) True True"

definition resolve_cloud_localds :: "host \<Rightarrow> path io" where
  "resolve_cloud_localds H = resolve_binary H ''cloud-localds'' True False"

definition resolve_qemu_img :: "host \<Rightarrow> path io" where
  "resolve_qemu_img H = resolve_binary H ''qemu-img'' True True"

definition resolve_aarch64_firmware :: "host \<Rightarrow> path option io" where
  "resolve_aarch64_firmware H =
     bnd (asks (\<lambda>w. (child (child (child (child (workspace_boot_dir H w) ''share'') ''qemu'') ''firmware'') ''QEMU_EFI.fd'', w)))
       (\<lambda>(bundled, w).
       if is_file H w bundled then ret (Some bundled)
       else if h_system H = ''Darwin'' then
         (case h_which H w ''brew'' of
            None \<Rightarrow> ret None
          | Some brew \<Rightarrow>
              if brew = [] then ret None
              else bnd (run_checked H (plain_call [brew, ''--prefix'', ''qemu''])) (\<lambda>r.
                let candidate = child (child (child (mk_path (strip (fst r))) ''share'') ''qemu'') ''edk2-aarch64-code.fd''
                in bnd (asks (\<lambda>w. is_file H w candidate)) (\<lambda>f.
                   ret (if f then Some candidate else None))))
       else
         (let distro = mk_path ''/usr/share/qemu-efi-aarch64/QEMU_EFI.fd''
          in ret (if is_file H w distro then Some distro else None)))"

text \<open>A working accelerator keeps qemu idle until the time limit; a broken one exits with an error.\<close>

definition probe_accel :: "host \<Rightarrow> path \<Rightarrow> string \<Rightarrow> bool io" where
  "probe_accel H qemu_bin accel =
     catch is_os_error
       (catch is_called_process_error
         (catch (\<lambda>e. e = TimeoutExpired)
           (andthen (bnd (run_checked H (timed_call
                [path_str qemu_bin, ''-accel'', accel, ''-machine'', ''none'', ''-display'', ''none''] 5))
                (\<lambda>_. ret ())) (ret True))
           (\<lambda>_. ret True))
         (\<lambda>e. case e of
            CalledProcessError rc so se \<Rightarrow> andthen (when_io (strip se \<noteq> []) (print_err se)) (ret False)
          | _ \<Rightarrow> ret False))
       (\<lambda>e. andthen (print_err (''probe_accel '' @ accel @ '': '' @ h_str H e)) (ret False))"

fun accel_name :: "accel \<Rightarrow> string" where
  "accel_name AccAuto = ''auto''"
| "accel_name AccKvm = ''kvm''"
| "accel_name AccHvf = ''hvf''"
| "accel_name AccWhpx = ''whpx''"
| "accel_name AccTcg = ''tcg''"

definition probe_or_tcg :: "host \<Rightarrow> path \<Rightarrow> string \<Rightarrow> string io" where
  "probe_or_tcg H qemu_bin a = bnd (probe_accel H qemu_bin a) (\<lambda>ok. ret (if ok then a else ''tcg''))"

definition resolve_accel :: "host \<Rightarrow> accel \<Rightarrow> path \<Rightarrow> string io" where
  "resolve_accel H requested qemu_bin =
     (if requested \<noteq> AccAuto then ret (accel_name requested)
      else if h_system H = ''Linux'' then probe_or_tcg H qemu_bin ''kvm''
      else if h_system H = ''Darwin'' then probe_or_tcg H qemu_bin ''hvf''
      else if h_system H = ''Windows'' then probe_or_tcg H qemu_bin ''whpx''
      else ret ''tcg'')"

section \<open>QMP\<close>

text \<open>Reading lines until the reply of a command: events in between are skipped.\<close>

fun qmp_await :: "string \<Rightarrow> qmp_line list \<Rightarrow> exn + qmp_line list" where
  "qmp_await command [] = Inl (QmpClosedError command)"
| "qmp_await command (QmpBadJson # ls) = Inl JSONDecodeError"
| "qmp_await command (QmpRecvError # ls) = Inl (OSError ''recv'')"
| "qmp_await command (QmpObj keys detail # ls) =
     (if ''error'' \<in> set keys then Inl (QmpCommandError command detail)
      else if ''return'' \<in> set keys then Inr ls
      else qmp_await command ls)"

definition qmp_greeting :: "qmp_line list \<Rightarrow> exn + qmp_line list" where
  "qmp_greeting ls =
     (case ls of
        [] \<Rightarrow> Inl (QmpClosedError ''greeting'')
      | QmpBadJson # _ \<Rightarrow> Inl JSONDecodeError
      | QmpRecvError # _ \<Rightarrow> Inl (OSError ''recv'')
      | QmpObj keys _ # rest \<Rightarrow> if ''QMP'' \<in> set keys then Inr rest else Inl QmpProtocolError)"

definition qmp_command :: "path \<Rightarrow> string \<Rightarrow> qmp_line list \<Rightarrow> qmp_line list io" where
  "qmp_command sock command ls =
     andthen (update (\<lambda>w. w\<lparr>requests := requests w @ [QmpSend sock command]\<rparr>))
       (lift_sum (qmp_await command ls))"

definition powerdown :: "host \<Rightarrow> path \<Rightarrow> unit io" where
  "powerdown H sock =
     catch (\<lambda>e. is_os_error e \<or> e = JSONDecodeError)
       (bnd get_world (\<lambda>w.
          let s = h_qmp H sock w in
          andthen (update (\<lambda>w. w\<lparr>procs := qm_procs s, clock := clock w + qm_time s\<rparr>))
            (case qm_lines s of
               None \<Rightarrow> raise (OSError ''connect'')
             | Some ls \<Rightarrow>
                 bnd (lift_sum (qmp_greeting ls)) (\<lambda>ls.
                 bnd (qmp_command sock ''qmp_capabilities'' ls) (\<lambda>ls.
                 bnd (qmp_command sock ''system_powerdown'' ls) (\<lambda>_. ret ()))))))
       (\<lambda>_. raise (QmpConnectError (path_str sock)))"

section \<open>Facts\<close>

lemma qmp_await_Inr:
  "qmp_await c ls = Inr rest \<Longrightarrow>
   \<exists>xs keys d. ls = xs @ QmpObj keys d # rest \<and> ''return'' \<in> set keys \<and> ''error'' \<notin> set keys"
proof (induction c ls rule: qmp_await.induct)
  case (4 command keys detail ls)
  show ?case
  proof (cases "''error'' \<in> set keys \<or> ''return'' \<in> set keys")
    case True
    with "4.prems" have "QmpObj keys detail # ls = [] @ QmpObj keys detail # rest \<and> ''return'' \<in> set keys \<and> ''error'' \<notin> set keys"
      by (auto split: if_splits)
    then show ?thesis by blast
  next
    case False
    with 4 obtain xs ks d where "ls = xs @ QmpObj ks d # rest" "''return'' \<in> set ks" "''error'' \<notin> set ks"
      by auto
    then have "QmpObj keys detail # ls = (QmpObj keys detail # xs) @ QmpObj ks d # rest \<and> ''return'' \<in> set ks \<and> ''error'' \<notin> set ks"
      by simp
    then show ?thesis by blast
  qed
qed simp_all

lemma qmp_await_error: "qmp_await c ls = Inl e \<Longrightarrow> is_qmp_error e \<or> is_os_error e \<or> e = JSONDecodeError"
  by (induction c ls rule: qmp_await.induct) (auto split: if_splits)

lemma qmp_greeting_error: "qmp_greeting ls = Inl e \<Longrightarrow> is_qmp_error e \<or> is_os_error e \<or> e = JSONDecodeError"
  by (auto simp: qmp_greeting_def split: list.splits qmp_line.splits if_splits)

lemma emits_resolve [emits_intros]:
  "emits P (resolve_binary H name a b)" "emits P (resolve_qemu_system H g)" "emits P (resolve_qemu_img H)"
  unfolding resolve_qemu_system_def resolve_qemu_img_def resolve_binary_def by (intro emits_intros)+

text \<open>The probes of the host's tools: an accelerator, and where Homebrew keeps qemu.\<close>

fun tool_probe :: "request \<Rightarrow> bool" where
  "tool_probe (Run c) \<longleftrightarrow>
     (\<exists>b. c_argv c = [b, ''--prefix'', ''qemu'']) \<or>
     (\<exists>b a. a \<in> {''kvm'', ''hvf'', ''whpx''} \<and>
            c_argv c = [b, ''-accel'', a, ''-machine'', ''none'', ''-display'', ''none''])"
| "tool_probe _ \<longleftrightarrow> False"

lemma emits_firmware: "emits tool_probe (resolve_aarch64_firmware H)"
  unfolding resolve_aarch64_firmware_def
  by (intro emits_intros) (simp_all add: plain_call_def emits_intros)

lemma emits_probe_accel:
  "a \<in> {''kvm'', ''hvf'', ''whpx''} \<Longrightarrow> emits tool_probe (probe_accel H b a)"
  unfolding probe_accel_def
  by (intro emits_intros) (simp_all add: timed_call_def)

lemma emits_resolve_accel: "emits tool_probe (resolve_accel H req b)"
  unfolding resolve_accel_def probe_or_tcg_def
  by (intro emits_intros emits_probe_accel) simp_all

text \<open>The QMP session sends at most its two commands, in order.\<close>

lemma orderly_qmp_command: "orderly [QmpSend s c] (qmp_command s c ls)"
  by (simp add: orderly_def qmp_command_def andthen_def bnd_def update_def lift_sum_def)

lemma orderly_powerdown:
  "orderly [QmpSend s ''qmp_capabilities'', QmpSend s ''system_powerdown''] (powerdown H s)"
  (is "orderly ?p _")
proof -
  have cmds: "orderly ?p (bnd (qmp_command s ''qmp_capabilities'' ls) (\<lambda>ls.
      bnd (qmp_command s ''system_powerdown'' ls) (\<lambda>_. ret ())))" for ls
    using orderly_bnd [OF orderly_qmp_command orderly_bnd [OF orderly_qmp_command
        orderly_quiet [OF emits_simple(1)]], of s "''qmp_capabilities''" s "''system_powerdown''" "[]"]
    by simp
  have greet: "orderly ?p (bnd (lift_sum (qmp_greeting ls)) (\<lambda>ls. bnd (qmp_command s ''qmp_capabilities'' ls) (\<lambda>ls.
      bnd (qmp_command s ''system_powerdown'' ls) (\<lambda>_. ret ()))))" for ls
    using orderly_bnd [OF orderly_quiet [OF emits_simple(5)] cmds, of "[]"] by simp
  have body: "orderly ?p (case q of None \<Rightarrow> raise (OSError m) | Some ls \<Rightarrow> bnd (lift_sum (qmp_greeting ls))
      (\<lambda>ls. bnd (qmp_command s ''qmp_capabilities'' ls) (\<lambda>ls. bnd (qmp_command s ''system_powerdown'' ls)
        (\<lambda>_. ret ()))))" for q m
    by (cases q) (simp_all add: greet orderly_quiet emits_simple)
  have upd: "orderly [] (update (\<lambda>w. w\<lparr>procs := a, clock := clock w + t\<rparr>))" for a t
    by (simp add: orderly_def update_def)
  have get: "orderly ?p (bnd get_world f)" if "\<And>a. orderly ?p (f a)" for f :: "world \<Rightarrow> unit io"
    using orderly_bnd [OF orderly_quiet [OF emits_simple(3)] that, of "[]"] by simp
  have whole: "orderly ?p (bnd get_world (\<lambda>w. let q = h_qmp H s w in
      andthen (update (\<lambda>w. w\<lparr>procs := qm_procs q, clock := clock w + qm_time q\<rparr>))
        (case qm_lines q of None \<Rightarrow> raise (OSError ''connect'') | Some ls \<Rightarrow> bnd (lift_sum (qmp_greeting ls))
      (\<lambda>ls. bnd (qmp_command s ''qmp_capabilities'' ls) (\<lambda>ls. bnd (qmp_command s ''system_powerdown'' ls)
        (\<lambda>_. ret ()))))))"
    unfolding Let_def using orderly_andthen [OF upd body] by (intro get) simp
  show ?thesis
    unfolding powerdown_def
    by (rule orderly_catch [OF whole]) (rule emits_simple)
qed

end
