(* ===== verification/QemuImages.thy ===== *)
theory QemuImages
  imports QemuResolve
begin

text \<open>
  \<open>workspace/cli/hypervisor/qemu_images.py\<close>: the base image (downloaded once, its digest checked),
  the overlay disk, the SSH key pair, the cloud-init seed and the SSH port of a machine. The digest
  function of \<open>hashlib\<close> is the parameter \<open>h_sha256\<close>.
\<close>

definition vms_base :: path where
  "vms_base = Path False [''.vms'', ''_base'']"

definition load_pins :: "host \<Rightarrow> (string \<times> string \<times> string) list io" where
  "load_pins H =
     bnd (asks (\<lambda>w. (child (child (find_workspace_root H w) ''res'') ''qemu-pins.yaml'', w))) (\<lambda>(p, w).
       if \<not> is_file H w p then ret []
       else bnd (read_content H p) (\<lambda>c. case c of PinsDoc ps \<Rightarrow> ret ps | _ \<Rightarrow> raise (YAMLError (path_str p))))"

definition image_key :: "guest_arch \<Rightarrow> string" where
  "image_key a = (if a = Aarch64 then ''ubuntu_2404_arm64'' else ''ubuntu_2404_x86_64'')"

definition download_file :: "host \<Rightarrow> string \<Rightarrow> path \<Rightarrow> unit io" where
  "download_file H url dest =
     andthen (mkdir_parents H (parent dest))
       (run_cmd H [''curl'', ''-fL'', ''--retry'', ''3'', ''-o'', path_str dest, url])"

definition verify_sha256 :: "host \<Rightarrow> path \<Rightarrow> string \<Rightarrow> unit io" where
  "verify_sha256 H p expected =
     bnd (read_text H p) (\<lambda>t.
       if h_sha256 H t \<noteq> expected then raise (ValueError (''SHA256 mismatch for '' @ path_str p))
       else ret ())"

definition ensure_base_image :: "host \<Rightarrow> string \<Rightarrow> guest_arch \<Rightarrow> path io" where
  "ensure_base_image H image_name a =
     andthen (mkdir_parents H vms_base)
       (let dest = p_sub vms_base image_name; key = image_key a;
            raw = child vms_base (''.download-'' @ key @ ''.img'')
        in bnd (asks (\<lambda>w. is_file H w dest)) (\<lambda>have_it.
           if have_it then ret dest
           else bnd (load_pins H) (\<lambda>pins.
             case map_of pins key of
               None \<Rightarrow> raise (FileNotFoundError (''no image pin for '' @ key @ '' in res/qemu-pins.yaml''))
             | Some (url, expected) \<Rightarrow>
                 andthen (download_file H url raw)
                (andthen (when_io (expected \<noteq> [] \<and> \<not> prefix ''pending'' expected)
                            (verify_sha256 H raw expected))
                (bnd (resolve_qemu_img H) (\<lambda>qemu_img.
                 andthen (run_cmd H [path_str qemu_img, ''convert'', ''-O'', ''qcow2'', path_str raw, path_str dest])
                (andthen (unlink_missing_ok H raw) (ret dest))))))))"

definition create_overlay :: "host \<Rightarrow> path \<Rightarrow> path \<Rightarrow> int \<Rightarrow> unit io" where
  "create_overlay H base overlay gb =
     bnd (resolve_qemu_img H) (\<lambda>qemu_img.
       let base_abs = resolve (h_cwd H) base; overlay_abs = resolve (h_cwd H) overlay
       in bnd (asks (\<lambda>w. p_exists H w overlay_abs)) (\<lambda>old.
          andthen (when_io old (unlink H overlay_abs))
         (andthen (run_cmd H [path_str qemu_img, ''create'', ''-f'', ''qcow2'', ''-b'', path_str base_abs,
                              ''-F'', ''qcow2'', path_str overlay_abs])
                  (run_cmd H [path_str qemu_img, ''resize'', path_str overlay_abs, show_int gb @ ''G'']))))"

definition workspace_mount_cmd :: string where
  "workspace_mount_cmd = ''mount -t 9p -o trans=virtio,version=9p2000.L,ro workspace /mnt/workspace-ro''"

definition ci_mount_cmd :: string where
  "ci_mount_cmd = ''mount -t 9p -o trans=virtio,version=9p2000.L,ro workspace-ci /opt/workspace-ci''"

definition cloud_init_config :: "string \<Rightarrow> bool \<Rightarrow> bool \<Rightarrow> cloud_config" where
  "cloud_init_config pubkey mount_workspace mount_ci =
     \<lparr>cc_users =
        [(''workspace'', [(''sudo'', ''ALL=(ALL) NOPASSWD:ALL''), (''shell'', ''/bin/bash''),
                          (''ssh_authorized_keys'', strip pubkey)])]
        @ (if mount_workspace
           then [(''agent'', [(''uid'', ''1001''), (''shell'', ''/bin/bash''), (''groups'', ''users'')])]
           else []),
      cc_packages =
        [''openssh-server'']
        @ (if mount_workspace
           then [''git'', ''curl'', ''rsync'', ''make'', ''sudo'', ''ca-certificates'',
                 ''build-essential'', ''nftables'']
           else []),
      cc_bootcmd =
        [''mkdir -p /var/tmp/workspace-guard-cargo-0'',
         ''ln -sfn /var/tmp/workspace-guard-cargo-0 /tmp/workspace-guard-cargo-0''],
      cc_runcmd =
        [''systemctl enable --now ssh'']
        @ (if mount_workspace then [''mkdir -p /mnt/workspace-ro'', workspace_mount_cmd] else [])
        @ (if mount_ci then [''mkdir -p /opt/workspace-ci'', ci_mount_cmd] else [])\<rparr>"

definition resolve_genisoimage :: "host \<Rightarrow> world \<Rightarrow> exn + path" where
  "resolve_genisoimage H w =
     (let root = find_workspace_root H w;
          mac = child (child (child root ''.boot-macos'') ''bin'') ''genisoimage'';
          lin = child (child (child root ''.boot-linux'') ''bin'') ''genisoimage''
      in if is_file H w mac then Inr mac
         else if is_file H w lin then Inr lin
         else case h_which H w ''genisoimage'' of
                Some f \<Rightarrow> Inr (mk_path f)
              | None \<Rightarrow> (case h_which H w ''mkisofs'' of
                  Some f \<Rightarrow> Inr (mk_path f)
                | None \<Rightarrow> Inl (FileNotFoundError
                    ''genisoimage not found; run make install-qemu or brew install cdrtools'')))"

definition build_seed_image :: "host \<Rightarrow> path \<Rightarrow> path \<Rightarrow> path \<Rightarrow> unit io" where
  "build_seed_image H user_data meta_data seed =
     bnd (bnd get_world (\<lambda>w. lift_sum (resolve_genisoimage H w))) (\<lambda>g.
       run_cmd H [path_str g, ''-output'', path_str (resolve (h_cwd H) seed), ''-volid'', ''cidata'',
                  ''-joliet'', ''-rock'', path_str (resolve (h_cwd H) user_data),
                  path_str (resolve (h_cwd H) meta_data)])"

definition write_cloud_init :: "host \<Rightarrow> path \<Rightarrow> string \<Rightarrow> bool \<Rightarrow> bool \<Rightarrow> unit io" where
  "write_cloud_init H vm_dir pubkey mount_workspace mount_ci =
     (let ci = child vm_dir ''cloud-init'' in
      andthen (mkdir_parents H ci)
     (andthen (write_content H (child ci ''user-data'')
                 (CloudInitDoc (cloud_init_config pubkey mount_workspace mount_ci)))
     (andthen (write_text H (child ci ''meta-data'')
                 (unlines [''instance-id: workspace-vm'', ''local-hostname: workspace-vm'']))
              (build_seed_image H (child ci ''user-data'') (child ci ''meta-data'') (child ci ''seed.img'')))))"

definition generate_ssh_keypair :: "host \<Rightarrow> path \<Rightarrow> (path \<times> string) io" where
  "generate_ssh_keypair H vm_dir =
     (let key = child vm_dir ''qemu_ssh_ed25519'' in
      bnd (asks (\<lambda>w. is_file H w key)) (\<lambda>have_it.
        andthen (when_io (\<not> have_it)
                   (run_cmd H [''ssh-keygen'', ''-t'', ''ed25519'', ''-N'', [], ''-f'', path_str key]))
          (bnd (read_text H (child vm_dir ''qemu_ssh_ed25519.pub'')) (\<lambda>t. ret (key, strip t)))))"

definition allocate_ssh_port :: "host \<Rightarrow> world \<Rightarrow> int \<Rightarrow> int" where
  "allocate_ssh_port H w requested = (if requested \<noteq> 0 then requested else h_free_port H w)"

definition prepare_vm_storage :: "host \<Rightarrow> vm_config \<Rightarrow> path \<Rightarrow> bool \<Rightarrow> string io" where
  "prepare_vm_storage H cfg vm_dir mount_ci =
     (let q = qemu (isolation cfg) in
      bnd (ensure_base_image H (image q) (guest_arch q)) (\<lambda>base.
      andthen (create_overlay H base (child vm_dir ''disk.qcow2'') (disk_gb q))
      (bnd (generate_ssh_keypair H vm_dir) (\<lambda>(_, pub).
       andthen (write_cloud_init H vm_dir pub (q_provision q \<noteq> ProvNone) mount_ci)
       (bnd (asks (\<lambda>w. allocate_ssh_port H w (ssh_host_port q))) (\<lambda>port.
        andthen (write_text H (child vm_dir ''ssh_port'') (show_int port)) (ret (show_int port))))))))"

section \<open>Facts\<close>

lemma cloud_init_ro_mounts:
  "c \<in> set (cc_runcmd (cloud_init_config k mw mc)) \<Longrightarrow> prefix ''mount '' c \<Longrightarrow>
   sublist '',ro '' c"
  by (auto simp: cloud_init_config_def workspace_mount_cmd_def ci_mount_cmd_def sublist_code
      split: if_splits)

lemma py_int_show_int [simp]: "py_int (show_int i) = Inr i"
proof (cases "i < 0")
  case False
  then show ?thesis by (simp add: show_int_def)
next
  case True
  have d: "isdigit (show_nat n)" for n by simp
  have "\<forall>c \<in> set (CHR ''-'' # show_nat (nat (- i))). \<not> is_space c"
    using show_nat_digits [of "nat (- i)"] by (simp add: list_all_iff is_digit_not_space) (simp add: is_space_def)
  then have "strip (CHR ''-'' # show_nat (nat (- i))) = CHR ''-'' # show_nat (nat (- i))"
    by (rule strip_no_space)
  with True show ?thesis by (simp add: py_int_def show_int_def Let_def)
qed

end
