(* ===== verification/QemuProvision.thy ===== *)
theory QemuProvision
  imports QemuImages
begin

text \<open>
  \<open>workspace/cli/hypervisor/qemu_provision.py\<close> (and the helper it uses from
  \<open>workspace/cli/process.py\<close>): after the guest has booted, the workspace is copied from its
  read-only mount and installed. The provisioning log is the list of its lines; every step rewrites
  the log file with all lines so far.
\<close>

section \<open>Process helpers\<close>

text \<open>\<open>process.run_result\<close>: a failing command becomes its result; other exceptions go on.\<close>

definition run_result :: "host \<Rightarrow> call \<Rightarrow> (int \<times> string \<times> string) io" where
  "run_result H c =
     catch is_called_process_error
       (bnd (run_checked H c) (\<lambda>(so, se). ret (0, so, se)))
       (\<lambda>e. case e of CalledProcessError rc so se \<Rightarrow> ret (rc, so, se) | _ \<Rightarrow> raise e)"

definition run_ok :: "host \<Rightarrow> call \<Rightarrow> string option \<Rightarrow> bool io" where
  "run_ok H c reject_in_output =
     catch (\<lambda>e. is_called_process_error e \<or> e = TimeoutExpired \<or> is_os_error e)
       (bnd (run_checked H c) (\<lambda>(so, se).
          case reject_in_output of
            None \<Rightarrow> ret True
          | Some r \<Rightarrow> ret (\<not> sublist (lower r) (lower (so @ nl @ se)))))
       (\<lambda>_. ret False)"

section \<open>Paths and scripts\<close>

definition GUEST_ROOT :: string where "GUEST_ROOT = ''/opt/workspace''"
definition CI_ROOT :: string where "CI_ROOT = ''/opt/workspace-ci''"
definition RO_MOUNT :: string where "RO_MOUNT = ''/mnt/workspace-ro''"

definition RSYNC_EXCLUDES :: "string list" where
  "RSYNC_EXCLUDES = [''.vms/'', ''.venv/'', ''node_modules/'', ''__pycache__/'', ''.git/'', ''target/'']"

definition PROJECT_RSYNC_EXCLUDES :: "string list" where
  "PROJECT_RSYNC_EXCLUDES = filter (\<lambda>i. i \<noteq> ''.git/'') RSYNC_EXCLUDES"

definition SKELETON_PATHS :: "string list" where
  "SKELETON_PATHS = [''Makefile'', ''pyproject.toml'', ''moon.yml'', ''workspace/'', ''config/'',
     ''res/'', ''tests/'']"

definition GUARD_PATHS :: "string list" where
  "GUARD_PATHS = [''projects/WORKSPACE-GUARD/'', ''projects/WORKSPACE-CI/'', ''scripts/e2e/'']"

definition FULL_CI_PARENT_PATHS :: "string list" where
  "FULL_CI_PARENT_PATHS = [''projects/WORKSPACE-CI/'', ''projects/WORKSPACE-DATAOPS/'',
     ''projects/WORKSPACE-GUARD/'', ''projects/WORKSPACE-BROWSER/'']"

definition paths_for_profile :: "provision \<Rightarrow> string list" where
  "paths_for_profile profile =
     SKELETON_PATHS @ (if profile = ProvGuard then GUARD_PATHS
                       else if profile = ProvFullCi then FULL_CI_PARENT_PATHS else [])"

definition rsync_excludes :: "string \<Rightarrow> string list" where
  "rsync_excludes p = (if prefix ''projects/'' p then PROJECT_RSYNC_EXCLUDES else RSYNC_EXCLUDES)"

definition rstrip_slash :: "string \<Rightarrow> string" where
  "rstrip_slash s = rev (dropWhile (\<lambda>c. c = CHR ''/'') (rev s))"

definition rsync_lines :: "string \<Rightarrow> string list" where
  "rsync_lines p =
     (let src = RO_MOUNT @ ''/'' @ p; dst = GUEST_ROOT @ ''/'' @ p;
          dst_parent = parent (mk_path (rstrip_slash dst));
          exclude_args = join '' '' (map (\<lambda>i. ''--exclude='' @ i) (rsync_excludes p))
      in [''sudo mkdir -p '' @ path_str dst_parent,
          ''sudo rsync -a '' @ exclude_args @ '' '' @ src @ '' '' @ dst])"

definition build_rsync_lines :: "provision \<Rightarrow> string list" where
  "build_rsync_lines profile =
     [''set -euo pipefail'', ''sudo mkdir -p '' @ GUEST_ROOT]
     @ concat (map rsync_lines (paths_for_profile profile))
     @ [''sudo chown -R workspace:workspace '' @ GUEST_ROOT]
     @ (if profile = ProvGuard
        then [''sudo find '' @ GUEST_ROOT @ ''/projects/WORKSPACE-GUARD/config -type f -name ''
              @ sq @ ''*.yaml'' @ sq @ '' -exec chown root:root {} +'']
        else [])"

definition build_rsync_script :: "provision \<Rightarrow> string" where
  "build_rsync_script profile = join nl (build_rsync_lines profile) @ nl"

definition build_boot_rsync_script :: string where
  "build_boot_rsync_script = unlines
     [''set -euo pipefail'',
      ''if [ -d '' @ dq @ RO_MOUNT @ ''/.boot-linux'' @ dq @ '' ]; then'',
      ''  sudo mkdir -p '' @ dq @ GUEST_ROOT @ ''/.boot-linux'' @ dq,
      ''  sudo rsync -a '' @ dq @ RO_MOUNT @ ''/.boot-linux/'' @ dq @ '' '' @ dq @ GUEST_ROOT
        @ ''/.boot-linux/'' @ dq,
      ''fi'']"

definition build_guard_trust_script :: string where
  "build_guard_trust_script = unlines
     [''set -euo pipefail'', ''sudo chown -R root:root '' @ GUEST_ROOT,
      ''sudo chmod -R go-w '' @ GUEST_ROOT]"

definition build_install_lines :: "provision \<Rightarrow> string list" where
  "build_install_lines profile =
     [''set -euo pipefail'', ''export CI_WORKSPACE_ROOT='' @ dq @ GUEST_ROOT @ dq]
     @ (if profile = ProvFullCi
        then [''export PLAYWRIGHT_BROWSERS_PATH='' @ dq @ GUEST_ROOT @ ''/.boot-linux/playwright-browsers'' @ dq,
              ''mkdir -p '' @ GUEST_ROOT @ ''/.boot-linux/bin'']
             @ map (\<lambda>n. ''ln -sfn '' @ CI_ROOT @ ''/.boot-linux/bin/'' @ n @ '' '' @ GUEST_ROOT
                         @ ''/.boot-linux/bin/'' @ n) [''uv'', ''node'', ''npm'']
        else [])
     @ [''cd '' @ dq @ GUEST_ROOT @ dq, ''make init'']
     @ (if profile = ProvGuard
        then [''sudo make -C projects/WORKSPACE-GUARD build-shell-guard build-guard'',
              ''sudo env CARGO_HOME=/tmp/workspace-guard-cargo-0 RUSTUP_HOME='' @ CI_ROOT
              @ ''/.boot-linux/rust PATH='' @ CI_ROOT @ ''/.boot-linux/bin:$PATH ''
              @ ''cargo build --manifest-path projects/WORKSPACE-GUARD/Cargo.toml'']
        else [])
     @ (if profile \<noteq> ProvGuard
        then [''make install-ci INSTALL_DEFAULTS='' @ GUEST_ROOT @ ''/vm-install-defaults.yaml''] else [])"

definition build_install_script :: "provision \<Rightarrow> string list \<Rightarrow> string" where
  "build_install_script profile extra = join nl (build_install_lines profile) @ nl"

section \<open>Running the steps\<close>

definition guest_ssh_argv :: "int \<Rightarrow> path \<Rightarrow> string list" where
  "guest_ssh_argv port key =
     [''ssh'', ''-i'', path_str key, ''-o'', ''StrictHostKeyChecking=no'',
      ''-o'', ''UserKnownHostsFile=/dev/null'', ''-p'', show_int port, ''workspace@127.0.0.1'', ''bash'', ''-s'']"

definition log_line :: "host \<Rightarrow> path \<Rightarrow> string list \<Rightarrow> string \<Rightarrow> string list io" where
  "log_line H log_path ls l =
     andthen (write_text H log_path (join nl (ls @ [l]) @ nl)) (ret (ls @ [l]))"

definition log_if :: "host \<Rightarrow> path \<Rightarrow> string list \<Rightarrow> string \<Rightarrow> string list io" where
  "log_if H log_path ls t = (if t = [] then ret ls else log_line H log_path ls (rstrip t))"

text \<open>\<open>_ssh_run\<close>: the exit status and the log with what the command printed.\<close>

definition ssh_run :: "host \<Rightarrow> int \<Rightarrow> path \<Rightarrow> path \<Rightarrow> string \<Rightarrow> int \<Rightarrow> bool \<Rightarrow> string list
    \<Rightarrow> (int \<times> string list) io" where
  "ssh_run H port key log_path script timeout raise_on_error ls =
     bnd (log_line H log_path ls (''provision: ssh ('' @ show_nat (length script) @ '' byte script)'')) (\<lambda>ls.
     bnd (run_result H \<lparr>c_argv = guest_ssh_argv port key, c_input = script, c_timeout = Some timeout, c_cwd = None\<rparr>)
       (\<lambda>(rc, so, se).
     bnd (log_if H log_path ls so) (\<lambda>ls.
     bnd (log_if H log_path ls se) (\<lambda>ls.
     if raise_on_error \<and> rc \<noteq> 0 then raise (CalledProcessError rc so se) else ret (rc, ls)))))"

definition scp_file :: "host \<Rightarrow> int \<Rightarrow> path \<Rightarrow> path \<Rightarrow> string \<Rightarrow> unit io" where
  "scp_file H port key local remote =
     run_cmd H [''scp'', ''-i'', path_str key, ''-o'', ''StrictHostKeyChecking=no'',
       ''-o'', ''UserKnownHostsFile=/dev/null'', ''-P'', show_int port, path_str local,
       ''workspace@127.0.0.1:'' @ remote]"

text \<open>Waiting for the read-only mount; the log grows with every probe.\<close>

definition ro_mount_probe :: "host \<Rightarrow> int \<Rightarrow> path \<Rightarrow> path \<Rightarrow> string list \<Rightarrow> (string list + string list) io" where
  "ro_mount_probe H port key log_path ls =
     bnd (ssh_run H port key log_path (''test -f '' @ RO_MOUNT @ ''/Makefile'') 30 False ls) (\<lambda>(rc, ls).
       if rc = 0 then bnd (log_line H log_path ls (''provision: '' @ RO_MOUNT @ '' ready'')) (\<lambda>ls. ret (Inr ls))
       else ret (Inl ls))"

definition deadline_after :: "world \<Rightarrow> int \<Rightarrow> nat" where
  "deadline_after w timeout = clock w + nat timeout * second"

definition wait_ro_mount :: "host \<Rightarrow> int \<Rightarrow> path \<Rightarrow> path \<Rightarrow> int \<Rightarrow> string list io" where
  "wait_ro_mount H port key log_path timeout =
     bnd (asks (\<lambda>w. deadline_after w timeout)) (\<lambda>deadline.
     bnd (poll H deadline 5 (ro_mount_probe H port key log_path) []) (\<lambda>r.
       case r of Inr ls \<Rightarrow> ret ls
       | Inl _ \<Rightarrow> raise (TimeoutError (''provision: timed out waiting for '' @ RO_MOUNT))))"

definition env_int :: "host \<Rightarrow> string \<Rightarrow> string \<Rightarrow> exn + int" where
  "env_int H k dflt = py_int (case h_env H k of None \<Rightarrow> dflt | Some v \<Rightarrow> v)"

definition provision_guest :: "host \<Rightarrow> vm_config \<Rightarrow> path \<Rightarrow> int \<Rightarrow> path \<Rightarrow> path \<Rightarrow> unit io" where
  "provision_guest H cfg vm_dir ssh_port ssh_key install_defaults =
     (let profile = q_provision (qemu (isolation cfg)); log_path = child vm_dir ''provision.log'' in
      if profile = ProvNone then ret ()
      else
        bnd (lift_sum (env_int H ''QEMU_PROVISION_TIMEOUT'' ''3600'')) (\<lambda>timeout.
        bnd (lift_sum (env_int H ''QEMU_RO_MOUNT_TIMEOUT'' ''600'')) (\<lambda>ro_timeout.
        bnd (wait_ro_mount H ssh_port ssh_key log_path ro_timeout) (\<lambda>ls.
        bnd (ssh_run H ssh_port ssh_key log_path (build_rsync_script profile) timeout True ls) (\<lambda>(_, ls).
        andthen (scp_file H ssh_port ssh_key install_defaults (GUEST_ROOT @ ''/vm-install-defaults.yaml''))
       (bnd (if h_env H ''QEMU_RSYNC_BOOT'' = Some ''1''
             then ssh_run H ssh_port ssh_key log_path build_boot_rsync_script 600 True ls
             else ret (0, ls)) (\<lambda>(_, ls).
        bnd (ssh_run H ssh_port ssh_key log_path (build_install_script profile (extra_apt cfg)) timeout True ls)
          (\<lambda>(_, ls).
        bnd (if profile = ProvGuard
             then ssh_run H ssh_port ssh_key log_path build_guard_trust_script 600 True ls
             else ret (0, ls)) (\<lambda>(_, ls).
        bnd (log_line H log_path ls ''provision: complete'') (\<lambda>_. ret ()))))))))))"

end
