(* ===== verification/GuestConfig.thy ===== *)
theory GuestConfig
  imports QemuProvision
begin

text \<open>
  \<open>workspace/cli/hypervisor/qemu_guest_config.py\<close>: the fields of the configuration that are
  applied inside a running guest, as scripts sent to \<open>bash -s\<close> over SSH and as copies. Every
  generated script is written out as the code builds it; \<open>shlex.quote\<close> is defined and read back
  by a small model of the shell's word syntax. The JSON text of the provider (base64) is the
  parameter \<open>h_provider_b64\<close>.
\<close>

section \<open>Quoting for the shell\<close>

definition is_alpha :: "char \<Rightarrow> bool" where
  "is_alpha c \<longleftrightarrow> (CHR ''a'' \<le> c \<and> c \<le> CHR ''z'') \<or> (CHR ''A'' \<le> c \<and> c \<le> CHR ''Z'')"

definition sh_safe :: "char \<Rightarrow> bool" where
  "sh_safe c \<longleftrightarrow> is_alpha c \<or> is_digit c \<or> c \<in> set ''_@%+=:,./-''"

fun sh_escape :: "string \<Rightarrow> string" where
  "sh_escape [] = []"
| "sh_escape (c # s) = (if c = CHR 0x27 then sq @ dq @ sq @ dq @ sq @ sh_escape s else c # sh_escape s)"

definition shlex_quote :: "string \<Rightarrow> string" where
  "shlex_quote s = (if s = [] then sq @ sq
                    else if list_all sh_safe s then s
                    else sq @ sh_escape s @ sq)"

text \<open>Reading one word as a shell does: bare characters, single quotes and double quotes. A bare
  character that the shell would interpret, or an open quote, is not one word.\<close>

datatype quoting = Bare | Single | Double

fun sh_word :: "quoting \<Rightarrow> string \<Rightarrow> string option" where
  "sh_word q [] = (if q = Bare then Some [] else None)"
| "sh_word Bare (c # s) =
     (if c = CHR 0x27 then sh_word Single s
      else if c = CHR 0x22 then sh_word Double s
      else if sh_safe c then map_option ((#) c) (sh_word Bare s) else None)"
| "sh_word Single (c # s) =
     (if c = CHR 0x27 then sh_word Bare s else map_option ((#) c) (sh_word Single s))"
| "sh_word Double (c # s) =
     (if c = CHR 0x22 then sh_word Bare s
      else if c \<in> {CHR ''$'', CHR ''`'', CHR 0x5C} then None
      else map_option ((#) c) (sh_word Double s))"

lemma sh_safe_not_quote: "sh_safe c \<Longrightarrow> c \<noteq> CHR 0x27 \<and> c \<noteq> CHR 0x22"
  by (auto simp: sh_safe_def is_alpha_def is_digit_def less_eq_char_def)

lemma sh_word_safe: "list_all sh_safe s \<Longrightarrow> sh_word Bare s = Some s"
  by (induction s) (auto dest: sh_safe_not_quote)

lemma sh_word_escape: "sh_word Single (sh_escape s @ sq) = Some s"
  by (induction s) (auto simp: sq_def dq_def)

lemma sh_word_quote: "sh_word Bare (shlex_quote s) = Some s"
  using sh_word_escape [of s] by (auto simp: shlex_quote_def sh_word_safe sq_def)

section \<open>Transport\<close>

definition SSH_OPTS :: "string list" where
  "SSH_OPTS = [''-o'', ''StrictHostKeyChecking=no'', ''-o'', ''UserKnownHostsFile=/dev/null'',
               ''-o'', ''BatchMode=yes'']"

definition ssh_script :: "host \<Rightarrow> int \<Rightarrow> path \<Rightarrow> string \<Rightarrow> unit io" where
  "ssh_script H port key script =
     bnd (run_checked H
       \<lparr>c_argv = [''ssh'', ''-i'', path_str key] @ SSH_OPTS
                 @ [''-p'', show_int port, ''workspace@127.0.0.1'', ''bash'', ''-s''],
        c_input = script, c_timeout = None, c_cwd = None\<rparr>) (\<lambda>_. ret ())"

definition rsync_to :: "host \<Rightarrow> int \<Rightarrow> path \<Rightarrow> path \<Rightarrow> string \<Rightarrow> unit io" where
  "rsync_to H port key source destination =
     bnd (asks (\<lambda>w. if is_dir H w source then ''/'' else [])) (\<lambda>suff.
       run_cmd H [''rsync'', ''-a'', ''-e'',
         ''ssh -i '' @ shlex_quote (path_str key) @ '' -o StrictHostKeyChecking=no ''
         @ ''-o UserKnownHostsFile=/dev/null -o BatchMode=yes -p '' @ show_int port,
         path_str source @ suff, ''workspace@127.0.0.1:'' @ destination])"

definition copy_to :: "host \<Rightarrow> int \<Rightarrow> path \<Rightarrow> path \<Rightarrow> string \<Rightarrow> unit io" where
  "copy_to H port key source destination =
     run_cmd H ([''scp'', ''-i'', path_str key] @ SSH_OPTS
       @ [''-P'', show_int port, path_str source, ''workspace@127.0.0.1:'' @ destination])"

definition guest_destination :: "string \<Rightarrow> exn + string" where
  "guest_destination value =
     (if prefix ''/'' value \<or> ''..'' \<in> set (parts (mk_path value))
      then Inl (ValueError (''invalid guest destination: '' @ value))
      else Inr (''/opt/workspace/'' @ value))"

section \<open>Environment and limits\<close>

text \<open>The pattern \<open>^[A-Za-z_][A-Za-z0-9_]*$\<close>, whose \<open>$\<close> also matches before a final newline.\<close>

definition env_name :: "string \<Rightarrow> bool" where
  "env_name s \<longleftrightarrow> (case s of [] \<Rightarrow> False | c # cs \<Rightarrow>
     (is_alpha c \<or> c = CHR ''_'') \<and> list_all (\<lambda>d. is_alpha d \<or> is_digit d \<or> d = CHR ''_'') cs)"

definition env_key_match :: "string \<Rightarrow> bool" where
  "env_key_match s \<longleftrightarrow> env_name s \<or> (s \<noteq> [] \<and> last s = newline \<and> env_name (butlast s))"

fun env_lines :: "(string \<times> string) list \<Rightarrow> exn + string list" where
  "env_lines [] = Inr []"
| "env_lines ((name, value) # rest) =
     (if \<not> env_key_match name then Inl (ValueError (''invalid environment key: '' @ name))
      else case env_lines rest of
             Inl e \<Rightarrow> Inl e
           | Inr ls \<Rightarrow> Inr ((name @ ''='' @ shlex_quote value) # ls))"

definition env_script :: "string list \<Rightarrow> string" where
  "env_script ls =
     unlines [''set -euo pipefail'', ''sudo install -d -m 0755 /etc/environment.d'',
       ''sudo tee /etc/environment.d/90-workspace.conf >/dev/null <<'' @ sq @ ''EOF'' @ sq]
     @ join nl ls @ nl @ ''EOF'' @ nl"

definition apply_env :: "host \<Rightarrow> int \<Rightarrow> path \<Rightarrow> (string \<times> string) list \<Rightarrow> unit io" where
  "apply_env H port key envs =
     bnd (lift_sum (env_lines envs)) (\<lambda>ls. ssh_script H port key (env_script ls))"

definition limits_script :: "vm_config \<Rightarrow> string" where
  "limits_script cfg = unlines
     [''set -euo pipefail'', ''sudo install -d -m 0755 /etc/systemd/system.conf.d'',
      ''sudo tee /etc/systemd/system.conf.d/90-workspace.conf >/dev/null <<'' @ sq @ ''EOF'' @ sq,
      ''[Manager]'', ''DefaultTasksMax='' @ show_int (pids_limit (resources cfg)), ''EOF'',
      ''sudo systemctl daemon-reexec'']"

definition apply_limits :: "host \<Rightarrow> int \<Rightarrow> path \<Rightarrow> vm_config \<Rightarrow> unit io" where
  "apply_limits H port key cfg = ssh_script H port key (limits_script cfg)"

section \<open>Network policy\<close>

text \<open>\<open>urlparse(url).hostname\<close>: the scheme must be well formed, the authority ends at a slash,
  question mark or hash, user information and port are dropped.\<close>

definition find_substring :: "string \<Rightarrow> string \<Rightarrow> nat option" where
  "find_substring sub s = find_first (\<lambda>i. prefix sub (drop i s)) [0..<Suc (length s)]"

definition scheme_ok :: "string \<Rightarrow> bool" where
  "scheme_ok s \<longleftrightarrow> s \<noteq> [] \<and> is_alpha (hd s) \<and>
     list_all (\<lambda>c. is_alpha c \<or> is_digit c \<or> c \<in> set ''+-.'') s"

definition url_hostname :: "string \<Rightarrow> string" where
  "url_hostname url =
     (let scheme = takeWhile (\<lambda>c. c \<noteq> CHR '':'') url;
          rest = (if CHR '':'' \<in> set url \<and> scheme_ok scheme then drop (Suc (length scheme)) url else url)
      in if \<not> prefix ''//'' rest then []
         else let netloc = takeWhile (\<lambda>c. c \<notin> set ''/?#'') (drop 2 rest);
                  hostinfo = rev (takeWhile (\<lambda>c. c \<noteq> CHR ''@'') (rev netloc))
              in lower (if CHR ''['' \<in> set hostinfo
                        then takeWhile (\<lambda>c. c \<noteq> CHR '']'') (tl (dropWhile (\<lambda>c. c \<noteq> CHR ''['') hostinfo))
                        else takeWhile (\<lambda>c. c \<noteq> CHR '':'') hostinfo))"

definition proxy_host :: "string \<Rightarrow> exn + string" where
  "proxy_host url =
     (let h = url_hostname (if sublist ''://'' url then url else ''http://'' @ url)
      in if h = [] then Inl (ValueError (''invalid proxy URL: '' @ url)) else Inr h)"

definition policy_rule :: "vm_config \<Rightarrow> exn + string" where
  "policy_rule cfg =
     (case net_policy (network cfg) of
        PolInternet \<Rightarrow> Inr
          (''nft add rule inet vm_policy output oifname '' @ dq @ ''$iface'' @ dq
           @ '' ip daddr { 10.0.0.0/8, 172.16.0.0/12, 192.168.0.0/16, 169.254.0.0/16 } drop'' @ nl)
      | PolProxy \<Rightarrow>
          (case proxy_host (proxy_url (network cfg)) of
             Inl e \<Rightarrow> Inl e
           | Inr h \<Rightarrow> Inr (unlines
               [''proxy_ip='' @ dq @ ''$(getent ahostsv4 '' @ shlex_quote h @ '' | awk '' @ sq
                  @ ''NR==1{print $1}'' @ sq @ '')'' @ dq,
                ''if [ -z '' @ dq @ ''$proxy_ip'' @ dq @ '' ]; then'',
                ''    echo '' @ dq @ ''vm-network-policy: cannot resolve proxy host'' @ dq @ '' >&2'',
                ''    exit 1'', ''fi'',
                ''nft add rule inet vm_policy output oifname '' @ dq @ ''$iface'' @ dq
                  @ '' ip daddr != '' @ dq @ ''$proxy_ip'' @ dq @ '' drop'']))
      | _ \<Rightarrow> Inr [])"

definition policy_script :: "vm_config \<Rightarrow> exn + string" where
  "policy_script cfg =
     (case policy_rule cfg of
        Inl e \<Rightarrow> Inl e
      | Inr rule \<Rightarrow> Inr (unlines
          [''#!/bin/bash'', ''set -euo pipefail'', ''iface='' @ dq @ dq,
           ''for candidate in $(ip -o -4 addr show | awk '' @ sq @ ''$4 !~ /^10'' @ [CHR 0x5C] @ ''.0''
             @ [CHR 0x5C] @ ''.2'' @ [CHR 0x5C] @ ''./ && $4 !~ /^127'' @ [CHR 0x5C] @ ''./ {split($4,a,''
             @ dq @ ''/'' @ dq @ ''); print $2}'' @ sq @ ''); do'',
           ''    iface='' @ dq @ ''$candidate'' @ dq, ''    break'', ''done'',
           ''if [ -z '' @ dq @ ''$iface'' @ dq @ '' ]; then'',
           ''    echo '' @ dq @ ''vm-network-policy: no bridge interface found'' @ dq @ '' >&2'',
           ''    exit 1'', ''fi'',
           ''nft delete table inet vm_policy 2>/dev/null || true'',
           ''nft add table inet vm_policy'',
           ''nft add chain inet vm_policy output '' @ sq
             @ ''{ type filter hook output priority 0; policy accept; }'' @ sq] @ rule))"

definition policy_unit :: "string list" where
  "policy_unit =
     [''[Unit]'', ''Description=QEMU guest network policy'', ''After=network-online.target'', [],
      ''[Service]'', ''Type=oneshot'', ''RemainAfterExit=yes'',
      ''ExecStart=/usr/local/sbin/vm-network-policy'', [], ''[Install]'', ''WantedBy=multi-user.target'']"

definition policy_install_script :: "vm_config \<Rightarrow> string \<Rightarrow> string" where
  "policy_install_script cfg policy =
     unlines [''set -euo pipefail'', ''command -v nft >/dev/null'',
       ''sudo tee /usr/local/sbin/vm-network-policy >/dev/null <<'' @ sq @ ''POLICY'' @ sq]
     @ policy
     @ unlines [''POLICY'', ''sudo chmod 0755 /usr/local/sbin/vm-network-policy'']
     @ (if net_policy (network cfg) = PolProxy
        then unlines [''sudo tee /etc/environment.d/91-proxy.conf >/dev/null <<'' @ sq @ ''EOF'' @ sq,
               ''HTTP_PROXY='' @ proxy_url (network cfg), ''HTTPS_PROXY='' @ proxy_url (network cfg),
               ''NO_PROXY=localhost,127.0.0.1'', ''EOF'']
        else [])
     @ unlines ([''sudo tee /etc/systemd/system/vm-network-policy.service >/dev/null <<'' @ sq @ ''EOF'' @ sq]
                @ policy_unit
                @ [''EOF'', ''sudo systemctl daemon-reload'',
                   ''sudo systemctl enable --now vm-network-policy.service''])"

definition apply_network_policy :: "host \<Rightarrow> int \<Rightarrow> path \<Rightarrow> vm_config \<Rightarrow> unit io" where
  "apply_network_policy H port key cfg =
     (if net_mode (network cfg) \<noteq> NetBridge then ret ()
      else if net_policy (network cfg) = PolUnrestricted then ret ()
      else bnd (lift_sum (policy_script cfg)) (\<lambda>policy.
             ssh_script H port key (policy_install_script cfg policy)))"

section \<open>Mounts, files, keys\<close>

definition mount_lines :: "nat \<Rightarrow> path \<Rightarrow> string list" where
  "mount_lines index p =
     (let target = shlex_quote (path_str p);
          tag = shlex_quote (''hostshare'' @ show_nat index)
      in [''sudo mkdir -p '' @ target, ''sudo umount '' @ target @ '' 2>/dev/null || true'',
          ''sudo mount -t 9p -o trans=virtio,version=9p2000.L,ro '' @ tag @ '' '' @ target])"

definition mounts_script :: "path list \<Rightarrow> string" where
  "mounts_script ps =
     join nl (''set -euo pipefail'' # concat (map (\<lambda>(i, p). mount_lines i p) (List.enumerate 0 ps))) @ nl"

definition apply_mounts_script :: "host \<Rightarrow> int \<Rightarrow> path \<Rightarrow> vm_config \<Rightarrow> unit io" where
  "apply_mounts_script H port key cfg =
     (if mounts cfg = [] then ret ()
      else bnd (lift_sum (all_inr (map (\<lambda>entry. path_expanduser H (mk_path entry)) (mounts cfg)))) (\<lambda>ps.
             ssh_script H port key (mounts_script ps)))"

definition apply_file :: "host \<Rightarrow> int \<Rightarrow> path \<Rightarrow> file_entry \<Rightarrow> unit io" where
  "apply_file H port key entry =
     (let source = mk_path (expanduser H (fe_src entry)) in
      bnd (asks (\<lambda>w. p_exists H w source)) (\<lambda>ex.
        if \<not> ex then raise (FileNotFoundError (''vm: file source not found: '' @ path_str source))
        else bnd (lift_sum (guest_destination (fe_dst entry))) (\<lambda>destination.
          andthen (ssh_script H port key
                     (unlines [''set -euo pipefail'',
                        ''mkdir -p '' @ shlex_quote (path_str (parent (mk_path destination)))]))
            (rsync_to H port key source destination))))"

definition apply_files :: "host \<Rightarrow> int \<Rightarrow> path \<Rightarrow> vm_config \<Rightarrow> unit io" where
  "apply_files H port key cfg = each (apply_file H port key) (files cfg)"

definition ssh_key_files :: "host \<Rightarrow> world \<Rightarrow> vm_config \<Rightarrow> path list" where
  "ssh_key_files H w cfg =
     (case ssh_mode (ssh cfg) of
        SshInherit \<Rightarrow> filter (is_file H w)
          (map (child (child (h_home H) ''.ssh'')) [''id_ed25519'', ''id_rsa'', ''config'', ''known_hosts''])
      | SshCustom \<Rightarrow> map (\<lambda>f. mk_path (expanduser H f)) (ssh_files (ssh cfg))
      | SshNone \<Rightarrow> [])"

definition copy_ssh_file :: "host \<Rightarrow> int \<Rightarrow> path \<Rightarrow> path \<Rightarrow> unit io" where
  "copy_ssh_file H port key source =
     bnd (asks (\<lambda>w. is_file H w source)) (\<lambda>f.
       if \<not> f then raise (FileNotFoundError (''vm: SSH file not found: '' @ path_str source))
       else copy_to H port key source (''.ssh/'' @ path_name source))"

definition apply_ssh :: "host \<Rightarrow> int \<Rightarrow> path \<Rightarrow> vm_config \<Rightarrow> unit io" where
  "apply_ssh H port key cfg =
     bnd (asks (\<lambda>w. ssh_key_files H w cfg)) (\<lambda>fl.
       if fl = [] then ret ()
       else andthen (ssh_script H port key (unlines [''set -euo pipefail'',
                       ''install -d -m 0700 '' @ dq @ ''$HOME/.ssh'' @ dq]))
           (andthen (each (copy_ssh_file H port key) fl)
              (ssh_script H port key (unlines [''set -euo pipefail'',
                 ''chmod 0600 '' @ dq @ ''$HOME/.ssh/'' @ dq @ ''*'']))))"

section \<open>Provider, credentials, services\<close>

definition opencode_config :: string where
  "opencode_config = dq @ ''$HOME/.config/opencode/config.json'' @ dq"

definition apply_provider :: "host \<Rightarrow> int \<Rightarrow> path \<Rightarrow> vm_config \<Rightarrow> unit io" where
  "apply_provider H port key cfg =
     (case provider cfg of
        None \<Rightarrow> ret ()
      | Some p \<Rightarrow> ssh_script H port key (unlines
          [''set -euo pipefail'', ''install -d -m 0700 '' @ dq @ ''$HOME/.config/opencode'' @ dq,
           ''printf '' @ sq @ ''%s'' @ sq @ '' '' @ h_provider_b64 H p @ '' | base64 -d > '' @ opencode_config,
           ''chmod 0600 '' @ opencode_config]))"

definition apply_credentials :: "host \<Rightarrow> int \<Rightarrow> path \<Rightarrow> vm_config \<Rightarrow> unit io" where
  "apply_credentials H port key cfg =
     (if credentials cfg = CredApi
      then raise (ValueError ''vm: credentials.mode api is not supported for qemu'')
      else if credentials cfg \<noteq> CredClone then ret ()
      else let source = child (child (h_home H) ''.config'') ''opencode'' in
        bnd (asks (\<lambda>w. is_dir H w source)) (\<lambda>d.
          if \<not> d then raise (FileNotFoundError (''vm: credentials source not found: '' @ path_str source))
          else andthen (ssh_script H port key (unlines [''set -euo pipefail'',
                          ''install -d -m 0700 '' @ dq @ ''$HOME/.config/opencode'' @ dq]))
                 (rsync_to H port key source ''~/.config/opencode/'')))"

definition web_ui_service :: "string \<Rightarrow> string list" where
  "web_ui_service password =
     [''[Unit]'', ''Description=opencode web UI'', ''After=network.target'', [],
      ''[Service]'', ''Type=simple'', ''User=workspace'', ''Group=workspace'',
      ''WorkingDirectory='' @ VM_INSTALL_ROOT, ''Environment=OPENCODE_ENABLE_EXA=1'',
      ''Environment=OPENCODE_SERVER_PASSWORD='' @ password,
      ''ExecStart='' @ VM_INSTALL_ROOT @ ''/.boot-linux/bin/opencode web --port 4096'',
      ''Restart=on-failure'', ''RestartSec=5'', [], ''[Install]'', ''WantedBy=multi-user.target'']"

definition apply_web_ui :: "host \<Rightarrow> int \<Rightarrow> path \<Rightarrow> vm_config \<Rightarrow> path \<Rightarrow> unit io" where
  "apply_web_ui H port key cfg vm_dir =
     (if \<not> web_ui cfg then ret ()
      else bnd (read_text H (child vm_dir ''password'')) (\<lambda>t.
        ssh_script H port key (unlines
          ([''set -euo pipefail'', ''test -x '' @ VM_INSTALL_ROOT @ ''/.boot-linux/bin/opencode'',
            ''sudo tee /etc/systemd/system/opencode.service >/dev/null <<'' @ sq @ ''EOF'' @ sq]
           @ web_ui_service (strip t)
           @ [''EOF'', ''sudo systemctl daemon-reload'', ''sudo systemctl enable --now opencode.service'']))))"

definition openvpn_service :: "string \<Rightarrow> string list" where
  "openvpn_service auth_arg =
     [''[Unit]'', ''Description=OpenVPN client'', ''After=network-online.target'', [],
      ''[Service]'', ''Type=simple'', ''User=root'',
      ''ExecStart='' @ VM_INSTALL_ROOT @ ''/.boot-linux/bin/openvpn --config /etc/openvpn/client.ovpn'' @ auth_arg,
      ''Restart=on-failure'', ''RestartSec=10'', [], ''[Install]'', ''WantedBy=multi-user.target'']"

definition openvpn_script :: "string \<Rightarrow> string \<Rightarrow> string" where
  "openvpn_script config_guest auth_guest =
     unlines
       ([''set -euo pipefail'', ''test -x '' @ VM_INSTALL_ROOT @ ''/.boot-linux/bin/openvpn'',
         ''sudo install -d -m 0700 /etc/openvpn'',
         ''sudo install -m 0600 '' @ config_guest @ '' /etc/openvpn/client.ovpn'']
        @ (if auth_guest \<noteq> [] then [''sudo install -m 0600 '' @ auth_guest @ '' /etc/openvpn/auth.txt''] else [])
        @ [''sudo tee /etc/systemd/system/openvpn.service >/dev/null <<'' @ sq @ ''EOF'' @ sq]
        @ openvpn_service (if auth_guest \<noteq> [] then '' --auth-user-pass /etc/openvpn/auth.txt'' else [])
        @ [''EOF'', ''sudo systemctl daemon-reload'', ''sudo systemctl enable --now openvpn.service''])"

definition apply_openvpn :: "host \<Rightarrow> int \<Rightarrow> path \<Rightarrow> vm_config \<Rightarrow> path \<Rightarrow> unit io" where
  "apply_openvpn H port key cfg vm_dir =
     (if net_mode (network cfg) \<noteq> NetOpenvpn \<or> vpn_type (network cfg) \<noteq> VpnContainer then ret ()
      else
        bnd (asks (find_workspace_root H)) (\<lambda>root.
        bnd (resolve_vpn_config H root (vpn_config (network cfg))) (\<lambda>config.
        bnd (asks (\<lambda>w. resolve_vpn_auth H w root (vpn_auth (network cfg)))) (\<lambda>auth.
        andthen (copy_to H port key config ''/tmp/workspace-openvpn-client.ovpn'')
       (case auth of
          None \<Rightarrow> ssh_script H port key (openvpn_script ''/tmp/workspace-openvpn-client.ovpn'' [])
        | Some a \<Rightarrow>
            andthen (copy_to H port key a ''/tmp/workspace-openvpn-auth.txt'')
              (ssh_script H port key (openvpn_script ''/tmp/workspace-openvpn-client.ovpn''
                 ''/tmp/workspace-openvpn-auth.txt'')))))))"

section \<open>Entry points\<close>

definition guest_port :: "host \<Rightarrow> path \<Rightarrow> int option \<Rightarrow> int io" where
  "guest_port H vm_dir p =
     (case p of Some n \<Rightarrow> ret n
      | None \<Rightarrow> bnd (read_text H (child vm_dir ''ssh_port'')) (\<lambda>t. lift_sum (py_int (strip t))))"

definition apply_guest_config :: "host \<Rightarrow> vm_config \<Rightarrow> path \<Rightarrow> int option \<Rightarrow> unit io" where
  "apply_guest_config H cfg vm_dir ssh_port =
     bnd (guest_port H vm_dir ssh_port) (\<lambda>port.
       let key = child vm_dir ''qemu_ssh_ed25519'' in
       andthen (apply_mounts_script H port key cfg)
      (andthen (apply_limits H port key cfg)
      (andthen (apply_network_policy H port key cfg)
      (andthen (when_io (env cfg \<noteq> []) (apply_env H port key (env cfg)))
      (andthen (when_io (files cfg \<noteq> []) (apply_files H port key cfg))
      (andthen (when_io (ssh_mode (ssh cfg) \<noteq> SshNone) (apply_ssh H port key cfg))
      (andthen (when_io (provider cfg \<noteq> None) (apply_provider H port key cfg))
      (andthen (when_io (credentials cfg \<noteq> CredNone) (apply_credentials H port key cfg))
      (andthen (apply_openvpn H port key cfg vm_dir)
               (apply_web_ui H port key cfg vm_dir))))))))))"

definition apply_host_shares :: "host \<Rightarrow> path \<Rightarrow> int option \<Rightarrow> bool \<Rightarrow> unit io" where
  "apply_host_shares H vm_dir ssh_port with_ci =
     bnd (guest_port H vm_dir ssh_port) (\<lambda>port.
       ssh_script H port (child vm_dir ''qemu_ssh_ed25519'')
         (join nl ([''set -euo pipefail'', ''sudo mkdir -p /mnt/workspace-ro /opt/workspace-ci'',
            ''mountpoint -q /mnt/workspace-ro || sudo '' @ workspace_mount_cmd]
           @ (if with_ci then [''mountpoint -q /opt/workspace-ci || sudo '' @ ci_mount_cmd] else [])) @ nl))"

definition apply_mounts :: "host \<Rightarrow> vm_config \<Rightarrow> path \<Rightarrow> int option \<Rightarrow> unit io" where
  "apply_mounts H cfg vm_dir ssh_port =
     (if mounts cfg = [] then ret ()
      else bnd (guest_port H vm_dir ssh_port) (\<lambda>port.
             apply_mounts_script H port (child vm_dir ''qemu_ssh_ed25519'') cfg))"

section \<open>Facts\<close>

text \<open>A destination below the install root stays below it.\<close>

lemma guest_destination_parts:
  "guest_destination v = Inr d \<Longrightarrow>
   mk_path d = Path True ([''opt'', ''workspace''] @ parts (mk_path v)) \<and> ''..'' \<notin> set (parts (mk_path v))"
proof -
  assume "guest_destination v = Inr d"
  then have d: "d = ''/opt/workspace/'' @ v" and nodots: "''..'' \<notin> set (parts (mk_path v))"
    by (auto simp: guest_destination_def split: if_splits)
  have "split_on (CHR ''/'') d = [[], ''opt'', ''workspace''] @ split_on (CHR ''/'') v"
    by (simp add: d)
  with nodots show ?thesis by (simp add: d mk_path_def)
qed

lemma env_lines_Inr:
  "env_lines es = Inr ls \<longleftrightarrow>
   (\<forall>e \<in> set es. env_key_match (fst e)) \<and> ls = map (\<lambda>(n, v). n @ ''='' @ shlex_quote v) es"
proof (induction es arbitrary: ls)
  case Nil
  then show ?case by auto
next
  case (Cons e es)
  show ?case
  proof (cases "env_lines es")
    case (Inl x)
    then have "\<not> (\<forall>e \<in> set es. env_key_match (fst e))"
      using Cons.IH [of "map (\<lambda>(n, v). n @ ''='' @ shlex_quote v) es"] by simp
    with Inl show ?thesis by (cases e) auto
  next
    case (Inr y)
    then have "(\<forall>e \<in> set es. env_key_match (fst e)) \<and> y = map (\<lambda>(n, v). n @ ''='' @ shlex_quote v) es"
      using Cons.IH [of y] by simp
    with Inr show ?thesis by (cases e) auto
  qed
qed

section \<open>Every command goes to the guest\<close>

text \<open>A request that reaches the guest through SSH on the loopback interface.\<close>

fun guest_access :: "request \<Rightarrow> bool" where
  "guest_access (Run c) \<longleftrightarrow>
     (case c_argv c of [] \<Rightarrow> False
      | prog # args \<Rightarrow> prog \<in> {''ssh'', ''scp'', ''rsync''} \<and> (\<exists>a \<in> set args. prefix ''workspace@127.0.0.1'' a))"
| "guest_access _ \<longleftrightarrow> False"

lemma emits_transport [emits_intros]:
  "emits guest_access (ssh_script H port key s)" "emits guest_access (rsync_to H port key src dst)"
  "emits guest_access (copy_to H port key src dst)"
  unfolding ssh_script_def rsync_to_def copy_to_def
  by (intro emits_intros; simp add: plain_call_def SSH_OPTS_def)+

lemma emits_guest_parts [emits_intros]:
  "emits guest_access (apply_env H port key es)" "emits guest_access (apply_limits H port key cfg)"
  "emits guest_access (apply_network_policy H port key cfg)"
  "emits guest_access (apply_mounts_script H port key cfg)" "emits guest_access (apply_file H port key f)"
  "emits guest_access (copy_ssh_file H port key p)" "emits guest_access (apply_provider H port key cfg)"
  "emits guest_access (apply_credentials H port key cfg)" "emits guest_access (apply_web_ui H port key cfg d)"
  "emits guest_access (apply_openvpn H port key cfg d)" "emits P (guest_port H d po)"
  unfolding apply_env_def apply_limits_def apply_network_policy_def apply_mounts_script_def apply_file_def
    copy_ssh_file_def apply_provider_def apply_credentials_def apply_web_ui_def apply_openvpn_def
    guest_port_def Let_def
  by (intro emits_intros)+

lemma emits_guest_lists [emits_intros]:
  "emits guest_access (apply_files H port key cfg)" "emits guest_access (apply_ssh H port key cfg)"
  unfolding apply_files_def apply_ssh_def Let_def by (intro emits_intros)+

lemma emits_guest_entry [emits_intros]:
  "emits guest_access (apply_guest_config H cfg d po)" "emits guest_access (apply_host_shares H d po ci)"
  "emits guest_access (apply_mounts H cfg d po)"
  unfolding apply_guest_config_def apply_host_shares_def apply_mounts_def Let_def by (intro emits_intros)+

section \<open>Properties\<close>

text \<open>C11: copies into the guest stay below the install root. A destination that \<open>_destination\<close> accepts is,
  however it is written, a path below \<open>/opt/workspace\<close>; absolute destinations and those with a parent step are
  rejected.\<close>

theorem guest_destination_confined:
  assumes "guest_destination v = Inr d"
  shows "below (Path True [''opt'', ''workspace'']) (resolve cwd (mk_path d)) \<and> \<not> prefix ''/'' v \<and>
    ''..'' \<notin> set (parts (mk_path v))"
  using guest_destination_parts [OF assms] assms
  by (auto simp: below_def resolve_def fold_dots_clean guest_destination_def split: if_splits)

theorem guest_destination_confined_witness:
  "below (Path True [''opt'', ''workspace'']) (resolve (Path True []) (mk_path ''/opt/workspace/a/b''))"
  by (rule conjunct1 [OF guest_destination_confined [of "''a/b''"]]) code_simp


end
