(* ===== verification/Argv.thy ===== *)
theory Argv
  imports Prelude
begin

text \<open>
  Reading an argument vector as options: the options in \<open>lone\<close> stand alone, every other one takes
  the next argument as its value. The properties of the command lines are stated over this reading, so
  they hold whatever the values are.
\<close>

fun read_opts :: "string list \<Rightarrow> string list \<Rightarrow> (string \<times> string) list" where
  "read_opts lone [] = []"
| "read_opts lone [k] = [(k, [])]"
| "read_opts lone (k # v # rest) =
     (if k \<in> set lone then (k, []) # read_opts lone (v # rest) else (k, v) # read_opts lone rest)"

definition values_of :: "string \<Rightarrow> (string \<times> string) list \<Rightarrow> string list" where
  "values_of k ops = map snd (filter (\<lambda>kv. fst kv = k) ops)"

lemma values_of_simps [simp]:
  "values_of k [] = []" "values_of k ((a, v) # ops) = (if a = k then v # values_of k ops else values_of k ops)"
  "values_of k (xs @ ys) = values_of k xs @ values_of k ys"
  by (simp_all add: values_of_def)

lemma values_of_concat:
  "values_of k (concat (map f xs)) = concat (map (\<lambda>x. values_of k (f x)) xs)"
  by (induction xs) auto

lemma concat_single: "concat (map (\<lambda>x. [f x]) xs) = map f xs"
  by (induction xs) auto

text \<open>A vector of whole options: reading goes on after it as from the start.\<close>

definition whole_opts :: "string list \<Rightarrow> string list \<Rightarrow> bool" where
  "whole_opts lone xs \<longleftrightarrow> (\<forall>ys. read_opts lone (xs @ ys) = read_opts lone xs @ read_opts lone ys)"

lemma whole_Nil [simp]: "whole_opts lone []"
  by (simp add: whole_opts_def)

lemma whole_pair [simp]: "k \<notin> set lone \<Longrightarrow> whole_opts lone xs \<Longrightarrow> whole_opts lone (k # v # xs)"
  by (simp add: whole_opts_def)

lemma read_lone: "k \<in> set lone \<Longrightarrow> read_opts lone (k # xs) = (k, []) # read_opts lone xs"
  by (cases xs) simp_all

lemma whole_lone: "k \<in> set lone \<Longrightarrow> whole_opts lone xs \<Longrightarrow> whole_opts lone (k # xs)"
  by (simp add: whole_opts_def read_lone)

lemma whole_append [simp]: "whole_opts lone xs \<Longrightarrow> whole_opts lone ys \<Longrightarrow> whole_opts lone (xs @ ys)"
  by (simp add: whole_opts_def)

lemma read_opts_append: "whole_opts lone xs \<Longrightarrow> read_opts lone (xs @ ys) = read_opts lone xs @ read_opts lone ys"
  by (simp add: whole_opts_def)

lemma whole_concat: "(\<And>x. x \<in> set xss \<Longrightarrow> whole_opts lone x) \<Longrightarrow> whole_opts lone (concat xss)"
  by (induction xss) auto

lemma read_opts_concat:
  "(\<And>x. x \<in> set xss \<Longrightarrow> whole_opts lone x) \<Longrightarrow> read_opts lone (concat xss) = concat (map (read_opts lone) xss)"
  by (induction xss) (auto simp: read_opts_append)

text \<open>Options given one by one from a list.\<close>

lemma read_opts_map:
  "k \<notin> set lone \<Longrightarrow> read_opts lone (concat (map (\<lambda>x. [k, f x]) xs)) = map (\<lambda>x. (k, f x)) xs"
  by (induction xs) auto

lemma whole_map: "k \<notin> set lone \<Longrightarrow> whole_opts lone (concat (map (\<lambda>x. [k, f x]) xs))"
  by (rule whole_concat) auto

lemma values_of_map: "values_of k (map (\<lambda>x. (a, f x)) xs) = (if a = k then map f xs else [])"
  by (induction xs) auto

end
