(* ===== verification/Demo.thy ===== *)
theory Demo
  imports World
begin

text \<open>
  A concrete machine on which the properties are instantiated: a Linux host whose external commands
  all succeed and change nothing, with a file system and a process table given by lists.
\<close>

definition quiet_reply :: "call \<Rightarrow> world \<Rightarrow> reply" where
  "quiet_reply c w = \<lparr>r_result = Exit 0 [] [], r_fs = fs w, r_procs = procs w, r_time = 0\<rparr>"

definition demo_host :: host where
  "demo_host =
     \<lparr>h_cwd = Path True [''work''], h_home = Path True [''home'', ''me''], h_home_of = (\<lambda>_. None), h_env = (\<lambda>_. None),
      h_darwin = False, h_system = ''Linux'', h_which = (\<lambda>_ n. Some (''/usr/bin/'' @ n)),
      h_executable = (\<lambda>_. True), h_unwritable = (\<lambda>_. False), h_torn = (\<lambda>_ _ _. None), h_run = quiet_reply,
      h_qmp = (\<lambda>_ w. \<lparr>qm_lines = None, qm_procs = procs w, qm_time = 0\<rparr>),
      h_idle = (\<lambda>_ w. (procs w, 0)), h_random = (\<lambda>n. n), h_now = (\<lambda>_. ''now''),
      h_epoch_ms = (\<lambda>w. clock w div 1000000), h_str = (\<lambda>_. ''error''), h_render = (\<lambda>n _. n),
      h_config_json = (\<lambda>_. ''{}''), h_opencode_json = (\<lambda>_. ''{}''), h_text = (\<lambda>_. []),
      h_sha256 = (\<lambda>s. s), h_free_port = (\<lambda>_. 2222), h_provider_b64 = (\<lambda>_. []), h_children = (\<lambda>_ _. [])\<rparr>"

definition demo_world :: "(string list \<times> node) list \<Rightarrow> (nat \<times> proc) list \<Rightarrow> world" where
  "demo_world nodes ps =
     \<lparr>fs = (\<lambda>p. if absolute p then map_of nodes (parts p) else None), procs = map_of ps,
      clock = 0, draws = 0, out = [], err = [], requests = []\<rparr>"

lemma demo_at: "at demo_host (demo_world nodes ps) p = map_of nodes (parts (resolve (Path True [''work'']) p))"
  by (simp add: at_def demo_host_def demo_world_def)

lemma demo_host_sel [simp]:
  "h_cwd demo_host = Path True [''work'']" "h_env demo_host v = None" "h_unwritable demo_host p = False" "h_torn demo_host w p c = None" "h_home_of demo_host n = None"
  "h_run demo_host = quiet_reply" "h_darwin demo_host = False" "h_now demo_host w = ''now''"
  "h_home demo_host = Path True [''home'', ''me'']" "h_system demo_host = ''Linux''"
  by (simp_all add: demo_host_def)

lemma demo_world_sel [simp]:
  "procs (demo_world nodes ps) = map_of ps" "requests (demo_world nodes ps) = []"
  "fs (demo_world nodes ps) p = (if absolute p then map_of nodes (parts p) else None)"
  "out (demo_world nodes ps) = []" "err (demo_world nodes ps) = []"
  by (simp_all add: demo_world_def)

lemma quiet_reply_sel [simp]:
  "r_result (quiet_reply c w) = Exit 0 [] []" "r_fs (quiet_reply c w) = fs w" "r_procs (quiet_reply c w) = procs w"
  by (simp_all add: quiet_reply_def)

end
