(* ===== verification/QemuArgv.thy ===== *)
theory QemuArgv
  imports World Argv Demo
begin

text \<open>
  \<open>workspace/cli/hypervisor/qemu_argv.py\<close>: the command line of \<open>qemu-system-*\<close> as a pure
  function of the configuration, the VM directory and the launch context.
\<close>

record launch_context =
  l_qemu_bin :: path
  l_accel :: string
  l_ssh_port :: int
  l_firmware :: "path option"
  l_workspace_root :: "path option"
  l_ci_root :: "path option"
  l_qmp_socket :: "path option"
  l_restrict_network :: bool

text \<open>The pattern \<open>^(\d+)([gGmM])?$\<close> on the stripped value.\<close>

definition parse_memory_mb :: "string \<Rightarrow> exn + nat" where
  "parse_memory_mb mem =
     (let s = strip mem; digits = takeWhile is_digit s; suffix = dropWhile is_digit s
      in if digits = [] \<or> (suffix \<noteq> [] \<and> suffix \<notin> {''g'', ''G'', ''m'', ''M''})
         then Inl (ValueError (''invalid memory value: '' @ mem))
         else if suffix = [] \<or> lower suffix = ''g'' then Inr (nat_of_digits digits * 1024)
         else Inr (nat_of_digits digits))"

definition bridge_args :: "vm_config \<Rightarrow> string list" where
  "bridge_args cfg =
     (if net_mode (network cfg) = NetBridge
      then [''-netdev'', ''bridge,id=net1,br='' @ network_name (network cfg),
            ''-device'', ''virtio-net-pci,netdev=net1'']
      else [])"

definition share_args :: "string \<Rightarrow> string \<Rightarrow> string \<Rightarrow> string list" where
  "share_args ident p tag =
     [''-fsdev'', ''local,id='' @ ident @ '',path='' @ p @ '',security_model=none,readonly=on'',
      ''-device'', ''virtio-9p-pci,fsdev='' @ ident @ '',mount_tag='' @ tag]"

definition mount_paths :: "host \<Rightarrow> vm_config \<Rightarrow> exn + path list" where
  "mount_paths H cfg = all_inr (map (\<lambda>entry. path_expanduser H (mk_path entry)) (mounts cfg))"

definition mount_args :: "path list \<Rightarrow> string list" where
  "mount_args ps =
     concat (map (\<lambda>(index, p). share_args (''fs'' @ show_nat index) (path_str p) (''hostshare'' @ show_nat index))
       (List.enumerate 0 ps))"

definition root_share_args :: "string \<Rightarrow> path option \<Rightarrow> string \<Rightarrow> string list" where
  "root_share_args ident p tag =
     (case p of None \<Rightarrow> [] | Some r \<Rightarrow> share_args ident (path_str r) tag)"

definition netdev_user :: "launch_context \<Rightarrow> string" where
  "netdev_user l =
     ''user,id=net0,hostfwd=tcp:127.0.0.1:'' @ show_int (l_ssh_port l) @ ''-:22''
     @ (if l_restrict_network l then '',restrict=on'' else [])"

definition machine_args :: "qemu_config \<Rightarrow> launch_context \<Rightarrow> string list" where
  "machine_args q l =
     (if guest_arch q = Aarch64
      then [''-machine'', ''virt,gic-version=3,acpi=on'']
           @ (case l_firmware l of None \<Rightarrow> [] | Some f \<Rightarrow> [''-bios'', path_str f])
      else [''-machine'', ''q35''])"

definition build_qemu_argv :: "host \<Rightarrow> vm_config \<Rightarrow> path \<Rightarrow> launch_context \<Rightarrow> exn + string list" where
  "build_qemu_argv H cfg vm_dir l =
     (let q = qemu (isolation cfg); vm_abs = resolve (h_cwd H) vm_dir;
          disk = child vm_abs ''disk.qcow2''; seed = child (child vm_abs ''cloud-init'') ''seed.img'';
          pidfile = child vm_abs ''qemu.pid''; log_file = child vm_abs ''qemu.log'';
          cpu = (if l_accel l = ''kvm'' then ''host'' else ''max'')
      in case parse_memory_mb (memory (resources cfg)) of
           Inl e \<Rightarrow> Inl e
         | Inr memory_mb \<Rightarrow> sum_map (\<lambda>mount_ps.
             [path_str (l_qemu_bin l), ''-accel'', l_accel l, ''-cpu'', cpu]
              @ machine_args q l
              @ [''-m'', show_nat memory_mb, ''-smp'', show_int (cpus (resources cfg)),
                 ''-drive'', ''file='' @ path_str disk @ '',if=virtio,format=qcow2'',
                 ''-drive'', ''file='' @ path_str seed @ '',format=raw,if=virtio'',
                 ''-netdev'', netdev_user l,
                 ''-device'', ''virtio-net-pci,netdev=net0'',
                 ''-device'', ''virtio-rng-pci'']
              @ bridge_args cfg
              @ mount_args mount_ps
              @ root_share_args ''ws0'' (l_workspace_root l) ''workspace''
              @ root_share_args ''ci0'' (l_ci_root l) ''workspace-ci''
              @ (case l_qmp_socket l of None \<Rightarrow> []
                 | Some s \<Rightarrow> [''-qmp'', ''unix:'' @ path_str s @ '',server=on,wait=off''])
              @ [''-display'', ''none'', ''-pidfile'', path_str pidfile, ''-daemonize'',
                 ''-D'', path_str log_file]) (mount_paths H cfg))"

section \<open>Facts\<close>

text \<open>How qemu reads the arguments after the program name: \<open>-daemonize\<close> stands alone, every other
  option takes the next argument as its value.\<close>

abbreviation read_options :: "string list \<Rightarrow> (string \<times> string) list" where
  "read_options \<equiv> read_opts [''-daemonize'']"

abbreviation pairs :: "string list \<Rightarrow> bool" where
  "pairs \<equiv> whole_opts [''-daemonize'']"

lemma pairs_share [simp]: "pairs (share_args i p t)"
  by (simp add: share_args_def)

lemma pairs_root_share [simp]: "pairs (root_share_args i p t)"
  by (simp add: root_share_args_def split: option.split)

lemma pairs_mounts [simp]: "pairs (mount_args ps)"
  unfolding mount_args_def by (rule whole_concat) auto

lemma pairs_parts [simp]: "pairs (bridge_args cfg)" "pairs (machine_args q l)"
  by (simp_all add: bridge_args_def machine_args_def split: option.split)

lemma read_share [simp]: "read_options (share_args i p t) =
  [(''-fsdev'', ''local,id='' @ i @ '',path='' @ p @ '',security_model=none,readonly=on''),
   (''-device'', ''virtio-9p-pci,fsdev='' @ i @ '',mount_tag='' @ t)]"
  by (simp add: share_args_def)

text \<open>The directory that is mounted for an entry.\<close>

definition mounted :: "host \<Rightarrow> string \<Rightarrow> path" where
  "mounted H entry = (case path_expanduser H (mk_path entry) of Inr p \<Rightarrow> p | Inl _ \<Rightarrow> mk_path entry)"

lemma mount_paths_Inr: "mount_paths H cfg = Inr ps \<Longrightarrow> ps = map (mounted H) (mounts cfg)"
proof -
  have "map (\<lambda>e. path_expanduser H (mk_path e)) es = map Inr ps \<Longrightarrow> ps = map (mounted H) es" for es
    by (induction es arbitrary: ps) (auto simp: mounted_def)
  then show "mount_paths H cfg = Inr ps \<Longrightarrow> ps = map (mounted H) (mounts cfg)" by (simp add: mount_paths_def all_inr_Inr)
qed

text \<open>The whole command line as its options.\<close>

definition argv_options :: "host \<Rightarrow> vm_config \<Rightarrow> path \<Rightarrow> launch_context \<Rightarrow> nat \<Rightarrow> (string \<times> string) list" where
  "argv_options H cfg vm_dir l mem =
     (let d = resolve (h_cwd H) vm_dir in
      [(''-accel'', l_accel l), (''-cpu'', if l_accel l = ''kvm'' then ''host'' else ''max'')]
      @ read_options (machine_args (qemu (isolation cfg)) l)
      @ [(''-m'', show_nat mem), (''-smp'', show_int (cpus (resources cfg))),
         (''-drive'', ''file='' @ path_str (child d ''disk.qcow2'') @ '',if=virtio,format=qcow2''),
         (''-drive'', ''file='' @ path_str (child (child d ''cloud-init'') ''seed.img'') @ '',format=raw,if=virtio''),
         (''-netdev'', netdev_user l), (''-device'', ''virtio-net-pci,netdev=net0''), (''-device'', ''virtio-rng-pci'')]
      @ read_options (bridge_args cfg)
      @ read_options (mount_args (map (mounted H) (mounts cfg)))
      @ read_options (root_share_args ''ws0'' (l_workspace_root l) ''workspace'')
      @ read_options (root_share_args ''ci0'' (l_ci_root l) ''workspace-ci'')
      @ (case l_qmp_socket l of None \<Rightarrow> [] | Some s \<Rightarrow> [(''-qmp'', ''unix:'' @ path_str s @ '',server=on,wait=off'')])
      @ [(''-display'', ''none''), (''-pidfile'', path_str (child d ''qemu.pid'')), (''-daemonize'', []),
         (''-D'', path_str (child d ''qemu.log''))])"

lemma read_mounts: "read_options (mount_args ps) =
  concat (map (\<lambda>(i, p). read_options (share_args (''fs'' @ show_nat i) (path_str p) (''hostshare'' @ show_nat i))) (List.enumerate 0 ps))"
proof -
  have "map read_options (map (\<lambda>(i, e). f i e) xs) = map (\<lambda>(i, e). read_options (f i e)) xs"
    for f :: "nat \<Rightarrow> path \<Rightarrow> string list" and xs
    by auto
  note step = this
  show ?thesis
    unfolding mount_args_def
    by (subst read_opts_concat) (auto simp only: step set_map split: prod.splits simp: pairs_share)
qed

lemma read_argv:
  assumes "build_qemu_argv H cfg vm_dir l = Inr argv"
  shows "\<exists>mem. parse_memory_mb (memory (resources cfg)) = Inr mem \<and> hd argv = path_str (l_qemu_bin l) \<and>
    read_options (tl argv) = argv_options H cfg vm_dir l mem"
proof -
  obtain mem where mem: "parse_memory_mb (memory (resources cfg)) = Inr mem"
    using assms by (auto simp: build_qemu_argv_def Let_def split: sum.splits)
  have q: "read_options ((case l_qmp_socket l of None \<Rightarrow> [] | Some s \<Rightarrow> [''-qmp'', v s]) @ xs) =
      (case l_qmp_socket l of None \<Rightarrow> [] | Some s \<Rightarrow> [(''-qmp'', v s)]) @ read_options xs" for v xs
    by (simp split: option.split)
  show ?thesis
    using assms mem
    by (auto simp: build_qemu_argv_def Let_def argv_options_def read_opts_append q sum_map_Inr dest!: mount_paths_Inr)
qed

lemma takeWhile_digits: "list_all is_digit ds \<Longrightarrow> \<not> is_digit c \<Longrightarrow> takeWhile is_digit (ds @ [c]) = ds"
  by (induction ds) auto

lemma dropWhile_digits: "list_all is_digit ds \<Longrightarrow> \<not> is_digit c \<Longrightarrow> dropWhile is_digit (ds @ [c]) = [c]"
  by (induction ds) auto

lemma strip_digits_suffix:
  assumes "list_all is_digit ds" "\<not> is_space c"
  shows "strip (ds @ [c]) = ds @ [c]"
  using assms by (intro strip_no_space) (auto simp: list_all_iff is_digit_not_space)

declare show_nat_nonempty [simp]

lemma parse_memory_units:
  "parse_memory_mb (show_nat n @ ''g'') = Inr (n * 1024)"
  "parse_memory_mb (show_nat n @ ''m'') = Inr n"
  "parse_memory_mb (show_nat n) = Inr (n * 1024)"
proof -
  have d: "list_all is_digit (show_nat n)" by (rule show_nat_digits)
  have g: "\<not> is_digit (CHR ''g'')" "\<not> is_space (CHR ''g'')" "\<not> is_digit (CHR ''m'')" "\<not> is_space (CHR ''m'')"
    by (simp_all add: is_digit_iff is_space_def)
  show "parse_memory_mb (show_nat n @ ''g'') = Inr (n * 1024)"
    using d g by (simp add: parse_memory_mb_def strip_digits_suffix takeWhile_digits dropWhile_digits
        lower_def lower_char_def less_eq_char_def)
  show "parse_memory_mb (show_nat n @ ''m'') = Inr n"
    using d g by (simp add: parse_memory_mb_def strip_digits_suffix takeWhile_digits dropWhile_digits
        lower_def lower_char_def less_eq_char_def)
  have tw: "takeWhile is_digit (show_nat n) = show_nat n" "dropWhile is_digit (show_nat n) = []"
    using d by (simp_all add: list_all_iff)
  show "parse_memory_mb (show_nat n) = Inr (n * 1024)"
    using d by (simp add: parse_memory_mb_def Let_def tw list_all_iff)
qed

lemma parse_memory_error:
  "(\<exists>e. parse_memory_mb s = Inl e) \<longleftrightarrow>
   takeWhile is_digit (strip s) = [] \<or>
   (dropWhile is_digit (strip s) \<noteq> [] \<and> dropWhile is_digit (strip s) \<notin> {''g'', ''G'', ''m'', ''M''})"
  by (auto simp: parse_memory_mb_def Let_def)

text \<open>Readings of the command line: the network devices, the shared directories and the tags.\<close>

lemma argv_netdevs:
  "values_of ''-netdev'' (argv_options H cfg d l mem) =
   netdev_user l # (if net_mode (network cfg) = NetBridge then [''bridge,id=net1,br='' @ network_name (network cfg)] else [])"
  by (simp add: argv_options_def Let_def read_mounts values_of_concat split_beta bridge_args_def machine_args_def
      root_share_args_def split: option.split)

text \<open>The shares a machine sees: the configured mounts by position, then the two roots.\<close>

definition share_values :: "host \<Rightarrow> vm_config \<Rightarrow> launch_context \<Rightarrow> (string \<times> string \<times> string) list" where
  "share_values H cfg l =
     map (\<lambda>(i, p). (''fs'' @ show_nat i, path_str p, ''hostshare'' @ show_nat i))
       (List.enumerate 0 (map (mounted H) (mounts cfg)))
     @ (case l_workspace_root l of None \<Rightarrow> [] | Some r \<Rightarrow> [(''ws0'', path_str r, ''workspace'')])
     @ (case l_ci_root l of None \<Rightarrow> [] | Some r \<Rightarrow> [(''ci0'', path_str r, ''workspace-ci'')])"

lemma argv_fsdevs:
  "values_of ''-fsdev'' (argv_options H cfg d l mem) =
   map (\<lambda>(i, p, t). ''local,id='' @ i @ '',path='' @ p @ '',security_model=none,readonly=on'') (share_values H cfg l)"
  by (simp add: argv_options_def Let_def read_mounts values_of_concat split_beta bridge_args_def machine_args_def
      root_share_args_def share_values_def concat_single split: option.split)

lemma share_idents_distinct: "distinct (map fst (share_values H cfg l))"
proof -
  have "distinct (map (\<lambda>x. ''fs'' @ show_nat (fst x)) (List.enumerate 0 (map (mounted H) (mounts cfg))))"
    by (auto simp: distinct_map inj_on_def in_set_enumerate_eq show_nat_inj intro!: prod_eqI)
  then show ?thesis
    by (auto simp: share_values_def comp_def split_beta split: option.split)
qed

section \<open>Properties\<close>

text \<open>C10: host directories are shared read-only. On the command line that QEMU is launched with, the shared
  directories are the configured mounts in their order and the two provisioning roots, every one of them read-only,
  with identifiers that are all different.\<close>

theorem shares_are_readonly:
  assumes "build_qemu_argv H cfg vm_dir l = Inr argv"
  shows "values_of ''-fsdev'' (read_options (tl argv)) =
      map (\<lambda>(i, p, t). ''local,id='' @ i @ '',path='' @ p @ '',security_model=none,readonly=on'') (share_values H cfg l)
    \<and> list_all (suffix '',readonly=on'') (values_of ''-fsdev'' (read_options (tl argv)))
    \<and> distinct (map fst (share_values H cfg l))
    \<and> length (values_of ''-fsdev'' (read_options (tl argv))) \<le> length (mounts cfg) + 2"
proof -
  have fsdevs: "values_of ''-fsdev'' (read_options (tl argv)) =
      map (\<lambda>(i, p, t). ''local,id='' @ i @ '',path='' @ p @ '',security_model=none,readonly=on'') (share_values H cfg l)"
    using read_argv [OF assms] argv_fsdevs by auto
  have suff: "suffix '',readonly=on'' (''local,id='' @ i @ '',path='' @ p @ '',security_model=none,readonly=on'')" for i p :: string
    unfolding suffix_def by (rule exI [of _ "''local,id='' @ i @ '',path='' @ p @ '',security_model=none''"]) simp
  then have "list_all (suffix '',readonly=on'')
      (map (\<lambda>(i, p, t). ''local,id='' @ i @ '',path='' @ p @ '',security_model=none,readonly=on'') ss)"
    for ss :: "(string \<times> string \<times> string) list"
    by (induction ss) (simp_all only: list.map list.pred_inject split_beta simp_thms)
  moreover have "length (share_values H cfg l) \<le> length (mounts cfg) + 2"
    by (simp add: share_values_def split: option.split)
  ultimately show ?thesis
    unfolding fsdevs using share_idents_distinct by (simp del: append_Cons)
qed

text \<open>A machine with one mounted directory.\<close>

definition demo_launch :: launch_context where
  "demo_launch = \<lparr>l_qemu_bin = Path True [''qemu''], l_accel = ''kvm'', l_ssh_port = 22, l_firmware = None,
     l_workspace_root = None, l_ci_root = None, l_qmp_socket = None, l_restrict_network = True\<rparr>"

definition demo_mounting :: vm_config where
  "demo_mounting = (default_config ''x86_64'' [])\<lparr>mounts := [''/data'']\<rparr>"

lemma demo_argv: "\<exists>argv. build_qemu_argv demo_host demo_mounting (Path False [''vm'']) demo_launch = Inr argv"
proof -
  have "parse_memory_mb (memory (resources demo_mounting)) = Inr 4096" by code_simp
  moreover have "mount_paths demo_host demo_mounting = Inr [Path True [''data'']]"
    by (simp add: mount_paths_def demo_mounting_def mk_path_def path_expanduser_def)
  ultimately show ?thesis by (simp add: build_qemu_argv_def Let_def sum_map_def)
qed

theorem shares_are_readonly_witness:
  "\<exists>argv. build_qemu_argv demo_host demo_mounting (Path False [''vm'']) demo_launch = Inr argv \<and>
     list_all (suffix '',readonly=on'') (values_of ''-fsdev'' (read_options (tl argv)))"
  using demo_argv shares_are_readonly by blast

text \<open>Memory sizes. A decimal number with unit \<open>g\<close> or without unit counts gibibytes, with unit \<open>m\<close>
  mebibytes; anything that does not start with a digit, or goes on after the digits with something other than one
  unit letter, is rejected.\<close>

theorem memory_sizes:
  "parse_memory_mb (show_nat n @ ''g'') = Inr (n * 1024) \<and> parse_memory_mb (show_nat n @ ''m'') = Inr n \<and>
   parse_memory_mb (show_nat n) = Inr (n * 1024) \<and>
   ((\<exists>n. parse_memory_mb s = Inr n) \<longleftrightarrow>
      takeWhile is_digit (strip s) \<noteq> [] \<and> dropWhile is_digit (strip s) \<in> {[], ''g'', ''G'', ''m'', ''M''})"
proof -
  have "(\<exists>n. parse_memory_mb s = Inr n) \<longleftrightarrow> \<not> (\<exists>e. parse_memory_mb s = Inl e)"
    by (cases "parse_memory_mb s") auto
  then show ?thesis using parse_memory_units by (auto simp: parse_memory_error)
qed

end
