(* ===== verification/Uuid7.thy ===== *)
theory Uuid7
  imports World Demo "HOL-Library.Word"
begin

text \<open>
  \<open>workspace/utils/uuid_utils.py\<close> and the password generator of \<open>vm_core.py\<close>: identifiers of
  virtual machines. The 128-bit integer is built with shifts and disjunctions of the timestamp, the
  version, the variant and the random fields; the wall clock (\<open>h_epoch_ms\<close>) and the random
  generator (\<open>draw\<close>) belong to the host.
\<close>

unbundle bit_operations_syntax

definition uuid_int :: "nat \<Rightarrow> nat \<Rightarrow> nat \<Rightarrow> nat" where
  "uuid_int ms rand_a rand_b =
     (let unixts_ms = ms mod 2 ^ 48
      in push_bit 80 unixts_ms OR push_bit 76 7 OR push_bit 64 rand_a OR push_bit 62 2 OR rand_b)"

definition hex_char :: "nat \<Rightarrow> char" where
  "hex_char d = (if d < 10 then char_of (48 + d) else char_of (87 + d))"

text \<open>The 32 hexadecimal digits of a 128-bit integer, most significant first, and the hyphenated form.\<close>

definition hex_digits :: "nat \<Rightarrow> string" where
  "hex_digits n = map (\<lambda>i. hex_char (n div 16 ^ (31 - i) mod 16)) [0..<32]"

definition uuid_str :: "nat \<Rightarrow> string" where
  "uuid_str n = (let h = hex_digits n in
     take 8 h @ ''-'' @ take 4 (drop 8 h) @ ''-'' @ take 4 (drop 12 h) @ ''-'' @ take 4 (drop 16 h)
     @ ''-'' @ drop 20 h)"

text \<open>One draw of the host's random source, and the identifier made of the wall clock in
  milliseconds, 12 random bits and 62 random bits.\<close>

definition draw :: "host \<Rightarrow> nat io" where
  "draw H w = (Inr (h_random H (draws w)), w\<lparr>draws := Suc (draws w)\<rparr>)"

definition uuid7 :: "host \<Rightarrow> string io" where
  "uuid7 H =
     bnd (asks (h_epoch_ms H)) (\<lambda>ms. bnd (draw H) (\<lambda>a. bnd (draw H) (\<lambda>b.
       ret (uuid_str (uuid_int ms (a mod 2 ^ 12) (b mod 2 ^ 62))))))"

definition password_alphabet :: string where
  "password_alphabet = ''abcdefghijklmnopqrstuvwxyzABCDEFGHIJKLMNOPQRSTUVWXYZ0123456789''"

definition generate_password :: "host \<Rightarrow> nat \<Rightarrow> string io" where
  "generate_password H len =
     collect (\<lambda>_. bnd (draw H) (\<lambda>r. ret (password_alphabet ! (r mod length password_alphabet)))) [0..<len]"

section \<open>Facts\<close>

lemma wp_draw [wps]: "wp (draw H) Q E w \<longleftrightarrow> Q (h_random H (draws w)) (w\<lparr>draws := Suc (draws w)\<rparr>)"
  by (simp add: wp_def draw_def)

lemma or_disjoint_add: "(x :: nat) < 2 ^ k \<Longrightarrow> push_bit k y OR x = 2 ^ k * y + x"
proof -
  assume x: "x < 2 ^ k"
  have "push_bit k y AND x = 0"
  proof (rule bit_eqI)
    fix n
    show "bit (push_bit k y AND x) n \<longleftrightarrow> bit (0 :: nat) n"
    proof (cases "k \<le> n")
      case True
      then have "2 ^ k \<le> (2 :: nat) ^ n" by simp
      with x have "x < 2 ^ n" by linarith
      then have "\<not> bit x n" by (simp add: bit_iff_odd)
      then show ?thesis by (simp add: bit_and_iff)
    next
      case False
      then show ?thesis by (simp add: bit_and_iff bit_push_bit_iff_nat)
    qed
  qed
  then have "push_bit k y OR x = push_bit k y + x"
    by (simp add: disjunctive_add_eq_or)
  then show ?thesis by (simp add: push_bit_eq_mult mult.commute)
qed

text \<open>The disjunction of the fields is their concatenation.\<close>

lemma uuid_int_fields:
  assumes "a < 2 ^ 12" "b < 2 ^ 62"
  shows "uuid_int ms a b =
    2 ^ 80 * (ms mod 2 ^ 48) + (2 ^ 76 * 7 + (2 ^ 64 * a + (2 ^ 62 * 2 + b)))"
proof -
  have 1: "push_bit 62 2 OR b = 2 ^ 62 * 2 + b"
    using assms(2) by (rule or_disjoint_add)
  have b64: "2 ^ 62 * 2 + b < 2 ^ 64" using assms(2) by simp
  have 2: "push_bit 64 a OR (2 ^ 62 * 2 + b) = 2 ^ 64 * a + (2 ^ 62 * 2 + b)"
    using b64 by (rule or_disjoint_add)
  have b76: "2 ^ 64 * a + (2 ^ 62 * 2 + b) < 2 ^ 76" using assms b64 by simp
  have 3: "push_bit 76 7 OR (2 ^ 64 * a + (2 ^ 62 * 2 + b)) = 2 ^ 76 * 7 + (2 ^ 64 * a + (2 ^ 62 * 2 + b))"
    using b76 by (rule or_disjoint_add)
  have b80: "2 ^ 76 * 7 + (2 ^ 64 * a + (2 ^ 62 * 2 + b)) < 2 ^ 80" using b76 by simp
  have 4: "push_bit 80 (ms mod 2 ^ 48) OR (2 ^ 76 * 7 + (2 ^ 64 * a + (2 ^ 62 * 2 + b)))
    = 2 ^ 80 * (ms mod 2 ^ 48) + (2 ^ 76 * 7 + (2 ^ 64 * a + (2 ^ 62 * 2 + b)))"
    using b80 by (rule or_disjoint_add)
  show ?thesis
    by (simp only: uuid_int_def Let_def or.assoc 1 2 3 4)
qed

lemma hex_char_plain: "d < 16 \<Longrightarrow> hex_char d \<noteq> CHR ''/'' \<and> hex_char d \<noteq> CHR ''.''"
proof -
  assume "d < 16"
  then have "(of_char (hex_char d) :: nat) = (if d < 10 then 48 + d else 87 + d)"
    by (simp add: hex_char_def)
  then show ?thesis by (auto split: if_splits)
qed

lemma length_hex_digits [simp]: "length (hex_digits n) = 32"
  by (simp add: hex_digits_def)

lemma set_hex_digits: "c \<in> set (hex_digits n) \<Longrightarrow> \<exists>d < 16. c = hex_char d"
  by (auto simp: hex_digits_def) (metis mod_less_divisor zero_less_numeral)

lemma set_uuid_str: "c \<in> set (uuid_str n) \<Longrightarrow> c = CHR ''-'' \<or> c \<in> set (hex_digits n)"
  by (auto simp: uuid_str_def Let_def dest: in_set_takeD in_set_dropD)

lemma plain_uuid: "plain (uuid_str n)"
proof -
  have len: "length (uuid_str n) = 36" by (simp add: uuid_str_def Let_def)
  have "CHR ''/'' \<notin> set (uuid_str n)"
  proof
    assume "CHR ''/'' \<in> set (uuid_str n)"
    then have "CHR ''/'' \<in> set (hex_digits n)" by (auto dest: set_uuid_str)
    then obtain d where "d < 16" "CHR ''/'' = hex_char d" using set_hex_digits by blast
    then show False using hex_char_plain by metis
  qed
  moreover have "uuid_str n \<noteq> []" "uuid_str n \<noteq> ''.''" "uuid_str n \<noteq> ''..''"
    using len by auto
  ultimately show ?thesis by (simp add: plain_def)
qed

section \<open>Order\<close>

text \<open>Fixed-width hexadecimal numbers compare as their texts do, and so do their hyphenated forms.\<close>

lemma hex_char_mono: "d < 16 \<Longrightarrow> e < 16 \<Longrightarrow> hex_char d < hex_char e \<longleftrightarrow> d < e"
proof -
  assume "d < 16" "e < 16"
  have v: "d < 16 \<Longrightarrow> (of_char (hex_char d) :: nat) = (if d < 10 then 48 + d else 87 + d)" for d
    by (simp add: hex_char_def)
  show ?thesis using v [OF \<open>d < 16\<close>] v [OF \<open>e < 16\<close>] \<open>d < 16\<close> \<open>e < 16\<close>
    by (auto simp: less_char_def)
qed

lemma hex_char_inj: "d < 16 \<Longrightarrow> e < 16 \<Longrightarrow> hex_char d = hex_char e \<longleftrightarrow> d = e"
  using hex_char_mono by (metis less_irrefl nat_neq_iff)

definition hex_upto :: "nat \<Rightarrow> nat \<Rightarrow> string" where
  "hex_upto k n = map (\<lambda>i. hex_char (n div 16 ^ (k - 1 - i) mod 16)) [0..<k]"

lemma hex_digits_upto: "hex_digits n = hex_upto 32 n"
  by (simp add: hex_digits_def hex_upto_def)

lemma digit_of_mod: "j < k \<Longrightarrow> (n mod 16 ^ k) div 16 ^ j mod 16 = n div 16 ^ j mod (16 :: nat)"
proof -
  assume j: "j < k"
  have "take_bit 4 (drop_bit (4 * j) (take_bit (4 * k) n)) = take_bit 4 (drop_bit (4 * j) n)"
    using j by (auto intro!: bit_eqI simp: bit_take_bit_iff bit_drop_bit_eq)
  then show ?thesis by (simp add: take_bit_eq_mod drop_bit_eq_div power_mult)
qed

lemma hex_upto_Suc: "hex_upto (Suc k) n = hex_char (n div 16 ^ k mod 16) # hex_upto k (n mod 16 ^ k)"
proof -
  have "[0..<Suc k] = 0 # map Suc [0..<k]" by (simp add: upt_conv_Cons map_Suc_upt del: upt_Suc)
  then show ?thesis by (simp add: hex_upto_def comp_def digit_of_mod del: upt_Suc)
qed

lemma hex_upto_less: "m < 16 ^ k \<Longrightarrow> n < 16 ^ k \<Longrightarrow> hex_upto k m < hex_upto k n \<longleftrightarrow> m < n"
proof (induction k arbitrary: m n)
  case 0
  then show ?case by (simp add: hex_upto_def)
next
  case (Suc k)
  let ?b = "(16 :: nat) ^ k"
  have d: "m div ?b < 16" "n div ?b < 16" using Suc.prems by (simp_all add: less_mult_imp_div_less)
  have split: "m < n \<longleftrightarrow> m div ?b < n div ?b \<or> m div ?b = n div ?b \<and> m mod ?b < n mod ?b"
  proof (cases "m div ?b = n div ?b")
    case True
    then show ?thesis by (metis add_less_cancel_left div_mult_mod_eq less_irrefl)
  next
    case False
    then show ?thesis by (metis div_le_mono leD linorder_neqE_nat nless_le)
  qed
  show ?case
    using d by (simp add: hex_upto_Suc hex_char_mono hex_char_inj Suc.IH split)
qed

lemma less_insert: "length x = length x' \<Longrightarrow> x @ c # y < x' @ c # y' \<longleftrightarrow> x @ y < x' @ (y' :: string)"
  by (induction x x' rule: list_induct2) auto

lemma uuid_str_less: "uuid_str m < uuid_str n \<longleftrightarrow> hex_digits m < hex_digits n"
proof -
  have parts: "take 8 h @ take 4 (drop 8 h) @ take 4 (drop 12 h) @ take 4 (drop 16 h) @ drop 20 h = h"
    if "length h = 32" for h :: string
    using append_take_drop_id [of 8 h] append_take_drop_id [of 4 "drop 8 h"] append_take_drop_id [of 4 "drop 12 h"]
      append_take_drop_id [of 4 "drop 16 h"] by simp
  define h g where "h = hex_digits m" and "g = hex_digits n"
  have len: "length h = 32" "length g = 32" by (simp_all add: h_def g_def)
  have "uuid_str m < uuid_str n \<longleftrightarrow>
      take 8 h @ take 4 (drop 8 h) @ take 4 (drop 12 h) @ take 4 (drop 16 h) @ drop 20 h
      < take 8 g @ take 4 (drop 8 g) @ take 4 (drop 12 g) @ take 4 (drop 16 g) @ drop 20 g"
    unfolding uuid_str_def Let_def h_def [symmetric] g_def [symmetric] append_Cons append_Nil
    using less_insert [of "take 8 h" "take 8 g"] less_insert [of "take 8 h @ take 4 (drop 8 h)" "take 8 g @ take 4 (drop 8 g)"]
      less_insert [of "take 8 h @ take 4 (drop 8 h) @ take 4 (drop 12 h)" "take 8 g @ take 4 (drop 8 g) @ take 4 (drop 12 g)"]
      less_insert [of "take 8 h @ take 4 (drop 8 h) @ take 4 (drop 12 h) @ take 4 (drop 16 h)"
        "take 8 g @ take 4 (drop 8 g) @ take 4 (drop 12 g) @ take 4 (drop 16 g)"]
    by (simp add: len)
  then show ?thesis unfolding parts [OF len(1)] parts [OF len(2)] by (simp add: h_def g_def)
qed

lemma uuid_int_less: "a < 2 ^ 12 \<Longrightarrow> b < 2 ^ 62 \<Longrightarrow> uuid_int ms a b < 16 ^ 32"
  by (simp add: uuid_int_fields)

lemma uuid7_result:
  "uuid7 H w = (Inr u, w') \<Longrightarrow> \<exists>a b. a < 2 ^ 12 \<and> b < 2 ^ 62 \<and> u = uuid_str (uuid_int (h_epoch_ms H w) a b)"
proof -
  assume "uuid7 H w = (Inr u, w')"
  moreover have "wp (uuid7 H) (\<lambda>u _. \<exists>a b. a < 2 ^ 12 \<and> b < 2 ^ 62 \<and> u = uuid_str (uuid_int (h_epoch_ms H w) a b)) (\<lambda>_ _. True) w"
    unfolding uuid7_def wps by (intro exI conjI refl) simp_all
  ultimately show ?thesis by (rule wp_returns [rotated])
qed

section \<open>Properties\<close>

text \<open>The fields of an identifier. The 128-bit number is the concatenation of its fields: the 48-bit
  timestamp, version 7, twelve random bits, variant 2 and 62 random bits can be read back from it.\<close>

theorem uuid_fields_read_back:
  assumes "a < 2 ^ 12" "b < 2 ^ 62"
  shows "uuid_int ms a b < 2 ^ 128 \<and> uuid_int ms a b div 2 ^ 80 = ms mod 2 ^ 48 \<and> uuid_int ms a b div 2 ^ 76 mod 2 ^ 4 = 7 \<and>
    uuid_int ms a b div 2 ^ 64 mod 2 ^ 12 = a \<and> uuid_int ms a b div 2 ^ 62 mod 2 ^ 2 = 2 \<and> uuid_int ms a b mod 2 ^ 62 = b"
proof -
  let ?t = "ms mod 2 ^ 48" and ?n = "uuid_int ms a b"
  have n: "?n = 2 ^ 62 * (4 * (2 ^ 12 * (2 ^ 4 * ?t + 7) + a) + 2) + b"
    by (simp add: uuid_int_fields [OF assms])
  have n62: "?n div 2 ^ 62 = 4 * (2 ^ 12 * (2 ^ 4 * ?t + 7) + a) + 2"
    unfolding n using assms(2) by (subst div_mult_self4; simp)
  have low: "?n mod 2 ^ 62 = b"
    unfolding n using assms(2) by (simp only: mod_mult_self4 mod_less)
  have n64: "?n div 2 ^ 64 = 2 ^ 12 * (2 ^ 4 * ?t + 7) + a"
  proof -
    have "?n div 2 ^ 64 = ?n div 2 ^ 62 div 4" by (simp flip: div_mult2_eq)
    then show ?thesis unfolding n62 by simp
  qed
  have n76: "?n div 2 ^ 76 = 2 ^ 4 * ?t + 7"
  proof -
    have "?n div 2 ^ 76 = ?n div 2 ^ 64 div 2 ^ 12" by (simp flip: div_mult2_eq)
    then show ?thesis unfolding n64 using assms(1) by simp
  qed
  have n80: "?n div 2 ^ 80 = ?t"
  proof -
    have "?n div 2 ^ 80 = ?n div 2 ^ 76 div 2 ^ 4" by (simp flip: div_mult2_eq)
    then show ?thesis unfolding n76 by simp
  qed
  have "?n < 2 ^ 128" using uuid_int_less [OF assms] by simp
  moreover have "(2 ^ 12 * x + a) mod 2 ^ 12 = a" for x using assms(1) by (simp only: mod_mult_self4 mod_less)
  moreover have "(4 * x + 2) mod 2 ^ 2 = (2 :: nat)" for x by simp presburger
  moreover have "(2 ^ 4 * x + 7) mod 2 ^ 4 = (7 :: nat)" for x by simp
  ultimately show ?thesis unfolding n62 low n64 n76 n80 by (simp only: simp_thms)
qed

theorem uuid_fields_read_back_witness: "uuid_int 5 1 9 div 2 ^ 80 = 5 mod 2 ^ 48"
  using uuid_fields_read_back [of 1 9 5] by simp

text \<open>Identifiers sort by time. Of two machines created at different milliseconds of the wall clock, the
  earlier one has the smaller identifier, as text, whatever the random bits; so the sorted directory of machines
  lists them by age.\<close>

theorem uuids_sort_by_time:
  assumes "uuid7 H w = (Inr u, w1)" "uuid7 H v = (Inr x, v1)" "h_epoch_ms H w < h_epoch_ms H v" "h_epoch_ms H v < 2 ^ 48"
  shows "u < x"
proof -
  obtain a b where u: "a < 2 ^ 12" "b < 2 ^ 62" "u = uuid_str (uuid_int (h_epoch_ms H w) a b)"
    using uuid7_result [OF assms(1)] by blast
  obtain c d where x: "c < 2 ^ 12" "d < 2 ^ 62" "x = uuid_str (uuid_int (h_epoch_ms H v) c d)"
    using uuid7_result [OF assms(2)] by blast
  have "uuid_int (h_epoch_ms H w) a b < uuid_int (h_epoch_ms H v) c d"
    using u(1,2) x(1,2) assms(3,4) by (simp add: uuid_int_fields)
  then show ?thesis
    unfolding u(3) x(3) uuid_str_less hex_digits_upto
    by (simp only: hex_upto_less [OF uuid_int_less [OF u(1,2)] uuid_int_less [OF x(1,2)]])
qed

theorem uuids_sort_by_time_witness:
  "fst (uuid7 demo_host (demo_world [] [])) \<noteq> fst (uuid7 demo_host ((demo_world [] [])\<lparr>clock := 1000000\<rparr>))"
proof -
  let ?w = "demo_world [] []" and ?v = "(demo_world [] [])\<lparr>clock := 1000000\<rparr>"
  obtain u w1 x v1 where r: "uuid7 demo_host ?w = (Inr u, w1)" "uuid7 demo_host ?v = (Inr x, v1)"
    by (simp add: uuid7_def bnd_def asks_def draw_def ret_def)
  have "h_epoch_ms demo_host ?w < h_epoch_ms demo_host ?v" "h_epoch_ms demo_host ?v < 2 ^ 48"
    by (simp_all add: demo_host_def demo_world_def)
  from uuids_sort_by_time [OF r this] show ?thesis by (auto simp: r)
qed

end
