(* ===== verification/VmCore.thy ===== *)
theory VmCore
  imports VpnCore Uuid7
begin

text \<open>
  \<open>workspace/cli/vm_core.py\<close>: the directory of all machines, the deployed podman command, the health
  wait of a container, the macOS podman machine, and the entry of a machine in \<open>/etc/hosts\<close>.
\<close>

section \<open>Locations\<close>

definition vms_dir :: "host \<Rightarrow> path" where
  "vms_dir H = mk_path (case h_env H ''WS_VM_DIR'' of None \<Rightarrow> ''.vms'' | Some d \<Rightarrow> d)"

definition vm_dir_of :: "host \<Rightarrow> string \<Rightarrow> path" where
  "vm_dir_of H uuid = p_sub (vms_dir H) uuid"

definition yaml_path :: "path \<Rightarrow> path" where "yaml_path d = child d ''vm.yaml''"

definition deployed_boot_bin :: "host \<Rightarrow> path" where
  "deployed_boot_bin H = child (child (mk_path ''/opt/workspace-ci'') (boot_name H)) ''bin''"

definition CERTS_SCRIPT :: path where
  "CERTS_SCRIPT = mk_path ''workspace/scripts/bootstrap/bootstrap_certs.sh''"

definition HEALTHCHECK_TIMEOUT :: nat where "HEALTHCHECK_TIMEOUT = 120"
definition HEALTHCHECK_POLL :: nat where "HEALTHCHECK_POLL = 2"
definition PODMAN_TIMEOUT :: int where "PODMAN_TIMEOUT = 600"

section \<open>Status\<close>

text \<open>The dictionary a backend reports about a machine, and \<open>status.get("state")\<close>.\<close>

type_synonym status = "(string \<times> string) list"

definition state_of :: "status \<Rightarrow> string" where
  "state_of st = (case map_of st ''state'' of None \<Rightarrow> ''unknown'' | Some s \<Rightarrow> s)"

lemma state_of_Cons [simp]: "state_of ((''state'', s) # r) = s"
  by (simp add: state_of_def)

section \<open>Configuration files\<close>

definition load_config :: "host \<Rightarrow> path \<Rightarrow> vm_config io" where
  "load_config H p =
     bnd (read_content H p) (\<lambda>c.
       case c of
         ConfigDoc raw \<Rightarrow>
           (case validate_config (h_darwin H) raw of
              Inl e \<Rightarrow> raise (ConfigError e) | Inr cfg \<Rightarrow> ret cfg)
       | _ \<Rightarrow> raise (YAMLError (path_str p)))"

section \<open>Podman\<close>

definition podman_binary :: "host \<Rightarrow> path io" where
  "podman_binary H =
     (let binary = child (deployed_boot_bin H) ''podman'' in
      bnd (asks (\<lambda>w. is_file H w binary)) (\<lambda>f.
        if f then ret binary
        else raise (RuntimeError (''deployed podman missing at '' @ path_str binary @ '' - run: sudo make init''))))"

definition podman_with :: "host \<Rightarrow> bool \<Rightarrow> string list \<Rightarrow> (string \<times> string) io" where
  "podman_with H quiet args =
     catch is_called_process_error
       (bnd (podman_binary H) (\<lambda>b. run_checked H (timed_call (path_str b # args) PODMAN_TIMEOUT)))
       (\<lambda>e. case e of
          CalledProcessError rc so se \<Rightarrow>
            andthen (when_io (\<not> quiet)
              (andthen (when_io (se \<noteq> []) (print_err se)) (when_io (so \<noteq> []) (print_out so)))) (raise e)
        | _ \<Rightarrow> raise e)"

definition podman :: "host \<Rightarrow> string list \<Rightarrow> (string \<times> string) io" where
  "podman H args = podman_with H False args"

definition config_sha256 :: "host \<Rightarrow> vm_config \<Rightarrow> string" where
  "config_sha256 H cfg = take 16 (h_sha256 H (h_config_json H cfg))"

definition generate_dockerignore :: "host \<Rightarrow> path \<Rightarrow> unit io" where
  "generate_dockerignore H vm_dir =
     write_text H (child vm_dir ''.dockerignore'')
       (unlines [''password'', ''pid'', ''vm.yaml'', ''certs/'', ''.dockerignore'', ''Dockerfile''])"

definition healthy_probe :: "host \<Rightarrow> string \<Rightarrow> unit \<Rightarrow> (unit + unit) io" where
  "healthy_probe H uuid s =
     catch is_called_process_error
       (bnd (podman H [''inspect'', ''-f'', ''{{.State.Health.Status}}'', uuid]) (\<lambda>r.
          ret (if strip (fst r) = ''healthy'' then Inr () else Inl ())))
       (\<lambda>_. ret (Inl ()))"

definition wait_healthy :: "host \<Rightarrow> string \<Rightarrow> unit io" where
  "wait_healthy H uuid =
     bnd (asks (\<lambda>w. clock w + HEALTHCHECK_TIMEOUT * second)) (\<lambda>deadline.
     bnd (poll H deadline HEALTHCHECK_POLL (healthy_probe H uuid) ()) (\<lambda>r.
       case r of Inr _ \<Rightarrow> ret ()
       | Inl _ \<Rightarrow> print_err (''vm: WARNING: healthcheck not healthy within '' @ show_nat HEALTHCHECK_TIMEOUT
                  @ ''s for '' @ uuid @ nl)))"

definition machine_inspect :: "string list \<Rightarrow> call" where
  "machine_inspect fmt = timed_call ([''podman'', ''machine'', ''inspect''] @ fmt @ [''podman-machine-default'']) 30"

definition ensure_podman_machine :: "host \<Rightarrow> unit io" where
  "ensure_podman_machine H =
     (if \<not> h_darwin H then ret ()
      else
        andthen (catch (\<lambda>e. is_called_process_error e \<or> e = TimeoutExpired)
          (bnd (run_checked H (machine_inspect [])) (\<lambda>_. ret ()))
          (\<lambda>_. raise (RuntimeError (''vm: podman machine '' @ quoted ''podman-machine-default''
             @ '' is not configured. Run: podman machine init && podman machine start''))))
       (bnd (run_checked H (machine_inspect [''--format'', ''{{.State}}''])) (\<lambda>r.
          if strip (fst r) \<noteq> ''running'' then
            raise (RuntimeError (''vm: podman machine '' @ quoted ''podman-machine-default''
              @ '' is not running (state='' @ strip (fst r) @ ''). Run: podman machine start''))
          else ret ())))"

section \<open>The hosts file\<close>

definition HOSTS :: path where
  "HOSTS = Path True [''etc'', ''hosts'']"

definition host_name :: "string \<Rightarrow> string" where
  "host_name uuid = uuid @ ''.vm.local''"

definition without_host :: "string \<Rightarrow> string \<Rightarrow> string" where
  "without_host uuid t = join nl (filter (\<lambda>l. \<not> sublist (host_name uuid) l) (splitlines t)) @ nl"

fun is_permission_error :: "exn \<Rightarrow> bool" where
  "is_permission_error (PermissionError _) = True"
| "is_permission_error _ = False"

definition remove_hosts_entry :: "host \<Rightarrow> string \<Rightarrow> unit io" where
  "remove_hosts_entry H uuid =
     bnd (asks (\<lambda>w. p_exists H w HOSTS)) (\<lambda>ex.
       if \<not> ex then ret ()
       else bnd (read_text H HOSTS) (\<lambda>content.
         if \<not> sublist (host_name uuid) content then ret ()
         else catch is_permission_error (write_text H HOSTS (without_host uuid content))
                (\<lambda>_. print_err (''vm: WARNING: could not write /etc/hosts for '' @ uuid @ '' (try sudo)'' @ nl))))"

text \<open>\<open>open(path, "a").write(text)\<close>.\<close>

definition append_text :: "host \<Rightarrow> path \<Rightarrow> string \<Rightarrow> unit io" where
  "append_text H p t =
     bnd (asks (\<lambda>w. is_file H w p)) (\<lambda>f.
     bnd (if f then read_text H p else ret []) (\<lambda>old. write_text H p (old @ t)))"

section \<open>Facts\<close>

lemma emits_podman [emits_intros]:
  "emits P (podman_binary H)"
  "(\<And>b. P (Run (timed_call (path_str b # args) PODMAN_TIMEOUT))) \<Longrightarrow> emits P (podman_with H quiet args)"
  unfolding podman_binary_def podman_with_def Let_def by (intro emits_intros)+

lemma emits_append [emits_intros]: "emits P (append_text H p t)"
  unfolding append_text_def by (intro emits_intros)

lemma emits_hosts [emits_intros]: "emits P (remove_hosts_entry H uuid)"
  unfolding remove_hosts_entry_def by (intro emits_intros)

text \<open>The rewritten hosts file has the lines of the old one that do not name the machine.\<close>

definition kept_lines :: "string \<Rightarrow> string \<Rightarrow> string list" where
  "kept_lines uuid t = filter (\<lambda>l. \<not> sublist (host_name uuid) l) (splitlines t)"

lemma without_host_eq: "without_host uuid t = unlines (if kept_lines uuid t = [] then [[]] else kept_lines uuid t)"
  by (simp add: without_host_def kept_lines_def join_nl_concat flip: unlines_def)

lemma without_host_lines:
  "splitlines (without_host uuid t) = (if kept_lines uuid t = [] then [[]] else kept_lines uuid t)"
  unfolding without_host_eq
  by (rule splitlines_join) (auto simp: kept_lines_def dest: splitlines_no_breaks)

lemma without_host_absent:
  assumes "newline \<notin> set uuid"
  shows "\<not> sublist (host_name uuid) (without_host uuid t)"
proof -
  have "newline \<notin> set (host_name uuid)" "host_name uuid \<noteq> []"
    using assms by (auto simp: host_name_def newline_def)
  then show ?thesis
    unfolding without_host_eq by (subst sublist_unlines) (auto simp: kept_lines_def host_name_def)
qed

text \<open>The effect on the world: exactly the hosts file is rewritten.\<close>

lemma HOSTS_resolve [simp]: "resolve c HOSTS = HOSTS"
  by (simp add: HOSTS_def resolve_def)

lemma wp_remove_hosts_entry:
  "wp (remove_hosts_entry H uuid) Q E w \<longleftrightarrow>
   (case at H w HOSTS of
      None \<Rightarrow> Q () w
    | Some (File c) \<Rightarrow>
        if \<not> sublist (host_name uuid) (content_text H c) then Q () w
        else if h_unwritable H HOSTS
        then Q () (w\<lparr>err := err w @ [''vm: WARNING: could not write /etc/hosts for '' @ uuid @ '' (try sudo)'' @ nl]\<rparr>)
        else if \<not> is_dir H w (parent HOSTS) then E (FileNotFoundError (path_str HOSTS)) w
        else (case h_torn H w HOSTS (Text (without_host uuid (content_text H c))) of
                Some t \<Rightarrow> E (OSError (path_str HOSTS)) (set_node H HOSTS (Some (File t)) w)
              | None \<Rightarrow> Q () (set_node H HOSTS (Some (File (Text (without_host uuid (content_text H c))))) w))
    | _ \<Rightarrow> E (OSError (path_str HOSTS)) w)"
  by (auto simp: remove_hosts_entry_def wps p_exists_def split: option.splits node.splits)

section \<open>Properties\<close>

text \<open>Waiting for a healthy container ends. Whatever podman answers, and however long it takes, the wait inspects
  the container at most sixty times, and every inspection is that of this container.\<close>

theorem health_wait_bounded:
  "\<exists>rs. requests (snd (wait_healthy H uuid w)) = requests w @ rs \<and> length rs \<le> 60 \<and>
     list_all (\<lambda>r. \<exists>b. r = Run (timed_call [b, ''inspect'', ''-f'', ''{{.State.Health.Status}}'', uuid] PODMAN_TIMEOUT)) rs"
proof -
  let ?P = "\<lambda>r. \<exists>b. r = Run (timed_call [b, ''inspect'', ''-f'', ''{{.State.Health.Status}}'', uuid] PODMAN_TIMEOUT)"
  have probe: "\<exists>rs. requests (snd (healthy_probe H uuid s v)) = requests v @ rs \<and> length rs \<le> 1" for s v
  proof -
    have "wp (healthy_probe H uuid s) (\<lambda>_ v'. \<exists>rs. requests v' = requests v @ rs \<and> length rs \<le> 1)
        (\<lambda>_ v'. \<exists>rs. requests v' = requests v @ rs \<and> length rs \<le> 1) v"
      by (simp add: healthy_probe_def podman_def podman_with_def podman_binary_def Let_def wps run_checked_def
          split: outcome.split)
    then show ?thesis by (auto simp: wp_def split: prod.splits sum.splits)
  qed
  let ?deadline = "clock w + HEALTHCHECK_TIMEOUT * second"
  obtain rs where rs: "requests (snd (poll H ?deadline HEALTHCHECK_POLL (healthy_probe H uuid) () w)) = requests w @ rs" "length rs \<le> 60"
    using poll_bounded [OF probe, where deadline = ?deadline and w = w and n = 60 and pause = HEALTHCHECK_POLL and s = "()" and H = H]
    by (auto simp: HEALTHCHECK_TIMEOUT_def HEALTHCHECK_POLL_def)
  have same: "requests (snd (wait_healthy H uuid w)) = requests (snd (poll H ?deadline HEALTHCHECK_POLL (healthy_probe H uuid) () w))"
    by (auto simp: wait_healthy_def bnd_def asks_def ret_def print_err_def update_def split: prod.split sum.split)
  have "emits ?P (wait_healthy H uuid)"
    unfolding wait_healthy_def healthy_probe_def podman_def by (intro emits_intros) auto
  then obtain qs where "requests (snd (wait_healthy H uuid w)) = requests w @ qs" "list_all ?P qs"
    unfolding emits_def by blast
  with rs same show ?thesis by auto
qed

end
