(* ===== verification/QemuBackend.thy ===== *)
theory QemuBackend
  imports QemuState GuestConfig QemuArgv VmCore Demo
begin

text \<open>
  \<open>workspace/cli/hypervisor/qemu_backend.py\<close>: the life of a QEMU machine. Every method of
  \<open>QemuBackend\<close> is one computation with all its effects in the order of the code: the state record,
  the PID file and the QMP socket in the machine's directory, the process table, the commands it runs.
\<close>

section \<open>Locations and constants\<close>

definition pid_path :: "path \<Rightarrow> path" where "pid_path d = child d ''qemu.pid''"
definition qmp_path :: "path \<Rightarrow> path" where "qmp_path d = child d ''qmp.sock''"
definition ssh_key_path :: "path \<Rightarrow> path" where "ssh_key_path d = child d ''qemu_ssh_ed25519''"
definition port_path :: "path \<Rightarrow> path" where "port_path d = child d ''ssh_port''"
definition disk_path :: "path \<Rightarrow> path" where "disk_path d = child d ''disk.qcow2''"

definition HEALTH_TIMEOUT :: nat where "HEALTH_TIMEOUT = 120"
definition PROVISION_SSH_TIMEOUT :: nat where "PROVISION_SSH_TIMEOUT = 600"
definition HEALTH_POLL :: nat where "HEALTH_POLL = 2"
definition STOP_TIMEOUT :: nat where "STOP_TIMEOUT = 30"
definition TERM_TIMEOUT :: nat where "TERM_TIMEOUT = 5"

section \<open>Configuration checks\<close>

definition vm_mode_of :: "host \<Rightarrow> vm_config \<Rightarrow> exn + vm_mode" where
  "vm_mode_of H cfg =
     (case h_env H ''WORKSPACE_VM_MODE'' of
        None \<Rightarrow> Inr (q_mode (qemu (isolation cfg)))
      | Some m \<Rightarrow> if m = ''persistent'' then Inr Persistent
                 else if m = ''ephemeral'' then Inr Ephemeral
                 else Inl (ValueError (''invalid WORKSPACE_VM_MODE: '' @ quoted m)))"

definition validate_network :: "vm_config \<Rightarrow> exn + unit" where
  "validate_network cfg =
     (let n = network cfg in
      if net_mode n = NetHost then Inl (ValueError ''qemu does not support network.mode: host'')
      else if net_mode n = NetOpenvpn \<and> vpn_type n = VpnNetns
      then Inl (ValueError ''qemu does not support openvpn vpn_type: netns; use container'')
      else if net_mode n \<noteq> NetBridge then Inr ()
      else if network_name n = [] \<or> CHR '','' \<in> set (network_name n)
      then Inl (ValueError (''invalid qemu bridge name: '' @ quoted (network_name n)))
      else if net_policy n = PolProxy \<and> proxy_url n = []
      then Inl (ValueError ''qemu bridge proxy policy requires network.proxy_url'')
      else if whitelist n \<noteq> [] then Inl (ValueError ''qemu bridge does not support network.whitelist'')
      else Inr ())"

fun validate_mounts :: "host \<Rightarrow> world \<Rightarrow> string list \<Rightarrow> exn + unit" where
  "validate_mounts H w [] = Inr ()"
| "validate_mounts H w (entry # rest) =
     (let p = mk_path (expanduser H entry) in
      if \<not> absolute p then Inl (ValueError (''qemu mount path must be absolute: '' @ entry))
      else if CHR '','' \<in> set (path_str p)
      then Inl (ValueError (''qemu mount path must not contain a comma: '' @ entry))
      else if \<not> p_exists H w p then Inl (FileNotFoundError (''qemu mount source not found: '' @ path_str p))
      else validate_mounts H w rest)"

definition validate_qemu_config :: "host \<Rightarrow> world \<Rightarrow> vm_config \<Rightarrow> exn + unit" where
  "validate_qemu_config H w cfg =
     (case validate_network cfg of Inl e \<Rightarrow> Inl e | Inr _ \<Rightarrow>
      (case validate_mounts H w (mounts cfg) of Inl e \<Rightarrow> Inl e | Inr _ \<Rightarrow>
       if cap_add (security cfg) \<noteq> [] then Inl (ValueError ''qemu does not support security.cap_add'')
       else if credentials cfg = CredApi then Inl (ValueError ''qemu credentials.mode: api is not implemented'')
       else Inr ()))"

definition check_config :: "host \<Rightarrow> vm_config \<Rightarrow> unit io" where
  "check_config H cfg = bnd get_world (\<lambda>w. lift_sum (validate_qemu_config H w cfg))"

definition pid_from_file :: "host \<Rightarrow> path \<Rightarrow> nat option io" where
  "pid_from_file H vm_dir =
     bnd (asks (\<lambda>w. is_file H w (pid_path vm_dir))) (\<lambda>f.
       if \<not> f then ret None
       else bnd (read_text H (pid_path vm_dir)) (\<lambda>t.
         if \<not> isdigit (strip t) then raise (ValueError (''invalid QEMU PID file: '' @ path_str (pid_path vm_dir)))
         else ret (Some (nat_of_digits (strip t)))))"

definition resolve_ci_root :: "host \<Rightarrow> path io" where
  "resolve_ci_root H =
     (let r = mk_path ''/opt/workspace-ci'' in
      bnd (asks (\<lambda>w. is_dir H w r)) (\<lambda>d.
        if d then ret r
        else raise (FileNotFoundError
               ''/opt/workspace-ci not found; run: sudo make -C projects/WORKSPACE-CI deploy-ci'')))"

section \<open>Processes and SSH\<close>

definition send_signal :: "host \<Rightarrow> nat \<Rightarrow> string \<Rightarrow> unit io" where
  "send_signal H pid name =
     catch is_called_process_error
       (run_cmd H [''kill'', ''-'' @ name, show_nat pid])
       (\<lambda>e. case e of CalledProcessError rc so se \<Rightarrow> when_io (se \<noteq> []) (print_err se) | _ \<Rightarrow> ret ())"

definition wait_pid_exit :: "host \<Rightarrow> nat \<Rightarrow> nat \<Rightarrow> bool io" where
  "wait_pid_exit H pid timeout =
     bnd (asks (\<lambda>w. clock w + timeout * second)) (\<lambda>deadline.
     bnd (poll H deadline 1 (\<lambda>s. bnd (process_alive pid) (\<lambda>a. ret (if a then Inl s else Inr ()))) ()) (\<lambda>r.
       case r of Inr _ \<Rightarrow> ret True
       | Inl _ \<Rightarrow> bnd (process_alive pid) (\<lambda>a. ret (\<not> a))))"

definition finish_stop :: "host \<Rightarrow> path \<Rightarrow> unit io" where
  "finish_stop H vm_dir =
     andthen (unlink_missing_ok H (pid_path vm_dir))
    (andthen (unlink_missing_ok H (qmp_path vm_dir))
    (bnd (mark_stopped H vm_dir None) (\<lambda>_. ret ())))"

definition probe_ssh :: "host \<Rightarrow> int \<Rightarrow> path \<Rightarrow> bool io" where
  "probe_ssh H port ident =
     catch (\<lambda>e. is_called_process_error e \<or> e = TimeoutExpired)
       (bnd (run_checked H (timed_call
          [''ssh'', ''-i'', path_str ident, ''-o'', ''StrictHostKeyChecking=no'',
           ''-o'', ''UserKnownHostsFile=/dev/null'', ''-o'', ''ConnectTimeout=3'',
           ''-p'', show_int port, ''workspace@127.0.0.1'', ''echo'', ''ok''] 10)) (\<lambda>_. ret True))
       (\<lambda>_. ret False)"

definition wait_ssh :: "host \<Rightarrow> int \<Rightarrow> path \<Rightarrow> nat \<Rightarrow> unit io" where
  "wait_ssh H port ident timeout =
     bnd (asks (\<lambda>w. clock w + timeout * second)) (\<lambda>deadline.
     bnd (poll H deadline HEALTH_POLL
            (\<lambda>s. bnd (probe_ssh H port ident) (\<lambda>ok. ret (if ok then Inr () else Inl s))) ()) (\<lambda>r.
       case r of Inr _ \<Rightarrow> ret ()
       | Inl _ \<Rightarrow> print_err ''vm: WARNING: SSH health check timed out''))"

section \<open>Status\<close>

fun mode_name :: "vm_mode \<Rightarrow> string" where
  "mode_name Persistent = ''persistent''"
| "mode_name Ephemeral = ''ephemeral''"

fun provision_name :: "provision \<Rightarrow> string" where
  "provision_name ProvNone = ''none''"
| "provision_name ProvGuard = ''guard''"
| "provision_name ProvFullCi = ''full-ci''"

definition status_base :: "host \<Rightarrow> world \<Rightarrow> path \<Rightarrow> qemu_state option \<Rightarrow> status" where
  "status_base H w vm_dir st =
     [(''backend'', ''qemu'')]
     @ (case st of None \<Rightarrow> []
        | Some s \<Rightarrow> [(''mode'', mode_name (qs_mode s)), (''profile'', qs_profile s)]
            @ (case qs_ssh_port s of None \<Rightarrow> [] | Some p \<Rightarrow> [(''ssh_port'', show_int p)]))
     @ (case at H w (disk_path vm_dir) of
          Some (File c) \<Rightarrow> [(''disk_bytes'', show_nat (length (content_text H c)))] | _ \<Rightarrow> [])
     @ (case st of None \<Rightarrow> []
        | Some s \<Rightarrow> (case qs_last_error s of
             None \<Rightarrow> [] | Some e \<Rightarrow> if e = [] then [] else [(''last_error'', e)]))"

definition qemu_status :: "host \<Rightarrow> string \<Rightarrow> status io" where
  "qemu_status H uuid =
     (let vm_dir = vm_dir_of H uuid in
      bnd (load_state H vm_dir) (\<lambda>st.
      bnd get_world (\<lambda>w.
        let base = status_base H w vm_dir st in
        if \<not> is_file H w (pid_path vm_dir) then ret ((''state'', ''unknown'') # base)
        else bnd (read_text H (pid_path vm_dir)) (\<lambda>t.
          let pid_value = strip t in
          if \<not> isdigit pid_value then ret ((''state'', ''invalid'') # base)
          else let pid = nat_of_digits pid_value in
            bnd (process_alive pid) (\<lambda>alive.
              if \<not> alive then ret ((''state'', ''stopped'') # base)
              else case st of
                Some s \<Rightarrow>
                  if qs_pid_start s = None
                  then ret ((''state'', ''running'') # (''pid'', pid_value) # base)
                  else bnd (process_matches H pid (qs_pid_start s)) (\<lambda>same.
                    if \<not> same then ret ((''state'', ''invalid'') # base)
                    else ret ((''state'', ''running'') # (''pid'', pid_value) # base))
              | None \<Rightarrow> ret ((''state'', ''running'') # (''pid'', pid_value) # base))))))"

section \<open>Stop\<close>

definition stop_terminate :: "host \<Rightarrow> path \<Rightarrow> nat \<Rightarrow> unit io" where
  "stop_terminate H vm_dir pid =
     andthen (send_signal H pid ''TERM'')
    (bnd (wait_pid_exit H pid TERM_TIMEOUT) (\<lambda>gone.
       if gone then finish_stop H vm_dir
       else andthen (send_signal H pid ''KILL'')
           (bnd (wait_pid_exit H pid TERM_TIMEOUT) (\<lambda>gone.
              if \<not> gone then
                (let msg = ''vm: QEMU PID '' @ show_nat pid @ '' did not exit'' in
                 bnd (mark_error H vm_dir msg) (\<lambda>_. raise (RuntimeError msg)))
              else finish_stop H vm_dir))))"

definition stop_process :: "host \<Rightarrow> path \<Rightarrow> nat \<Rightarrow> unit io" where
  "stop_process H vm_dir pid =
     bnd (asks (\<lambda>w. p_exists H w (qmp_path vm_dir))) (\<lambda>sock.
       if sock then
         andthen (catch is_qmp_error (powerdown H (qmp_path vm_dir)) (\<lambda>e. print_err (''vm: '' @ h_str H e @ nl)))
        (bnd (wait_pid_exit H pid STOP_TIMEOUT) (\<lambda>gone.
           if gone then finish_stop H vm_dir else stop_terminate H vm_dir pid))
       else stop_terminate H vm_dir pid)"

text \<open>A live process is stopped only when it is the one the record names.\<close>

definition stop_alive :: "host \<Rightarrow> path \<Rightarrow> string \<Rightarrow> nat \<Rightarrow> string option \<Rightarrow> unit io" where
  "stop_alive H vm_dir uuid pid ident =
     bnd (if ident = None then ret True else process_matches H pid ident) (\<lambda>same.
       if \<not> same then
         (let msg = ''vm: QEMU PID '' @ show_nat pid @ '' does not match VM '' @ quoted uuid in
          bnd (mark_error H vm_dir msg) (\<lambda>_. raise (RuntimeError msg)))
       else stop_process H vm_dir pid)"

text \<open>The part of \<open>stop\<close> after the PID file has been read.\<close>

definition stop_known :: "host \<Rightarrow> string \<Rightarrow> nat option \<Rightarrow> unit io" where
  "stop_known H uuid pid_opt =
     (let vm_dir = vm_dir_of H uuid in
      case pid_opt of
        None \<Rightarrow> bnd (mark_stopped H vm_dir None) (\<lambda>_. ret ())
      | Some pid \<Rightarrow>
          bnd (load_state H vm_dir) (\<lambda>st.
            let ident = (case st of None \<Rightarrow> None | Some s \<Rightarrow> qs_pid_start s) in
            bnd (process_alive pid) (\<lambda>alive.
              if \<not> alive then
                andthen (unlink_missing_ok H (pid_path vm_dir))
                  (bnd (mark_stopped H vm_dir None) (\<lambda>_. ret ()))
              else stop_alive H vm_dir uuid pid ident)))"

definition qemu_stop :: "host \<Rightarrow> string \<Rightarrow> unit io" where
  "qemu_stop H uuid =
     bnd (asks (\<lambda>w. is_dir H w (vm_dir_of H uuid))) (\<lambda>d.
       if \<not> d then ret () else bnd (pid_from_file H (vm_dir_of H uuid)) (stop_known H uuid))"

section \<open>Start\<close>

definition firmware_for :: "host \<Rightarrow> qemu_config \<Rightarrow> path option io" where
  "firmware_for H q = (if guest_arch q = Aarch64 then resolve_aarch64_firmware H else ret None)"

definition roots_for :: "host \<Rightarrow> qemu_config \<Rightarrow> (path option \<times> path option) io" where
  "roots_for H q =
     (if q_provision q = ProvNone then ret (None, None)
      else bnd (asks (find_workspace_root H)) (\<lambda>root.
           bnd (resolve_ci_root H) (\<lambda>ci. ret (Some root, Some ci))))"

definition launch_qemu :: "host \<Rightarrow> bool \<Rightarrow> vm_config \<Rightarrow> path \<Rightarrow> launch_context \<Rightarrow> unit io" where
  "launch_qemu H report cfg vm_dir l =
     bnd (lift_sum (build_qemu_argv H cfg vm_dir l)) (\<lambda>argv.
       catch is_called_process_error (run_cmd H argv)
         (\<lambda>e. case e of
            CalledProcessError rc so se \<Rightarrow>
              bnd (mark_error H vm_dir (''qemu launch failed: '' @ show_int rc)) (\<lambda>_.
              andthen (when_io report (print_err (''qemu launch failed rc='' @ show_int rc @ nl))) (raise e))
          | _ \<Rightarrow> raise e))"

definition record_start :: "host \<Rightarrow> path \<Rightarrow> int \<Rightarrow> unit io" where
  "record_start H vm_dir port =
     bnd (pid_from_file H vm_dir) (\<lambda>new_pid.
     bnd (case new_pid of None \<Rightarrow> ret None | Some p \<Rightarrow> process_identity H p) (\<lambda>ident.
     bnd (mark_started H vm_dir port ident) (\<lambda>_. ret ())))"

definition recoverable :: "exn \<Rightarrow> bool" where
  "recoverable e \<longleftrightarrow> is_os_error e \<or> is_runtime_error e \<or> is_subprocess_error e"

definition noting_error :: "host \<Rightarrow> path \<Rightarrow> string \<Rightarrow> unit io \<Rightarrow> unit io" where
  "noting_error H vm_dir label m =
     catch recoverable m (\<lambda>e. bnd (mark_error H vm_dir (label @ '': '' @ h_str H e)) (\<lambda>_. raise e))"

definition read_port :: "host \<Rightarrow> path \<Rightarrow> int io" where
  "read_port H vm_dir = bnd (read_text H (port_path vm_dir)) (\<lambda>t. lift_sum (py_int (strip t)))"

text \<open>The port that is written for a machine is the one that its commands read.\<close>

interpretation port_file: text_codec show_int "\<lambda>t. py_int (strip t)" "\<lambda>port. 0 \<le> port"
  by unfold_locales (simp add: show_int_def)

lemma port_is_read_back:
  "0 \<le> port \<Longrightarrow> write_text H (port_path d) (show_int port) w = (Inr (), w') \<Longrightarrow> read_port H d w' = (Inr port, w')"
  unfolding read_port_def by (rule port_file.written_is_read)

definition start_machine :: "host \<Rightarrow> vm_config \<Rightarrow> path \<Rightarrow> bool \<Rightarrow> unit io" where
  "start_machine H cfg vm_dir restrict_network =
     (let q = qemu (isolation cfg) in
      andthen (unlink_missing_ok H (pid_path vm_dir))
     (andthen (unlink_missing_ok H (qmp_path vm_dir))
     (bnd (resolve_qemu_system H (guest_arch q)) (\<lambda>qemu_bin.
      bnd (resolve_accel H (q_accel q) qemu_bin) (\<lambda>acc.
      bnd (firmware_for H q) (\<lambda>firmware.
      bnd (read_port H vm_dir) (\<lambda>ssh_port.
      bnd (roots_for H q) (\<lambda>roots.
      andthen (launch_qemu H True cfg vm_dir
        \<lparr>l_qemu_bin = qemu_bin, l_accel = acc, l_ssh_port = ssh_port, l_firmware = firmware,
         l_workspace_root = fst roots, l_ci_root = snd roots, l_qmp_socket = Some (qmp_path vm_dir),
         l_restrict_network = (restrict_network \<and> net_mode (network cfg) = NetNone)\<rparr>)
     (andthen (record_start H vm_dir ssh_port)
     (andthen (wait_ssh H ssh_port (ssh_key_path vm_dir) HEALTH_TIMEOUT)
        (noting_error H vm_dir ''mount configuration failed''
           (andthen (when_io (q_provision q \<noteq> ProvNone) (apply_host_shares H vm_dir (Some ssh_port) True))
              (apply_mounts H cfg vm_dir (Some ssh_port))))))))))))))"

text \<open>The part of \<open>start\<close> after the configuration has been read.\<close>

definition start_configured :: "host \<Rightarrow> string \<Rightarrow> bool \<Rightarrow> vm_config \<Rightarrow> unit io" where
  "start_configured H uuid restrict_network cfg =
     (let vm_dir = vm_dir_of H uuid in
      andthen (check_config H cfg)
     (bnd (qemu_status H uuid) (\<lambda>st.
      if state_of st = ''running'' then ret ()
      else
        bnd (lift_sum (vm_mode_of H cfg)) (\<lambda>mode.
        bnd (ensure_state H vm_dir (provision_name (q_provision (qemu (isolation cfg)))) mode) (\<lambda>state.
        bnd (pid_from_file H vm_dir) (\<lambda>pid_opt.
        bnd (case pid_opt of None \<Rightarrow> ret False | Some pid \<Rightarrow> process_alive pid) (\<lambda>alive.
          if alive then
            bnd (if qs_pid_start state = None then ret True
                 else process_matches H (the pid_opt) (qs_pid_start state)) (\<lambda>same.
              if same then ret ()
              else raise (RuntimeError (''vm: stale QEMU PID '' @ show_nat (the pid_opt) @ '' for VM '' @ quoted uuid)))
          else start_machine H cfg vm_dir restrict_network)))))))"

definition qemu_start :: "host \<Rightarrow> string \<Rightarrow> bool \<Rightarrow> unit io" where
  "qemu_start H uuid restrict_network =
     bnd (asks (\<lambda>w. is_file H w (yaml_path (vm_dir_of H uuid)))) (\<lambda>y.
       if \<not> y then raise (FileNotFoundError (''vm: no vm.yaml found for VM '' @ quoted uuid))
       else bnd (load_config H (yaml_path (vm_dir_of H uuid))) (start_configured H uuid restrict_network))"

section \<open>Create, rebuild, destroy\<close>

definition apply_and_restrict :: "host \<Rightarrow> vm_config \<Rightarrow> path \<Rightarrow> string \<Rightarrow> int \<Rightarrow> unit io" where
  "apply_and_restrict H cfg vm_dir uuid ssh_port =
     andthen (noting_error H vm_dir ''guest configuration failed''
                (apply_guest_config H cfg vm_dir (Some ssh_port)))
       (when_io (q_provision (qemu (isolation cfg)) \<noteq> ProvNone)
          (andthen (qemu_stop H uuid) (qemu_start H uuid True)))"

text \<open>The first part of \<open>create\<close>: a new directory with its password, configuration, install defaults
  and state record.\<close>

definition create_dir :: "host \<Rightarrow> path \<Rightarrow> vm_config \<Rightarrow> path \<Rightarrow> unit io" where
  "create_dir H config_path cfg vm_dir =
     andthen (mkdir_parents H vm_dir)
    (bnd (generate_password H 32) (\<lambda>password.
     andthen (write_text H (child vm_dir ''password'') password)
    (andthen (copy_file H config_path (yaml_path vm_dir))
    (andthen (write_content H (child vm_dir ''vm-install-defaults.yaml'')
                (DefaultsDoc (components cfg) (Some (extra_apt cfg))))
    (bnd (lift_sum (vm_mode_of H cfg)) (\<lambda>mode.
     bnd (ensure_state H vm_dir (provision_name (q_provision (qemu (isolation cfg)))) mode) (\<lambda>_. ret ())))))))"

text \<open>The second part: resolve the tools, prepare the disk and launch; it returns the accelerator and
  the SSH port.\<close>

definition create_launch :: "host \<Rightarrow> vm_config \<Rightarrow> path \<Rightarrow> (string \<times> int) io" where
  "create_launch H cfg vm_dir =
     (let q = qemu (isolation cfg) in
      bnd (roots_for H q) (\<lambda>roots.
      bnd (resolve_qemu_system H (guest_arch q)) (\<lambda>qemu_bin.
      bnd (resolve_accel H (q_accel q) qemu_bin) (\<lambda>acc.
      bnd (firmware_for H q) (\<lambda>firmware.
      andthen (when_io (guest_arch q = Aarch64 \<and> firmware = None)
                 (print_err ''vm: WARNING: EDK2 firmware not found; guest may not boot (run make install-qemu)''))
     (bnd (prepare_vm_storage H cfg vm_dir (snd roots \<noteq> None)) (\<lambda>port_text.
      bnd (lift_sum (py_int port_text)) (\<lambda>ssh_port.
      andthen (launch_qemu H False cfg vm_dir
        \<lparr>l_qemu_bin = qemu_bin, l_accel = acc, l_ssh_port = ssh_port, l_firmware = firmware,
         l_workspace_root = fst roots, l_ci_root = snd roots, l_qmp_socket = Some (qmp_path vm_dir),
         l_restrict_network = (q_provision q = ProvNone)\<rparr>)
        (ret (acc, ssh_port))))))))))"

definition create_finish :: "host \<Rightarrow> vm_config \<Rightarrow> path \<Rightarrow> string \<Rightarrow> string \<Rightarrow> int \<Rightarrow> unit io" where
  "create_finish H cfg vm_dir uuid acc ssh_port =
     (let provisioned = (q_provision (qemu (isolation cfg)) \<noteq> ProvNone) in
      andthen (record_start H vm_dir ssh_port)
     (andthen (wait_ssh H ssh_port (ssh_key_path vm_dir)
                 (if provisioned then PROVISION_SSH_TIMEOUT else HEALTH_TIMEOUT))
     (andthen (when_io provisioned
        (andthen (print_err ''vm: provisioning guest (rsync + install-ci)...'')
           (noting_error H vm_dir ''provisioning failed''
              (provision_guest H cfg vm_dir ssh_port (ssh_key_path vm_dir)
                 (child vm_dir ''vm-install-defaults.yaml'')))))
     (andthen (apply_and_restrict H cfg vm_dir uuid ssh_port)
        (each print_out
           [''VM '' @ uuid @ '' created (qemu)'', ''  UUID:     '' @ uuid,
            ''  Backend:  qemu ('' @ acc @ '')'',
            ''  SSH:      ssh -i '' @ path_str (ssh_key_path vm_dir) @ '' -p '' @ show_int ssh_port
              @ '' workspace@127.0.0.1''])))))"

definition qemu_create :: "host \<Rightarrow> path \<Rightarrow> vm_config \<Rightarrow> unit io" where
  "qemu_create H config_path cfg =
     andthen (check_config H cfg)
    (bnd (uuid7 H) (\<lambda>uuid.
     andthen (create_dir H config_path cfg (vm_dir_of H uuid))
    (bnd (create_launch H cfg (vm_dir_of H uuid)) (\<lambda>(acc, ssh_port).
     create_finish H cfg (vm_dir_of H uuid) uuid acc ssh_port))))"

definition replace_disk :: "host \<Rightarrow> path \<Rightarrow> unit io" where
  "replace_disk H vm_dir =
     (let backup = child vm_dir ''backups'' in
      andthen (mkdir_parents H backup)
        (bnd (asks (\<lambda>w. is_file H w (disk_path vm_dir))) (\<lambda>f.
           when_io f (bnd (asks (h_epoch_ms H)) (\<lambda>ms.
             rename_file H (disk_path vm_dir) (child backup (''disk-'' @ show_nat (ms div 1000) @ ''.qcow2'')))))))"

definition qemu_rebuild :: "host \<Rightarrow> string \<Rightarrow> bool \<Rightarrow> unit io" where
  "qemu_rebuild H uuid fresh =
     (let vm_dir = vm_dir_of H uuid in
      bnd (asks (\<lambda>w. is_file H w (yaml_path vm_dir))) (\<lambda>y.
      if \<not> y then raise (FileNotFoundError (''vm: no vm.yaml found for VM '' @ quoted uuid))
      else
        bnd (load_config H (yaml_path vm_dir)) (\<lambda>cfg.
        let provisioned = (q_provision (qemu (isolation cfg)) \<noteq> ProvNone) in
        andthen (qemu_stop H uuid)
       (andthen (when_io fresh
          (andthen (replace_disk H vm_dir)
            (bnd (if provisioned then bnd (resolve_ci_root H) (\<lambda>r. ret (Some r)) else ret None) (\<lambda>ci.
             bnd (prepare_vm_storage H cfg vm_dir (ci \<noteq> None)) (\<lambda>_. ret ())))))
       (andthen (qemu_start H uuid (\<not> fresh))
       (bnd (read_port H vm_dir) (\<lambda>ssh_port.
        andthen (noting_error H vm_dir ''rebuild failed''
          (andthen (when_io provisioned
             (provision_guest H cfg vm_dir ssh_port (ssh_key_path vm_dir)
                (child vm_dir ''vm-install-defaults.yaml'')))
             (apply_guest_config H cfg vm_dir (Some ssh_port))))
          (when_io (fresh \<and> provisioned) (andthen (qemu_stop H uuid) (qemu_start H uuid True))))))))))"

definition archive_path :: "host \<Rightarrow> string \<Rightarrow> path" where
  "archive_path H uuid = p_sub (child (vms_dir H) ''_archive'') uuid"

definition discard_dir :: "host \<Rightarrow> string \<Rightarrow> bool \<Rightarrow> unit io" where
  "discard_dir H uuid purge =
     (let vm_dir = vm_dir_of H uuid; destination = archive_path H uuid in
      bnd (asks (\<lambda>w. is_dir H w vm_dir)) (\<lambda>d.
      if \<not> d then ret ()
      else if purge then rmtree H vm_dir
      else andthen (mkdir_parents H (child (vms_dir H) ''_archive''))
        (bnd (asks (\<lambda>w. p_exists H w destination)) (\<lambda>ex.
           if ex then raise (FileExistsError (''vm: archive already exists for VM '' @ quoted uuid @ '': '' @ path_str destination))
           else move_tree H vm_dir destination))))"

definition qemu_destroy :: "host \<Rightarrow> string \<Rightarrow> bool \<Rightarrow> unit io" where
  "qemu_destroy H uuid purge = andthen (qemu_stop H uuid) (discard_dir H uuid purge)"

definition ssh_endpoint :: "host \<Rightarrow> string \<Rightarrow> (string \<times> int) io" where
  "ssh_endpoint H uuid = bnd (read_port H (vm_dir_of H uuid)) (\<lambda>p. ret (''127.0.0.1'', p))"

definition qemu_exec :: "host \<Rightarrow> string \<Rightarrow> string list \<Rightarrow> (string \<times> string) io" where
  "qemu_exec H uuid cmd =
     bnd (ssh_endpoint H uuid) (\<lambda>(guest, port).
       run_checked H (plain_call
         ([''ssh'', ''-i'', path_str (ssh_key_path (vm_dir_of H uuid)), ''-o'', ''StrictHostKeyChecking=no'',
           ''-o'', ''UserKnownHostsFile=/dev/null'', ''-p'', show_int port, ''workspace@'' @ guest] @ cmd)))"

end
