(* ===== verification/QemuFacts.thy ===== *)
theory QemuFacts
  imports QemuBackend
begin

text \<open>
  What the operations of the QEMU backend do: the effect of each step of \<open>stop\<close>, the plan of requests of a
  stop and of a start, the reading of a status, and the moves of \<open>destroy\<close>. The lifecycle commands and the
  properties rest on these facts.
\<close>

section \<open>Facts: waiting and stopping\<close>

lemma vm_file_names [simp]:
  "qmp_path d \<noteq> pid_path d"
  by (simp add: pid_path_def qmp_path_def)

lemma resolve_vm_files [simp]:
  "resolve c (pid_path d) = child (resolve c d) ''qemu.pid''"
  "resolve c (qmp_path d) = child (resolve c d) ''qmp.sock''"
  "resolve c (state_path d) = child (resolve c d) ''state.yaml''"
  "resolve c (state_tmp d) = child (resolve c d) ''state.tmp''"
  by (simp_all add: pid_path_def qmp_path_def state_path_def state_tmp_def STATE_FILE_def)

lemma at_saved_vm [simp]:
  "at H (saved H d s w) (pid_path d) = at H w (pid_path d)"
  "at H (saved H d s w) (qmp_path d) = at H w (qmp_path d)"
  by (simp_all add: pid_path_def qmp_path_def STATE_FILE_def)

text \<open>What a marking operation leaves behind, whatever the state of the directory: on return exactly
  the saved record, on an exception at most a temporary file.\<close>

lemma mark_stopped_effect:
  "wp (mark_stopped H d er)
     (\<lambda>s w'. w' = saved H d s w \<and> s = (base_state H w d)\<lparr>qs_last_stopped_at := Some (h_now H w),
               qs_last_error := er, qs_pid_start := None\<rparr>)
     (\<lambda>_ w'. procs w' = procs w \<and> requests w' = requests w) w"
  by (auto simp: mark_stopped_def wps Let_def intro!: wp_save_state_any)

lemma mark_error_effect:
  "wp (mark_error H d msg)
     (\<lambda>s w'. w' = saved H d s w \<and> s = (base_state H w d)\<lparr>qs_last_error := Some msg\<rparr>)
     (\<lambda>_ w'. procs w' = procs w \<and> requests w' = requests w) w"
  by (auto simp: mark_error_def wps Let_def intro!: wp_save_state_any)

lemma wait_pid_exit_sound:
  "wp (wait_pid_exit H pid t) (\<lambda>gone w'. gone \<longleftrightarrow> procs w' pid = None) (\<lambda>_ _. False) w"
  unfolding wait_pid_exit_def wps
  by (rule wp_mono [OF wp_poll [where I = "\<lambda>_ _. True" and E = "\<lambda>_ _. False" and
          Q = "\<lambda>r w'. case r of Inr _ \<Rightarrow> procs w' pid = None | Inl _ \<Rightarrow> True"]])
    (auto simp: wps split: sum.splits)

text \<open>The clean state of a stopped machine: no PID file, no QMP socket, and a record without identity.\<close>

definition stopped_clean :: "host \<Rightarrow> world \<Rightarrow> path \<Rightarrow> bool" where
  "stopped_clean H w d \<longleftrightarrow> \<not> is_file H w (pid_path d) \<and>
     (\<exists>s. stored H w d = Stored s \<and> qs_pid_start s = None \<and> qs_last_error s = None \<and>
          qs_last_stopped_at s \<noteq> None)"

lemma finish_stop_effect:
  "wp (finish_stop H d) (\<lambda>_ w'. stopped_clean H w' d \<and> at H w' (qmp_path d) = None \<and> procs w' = procs w)
     (\<lambda>_ _. True) w"
  unfolding finish_stop_def wps
  by (auto simp: wps stopped_clean_def is_file_def
      intro!: wp_mono [OF mark_stopped_effect])

text \<open>After a stop that returns, the machine of that PID is gone and its directory is clean.\<close>

definition machine_gone :: "host \<Rightarrow> path \<Rightarrow> nat \<Rightarrow> world \<Rightarrow> bool" where
  "machine_gone H d pid w \<longleftrightarrow> stopped_clean H w d \<and> procs w pid = None"

lemma finish_gone: "procs w pid = None \<Longrightarrow> wp (finish_stop H d) (\<lambda>_. machine_gone H d pid) (\<lambda>_ _. True) w"
  by (rule wp_mono [OF finish_stop_effect]) (auto simp: machine_gone_def)

lemma wait_then:
  assumes "\<And>w. procs w pid = None \<Longrightarrow> wp m Q (\<lambda>_ _. True) w" "\<And>w. wp k Q (\<lambda>_ _. True) w"
  shows "wp (bnd (wait_pid_exit H pid t) (\<lambda>gone. if gone then m else k)) Q (\<lambda>_ _. True) w"
    and "wp (bnd (wait_pid_exit H pid t) (\<lambda>gone. if \<not> gone then k else m)) Q (\<lambda>_ _. True) w"
  by (auto simp: wp_bnd intro!: assms wp_mono [OF wait_pid_exit_sound])

lemma stop_terminate_effect: "wp (stop_terminate H d pid) (\<lambda>_. machine_gone H d pid) (\<lambda>_ _. True) w"
  unfolding stop_terminate_def Let_def
  by (intro andthen_any after_any raise_any wait_then finish_gone)

lemma stop_process_effect: "wp (stop_process H d pid) (\<lambda>_. machine_gone H d pid) (\<lambda>_ _. True) w"
  unfolding stop_process_def wp_bnd wp_asks wp_if
  using wait_then(1) [OF finish_gone stop_terminate_effect]
  by (auto intro: stop_terminate_effect andthen_any)

lemma stop_alive_effect: "wp (stop_alive H d uuid pid ident) (\<lambda>_. machine_gone H d pid) (\<lambda>_ _. True) w"
proof -
  have "wp (if \<not> same then let msg = m in bnd (mark_error H d msg) (\<lambda>_. raise (RuntimeError msg))
            else stop_process H d pid) (\<lambda>_. machine_gone H d pid) (\<lambda>_ _. True) w" for same m w
    by (cases same) (simp_all add: stop_process_effect after_any raise_any Let_def)
  then show ?thesis unfolding stop_alive_def by (rule after_any)
qed

lemma mark_stopped_clean:
  assumes "\<not> is_file H w (pid_path d)"
  shows "wp (bnd (mark_stopped H d None) (\<lambda>_. ret ())) (\<lambda>_ w'. stopped_clean H w' d \<and> procs w' = procs w) (\<lambda>_ _. True) w"
  using assms by (auto simp: wps stopped_clean_def is_file_def intro!: wp_mono [OF mark_stopped_effect])

lemma wp_pid_from_file [wps]:
  "wp (pid_from_file H d) Q E w \<longleftrightarrow>
   (case at H w (pid_path d) of
      Some (File c) \<Rightarrow>
        if isdigit (strip (content_text H c)) then Q (Some (nat_of_digits (strip (content_text H c)))) w
        else E (ValueError (''invalid QEMU PID file: '' @ path_str (pid_path d))) w
    | _ \<Rightarrow> Q None w)"
  by (auto simp: pid_from_file_def wps is_file_def split: option.splits node.splits)

text \<open>The PID a machine's directory names.\<close>

definition pid_in :: "host \<Rightarrow> world \<Rightarrow> path \<Rightarrow> nat option" where
  "pid_in H w d = (case at H w (pid_path d) of
     Some (File c) \<Rightarrow> if isdigit (strip (content_text H c)) then Some (nat_of_digits (strip (content_text H c))) else None
   | _ \<Rightarrow> None)"

lemma qemu_stop_effect:
  assumes "is_dir H w (vm_dir_of H uuid)"
  shows "wp (qemu_stop H uuid)
     (\<lambda>_ w'. stopped_clean H w' (vm_dir_of H uuid) \<and>
        (\<forall>pid. pid_in H w (vm_dir_of H uuid) = Some pid \<longrightarrow> procs w' pid = None)) (\<lambda>_ _. True) w"
proof -
  let ?d = "vm_dir_of H uuid"
  let ?Q = "\<lambda>_ w'. stopped_clean H w' ?d \<and> (\<forall>pid. pid_in H w ?d = Some pid \<longrightarrow> procs w' pid = None)"
  show ?thesis
  proof (cases "\<exists>c. at H w (pid_path ?d) = Some (File c) \<and> isdigit (strip (content_text H c))")
    case False
    then have none: "pid_in H w ?d = None" by (auto simp: pid_in_def split: option.splits node.splits)
    show ?thesis
    proof (cases "is_file H w (pid_path ?d)")
      case True
      with False assms show ?thesis
        by (auto simp: qemu_stop_def stop_known_def wps is_file_def Let_def split: option.splits node.splits)
    next
      case nf: False
      then have "wp (bnd (mark_stopped H ?d None) (\<lambda>_. ret ())) ?Q (\<lambda>_ _. True) w"
        by (rule wp_mono [OF mark_stopped_clean]) (simp_all add: none)
      with nf assms show ?thesis
        unfolding qemu_stop_def stop_known_def Let_def
        by (auto simp: wps is_file_def split: option.splits node.splits)
    qed
  next
    case True
    then obtain c where c: "at H w (pid_path ?d) = Some (File c)" "isdigit (strip (content_text H c))" by blast
    let ?pid = "nat_of_digits (strip (content_text H c))"
    have pid: "pid_in H w ?d = Some ?pid" using c by (simp add: pid_in_def)
    have gone: "wp (stop_alive H ?d uuid ?pid ident) ?Q (\<lambda>_ _. True) w'" for ident w'
      by (rule wp_mono [OF stop_alive_effect]) (simp_all add: pid machine_gone_def)
    have dead: "wp (andthen (unlink_missing_ok H (pid_path ?d)) (bnd (mark_stopped H ?d None) (\<lambda>_. ret ())))
        ?Q (\<lambda>_ _. True) w" if "procs w ?pid = None"
      using that by (auto simp: wp_andthen wp_unlink_missing_ok pid is_file_def
          intro!: wp_mono [OF mark_stopped_clean])
    show ?thesis
      using assms c gone dead
      unfolding qemu_stop_def stop_known_def Let_def
      by (auto simp: wp_bnd wp_asks wp_pid_from_file wp_load_state wp_process_alive wp_if wp_ret
          split: stored_record.splits)
  qed
qed

section \<open>Facts: what stop and status may send\<close>

text \<open>The escalation of a stop: identity, controlled shutdown, TERM, KILL.\<close>

definition kill_call :: "string \<Rightarrow> nat \<Rightarrow> request" where
  "kill_call sig pid = Run (plain_call [''kill'', ''-'' @ sig, show_nat pid])"

definition stop_plan :: "path \<Rightarrow> nat \<Rightarrow> request list" where
  "stop_plan d pid = [Run (ps_call pid), QmpSend (qmp_path d) ''qmp_capabilities'',
     QmpSend (qmp_path d) ''system_powerdown'', kill_call ''TERM'' pid, kill_call ''KILL'' pid]"

lemma emits_wait_pid [emits_intros]: "emits P (wait_pid_exit H pid t)"
  unfolding wait_pid_exit_def by (intro emits_intros)

lemma emits_finish [emits_intros]: "emits P (finish_stop H d)" "emits P (pid_from_file H d)"
  unfolding finish_stop_def pid_from_file_def by (intro emits_intros)+

lemma orderly_signal: "orderly [kill_call sig pid] (send_signal H pid sig)"
  unfolding send_signal_def run_cmd_def kill_call_def
  by (intro orderly_catch orderly_last [OF orderly_run_checked] emits_intros)

lemma orderly_wait: "(\<And>a. orderly ys (f a)) \<Longrightarrow> orderly ys (bnd (wait_pid_exit H pid t) f)"
  by (rule orderly_after [OF emits_wait_pid])

lemma orderly_finish: "orderly ys (finish_stop H d)"
  by (rule orderly_quiet [OF emits_finish(1)])

lemma orderly_mark_error: "orderly ys (let msg = m in bnd (mark_error H d msg) (\<lambda>_. raise (RuntimeError msg)))"
  by (rule orderly_quiet) (intro emits_intros)

lemmas orderly_stop = orderly_signal orderly_wait orderly_finish orderly_mark_error orderly_if

lemma orderly_terminate:
  "orderly [kill_call ''TERM'' pid, kill_call ''KILL'' pid] (stop_terminate H d pid)"
  unfolding stop_terminate_def by (intro orderly_first(2) orderly_stop)

lemma orderly_stop_process: "orderly (tl (stop_plan d pid)) (stop_process H d pid)"
proof -
  let ?qmp = "[QmpSend (qmp_path d) ''qmp_capabilities'', QmpSend (qmp_path d) ''system_powerdown'']"
  let ?sig = "[kill_call ''TERM'' pid, kill_call ''KILL'' pid]"
  have qmp: "orderly ?qmp (catch is_qmp_error (powerdown H (qmp_path d)) (\<lambda>e. print_err (''vm: '' @ h_str H e @ nl)))"
    by (rule orderly_catch [OF orderly_powerdown]) (rule emits_simple)
  have wait: "orderly ?sig (bnd (wait_pid_exit H pid STOP_TIMEOUT)
      (\<lambda>gone. if gone then finish_stop H d else stop_terminate H d pid))"
    by (intro orderly_stop orderly_terminate)
  have "orderly (?qmp @ ?sig) (stop_process H d pid)"
    unfolding stop_process_def
    by (intro orderly_after orderly_if emits_simple orderly_andthen [OF qmp wait]
        orderly_mono [OF orderly_terminate]) simp
  then show ?thesis by (simp add: stop_plan_def)
qed

lemma orderly_stop_alive: "orderly (stop_plan d pid) (stop_alive H d uuid pid i)"
proof -
  have ps: "orderly [Run (ps_call pid)] (process_identity H pid)"
    unfolding process_identity_def
    by (intro orderly_catch orderly_last [OF orderly_run_checked] emits_intros)
  have matches: "orderly [Run (ps_call pid)] (if i = None then ret True else process_matches H pid i)"
    unfolding process_matches_def
    by (intro orderly_if orderly_quiet [OF emits_simple(1)] orderly_after emits_simple)
      (auto intro: orderly_quiet emits_simple orderly_last [OF ps] split: option.split)
  have "orderly (Run (ps_call pid) # tl (stop_plan d pid)) (stop_alive H d uuid pid i)"
    unfolding stop_alive_def
    by (intro orderly_first(1) matches orderly_if orderly_mark_error orderly_stop_process)
  then show ?thesis by (simp add: stop_plan_def)
qed

lemma qemu_stop_eq:
  "qemu_stop H uuid w =
   (if is_dir H w (vm_dir_of H uuid) then bnd (pid_from_file H (vm_dir_of H uuid)) (stop_known H uuid) w
    else (Inr (), w))"
  by (simp add: qemu_stop_def bnd_def asks_def ret_def)

lemma orderly_stop_known:
  "orderly (case pid_opt of None \<Rightarrow> [] | Some pid \<Rightarrow> stop_plan (vm_dir_of H uuid) pid) (stop_known H uuid pid_opt)"
  unfolding stop_known_def Let_def
  by (cases pid_opt; simp only: option.case)
    (intro orderly_after orderly_if orderly_stop_alive orderly_quiet emits_intros;
      (intro orderly_quiet)?; intro emits_intros)+

lemma pid_from_file_result:
  "snd (pid_from_file H d w) = w" "fst (pid_from_file H d w) = Inr p \<Longrightarrow> p = pid_in H w d"
  by (auto simp: pid_from_file_def pid_in_def bnd_def asks_def ret_def raise_def read_text_def read_content_def
      is_file_def split: option.splits node.splits if_splits sum.splits)

lemma qemu_stop_requests:
  "\<exists>rs. requests (snd (qemu_stop H uuid w)) = requests w @ rs \<and>
     subseq rs (case pid_in H w (vm_dir_of H uuid) of None \<Rightarrow> [] | Some pid \<Rightarrow> stop_plan (vm_dir_of H uuid) pid)"
proof (cases "is_dir H w (vm_dir_of H uuid)")
  case False
  then show ?thesis by (auto simp: qemu_stop_eq)
next
  case True
  let ?r = "pid_from_file H (vm_dir_of H uuid) w"
  have w: "snd ?r = w" by (rule pid_from_file_result)
  show ?thesis
  proof (cases "fst ?r")
    case (Inl e)
    with True w show ?thesis by (cases ?r) (auto simp: qemu_stop_eq bnd_def)
  next
    case (Inr p)
    then have "p = pid_in H w (vm_dir_of H uuid)" by (rule pid_from_file_result)
    with Inr True w orderly_stop_known [of H uuid p] show ?thesis
      by (cases ?r) (auto simp: qemu_stop_eq bnd_def orderly_def)
  qed
qed

section \<open>Facts: a process that is not the machine's\<close>

lemma at_fs: "fs w' = fs w \<Longrightarrow> at H w' p = at H w p"
  by (simp add: at_def)

lemma fs_frame:
  assumes "fs w' = fs w"
  shows "stored H w' d = stored H w d" "vm_dir_ready H w' d = vm_dir_ready H w d"
    "is_dir H w' p = is_dir H w p" "is_file H w' p = is_file H w p"
  using at_fs [OF assms] by (simp_all add: stored_def vm_dir_ready_def is_dir_def is_file_def)

text \<open>The outcome of the identity check, from the process table and the reply of \<open>ps\<close>.\<close>

definition mismatched :: "host \<Rightarrow> world \<Rightarrow> nat \<Rightarrow> string \<Rightarrow> bool" where
  "mismatched H w pid i \<longleftrightarrow>
     (\<exists>q. procs w pid = Some q \<and> \<not> p_foreign q) \<and>
     read_identity (r_result (h_run H (ps_call pid) w)) \<noteq> Some i"

lemma process_matches_mismatched:
  assumes "mismatched H w pid i"
  shows "wp (process_matches H pid (Some i))
    (\<lambda>same w'. \<not> same \<and> fs w' = r_fs (h_run H (ps_call pid) w) \<and>
        procs w' = r_procs (h_run H (ps_call pid) w) \<and> requests w' = requests w @ [Run (ps_call pid)])
    (\<lambda>_ _. False) w"
  using assms unfolding process_matches_def mismatched_def
  by (auto simp: wps intro!: wp_mono [OF process_identity_effect])

lemma stop_alive_mismatched:
  assumes m: "mismatched H w pid i" and fs: "r_fs (h_run H (ps_call pid) w) = fs w"
    and ready: "vm_dir_ready H w d" and st: "stored H w d = Stored s"
  shows "wp (stop_alive H d uuid pid (Some i)) (\<lambda>_ _. False)
    (\<lambda>e w'. e = RuntimeError (''vm: QEMU PID '' @ show_nat pid @ '' does not match VM '' @ quoted uuid) \<and>
       requests w' = requests w @ [Run (ps_call pid)] \<and>
       procs w' = r_procs (h_run H (ps_call pid) w) \<and>
       stored H w' d = Stored (s\<lparr>qs_last_error := Some (''vm: QEMU PID '' @ show_nat pid @ '' does not match VM '' @ quoted uuid)\<rparr>))
    w"
proof -
  have step: "vm_dir_ready H w' d \<and> stored H w' d = Stored s" if "fs w' = r_fs (h_run H (ps_call pid) w)" for w'
    using ready st fs_frame [of w' w H d] that fs by simp
  show ?thesis
    unfolding stop_alive_def Let_def
    by (auto simp: wps wp_mark_error step base_state_def Let_def
        intro!: wp_mono [OF process_matches_mismatched [OF m]])
qed

lemma qemu_stop_mismatched:
  assumes "is_dir H w (vm_dir_of H uuid)" "pid_in H w (vm_dir_of H uuid) = Some pid"
    and st: "stored H w (vm_dir_of H uuid) = Stored s" "qs_pid_start s = Some i"
    and m: "mismatched H w pid i" and "r_fs (h_run H (ps_call pid) w) = fs w"
    and "vm_dir_ready H w (vm_dir_of H uuid)"
  shows "wp (qemu_stop H uuid) (\<lambda>_ _. False)
    (\<lambda>e w'. is_runtime_error e \<and> requests w' = requests w @ [Run (ps_call pid)] \<and>
       procs w' = r_procs (h_run H (ps_call pid) w) \<and>
       (\<exists>msg. stored H w' (vm_dir_of H uuid) = Stored (s\<lparr>qs_last_error := Some msg\<rparr>))) w"
proof -
  obtain c where "at H w (pid_path (vm_dir_of H uuid)) = Some (File c)"
    "isdigit (strip (content_text H c))" "nat_of_digits (strip (content_text H c)) = pid"
    using assms(2) by (auto simp: pid_in_def split: option.splits node.splits if_splits)
  moreover obtain q where "procs w pid = Some q" using m by (auto simp: mismatched_def)
  moreover have "wp (stop_alive H (vm_dir_of H uuid) uuid pid (Some i)) (\<lambda>_ _. False)
    (\<lambda>e w'. is_runtime_error e \<and> requests w' = requests w @ [Run (ps_call pid)] \<and>
       procs w' = r_procs (h_run H (ps_call pid) w) \<and>
       (\<exists>msg. stored H w' (vm_dir_of H uuid) = Stored (s\<lparr>qs_last_error := Some msg\<rparr>))) w"
    by (rule wp_mono [OF stop_alive_mismatched [OF m assms(6,7) st(1)]]) auto
  ultimately show ?thesis
    using assms(1,3,4) by (simp add: qemu_stop_def stop_known_def wps Let_def)
qed

section \<open>Facts: status\<close>

text \<open>A machine is reported as running only for a live process, whose identity is the recorded one
  unless none was recorded or the process belongs to another user.\<close>

lemma qemu_status_running:
  "wp (qemu_status H uuid)
     (\<lambda>st _. state_of st = ''running'' \<longrightarrow>
        (\<exists>pid q. pid_in H w (vm_dir_of H uuid) = Some pid \<and> procs w pid = Some q \<and>
           (\<forall>s i. stored H w (vm_dir_of H uuid) = Stored s \<longrightarrow> qs_pid_start s = Some i \<longrightarrow>
              p_foreign q \<or> read_identity (r_result (h_run H (ps_call pid) w)) = Some i)))
     (\<lambda>_ _. True) w"
proof -
  have match: "wp (process_matches H pid (Some i)) (\<lambda>same _. same \<longrightarrow>
      (\<exists>q. procs w pid = Some q \<and> (p_foreign q \<or> read_identity (r_result (h_run H (ps_call pid) w)) = Some i)))
      (\<lambda>_ _. True) w" for pid i
    unfolding process_matches_def
    by (auto simp: wps intro!: wp_mono [OF process_identity_effect] split: option.split)
  show ?thesis
    unfolding qemu_status_def Let_def
    by (auto simp: wps pid_in_def is_file_def split: stored_record.splits option.splits node.splits
        intro!: wp_mono [OF match])
qed

lemma qemu_status_stopped:
  assumes "stopped_clean H w (vm_dir_of H uuid)"
  shows "wp (qemu_status H uuid)
    (\<lambda>st w'. state_of st = ''unknown'' \<and> ''last_error'' \<notin> fst ` set st \<and> ''pid'' \<notin> fst ` set st \<and> w' = w)
    (\<lambda>_ _. False) w"
  using assms
  by (auto simp: stopped_clean_def qemu_status_def wps Let_def status_base_def split: option.split node.split)

text \<open>Starting a running machine changes nothing but what reading its status does.\<close>

lemma qemu_start_running:
  assumes "at H w (yaml_path (vm_dir_of H uuid)) = Some (File (ConfigDoc raw))"
    and "validate_config (h_darwin H) raw = Inr cfg" "validate_qemu_config H w cfg = Inr ()"
    and "qemu_status H uuid w = (Inr st, w1)" "state_of st = ''running''"
  shows "qemu_start H uuid r w = (Inr (), w1)"
  using assms
  by (simp add: qemu_start_def start_configured_def Let_def bnd_def asks_def is_file_def load_config_def read_content_def
      check_config_def get_world_def lift_sum_def andthen_def ret_def)

section \<open>Facts: what start may send\<close>

text \<open>The requests of a start: reading an identity, probing tools, launching the machine with the given
  restriction, and reaching the guest.\<close>

definition launch_request :: "host \<Rightarrow> vm_config \<Rightarrow> path \<Rightarrow> bool \<Rightarrow> request \<Rightarrow> bool" where
  "launch_request H cfg d restricted r \<longleftrightarrow>
     (\<exists>l argv. r = Run (plain_call argv) \<and> build_qemu_argv H cfg d l = Inr argv \<and> l_restrict_network l = restricted)"

definition start_request :: "host \<Rightarrow> vm_config \<Rightarrow> path \<Rightarrow> bool \<Rightarrow> request \<Rightarrow> bool" where
  "start_request H cfg d restricted r \<longleftrightarrow>
     (\<exists>pid. r = Run (ps_call pid)) \<or> tool_probe r \<or> guest_access r \<or> launch_request H cfg d restricted r"

lemma start_requestI:
  "emits tool_probe m \<Longrightarrow> emits (start_request H cfg d b) m"
  "emits guest_access m' \<Longrightarrow> emits (start_request H cfg d b) m'"
  "start_request H cfg d b (Run (ps_call pid))"
  by (auto simp: start_request_def elim: emits_mono)

lemma emits_launch:
  "l_restrict_network l = b \<Longrightarrow> emits (start_request H cfg d b) (launch_qemu H report cfg d l)"
  unfolding launch_qemu_def
  by (intro emits_lift_bnd emits_intros) (auto simp: start_request_def launch_request_def)

lemma emits_wait_ssh: "emits guest_access (wait_ssh H port key t)"
  unfolding wait_ssh_def probe_ssh_def
  by (intro emits_intros; simp add: timed_call_def)

lemma emits_start_parts [emits_intros]:
  "emits tool_probe (firmware_for H q)" "emits P (read_port H d)" "emits P (roots_for H q)"
  "emits P (check_config H cfg)" "emits P (load_config H p)"
  unfolding firmware_for_def read_port_def roots_for_def check_config_def load_config_def resolve_ci_root_def Let_def
      apply (intro emits_intros emits_firmware)
     apply (intro emits_intros)
    apply (intro emits_intros)
   apply (intro emits_intros)
  subgoal
    by (intro emits_intros) (auto intro: emits_intros split: content.split)
  done

lemma emits_record_start: "emits (start_request H cfg d b) (record_start H d port)"
  unfolding record_start_def by (intro emits_intros) (simp add: start_requestI)

lemma emits_start_machine:
  "emits (start_request H cfg d (r \<and> net_mode (network cfg) = NetNone)) (start_machine H cfg d r)"
  unfolding start_machine_def Let_def noting_error_def
  by (intro emits_intros start_requestI(1) [OF emits_resolve_accel] start_requestI(1) [OF emits_start_parts(1)]
      emits_launch emits_record_start start_requestI(2) [OF emits_wait_ssh]
      start_requestI(2) [OF emits_guest_entry(2)] start_requestI(2) [OF emits_guest_entry(3)]) simp

lemma emits_status: "(\<And>pid. P (Run (ps_call pid))) \<Longrightarrow> emits P (qemu_status H uuid)"
  unfolding qemu_status_def Let_def by (intro emits_intros)

lemma emits_start_configured:
  "emits (start_request H cfg (vm_dir_of H uuid) (r \<and> net_mode (network cfg) = NetNone))
     (start_configured H uuid r cfg)"
  unfolding start_configured_def Let_def
  by (intro emits_intros emits_status emits_start_machine start_requestI(3))

lemma qemu_start_requests:
  assumes "at H w (yaml_path (vm_dir_of H uuid)) = Some (File (ConfigDoc raw))"
    and "validate_config (h_darwin H) raw = Inr cfg"
  shows "\<exists>rs. requests (snd (qemu_start H uuid r w)) = requests w @ rs \<and>
    list_all (start_request H cfg (vm_dir_of H uuid) (r \<and> net_mode (network cfg) = NetNone)) rs"
proof -
  have "qemu_start H uuid r w = start_configured H uuid r cfg w"
    using assms
    by (simp add: qemu_start_def bnd_def asks_def is_file_def load_config_def read_content_def ret_def)
  then show ?thesis using emits_start_configured [of H cfg uuid r] by (simp add: emits_def)
qed

text \<open>What the restriction means on the command line of a launch.\<close>

lemma launch_request_netdev:
  assumes "launch_request H cfg d b (Run c)"
  shows "\<exists>net0. values_of ''-netdev'' (read_options (tl (c_argv c))) =
      net0 # (if net_mode (network cfg) = NetBridge then [''bridge,id=net1,br='' @ network_name (network cfg)] else []) \<and>
    prefix ''user,id=net0,hostfwd=tcp:127.0.0.1:'' net0 \<and> (b \<longleftrightarrow> suffix '',restrict=on'' net0)"
proof -
  obtain l argv where l: "c = plain_call argv" "build_qemu_argv H cfg d l = Inr argv" "l_restrict_network l = b"
    using assms by (auto simp: launch_request_def)
  obtain mem where "read_options (tl argv) = argv_options H cfg d l mem"
    using read_argv [OF l(2)] by blast
  then have v: "values_of ''-netdev'' (read_options (tl (c_argv c))) =
      netdev_user l # (if net_mode (network cfg) = NetBridge then [''bridge,id=net1,br='' @ network_name (network cfg)] else [])"
    by (simp add: l(1) plain_call_def argv_netdevs)
  have "prefix ''user,id=net0,hostfwd=tcp:127.0.0.1:'' (netdev_user l)" by (simp add: netdev_user_def)
  moreover have "b \<longleftrightarrow> suffix '',restrict=on'' (netdev_user l)"
    using l(3) by (auto simp: netdev_user_def suffix_def)
  ultimately show ?thesis using v by blast
qed

section \<open>Facts: create and destroy\<close>

lemma qemu_create_rejects:
  "validate_qemu_config H w cfg = Inl e \<Longrightarrow> qemu_create H p cfg w = (Inl e, w)"
  by (simp add: qemu_create_def check_config_def andthen_def bnd_def get_world_def lift_sum_def)

lemma validate_mounts_Inr:
  "validate_mounts H w ms = Inr () \<longleftrightarrow>
   (\<forall>m \<in> set ms. absolute (mk_path (expanduser H m)) \<and> CHR '','' \<notin> set (path_str (mk_path (expanduser H m))) \<and>
      p_exists H w (mk_path (expanduser H m)))"
  by (induction H w ms rule: validate_mounts.induct) (auto simp: Let_def)

lemma validate_qemu_config_Inr:
  "validate_qemu_config H w cfg = Inr () \<longleftrightarrow>
   validate_network cfg = Inr () \<and> validate_mounts H w (mounts cfg) = Inr () \<and>
   cap_add (security cfg) = [] \<and> credentials cfg \<noteq> CredApi"
  by (auto simp: validate_qemu_config_def split: sum.splits)

text \<open>Below the resolved directory of a machine.\<close>

definition vm_root :: "host \<Rightarrow> string list" where
  "vm_root H = parts (resolve (h_cwd H) (vms_dir H))"

lemma resolve_vms: "resolve (h_cwd H) (vms_dir H) = Path True (vm_root H)"
  by (cases "resolve (h_cwd H) (vms_dir H)") (metis absolute_resolve path.sel vm_root_def)

lemma plain_not_dots: "plain n \<Longrightarrow> n \<noteq> ''..''"
  by (auto simp: plain_def)

lemma child_Path: "child (Path a ps) n = Path a (ps @ [n])"
  by (simp add: child_def)

lemma resolve_vm_dir: "plain uuid \<Longrightarrow> resolve (h_cwd H) (vm_dir_of H uuid) = Path True (vm_root H @ [uuid])"
  by (simp add: vm_dir_of_def p_sub_plain plain_not_dots resolve_vms child_Path)

lemma resolve_archive:
  "resolve (h_cwd H) (child (vms_dir H) ''_archive'') = Path True (vm_root H @ [''_archive''])"
  "plain uuid \<Longrightarrow> resolve (h_cwd H) (archive_path H uuid) = Path True (vm_root H @ [''_archive'', uuid])"
  by (simp_all add: archive_path_def p_sub_plain plain_not_dots resolve_vms child_Path)

text \<open>\<open>mkdir\<close> with parents only turns missing prefixes into directories.\<close>

lemma wp_mkdir_parents:
  assumes "E (FileExistsError (path_str p)) w"
    and "\<And>f. (\<And>q. \<not> prefix (parts q) (parts (resolve (h_cwd H) p)) \<Longrightarrow> f q = fs w q) \<Longrightarrow>
           Q () (w\<lparr>fs := f\<rparr>)"
  shows "wp (mkdir_parents H p) Q E w"
proof -
  let ?a = "map (\<lambda>k. Path True (take k (parts (resolve (h_cwd H) p)))) [0..<Suc (length (parts (resolve (h_cwd H) p)))]"
  have "Q () (w\<lparr>fs := (\<lambda>x. if x \<in> set ?a then Some Dir else fs w x)\<rparr>)"
    by (rule assms(2)) (auto simp: take_is_prefix)
  then show ?thesis
    using assms(1) unfolding wp_def mkdir_parents_def Let_def by (simp only: split: if_split) simp
qed

text \<open>Removing: the subtree goes, nothing else changes. Archiving: the subtree is moved whole.\<close>

lemma discard_purge:
  assumes "plain uuid" "is_dir H w (vm_dir_of H uuid)"
  shows "discard_dir H uuid True w =
    (Inr (), w\<lparr>fs := (\<lambda>p. if below (Path True (vm_root H @ [uuid])) p then None else fs w p)\<rparr>)"
  using assms
  by (simp add: discard_dir_def Let_def bnd_def asks_def rmtree_def resolve_vm_dir)

lemma discard_archive:
  assumes "plain uuid" "uuid \<noteq> ''_archive''" "is_dir H w (vm_dir_of H uuid)"
  shows "wp (discard_dir H uuid False)
    (\<lambda>_ w'. \<forall>x. fs w' (Path True (vm_root H @ [''_archive'', uuid] @ x)) = fs w (Path True (vm_root H @ [uuid] @ x)) \<and>
                fs w' (Path True (vm_root H @ [uuid] @ x)) = None)
    (\<lambda>_ w'. \<forall>x. fs w' (Path True (vm_root H @ [uuid] @ x)) = fs w (Path True (vm_root H @ [uuid] @ x))) w"
proof -
  have anc: "\<not> prefix (vm_root H @ uuid # x) (vm_root H @ [''_archive''])" for x
    using assms(2) by (auto simp: prefix_def)
  have nb: "\<not> below (Path True (vm_root H @ [''_archive'', uuid])) (Path True (vm_root H @ uuid # x))" for x
    using assms(2) by (auto simp: below_def prefix_def)
  have d: "fs w (Path True (vm_root H @ [uuid])) = Some Dir"
    using assms by (simp add: is_dir_def at_def resolve_vm_dir)
  show ?thesis
    using assms anc nb d
    unfolding discard_dir_def Let_def
    by (auto simp: wps resolve_vm_dir resolve_archive is_dir_def at_def below_def intro!: wp_mkdir_parents)
qed

end
