(* ===== verification/VmBuild.thy ===== *)
theory VmBuild
  imports VmCore Argv Demo
begin

text \<open>
  \<open>workspace/cli/vm_build.py\<close> and \<open>workspace/cli/vpn_netns.py\<close>: the build and run pipeline of
  the container backend. Rendering a Jinja template is the parameter \<open>h_render\<close>; the context it is
  given is modelled with all its keys.
\<close>

section \<open>VPN files and keys\<close>

definition get_uid :: "host \<Rightarrow> string io" where
  "get_uid H =
     bnd (run_checked H (plain_call [''id'', ''-u''])) (\<lambda>r.
       let uid = strip (fst r) in
       if uid = [] \<or> \<not> isdigit uid then raise (RuntimeError []) else ret uid)"

definition resolve_vpn_host_path :: "host \<Rightarrow> string \<Rightarrow> path \<Rightarrow> path" where
  "resolve_vpn_host_path H s root =
     (let expanded = mk_path (expanduser H s)
      in if absolute expanded then resolve (h_cwd H) expanded
         else resolve (h_cwd H) (p_join root expanded))"

definition stage_file :: "host \<Rightarrow> path \<Rightarrow> path \<Rightarrow> string io" where
  "stage_file H src dest =
     andthen (copy_file H src dest) (ret (path_str (relpath (resolve (h_cwd H) dest) (h_cwd H))))"

definition stage_vpn_assets :: "host \<Rightarrow> path \<Rightarrow> vm_config \<Rightarrow> (string \<times> string) io" where
  "stage_vpn_assets H vm_dir cfg =
     (if \<not> (net_mode (network cfg) = NetOpenvpn \<and> vpn_type (network cfg) = VpnContainer)
      then ret ([], [])
      else
        let src = resolve_vpn_host_path H (vpn_config (network cfg)) (h_cwd H);
            auth_src = resolve_vpn_host_path H (vpn_auth (network cfg)) (h_cwd H) in
        bnd (asks (\<lambda>w. is_file H w src)) (\<lambda>f.
        if \<not> f then raise (RuntimeError (''VPN config not found: '' @ path_str src))
        else bnd (validate_ovpn H src) (\<lambda>valid.
        if \<not> valid then raise (RuntimeError (''invalid OpenVPN config: '' @ path_str src))
        else bnd (stage_file H src (child vm_dir ''client.ovpn'')) (\<lambda>config.
        if vpn_auth (network cfg) = [] then ret (config, [])
        else bnd (asks (\<lambda>w. is_file H w auth_src)) (\<lambda>a.
        if \<not> a then raise (RuntimeError (''VPN auth file not found: '' @ path_str auth_src))
        else bnd (stage_file H auth_src (child vm_dir ''auth.txt'')) (\<lambda>auth. ret (config, auth)))))))"

definition temp_key :: "path \<Rightarrow> path" where
  "temp_key vm_dir = child vm_dir ''temp_ssh_key''"

text \<open>The permission bits of the copied key are not part of the file system modelled here.\<close>

definition prepare_build_ssh_key :: "host \<Rightarrow> path \<Rightarrow> string io" where
  "prepare_build_ssh_key H vm_dir =
     (let dest = temp_key vm_dir; src = child (child (h_home H) ''.ssh'') ''id_rsa'' in
      bnd (asks (\<lambda>w. is_file H w src)) (\<lambda>f.
        andthen (if f then copy_file H src dest else touch H dest)
          (ret (path_str (relpath (resolve (h_cwd H) dest) (h_cwd H))))))"

section \<open>Flags\<close>

definition derive_network_flags :: "vm_config \<Rightarrow> string list" where
  "derive_network_flags cfg =
     (case net_mode (network cfg) of
        NetNone \<Rightarrow> [''--network'', ''none'']
      | NetBridge \<Rightarrow> [''--network'', network_name (network cfg)]
      | NetHost \<Rightarrow> [''--network'', ''host'']
      | NetOpenvpn \<Rightarrow>
          if vpn_type (network cfg) = VpnNetns
          then [''--network'', ''ns:/run/netns/'' @ vpn_netns (network cfg)]
          else [''--network'', network_name (network cfg), ''--device'', ''/dev/net/tun''])"

definition derive_cap_flags :: "vm_config \<Rightarrow> string list" where
  "derive_cap_flags cfg =
     concat (map (\<lambda>cap. [''--cap-drop'', cap]) (cap_drop (security cfg)))
     @ (if cap_add (security cfg) = []
        then (if net_mode (network cfg) = NetBridge \<and> net_policy (network cfg) \<in> {PolInternet, PolProxy}
              then [''--cap-add'', ''NET_ADMIN''] else [])
             @ (if net_mode (network cfg) = NetOpenvpn \<and> vpn_type (network cfg) = VpnContainer
                then [''--cap-add'', ''NET_ADMIN''] else [])
        else concat (map (\<lambda>cap. [''--cap-add'', cap]) (cap_add (security cfg))))"

definition image_of :: "string \<Rightarrow> string" where
  "image_of uuid = VM_IMAGE_PREFIX @ '':'' @ uuid"

definition build_run_args :: "host \<Rightarrow> vm_config \<Rightarrow> string \<Rightarrow> string list" where
  "build_run_args H cfg uuid =
     [''podman'', ''run'', ''-d'', ''--systemd=always'', ''--name'', uuid,
      ''--label'', VM_LABEL_PREFIX @ ''.type=vm'', ''--label'', VM_LABEL_PREFIX @ ''.uuid='' @ uuid,
      ''--label'', VM_LABEL_PREFIX @ ''.config='' @ config_sha256 H cfg,
      ''-v'', uuid @ ''-workspace:/workspace'', ''-v'', uuid @ ''-transcripts:/transcripts'',
      ''-v'', uuid @ ''-cache:/cache'', ''--userns=keep-id'',
      ''--memory'', memory (resources cfg), ''--cpus'', show_int (cpus (resources cfg)),
      ''--pids-limit'', show_int (pids_limit (resources cfg)), ''--health-on-failure=stop'']
     @ derive_network_flags cfg @ derive_cap_flags cfg
     @ (if no_new_privileges (security cfg) then [''--security-opt'', ''no-new-privileges''] else [])
     @ (if read_only_rootfs (security cfg)
        then [''--read-only'', ''--tmpfs'', ''/tmp:rw,noexec,nosuid'', ''--tmpfs'', ''/run:rw,noexec,nosuid'']
        else [])
     @ concat (map (\<lambda>(k, v). [''-e'', k @ ''='' @ v]) (env cfg))
     @ concat (map (\<lambda>m. [''--mount'', ''type=bind,src='' @ m @ '',ro'']) (mounts cfg))
     @ [image_of uuid]"

section \<open>Volumes and networks\<close>

text \<open>\<open>repr\<close> of captured bytes without quotes or escapes: these commands are run without \<open>text=True\<close>.\<close>

definition bytes_repr :: "string \<Rightarrow> string" where
  "bytes_repr s = ''b'' @ quoted s"

definition lstrip_slash :: "string \<Rightarrow> string" where
  "lstrip_slash s = dropWhile (\<lambda>c. c = CHR ''/'') s"

definition pre_copy_entry :: "host \<Rightarrow> path \<Rightarrow> file_entry \<Rightarrow> unit io" where
  "pre_copy_entry H mountpoint entry =
     (let src = mk_path (expanduser H (fe_src entry)); dst = p_sub mountpoint (lstrip_slash (fe_dst entry)) in
      bnd get_world (\<lambda>w.
        if is_dir H w src then copy_tree H src dst
        else if is_file H w src then andthen (mkdir_parents H (parent dst)) (copy_file H src dst)
        else ret ()))"

definition pre_copy_files :: "host \<Rightarrow> vm_config \<Rightarrow> string \<Rightarrow> unit io" where
  "pre_copy_files H cfg uuid =
     (if files cfg = [] then ret ()
      else bnd (catch is_called_process_error
          (bnd (run_checked H (timed_call [''podman'', ''volume'', ''inspect'', ''-f'', ''{{.Mountpoint}}'',
                  uuid @ ''-workspace''] 30)) (\<lambda>r. ret (Some (strip (fst r)))))
          (\<lambda>e. case e of
             CalledProcessError rc so se \<Rightarrow>
               andthen (print_err (''vm: WARNING: cannot inspect volume mountpoint: '' @ se @ ''; skipping pre-copy''))
                 (ret None)
           | _ \<Rightarrow> raise e)) (\<lambda>m.
        case m of None \<Rightarrow> ret () | Some mountpoint \<Rightarrow> each (pre_copy_entry H (mk_path mountpoint)) (files cfg)))"

definition ensure_bridge_network :: "host \<Rightarrow> vm_config \<Rightarrow> unit io" where
  "ensure_bridge_network H cfg =
     (let n = network_name (network cfg) in
      if net_mode (network cfg) \<noteq> NetBridge then ret ()
      else catch is_called_process_error
        (bnd (run_checked H (timed_call [''podman'', ''network'', ''exists'', n] 30)) (\<lambda>_. ret ()))
        (\<lambda>e. case e of
           CalledProcessError rc so se \<Rightarrow>
             andthen (print_err (''vm: network '' @ n @ '' missing: '' @ bytes_repr se @ ''; creating''))
            (andthen (bnd (run_checked H (timed_call [''podman'', ''network'', ''create'', n] 30)) (\<lambda>_. ret ()))
               (print_err (''vm: network '' @ n @ '' created'')))
         | _ \<Rightarrow> raise e))"

definition ensure_volume :: "host \<Rightarrow> string \<Rightarrow> unit io" where
  "ensure_volume H vol =
     catch is_called_process_error
       (bnd (run_checked H (timed_call [''podman'', ''volume'', ''inspect'', vol] 30)) (\<lambda>_. ret ()))
       (\<lambda>e. case e of
          CalledProcessError rc so se \<Rightarrow>
            andthen (print_err (''vm: volume '' @ vol @ '' missing: '' @ bytes_repr se @ ''; creating''))
              (bnd (run_checked H (timed_call [''podman'', ''volume'', ''create'', vol] 30)) (\<lambda>_. ret ()))
        | _ \<Rightarrow> raise e)"

section \<open>Building\<close>

text \<open>The context of the templates, in the order of its keys.\<close>

definition build_context ::
  "vm_config \<Rightarrow> string \<Rightarrow> path \<Rightarrow> path \<Rightarrow> string \<Rightarrow> string \<times> string \<Rightarrow> (string \<times> ctx_value) list" where
  "build_context cfg password vm_dir install_defaults key_relpath vpn =
     (let net_enabled = (net_mode (network cfg) \<noteq> NetNone) in
      [(''security'', CtxSecurity (security cfg)), (''credentials'', CtxCredentials (credentials cfg)),
       (''ssh'', CtxSsh (ssh cfg)), (''network'', CtxNetwork (network cfg)),
       (''traefik_enabled'', CtxBool (net_enabled \<and> web_ui cfg)),
       (''network_enabled'', CtxBool (net_enabled \<and> net_policy (network cfg) \<in> {PolInternet, PolProxy})),
       (''openvpn_enabled'', CtxBool (net_mode (network cfg) = NetOpenvpn \<and> vpn_type (network cfg) = VpnContainer)),
       (''password'', CtxText password), (''certs'', CtxText (path_str (child vm_dir ''certs''))),
       (''vm_install_defaults'', CtxText (path_str install_defaults)),
       (''vm_temp_ssh_key_relpath'', CtxText key_relpath),
       (''vm_opencode_json'', CtxText (path_str (child vm_dir ''vm-opencode.json''))),
       (''vm_opencode_service'', CtxText (path_str (child vm_dir ''vm-opencode.service''))),
       (''vm_traefik_service'', CtxText (path_str (child vm_dir ''vm-traefik.service''))),
       (''vm_traefik_static'', CtxText (path_str (child vm_dir ''vm-traefik-static.yml''))),
       (''vm_traefik_dynamic'', CtxText (path_str (child vm_dir ''vm-traefik-dynamic.yml''))),
       (''vm_workspace_network_service'', CtxText (path_str (child vm_dir ''vm-workspace-network.service''))),
       (''vm_openvpn_service'', CtxText (path_str (child vm_dir ''vm-openvpn.service''))),
       (''vpn_config'', CtxText (fst vpn)), (''vpn_auth'', CtxText (snd vpn)),
       (''container_user'', CtxText VM_CONTAINER_USER), (''container_home'', CtxText VM_CONTAINER_HOME),
       (''container_install_root'', CtxText VM_INSTALL_ROOT), (''policy'', CtxPolicy (net_policy (network cfg))),
       (''proxy_url'', CtxText (proxy_url (network cfg)))])"

definition ctx_flag :: "(string \<times> ctx_value) list \<Rightarrow> string \<Rightarrow> bool" where
  "ctx_flag ctx k \<longleftrightarrow> map_of ctx k = Some (CtxBool True)"

definition build_args :: "host \<Rightarrow> string \<Rightarrow> string \<Rightarrow> path \<Rightarrow> string \<Rightarrow> string list" where
  "build_args H uuid password vm_dir uid =
     [''build'', ''--format'', ''docker''] @ (if h_darwin H then [] else [''--ssh'', ''default''])
     @ [''-t'', image_of uuid, ''--build-arg'', ''AGENT_UID='' @ uid,
        ''--build-arg'', ''OPENCODE_SERVER_PASSWORD='' @ password,
        ''-f'', path_str (child vm_dir ''Dockerfile''), ''.'']"

definition drop_temp_key :: "host \<Rightarrow> path \<Rightarrow> unit io" where
  "drop_temp_key H vm_dir =
     bnd (asks (\<lambda>w. p_exists H w (temp_key vm_dir))) (\<lambda>ex. when_io ex (unlink H (temp_key vm_dir)))"

definition render_and_build :: "host \<Rightarrow> string \<Rightarrow> string \<Rightarrow> path \<Rightarrow> (string \<times> ctx_value) list \<Rightarrow> unit io" where
  "render_and_build H uuid password vm_dir context =
     andthen (write_text H (child vm_dir ''Dockerfile'') (h_render H ''Dockerfile.vm.j2'' context))
    (andthen (generate_dockerignore H vm_dir)
    (bnd (get_uid H) (\<lambda>uid.
       finally_do (bnd (podman H (build_args H uuid password vm_dir uid)) (\<lambda>_. ret ()))
         (drop_temp_key H vm_dir))))"

definition inspect :: "host \<Rightarrow> string \<Rightarrow> string \<Rightarrow> string io" where
  "inspect H uuid fmt =
     bnd (run_checked H (plain_call [''podman'', ''inspect'', ''-f'', fmt, uuid])) (\<lambda>r.
       andthen (when_io (snd r \<noteq> []) (print_err (snd r))) (ret (strip (fst r))))"

definition record_address :: "host \<Rightarrow> string \<Rightarrow> string \<Rightarrow> unit io" where
  "record_address H uuid net =
     bnd (inspect H uuid (''{{.NetworkSettings.Networks.'' @ net @ ''.IPAddress}}'')) (\<lambda>ip.
       if ip = [] then print_err (''vm: WARNING: no bridge IP for '' @ uuid)
       else append_text H HOSTS (ip @ '' '' @ host_name uuid @ nl))"

definition post_run_inspect :: "host \<Rightarrow> string \<Rightarrow> path \<Rightarrow> vm_config \<Rightarrow> unit io" where
  "post_run_inspect H uuid vm_dir cfg =
     catch is_called_process_error
       (bnd (inspect H uuid ''{{.State.Pid}}'') (\<lambda>pid.
        andthen (write_text H (child vm_dir ''pid'') pid)
          (when_io (net_mode (network cfg) = NetBridge) (record_address H uuid (network_name (network cfg))))))
       (\<lambda>e. case e of
          CalledProcessError rc so se \<Rightarrow> raise (RuntimeError (''podman inspect failed: '' @ se))
        | _ \<Rightarrow> raise e)"

definition render_to :: "host \<Rightarrow> path \<Rightarrow> (string \<times> ctx_value) list \<Rightarrow> string \<Rightarrow> string \<Rightarrow> unit io" where
  "render_to H vm_dir context file template = write_text H (child vm_dir file) (h_render H template context)"

definition generate_companion_files :: "host \<Rightarrow> path \<Rightarrow> vm_config \<Rightarrow> (string \<times> ctx_value) list \<Rightarrow> unit io" where
  "generate_companion_files H vm_dir cfg context =
     andthen (write_text H (child vm_dir ''vm-opencode.json'') (h_opencode_json H (provider cfg)))
    (andthen (render_to H vm_dir context ''vm-opencode.service'' ''systemd-opencode.service.j2'')
    (andthen (when_io (ctx_flag context ''traefik_enabled'')
       (andthen (render_to H vm_dir context ''vm-traefik.service'' ''systemd-traefik.service.j2'')
       (andthen (render_to H vm_dir context ''vm-traefik-static.yml'' ''traefik-static.yml.j2'')
          (render_to H vm_dir context ''vm-traefik-dynamic.yml'' ''traefik-dynamic.yml.j2''))))
    (andthen (when_io (ctx_flag context ''network_enabled'')
       (render_to H vm_dir context ''vm-workspace-network.service'' ''systemd-workspace-network.service.j2''))
       (when_io (ctx_flag context ''openvpn_enabled'')
          (render_to H vm_dir context ''vm-openvpn.service'' ''systemd-openvpn.service.j2'')))))"

section \<open>The network namespace of a VPN\<close>

text \<open>\<open>vpn_netns.py\<close> has a \<open>_resolve_vpn_host_path\<close> of its own, over \<open>Path.expanduser\<close>.\<close>

definition netns_host_path :: "host \<Rightarrow> string \<Rightarrow> path \<Rightarrow> exn + path" where
  "netns_host_path H s root =
     sum_map (\<lambda>p. resolve (h_cwd H) (if absolute p then p else p_join root p)) (path_expanduser H (mk_path s))"

definition ensure_vpn_netns :: "host \<Rightarrow> vm_config \<Rightarrow> path \<Rightarrow> unit io" where
  "ensure_vpn_netns H cfg root =
     (let script = p_sub root ''workspace/scripts/bin/setup_vpn_netns.sh'';
          found_config = netns_host_path H (vpn_config (network cfg)) root;
          found_auth = netns_host_path H (vpn_auth (network cfg)) root in
      if h_darwin H then ret ()
      else bnd (asks (\<lambda>w. is_file H w script)) (\<lambda>s.
      if \<not> s then raise (RuntimeError (''netns setup script not found: '' @ path_str script))
      else bnd (find_openvpn_binary H root) (\<lambda>binary.
      bnd (lift_sum found_config) (\<lambda>config.
      bnd (asks (\<lambda>w. is_file H w config)) (\<lambda>c.
      if \<not> c then raise (RuntimeError (''VPN config not found: '' @ path_str config))
      else bnd (validate_ovpn H config) (\<lambda>valid.
      if \<not> valid then raise (RuntimeError (''invalid OpenVPN config: '' @ path_str config))
      else bnd (if vpn_auth (network cfg) \<noteq> []
                then bnd (lift_sum found_auth) (\<lambda>auth. bnd (asks (\<lambda>w. is_file H w auth)) (\<lambda>a.
                       if \<not> a then raise (RuntimeError (''VPN auth file not found: '' @ path_str auth)) else ret (Some auth)))
                else asks (\<lambda>w. resolve_vpn_auth H w root [])) (\<lambda>auth_path.
        catch is_called_process_error
          (run_cmd H ([''bash'', path_str script, ''--netns'', vpn_netns (network cfg), ''--config'', path_str config,
                       ''--binary'', binary]
                      @ (case auth_path of None \<Rightarrow> [] | Some a \<Rightarrow> [''--auth'', path_str a])))
          (\<lambda>_. raise (RuntimeError ''VPN netns setup failed; ensure sudo is available for ip netns'')))))))))"

section \<open>Facts: the run command\<close>

text \<open>How podman reads the arguments after \<open>podman run\<close>: these stand alone, the others take a value.\<close>

definition podman_lone :: "string list" where
  "podman_lone = [''-d'', ''--systemd=always'', ''--userns=keep-id'', ''--health-on-failure=stop'', ''--read-only'']"

lemma lone_iff: "k \<in> set podman_lone \<longleftrightarrow> k = ''-d'' \<or> k = ''--systemd=always'' \<or> k = ''--userns=keep-id''
    \<or> k = ''--health-on-failure=stop'' \<or> k = ''--read-only''"
  by (auto simp: podman_lone_def)

lemma whole_network: "whole_opts podman_lone (derive_network_flags cfg)"
  by (auto simp: derive_network_flags_def podman_lone_def split: net_mode.split)

lemma whole_caps: "whole_opts podman_lone (derive_cap_flags cfg)"
  unfolding derive_cap_flags_def by (intro whole_append whole_map) (auto simp: podman_lone_def whole_map)

definition cap_options :: "vm_config \<Rightarrow> (string \<times> string) list" where
  "cap_options cfg = map (\<lambda>c. (''--cap-drop'', c)) (cap_drop (security cfg))
     @ map (\<lambda>c. (''--cap-add'', c))
        (if cap_add (security cfg) \<noteq> [] then cap_add (security cfg)
         else if net_mode (network cfg) = NetBridge \<and> net_policy (network cfg) \<in> {PolInternet, PolProxy}
              \<or> net_mode (network cfg) = NetOpenvpn \<and> vpn_type (network cfg) = VpnContainer
         then [''NET_ADMIN''] else [])"

lemma read_caps: "read_opts podman_lone (derive_cap_flags cfg) = cap_options cfg"
proof -
  have "whole_opts podman_lone (concat (map (\<lambda>c. [''--cap-drop'', c]) (cap_drop (security cfg))))"
    by (rule whole_map) (simp add: podman_lone_def)
  then show ?thesis
    unfolding derive_cap_flags_def cap_options_def
    by (auto simp: read_opts_append read_opts_map podman_lone_def)
qed

lemma read_network:
  "\<exists>n rest. read_opts podman_lone (derive_network_flags cfg) = (''--network'', n) # rest \<and>
     (n = ''none'' \<longleftrightarrow> net_mode (network cfg) = NetNone \<or> (net_mode (network cfg) = NetBridge \<or>
        net_mode (network cfg) = NetOpenvpn \<and> vpn_type (network cfg) = VpnContainer) \<and> network_name (network cfg) = ''none'') \<and>
     rest = (if net_mode (network cfg) = NetOpenvpn \<and> vpn_type (network cfg) = VpnContainer
             then [(''--device'', ''/dev/net/tun'')] else [])"
  by (cases "net_mode (network cfg)"; cases "vpn_type (network cfg)")
    (auto simp: derive_network_flags_def podman_lone_def)

text \<open>The options of the run command between its fixed prefix and the image.\<close>

definition run_prefix :: "host \<Rightarrow> vm_config \<Rightarrow> string \<Rightarrow> (string \<times> string) list" where
  "run_prefix H cfg uuid =
     [(''-d'', []), (''--systemd=always'', []), (''--name'', uuid),
      (''--label'', VM_LABEL_PREFIX @ ''.type=vm''), (''--label'', VM_LABEL_PREFIX @ ''.uuid='' @ uuid),
      (''--label'', VM_LABEL_PREFIX @ ''.config='' @ config_sha256 H cfg),
      (''-v'', uuid @ ''-workspace:/workspace''), (''-v'', uuid @ ''-transcripts:/transcripts''),
      (''-v'', uuid @ ''-cache:/cache''), (''--userns=keep-id'', []),
      (''--memory'', memory (resources cfg)), (''--cpus'', show_int (cpus (resources cfg))),
      (''--pids-limit'', show_int (pids_limit (resources cfg))), (''--health-on-failure=stop'', [])]"

definition run_rest :: "vm_config \<Rightarrow> (string \<times> string) list" where
  "run_rest cfg =
     read_opts podman_lone (derive_network_flags cfg) @ cap_options cfg
     @ (if no_new_privileges (security cfg) then [(''--security-opt'', ''no-new-privileges'')] else [])
     @ (if read_only_rootfs (security cfg)
        then [(''--read-only'', []), (''--tmpfs'', ''/tmp:rw,noexec,nosuid''), (''--tmpfs'', ''/run:rw,noexec,nosuid'')]
        else [])
     @ map (\<lambda>x. (''-e'', fst x @ ''='' @ snd x)) (env cfg)
     @ map (\<lambda>m. (''--mount'', ''type=bind,src='' @ m @ '',ro'')) (mounts cfg)"

definition run_options :: "host \<Rightarrow> vm_config \<Rightarrow> string \<Rightarrow> (string \<times> string) list" where
  "run_options H cfg uuid = run_prefix H cfg uuid @ run_rest cfg"

lemma read_run_args:
  "butlast (build_run_args H cfg uuid) = [''podman'', ''run''] @ drop 2 (butlast (build_run_args H cfg uuid)) \<and>
   read_opts podman_lone (drop 2 (butlast (build_run_args H cfg uuid))) = run_options H cfg uuid \<and>
   last (build_run_args H cfg uuid) = image_of uuid"
proof -
  have e: "concat (map (\<lambda>(k, v). [''-e'', k @ ''='' @ v]) (env cfg)) =
      concat (map (\<lambda>x. [''-e'', fst x @ ''='' @ snd x]) (env cfg))"
    by (intro arg_cong [of _ _ concat] map_cong) auto
  have w: "whole_opts podman_lone (concat (map (\<lambda>x. [''-e'', fst x @ ''='' @ snd x]) (env cfg)))"
    by (rule whole_map) (simp add: podman_lone_def)
  have m: "\<not> ''--mount'' \<in> set podman_lone" "\<not> ''-e'' \<in> set podman_lone" by (simp_all add: podman_lone_def)
  let ?sec = "(if no_new_privileges (security cfg) then [''--security-opt'', ''no-new-privileges''] else [])"
  let ?ro = "(if read_only_rootfs (security cfg)
      then [''--read-only'', ''--tmpfs'', ''/tmp:rw,noexec,nosuid'', ''--tmpfs'', ''/run:rw,noexec,nosuid''] else [])"
  have s: "whole_opts podman_lone ?sec" "whole_opts podman_lone ?ro"
    by (auto simp: podman_lone_def whole_lone)
  have tail: "read_opts podman_lone (derive_network_flags cfg @ derive_cap_flags cfg @ ?sec @ ?ro
        @ concat (map (\<lambda>x. [''-e'', fst x @ ''='' @ snd x]) (env cfg))
        @ concat (map (\<lambda>m. [''--mount'', ''type=bind,src='' @ m @ '',ro'']) (mounts cfg)))
      = run_rest cfg"
    using s w m
    by (simp add: read_opts_append whole_network whole_caps read_caps run_rest_def)
      (simp add: read_opts_map podman_lone_def)
  show ?thesis
    unfolding build_run_args_def e
    using tail by (simp add: butlast_append run_options_def run_prefix_def read_lone lone_iff)
qed

section \<open>Facts: the copied key\<close>

lemma wp_drop_temp_key:
  "wp (drop_temp_key H d) Q E w \<longleftrightarrow>
   (if at H w (temp_key d) = None then Q () w
    else if is_dir H w (temp_key d) then E (OSError (path_str (temp_key d))) w
    else Q () (set_node H (temp_key d) None w))"
  by (auto simp: drop_temp_key_def wps p_exists_def unlink_def wp_def[of "unlink H p" for H p])

definition key_gone :: "host \<Rightarrow> path \<Rightarrow> world \<Rightarrow> bool" where
  "key_gone H d w \<longleftrightarrow> at H w (temp_key d) = None \<or> is_dir H w (temp_key d)"

definition id_call :: call where
  "id_call = plain_call [''id'', ''-u'']"

lemma build_step_key:
  "wp (finally_do (bnd (podman H args) (\<lambda>_. ret ())) (drop_temp_key H d))
     (\<lambda>_ w'. at H w' (temp_key d) = None) (\<lambda>_. key_gone H d) w"
  unfolding wp_finally
  by (rule wp_any) (simp_all add: wp_drop_temp_key key_gone_def)

lemma write_quiet: "wp (write_text H p t) (\<lambda>_ w'. requests w' = requests w) (\<lambda>_ w'. requests w' = requests w) w"
  by (simp add: wps split: option.split)

lemma get_uid_effect:
  "wp (get_uid H) (\<lambda>_ w'. requests w' = requests w @ [Run id_call]) (\<lambda>_ w'. requests w' = requests w @ [Run id_call]) w"
  by (simp add: get_uid_def Let_def run_checked_def wps id_call_def split: outcome.split)

lemma render_and_build_key:
  "wp (render_and_build H uuid pw d ctx) (\<lambda>_ w'. at H w' (temp_key d) = None)
     (\<lambda>_ w'. key_gone H d w' \<or> requests w' = requests w \<or> requests w' = requests w @ [Run id_call]) w"
proof -
  have step: "wp (finally_do (bnd (podman H args) (\<lambda>_. ret ())) (drop_temp_key H d))
      (\<lambda>_ w'. at H w' (temp_key d) = None)
      (\<lambda>_ w'. key_gone H d w' \<or> requests w' = r1 \<or> requests w' = r2) w1" for args w1 r1 r2
    by (rule wp_mono [OF build_step_key]) simp_all
  show ?thesis
    unfolding render_and_build_def generate_dockerignore_def wp_andthen wp_bnd [of "get_uid H"]
    by (auto intro!: wp_mono [OF write_quiet] wp_mono [OF get_uid_effect] step)
qed

section \<open>Facts: the hosts file\<close>

text \<open>A recorded address is one more line, and removing the machine's entry takes it away again.\<close>

lemma kept_lines_append:
  assumes "no_breaks ip" "no_breaks uuid" "list_all no_breaks ls"
  shows "kept_lines uuid (unlines ls @ ip @ '' '' @ host_name uuid @ nl) = kept_lines uuid (unlines ls)"
proof -
  have nb: "no_breaks (ip @ '' '' @ host_name uuid)"
    using assms(1,2) by (auto simp: no_breaks_def host_name_def is_line_break_def)
  have eq: "unlines ls @ ip @ '' '' @ host_name uuid @ nl = unlines (ls @ [ip @ '' '' @ host_name uuid])"
    by (simp add: unlines_append)
  have "splitlines (unlines (ls @ [ip @ '' '' @ host_name uuid])) = ls @ [ip @ '' '' @ host_name uuid]"
    using assms(3) nb by (intro splitlines_join) (auto simp: list_all_iff)
  moreover have "splitlines (unlines ls) = ls"
    using assms(3) by (intro splitlines_join) (simp add: list_all_iff)
  moreover have "sublist (host_name uuid) (ip @ '' '' @ host_name uuid)"
    by (metis append.assoc append_Nil2 sublist_appendI)
  ultimately show ?thesis by (simp only: kept_lines_def eq filter_append) simp
qed

section \<open>Properties\<close>

text \<open>C15: the container runs with what the configuration grants and nothing more. Read as podman reads it, the
  run command has exactly one network, that of the configured mode; it drops the configured capabilities and adds
  the configured ones, or only NET_ADMIN where the mode needs it; and every bind mount is read-only.\<close>

theorem container_runs_as_configured:
  "let opts = read_opts podman_lone (drop 2 (butlast (build_run_args H cfg uuid))) in
     take 2 (build_run_args H cfg uuid) = [''podman'', ''run''] \<and> last (build_run_args H cfg uuid) = image_of uuid \<and>
     values_of ''--network'' opts =
       [case net_mode (network cfg) of NetNone \<Rightarrow> ''none'' | NetHost \<Rightarrow> ''host'' | NetBridge \<Rightarrow> network_name (network cfg)
        | NetOpenvpn \<Rightarrow> if vpn_type (network cfg) = VpnNetns then ''ns:/run/netns/'' @ vpn_netns (network cfg)
                       else network_name (network cfg)] \<and>
     values_of ''--cap-drop'' opts = cap_drop (security cfg) \<and>
     values_of ''--cap-add'' opts =
       (if cap_add (security cfg) \<noteq> [] then cap_add (security cfg)
        else if net_mode (network cfg) = NetBridge \<and> net_policy (network cfg) \<in> {PolInternet, PolProxy}
             \<or> net_mode (network cfg) = NetOpenvpn \<and> vpn_type (network cfg) = VpnContainer
        then [''NET_ADMIN''] else []) \<and>
     values_of ''--mount'' opts = map (\<lambda>m. ''type=bind,src='' @ m @ '',ro'') (mounts cfg)"
proof -
  have net: "values_of ''--network'' (read_opts podman_lone (derive_network_flags cfg)) =
       [case net_mode (network cfg) of NetNone \<Rightarrow> ''none'' | NetHost \<Rightarrow> ''host'' | NetBridge \<Rightarrow> network_name (network cfg)
        | NetOpenvpn \<Rightarrow> if vpn_type (network cfg) = VpnNetns then ''ns:/run/netns/'' @ vpn_netns (network cfg)
                       else network_name (network cfg)]"
    and other: "k \<notin> {''--network'', ''--device''} \<Longrightarrow> values_of k (read_opts podman_lone (derive_network_flags cfg)) = []" for k
    by (auto simp: derive_network_flags_def podman_lone_def split: net_mode.split)
  have opts: "read_opts podman_lone (drop 2 (butlast (build_run_args H cfg uuid))) = run_options H cfg uuid"
    "last (build_run_args H cfg uuid) = image_of uuid"
    using read_run_args [of H cfg uuid] by auto
  show ?thesis
    unfolding Let_def opts run_options_def
    by (simp add: run_prefix_def run_rest_def cap_options_def net other values_of_map)
      (simp add: build_run_args_def)
qed

text \<open>The hosts file gets its entry and loses it again. Recording the address of a container and removing its
  entry restores the file exactly, when none of its lines named the machine before.\<close>

theorem hosts_entry_roundtrip:
  assumes "at H w HOSTS = Some (File (Text (unlines ls)))" "ls \<noteq> []" "list_all no_breaks ls"
    and "list_all (\<lambda>l. \<not> sublist (host_name uuid) l) ls" "no_breaks ip" "no_breaks uuid"
    and "\<not> h_unwritable H HOSTS" "is_dir H w (parent HOSTS)" "\<And>v c. h_torn H v HOSTS c = None"
  shows "\<exists>w1. append_text H HOSTS (ip @ '' '' @ host_name uuid @ nl) w = (Inr (), w1) \<and>
           (\<exists>w2. remove_hosts_entry H uuid w1 = (Inr (), w2) \<and> fs w2 = fs w)"
proof -
  define line where "line = ip @ '' '' @ host_name uuid @ nl"
  let ?new = "unlines ls @ line"
  have lines: "splitlines (unlines ls) = ls" using assms(3) by (intro splitlines_join) (simp add: list_all_iff)
  have kept: "kept_lines uuid ?new = ls"
    using kept_lines_append [OF assms(5,6,3)] assms(4) unfolding line_def by (simp add: kept_lines_def lines list_all_iff)
  have there: "sublist (host_name uuid) ?new" unfolding line_def by (metis append.assoc sublist_appendI)
  have "wp (append_text H HOSTS line)
      (\<lambda>_ w1. w1 = set_node H HOSTS (Some (File (Text ?new))) w) (\<lambda>_ _. False) w"
    using assms(1,7-9) by (simp add: append_text_def wps is_file_def)
  then obtain w1 where w1: "append_text H HOSTS line w = (Inr (), w1)"
    "w1 = set_node H HOSTS (Some (File (Text ?new))) w" by (auto dest: wp_exists)
  have neq: "parent HOSTS \<noteq> HOSTS" by (simp add: HOSTS_def parent_def)
  have "is_dir H w1 (parent HOSTS)"
    using assms(8) by (simp add: w1(2) is_dir_def at_def set_node_def HOSTS_def parent_def resolve_def)
  then have "wp (remove_hosts_entry H uuid) (\<lambda>_ w2. w2 = set_node H HOSTS (Some (File (Text (unlines ls)))) w1) (\<lambda>_ _. False) w1"
    using there assms(2,7,9) by (simp add: wp_remove_hosts_entry w1(2) without_host_eq kept)
  then obtain w2 where w2: "remove_hosts_entry H uuid w1 = (Inr (), w2)"
    "w2 = set_node H HOSTS (Some (File (Text (unlines ls)))) w1" by (auto dest: wp_exists)
  have "fs w2 = fs w" using assms(1) by (auto simp: w2(2) w1(2) set_node_def at_def)
  with w1(1) w2(1) show ?thesis unfolding line_def by blast
qed

definition demo_hosts :: world where
  "demo_hosts = demo_world [([''etc''], Dir), ([''etc'', ''hosts''], File (Text (unlines [''127.0.0.1 localhost''])))] []"

theorem hosts_entry_roundtrip_witness:
  "\<exists>w1. append_text demo_host HOSTS (''10.0.0.2'' @ '' '' @ host_name ''vm1'' @ nl) demo_hosts = (Inr (), w1) \<and>
     (\<exists>w2. remove_hosts_entry demo_host ''vm1'' w1 = (Inr (), w2) \<and> fs w2 = fs demo_hosts)"
proof (rule hosts_entry_roundtrip)
  show "at demo_host demo_hosts HOSTS = Some (File (Text (unlines [''127.0.0.1 localhost''])))"
    by (simp add: demo_hosts_def demo_at) (simp add: HOSTS_def)
  show "is_dir demo_host demo_hosts (parent HOSTS)"
    by (simp add: is_dir_def demo_hosts_def demo_at HOSTS_def parent_def resolve_def)
qed (simp, code_simp, code_simp, code_simp, code_simp, simp, simp)

end
