(* ===== verification/PodmanBackend.thy ===== *)
theory PodmanBackend
  imports VmBuild Demo
begin

text \<open>
  \<open>workspace/cli/hypervisor/podman_backend.py\<close>: containers through the build pipeline. A container's
  state lives in podman, which is outside the repository, so every operation is the sequence of podman commands
  it sends and of the files it writes.
\<close>

definition remove_volume :: "host \<Rightarrow> string \<Rightarrow> unit io" where
  "remove_volume H vol =
     catch is_called_process_error (run_cmd H [''podman'', ''volume'', ''rm'', ''-f'', vol])
       (\<lambda>e. case e of CalledProcessError rc so se \<Rightarrow> when_io (se \<noteq> []) (print_err se) | _ \<Rightarrow> ret ())"

definition VOLUMES :: "string list" where
  "VOLUMES = [''workspace'', ''transcripts'', ''cache'']"

definition volume_of :: "string \<Rightarrow> string \<Rightarrow> string" where
  "volume_of uuid suff = uuid @ ''-'' @ suff"

definition purge_volumes :: "host \<Rightarrow> string \<Rightarrow> unit io" where
  "purge_volumes H uuid = each (\<lambda>v. remove_volume H (volume_of uuid v)) VOLUMES"

definition podman_status :: "host \<Rightarrow> string \<Rightarrow> status io" where
  "podman_status H uuid =
     catch is_called_process_error
       (bnd (podman_with H True [''inspect'', ''-f'', ''{{.State.Running}}'', uuid]) (\<lambda>r.
          ret [(''state'', if strip (fst r) = ''true'' then ''running'' else ''stopped''), (''backend'', ''podman'')]))
       (\<lambda>_. ret [(''state'', ''absent''), (''backend'', ''podman'')])"

definition podman_start :: "host \<Rightarrow> string \<Rightarrow> unit io" where
  "podman_start H uuid = bnd (podman H [''start'', uuid]) (\<lambda>_. ret ())"

definition podman_stop :: "host \<Rightarrow> string \<Rightarrow> unit io" where
  "podman_stop H uuid = bnd (podman H [''stop'', uuid]) (\<lambda>_. ret ())"

definition remove_image :: "host \<Rightarrow> string \<Rightarrow> unit io" where
  "remove_image H uuid =
     catch is_called_process_error (run_cmd H [''podman'', ''rmi'', ''-f'', image_of uuid])
       (\<lambda>e. case e of CalledProcessError rc so se \<Rightarrow> when_io (se \<noteq> []) (print_err se) | _ \<Rightarrow> ret ())"

definition podman_destroy :: "host \<Rightarrow> string \<Rightarrow> bool \<Rightarrow> unit io" where
  "podman_destroy H uuid purge =
     bnd (podman_status H uuid) (\<lambda>st.
     andthen (bnd (podman H (if state_of st = ''running'' then [''rm'', ''-f'', uuid] else [''rm'', uuid])) (\<lambda>_. ret ()))
    (andthen (remove_image H uuid)
    (andthen (remove_hosts_entry H uuid) (when_io purge (purge_volumes H uuid)))))"

definition podman_exec :: "host \<Rightarrow> string \<Rightarrow> string list \<Rightarrow> (string \<times> string) io" where
  "podman_exec H uuid cmd = run_checked H (plain_call ([''podman'', ''exec'', uuid] @ cmd))"

definition podman_ssh_endpoint :: "host \<Rightarrow> string \<Rightarrow> (string \<times> int) io" where
  "podman_ssh_endpoint H uuid =
     raise (NotImplementedError (''ssh_endpoint not applicable to podman backend (uuid='' @ uuid @ '')''))"

section \<open>Building and running\<close>

text \<open>The steps that \<open>create\<close> and the container branch of \<open>rebuild\<close> share: stage the key and the VPN
  files, render the files, build the image.\<close>

definition stage_and_build :: "host \<Rightarrow> string \<Rightarrow> string \<Rightarrow> path \<Rightarrow> vm_config \<Rightarrow> unit io" where
  "stage_and_build H uuid password vm_dir cfg =
     (let install_defaults = child vm_dir ''vm-install-defaults.yaml'' in
      andthen (write_content H install_defaults (DefaultsDoc (components cfg) None))
     (bnd (prepare_build_ssh_key H vm_dir) (\<lambda>key_relpath.
      bnd (stage_vpn_assets H vm_dir cfg) (\<lambda>vpn.
      let context = build_context cfg password vm_dir install_defaults key_relpath vpn in
      andthen (generate_companion_files H vm_dir cfg context) (render_and_build H uuid password vm_dir context)))))"

definition attach_netns :: "host \<Rightarrow> vm_config \<Rightarrow> unit io" where
  "attach_netns H cfg =
     when_io (net_mode (network cfg) = NetOpenvpn \<and> vpn_type (network cfg) = VpnNetns \<and> \<not> h_darwin H)
       (bnd (asks (find_workspace_root H)) (\<lambda>root. ensure_vpn_netns H cfg root))"

definition run_container :: "host \<Rightarrow> string \<Rightarrow> path \<Rightarrow> vm_config \<Rightarrow> unit io" where
  "run_container H uuid vm_dir cfg =
     andthen (attach_netns H cfg)
    (andthen (run_cmd H (build_run_args H cfg uuid))
    (andthen (post_run_inspect H uuid vm_dir cfg) (wait_healthy H uuid)))"

definition podman_create :: "host \<Rightarrow> path \<Rightarrow> vm_config \<Rightarrow> unit io" where
  "podman_create H config_path cfg =
     andthen (ensure_podman_machine H)
    (bnd (uuid7 H) (\<lambda>uuid.
     let vm_dir = vm_dir_of H uuid; certs = child vm_dir ''certs'' in
     andthen (mkdir_parents H vm_dir)
    (andthen (mkdir_parents H certs)
    (bnd (generate_password H 32) (\<lambda>password.
     andthen (write_text H (child vm_dir ''password'') password)
    (andthen (copy_file H config_path (yaml_path vm_dir))
    (andthen (stage_and_build H uuid password vm_dir cfg)
    (andthen (each (\<lambda>v. bnd (podman H [''volume'', ''create'', volume_of uuid v]) (\<lambda>_. ret ())) VOLUMES)
    (andthen (pre_copy_files H cfg uuid)
    (andthen (run_cmd H [''bash'', path_str CERTS_SCRIPT, uuid, path_str certs])
    (andthen (ensure_bridge_network H cfg)
    (andthen (run_container H uuid vm_dir cfg)
       (each print_out
         ([''VM '' @ uuid @ '' created'', ''  UUID:     '' @ uuid, ''  Backend:  podman'',
           ''  Password: '' @ password]
          @ (if net_mode (network cfg) = NetBridge
             then [''  URL:      https://'' @ host_name uuid @ '':443''] else [])
          @ [''  Cert:     '' @ path_str (child certs ''client.crt'')]))))))))))))))"

text \<open>The container branch of \<open>vm_manager.rebuild\<close>.\<close>

definition podman_rebuild :: "host \<Rightarrow> string \<Rightarrow> vm_config \<Rightarrow> unit io" where
  "podman_rebuild H uuid cfg =
     (let vm_dir = vm_dir_of H uuid in
      andthen (ensure_podman_machine H)
     (bnd (read_text H (child vm_dir ''password'')) (\<lambda>password.
      andthen (catch is_called_process_error
        (bnd (run_checked H (timed_call [''podman'', ''rm'', ''-f'', ''--time'', ''1'', uuid] 30)) (\<lambda>_. ret ()))
        (\<lambda>e. case e of
           CalledProcessError rc so se \<Rightarrow>
             andthen (print_err (''vm: podman rm failed rc='' @ show_int rc @ '': '' @ se @ nl)) (raise e)
         | _ \<Rightarrow> raise e))
     (andthen (remove_hosts_entry H uuid)
     (andthen (stage_and_build H uuid (strip password) vm_dir cfg)
     (andthen (each (\<lambda>v. ensure_volume H (volume_of uuid v)) VOLUMES)
     (andthen (run_container H uuid vm_dir cfg)
        (print_out (''VM '' @ uuid @ '' rebuilt'')))))))))"

section \<open>The key of a build\<close>

lemma quiet_step: "emits (\<lambda>_. False) m \<Longrightarrow> wp m (\<lambda>_ w'. requests w' = requests w) (\<lambda>_ w'. requests w' = requests w) w"
  by (rule wp_result) (auto simp: emits_def list_all_iff simp flip: ex_in_conv dest!: spec [of _ w])

lemma staging_quiet:
  "emits (\<lambda>_. False) (prepare_build_ssh_key H d)" "emits (\<lambda>_. False) (stage_vpn_assets H d cfg)"
  "emits (\<lambda>_. False) (generate_companion_files H d cfg ctx)"
  unfolding prepare_build_ssh_key_def stage_vpn_assets_def stage_file_def validate_ovpn_def generate_companion_files_def render_to_def Let_def
  by (intro emits_intros)+

lemma stage_and_build_key:
  "wp (stage_and_build H uuid pw d cfg) (\<lambda>_ w'. at H w' (temp_key d) = None)
     (\<lambda>_ w'. key_gone H d w' \<or> requests w' = requests w \<or> requests w' = requests w @ [Run id_call]) w"
proof -
  have build: "wp (render_and_build H uuid pw d ctx) (\<lambda>_ w'. at H w' (temp_key d) = None)
      (\<lambda>_ w'. key_gone H d w' \<or> requests w' = requests w \<or> requests w' = requests w @ [Run id_call]) v" if "requests v = requests w" for ctx v
    using render_and_build_key [of H uuid pw d ctx v] that by simp
  have step: "wp (bnd m f) Q E v" if "emits (\<lambda>_. False) m" "requests v = requests w"
      "\<And>a u. requests u = requests w \<Longrightarrow> wp (f a) Q E u" "\<And>e u. requests u = requests w \<Longrightarrow> E e u"
    for m :: "'a io" and f :: "'a \<Rightarrow> unit io" and Q E v
    unfolding wp_bnd using that by (auto intro!: wp_mono [OF quiet_step [of m v]])
  show ?thesis
    unfolding stage_and_build_def Let_def andthen_def
    by (intro step staging_quiet emits_simple build) simp_all
qed

text \<open>C16: the SSH key that is copied for a build does not outlive it. Staging and building a container image put a copy of the
  user's key into the machine's directory. When they return, it is gone; when they raise, it is gone too, except where
  nothing or only \<open>id -u\<close> has been run, that is where the build has not been sent to podman.\<close>

theorem build_removes_key:
  "case stage_and_build H uuid pw d cfg w of
     (Inr _, w') \<Rightarrow> at H w' (temp_key d) = None
   | (Inl _, w') \<Rightarrow> key_gone H d w' \<or> requests w' = requests w \<or> requests w' = requests w @ [Run id_call]"
  using stage_and_build_key [of H uuid pw d cfg w] by (auto simp: wp_def split: prod.splits sum.splits)

text \<open>The exception is real: a build that fails before any command leaves the copy where it is.\<close>

theorem key_stays_without_build:
  assumes "h_torn H w (resolve (h_cwd H) (child d ''Dockerfile'')) (Text (h_render H ''Dockerfile.vm.j2'' ctx)) = Some t"
    and "\<not> h_unwritable H (resolve (h_cwd H) (child d ''Dockerfile''))"
    and "at H w (child d ''Dockerfile'') = None" "is_dir H w d" "at H w (temp_key d) = Some (File k)"
  shows "\<exists>e w'. render_and_build H uuid pw d ctx w = (Inl e, w') \<and> at H w' (temp_key d) = Some (File k) \<and> requests w' = requests w"
proof -
  have "write_text H (child d ''Dockerfile'') (h_render H ''Dockerfile.vm.j2'' ctx) w
      = (Inl (OSError (path_str (child d ''Dockerfile''))), set_node H (child d ''Dockerfile'') (Some (File t)) w)"
    using assms by (simp add: write_text_def write_content_def is_dir_def)
  then show ?thesis using assms(5) by (simp add: render_and_build_def andthen_def bnd_def temp_key_def)
qed

end
