(* ===== verification/Backend.thy ===== *)
theory Backend
  imports QemuFacts PodmanBackend
begin

text \<open>
  \<open>hypervisor/base.py\<close> and \<open>hypervisor/factory.py\<close>: the interface \<open>IsolationBackend\<close> that
  the lifecycle commands call, as a record of operations, and its two implementations. The laws that the
  callers rely on are the assumptions of the locale \<open>isolation_backend\<close>; both implementations
  discharge them.
\<close>

record backend =
  b_name :: string
  b_create :: "path \<Rightarrow> vm_config \<Rightarrow> unit io"
  b_start :: "string \<Rightarrow> unit io"
  b_stop :: "string \<Rightarrow> unit io"
  b_destroy :: "string \<Rightarrow> bool \<Rightarrow> unit io"
  b_exec :: "string \<Rightarrow> string list \<Rightarrow> (string \<times> string) io"
  b_ssh_endpoint :: "string \<Rightarrow> (string \<times> int) io"
  b_status :: "string \<Rightarrow> status io"

definition qemu_backend :: "host \<Rightarrow> backend" where
  "qemu_backend H = \<lparr>b_name = ''qemu'', b_create = qemu_create H, b_start = (\<lambda>u. qemu_start H u True),
     b_stop = qemu_stop H, b_destroy = qemu_destroy H, b_exec = qemu_exec H,
     b_ssh_endpoint = ssh_endpoint H, b_status = qemu_status H\<rparr>"

definition podman_backend :: "host \<Rightarrow> backend" where
  "podman_backend H = \<lparr>b_name = ''podman'', b_create = podman_create H, b_start = podman_start H,
     b_stop = podman_stop H, b_destroy = podman_destroy H, b_exec = podman_exec H,
     b_ssh_endpoint = podman_ssh_endpoint H, b_status = podman_status H\<rparr>"

definition get_backend :: "host \<Rightarrow> vm_config \<Rightarrow> backend" where
  "get_backend H cfg = (if backend_kind.Qemu = backend (isolation cfg) then qemu_backend H else podman_backend H)"

section \<open>The interface\<close>

definition known_states :: "string list" where
  "known_states = [''running'', ''stopped'', ''unknown'', ''invalid'', ''absent'']"

text \<open>A query reads the state of a process or of a container.\<close>

fun query :: "request \<Rightarrow> bool" where
  "query (Run c) \<longleftrightarrow> (\<exists>pid. c = ps_call pid) \<or>
     (\<exists>b u. c = timed_call [b, ''inspect'', ''-f'', ''{{.State.Running}}'', u] PODMAN_TIMEOUT)"
| "query _ \<longleftrightarrow> False"

locale isolation_backend =
  fixes b :: backend
  assumes status_named: "b_status b u w = (Inr st, w') \<Longrightarrow> map_of st ''backend'' = Some (b_name b)"
    and status_known: "b_status b u w = (Inr st, w') \<Longrightarrow> state_of st \<in> set known_states"
    and status_queries: "emits query (b_status b u)"

text \<open>A backend whose stop is complete: where a machine is present, a stop that returns is followed by a status
  other than \<open>running\<close>.\<close>

locale stopping_backend = isolation_backend +
  fixes present :: "string \<Rightarrow> world \<Rightarrow> bool"
  assumes stop_ends:
    "present u w \<Longrightarrow> b_stop b u w = (Inr (), w') \<Longrightarrow> b_status b u w' = (Inr st, w'') \<Longrightarrow> state_of st \<noteq> ''running''"

section \<open>The implementations\<close>

lemma qemu_status_shape:
  "wp (qemu_status H uuid)
     (\<lambda>st _. map_of st ''backend'' = Some ''qemu'' \<and> state_of st \<in> set known_states) (\<lambda>_ _. True) w"
proof -
  have matches: "(\<And>same w'. Q same w') \<Longrightarrow> wp (process_matches H pid i) Q (\<lambda>_ _. True) w" for Q pid i w
    by (rule wp_any) simp_all
  show ?thesis
    unfolding qemu_status_def Let_def
    by (auto simp: wps status_base_def known_states_def split: option.split node.split stored_record.split
        intro!: matches)
qed

lemma podman_status_shape:
  "wp (podman_status H uuid)
     (\<lambda>st _. map_of st ''backend'' = Some ''podman'' \<and> state_of st \<in> set known_states) (\<lambda>_ _. True) w"
proof -
  have run: "(\<And>r w'. Q r w') \<Longrightarrow> (\<And>e w'. E e w') \<Longrightarrow> wp (podman_with H q args) Q E w" for Q E q args w
    by (rule wp_any) simp_all
  show ?thesis
    unfolding podman_status_def wp_catch wp_bnd
    by (rule run) (simp_all add: wps known_states_def)
qed

interpretation qemu: isolation_backend "qemu_backend H" for H
proof
  show "map_of st ''backend'' = Some (b_name (qemu_backend H))"
    if "b_status (qemu_backend H) u w = (Inr st, w')" for u w st w'
    using that wp_returns [OF qemu_status_shape] by (simp add: qemu_backend_def)
  show "state_of st \<in> set known_states" if "b_status (qemu_backend H) u w = (Inr st, w')" for u w st w'
    using that wp_returns [OF qemu_status_shape] by (simp add: qemu_backend_def)
  show "emits query (b_status (qemu_backend H) u)" for u
    by (simp add: qemu_backend_def) (rule emits_status, auto)
qed

interpretation podman: isolation_backend "podman_backend H" for H
proof
  show "map_of st ''backend'' = Some (b_name (podman_backend H))"
    if "b_status (podman_backend H) u w = (Inr st, w')" for u w st w'
    using that wp_returns [OF podman_status_shape] by (simp add: podman_backend_def)
  show "state_of st \<in> set known_states" if "b_status (podman_backend H) u w = (Inr st, w')" for u w st w'
    using that wp_returns [OF podman_status_shape] by (simp add: podman_backend_def)
  show "emits query (b_status (podman_backend H) u)" for u
    unfolding podman_status_def podman_backend_def backend.simps
    by (intro emits_intros) auto
qed

interpretation qemu_stopping: stopping_backend "qemu_backend H" "\<lambda>u w. is_dir H w (vm_dir_of H u)" for H
proof
  fix u w w' st w''
  assume d: "is_dir H w (vm_dir_of H u)" and stop: "b_stop (qemu_backend H) u w = (Inr (), w')"
    and st: "b_status (qemu_backend H) u w' = (Inr st, w'')"
  have "stopped_clean H w' (vm_dir_of H u)"
    using wp_returns [OF qemu_stop_effect [OF d]] stop by (simp add: qemu_backend_def)
  from wp_exists [OF qemu_status_stopped [OF this]] st show "state_of st \<noteq> ''running''"
    by (auto simp: qemu_backend_def)
qed

text \<open>Whatever the configuration, the chosen backend keeps the contract.\<close>

lemma get_backend_contract: "isolation_backend (get_backend H cfg)"
  using qemu.isolation_backend_axioms podman.isolation_backend_axioms by (simp add: get_backend_def)

section \<open>What a status says\<close>

text \<open>A process is the machine unless a start time is recorded that is not the one it has; a process of another user counts as
  the machine.\<close>

definition the_machine :: "host \<Rightarrow> world \<Rightarrow> path \<Rightarrow> nat \<Rightarrow> proc \<Rightarrow> bool" where
  "the_machine H w d pid q \<longleftrightarrow>
     (case stored H w d of
        Stored s \<Rightarrow> (case qs_pid_start s of
            None \<Rightarrow> True
          | Some i \<Rightarrow> p_foreign q \<or> read_identity (r_result (h_run H (ps_call pid) w)) = Some i)
      | _ \<Rightarrow> True)"

text \<open>The state of a QEMU machine, by what its PID file names.\<close>

definition qemu_state_is :: "host \<Rightarrow> world \<Rightarrow> path \<Rightarrow> string \<Rightarrow> bool" where
  "qemu_state_is H w d s \<longleftrightarrow>
     (s = ''unknown'' \<longleftrightarrow> \<not> is_file H w (pid_path d)) \<and>
     (s = ''stopped'' \<longleftrightarrow> (\<exists>pid. pid_in H w d = Some pid \<and> procs w pid = None)) \<and>
     (s = ''running'' \<longleftrightarrow> (\<exists>pid q. pid_in H w d = Some pid \<and> procs w pid = Some q \<and> the_machine H w d pid q)) \<and>
     (s = ''invalid'' \<longleftrightarrow> is_file H w (pid_path d) \<and>
        (pid_in H w d = None \<or> (\<exists>pid q. pid_in H w d = Some pid \<and> procs w pid = Some q \<and> \<not> the_machine H w d pid q)))"

text \<open>The state of a container, by the answer of \<open>podman inspect\<close>.\<close>

definition container_state_is :: "host \<Rightarrow> world \<Rightarrow> string \<Rightarrow> string \<Rightarrow> bool" where
  "container_state_is H w u s \<longleftrightarrow>
     (\<exists>b rc so se. fst (podman_binary H w) = Inr b \<and>
        r_result (h_run H (timed_call [path_str b, ''inspect'', ''-f'', ''{{.State.Running}}'', u] PODMAN_TIMEOUT) w) = Exit rc so se \<and>
        (s = ''absent'' \<longleftrightarrow> rc \<noteq> 0) \<and> (s = ''running'' \<longleftrightarrow> rc = 0 \<and> strip so = ''true'') \<and>
        (s = ''stopped'' \<longleftrightarrow> rc = 0 \<and> strip so \<noteq> ''true''))"

lemma process_matches_exact:
  "wp (process_matches H pid (Some i))
     (\<lambda>same _. same \<longleftrightarrow> (\<exists>q. procs w pid = Some q \<and> (p_foreign q \<or> read_identity (r_result (h_run H (ps_call pid) w)) = Some i)))
     (\<lambda>_ _. True) w"
  unfolding process_matches_def
  by (auto simp: wps intro!: wp_mono [OF process_identity_effect] split: option.split)

lemma qemu_status_state:
  "wp (qemu_status H uuid) (\<lambda>st _. qemu_state_is H w (vm_dir_of H uuid) (state_of st)) (\<lambda>_ _. True) w"
  unfolding qemu_status_def Let_def
  by (auto simp: wps qemu_state_is_def the_machine_def pid_in_def is_file_def
      split: stored_record.splits option.splits node.splits intro!: wp_mono [OF process_matches_exact])

lemma podman_binary_cases:
  "(\<exists>b. podman_binary H w = (Inr b, w)) \<or> (\<exists>e. podman_binary H w = (Inl e, w) \<and> \<not> is_called_process_error e)"
  by (auto simp: podman_binary_def bnd_def asks_def ret_def raise_def Let_def)

lemma podman_status_state:
  "wp (podman_status H uuid) (\<lambda>st _. container_state_is H w uuid (state_of st)) (\<lambda>_ _. True) w"
  using podman_binary_cases [of H w]
proof (elim disjE exE conjE)
  fix e assume "podman_binary H w = (Inl e, w)" "\<not> is_called_process_error e"
  then show ?thesis by (auto simp: podman_status_def podman_with_def wp_def catch_def bnd_def)
next
  fix b assume "podman_binary H w = (Inr b, w)"
  then show ?thesis
    by (auto simp: podman_status_def podman_with_def wps run_checked_def container_state_is_def wp_def [of "podman_binary H"]
        split: outcome.split)
qed

section \<open>Property\<close>

text \<open>C32: a status tells the state of the machine. Whatever the backend of a configuration and the answers of the outside, a status
  that is returned names that backend and has one of the five known states. Of a QEMU machine it is unknown exactly without a
  PID file, stopped exactly when the process that the file names is gone, running exactly when that process is there and is the
  recorded one, and invalid exactly when the file names no process or another one lives there. Of a container it is
  what \<open>podman inspect\<close> answers: absent when it fails, running when it says true, stopped when it says something else.\<close>

theorem statuses_tell_the_state:
  "case b_status (get_backend H cfg) u w of
     (Inl _, _) \<Rightarrow> True
   | (Inr st, _) \<Rightarrow> map_of st ''backend'' = Some (b_name (get_backend H cfg)) \<and> state_of st \<in> set known_states \<and>
       (if backend (isolation cfg) = backend_kind.Qemu then qemu_state_is H w (vm_dir_of H u) (state_of st)
        else container_state_is H w u (state_of st))"
proof -
  have "case b_status (qemu_backend H) u w of (Inl _, _) \<Rightarrow> True | (Inr st, _) \<Rightarrow> qemu_state_is H w (vm_dir_of H u) (state_of st)"
    using wp_returns [OF qemu_status_state] by (auto simp: qemu_backend_def split: prod.split sum.split)
  moreover have "case b_status (podman_backend H) u w of (Inl _, _) \<Rightarrow> True | (Inr st, _) \<Rightarrow> container_state_is H w u (state_of st)"
    using wp_returns [OF podman_status_state] by (auto simp: podman_backend_def split: prod.split sum.split)
  ultimately show ?thesis
    using qemu.status_named [of H u w] qemu.status_known [of H u w] podman.status_named [of H u w] podman.status_known [of H u w]
    by (auto simp: get_backend_def split: prod.splits sum.splits)
qed

end
