(* ===== verification/QemuProperties.thy ===== *)
theory QemuProperties
  imports QemuFacts
begin

text \<open>
  The properties of the QEMU backend, each with a demonstration machine at which it applies.
\<close>

section \<open>Properties\<close>

text \<open>The demonstration machine: its directory with a PID file, a record and a configuration, and its process.\<close>

definition demo_state :: qemu_state where
  "demo_state = \<lparr>qs_mode = Persistent, qs_profile = ''none'', qs_created_at = ''then'', qs_last_started_at = None,
     qs_last_stopped_at = None, qs_last_error = None, qs_ssh_port = Some 2222, qs_pid_start = Some ''monday''\<rparr>"

definition demo_raw :: vm_config where
  "demo_raw = default_config ''x86_64'' []"

definition demo_nodes :: "(string list \<times> node) list" where
  "demo_nodes =
     [([''work'', ''.vms'', ''vm1''], Dir), ([''work'', ''.vms'', ''vm1'', ''qemu.pid''], File (Text ''7'')),
      ([''work'', ''.vms'', ''vm1'', ''state.yaml''], File (StateDoc demo_state)),
      ([''work'', ''.vms'', ''vm1'', ''vm.yaml''], File (ConfigDoc demo_raw))]"

definition demo_vm :: world where
  "demo_vm = demo_world demo_nodes [(7, \<lparr>p_start = ''tuesday'', p_foreign = False\<rparr>)]"

lemma demo_dir [simp]: "vm_dir_of demo_host ''vm1'' = Path False [''.vms'', ''vm1'']"
  by (simp add: vm_dir_of_def vms_dir_def) code_simp

lemma demo_resolve [simp]: "resolve (Path True [''work'']) (Path False [''.vms'', ''vm1'']) = Path True [''work'', ''.vms'', ''vm1'']"
  by code_simp

lemma demo_node: "n \<noteq> ''..'' \<Longrightarrow> at demo_host demo_vm (child (Path False [''.vms'', ''vm1'']) n) =
   map_of demo_nodes [''work'', ''.vms'', ''vm1'', n]"
  by (simp add: demo_vm_def demo_at)

lemma demo_facts [simp]:
  "is_dir demo_host demo_vm (Path False [''.vms'', ''vm1''])"
  "pid_in demo_host demo_vm (Path False [''.vms'', ''vm1'']) = Some 7"
  "stored demo_host demo_vm (Path False [''.vms'', ''vm1'']) = Stored demo_state"
  "vm_dir_ready demo_host demo_vm (Path False [''.vms'', ''vm1''])"
  "at demo_host demo_vm (yaml_path (Path False [''.vms'', ''vm1''])) = Some (File (ConfigDoc demo_raw))"
proof -
  have d: "at demo_host demo_vm (Path False [''.vms'', ''vm1'']) = Some Dir"
    by (simp add: demo_vm_def demo_at demo_nodes_def)
  have n: "isdigit (strip ''7'')" "nat_of_digits (strip ''7'') = 7" by code_simp+
  show "is_dir demo_host demo_vm (Path False [''.vms'', ''vm1''])" using d by (simp add: is_dir_def)
  show "pid_in demo_host demo_vm (Path False [''.vms'', ''vm1'']) = Some 7"
    using n by (simp add: pid_in_def pid_path_def demo_node demo_nodes_def)
  show "stored demo_host demo_vm (Path False [''.vms'', ''vm1'']) = Stored demo_state"
    by (simp add: stored_def state_path_def STATE_FILE_def demo_node demo_nodes_def)
  show "vm_dir_ready demo_host demo_vm (Path False [''.vms'', ''vm1''])"
    using d by (simp add: vm_dir_ready_def is_dir_def state_path_def state_tmp_def STATE_FILE_def demo_node demo_nodes_def)
  show "at demo_host demo_vm (yaml_path (Path False [''.vms'', ''vm1''])) = Some (File (ConfigDoc demo_raw))"
    by (simp add: yaml_path_def demo_node demo_nodes_def)
qed

lemma demo_mismatch [simp]: "mismatched demo_host demo_vm 7 ''monday''"
  by (simp add: mismatched_def demo_vm_def)

text \<open>The same machine after its process has ended.\<close>

definition demo_dead :: world where
  "demo_dead = demo_vm\<lparr>procs := (\<lambda>_. None)\<rparr>"

lemma demo_dead_facts [simp]:
  "is_dir demo_host demo_dead d = is_dir demo_host demo_vm d" "at demo_host demo_dead p = at demo_host demo_vm p"
  "stored demo_host demo_dead d = stored demo_host demo_vm d" "procs demo_dead pid = None"
  "vm_dir_ready demo_host demo_dead d = vm_dir_ready demo_host demo_vm d" "requests demo_dead = []"
  by (simp_all add: demo_dead_def demo_vm_def is_dir_def stored_def vm_dir_ready_def)

lemma demo_pid_file: "at demo_host demo_vm (pid_path (Path False [''.vms'', ''vm1''])) = Some (File (Text ''7''))"
  by (simp add: pid_path_def demo_node demo_nodes_def)

lemma demo_pid_dead: "pid_in demo_host demo_dead (Path False [''.vms'', ''vm1'']) = Some 7"
  using demo_facts(2) by (simp add: pid_in_def)

lemma demo_digits [simp]: "isdigit (strip ''7'')" "nat_of_digits (strip ''7'') = 7"
  by code_simp+

lemma ready_unlink_pid: "vm_dir_ready H w d \<Longrightarrow> vm_dir_ready H (set_node H (pid_path d) None w) d"
  by (auto simp: vm_dir_ready_def is_dir_def)

lemma stored_unlink_pid [simp]: "stored H (set_node H (pid_path d) n w) d = stored H w d"
  by (simp add: stored_def)

lemma demo_stop: "\<exists>w'. qemu_stop demo_host ''vm1'' demo_dead = (Inr (), w')"
proof -
  have "wp (qemu_stop demo_host ''vm1'') (\<lambda>_ _. True) (\<lambda>_ _. False) demo_dead"
    by (simp add: qemu_stop_def stop_known_def wps Let_def demo_pid_file is_dir_def wp_mark_stopped ready_unlink_pid)
  then show ?thesis by (auto dest: wp_exists)
qed

text \<open>C1: a stop that returns leaves nothing running and a clean record. Whatever the external programs
  do, when \<open>QemuBackend.stop\<close> returns for an existing machine directory, the process that the PID file
  named is gone, there is no PID file any more, and \<open>state.yaml\<close> holds a record without process
  identity and without error, with the time of the stop.\<close>

theorem stop_leaves_nothing_running:
  assumes "is_dir H w (vm_dir_of H uuid)" "qemu_stop H uuid w = (Inr (), w')"
  shows "\<not> is_file H w' (pid_path (vm_dir_of H uuid)) \<and>
    (\<exists>s. stored H w' (vm_dir_of H uuid) = Stored s \<and> qs_pid_start s = None \<and> qs_last_error s = None \<and>
         qs_last_stopped_at s \<noteq> None) \<and>
    (\<forall>pid. pid_in H w (vm_dir_of H uuid) = Some pid \<longrightarrow> procs w' pid = None)"
  using wp_returns [OF qemu_stop_effect [OF assms(1)] assms(2)] by (simp add: stopped_clean_def)

theorem stop_leaves_nothing_running_witness:
  "\<exists>w'. qemu_stop demo_host ''vm1'' demo_dead = (Inr (), w') \<and> procs w' 7 = None"
proof -
  obtain w' where w': "qemu_stop demo_host ''vm1'' demo_dead = (Inr (), w')" using demo_stop by blast
  then show ?thesis
    using stop_leaves_nothing_running [of demo_host demo_dead "''vm1''" w'] by (auto simp: demo_pid_dead)
qed

text \<open>C3: a stop escalates in order and touches one process only. The requests that \<open>stop\<close> sends are, in
  this order and each at most once, the identity query for the PID of the PID file, the two QMP commands on the
  machine's own socket, \<open>kill -TERM\<close> and \<open>kill -KILL\<close> of that PID; without a valid PID file there are none.\<close>

theorem stop_escalates_in_order:
  "\<exists>rs. requests (snd (qemu_stop H uuid w)) = requests w @ rs \<and>
     subseq rs (case pid_in H w (vm_dir_of H uuid) of None \<Rightarrow> []
       | Some pid \<Rightarrow>
           [Run (ps_call pid), QmpSend (qmp_path (vm_dir_of H uuid)) ''qmp_capabilities'',
            QmpSend (qmp_path (vm_dir_of H uuid)) ''system_powerdown'',
            Run (plain_call [''kill'', ''-TERM'', show_nat pid]), Run (plain_call [''kill'', ''-KILL'', show_nat pid])])"
  using qemu_stop_requests [of H uuid w] unfolding stop_plan_def kill_call_def append.simps .

text \<open>C4: a recycled PID is not killed. When the PID file names a live process of this user whose start
  time, as \<open>ps\<close> reports it, is not the recorded one, \<open>stop\<close> sends nothing but that query: it raises a
  \<open>RuntimeError\<close> and records it in \<open>state.yaml\<close>, the rest of the record kept.\<close>

theorem stop_spares_recycled_pid:
  assumes "is_dir H w (vm_dir_of H uuid)" "pid_in H w (vm_dir_of H uuid) = Some pid"
    and "stored H w (vm_dir_of H uuid) = Stored s" "qs_pid_start s = Some i"
    and "mismatched H w pid i" "r_fs (h_run H (ps_call pid) w) = fs w"
    and "vm_dir_ready H w (vm_dir_of H uuid)"
  shows "\<exists>e w' msg. qemu_stop H uuid w = (Inl e, w') \<and> is_runtime_error e \<and>
    requests w' = requests w @ [Run (ps_call pid)] \<and>
    stored H w' (vm_dir_of H uuid) = Stored (s\<lparr>qs_last_error := Some msg\<rparr>)"
  using qemu_stop_mismatched [OF assms]
  by (cases "qemu_stop H uuid w"; cases "fst (qemu_stop H uuid w)") (auto simp: wp_def)

theorem stop_spares_recycled_pid_witness:
  "\<exists>e w' msg. qemu_stop demo_host ''vm1'' demo_vm = (Inl e, w') \<and> is_runtime_error e \<and>
    requests w' = [Run (ps_call 7)] \<and>
    stored demo_host w' (Path False [''.vms'', ''vm1'']) = Stored (demo_state\<lparr>qs_last_error := Some msg\<rparr>)"
proof -
  have "qs_pid_start demo_state = Some ''monday''" "requests demo_vm = []" "r_fs (h_run demo_host (ps_call 7) demo_vm) = fs demo_vm"
    by (simp_all add: demo_state_def demo_vm_def)
  then show ?thesis
    using stop_spares_recycled_pid [of demo_host demo_vm "''vm1''" 7 demo_state "''monday''"] by simp
qed

text \<open>After a stop the status is clean. When \<open>stop\<close> returns for an existing machine, the next
  \<open>status\<close> neither reports a running process nor an error: its state is \<open>unknown\<close>, without PID, and it
  changes nothing.\<close>

theorem stop_then_status_unknown:
  assumes "is_dir H w (vm_dir_of H uuid)" "qemu_stop H uuid w = (Inr (), w')"
  shows "\<exists>st. qemu_status H uuid w' = (Inr st, w') \<and> state_of st = ''unknown'' \<and>
    ''pid'' \<notin> fst ` set st \<and> ''last_error'' \<notin> fst ` set st"
proof -
  have "stopped_clean H w' (vm_dir_of H uuid)"
    using wp_returns [OF qemu_stop_effect [OF assms(1)] assms(2)] by simp
  then show ?thesis using wp_exists [OF qemu_status_stopped] by blast
qed

theorem stop_then_status_unknown_witness:
  "\<exists>w' st. qemu_stop demo_host ''vm1'' demo_dead = (Inr (), w') \<and>
     qemu_status demo_host ''vm1'' w' = (Inr st, w') \<and> state_of st = ''unknown''"
proof -
  obtain w' where w': "qemu_stop demo_host ''vm1'' demo_dead = (Inr (), w')" using demo_stop by blast
  then show ?thesis using stop_then_status_unknown [of demo_host demo_dead "''vm1''" w'] by auto
qed


text \<open>The machine run by another user: its process cannot be signalled, so it counts as the machine.\<close>

definition demo_foreign :: world where
  "demo_foreign = demo_vm\<lparr>procs := (\<lambda>pid. if pid = 7 then Some \<lparr>p_start = ''monday'', p_foreign = True\<rparr> else None)\<rparr>"

lemma demo_foreign_facts [simp]:
  "is_dir demo_host demo_foreign d = is_dir demo_host demo_vm d" "at demo_host demo_foreign p = at demo_host demo_vm p"
  "stored demo_host demo_foreign d = stored demo_host demo_vm d"
  "procs demo_foreign 7 = Some \<lparr>p_start = ''monday'', p_foreign = True\<rparr>"
  by (simp_all add: demo_foreign_def is_dir_def stored_def)

lemma demo_status: "\<exists>st. qemu_status demo_host ''vm1'' demo_foreign = (Inr st, demo_foreign) \<and> state_of st = ''running''"
proof -
  have "wp (qemu_status demo_host ''vm1'') (\<lambda>st w'. w' = demo_foreign \<and> state_of st = ''running'') (\<lambda>_ _. False) demo_foreign"
    by (simp add: qemu_status_def wps Let_def is_file_def demo_pid_file demo_state_def process_matches_def)
  then show ?thesis by (auto dest: wp_exists)
qed


text \<open>The requests a start may send, on the command lines themselves.\<close>

definition start_allowed :: "vm_config \<Rightarrow> bool \<Rightarrow> request \<Rightarrow> bool" where
  "start_allowed cfg restrict_network q \<longleftrightarrow>
     (\<exists>pid. q = Run (ps_call pid)) \<or> tool_probe q \<or> guest_access q \<or>
     (\<exists>c net0 bridge. q = Run c \<and> values_of ''-netdev'' (read_options (tl (c_argv c))) = net0 # bridge \<and>
        prefix ''user,id=net0,hostfwd=tcp:127.0.0.1:'' net0 \<and>
        (suffix '',restrict=on'' net0 \<longleftrightarrow> restrict_network \<and> net_mode (network cfg) = NetNone) \<and>
        bridge = (if net_mode (network cfg) = NetBridge then [''bridge,id=net1,br='' @ network_name (network cfg)] else []))"

lemma start_request_allowed:
  assumes "start_request H cfg d (r \<and> net_mode (network cfg) = NetNone) q"
  shows "start_allowed cfg r q"
proof (cases "launch_request H cfg d (r \<and> net_mode (network cfg) = NetNone) q")
  case True
  then obtain c where c: "q = Run c" by (auto simp: launch_request_def)
  obtain net0 where "values_of ''-netdev'' (read_options (tl (c_argv c))) =
      net0 # (if net_mode (network cfg) = NetBridge then [''bridge,id=net1,br='' @ network_name (network cfg)] else [])"
    "prefix ''user,id=net0,hostfwd=tcp:127.0.0.1:'' net0"
    "suffix '',restrict=on'' net0 \<longleftrightarrow> r \<and> net_mode (network cfg) = NetNone"
    using launch_request_netdev [OF True [unfolded c]] by blast
  with c show ?thesis unfolding start_allowed_def by blast
next
  case False
  with assms show ?thesis by (auto simp: start_request_def start_allowed_def)
qed

definition demo_cfg :: vm_config where
  "demo_cfg = demo_raw\<lparr>isolation := (isolation demo_raw)\<lparr>qemu := (qemu (isolation demo_raw))
     \<lparr>image := ''workspace-vm-base-ubuntu-24.04-x86_64.qcow2''\<rparr>\<rparr>\<rparr>"

lemma demo_valid: "validate_config False demo_raw = Inr demo_cfg"
  by code_simp

text \<open>C2: what a start runs. For a machine with configuration \<open>cfg\<close>, every request of \<open>start\<close> is an
  identity query, a probe of the host's tools, an access to the guest over loopback SSH, or a launch of the
  machine; and every launch has one user network, forwarding the SSH port on loopback, with
  \<open>restrict=on\<close> exactly when restriction is asked for and the network mode is \<open>none\<close>.\<close>

theorem start_launches_restricted:
  assumes "at H w (yaml_path (vm_dir_of H uuid)) = Some (File (ConfigDoc raw))"
    and "validate_config (h_darwin H) raw = Inr cfg"
  shows "\<exists>rs. requests (snd (qemu_start H uuid r w)) = requests w @ rs \<and> list_all (start_allowed cfg r) rs"
  using qemu_start_requests [OF assms, of r] by (auto intro: start_request_allowed elim!: list.pred_mono_strong)

theorem start_launches_restricted_witness:
  "\<exists>rs. requests (snd (qemu_start demo_host ''vm1'' True demo_dead)) = rs \<and> list_all (start_allowed demo_cfg True) rs"
  using start_launches_restricted [of demo_host demo_dead "''vm1''" demo_raw demo_cfg True] demo_valid
  by simp

text \<open>C8: rejected configurations have no effect. A configuration that the QEMU backend does not support (host networking, a VPN
  network namespace, a bridge without a usable name, with the policy proxy but no proxy URL or with a whitelist, added capabilities,
  API credentials, or a mount that is relative, has a comma or does not exist), and no other, makes the validation of \<open>create\<close>
  raise with the whole state as it was. The code accepts the bridge policies \<open>internet\<close> and \<open>proxy\<close>, and a whitelist
  outside of bridge mode, which the user guide lists as rejected.\<close>

definition supported :: "host \<Rightarrow> world \<Rightarrow> vm_config \<Rightarrow> bool" where
  "supported H w cfg \<longleftrightarrow>
     net_mode (network cfg) \<noteq> NetHost \<and>
     \<not> (net_mode (network cfg) = NetOpenvpn \<and> vpn_type (network cfg) = VpnNetns) \<and>
     \<not> (net_mode (network cfg) = NetBridge \<and>
        (network_name (network cfg) = [] \<or> CHR '','' \<in> set (network_name (network cfg)) \<or>
         net_policy (network cfg) = PolProxy \<and> proxy_url (network cfg) = [] \<or> whitelist (network cfg) \<noteq> [])) \<and>
     list_all (\<lambda>m. absolute (mk_path (expanduser H m)) \<and> CHR '','' \<notin> set (path_str (mk_path (expanduser H m))) \<and>
        p_exists H w (mk_path (expanduser H m))) (mounts cfg) \<and>
     cap_add (security cfg) = [] \<and> credentials cfg \<noteq> CredApi"

lemma backend_network_Inr: "validate_network cfg = Inr () \<longleftrightarrow>
     net_mode (network cfg) \<noteq> NetHost \<and>
     \<not> (net_mode (network cfg) = NetOpenvpn \<and> vpn_type (network cfg) = VpnNetns) \<and>
     \<not> (net_mode (network cfg) = NetBridge \<and>
        (network_name (network cfg) = [] \<or> CHR '','' \<in> set (network_name (network cfg)) \<or>
         net_policy (network cfg) = PolProxy \<and> proxy_url (network cfg) = [] \<or> whitelist (network cfg) \<noteq> []))"
  by (simp add: validate_network_def Let_def)

theorem create_rejects_unsupported:
  "(\<exists>e. validate_qemu_config H w cfg = Inl e \<and> qemu_create H p cfg w = (Inl e, w)) \<longleftrightarrow> \<not> supported H w cfg"
proof (cases "validate_qemu_config H w cfg")
  case (Inl e)
  then have "\<not> supported H w cfg"
    using validate_qemu_config_Inr [of H w cfg]
    by (auto simp: supported_def backend_network_Inr validate_mounts_Inr list_all_iff)
  with Inl show ?thesis by (auto simp: qemu_create_rejects)
next
  case (Inr u)
  then have "supported H w cfg"
    using validate_qemu_config_Inr [of H w cfg]
    by (auto simp: supported_def backend_network_Inr validate_mounts_Inr list_all_iff)
  with Inr show ?thesis by simp
qed

lemma qemu_destroy_split:
  assumes "qemu_destroy H uuid purge w = (Inr (), w')"
  shows "\<exists>w1. qemu_stop H uuid w = (Inr (), w1) \<and> discard_dir H uuid purge w1 = (Inr (), w')"
  using assms by (auto simp: qemu_destroy_def andthen_def bnd_def split: prod.splits sum.splits)

text \<open>C6: a destroyed machine is archived whole. When \<open>destroy\<close> without purge returns, there is a world in
  which the machine was stopped; if its directory is still there then, it has been moved: every file of it
  stands at the same place below \<open>_archive/<uuid>\<close>, and nothing is left at the old place. The archived record
  is that of a stopped machine.\<close>

theorem destroy_archives_whole_directory:
  assumes "plain uuid" "uuid \<noteq> ''_archive''" "is_dir H w (vm_dir_of H uuid)"
    and "qemu_destroy H uuid False w = (Inr (), w')"
  shows "\<exists>w1. qemu_stop H uuid w = (Inr (), w1) \<and> stopped_clean H w1 (vm_dir_of H uuid) \<and>
    (is_dir H w1 (vm_dir_of H uuid) \<longrightarrow>
     (\<forall>x. fs w' (Path True (vm_root H @ [''_archive'', uuid] @ x)) = fs w1 (Path True (vm_root H @ [uuid] @ x)) \<and>
          fs w' (Path True (vm_root H @ [uuid] @ x)) = None))"
proof -
  obtain w1 where w1: "qemu_stop H uuid w = (Inr (), w1)" "discard_dir H uuid False w1 = (Inr (), w')"
    using qemu_destroy_split [OF assms(4)] by blast
  have "stopped_clean H w1 (vm_dir_of H uuid)"
    using wp_returns [OF qemu_stop_effect [OF assms(3)] w1(1)] by simp
  then show ?thesis
    using w1 wp_returns [OF discard_archive [OF assms(1,2)] w1(2)] by blast
qed

text \<open>C7: purging removes exactly the machine. When \<open>destroy\<close> with purge returns, the file system is the
  one after the stop without the machine's directory: everything below it is gone and everything else is as
  it was.\<close>

theorem destroy_purges_exactly_the_machine:
  assumes "plain uuid" "qemu_destroy H uuid True w = (Inr (), w')"
  shows "\<exists>w1. qemu_stop H uuid w = (Inr (), w1) \<and>
    (is_dir H w1 (vm_dir_of H uuid) \<longrightarrow>
     (\<forall>p. fs w' p = (if below (Path True (vm_root H @ [uuid])) p then None else fs w1 p)))"
proof -
  obtain w1 where w1: "qemu_stop H uuid w = (Inr (), w1)" "discard_dir H uuid True w1 = (Inr (), w')"
    using qemu_destroy_split [OF assms(2)] by blast
  have "fs w' p = (if below (Path True (vm_root H @ [uuid])) p then None else fs w1 p)"
    if "is_dir H w1 (vm_dir_of H uuid)" for p
    using w1(2) discard_purge [OF assms(1) that] by auto
  with w1(1) show ?thesis by blast
qed

text \<open>The demonstration machine can be destroyed both ways.\<close>

lemma demo_plain: "plain ''vm1''" by code_simp

lemma demo_saved_dir:
  "is_dir demo_host (saved demo_host (Path False [''.vms'', ''vm1'']) s w) (Path False [''.vms'', ''vm1'']) =
   is_dir demo_host w (Path False [''.vms'', ''vm1''])"
  by (simp add: is_dir_def)

lemma demo_vms [simp]: "vms_dir demo_host = Path False [''.vms'']"
  "resolve (Path True [''work'']) (Path False [''.vms'']) = Path True [''work'', ''.vms'']"
  by (simp add: vms_dir_def, code_simp) code_simp

lemma demo_root: "vm_root demo_host = [''work'', ''.vms'']"
  by (simp add: vm_root_def)

lemma demo_archive [simp]:
  "resolve (Path True [''work'']) (archive_path demo_host ''vm1'') = Path True [''work'', ''.vms'', ''_archive'', ''vm1'']"
  using resolve_archive(2) [OF demo_plain, of demo_host] by (simp add: demo_root)

text \<open>The demonstration machine after its stop.\<close>

lemma demo_dir_node [simp]: "at demo_host demo_vm (Path False [''.vms'', ''vm1'']) = Some Dir"
  using demo_facts(1) by (simp add: is_dir_def)

definition demo_stopped :: world where
  "demo_stopped = saved demo_host (Path False [''.vms'', ''vm1''])
     (demo_state\<lparr>qs_last_stopped_at := Some ''now'', qs_last_error := None, qs_pid_start := None\<rparr>)
     (set_node demo_host (pid_path (Path False [''.vms'', ''vm1''])) None demo_dead)"

lemma demo_stop_eq: "qemu_stop demo_host ''vm1'' demo_dead = (Inr (), demo_stopped)"
proof -
  have "wp (qemu_stop demo_host ''vm1'') (\<lambda>_ w'. w' = demo_stopped) (\<lambda>_ _. False) demo_dead"
    by (simp add: qemu_stop_def stop_known_def wps Let_def demo_pid_file is_dir_def wp_mark_stopped
        ready_unlink_pid base_state_def demo_stopped_def)
  then show ?thesis by (auto dest: wp_exists)
qed

lemma demo_stopped_fs:
  "parts p \<noteq> [''work'', ''.vms'', ''vm1'', ''state.yaml''] \<Longrightarrow> parts p \<noteq> [''work'', ''.vms'', ''vm1'', ''state.tmp''] \<Longrightarrow>
   parts p \<noteq> [''work'', ''.vms'', ''vm1'', ''qemu.pid''] \<Longrightarrow> absolute p \<Longrightarrow>
   fs demo_stopped p = map_of demo_nodes (parts p)"
  by (cases p) (auto simp: demo_stopped_def saved_def set_node_def child_Path demo_dead_def demo_vm_def)

lemma demo_stopped_dir: "is_dir demo_host demo_stopped (Path False [''.vms'', ''vm1''])"
  by (simp add: is_dir_def at_def demo_stopped_fs) (simp add: demo_nodes_def)

lemma mkdir_works:
  assumes "list_all (\<lambda>k. fs w (Path True (take k (parts (resolve (h_cwd H) p)))) \<in> {None, Some Dir})
    [0..<Suc (length (parts (resolve (h_cwd H) p)))]"
  shows "\<exists>f. mkdir_parents H p w = (Inr (), w\<lparr>fs := f\<rparr>) \<and>
    (\<forall>q. \<not> prefix (parts q) (parts (resolve (h_cwd H) p)) \<longrightarrow> f q = fs w q)"
proof -
  let ?a = "map (\<lambda>k. Path True (take k (parts (resolve (h_cwd H) p)))) [0..<Suc (length (parts (resolve (h_cwd H) p)))]"
  have ok: "\<not> (\<exists>a \<in> set ?a. fs w a \<noteq> None \<and> fs w a \<noteq> Some Dir)"
    using assms by (auto simp: list_all_iff)
  have "mkdir_parents H p w = (Inr (), w\<lparr>fs := (\<lambda>x. if x \<in> set ?a then Some Dir else fs w x)\<rparr>)"
    using ok unfolding mkdir_parents_def Let_def by (simp only: if_False)
  then show ?thesis
    by (intro exI [of _ "\<lambda>x. if x \<in> set ?a then Some Dir else fs w x"] conjI)
      (auto simp: take_is_prefix simp del: upt_Suc)
qed

lemma demo_archive_dir [simp]:
  "child (Path False [''.vms'']) ''_archive'' = Path False [''.vms'', ''_archive'']"
  "resolve (Path True [''work'']) (Path False [''.vms'', ''_archive'']) = Path True [''work'', ''.vms'', ''_archive'']"
  by code_simp+

lemma demo_destroy: "\<exists>w'. qemu_destroy demo_host ''vm1'' purge demo_dead = (Inr (), w')"
proof -
  obtain f where f: "mkdir_parents demo_host (child (vms_dir demo_host) ''_archive'') demo_stopped = (Inr (), demo_stopped\<lparr>fs := f\<rparr>)"
    "\<And>q. \<not> prefix (parts q) [''work'', ''.vms'', ''_archive''] \<Longrightarrow> f q = fs demo_stopped q"
    using mkdir_works [of demo_stopped demo_host "child (vms_dir demo_host) ''_archive''"]
    by (auto simp: demo_stopped_fs demo_nodes_def)
  have "\<not> p_exists demo_host (demo_stopped\<lparr>fs := f\<rparr>) (archive_path demo_host ''vm1'')"
    using f(2) by (simp add: p_exists_def at_def demo_stopped_fs) (simp add: demo_nodes_def)
  moreover have "is_dir demo_host (demo_stopped\<lparr>fs := f\<rparr>) (Path False [''.vms'', ''vm1''])"
    using f(2) demo_stopped_dir by (simp add: is_dir_def at_def)
  ultimately show ?thesis
    using demo_stopped_dir f(1)
    by (simp add: qemu_destroy_def andthen_def bnd_def demo_stop_eq discard_dir_def Let_def asks_def rmtree_def move_tree_def)
qed

theorem destroy_archives_whole_directory_witness:
  "\<exists>w'. qemu_destroy demo_host ''vm1'' False demo_dead = (Inr (), w') \<and>
     fs w' (Path True [''work'', ''.vms'', ''_archive'', ''vm1'', ''vm.yaml'']) = Some (File (ConfigDoc demo_raw)) \<and>
     fs w' (Path True [''work'', ''.vms'', ''vm1'', ''vm.yaml'']) = None"
proof -
  obtain w' where w': "qemu_destroy demo_host ''vm1'' False demo_dead = (Inr (), w')" using demo_destroy by blast
  have "is_dir demo_host demo_dead (vm_dir_of demo_host ''vm1'')" "''vm1'' \<noteq> ''_archive''" by simp_all
  from destroy_archives_whole_directory [OF demo_plain this(2,1) w']
  have "fs w' (Path True ([''work'', ''.vms'', ''_archive'', ''vm1''] @ x)) = fs demo_stopped (Path True ([''work'', ''.vms'', ''vm1''] @ x)) \<and>
      fs w' (Path True ([''work'', ''.vms'', ''vm1''] @ x)) = None" for x
    using demo_stopped_dir by (simp add: demo_stop_eq demo_root)
  from this [of "[''vm.yaml'']"] w' show ?thesis by (simp add: demo_stopped_fs) (simp add: demo_nodes_def)
qed

theorem destroy_purges_exactly_the_machine_witness:
  "\<exists>w'. qemu_destroy demo_host ''vm1'' True demo_dead = (Inr (), w') \<and>
     fs w' (Path True [''work'', ''.vms'', ''vm1'', ''vm.yaml'']) = None"
proof -
  obtain w' where w': "qemu_destroy demo_host ''vm1'' True demo_dead = (Inr (), w')" using demo_destroy by blast
  with destroy_purges_exactly_the_machine [OF demo_plain w'] show ?thesis
    using demo_stopped_dir by (simp add: demo_stop_eq demo_root below_def)
qed

end
