(* ===== verification/VmLifecycle.thy ===== *)
theory VmLifecycle
  imports Backend QemuProperties
begin

text \<open>
  \<open>workspace/cli/vm_lifecycle.py\<close> and \<open>workspace/cli/vm_manager.py\<close>: the lifecycle commands over
  whichever backend the stored configuration selects. Each command is a definition over a backend record,
  and the command of the program is that definition at \<open>backend_for_uuid\<close>.
\<close>

section \<open>Selecting the backend\<close>

definition load_vm_config :: "host \<Rightarrow> string \<Rightarrow> vm_config io" where
  "load_vm_config H uuid =
     bnd (asks (\<lambda>w. is_file H w (yaml_path (vm_dir_of H uuid)))) (\<lambda>f.
       if \<not> f then andthen (print_err (''vm: no vm.yaml found for VM '' @ quoted uuid)) (raise (SystemExit 1))
       else load_config H (yaml_path (vm_dir_of H uuid)))"

definition backend_for_uuid :: "host \<Rightarrow> string \<Rightarrow> backend io" where
  "backend_for_uuid H uuid = bnd (load_vm_config H uuid) (\<lambda>cfg. ret (get_backend H cfg))"

definition host_pid_path :: "host \<Rightarrow> string \<Rightarrow> path" where
  "host_pid_path H uuid = child (vm_dir_of H uuid) ''pid''"

section \<open>Start, stop, delete\<close>

definition write_podman_pid :: "host \<Rightarrow> string \<Rightarrow> unit io" where
  "write_podman_pid H uuid =
     bnd (catch is_called_process_error
           (run_checked H (plain_call [''podman'', ''inspect'', ''-f'', ''{{.State.Pid}}'', uuid]))
           (\<lambda>e. case e of
              CalledProcessError rc so se \<Rightarrow>
                andthen (print_err (''vm: podman inspect failed: '' @ se @ nl)) (raise e)
            | _ \<Rightarrow> raise e)) (\<lambda>r. write_text H (host_pid_path H uuid) (strip (fst r)))"

definition start_with :: "host \<Rightarrow> backend \<Rightarrow> string \<Rightarrow> unit io" where
  "start_with H b uuid =
     bnd (b_status b uuid) (\<lambda>st.
       if state_of st = ''running'' then print_out (''VM '' @ uuid @ '' already running'')
       else andthen (b_start b uuid)
           (andthen (when_io (b_name b = ''podman'') (write_podman_pid H uuid))
              (print_out (''VM '' @ uuid @ '' started''))))"

definition lifecycle_start :: "host \<Rightarrow> string \<Rightarrow> unit io" where
  "lifecycle_start H uuid = bnd (backend_for_uuid H uuid) (\<lambda>b. start_with H b uuid)"

definition lifecycle_stop :: "host \<Rightarrow> string \<Rightarrow> unit io" where
  "lifecycle_stop H uuid =
     bnd (backend_for_uuid H uuid) (\<lambda>b.
       andthen (b_stop b uuid)
      (andthen (unlink_missing_ok H (host_pid_path H uuid)) (print_out (''VM '' @ uuid @ '' stopped''))))"

definition lifecycle_delete :: "host \<Rightarrow> string \<Rightarrow> bool \<Rightarrow> unit io" where
  "lifecycle_delete H uuid purge =
     bnd (backend_for_uuid H uuid) (\<lambda>b.
       andthen (b_destroy b uuid purge)
      (andthen (unlink_missing_ok H (host_pid_path H uuid))
      (bnd (asks (\<lambda>w. is_dir H w (archive_path H uuid))) (\<lambda>archived.
         if purge then print_out (''VM '' @ uuid @ '' deleted (artifacts purged)'')
         else if archived then print_out (''VM '' @ uuid @ '' archived at '' @ path_str (archive_path H uuid))
         else print_out (''VM '' @ uuid @ '' deleted (volumes preserved)'')))))"

section \<open>Shell and exec\<close>

definition require_running :: "backend \<Rightarrow> string \<Rightarrow> string \<Rightarrow> unit io \<Rightarrow> unit io" where
  "require_running b verb uuid m =
     bnd (b_status b uuid) (\<lambda>st.
       if state_of st \<noteq> ''running''
       then andthen (print_err (''vm: '' @ verb @ '': VM '' @ quoted uuid @ '' is not running'')) (raise (SystemExit 1))
       else m)"

definition shell_with :: "host \<Rightarrow> backend \<Rightarrow> string \<Rightarrow> unit io" where
  "shell_with H b uuid =
     require_running b ''shell'' uuid
       (andthen
         (when_io (b_name b = ''qemu'')
           (bnd (b_ssh_endpoint b uuid) (\<lambda>(guest, port).
              execvp [''ssh'', ''-t'', ''-i'', path_str (ssh_key_path (vm_dir_of H uuid)), ''-o'',
                ''StrictHostKeyChecking=no'', ''-o'', ''UserKnownHostsFile=/dev/null'', ''-p'', show_int port,
                ''workspace@'' @ guest])))
         (execvp [''podman'', ''exec'', ''-it'', ''-u'', ''workspace'', uuid, ''/bin/bash'']))"

definition shell :: "host \<Rightarrow> string \<Rightarrow> unit io" where
  "shell H uuid = bnd (backend_for_uuid H uuid) (\<lambda>b. shell_with H b uuid)"

definition exec_with :: "backend \<Rightarrow> string \<Rightarrow> string list \<Rightarrow> unit io" where
  "exec_with b uuid cmd =
     require_running b ''exec'' uuid
       (if b_name b = ''qemu'' then
          bnd (b_exec b uuid cmd) (\<lambda>r.
            andthen (when_io (fst r \<noteq> []) (print_out (fst r))) (when_io (snd r \<noteq> []) (print_err (snd r))))
        else execvp ([''podman'', ''exec'', uuid] @ cmd))"

definition exec_cmd :: "host \<Rightarrow> string \<Rightarrow> string list \<Rightarrow> unit io" where
  "exec_cmd H uuid cmd = bnd (backend_for_uuid H uuid) (\<lambda>b. exec_with b uuid cmd)"

section \<open>Listing and status\<close>

definition listed :: "host \<Rightarrow> world \<Rightarrow> path \<Rightarrow> bool" where
  "listed H w d \<longleftrightarrow> is_dir H w d \<and> \<not> prefix ''_'' (path_name d) \<and> is_file H w (yaml_path d)"

definition list_row :: "host \<Rightarrow> path \<Rightarrow> (string \<times> string \<times> string) list io" where
  "list_row H d =
     bnd (asks (\<lambda>w. listed H w d)) (\<lambda>l.
       if \<not> l then ret []
       else bnd (load_config H (yaml_path d)) (\<lambda>cfg.
         let b = get_backend H cfg; uuid = path_name d in
         bnd (b_status b uuid) (\<lambda>st. ret [(uuid, state_of st, b_name b)])))"

definition pad_right :: "nat \<Rightarrow> string \<Rightarrow> string" where
  "pad_right n s = s @ replicate (n - length s) (CHR '' '')"

definition row_line :: "string \<times> string \<times> string \<Rightarrow> string" where
  "row_line r = pad_right 40 (fst r) @ '' '' @ pad_right 10 (fst (snd r)) @ '' '' @ snd (snd r)"

definition vm_dirs :: "host \<Rightarrow> world \<Rightarrow> path list" where
  "vm_dirs H w = sort (map (child (vms_dir H)) (h_children H w (vms_dir H)))"

definition list_vms :: "host \<Rightarrow> unit io" where
  "list_vms H =
     bnd (asks (\<lambda>w. is_dir H w (vms_dir H))) (\<lambda>d.
       if \<not> d then print_out ''No VMs found''
       else bnd (asks (vm_dirs H)) (\<lambda>dirs.
            bnd (collect (list_row H) dirs) (\<lambda>rows.
              if concat rows = [] then print_out ''No VMs found''
              else andthen (print_out (row_line (''NAME'', ''STATE'', ''BACKEND'')))
                     (each (\<lambda>r. print_out (row_line r)) (concat rows)))))"

definition print_command :: "host \<Rightarrow> string list \<Rightarrow> unit io" where
  "print_command H argv =
     catch is_called_process_error
       (bnd (run_checked H (plain_call argv)) (\<lambda>r. print_out (fst r)))
       (\<lambda>e. case e of CalledProcessError rc so se \<Rightarrow> when_io (se \<noteq> []) (print_err se) | _ \<Rightarrow> raise e)"

definition status_value :: "status \<Rightarrow> string \<Rightarrow> string \<Rightarrow> string" where
  "status_value st k d = (case map_of st k of None \<Rightarrow> d | Some v \<Rightarrow> v)"

definition show_status :: "host \<Rightarrow> string \<Rightarrow> unit io" where
  "show_status H uuid =
     bnd (backend_for_uuid H uuid) (\<lambda>b.
     bnd (b_status b uuid) (\<lambda>st.
     let log_file = child (vm_dir_of H uuid) ''qemu.log'' in
     andthen (print_out (''UUID:    '' @ uuid))
    (andthen (print_out (''Backend: '' @ status_value st ''backend'' (b_name b)))
    (andthen (print_out (''State:   '' @ state_of st))
    (andthen (when_io (status_value st ''pid'' [] \<noteq> []) (print_out (''PID:     '' @ status_value st ''pid'' [])))
       (if b_name b = ''podman'' then
          andthen (print_command H [''podman'', ''inspect'', uuid])
            (print_command H [''podman'', ''stats'', ''--no-stream'', uuid])
        else bnd (asks (\<lambda>w. is_file H w log_file)) (\<lambda>f.
               when_io f (print_out (''Log:     '' @ path_str log_file)))))))))"

text \<open>The last \<open>--tail\<close> that has a value gives the number of lines.\<close>

fun tail_count :: "string \<Rightarrow> string list \<Rightarrow> string" where
  "tail_count n (a # v # rest) = tail_count (if a = ''--tail'' then v else n) (v # rest)"
| "tail_count n _ = n"

definition show_logs :: "host \<Rightarrow> string \<Rightarrow> string list \<Rightarrow> unit io" where
  "show_logs H uuid extra =
     bnd (backend_for_uuid H uuid) (\<lambda>b.
       let log_file = child (vm_dir_of H uuid) ''qemu.log'' in
       if b_name b = ''qemu'' then
         bnd (asks (\<lambda>w. is_file H w log_file)) (\<lambda>f.
           if \<not> f then andthen (print_err (''vm: no qemu.log for VM '' @ quoted uuid)) (raise (SystemExit 1))
           else if ''-f'' \<in> set extra \<or> ''--follow'' \<in> set extra
           then run_cmd H [''tail'', ''-f'', path_str log_file]
           else run_cmd H [''tail'', ''-n'', tail_count ''50'' extra, path_str log_file])
       else run_cmd H ([''podman'', ''logs''] @ extra @ [uuid]))"

definition kill_pid_file :: "host \<Rightarrow> string \<Rightarrow> path \<Rightarrow> unit io" where
  "kill_pid_file H uuid pid_file =
     bnd (asks (\<lambda>w. is_file H w pid_file)) (\<lambda>f.
       if \<not> f then andthen (print_err (''vm: kill: no PID file for VM '' @ quoted uuid)) (raise (SystemExit 1))
       else bnd (read_text H pid_file) (\<lambda>t.
         andthen (run_cmd H [''kill'', ''-SIGKILL'', strip t])
           (print_out (''VM '' @ uuid @ '' killed (SIGKILL sent to PID '' @ strip t @ '')''))))"

definition kill :: "host \<Rightarrow> string \<Rightarrow> unit io" where
  "kill H uuid =
     bnd (backend_for_uuid H uuid) (\<lambda>b.
       kill_pid_file H uuid
         (if b_name b = ''qemu'' then pid_path (vm_dir_of H uuid) else host_pid_path H uuid))"

section \<open>Create and rebuild\<close>

definition manager_create :: "host \<Rightarrow> string \<Rightarrow> unit io" where
  "manager_create H config_path =
     bnd (load_config H (mk_path config_path)) (\<lambda>cfg. b_create (get_backend H cfg) (mk_path config_path) cfg)"

definition manager_rebuild :: "host \<Rightarrow> string \<Rightarrow> bool \<Rightarrow> unit io" where
  "manager_rebuild H uuid fresh =
     bnd (asks (\<lambda>w. p_exists H w (yaml_path (vm_dir_of H uuid)))) (\<lambda>ex.
       if \<not> ex then andthen (print_err (''vm: no vm.yaml found for VM '' @ quoted uuid)) (raise (SystemExit 1))
       else bnd (load_config H (yaml_path (vm_dir_of H uuid))) (\<lambda>cfg.
         if backend (isolation cfg) = Qemu
         then andthen (qemu_rebuild H uuid fresh) (print_out (''VM '' @ uuid @ '' rebuilt''))
         else podman_rebuild H uuid cfg))"

section \<open>What the commands rely on\<close>

context isolation_backend
begin

text \<open>A machine that is not running is only queried.\<close>

lemma require_running_stops:
  assumes "b_status b u w = (Inr st, w1)" "state_of st \<noteq> ''running''"
  shows "\<exists>w2 rs. require_running b verb u m w = (Inl (SystemExit 1), w2) \<and> requests w2 = requests w @ rs \<and>
    list_all query rs \<and> fs w2 = fs w1"
  using assms emitsD [OF status_queries assms(1)]
  by (auto simp: require_running_def bnd_def andthen_def print_err_def update_def raise_def)

lemma start_with_running:
  assumes "b_status b u w = (Inr st, w1)" "state_of st = ''running''"
  shows "\<exists>w2 rs. start_with H b u w = (Inr (), w2) \<and> requests w2 = requests w @ rs \<and> list_all query rs \<and>
    fs w2 = fs w1 \<and> out w2 = out w1 @ [''VM '' @ u @ '' already running'']"
  using assms emitsD [OF status_queries assms(1)]
  by (auto simp: start_with_def bnd_def print_out_def update_def)

end

lemma status_contract: "emits query (b_status (get_backend H cfg) u)"
  using isolation_backend.status_queries [OF get_backend_contract] .

lemma emits_load_config [emits_intros]: "emits P (load_config H p)" "emits P (load_vm_config H u)" "emits P (backend_for_uuid H u)"
proof -
  show 1: "emits P (load_config H p)" for p
    unfolding load_config_def by (intro emits_intros) (auto intro: emits_intros split: content.split)
  show 2: "emits P (load_vm_config H u)" unfolding load_vm_config_def by (intro emits_intros 1)
  show "emits P (backend_for_uuid H u)" unfolding backend_for_uuid_def by (intro emits_intros 2)
qed

lemma emits_list_vms: "emits query (list_vms H)"
  unfolding list_vms_def list_row_def Let_def by (intro emits_intros status_contract)

section \<open>Properties\<close>

text \<open>Listing only queries. Every external command of \<open>vm list\<close>, over machines of both backends, reads the
  identity of a process or the state of a container.\<close>

theorem list_only_queries:
  "\<exists>rs. requests (snd (list_vms H w)) = requests w @ rs \<and> list_all query rs"
  using emits_list_vms [of H] by (simp add: emits_def)

text \<open>A configuration that selects the QEMU backend.\<close>

definition demo_qemu :: vm_config where
  "demo_qemu = demo_cfg\<lparr>isolation := (isolation demo_cfg)\<lparr>backend := backend_kind.Qemu\<rparr>\<rparr>"

lemma demo_backend: "get_backend demo_host demo_qemu = qemu_backend demo_host" "b_status (qemu_backend H) = qemu_status H"
  by (simp_all add: get_backend_def demo_qemu_def qemu_backend_def)

lemma demo_stopped_clean: "stopped_clean demo_host demo_stopped (vm_dir_of demo_host ''vm1'')"
  using wp_returns [OF qemu_stop_effect demo_stop_eq] by simp

text \<open>Shell and exec need a running machine. When the backend reports any other state, both commands exit with
  code 1, and all they have run is the queries of the status.\<close>

theorem shell_and_exec_need_running:
  assumes "b_status (get_backend H cfg) u w = (Inr st, w1)" "state_of st \<noteq> ''running''"
  shows "(\<exists>w2 rs. shell_with H (get_backend H cfg) u w = (Inl (SystemExit 1), w2) \<and>
            requests w2 = requests w @ rs \<and> list_all query rs \<and> fs w2 = fs w1) \<and>
         (\<exists>w2 rs. exec_with (get_backend H cfg) u cmd w = (Inl (SystemExit 1), w2) \<and>
            requests w2 = requests w @ rs \<and> list_all query rs \<and> fs w2 = fs w1)"
  unfolding shell_with_def exec_with_def
  using isolation_backend.require_running_stops [OF get_backend_contract assms] by blast

theorem shell_and_exec_need_running_witness:
  "fst (shell_with demo_host (get_backend demo_host demo_qemu) ''vm1'' demo_stopped) = Inl (SystemExit 1) \<and>
   fst (exec_with (get_backend demo_host demo_qemu) ''vm1'' [''ls''] demo_stopped) = Inl (SystemExit 1)"
proof -
  obtain st where "b_status (get_backend demo_host demo_qemu) ''vm1'' demo_stopped = (Inr st, demo_stopped)"
    "state_of st \<noteq> ''running''"
    using wp_exists [OF qemu_status_stopped, of demo_host demo_stopped "''vm1''"] demo_stopped_clean
    by (auto simp: demo_backend)
  from shell_and_exec_need_running [OF this, of "[''ls'']"] show ?thesis by auto
qed

text \<open>Starting a running machine does nothing. When the backend reports it as running, \<open>vm start\<close> sends
  only the queries of the status, changes no file and says so.\<close>

theorem start_is_idempotent:
  assumes "b_status (get_backend H cfg) u w = (Inr st, w1)" "state_of st = ''running''"
  shows "\<exists>w2 rs. start_with H (get_backend H cfg) u w = (Inr (), w2) \<and> requests w2 = requests w @ rs \<and>
           list_all query rs \<and> fs w2 = fs w1 \<and> out w2 = out w1 @ [''VM '' @ u @ '' already running'']"
  using isolation_backend.start_with_running [OF get_backend_contract assms] .

theorem start_is_idempotent_witness:
  "fst (start_with demo_host (get_backend demo_host demo_qemu) ''vm1'' demo_foreign) = Inr ()"
proof -
  obtain st where "b_status (get_backend demo_host demo_qemu) ''vm1'' demo_foreign = (Inr st, demo_foreign)"
    "state_of st = ''running''"
    using demo_status by (auto simp: demo_backend)
  from start_is_idempotent [OF this] show ?thesis by auto
qed

end
