(* ===== verification/VmSnapshots.thy ===== *)
theory VmSnapshots
  imports VmLifecycle
begin

text \<open>
  \<open>workspace/cli/vm_snapshots.py\<close>: snapshots of the overlay disk of a stopped QEMU machine, and its export
  to and import from a bundle directory. Snapshots themselves live in the disk image and belong to
  \<open>qemu-img\<close>.
\<close>

definition BUNDLE_FILES :: "string list" where
  "BUNDLE_FILES = [''disk.qcow2'', ''vm.yaml'', ''vm-install-defaults.yaml'', ''state.yaml'', ''password'',
     ''qemu_ssh_ed25519'', ''cloud-init/seed.img'', ''cloud-init/user-data'', ''cloud-init/meta-data'']"

definition MANIFEST :: string where "MANIFEST = ''manifest.json''"
definition FORMAT :: int where "FORMAT = 1"

definition require_qemu :: "host \<Rightarrow> string \<Rightarrow> path io" where
  "require_qemu H uuid =
     bnd (load_vm_config H uuid) (\<lambda>cfg.
       if backend (isolation cfg) \<noteq> backend_kind.Qemu
       then raise (ValueError (''vm: backup operations require the qemu backend: '' @ uuid))
       else ret (vm_dir_of H uuid))"

definition run_qemu_img :: "host \<Rightarrow> string list \<Rightarrow> (string \<times> string) io" where
  "run_qemu_img H args =
     catch is_called_process_error
       (bnd (resolve_qemu_img H) (\<lambda>q. run_checked H (plain_call (path_str q # args))))
       (\<lambda>e. case e of
          CalledProcessError rc so se \<Rightarrow> raise (RuntimeError (''vm: qemu-img failed: '' @ strip se))
        | _ \<Rightarrow> raise e)"

text \<open>\<open>get_backend(load_vm_config(uuid)).stop(uuid)\<close>.\<close>

definition stop_machine :: "host \<Rightarrow> string \<Rightarrow> unit io" where
  "stop_machine H uuid = bnd (load_vm_config H uuid) (\<lambda>cfg. b_stop (get_backend H cfg) uuid)"

section \<open>Snapshots\<close>

definition snapshot_create :: "host \<Rightarrow> string \<Rightarrow> string \<Rightarrow> unit io" where
  "snapshot_create H uuid name =
     bnd (require_qemu H uuid) (\<lambda>vm_dir.
       andthen (stop_machine H uuid)
      (bnd (run_qemu_img H [''snapshot'', ''-c'', name, path_str (child vm_dir ''disk.qcow2'')]) (\<lambda>_.
         print_out (''VM '' @ uuid @ '' snapshot created: '' @ name))))"

definition snapshot_list :: "host \<Rightarrow> string \<Rightarrow> unit io" where
  "snapshot_list H uuid =
     bnd (require_qemu H uuid) (\<lambda>vm_dir.
     bnd (run_qemu_img H [''snapshot'', ''-l'', path_str (child vm_dir ''disk.qcow2'')]) (\<lambda>r.
       print_out (fst r)))"

definition snapshot_delete :: "host \<Rightarrow> string \<Rightarrow> string \<Rightarrow> unit io" where
  "snapshot_delete H uuid name =
     bnd (require_qemu H uuid) (\<lambda>vm_dir.
       andthen (stop_machine H uuid)
      (bnd (run_qemu_img H [''snapshot'', ''-d'', name, path_str (child vm_dir ''disk.qcow2'')]) (\<lambda>_.
         print_out (''VM '' @ uuid @ '' snapshot deleted: '' @ name))))"

section \<open>Export and import\<close>

definition copy_bundled :: "host \<Rightarrow> path \<Rightarrow> path \<Rightarrow> string \<Rightarrow> unit io" where
  "copy_bundled H source dest name =
     bnd (asks (\<lambda>w. is_file H w (p_sub source name))) (\<lambda>f.
       when_io f
         (andthen (mkdir_parents H (parent (p_sub dest name)))
            (copy_file H (p_sub source name) (p_sub dest name))))"

definition copy_bundle :: "host \<Rightarrow> path \<Rightarrow> path \<Rightarrow> unit io" where
  "copy_bundle H source dest = each (copy_bundled H source dest) BUNDLE_FILES"

definition manifest_of :: "host \<Rightarrow> world \<Rightarrow> string \<Rightarrow> path \<Rightarrow> content" where
  "manifest_of H w uuid dest =
     ManifestDoc (Some FORMAT) uuid (h_now H w) (filter (\<lambda>n. is_file H w (p_sub dest n)) BUNDLE_FILES)"

definition export_vm :: "host \<Rightarrow> string \<Rightarrow> path \<Rightarrow> unit io" where
  "export_vm H uuid dest =
     bnd (require_qemu H uuid) (\<lambda>vm_dir.
     andthen (stop_machine H uuid)
    (bnd (asks (\<lambda>w. p_exists H w dest)) (\<lambda>ex.
     if ex then raise (FileExistsError (''vm: export destination already exists: '' @ path_str dest))
     else
       andthen (mkdir_new H dest)
      (andthen (copy_bundle H vm_dir dest)
      (bnd (asks (\<lambda>w. manifest_of H w uuid dest)) (\<lambda>manifest.
       andthen (write_content H (child dest MANIFEST) manifest)
         (print_out (''VM '' @ uuid @ '' exported to '' @ path_str dest))))))))"

text \<open>\<open>json.loads(path.read_text()).get("format")\<close>.\<close>

definition manifest_format :: "host \<Rightarrow> path \<Rightarrow> int option io" where
  "manifest_format H p =
     bnd (read_content H p) (\<lambda>c. case c of ManifestDoc f _ _ _ \<Rightarrow> ret f | _ \<Rightarrow> raise JSONDecodeError)"

definition check_bundle :: "host \<Rightarrow> path \<Rightarrow> unit io" where
  "check_bundle H source =
     bnd (asks (\<lambda>w. is_file H w (child source MANIFEST))) (\<lambda>m.
     if \<not> m then raise (FileNotFoundError (''vm: import manifest missing: '' @ path_str (child source MANIFEST)))
     else bnd (manifest_format H (child source MANIFEST)) (\<lambda>format.
     if format \<noteq> Some FORMAT
     then raise (ValueError (''vm: unsupported import format: ''
            @ (case format of None \<Rightarrow> ''None'' | Some n \<Rightarrow> show_int n)))
     else bnd (asks (\<lambda>w. is_file H w (child source ''disk.qcow2'') \<and> is_file H w (child source ''vm.yaml''))) (\<lambda>ok.
     if \<not> ok then raise (FileNotFoundError (''vm: import bundle is missing disk or config: '' @ path_str source))
     else ret ())))"

definition reset_imported :: "host \<Rightarrow> path \<Rightarrow> int \<Rightarrow> unit io" where
  "reset_imported H vm_dir port =
     bnd (load_state H vm_dir) (\<lambda>first.
     bnd (if first = None then bnd (mark_stopped H vm_dir None) (\<lambda>_. load_state H vm_dir) else ret first) (\<lambda>state.
       case state of
         None \<Rightarrow> ret ()
       | Some s \<Rightarrow> bnd (asks (h_now H)) (\<lambda>now.
           save_state H vm_dir (s\<lparr>qs_created_at := now, qs_last_started_at := None, qs_last_stopped_at := None,
             qs_last_error := None, qs_pid_start := None, qs_ssh_port := Some port\<rparr>))))"

definition import_vm :: "host \<Rightarrow> path \<Rightarrow> string io" where
  "import_vm H source =
     andthen (check_bundle H source)
    (bnd (run_qemu_img H [''info'', path_str (child source ''disk.qcow2'')]) (\<lambda>_.
     bnd (uuid7 H) (\<lambda>uuid.
     let vm_dir = vm_dir_of H uuid in
     andthen (mkdir_new H vm_dir)
    (andthen (copy_bundle H source vm_dir)
    (bnd (load_config H (yaml_path vm_dir)) (\<lambda>cfg.
     bnd (asks (\<lambda>w. allocate_ssh_port H w (ssh_host_port (qemu (isolation cfg))))) (\<lambda>port.
     andthen (write_text H (port_path vm_dir) (show_int port))
    (andthen (reset_imported H vm_dir port)
    (andthen (print_out (''VM imported as '' @ uuid)) (ret uuid))))))))))"

end
