(* ===== verification/VmSync.thy ===== *)
theory VmSync
  imports VmLifecycle
begin

text \<open>
  \<open>workspace/cli/vm_sync.py\<close> and \<open>workspace/cli/qemu_sync.py\<close>: copying the configured host
  directories into the machine with rsync.
\<close>

definition exclude_args :: "sync_entry \<Rightarrow> string list" where
  "exclude_args entry = concat (map (\<lambda>p. [''--exclude'', p]) (sy_exclude entry))"

definition sync_label :: "nat \<Rightarrow> string \<Rightarrow> string" where
  "sync_label n uuid = ''vm: synced '' @ show_nat n @ '' '' @ (if n = 1 then ''directory'' else ''directories'')
     @ '' to VM '' @ quoted uuid"

text \<open>The rules in order; each says whether it copied something.\<close>

fun run_rules :: "(sync_entry \<Rightarrow> bool io) \<Rightarrow> nat \<Rightarrow> sync_entry list \<Rightarrow> nat io" where
  "run_rules f n [] = ret n"
| "run_rules f n (e # es) = bnd (f e) (\<lambda>done_it. run_rules f (if done_it then Suc n else n) es)"

section \<open>Containers\<close>

definition podman_rsync :: "sync_entry \<Rightarrow> path \<Rightarrow> string \<Rightarrow> string list" where
  "podman_rsync entry src mountpoint =
     [''rsync'', ''-a''] @ exclude_args entry
     @ (if sy_strategy entry = StOverwrite then [''--delete''] else []) @ [path_str src @ ''/'', mountpoint]"

definition podman_rule :: "host \<Rightarrow> string \<Rightarrow> sync_entry \<Rightarrow> bool io" where
  "podman_rule H mountpoint entry =
     (let src = mk_path (expanduser H (sy_dir entry)) in
      bnd (asks (\<lambda>w. is_dir H w src)) (\<lambda>d.
        if \<not> d then andthen (print_out (''vm: sync: source directory '' @ quoted (path_str src) @ '' not found, skipping''))
                       (ret False)
        else andthen (run_cmd H (podman_rsync entry src mountpoint)) (ret True)))"

section \<open>QEMU machines\<close>

definition escapes :: "host \<Rightarrow> path \<Rightarrow> bool" where
  "escapes H p \<longleftrightarrow> resolve (h_cwd H) p = Path True []"

definition sync_ssh :: "path \<Rightarrow> string \<Rightarrow> string" where
  "sync_ssh key port = ''ssh -i '' @ path_str key
     @ '' -o StrictHostKeyChecking=no -o UserKnownHostsFile=/dev/null -o BatchMode=yes -p '' @ port"

definition qemu_rsync :: "string \<Rightarrow> sync_entry \<Rightarrow> path \<Rightarrow> string list" where
  "qemu_rsync ssh_cmd entry source =
     [''rsync'', ''-az'', ''-e'', ssh_cmd] @ exclude_args entry
     @ (if sy_strategy entry = StOverwrite then [''--delete'']
        else if sy_strategy entry = StSkip then [''--ignore-existing''] else [])
     @ [path_str source @ ''/'', ''workspace@127.0.0.1:'' @ VM_INSTALL_ROOT @ ''/'']"

definition qemu_rule :: "host \<Rightarrow> string \<Rightarrow> sync_entry \<Rightarrow> bool io" where
  "qemu_rule H ssh_cmd entry =
     (let source = mk_path (expanduser H (sy_dir entry)) in
      bnd (asks (\<lambda>w. is_dir H w source)) (\<lambda>d.
        if \<not> d then andthen (print_out (''vm: sync: source directory '' @ quoted (path_str source) @ '' not found'')) (ret False)
        else if escapes H source then raise (ValueError (''vm: sync: source escapes workspace: '' @ path_str source))
        else andthen (run_cmd H (qemu_rsync ssh_cmd entry source)) (ret True)))"

definition qemu_sync :: "host \<Rightarrow> string \<Rightarrow> unit io" where
  "qemu_sync H uuid =
     bnd (load_vm_config H uuid) (\<lambda>cfg.
       if backend (isolation cfg) \<noteq> Qemu then raise (ValueError (''vm: qemu sync requires the qemu backend: '' @ uuid))
       else if sync cfg = [] then print_out (''vm: no sync rules configured for VM '' @ quoted uuid)
       else bnd (read_text H (port_path (vm_dir_of H uuid))) (\<lambda>t.
            bnd (run_rules (qemu_rule H (sync_ssh (ssh_key_path (vm_dir_of H uuid)) (strip t))) 0 (sync cfg)) (\<lambda>n.
              print_out (sync_label n uuid))))"

section \<open>The command\<close>

definition volume_mountpoint :: "host \<Rightarrow> string \<Rightarrow> string io" where
  "volume_mountpoint H uuid =
     catch is_called_process_error
       (bnd (podman H [''volume'', ''inspect'', ''-f'', ''{{.Mountpoint}}'', volume_of uuid ''workspace'']) (\<lambda>r.
          ret (strip (fst r))))
       (\<lambda>_. andthen (print_err (''vm: cannot find workspace volume for VM '' @ quoted uuid)) (raise (SystemExit 1)))"

definition vm_sync :: "host \<Rightarrow> string \<Rightarrow> unit io" where
  "vm_sync H uuid =
     bnd (asks (\<lambda>w. p_exists H w (yaml_path (vm_dir_of H uuid)))) (\<lambda>ex.
       if \<not> ex then andthen (print_err (''vm: no vm.yaml found for VM '' @ quoted uuid)) (raise (SystemExit 1))
       else bnd (load_config H (yaml_path (vm_dir_of H uuid))) (\<lambda>cfg.
         if backend (isolation cfg) = Qemu then qemu_sync H uuid
         else if sync cfg = [] then print_out (''vm: no sync rules configured for VM '' @ quoted uuid)
         else bnd (volume_mountpoint H uuid) (\<lambda>mountpoint.
              bnd (run_rules (podman_rule H mountpoint) 0 (sync cfg)) (\<lambda>n. print_out (sync_label n uuid)))))"

section \<open>Facts\<close>

text \<open>The requests of a run of the rules are the copies of the rules whose directory is there, in order, up to
  the first failure.\<close>

lemma orderly_rules:
  assumes "\<And>e. orderly (if P e then [c e] else []) (f e)"
  shows "orderly (map c (filter P es)) (run_rules f n es)"
proof (induction es arbitrary: n)
  case Nil
  show ?case by (simp add: orderly_quiet emits_simple)
next
  case (Cons e es)
  have "orderly ((if P e then [c e] else []) @ map c (filter P es)) (run_rules f n (e # es))"
    unfolding run_rules.simps by (rule orderly_bnd [OF assms Cons.IH])
  then show ?case by (simp split: if_splits)
qed

definition qemu_copy :: "host \<Rightarrow> string \<Rightarrow> sync_entry \<Rightarrow> request" where
  "qemu_copy H ssh_cmd e = Run (plain_call (qemu_rsync ssh_cmd e (mk_path (expanduser H (sy_dir e)))))"

lemma orderly_run_cmd: "orderly [Run (plain_call argv)] (run_cmd H argv)"
  unfolding run_cmd_def by (rule orderly_last [OF orderly_run_checked]) (rule emits_simple)

lemma orderly_qemu_rule:
  "orderly (if \<not> escapes H (mk_path (expanduser H (sy_dir e))) then [qemu_copy H s e] else []) (qemu_rule H s e)"
proof -
  have cp: "orderly [qemu_copy H s e] (andthen (run_cmd H (qemu_rsync s e (mk_path (expanduser H (sy_dir e))))) (ret True))"
    unfolding qemu_copy_def andthen_def by (rule orderly_last [OF orderly_run_cmd]) (rule emits_simple)
  show ?thesis
    unfolding qemu_rule_def Let_def
    by (intro orderly_after emits_simple) (auto intro!: orderly_quiet emits_intros cp)
qed

lemma orderly_qemu_sync_rules:
  "orderly (map (qemu_copy H s) (filter (\<lambda>e. \<not> escapes H (mk_path (expanduser H (sy_dir e)))) es))
     (run_rules (qemu_rule H s) n es)"
  by (rule orderly_rules [OF orderly_qemu_rule])

section \<open>Properties\<close>


lemma load_vm_config_stored:
  "at H w (yaml_path (vm_dir_of H uuid)) = Some (File (ConfigDoc raw)) \<Longrightarrow> validate_config (h_darwin H) raw = Inr cfg \<Longrightarrow>
   load_vm_config H uuid w = (Inr cfg, w)"
  by (simp add: load_vm_config_def load_config_def bnd_def asks_def is_file_def read_content_def ret_def)

text \<open>A machine with one rule, and its directory.\<close>

definition demo_synced :: vm_config where
  "demo_synced = demo_qemu\<lparr>sync := [\<lparr>sy_dir = ''/data'', sy_strategy = StMerge, sy_exclude = []\<rparr>]\<rparr>"

definition demo_sync :: world where
  "demo_sync = demo_world [([''data''], Dir), ([''work'', ''workspace''], Dir), ([''work'', ''.vms'', ''vm1'', ''vm.yaml''], File (ConfigDoc demo_synced)),
     ([''work'', ''.vms'', ''vm1'', ''ssh_port''], File (Text ''2222''))] []"

lemma demo_sync_facts:
  "load_vm_config demo_host ''vm1'' demo_sync = (Inr demo_synced, demo_sync)"
  "at demo_host demo_sync (port_path (vm_dir_of demo_host ''vm1'')) = Some (File (Text ''2222''))"
proof -
  have v: "validate_config False demo_synced = Inr demo_synced" by code_simp
  have "at demo_host demo_sync (yaml_path (vm_dir_of demo_host ''vm1'')) = Some (File (ConfigDoc demo_synced))"
    by (simp add: demo_sync_def demo_at yaml_path_def)
  then show "load_vm_config demo_host ''vm1'' demo_sync = (Inr demo_synced, demo_sync)"
    using v by (intro load_vm_config_stored) simp_all
  show "at demo_host demo_sync (port_path (vm_dir_of demo_host ''vm1'')) = Some (File (Text ''2222''))"
    by (simp add: demo_sync_def demo_at port_path_def)
qed


end
