(* ===== verification/BundleFacts.thy ===== *)
theory BundleFacts
  imports VmSnapshots VmSync
begin

text \<open>
  Facts about \<open>export\<close> and \<open>import\<close>: the files of a bundle do not overlap, what copying them changes and
  leaves alone, when a copy into a fresh directory succeeds, and the record an import leaves behind.
\<close>

section \<open>Facts: copying a bundle\<close>

text \<open>Creating directories neither makes nor removes a file.\<close>

definition same_files :: "(path \<Rightarrow> node option) \<Rightarrow> (path \<Rightarrow> node option) \<Rightarrow> bool" where
  "same_files f g \<longleftrightarrow> (\<forall>q c. f q = Some (File c) \<longleftrightarrow> g q = Some (File c))"

lemma wp_mkdir_files:
  assumes "E (FileExistsError (path_str p)) w" "\<And>f. same_files f (fs w) \<Longrightarrow> Q () (w\<lparr>fs := f\<rparr>)"
  shows "wp (mkdir_parents H p) Q E w"
proof -
  let ?a = "map (\<lambda>k. Path True (take k (parts (resolve (h_cwd H) p)))) [0..<Suc (length (parts (resolve (h_cwd H) p)))]"
  show ?thesis
  proof (cases "\<exists>a \<in> set ?a. fs w a \<noteq> None \<and> fs w a \<noteq> Some Dir")
    case True
    with assms(1) show ?thesis unfolding wp_def mkdir_parents_def Let_def by (simp only: if_True) simp
  next
    case False
    then have "\<forall>a \<in> set ?a. \<forall>c. fs w a \<noteq> Some (File c)" by (metis node.distinct(1) option.distinct(1) option.inject)
    then have "same_files (\<lambda>x. if x \<in> set ?a then Some Dir else fs w x) (fs w)"
      unfolding same_files_def by (metis (no_types, lifting) node.distinct(1) option.inject)
    from assms(2) [OF this] False show ?thesis unfolding wp_def mkdir_parents_def Let_def by (simp only: if_False) simp
  qed
qed

text \<open>The names of a bundle end in different components, so no two of its files are at the same place.\<close>

definition bundle_name :: "string \<Rightarrow> string" where
  "bundle_name n = last (split_on (CHR ''/'') n)"

lemma bundle_split:
  "split_on (CHR ''/'') ''disk.qcow2'' = [''disk.qcow2'']" "split_on (CHR ''/'') ''vm.yaml'' = [''vm.yaml'']"
  "split_on (CHR ''/'') ''vm-install-defaults.yaml'' = [''vm-install-defaults.yaml'']"
  "split_on (CHR ''/'') ''state.yaml'' = [''state.yaml'']" "split_on (CHR ''/'') ''password'' = [''password'']"
  "split_on (CHR ''/'') ''qemu_ssh_ed25519'' = [''qemu_ssh_ed25519'']"
  "split_on (CHR ''/'') ''cloud-init/seed.img'' = [''cloud-init'', ''seed.img'']"
  "split_on (CHR ''/'') ''cloud-init/user-data'' = [''cloud-init'', ''user-data'']"
  "split_on (CHR ''/'') ''cloud-init/meta-data'' = [''cloud-init'', ''meta-data'']"
proof -
  show "split_on (CHR ''/'') ''disk.qcow2'' = [''disk.qcow2'']" by (rule split_on_no_sep) simp
  show "split_on (CHR ''/'') ''vm.yaml'' = [''vm.yaml'']" by (rule split_on_no_sep) simp
  show "split_on (CHR ''/'') ''vm-install-defaults.yaml'' = [''vm-install-defaults.yaml'']" by (rule split_on_no_sep) simp
  show "split_on (CHR ''/'') ''state.yaml'' = [''state.yaml'']" by (rule split_on_no_sep) simp
  show "split_on (CHR ''/'') ''password'' = [''password'']" by (rule split_on_no_sep) simp
  show "split_on (CHR ''/'') ''qemu_ssh_ed25519'' = [''qemu_ssh_ed25519'']" by (rule split_on_no_sep) simp
  have two: "CHR ''/'' \<notin> set x \<Longrightarrow> CHR ''/'' \<notin> set y \<Longrightarrow> split_on (CHR ''/'') (x @ CHR ''/'' # y) = [x, y]" for x y
    by (simp add: split_on_append_sep split_on_no_sep)
  show "split_on (CHR ''/'') ''cloud-init/seed.img'' = [''cloud-init'', ''seed.img'']"
    "split_on (CHR ''/'') ''cloud-init/user-data'' = [''cloud-init'', ''user-data'']"
    "split_on (CHR ''/'') ''cloud-init/meta-data'' = [''cloud-init'', ''meta-data'']"
    using two [of "''cloud-init''" "''seed.img''"] two [of "''cloud-init''" "''user-data''"] two [of "''cloud-init''" "''meta-data''"]
    by (simp_all del: split_on_Cons)
qed

lemmas bundle_eval = BUNDLE_FILES_def bundle_name_def mk_path_def bundle_split

lemma bundle_names_distinct: "distinct (map bundle_name BUNDLE_FILES)" "distinct BUNDLE_FILES"
  by (simp_all add: bundle_eval del: split_on_Cons)

lemma bundle_names: "set (map bundle_name BUNDLE_FILES) = {''disk.qcow2'', ''vm.yaml'', ''vm-install-defaults.yaml'', ''state.yaml'',
    ''password'', ''qemu_ssh_ed25519'', ''seed.img'', ''user-data'', ''meta-data''}"
  by (simp add: bundle_eval del: split_on_Cons)

lemma bundle_path: "n \<in> set BUNDLE_FILES \<Longrightarrow> path_name (resolve c (p_sub s n)) = bundle_name n"
proof -
  have m: "list_all (\<lambda>n. \<not> absolute (mk_path n) \<and> parts (mk_path n) \<noteq> [] \<and> last (parts (mk_path n)) = bundle_name n \<and> bundle_name n \<noteq> ''..'')
      BUNDLE_FILES"
    by (simp add: bundle_eval del: split_on_Cons)
  assume "n \<in> set BUNDLE_FILES"
  with m have n: "\<not> absolute (mk_path n)" "parts (mk_path n) \<noteq> []" "last (parts (mk_path n)) = bundle_name n" "bundle_name n \<noteq> ''..''"
    by (auto simp: list_all_iff)
  then have "p_sub s n = child (Path (absolute s) (parts s @ butlast (parts (mk_path n)))) (bundle_name n)"
    by (simp add: p_sub_def p_join_def child_def) (metis append_butlast_last_id)
  with n(4) show ?thesis by simp
qed

lemma bundle_apart:
  "n \<in> set BUNDLE_FILES \<Longrightarrow> m \<in> set BUNDLE_FILES \<Longrightarrow> n \<noteq> m \<Longrightarrow> resolve c (p_sub s n) \<noteq> resolve c (p_sub d m)"
  using bundle_path bundle_names_distinct(1) by (metis distinct_map inj_onD)

lemma bundle_child:
  "n \<in> set BUNDLE_FILES \<Longrightarrow> k \<notin> set (map bundle_name BUNDLE_FILES) \<Longrightarrow> k \<noteq> ''..'' \<Longrightarrow>
   resolve c (p_sub s n) \<noteq> child (resolve c d) k"
  using bundle_path [of n c s] by (metis list.set_map imageI path_name_child)

lemma bundle_state: "p_sub s ''state.yaml'' = child s ''state.yaml''" "''state.yaml'' \<in> set BUNDLE_FILES"
  "p_sub s ''vm.yaml'' = child s ''vm.yaml''" "''vm.yaml'' \<in> set BUNDLE_FILES"
  by (simp_all add: p_sub_plain plain_def BUNDLE_FILES_def)

text \<open>What has been copied: where the source has the file, the destination has it with the same content.\<close>

definition copied :: "host \<Rightarrow> world \<Rightarrow> path \<Rightarrow> path \<Rightarrow> string \<Rightarrow> bool" where
  "copied H w s d n \<longleftrightarrow>
     (case at H w (p_sub s n) of Some (File c) \<Rightarrow> at H w (p_sub d n) = Some (File c) | _ \<Rightarrow> True)"

lemma copied_iff: "copied H w s d n \<longleftrightarrow> (\<forall>c. at H w (p_sub s n) = Some (File c) \<longrightarrow> at H w (p_sub d n) = Some (File c))"
  by (auto simp: copied_def split: option.split node.split)

text \<open>One step of the copy: the file arrives, and no file changes elsewhere.\<close>

definition copy_step :: "host \<Rightarrow> path \<Rightarrow> path \<Rightarrow> string list \<Rightarrow> world \<Rightarrow> world \<Rightarrow> bool" where
  "copy_step H s d ns w w' \<longleftrightarrow> procs w' = procs w \<and> requests w' = requests w \<and>
     (\<forall>n \<in> set ns. copied H w' s d n) \<and>
     (\<forall>n \<in> set ns. \<forall>c. at H w (p_sub s n) = Some (File c) \<longrightarrow> at H w' (p_sub s n) = Some (File c)) \<and>
     (\<forall>p c. (\<forall>n \<in> set ns. resolve (h_cwd H) p \<noteq> resolve (h_cwd H) (p_sub d n)) \<longrightarrow>
        (at H w' p = Some (File c) \<longleftrightarrow> at H w p = Some (File c)))"

lemma copy_bundled_effect: "wp (copy_bundled H s d n) (\<lambda>_. copy_step H s d [n] w) (\<lambda>_ _. True) w"
proof -
  have missing: "copy_step H s d [n] w w" if "\<not> is_file H w (p_sub s n)"
    using that by (auto simp: copy_step_def copied_iff is_file_def)
  have here: "copy_step H s d [n] w (set_node H (p_sub d n) (Some (File c)) (w\<lparr>fs := f\<rparr>))"
    if "same_files f (fs w)" "at H w (p_sub s n) = Some (File c)" for f c
    using that by (auto simp: copy_step_def copied_iff same_files_def) (auto simp: at_def set_node_def)
  show ?thesis
    unfolding copy_bundled_def copy_file_def wps
    by (auto simp: missing wps same_files_def at_def split: option.split node.split intro!: wp_mkdir_files)
      (use here in \<open>auto simp: is_file_def at_def same_files_def split: option.splits node.splits\<close>)
qed

lemma copy_step_nil: "copy_step H s d [] w w"
  by (simp add: copy_step_def)

lemma copy_step_Cons:
  assumes "copy_step H s d [n] w v" "copy_step H s d ns v w'" "n \<notin> set ns" "set (n # ns) \<subseteq> set BUNDLE_FILES"
  shows "copy_step H s d (n # ns) w w'"
proof -
  have apart: "resolve (h_cwd H) (p_sub x n) \<noteq> resolve (h_cwd H) (p_sub d m)"
    "resolve (h_cwd H) (p_sub x m) \<noteq> resolve (h_cwd H) (p_sub d n)" if "m \<in> set ns" for m x
  proof -
    from that assms(3,4) have "n \<in> set BUNDLE_FILES" "m \<in> set BUNDLE_FILES" "n \<noteq> m" "m \<noteq> n" by auto
    then show "resolve (h_cwd H) (p_sub x n) \<noteq> resolve (h_cwd H) (p_sub d m)"
      "resolve (h_cwd H) (p_sub x m) \<noteq> resolve (h_cwd H) (p_sub d n)" by (auto simp: bundle_apart)
  qed
  have tail: "at H w' (p_sub x n) = Some (File c) \<longleftrightarrow> at H v (p_sub x n) = Some (File c)" for x c
    using assms(2) apart(1) unfolding copy_step_def by blast
  have head: "at H v (p_sub x m) = Some (File c) \<longleftrightarrow> at H w (p_sub x m) = Some (File c)" if "m \<in> set ns" for m x c
    using assms(1) apart(2) [OF that] unfolding copy_step_def by simp
  have "copied H w' s d n" using assms(1) tail unfolding copy_step_def copied_iff by simp
  moreover have "at H w' (p_sub s n) = Some (File c)" if "at H w (p_sub s n) = Some (File c)" for c
    using assms(1) tail that unfolding copy_step_def by simp
  ultimately show ?thesis
    using assms(1,2) head unfolding copy_step_def by simp
qed

lemma copy_all_effect:
  "distinct ns \<Longrightarrow> set ns \<subseteq> set BUNDLE_FILES \<Longrightarrow>
   wp (each (copy_bundled H s d) ns) (\<lambda>_. copy_step H s d ns w) (\<lambda>_ _. True) w"
proof (induction ns arbitrary: w)
  case Nil
  show ?case by (simp add: wps copy_step_nil)
next
  case (Cons n ns)
  have "wp (each (copy_bundled H s d) ns) (\<lambda>_. copy_step H s d (n # ns) w) (\<lambda>_ _. True) v"
    if "copy_step H s d [n] w v" for v
    using Cons by (auto intro!: wp_mono [OF Cons.IH] copy_step_Cons [OF that])
  then show ?case by (auto simp: wps intro!: wp_mono [OF copy_bundled_effect])
qed

lemma copy_bundle_effect: "wp (copy_bundle H s d) (\<lambda>_. copy_step H s d BUNDLE_FILES w) (\<lambda>_ _. True) w"
  unfolding copy_bundle_def by (rule copy_all_effect) (simp_all add: bundle_names_distinct)

lemma is_file_iff: "is_file H w p \<longleftrightarrow> (\<exists>c. at H w p = Some (File c))"
  by (auto simp: is_file_def split: option.split node.split)

text \<open>Files with other names are left alone.\<close>

lemma copy_step_other:
  "copy_step H s d BUNDLE_FILES w w' \<Longrightarrow> k \<notin> set (map bundle_name BUNDLE_FILES) \<Longrightarrow> k \<noteq> ''..'' \<Longrightarrow>
   at H w' (child p k) = Some (File c) \<longleftrightarrow> at H w (child p k) = Some (File c)"
  unfolding copy_step_def using bundle_child by (metis resolve_child)

lemma copy_step_source:
  "copy_step H s d ns w w' \<Longrightarrow> n \<in> set ns \<Longrightarrow> at H w (p_sub s n) = Some (File c) \<Longrightarrow> at H w' (p_sub s n) = Some (File c)"
  by (simp add: copy_step_def)

lemma copy_step_clean:
  assumes step: "copy_step H s d BUNDLE_FILES w w'" and clean: "stopped_clean H w s"
  shows "stopped_clean H w' s"
proof -
  have "''qemu.pid'' \<notin> set (map bundle_name BUNDLE_FILES)" unfolding bundle_names by simp
  then have pid: "is_file H w' (pid_path s) \<longleftrightarrow> is_file H w (pid_path s)"
    using copy_step_other [OF step, of "''qemu.pid''" s] by (simp add: is_file_iff pid_path_def)
  have "stored H w' s = Stored r" if "stored H w s = Stored r" for r
  proof -
    from that have "at H w (p_sub s ''state.yaml'') = Some (File (StateDoc r))"
      by (auto simp: stored_def state_path_def STATE_FILE_def bundle_state split: option.splits node.splits content.splits)
    then have "at H w' (state_path s) = Some (File (StateDoc r))"
      using copy_step_source [OF step bundle_state(2)] by (simp add: bundle_state(1) state_path_def STATE_FILE_def)
    then show ?thesis by (simp add: stored_def)
  qed
  with clean pid show ?thesis by (auto simp: stopped_clean_def)
qed

lemma stored_iff: "stored H w d = Stored r \<longleftrightarrow> at H w (state_path d) = Some (File (StateDoc r))"
  by (auto simp: stored_def split: option.split node.split content.split)

lemma same_files_clean: "same_files (fs v) (fs w) \<Longrightarrow> stopped_clean H w d \<Longrightarrow> stopped_clean H v d"
  by (simp add: stopped_clean_def is_file_iff stored_iff at_def same_files_def)

section \<open>Facts: the steps that return\<close>

lemma bnd_Inr: "bnd m f w = (Inr b, w') \<longleftrightarrow> (\<exists>a v. m w = (Inr a, v) \<and> f a v = (Inr b, w'))"
  by (auto simp: bnd_def split: prod.splits sum.splits)

lemma andthen_Inr: "andthen m k w = (Inr b, w') \<longleftrightarrow> (\<exists>a v. m w = (Inr a, v) \<and> k v = (Inr b, w'))"
  by (simp add: andthen_def bnd_Inr)

lemma asks_Inr: "asks f w = (Inr b, w') \<longleftrightarrow> b = f w \<and> w' = w"
  by (auto simp: asks_def)

lemma if_raise_Inr: "(if b then raise e else m) w = (Inr a, w') \<longleftrightarrow> \<not> b \<and> m w = (Inr a, w')"
  by (simp add: raise_def)

lemma ret_Inr: "ret b w = (Inr a, w') \<longleftrightarrow> a = b \<and> w' = w"
  by (auto simp: ret_def)

lemmas returns = bnd_Inr andthen_Inr asks_Inr if_raise_Inr ret_Inr

lemma load_vm_config_pure: "load_vm_config H uuid w = (Inr cfg, v) \<Longrightarrow> v = w"
  by (auto simp: load_vm_config_def load_config_def bnd_def asks_def read_content_def ret_def raise_def andthen_def
      split: if_splits option.splits node.splits content.splits sum.splits prod.splits)

lemma require_qemu_Inr:
  "require_qemu H uuid w = (Inr d, v) \<Longrightarrow> v = w \<and> d = vm_dir_of H uuid \<and>
     (\<exists>cfg. load_vm_config H uuid w = (Inr cfg, w) \<and> backend (isolation cfg) = backend_kind.Qemu)"
  unfolding require_qemu_def by (auto simp: returns dest: load_vm_config_pure)

lemma stop_machine_qemu:
  "load_vm_config H uuid w = (Inr cfg, w) \<Longrightarrow> backend (isolation cfg) = backend_kind.Qemu \<Longrightarrow>
   stop_machine H uuid w = qemu_stop H uuid w"
  by (simp add: stop_machine_def bnd_def get_backend_def qemu_backend_def)

lemma mkdir_new_Inr: "mkdir_new H p w = (Inr x, v) \<Longrightarrow> \<not> p_exists H w p \<and> same_files (fs v) (fs w)"
proof -
  assume m: "mkdir_new H p w = (Inr x, v)"
  have "wp (mkdir_new H p) (\<lambda>_ v. \<not> p_exists H w p \<and> same_files (fs v) (fs w)) (\<lambda>_ _. True) w"
    by (auto simp: mkdir_new_def wps intro!: wp_mkdir_files)
  from wp_returns [OF this m] show ?thesis .
qed

lemma write_content_Inr: "write_content H p c w = (Inr x, v) \<Longrightarrow> v = set_node H p (Some (File c)) w"
  by (simp add: write_content_def split: if_splits option.splits)

section \<open>Facts: a copy into a fresh directory succeeds\<close>

text \<open>A directory with the directories above it.\<close>

definition trail :: "path \<Rightarrow> path list" where
  "trail r = map (\<lambda>k. Path True (take k (parts r))) [0..<Suc (length (parts r))]"

lemma trail_child [simp]: "absolute r \<Longrightarrow> set (trail (child r n)) = insert (child r n) (set (trail r))"
  by (auto simp: trail_def child_def less_Suc_eq)

lemma trail_self [simp]: "absolute r \<Longrightarrow> r \<in> set (trail r)"
  by (cases r) (auto simp: trail_def)

lemma trail_short: "a \<in> set (trail r) \<Longrightarrow> length (parts a) \<le> length (parts r)"
  by (auto simp: trail_def)

lemma mkdir_trail:
  assumes "\<And>a. a \<in> set (trail (resolve (h_cwd H) p)) \<Longrightarrow> fs w a \<in> {None, Some Dir}"
  shows "mkdir_parents H p w = (Inr (), w\<lparr>fs := (\<lambda>x. if x \<in> set (trail (resolve (h_cwd H) p)) then Some Dir else fs w x)\<rparr>)"
  using assms unfolding mkdir_parents_def Let_def trail_def [symmetric] by auto

lemma bundle_parent:
  assumes "n \<in> set BUNDLE_FILES"
  shows "p_sub d n = child d (bundle_name n) \<or> p_sub d n = child (child d ''cloud-init'') (bundle_name n)"
proof -
  have "list_all (\<lambda>n. mk_path n = Path False [bundle_name n] \<or> mk_path n = Path False [''cloud-init'', bundle_name n]) BUNDLE_FILES"
    by (simp add: bundle_eval del: split_on_Cons)
  with assms show ?thesis by (auto simp: list_all_iff p_sub_def p_join_def child_def)
qed

lemma bundle_plain: "n \<in> set BUNDLE_FILES \<Longrightarrow> bundle_name n \<noteq> ''..'' \<and> bundle_name n \<noteq> ''cloud-init''"
proof -
  assume "n \<in> set BUNDLE_FILES"
  then have "bundle_name n \<in> set (map bundle_name BUNDLE_FILES)" by simp
  then show ?thesis unfolding bundle_names by auto
qed

definition room :: "host \<Rightarrow> world \<Rightarrow> path \<Rightarrow> bool" where
  "room H w d \<longleftrightarrow> (\<forall>a \<in> set (trail (resolve (h_cwd H) d)). fs w a = Some Dir) \<and>
     at H w (child d ''cloud-init'') \<in> {None, Some Dir} \<and> (\<forall>n \<in> set BUNDLE_FILES. at H w (p_sub d n) \<noteq> Some Dir) \<and>
     (\<forall>k. k \<noteq> ''cloud-init'' \<longrightarrow> fs w (child (resolve (h_cwd H) d) k) \<noteq> Some Dir)"

lemma sibling_not_in_trail: "absolute r \<Longrightarrow> k \<noteq> ''cloud-init'' \<Longrightarrow> child r k \<notin> set (trail (child r ''cloud-init''))"
  by (auto dest!: trail_short)

lemma room_file: "room H w d \<Longrightarrow> k \<noteq> ''cloud-init'' \<Longrightarrow> k \<noteq> ''..'' \<Longrightarrow> at H w (child d k) \<noteq> Some Dir \<and>
    is_dir H w d \<and> is_dir H w (resolve (h_cwd H) d)"
  by (simp add: room_def at_def is_dir_def)

lemma bundle_not_in_trail:
  assumes "n \<in> set BUNDLE_FILES"
  shows "resolve c (p_sub d n) \<notin> set (trail (child (resolve c d) ''cloud-init''))"
proof -
  have "child (resolve c d) (bundle_name n) \<notin> set (trail (resolve c d))"
    "child (child (resolve c d) ''cloud-init'') (bundle_name n) \<notin> set (trail (resolve c d))"
    by (auto dest!: trail_short)
  then show ?thesis using bundle_parent [OF assms, of d] bundle_plain [OF assms] by auto
qed

lemma copy_bundled_succeeds:
  assumes room: "room H w d" and w: "\<And>p. \<not> h_unwritable H p" "\<And>v p c. h_torn H v p c = None" and n: "n \<in> set BUNDLE_FILES"
  shows "wp (copy_bundled H s d n) (\<lambda>_ w'. room H w' d) (\<lambda>_ _. False) w"
proof (cases "is_file H w (p_sub s n)")
  case False
  then show ?thesis using room by (simp add: copy_bundled_def wps)
next
  case True
  then obtain c where src: "at H w (p_sub s n) = Some (File c)" by (auto simp: is_file_iff)
  let ?r = "resolve (h_cwd H) d" and ?q = "parent (p_sub d n)"
  have q: "resolve (h_cwd H) ?q = ?r \<or> resolve (h_cwd H) ?q = child ?r ''cloud-init''"
    and pq: "parent (resolve (h_cwd H) (p_sub d n)) = resolve (h_cwd H) ?q"
    using bundle_parent [OF n, of d] bundle_plain [OF n] by auto
  then have sub: "set (trail (resolve (h_cwd H) ?q)) \<subseteq> set (trail (child ?r ''cloud-init''))" by auto
  have dirs: "fs w a \<in> {None, Some Dir}" if "a \<in> set (trail (child ?r ''cloud-init''))" for a
    using that room by (auto simp: room_def at_def)
  define v where "v = w\<lparr>fs := (\<lambda>x. if x \<in> set (trail (resolve (h_cwd H) ?q)) then Some Dir else fs w x)\<rparr>"
  have mk: "mkdir_parents H ?q w = (Inr (), v)"
    unfolding v_def using sub dirs by (intro mkdir_trail) auto
  have src': "at H v (p_sub s n) = Some (File c)"
    using src sub dirs [of "resolve (h_cwd H) (p_sub s n)"] by (auto simp: v_def at_def)
  have sib: "child ?r k \<notin> set (trail (resolve (h_cwd H) ?q))" if "k \<noteq> ''cloud-init''" for k
    using sub sibling_not_in_trail [OF absolute_resolve that] by blast
  have room': "room H v d"
    using room sub sib bundle_not_in_trail [of _ "h_cwd H" d] by (auto simp: room_def v_def at_def)
  have dir: "is_dir H v ?q" by (simp add: is_dir_def at_def v_def)
  have fin: "room H (set_node H (p_sub d n) (Some (File c)) v) d"
    using room' bundle_not_in_trail [OF n, of "h_cwd H" d]
    by (auto simp: room_def set_node_def at_def)
  have nd: "at H v (p_sub d n) \<noteq> Some Dir" using room' n by (auto simp: room_def)
  have "wp (copy_file H (p_sub s n) (p_sub d n)) (\<lambda>_ w'. room H w' d) (\<lambda>_ _. False) v"
    using src' w nd dir fin by (simp add: copy_file_def wps pq) (simp add: is_dir_def)
  with True mk show ?thesis by (simp add: copy_bundled_def wps) (simp add: wp_def)
qed

lemma copy_bundle_succeeds:
  assumes "room H w d" "\<And>p. \<not> h_unwritable H p" "\<And>v p c. h_torn H v p c = None"
  shows "wp (copy_bundle H s d) (\<lambda>_ w'. room H w' d) (\<lambda>_ _. False) w"
proof -
  have "room H w d \<Longrightarrow> set ns \<subseteq> set BUNDLE_FILES \<Longrightarrow> wp (each (copy_bundled H s d) ns) (\<lambda>_ w'. room H w' d) (\<lambda>_ _. False) w" for ns w
  proof (induction ns arbitrary: w)
    case (Cons n ns)
    then show ?case by (auto simp: wps intro!: wp_mono [OF copy_bundled_succeeds [OF _ assms(2,3)]])
  qed (simp add: wps)
  with assms(1) show ?thesis by (simp add: copy_bundle_def)
qed

text \<open>A place where nothing stands, below directories or nothing.\<close>

definition fresh_place :: "host \<Rightarrow> world \<Rightarrow> path \<Rightarrow> bool" where
  "fresh_place H w d \<longleftrightarrow> (\<forall>ps. fs w (Path True (parts (resolve (h_cwd H) d) @ ps)) = None) \<and>
     list_all (\<lambda>a. fs w a \<in> {None, Some Dir}) (trail (resolve (h_cwd H) d))"

lemma mkdir_fresh:
  assumes "fresh_place H w d"
  shows "\<exists>v. mkdir_new H d w = (Inr (), v) \<and> room H v d \<and>
    (\<forall>c p. at H w p = Some (File c) \<longrightarrow> at H v p = Some (File c)) \<and> draws v = draws w"
proof -
  let ?r = "resolve (h_cwd H) d"
  define v where "v = w\<lparr>fs := (\<lambda>x. if x \<in> set (trail ?r) then Some Dir else fs w x)\<rparr>"
  have none: "fs w (Path True (parts ?r @ ps)) = None" for ps using assms by (simp add: fresh_place_def)
  have r: "?r = Path True (parts ?r)" by (metis absolute_resolve path.collapse)
  have gone: "fs w ?r = None" "fs w (child ?r k) = None" "fs w (child (child ?r k) l) = None" for k l
    using none [of "[]"] none [of "[k]"] none [of "[k, l]"] r by (simp_all add: child_def)
  have mk: "mkdir_new H d w = (Inr (), v)"
    using assms gone(1) mkdir_trail [of H d w] by (simp add: mkdir_new_def bnd_def asks_def p_exists_def at_def fresh_place_def v_def list_all_iff)
  have long: "child ?r k \<notin> set (trail ?r)" for k by (auto dest!: trail_short)
  have nb: "resolve (h_cwd H) (p_sub d n) \<notin> set (trail ?r)" if "n \<in> set BUNDLE_FILES" for n
    using bundle_not_in_trail [OF that, of "h_cwd H" d] by simp
  have "fs w (resolve (h_cwd H) (p_sub d n)) = None" if "n \<in> set BUNDLE_FILES" for n
    using bundle_parent [OF that, of d] bundle_plain [OF that] gone by auto
  then have "room H v d" using long nb gone by (simp add: room_def v_def at_def)
  moreover have "at H v p = Some (File c)" if "at H w p = Some (File c)" for c p
    using assms that by (auto simp: v_def at_def fresh_place_def list_all_iff)
  ultimately show ?thesis using mk by (auto simp: v_def)
qed

lemma export_returns:
  assumes "load_vm_config H uuid w = (Inr cfg, w)" "backend (isolation cfg) = backend_kind.Qemu"
    and "qemu_stop H uuid w = (Inr (), w1)" "fresh_place H w1 dest" "\<And>p. \<not> h_unwritable H p"
    and "\<And>v p c. h_torn H v p c = None"
  shows "\<exists>w'. export_vm H uuid dest w = (Inr (), w')"
proof -
  let ?d = "vm_dir_of H uuid"
  have start: "require_qemu H uuid w = (Inr ?d, w)" "stop_machine H uuid w = (Inr (), w1)"
    using assms(1-3) by (simp_all add: require_qemu_def bnd_def ret_def stop_machine_qemu)
  obtain w2 where w2: "mkdir_new H dest w1 = (Inr (), w2)" "room H w2 dest"
    using mkdir_fresh [OF assms(4)] by blast
  have new: "\<not> p_exists H w1 dest" using mkdir_new_Inr [OF w2(1)] by simp
  obtain w3 where w3: "copy_bundle H ?d dest w2 = (Inr (), w3)" "room H w3 dest"
    using wp_exists [OF copy_bundle_succeeds [OF w2(2) assms(5,6)]] by auto
  have "write_content H (child dest MANIFEST) (manifest_of H w3 uuid dest) w3
      = (Inr (), set_node H (child dest MANIFEST) (Some (File (manifest_of H w3 uuid dest))) w3)"
    using assms(5,6) room_file [OF w3(2), of MANIFEST] by (simp add: write_content_def MANIFEST_def)
  then show ?thesis
    by (simp add: export_vm_def bnd_def andthen_def asks_def start new w2(1) w3(1) print_out_def update_def)
qed

lemma fresh_branch:
  assumes "resolve (h_cwd H) d = Path True (x # ps)" "\<And>ps. fs w (Path True (x # ps)) = None" "fs w (Path True []) \<in> {None, Some Dir}"
  shows "fresh_place H w d"
  unfolding fresh_place_def using assms by (auto simp: list_all_iff trail_def less_Suc_eq_0_disj simp del: upt_Suc)

section \<open>Facts: what an import leaves behind\<close>

text \<open>The record of an imported machine: a new life of the old one.\<close>

definition imported :: "int \<Rightarrow> qemu_state \<Rightarrow> bool" where
  "imported port s \<longleftrightarrow> qs_ssh_port s = Some port \<and> qs_pid_start s = None \<and> qs_last_started_at s = None \<and>
     qs_last_stopped_at s = None \<and> qs_last_error s = None"

definition reborn :: "host \<Rightarrow> path \<Rightarrow> int \<Rightarrow> world \<Rightarrow> world \<Rightarrow> bool" where
  "reborn H d port w w' \<longleftrightarrow> (\<exists>s v. imported port s \<and> w' = saved H d s v \<and> (v = w \<or> (\<exists>s'. v = saved H d s' w)))"

lemma rebornI: "imported port s \<Longrightarrow> v = w \<or> v = saved H d s' w \<Longrightarrow> reborn H d port w (saved H d s v)"
  unfolding reborn_def by blast

lemma reset_imported_effect: "wp (reset_imported H d port) (\<lambda>_. reborn H d port w) (\<lambda>_ _. True) w"
  unfolding reset_imported_def
  by (auto simp: wps imported_def split: stored_record.split
      intro!: wp_save_state_any wp_mono [OF mark_stopped_effect] rebornI)

lemma at_saved_other:
  "n \<in> set BUNDLE_FILES \<Longrightarrow> n \<noteq> ''state.yaml'' \<Longrightarrow> at H (saved H d s w) (p_sub x n) = at H w (p_sub x n)"
proof -
  assume n: "n \<in> set BUNDLE_FILES" "n \<noteq> ''state.yaml''"
  have "resolve (h_cwd H) (p_sub x n) \<noteq> child (resolve (h_cwd H) d) ''state.yaml''"
    using bundle_apart [OF n(1) bundle_state(2) n(2), of "h_cwd H" x d] by (simp add: bundle_state(1))
  moreover have "resolve (h_cwd H) (p_sub x n) \<noteq> child (resolve (h_cwd H) d) ''state.tmp''"
    by (rule bundle_child [OF n(1)]) (unfold bundle_names, simp_all)
  ultimately show ?thesis by (simp add: saved_def state_path_def state_tmp_def STATE_FILE_def)
qed

lemma port_other: "n \<in> set BUNDLE_FILES \<Longrightarrow> resolve (h_cwd H) (port_path d) \<noteq> resolve (h_cwd H) (p_sub x n)"
  using bundle_child [of n "''ssh_port''" "h_cwd H" x d] unfolding bundle_names port_path_def by auto

lemma uuid7_pure: "uuid7 H w = (Inr u, v) \<Longrightarrow> fs v = fs w \<and> plain u"
  by (auto simp: uuid7_def draw_def returns plain_uuid)

lemma load_config_pure: "load_config H p w = (Inr cfg, v) \<Longrightarrow> v = w"
  by (auto simp: load_config_def read_content_def returns raise_def lift_sum_def
      split: if_splits option.splits node.splits content.splits sum.splits prod.splits)

lemma reset_imported_returns:
  assumes "vm_dir_ready H w d" "stored H w d \<noteq> Corrupt"
  shows "\<exists>w'. reset_imported H d port w = (Inr (), w')"
proof -
  have "wp (reset_imported H d port) (\<lambda>_ _. True) (\<lambda>_ _. False) w"
    using assms by (auto simp: reset_imported_def wps wp_mark_stopped wp_save_state Let_def split: stored_record.split)
  then show ?thesis by (auto dest!: wp_exists)
qed

end
