(* ===== verification/Bundles.thy ===== *)
theory Bundles
  imports BundleFacts QemuProperties
begin

text \<open>
  The properties of \<open>export\<close> and \<open>import\<close>, with a stopped machine and a bundle as their demonstrations.
\<close>

section \<open>Demonstration worlds\<close>

text \<open>A bundle, the machine it came from, and a host on which \<open>qemu-img\<close> is where it is looked for first.\<close>

definition demo_idle :: world where
  "demo_idle = demo_world [([''work'', ''.vms'', ''vm1''], Dir), ([''work'', ''.vms'', ''vm1'', ''vm.yaml''], File (ConfigDoc demo_qemu)),
     ([''work'', ''.vms'', ''vm1'', ''disk.qcow2''], File (Text ''disk''))] []"

definition demo_backup :: path where "demo_backup = Path True [''backup'']"

definition demo_idle_stopped :: world where
  "demo_idle_stopped = saved demo_host (Path False [''.vms'', ''vm1''])
     ((new_state demo_host demo_idle ''none'' Persistent)\<lparr>qs_last_stopped_at := Some ''now'', qs_last_error := None, qs_pid_start := None\<rparr>) demo_idle"

lemma demo_idle_facts:
  "load_vm_config demo_host ''vm1'' demo_idle = (Inr demo_qemu, demo_idle)"
  "backend (isolation demo_qemu) = backend_kind.Qemu"
  "qemu_stop demo_host ''vm1'' demo_idle = (Inr (), demo_idle_stopped)"
proof -
  have node: "at demo_host demo_idle (child (Path False [''.vms'', ''vm1'']) n) =
      map_of [([''vm.yaml''], File (ConfigDoc demo_qemu)), ([''disk.qcow2''], File (Text ''disk''))] [n]" if "n \<noteq> ''..''" for n
    using that by (simp add: demo_idle_def demo_at)
  have dir: "at demo_host demo_idle (Path False [''.vms'', ''vm1'']) = Some Dir"
    by (simp add: demo_idle_def demo_at)
  have v: "validate_config False demo_qemu = Inr demo_qemu" by code_simp
  then show "load_vm_config demo_host ''vm1'' demo_idle = (Inr demo_qemu, demo_idle)"
    by (intro load_vm_config_stored) (simp_all add: yaml_path_def node)
  show "backend (isolation demo_qemu) = backend_kind.Qemu" by (simp add: demo_qemu_def)
  have ready: "vm_dir_ready demo_host demo_idle (Path False [''.vms'', ''vm1''])"
    "stored demo_host demo_idle (Path False [''.vms'', ''vm1'']) = NoState"
    "at demo_host demo_idle (pid_path (Path False [''.vms'', ''vm1''])) = None"
    by (simp_all add: vm_dir_ready_def stored_def is_dir_def dir state_path_def state_tmp_def pid_path_def STATE_FILE_def node)
  have "wp (qemu_stop demo_host ''vm1'') (\<lambda>_ w'. w' = demo_idle_stopped) (\<lambda>_ _. False) demo_idle"
    by (simp add: qemu_stop_def stop_known_def wps Let_def is_dir_def dir ready wp_mark_stopped base_state_def demo_idle_stopped_def)
  then show "qemu_stop demo_host ''vm1'' demo_idle = (Inr (), demo_idle_stopped)" by (auto dest: wp_exists)
qed

lemma demo_idle_fresh: "fresh_place demo_host demo_idle_stopped demo_backup"
  by (rule fresh_branch [of _ _ "''backup''" "[]"])
    (simp_all add: demo_backup_def resolve_def fold_dots_clean demo_idle_stopped_def saved_def set_node_def state_path_def
      state_tmp_def STATE_FILE_def child_def demo_idle_def)

text \<open>A bundle, and its import.\<close>

definition demo_bundle :: world where
  "demo_bundle = demo_world [([''backup''], Dir), ([''backup'', ''manifest.json''], File (ManifestDoc (Some FORMAT) ''vm1'' ''now'' [])),
     ([''backup'', ''disk.qcow2''], File (Text ''disk'')), ([''backup'', ''vm.yaml''], File (ConfigDoc demo_qemu)),
     ([''backup'', ''state.yaml''], File (StateDoc demo_state))] []"

lemma demo_bundle_at: "n \<noteq> ''..'' \<Longrightarrow> at demo_host demo_bundle (child demo_backup n) = map_of
    [([''manifest.json''], File (ManifestDoc (Some FORMAT) ''vm1'' ''now'' [])), ([''disk.qcow2''], File (Text ''disk'')),
     ([''vm.yaml''], File (ConfigDoc demo_qemu)), ([''state.yaml''], File (StateDoc demo_state))] [n]"
  by (simp add: demo_bundle_def demo_at demo_backup_def resolve_def fold_dots_clean child_def)

lemma quiet_run_checked:
  "wp (run_checked demo_host c) Q E w \<longleftrightarrow> Q ([], []) (snd (run_checked demo_host c w))"
  "fs (snd (run_checked demo_host c w)) = fs w"
  by (auto simp: wp_def run_checked_def bnd_def run_raw_def Let_def ret_def)

lemma quiet_qemu_img: "\<exists>r v. run_qemu_img demo_host args w = (Inr r, v) \<and> fs v = fs w"
proof -
  have "h_which demo_host = (\<lambda>_ n. Some (''/usr/bin/'' @ n))" by (simp add: demo_host_def)
  then have "wp (run_qemu_img demo_host args) (\<lambda>_ v. fs v = fs w) (\<lambda>_ _. False) w"
    by (simp add: run_qemu_img_def resolve_qemu_img_def resolve_binary_def wps quiet_run_checked)
  then show ?thesis by (auto dest!: wp_exists)
qed

lemma uuid7_length: "uuid7 H w = (Inr u, v) \<Longrightarrow> length u = 36"
  by (auto simp: uuid7_def draw_def returns uuid_str_def Let_def)

lemma import_returns_on_demo:
  assumes held: "at demo_host w (child demo_backup ''manifest.json'') = Some (File (ManifestDoc (Some FORMAT) m now ns))"
      "is_file demo_host w (child demo_backup ''disk.qcow2'')" "at demo_host w (child demo_backup ''vm.yaml'') = Some (File (ConfigDoc demo_qemu))"
      "at demo_host w (child demo_backup ''state.yaml'') = Some (File (StateDoc s))"
    and free: "\<And>u ps. length u = 36 \<Longrightarrow> fs w (Path True (''work'' # ''.vms'' # u # ps)) = None"
      "fs w (Path True [''work'', ''.vms'']) \<in> {None, Some Dir}" "fs w (Path True [''work'']) \<in> {None, Some Dir}"
      "fs w (Path True []) \<in> {None, Some Dir}"
  shows "\<exists>u w'. import_vm demo_host demo_backup w = (Inr u, w')"
proof -
  let ?H = demo_host and ?b = demo_backup
  have "wp (check_bundle ?H ?b) (\<lambda>_ w'. w' = w) (\<lambda>_ _. False) w"
    using held by (simp add: check_bundle_def manifest_format_def wps is_file_iff MANIFEST_def)
  then have ok: "check_bundle ?H ?b w = (Inr (), w)" by (auto dest: wp_exists)
  obtain r v where v: "run_qemu_img ?H [''info'', path_str (child ?b ''disk.qcow2'')] w = (Inr r, v)" "fs v = fs w"
    using quiet_qemu_img by blast
  obtain u w1 where u: "uuid7 ?H v = (Inr u, w1)" by (simp add: uuid7_def bnd_def asks_def draw_def ret_def)
  from uuid7_pure [OF u] v have w1: "fs w1 = fs w" "plain u" "length u = 36" using uuid7_length [OF u] by simp_all
  let ?d = "vm_dir_of ?H u"
  have d: "resolve (h_cwd ?H) ?d = Path True [''work'', ''.vms'', u]" using resolve_vm_dir [OF w1(2), of ?H] by (simp add: demo_root)
  have "fresh_place ?H w1 ?d"
    unfolding fresh_place_def d using free w1 by (simp add: trail_def)
  then obtain w2 where w2: "mkdir_new ?H ?d w1 = (Inr (), w2)" "room ?H w2 ?d"
      "\<And>p c. at ?H w1 p = Some (File c) \<Longrightarrow> at ?H w2 p = Some (File c)"
    using mkdir_fresh by blast
  obtain w3 where w3: "copy_bundle ?H ?b ?d w2 = (Inr (), w3)" "room ?H w3 ?d"
    using wp_exists [OF copy_bundle_succeeds [OF w2(2)]] by fastforce
  have step: "copy_step ?H ?b ?d BUNDLE_FILES w2 w3" using wp_returns [OF copy_bundle_effect w3(1)] .
  have arrives: "at ?H w3 (p_sub ?d n) = Some (File c)" if "n \<in> set BUNDLE_FILES" "at ?H w (p_sub ?b n) = Some (File c)" for n c
  proof -
    have "at ?H w2 (p_sub ?b n) = Some (File c)" using that(2) w2(3) by (simp add: at_def w1)
    with step that(1) show ?thesis by (simp add: copy_step_def copied_iff)
  qed
  have yaml: "at ?H w3 (yaml_path ?d) = Some (File (ConfigDoc demo_qemu))"
    using arrives [OF bundle_state(4)] by (simp add: bundle_state yaml_path_def held)
  have state: "at ?H w3 (state_path ?d) = Some (File (StateDoc s))"
    using arrives [OF bundle_state(2)] by (simp add: bundle_state state_path_def STATE_FILE_def held)
  have "validate_config False demo_qemu = Inr demo_qemu" by code_simp
  then have load: "load_config ?H (yaml_path ?d) w3 = (Inr demo_qemu, w3)"
    using yaml by (simp add: load_config_def bnd_def asks_def is_file_def read_content_def ret_def)
  let ?port = "allocate_ssh_port ?H w3 (ssh_host_port (qemu (isolation demo_qemu)))"
  obtain w4 where w4: "write_text ?H (port_path ?d) (show_int ?port) w3 = (Inr (), w4)" "w4 = set_node ?H (port_path ?d) (Some (File (Text (show_int ?port)))) w3"
    using room_file [OF w3(2), of "''ssh_port''"] by (simp add: write_text_def write_content_def port_path_def)
  have "vm_dir_ready ?H w4 ?d" "stored ?H w4 ?d \<noteq> Corrupt"
    using room_file [OF w3(2), of "''state.tmp''"] state
    by (simp_all add: w4(2) vm_dir_ready_def stored_def is_dir_def port_path_def state_path_def state_tmp_def STATE_FILE_def)
  from reset_imported_returns [OF this] obtain w5 where w5: "reset_imported ?H ?d ?port w4 = (Inr (), w5)" by blast
  show ?thesis
    by (simp add: import_vm_def andthen_def bnd_def ok v(1) u w2(1) w3(1) load asks_def w4(1) w5 Let_def print_out_def update_def ret_def)
qed

lemma demo_import: "\<exists>u w'. import_vm demo_host demo_backup demo_bundle = (Inr u, w')"
  by (rule import_returns_on_demo) (simp_all add: demo_bundle_at is_file_def, simp_all add: demo_bundle_def)

section \<open>What an export and an import leave\<close>

lemma export_outcome:
  assumes "is_dir H w (vm_dir_of H uuid)" "export_vm H uuid dest w = (Inr (), w')"
  shows "list_all (copied H w' (vm_dir_of H uuid) dest) BUNDLE_FILES \<and>
     (\<exists>now. at H w' (child dest MANIFEST) = Some (File (ManifestDoc (Some FORMAT) uuid now
         (filter (\<lambda>n. is_file H w' (p_sub dest n)) BUNDLE_FILES)))) \<and>
     stopped_clean H w' (vm_dir_of H uuid)"
proof -
  let ?d = "vm_dir_of H uuid"
  from assms(2) obtain cfg w1 where load: "load_vm_config H uuid w = (Inr cfg, w)" "backend (isolation cfg) = backend_kind.Qemu"
    and stop: "stop_machine H uuid w = (Inr (), w1)"
    and rest: "(if p_exists H w1 dest then raise (FileExistsError (''vm: export destination already exists: '' @ path_str dest))
        else andthen (mkdir_new H dest) (andthen (copy_bundle H ?d dest) (bnd (asks (\<lambda>w. manifest_of H w uuid dest)) (\<lambda>manifest.
          andthen (write_content H (child dest MANIFEST) manifest)
            (print_out (''VM '' @ uuid @ '' exported to '' @ path_str dest)))))) w1 = (Inr (), w')"
    unfolding export_vm_def by (auto simp: returns dest!: require_qemu_Inr)
  have clean: "stopped_clean H w1 ?d"
    using wp_returns [OF qemu_stop_effect [OF assms(1)]] stop stop_machine_qemu [OF load] by simp
  from rest obtain w2 w3 w4 where w2: "mkdir_new H dest w1 = (Inr (), w2)" and w3: "copy_bundle H ?d dest w2 = (Inr (), w3)"
    and w4: "write_content H (child dest MANIFEST) (manifest_of H w3 uuid dest) w3 = (Inr (), w4)"
    and w': "w' = w4\<lparr>out := out w4 @ [''VM '' @ uuid @ '' exported to '' @ path_str dest]\<rparr>"
    by (auto simp: returns print_out_def update_def)
  have step: "copy_step H ?d dest BUNDLE_FILES w2 w3" using wp_returns [OF copy_bundle_effect w3] .
  have same: "at H w' p = (if resolve (h_cwd H) p = child (resolve (h_cwd H) dest) MANIFEST then Some (File (manifest_of H w3 uuid dest))
      else at H w3 p)" for p
    by (simp add: w' write_content_Inr [OF w4] MANIFEST_def)
  have fresh: "MANIFEST \<notin> set (map bundle_name BUNDLE_FILES)" unfolding bundle_names MANIFEST_def by simp
  have kept: "at H w' (p_sub s n) = at H w3 (p_sub s n)" if "n \<in> set BUNDLE_FILES" for s n
    using bundle_child [OF that fresh] by (simp add: same MANIFEST_def)
  have "list_all (copied H w' ?d dest) BUNDLE_FILES"
    using step kept by (simp add: list_all_iff copied_iff copy_step_def)
  moreover have "manifest_of H w3 uuid dest = ManifestDoc (Some FORMAT) uuid (h_now H w3)
      (filter (\<lambda>n. is_file H w' (p_sub dest n)) BUNDLE_FILES)"
    unfolding manifest_of_def using kept by (auto simp: is_file_def intro!: filter_cong)
  moreover have "at H w' (child dest MANIFEST) = Some (File (manifest_of H w3 uuid dest))" by (simp add: same MANIFEST_def)
  moreover have "stopped_clean H w' ?d"
  proof -
    have "stopped_clean H w3 ?d"
      using mkdir_new_Inr [OF w2] clean by (blast intro: copy_step_clean [OF step] same_files_clean)
    then show ?thesis
      by (simp add: stopped_clean_def is_file_def stored_def same pid_path_def state_path_def STATE_FILE_def MANIFEST_def)
  qed
  ultimately show ?thesis by auto
qed

section \<open>Properties\<close>

text \<open>C18: an export is complete and of a stopped machine. When \<open>export\<close> returns for an existing machine, every bundle
  file that the machine has is in the destination with the same content, the manifest has the current format, names
  the machine and lists exactly the files that were copied, and the machine is stopped: no PID file, and a clean record,
  which is also the exported one.\<close>

theorem export_is_complete:
  assumes "is_dir H w (vm_dir_of H uuid)" "export_vm H uuid dest w = (Inr (), w')"
  shows "list_all (copied H w' (vm_dir_of H uuid) dest) BUNDLE_FILES \<and>
     (\<exists>now. at H w' (child dest MANIFEST) = Some (File (ManifestDoc (Some FORMAT) uuid now
         (filter (\<lambda>n. is_file H w' (p_sub dest n)) BUNDLE_FILES)))) \<and>
     stopped_clean H w' (vm_dir_of H uuid)"
  using assms by (rule export_outcome)

theorem export_is_complete_witness:
  "\<exists>w'. export_vm demo_host ''vm1'' demo_backup demo_idle = (Inr (), w') \<and>
     stopped_clean demo_host w' (Path False [''.vms'', ''vm1''])"
proof -
  obtain w' where w': "export_vm demo_host ''vm1'' demo_backup demo_idle = (Inr (), w')"
    using export_returns [OF demo_idle_facts demo_idle_fresh] by fastforce
  have "is_dir demo_host demo_idle (vm_dir_of demo_host ''vm1'')" by (simp add: is_dir_def demo_idle_def demo_at)
  from export_is_complete [OF this w'] w' show ?thesis by auto
qed

text \<open>An export into a fresh place succeeds. When the machine's configuration loads and selects QEMU, its stop
  returns, nothing stands at or below the destination and only directories above it, the places are writable and
  no write fails half way, then \<open>export\<close> returns.\<close>

theorem export_succeeds:
  assumes "load_vm_config H uuid w = (Inr cfg, w)" "backend (isolation cfg) = backend_kind.Qemu"
    and "qemu_stop H uuid w = (Inr (), w1)" "fresh_place H w1 dest" "\<And>p. \<not> h_unwritable H p"
    and "\<And>v p c. h_torn H v p c = None"
  shows "\<exists>w'. export_vm H uuid dest w = (Inr (), w')"
  using assms by (rule export_returns)

theorem export_succeeds_witness: "\<exists>w'. export_vm demo_host ''vm1'' demo_backup demo_idle = (Inr (), w')"
  by (rule export_succeeds [OF demo_idle_facts demo_idle_fresh]) simp_all

text \<open>An import starts a new life of the bundle. When \<open>import\<close> returns an identifier, every file of the
  bundle except the record has arrived in the new machine's directory with the same content; the port file holds the
  port that the record names, and the record has no process identity, no times of an earlier run and no error.\<close>

theorem import_resets:
  assumes "import_vm H source w = (Inr uuid, w')"
  shows "list_all (copied H w' source (vm_dir_of H uuid)) (filter (\<lambda>n. n \<noteq> ''state.yaml'') BUNDLE_FILES) \<and>
    (\<exists>s port. stored H w' (vm_dir_of H uuid) = Stored s \<and> imported port s \<and>
       at H w' (port_path (vm_dir_of H uuid)) = Some (File (Text (show_int port))))"
proof -
  let ?d = "vm_dir_of H uuid"
  from assms obtain w1 w2 port w3 w4 where copy: "copy_bundle H source ?d w1 = (Inr (), w2)"
    and port: "write_text H (port_path ?d) (show_int port) w2 = (Inr (), w3)"
    and reset: "reset_imported H ?d port w3 = (Inr (), w4)"
    and w': "fs w' = fs w4"
    unfolding import_vm_def Let_def by (auto simp: returns print_out_def update_def dest!: load_config_pure)
  have step: "copy_step H source ?d BUNDLE_FILES w1 w2" using wp_returns [OF copy_bundle_effect copy] .
  obtain s v where s: "imported port s" "w4 = saved H ?d s v" "v = w3 \<or> (\<exists>s'. v = saved H ?d s' w3)"
    using wp_returns [OF reset_imported_effect reset] unfolding reborn_def by blast
  have w3: "w3 = set_node H (port_path ?d) (Some (File (Text (show_int port)))) w2"
    using port by (simp add: write_text_def write_content_Inr)
  have same: "at H w' (p_sub x n) = at H w2 (p_sub x n)" if "n \<in> set BUNDLE_FILES" "n \<noteq> ''state.yaml''" for x n
    using s that w' by (auto simp: w3 at_saved_other port_other at_fs [OF w'])
  have "list_all (copied H w' source ?d) (filter (\<lambda>n. n \<noteq> ''state.yaml'') BUNDLE_FILES)"
    using step same by (simp add: list_all_iff copied_iff copy_step_def)
  moreover have "stored H w' ?d = stored H w4 ?d" by (simp add: stored_def at_fs [OF w'])
  then have "stored H w' ?d = Stored s" using s(2) by simp
  moreover have "at H w' (port_path ?d) = Some (File (Text (show_int port)))"
    using s(2,3) by (auto simp: at_fs [OF w'] w3 port_path_def STATE_FILE_def)
  ultimately show ?thesis using s(1) by blast
qed

theorem import_resets_witness:
  "\<exists>u w'. import_vm demo_host demo_backup demo_bundle = (Inr u, w') \<and>
     (\<exists>s port. stored demo_host w' (vm_dir_of demo_host u) = Stored s \<and> imported port s)"
  using demo_import import_resets by blast

end
