(* ===== verification/VmAutostart.thy ===== *)
theory VmAutostart
  imports VmLifecycle
begin

text \<open>
  \<open>workspace/cli/vm_autostart.py\<close>: the systemd user unit of a persistent machine.
\<close>

definition unit_dir :: "host \<Rightarrow> path" where
  "unit_dir H = child (child (child (h_home H) ''.config'') ''systemd'') ''user''"

definition unit_name :: "string \<Rightarrow> string" where
  "unit_name uuid = ''workspace-vm-'' @ uuid @ ''.service''"

definition unit_path :: "host \<Rightarrow> string \<Rightarrow> path" where
  "unit_path H uuid = child (unit_dir H) (unit_name uuid)"

definition unit_lines :: "string \<Rightarrow> string \<Rightarrow> string \<Rightarrow> string list" where
  "unit_lines uuid root vms =
     [''[Unit]'', ''Description=WORKSPACE-VM '' @ uuid, ''After=default.target'', [],
      ''[Service]'', ''Type=oneshot'', ''RemainAfterExit=yes'', ''WorkingDirectory='' @ root,
      ''Environment=WS_VM_DIR='' @ vms,
      ''ExecStart='' @ root @ ''/workspace/scripts/bin/vm start '' @ uuid,
      ''ExecStop='' @ root @ ''/workspace/scripts/bin/vm stop '' @ uuid, [],
      ''[Install]'', ''WantedBy=default.target'']"

definition unit_body :: "host \<Rightarrow> world \<Rightarrow> string \<Rightarrow> string" where
  "unit_body H w uuid =
     unlines (unit_lines uuid (path_str (find_workspace_root H w)) (path_str (parent (vm_dir_of H uuid))))"

fun is_not_found :: "exn \<Rightarrow> bool" where
  "is_not_found (FileNotFoundError _) = True"
| "is_not_found VPNBinaryNotFoundError = True"
| "is_not_found (VPNConfigNotFoundError _) = True"
| "is_not_found _ = False"

definition py_tuple :: "string list \<Rightarrow> string" where
  "py_tuple xs = (case xs of [x] \<Rightarrow> ''('' @ quoted x @ '',)'' | _ \<Rightarrow> ''('' @ join '', '' (map quoted xs) @ '')'')"

definition systemctl :: "host \<Rightarrow> string list \<Rightarrow> unit io" where
  "systemctl H args =
     catch (\<lambda>e. is_not_found e \<or> is_called_process_error e)
       (run_cmd H ([''systemctl'', ''--user''] @ args))
       (\<lambda>_. raise (RuntimeError (''vm: systemd user service unavailable for '' @ py_tuple args)))"

definition require_systemd :: "host \<Rightarrow> unit io" where
  "require_systemd H =
     (let msg = ''vm: XDG_RUNTIME_DIR is not set; systemd user services are unavailable'' in
      if h_env H ''XDG_RUNTIME_DIR'' = None then andthen (print_err (msg @ nl)) (raise (RuntimeError msg))
      else ret ())"

definition autostart_enable :: "host \<Rightarrow> string \<Rightarrow> unit io" where
  "autostart_enable H uuid =
     bnd (asks (\<lambda>w. is_file H w (yaml_path (vm_dir_of H uuid)))) (\<lambda>f.
     if \<not> f then raise (FileNotFoundError (''vm: no vm.yaml found for VM '' @ quoted uuid))
     else bnd (is_persistent H (vm_dir_of H uuid)) (\<lambda>p.
     if \<not> p then raise (ValueError (''vm: autostart requires a persistent VM: '' @ uuid))
     else
       andthen (require_systemd H)
      (andthen (mkdir_parents H (unit_dir H))
      (bnd (asks (\<lambda>w. unit_body H w uuid)) (\<lambda>body.
       andthen (write_text H (unit_path H uuid) body)
      (andthen (systemctl H [''daemon-reload''])
      (andthen (systemctl H [''enable'', ''--now'', unit_name uuid])
         (print_out (''VM '' @ uuid @ '' autostart enabled'')))))))))"

definition autostart_disable :: "host \<Rightarrow> string \<Rightarrow> unit io" where
  "autostart_disable H uuid =
     bnd (asks (\<lambda>w. is_file H w (unit_path H uuid))) (\<lambda>f.
       if \<not> f then raise (FileNotFoundError (''vm: autostart is not enabled for '' @ uuid))
       else
         andthen (systemctl H [''disable'', ''--now'', unit_name uuid])
        (andthen (unlink H (unit_path H uuid))
        (andthen (systemctl H [''daemon-reload''])
           (print_out (''VM '' @ uuid @ '' autostart disabled'')))))"

section \<open>Facts\<close>

text \<open>The refusals of \<open>enable\<close> leave the world as it is.\<close>

lemma autostart_refuses_ephemeral:
  assumes "is_file H w (yaml_path (vm_dir_of H uuid))" "stored H w (vm_dir_of H uuid) = Stored s" "qs_mode s \<noteq> Persistent"
  shows "autostart_enable H uuid w = (Inl (ValueError (''vm: autostart requires a persistent VM: '' @ uuid)), w)"
proof -
  have "wp (is_persistent H (vm_dir_of H uuid)) (\<lambda>p w'. \<not> p \<and> w' = w) (\<lambda>_ _. False) w"
    using assms by (simp add: is_persistent_def wps)
  then have "is_persistent H (vm_dir_of H uuid) w = (Inr False, w)" by (auto dest: wp_exists)
  with assms show ?thesis by (simp add: autostart_enable_def bnd_def asks_def raise_def)
qed

text \<open>The unit runs this machine's start and stop, with the directory the command was given.\<close>

lemma unit_body_lines:
  assumes "no_breaks uuid" "no_breaks (path_str (find_workspace_root H w))" "no_breaks (path_str (parent (vm_dir_of H uuid)))"
  shows "splitlines (unit_body H w uuid) =
    unit_lines uuid (path_str (find_workspace_root H w)) (path_str (parent (vm_dir_of H uuid)))"
  unfolding unit_body_def using assms
  by (intro splitlines_join) (auto simp: unit_lines_def no_breaks_def is_line_break_def)

section \<open>Properties\<close>

text \<open>The unit file runs this machine. Split into its lines, the systemd unit starts and stops the machine
  with the workspace's own command, in the workspace root and with the directory of machines the user had.\<close>

theorem unit_runs_this_machine:
  assumes "no_breaks uuid" "no_breaks (path_str (find_workspace_root H w))" "no_breaks (path_str (parent (vm_dir_of H uuid)))"
  shows "list_all (\<lambda>l. l \<in> set (splitlines (unit_body H w uuid)))
     [''WorkingDirectory='' @ path_str (find_workspace_root H w),
      ''Environment=WS_VM_DIR='' @ path_str (parent (vm_dir_of H uuid)),
      ''ExecStart='' @ path_str (find_workspace_root H w) @ ''/workspace/scripts/bin/vm start '' @ uuid,
      ''ExecStop='' @ path_str (find_workspace_root H w) @ ''/workspace/scripts/bin/vm stop '' @ uuid]
   \<and> length (splitlines (unit_body H w uuid)) = 14"
  unfolding unit_body_lines [OF assms] by (simp add: unit_lines_def)

definition demo_rooted :: world where
  "demo_rooted = demo_world [([''work'', ''workspace''], Dir)] []"

theorem unit_runs_this_machine_witness:
  "length (splitlines (unit_body demo_host demo_rooted ''vm1'')) = 14"
proof (rule conjunct2 [OF unit_runs_this_machine])
  have "resolve (Path True [''work'']) (Path True [''work'']) = Path True [''work'']" by code_simp
  then have root: "find_workspace_root demo_host demo_rooted = Path True [''work'']"
    by (simp add: find_workspace_root_def find_workspace_root_from_def eval_nat_numeral is_dir_def demo_rooted_def demo_at)
  show "no_breaks (path_str (find_workspace_root demo_host demo_rooted))" unfolding root by code_simp
  show "no_breaks ''vm1''" by code_simp
  have d: "no_breaks (path_str (parent (Path False [''.vms'', ''vm1''])))" by code_simp
  then show "no_breaks (path_str (parent (vm_dir_of demo_host ''vm1'')))" by simp
qed

text \<open>Autostart is for persistent machines. Enabling it for a machine whose record says it is not persistent
  raises before anything is written or run.\<close>

theorem autostart_only_persistent:
  assumes "is_file H w (yaml_path (vm_dir_of H uuid))" "stored H w (vm_dir_of H uuid) = Stored s" "qs_mode s \<noteq> Persistent"
  shows "autostart_enable H uuid w = (Inl (ValueError (''vm: autostart requires a persistent VM: '' @ uuid)), w)"
  using autostart_refuses_ephemeral [OF assms] .

definition demo_ephemeral :: world where
  "demo_ephemeral = demo_world [([''work'', ''.vms'', ''vm1'', ''vm.yaml''], File (ConfigDoc demo_raw)),
     ([''work'', ''.vms'', ''vm1'', ''state.yaml''], File (StateDoc (demo_state\<lparr>qs_mode := Ephemeral\<rparr>)))] []"

theorem autostart_only_persistent_witness:
  "fst (autostart_enable demo_host ''vm1'' demo_ephemeral) = Inl (ValueError ''vm: autostart requires a persistent VM: vm1'')"
proof -
  have "is_file demo_host demo_ephemeral (yaml_path (vm_dir_of demo_host ''vm1''))"
    by (simp add: is_file_def demo_ephemeral_def demo_at yaml_path_def)
  moreover have "stored demo_host demo_ephemeral (vm_dir_of demo_host ''vm1'') = Stored (demo_state\<lparr>qs_mode := Ephemeral\<rparr>)"
    by (simp add: stored_def demo_ephemeral_def demo_at state_path_def STATE_FILE_def)
  ultimately show ?thesis by (subst autostart_only_persistent) (assumption, assumption, simp_all add: demo_state_def)
qed

end
