(* ===== verification/VmMain.thy ===== *)
theory VmMain
  imports VmAutostart VmSync VmSnapshots
begin

text \<open>
  \<open>workspace/cli/vm_main.py\<close>: the command line. A handler takes the arguments, the subcommand first,
  and returns an exit code, where None stands for success.
\<close>

definition usage :: "unit io" where
  "usage = print_err (''usage: uv run python -m workspace.cli.vm_main <create|rebuild|sync|start|stop|delete|''
     @ ''shell|exec|list|status|logs|kill|snapshot|export|import|autostart> <args>'')"

text \<open>\<open>args[i]\<close>.\<close>

definition arg :: "string list \<Rightarrow> nat \<Rightarrow> string io" where
  "arg args i = (if i < length args then ret (args ! i) else raise IndexError)"

type_synonym handler = "string list \<Rightarrow> int option io"

definition require_arg :: "string list \<Rightarrow> string \<Rightarrow> string option io" where
  "require_arg args name =
     (if length args < 2 then andthen (print_err (name @ '': missing argument'')) (ret None)
      else bnd (arg args 1) (\<lambda>a. ret (Some a)))"

text \<open>A handler that runs an operation on \<open>args[1]\<close> and returns None.\<close>

definition on_first :: "(string \<Rightarrow> string list \<Rightarrow> unit io) \<Rightarrow> handler" where
  "on_first f args = bnd (arg args 1) (\<lambda>u. andthen (f u (drop 2 args)) (ret None))"

definition run_create :: "host \<Rightarrow> handler" where "run_create H = on_first (\<lambda>u _. manager_create H u)"

definition run_rebuild :: "host \<Rightarrow> handler" where
  "run_rebuild H = on_first (\<lambda>u rest. manager_rebuild H u (''--fresh'' \<in> set rest))"

definition run_sync :: "host \<Rightarrow> handler" where "run_sync H = on_first (\<lambda>u _. vm_sync H u)"

definition run_start :: "host \<Rightarrow> handler" where "run_start H = on_first (\<lambda>u _. lifecycle_start H u)"

definition run_stop :: "host \<Rightarrow> handler" where "run_stop H = on_first (\<lambda>u _. lifecycle_stop H u)"

definition run_delete :: "host \<Rightarrow> handler" where
  "run_delete H = on_first (\<lambda>u rest. lifecycle_delete H u (''--purge'' \<in> set rest))"

definition run_shell :: "host \<Rightarrow> handler" where "run_shell H = on_first (\<lambda>u _. shell H u)"

definition run_kill :: "host \<Rightarrow> handler" where "run_kill H = on_first (\<lambda>u _. kill H u)"

definition run_list :: "host \<Rightarrow> handler" where "run_list H args = andthen (list_vms H) (ret None)"

definition run_status :: "host \<Rightarrow> handler" where "run_status H = on_first (\<lambda>u _. show_status H u)"

definition run_logs :: "host \<Rightarrow> handler" where "run_logs H = on_first (\<lambda>u rest. show_logs H u rest)"

definition run_exec :: "host \<Rightarrow> handler" where
  "run_exec H args =
     (let cmd = (case drop 2 args of ''--'' # rest \<Rightarrow> rest | rest \<Rightarrow> rest) in
      if cmd = [] then andthen (print_err ''exec: missing command after uuid'') (ret (Some 1))
      else bnd (arg args 1) (\<lambda>u. andthen (exec_cmd H u cmd) (ret (Some 0))))"

definition run_snapshot :: "host \<Rightarrow> handler" where
  "run_snapshot H args =
     (if length args < 3
      then andthen (print_err ''snapshot: use <uuid> create|delete <name> or <uuid> list'') (ret (Some 1))
      else bnd (arg args 2) (\<lambda>action.
        if action \<in> {''create'', ''delete''} \<and> length args < 4
        then andthen (print_err (''snapshot '' @ action @ '': missing name'')) (ret (Some 1))
        else bnd (arg args 1) (\<lambda>uuid.
          if action = ''create'' then bnd (arg args 3) (\<lambda>n. andthen (snapshot_create H uuid n) (ret (Some 0)))
          else if action = ''delete'' then bnd (arg args 3) (\<lambda>n. andthen (snapshot_delete H uuid n) (ret (Some 0)))
          else if action = ''list'' then andthen (snapshot_list H uuid) (ret (Some 0))
          else andthen (print_err (''snapshot: unknown action: '' @ action)) (ret (Some 1)))))"

definition run_export :: "host \<Rightarrow> handler" where
  "run_export H args =
     (if length args < 3 then andthen (print_err ''export: missing destination'') (ret (Some 1))
      else bnd (arg args 1) (\<lambda>u. bnd (arg args 2) (\<lambda>d. andthen (export_vm H u (mk_path d)) (ret (Some 0)))))"

definition run_import :: "host \<Rightarrow> handler" where
  "run_import H args = bnd (arg args 1) (\<lambda>s. bnd (import_vm H (mk_path s)) (\<lambda>_. ret (Some 0)))"

definition run_autostart :: "host \<Rightarrow> handler" where
  "run_autostart H args =
     (if length args < 3 then andthen (print_err ''autostart: use enable|disable <uuid>'') (ret (Some 1))
      else bnd (arg args 1) (\<lambda>action. bnd (arg args 2) (\<lambda>u.
        if action = ''enable'' then andthen (autostart_enable H u) (ret (Some 0))
        else if action = ''disable'' then andthen (autostart_disable H u) (ret (Some 0))
        else andthen (print_err (''autostart: unknown action: '' @ action)) (ret (Some 1)))))"

definition HANDLERS :: "host \<Rightarrow> (string \<times> handler \<times> bool) list" where
  "HANDLERS H =
     [(''create'', run_create H, True), (''rebuild'', run_rebuild H, True), (''sync'', run_sync H, True),
      (''start'', run_start H, True), (''stop'', run_stop H, True), (''delete'', run_delete H, True),
      (''shell'', run_shell H, True), (''exec'', run_exec H, True), (''list'', run_list H, False),
      (''status'', run_status H, True), (''logs'', run_logs H, True), (''kill'', run_kill H, True),
      (''snapshot'', run_snapshot H, True), (''export'', run_export H, True), (''import'', run_import H, True),
      (''autostart'', run_autostart H, True)]"

definition dispatch :: "host \<Rightarrow> string list \<Rightarrow> int io" where
  "dispatch H args =
     bnd (arg args 0) (\<lambda>subcommand.
       case map_of (HANDLERS H) subcommand of
         None \<Rightarrow> andthen (print_err (''unknown subcommand: '' @ subcommand)) (ret 1)
       | Some (handler, needs_uuid) \<Rightarrow>
           bnd (if needs_uuid then bnd (require_arg args subcommand) (\<lambda>a. ret (a = None)) else ret False) (\<lambda>missing.
             if missing then ret 1
             else bnd (handler args) (\<lambda>result. ret (case result of None \<Rightarrow> 0 | Some n \<Rightarrow> n))))"

definition vm_main :: "host \<Rightarrow> string list \<Rightarrow> int io" where
  "vm_main H args = (if args = [] then andthen usage (ret 1) else dispatch H args)"

section \<open>Facts\<close>

lemma io_laws: "bnd (ret a) f = f a" "bnd (bnd m f) g = bnd m (\<lambda>x. bnd (f x) g)" "andthen m k = bnd m (\<lambda>_. k)"
  by (auto simp: bnd_def ret_def andthen_def fun_eq_iff split: sum.splits prod.splits)

lemma arg_Cons [simp]: "arg (a # args) 0 = ret a" "arg (a # b # args) (Suc 0) = ret b" "arg (a # b # c # args) 2 = ret c"
  "arg (a # b # c # d # args) 3 = ret d"
  by (simp_all add: arg_def numeral_2_eq_2 numeral_3_eq_3)

text \<open>A subcommand with its argument runs its handler.\<close>

lemma main_handler:
  "map_of (HANDLERS H) sub = Some (h, needs) \<Longrightarrow>
   vm_main H (sub # u # rest) = bnd (h (sub # u # rest)) (\<lambda>r. ret (case r of None \<Rightarrow> 0 | Some n \<Rightarrow> n))"
  by (simp add: vm_main_def dispatch_def require_arg_def io_laws)

lemma main_on_first:
  "map_of (HANDLERS H) sub = Some (on_first f, needs) \<Longrightarrow> vm_main H (sub # u # rest) = andthen (f u rest) (ret 0)"
  by (simp add: main_handler on_first_def io_laws)

lemmas first_handlers = run_create_def run_rebuild_def run_sync_def run_start_def run_stop_def run_delete_def
  run_shell_def run_status_def run_logs_def run_kill_def

lemma first_operations:
  "vm_main H (''create'' # u # rest) = andthen (manager_create H u) (ret 0)"
  "vm_main H (''rebuild'' # u # rest) = andthen (manager_rebuild H u (''--fresh'' \<in> set rest)) (ret 0)"
  "vm_main H (''sync'' # u # rest) = andthen (vm_sync H u) (ret 0)"
  "vm_main H (''start'' # u # rest) = andthen (lifecycle_start H u) (ret 0)"
  "vm_main H (''stop'' # u # rest) = andthen (lifecycle_stop H u) (ret 0)"
  "vm_main H (''delete'' # u # rest) = andthen (lifecycle_delete H u (''--purge'' \<in> set rest)) (ret 0)"
  "vm_main H (''shell'' # u # rest) = andthen (shell H u) (ret 0)"
  "vm_main H (''status'' # u # rest) = andthen (show_status H u) (ret 0)"
  "vm_main H (''logs'' # u # rest) = andthen (show_logs H u rest) (ret 0)"
  "vm_main H (''kill'' # u # rest) = andthen (kill H u) (ret 0)"
  by (subst main_on_first; simp add: HANDLERS_def first_handlers)+

lemma handler_rows:
  "map_of (HANDLERS H) ''list'' = Some (run_list H, False)" "map_of (HANDLERS H) ''snapshot'' = Some (run_snapshot H, True)"
  "map_of (HANDLERS H) ''export'' = Some (run_export H, True)" "map_of (HANDLERS H) ''exec'' = Some (run_exec H, True)"
  "map_of (HANDLERS H) ''autostart'' = Some (run_autostart H, True)"
  by (simp_all add: HANDLERS_def)

lemma list_operation: "vm_main H (''list'' # u # rest) = andthen (list_vms H) (ret 0)"
  by (simp add: main_handler [OF handler_rows(1)] run_list_def io_laws)

lemma other_operations:
  "vm_main H [''snapshot'', u, ''create'', x] = andthen (snapshot_create H u x) (ret 0)"
  "vm_main H [''snapshot'', u, ''list''] = andthen (snapshot_list H u) (ret 0)"
  "vm_main H [''snapshot'', u, ''delete'', x] = andthen (snapshot_delete H u x) (ret 0)"
  "vm_main H [''export'', u, x] = andthen (export_vm H u (mk_path x)) (ret 0)"
  "vm_main H [''autostart'', ''enable'', u] = andthen (autostart_enable H u) (ret 0)"
  "vm_main H [''autostart'', ''disable'', u] = andthen (autostart_disable H u) (ret 0)"
  "vm_main H [''exec'', u, ''--'', x] = andthen (exec_cmd H u [x]) (ret 0)"
  "vm_main H [''exec'', u, ''--''] = andthen (print_err ''exec: missing command after uuid'') (ret 1)"
  by (simp_all add: handler_rows [THEN main_handler] run_snapshot_def run_export_def run_autostart_def run_exec_def io_laws)

section \<open>Properties\<close>

text \<open>The command line dispatches each subcommand to its operation. With enough arguments, every subcommand
  runs the operation of its name on the identifier that follows it, \<open>--purge\<close> and \<open>--fresh\<close> count wherever
  they stand after it, and the exit code is 0 when the operation returns.\<close>

theorem subcommands_run_their_operation:
  "list_all (\<lambda>(sub, operation). vm_main H (sub # u # rest) = andthen operation (ret 0))
     [(''create'', manager_create H u), (''rebuild'', manager_rebuild H u (''--fresh'' \<in> set rest)),
      (''sync'', vm_sync H u), (''start'', lifecycle_start H u), (''stop'', lifecycle_stop H u),
      (''delete'', lifecycle_delete H u (''--purge'' \<in> set rest)), (''shell'', shell H u), (''list'', list_vms H),
      (''status'', show_status H u), (''logs'', show_logs H u rest), (''kill'', kill H u)]
   \<and> vm_main H [''snapshot'', u, ''create'', x] = andthen (snapshot_create H u x) (ret 0)
   \<and> vm_main H [''snapshot'', u, ''list''] = andthen (snapshot_list H u) (ret 0)
   \<and> vm_main H [''snapshot'', u, ''delete'', x] = andthen (snapshot_delete H u x) (ret 0)
   \<and> vm_main H [''export'', u, x] = andthen (export_vm H u (mk_path x)) (ret 0)
   \<and> vm_main H [''autostart'', ''enable'', u] = andthen (autostart_enable H u) (ret 0)
   \<and> vm_main H [''autostart'', ''disable'', u] = andthen (autostart_disable H u) (ret 0)
   \<and> vm_main H [''exec'', u, ''--'', x] = andthen (exec_cmd H u [x]) (ret 0)
   \<and> vm_main H [''exec'', u, ''--''] = andthen (print_err ''exec: missing command after uuid'') (ret 1)"
  by (simp add: first_operations list_operation other_operations)

text \<open>A wrong command line does nothing. Without arguments, with an unknown subcommand, or with a subcommand
  that lacks its identifier, the program only prints to standard error and exits with code 1.\<close>

theorem wrong_usage_is_harmless:
  "(\<exists>m. vm_main H [] w = (Inr 1, w\<lparr>err := err w @ [m]\<rparr>)) \<and>
   (case map_of (HANDLERS H) sub of
      None \<Rightarrow> vm_main H (sub # rest) w = (Inr 1, w\<lparr>err := err w @ [''unknown subcommand: '' @ sub]\<rparr>)
    | Some (h, needs) \<Rightarrow> needs = (sub \<noteq> ''list'') \<and>
        (if needs then vm_main H [sub] w = (Inr 1, w\<lparr>err := err w @ [sub @ '': missing argument'']\<rparr>) else True))"
proof -
  obtain m where m: "usage = print_err m" unfolding usage_def by blast
  have wp_usage: "usage w = (Inr (), w\<lparr>err := err w @ [m]\<rparr>)" unfolding m by (simp add: print_err_def update_def)
  then have "\<exists>m. vm_main H [] w = (Inr 1, w\<lparr>err := err w @ [m]\<rparr>)"
    by (auto simp: vm_main_def andthen_def bnd_def ret_def)
  moreover have "needs = (sub \<noteq> ''list'')" if "map_of (HANDLERS H) sub = Some (h, needs)" for h needs
    using that by (auto simp: HANDLERS_def split: if_splits)
  ultimately show ?thesis
    by (auto simp: vm_main_def dispatch_def require_arg_def io_laws bnd_def print_err_def update_def ret_def split: option.split)
qed

end
