(* ===== verification/MachineSession.thy ===== *)
theory MachineSession
  imports QemuProperties
begin

text \<open>
  The life of a QEMU machine between starts, as a state machine. A session is a sequence of the operations of
  \<open>qemu_backend.py\<close> that stop, query and destroy one machine and that all return; the phase of the machine is
  read off the world. The sessions refine the transition system of the phases, in which a stop ends in the phase
  \<open>Idle\<close>, a destruction in \<open>Absent\<close>, and a query changes nothing unless it has to ask \<open>ps\<close>.
\<close>

section \<open>Phases\<close>

datatype phase = Absent | Idle | Dead nat | Live nat | Broken

definition phase_of :: "host \<Rightarrow> string \<Rightarrow> world \<Rightarrow> phase" where
  "phase_of H uuid w =
     (let d = vm_dir_of H uuid in
      if \<not> is_file H w (pid_path d) then (if is_dir H w d then Idle else Absent)
      else if \<not> is_dir H w d then Broken
      else case pid_in H w d of
        None \<Rightarrow> Broken
      | Some pid \<Rightarrow> if procs w pid = None then Dead pid else Live pid)"

datatype vm_op = Stop | Status | Destroy bool

fun perform :: "host \<Rightarrow> string \<Rightarrow> vm_op \<Rightarrow> unit io" where
  "perform H uuid Stop = qemu_stop H uuid"
| "perform H uuid Status = bnd (qemu_status H uuid) (\<lambda>_. ret ())"
| "perform H uuid (Destroy purge) = qemu_destroy H uuid purge"

text \<open>Sessions of the program, from their last operation.\<close>

inductive session :: "host \<Rightarrow> string \<Rightarrow> world \<Rightarrow> vm_op list \<Rightarrow> world \<Rightarrow> bool" for H uuid w where
  session_start: "session H uuid w [] w"
| session_step: "session H uuid w ops w' \<Longrightarrow> perform H uuid op w' = (Inr (), w'') \<Longrightarrow> session H uuid w (ops @ [op]) w''"

text \<open>The transitions of the phases.\<close>

inductive phase_step :: "phase \<Rightarrow> vm_op \<Rightarrow> phase \<Rightarrow> bool" where
  step_absent: "phase_step Absent op Absent"
| step_stop: "p \<noteq> Absent \<Longrightarrow> phase_step p Stop Idle"
| step_destroy: "p \<noteq> Absent \<Longrightarrow> phase_step p (Destroy purge) Absent"
| step_quiet_idle: "phase_step Idle Status Idle"
| step_quiet_dead: "phase_step (Dead pid) Status (Dead pid)"
| step_query: "phase_step (Live pid) Status q"
| step_broken: "phase_step Broken op q"

inductive_simps phase_step_Absent [simp]: "phase_step Absent op q"
inductive_simps phase_step_Idle [simp]: "phase_step Idle op q"

inductive phase_run :: "phase \<Rightarrow> vm_op list \<Rightarrow> phase \<Rightarrow> bool" for p where
  run_start: "phase_run p [] p"
| run_step: "phase_run p ops q \<Longrightarrow> phase_step q op r \<Longrightarrow> phase_run p (ops @ [op]) r"

section \<open>A stop leaves the directory\<close>

lemma mark_stopped_dir: "wp (mark_stopped H d er) (\<lambda>_ w'. is_dir H w' d) (\<lambda>_ _. True) w"
  by (auto simp: mark_stopped_def wps Let_def save_state_def state_tmp_def state_path_def is_dir_def split: option.split)

lemma finish_stop_dir: "wp (finish_stop H d) (\<lambda>_ w'. is_dir H w' d) (\<lambda>_ _. True) w"
  unfolding finish_stop_def by (intro andthen_any) (auto simp: wps intro!: wp_mono [OF mark_stopped_dir])

lemma stop_terminate_dir: "wp (stop_terminate H d pid) (\<lambda>_ w'. is_dir H w' d) (\<lambda>_ _. True) w"
  unfolding stop_terminate_def Let_def
  by (intro andthen_any after_any raise_any wait_then finish_stop_dir)

lemma stop_process_dir: "wp (stop_process H d pid) (\<lambda>_ w'. is_dir H w' d) (\<lambda>_ _. True) w"
  unfolding stop_process_def wp_bnd wp_asks wp_if
  using wait_then(1) [OF finish_stop_dir stop_terminate_dir]
  by (auto intro: stop_terminate_dir andthen_any)

lemma stop_alive_dir: "wp (stop_alive H d uuid pid ident) (\<lambda>_ w'. is_dir H w' d) (\<lambda>_ _. True) w"
proof -
  have "wp (if \<not> same then let msg = m in bnd (mark_error H d msg) (\<lambda>_. raise (RuntimeError msg))
            else stop_process H d pid) (\<lambda>_ w'. is_dir H w' d) (\<lambda>_ _. True) w" for same m w
    by (cases same) (simp_all add: stop_process_dir after_any raise_any Let_def)
  then show ?thesis unfolding stop_alive_def by (rule after_any)
qed

lemma stop_known_dir: "wp (stop_known H uuid pid_opt) (\<lambda>_ w'. is_dir H w' (vm_dir_of H uuid)) (\<lambda>_ _. True) w"
proof -
  have marked: "wp (bnd (mark_stopped H (vm_dir_of H uuid) None) (\<lambda>_. ret ())) (\<lambda>_ w'. is_dir H w' (vm_dir_of H uuid)) (\<lambda>_ _. True) w" for w
    by (auto simp: wps intro!: wp_mono [OF mark_stopped_dir])
  have branch: "wp (if \<not> alive then andthen (unlink_missing_ok H (pid_path (vm_dir_of H uuid)))
                    (bnd (mark_stopped H (vm_dir_of H uuid) None) (\<lambda>_. ret ()))
                  else stop_alive H (vm_dir_of H uuid) uuid pid ident) (\<lambda>_ w'. is_dir H w' (vm_dir_of H uuid)) (\<lambda>_ _. True) w"
    for alive pid ident w
    by (cases alive) (simp_all add: stop_alive_dir andthen_any marked)
  show ?thesis
  proof (cases pid_opt)
    case None
    then show ?thesis using marked by (simp add: stop_known_def)
  next
    case (Some pid)
    then show ?thesis using branch unfolding stop_known_def Let_def Some option.case by (intro after_any)
  qed
qed

lemma stop_keeps_dir:
  "is_dir H w (vm_dir_of H uuid) \<Longrightarrow> qemu_stop H uuid w = (Inr (), w') \<Longrightarrow> is_dir H w' (vm_dir_of H uuid)"
proof -
  assume "is_dir H w (vm_dir_of H uuid)" and stop: "qemu_stop H uuid w = (Inr (), w')"
  then have "wp (qemu_stop H uuid) (\<lambda>_ w'. is_dir H w' (vm_dir_of H uuid)) (\<lambda>_ _. True) w"
    unfolding qemu_stop_def wp_bnd wp_asks by (simp add: wp_bnd [symmetric] after_any stop_known_dir)
  from wp_returns [OF this stop] show ?thesis .
qed

section \<open>The operations in each phase\<close>

lemma phase_dir: "phase_of H uuid w \<in> {Idle, Dead pid, Live pid} \<Longrightarrow> is_dir H w (vm_dir_of H uuid)"
  by (auto simp: phase_of_def Let_def split: if_splits option.splits)

lemma phase_absent: "phase_of H uuid w = Absent \<longleftrightarrow> \<not> is_dir H w (vm_dir_of H uuid) \<and> \<not> is_file H w (pid_path (vm_dir_of H uuid))"
  by (auto simp: phase_of_def Let_def split: option.splits)

lemma phase_idle: "phase_of H uuid w = Idle \<longleftrightarrow> is_dir H w (vm_dir_of H uuid) \<and> \<not> is_file H w (pid_path (vm_dir_of H uuid))"
  by (auto simp: phase_of_def Let_def split: option.splits)

lemma stop_phase:
  assumes "qemu_stop H uuid w = (Inr (), w')"
  shows "if is_dir H w (vm_dir_of H uuid) then phase_of H uuid w' = Idle else w' = w"
proof (cases "is_dir H w (vm_dir_of H uuid)")
  case True
  then have "stopped_clean H w' (vm_dir_of H uuid)"
    using wp_returns [OF qemu_stop_effect [OF True] assms] by simp
  then show ?thesis using stop_keeps_dir [OF True assms] True by (simp add: phase_idle stopped_clean_def)
next
  case False
  with assms show ?thesis by (simp add: qemu_stop_eq)
qed

lemma discard_absent:
  assumes "plain uuid" "uuid \<noteq> ''_archive''" "discard_dir H uuid purge w = (Inr (), w')"
  shows "if is_dir H w (vm_dir_of H uuid) then phase_of H uuid w' = Absent else w' = w"
proof (cases "is_dir H w (vm_dir_of H uuid)")
  case True
  have gone: "fs w' (Path True (vm_root H @ [uuid] @ x)) = None" for x
  proof (cases purge)
    case p: True
    then show ?thesis using discard_purge [OF assms(1) True] assms(3) by (auto simp: below_def)
  next
    case p: False
    then show ?thesis using wp_returns [OF discard_archive [OF assms(1,2) True]] assms(3) by auto
  qed
  from gone [of "[]"] gone [of "[''qemu.pid'']"] True show ?thesis
    by (simp add: phase_absent is_dir_def is_file_def at_def resolve_vm_dir [OF assms(1)] child_Path)
next
  case False
  with assms show ?thesis by (simp add: discard_dir_def Let_def bnd_def asks_def ret_def)
qed

lemma destroy_phase:
  assumes "plain uuid" "uuid \<noteq> ''_archive''" "qemu_destroy H uuid purge w = (Inr (), w')"
  shows "if is_dir H w (vm_dir_of H uuid) then phase_of H uuid w' = Absent else w' = w"
proof -
  obtain w1 where "qemu_stop H uuid w = (Inr (), w1)" and "discard_dir H uuid purge w1 = (Inr (), w')"
    using qemu_destroy_split [OF assms(3)] by blast
  then show ?thesis
    using stop_phase [of H uuid w w1] discard_absent [OF assms(1,2), of H purge w1 w'] by (auto simp: phase_idle split: if_splits)
qed

text \<open>A status query without a live process asks nobody.\<close>

lemma status_quiet:
  assumes "phase_of H uuid w \<in> {Absent, Idle, Dead pid}" "qemu_status H uuid w = (Inr st, w')"
  shows "w' = w"
proof -
  have "wp (qemu_status H uuid) (\<lambda>_ w'. w' = w) (\<lambda>_ _. True) w"
    using assms(1)
    by (auto simp: qemu_status_def Let_def wps phase_of_def pid_in_def is_file_def is_dir_def
        split: if_splits option.splits node.splits stored_record.splits)
  from wp_returns [OF this assms(2)] show ?thesis .
qed

lemma perform_status: "perform H uuid Status w = (Inr (), w') \<longleftrightarrow> (\<exists>st. qemu_status H uuid w = (Inr st, w'))"
  by (auto simp: bnd_def ret_def split: prod.splits sum.splits)

lemma perform_phase:
  assumes "plain uuid" "uuid \<noteq> ''_archive''" "perform H uuid op w = (Inr (), w')"
  shows "phase_step (phase_of H uuid w) op (phase_of H uuid w')"
proof (cases "phase_of H uuid w")
  case Broken
  then show ?thesis by (simp add: step_broken)
next
  case Absent
  then have "w' = w"
    using assms stop_phase [of H uuid w w'] destroy_phase [OF assms(1,2), of H _ w w'] status_quiet [of H uuid w]
    by (cases op) (auto simp: phase_absent perform_status simp del: perform.simps(2))
  then show ?thesis using Absent by simp
next
  case Idle
  then have d: "is_dir H w (vm_dir_of H uuid)" by (simp add: phase_idle)
  show ?thesis
  proof (cases op)
    case Stop
    then show ?thesis using assms(3) stop_phase [of H uuid w w'] d by (simp add: Idle)
  next
    case Status
    then show ?thesis using assms(3) status_quiet [of H uuid w] Idle by (auto simp: perform_status simp del: perform.simps(2))
  next
    case (Destroy purge)
    then show ?thesis using assms(3) destroy_phase [OF assms(1,2), of H purge w w'] d by (simp add: Idle)
  qed
next
  case (Dead pid)
  then show ?thesis
    using assms stop_phase [of H uuid w w'] destroy_phase [OF assms(1,2), of H _ w w'] status_quiet [of H uuid w pid]
      phase_dir [of H uuid w pid]
    by (cases op) (auto simp: perform_status step_stop step_destroy step_quiet_dead simp del: perform.simps(2))
next
  case (Live pid)
  then show ?thesis
    using assms stop_phase [of H uuid w w'] destroy_phase [OF assms(1,2), of H _ w w'] phase_dir [of H uuid w pid]
    by (cases op) (auto simp: step_stop step_destroy step_query simp del: perform.simps(2))
qed

lemma session_refines:
  assumes "plain uuid" "uuid \<noteq> ''_archive''"
  shows "session H uuid w ops w' \<Longrightarrow> phase_run (phase_of H uuid w) ops (phase_of H uuid w')"
  by (induction rule: session.induct) (auto intro: run_start run_step perform_phase [OF assms])

text \<open>The requests of an operation on a machine that is not there or not running.\<close>

lemma perform_inert:
  assumes "phase_of H uuid w = Idle \<or> phase_of H uuid w = Absent" "perform H uuid op w = (Inr (), w')"
  shows "requests w' = requests w"
proof -
  have none: "pid_in H w (vm_dir_of H uuid) = None"
    using assms(1) by (auto simp: phase_idle phase_absent pid_in_def is_file_def split: option.splits node.splits)
  have stop: "requests w1 = requests w" if "qemu_stop H uuid w = (r, w1)" for r w1
    using qemu_stop_requests [of H uuid w] that by (auto simp: none dest: list_emb_Nil2)
  have "emits (\<lambda>_. False) (discard_dir H uuid purge)" for purge
    unfolding discard_dir_def Let_def by (intro emits_intros)
  then have discard: "requests w2 = requests w1" if "discard_dir H uuid purge w1 = (r, w2)" for purge r w1 w2
    using emits_none that by (metis snd_conv)
  show ?thesis
  proof (cases op)
    case Stop
    then show ?thesis using assms(2) stop by simp
  next
    case Status
    then show ?thesis using assms status_quiet [of H uuid w] by (auto simp: perform_status simp del: perform.simps(2))
  next
    case (Destroy purge)
    then show ?thesis using assms(2) qemu_destroy_split [of H uuid purge w w'] stop discard by fastforce
  qed
qed

section \<open>Properties\<close>

text \<open>The operations implement the state machine. Every session of stops, queries and destructions of a machine
  with an ordinary identifier, whatever the external programs do, is a run of the phases: after a stop the machine
  is idle with its directory, after a destruction it is absent, and queries keep the phase of a machine without a
  live process.\<close>

theorem sessions_refine_phases:
  assumes "plain uuid" "uuid \<noteq> ''_archive''" "session H uuid w ops w'"
  shows "phase_run (phase_of H uuid w) ops (phase_of H uuid w')"
  using session_refines [OF assms] .

lemma demo_phase: "phase_of demo_host ''vm1'' demo_dead = Dead 7"
  using demo_facts(1) by (simp add: phase_of_def Let_def is_file_def demo_pid_file demo_pid_dead is_dir_def)

lemma demo_not_archive: "''vm1'' \<noteq> ''_archive''" by simp

lemma demo_stopped_phase: "phase_of demo_host ''vm1'' demo_stopped = Idle"
  using stop_phase [OF demo_stop_eq] by simp

lemma demo_destroy_again: "\<exists>w'. perform demo_host ''vm1'' (Destroy True) demo_stopped = (Inr (), w')"
proof -
  have ready: "vm_dir_ready demo_host demo_stopped (Path False [''.vms'', ''vm1''])"
    by (simp add: demo_stopped_def ready_unlink_pid)
  have pid: "at demo_host demo_stopped (pid_path (Path False [''.vms'', ''vm1''])) = None"
    by (simp add: demo_stopped_def)
  have known: "stored demo_host demo_stopped (Path False [''.vms'', ''vm1'']) \<noteq> Corrupt"
    by (simp add: demo_stopped_def)
  have "wp (qemu_destroy demo_host ''vm1'' True) (\<lambda>_ _. True) (\<lambda>_ _. False) demo_stopped"
    using demo_stopped_dir pid known
    by (simp add: qemu_destroy_def qemu_stop_def stop_known_def discard_dir_def wps Let_def wp_mark_stopped [OF ready] demo_saved_dir)
  then show ?thesis by (auto dest: wp_exists)
qed

theorem sessions_refine_phases_witness:
  "\<exists>w'. session demo_host ''vm1'' demo_dead [Stop, Destroy True] w' \<and>
     phase_run (Dead 7) [Stop, Destroy True] (phase_of demo_host ''vm1'' w')"
proof -
  have "session demo_host ''vm1'' demo_dead [Stop] demo_stopped"
    using session_step [OF session_start, of demo_host "''vm1''" Stop demo_dead] demo_stop_eq by simp
  moreover obtain w' where "perform demo_host ''vm1'' (Destroy True) demo_stopped = (Inr (), w')"
    using demo_destroy_again by blast
  ultimately have "session demo_host ''vm1'' demo_dead [Stop, Destroy True] w'"
    using session_step [of demo_host "''vm1''" demo_dead "[Stop]" demo_stopped "Destroy True" w'] by simp
  then show ?thesis using sessions_refine_phases [OF demo_plain] demo_phase by (metis demo_not_archive)
qed

text \<open>A machine that is not running is inert. From a machine that is idle or absent, no session of stops,
  queries and destructions sends anything: no signal, no query, no command; and it stays idle or absent.\<close>

theorem idle_machine_is_inert:
  assumes "plain uuid" "uuid \<noteq> ''_archive''" "phase_of H uuid w = Idle \<or> phase_of H uuid w = Absent"
    and "session H uuid w ops w'"
  shows "requests w' = requests w \<and> (phase_of H uuid w' = Idle \<or> phase_of H uuid w' = Absent)"
  using assms(4)
proof (induction rule: session.induct)
  case (session_step ops w1 op w2)
  then have "requests w2 = requests w1" using perform_inert by blast
  with session_step perform_phase [OF assms(1,2) session_step(2)] show ?case by (auto simp: phase_step.simps)
qed (simp add: assms(3))

theorem idle_machine_is_inert_witness:
  "\<exists>w'. session demo_host ''vm1'' demo_stopped [Destroy True] w' \<and> requests w' = requests demo_stopped"
proof -
  obtain w' where "perform demo_host ''vm1'' (Destroy True) demo_stopped = (Inr (), w')"
    using demo_destroy_again by blast
  then have s: "session demo_host ''vm1'' demo_stopped [Destroy True] w'"
    using session_step [OF session_start, of demo_host "''vm1''" "Destroy True" demo_stopped w'] by simp
  show ?thesis using idle_machine_is_inert [OF demo_plain demo_not_archive disjI1 [OF demo_stopped_phase] s] s by blast
qed

end
