(* ===== verification/CommandSession.thy ===== *)
theory CommandSession
  imports VmMain MachineSession
begin

text \<open>
  The command line over the machine: sessions of the command lines \<open>stop\<close>, \<open>status\<close> and \<open>delete\<close> of
  \<open>workspace.cli.vm_main\<close>, from the dispatch of the arguments through the stored configuration and the chosen
  backend down to the files and processes of a QEMU machine. They refine the same phases as the operations of the backend.
\<close>

section \<open>Command lines\<close>

fun command_line :: "string \<Rightarrow> vm_op \<Rightarrow> string list" where
  "command_line uuid Stop = [''stop'', uuid]"
| "command_line uuid Status = [''status'', uuid]"
| "command_line uuid (Destroy purge) = ''delete'' # uuid # (if purge then [''--purge''] else [])"

text \<open>The stored configuration of the machine can be read and selects QEMU.\<close>

definition qemu_selected :: "host \<Rightarrow> string \<Rightarrow> world \<Rightarrow> bool" where
  "qemu_selected H uuid w =
     (case fst (load_vm_config H uuid w) of Inl _ \<Rightarrow> False | Inr cfg \<Rightarrow> backend (isolation cfg) = backend_kind.Qemu)"

text \<open>A session of command lines that all end with the exit code 0, on a machine whose configuration selects QEMU
  whenever a command starts.\<close>

inductive command_session :: "host \<Rightarrow> string \<Rightarrow> world \<Rightarrow> vm_op list \<Rightarrow> world \<Rightarrow> bool" for H uuid w where
  no_command: "command_session H uuid w [] w"
| next_command: "command_session H uuid w ops w' \<Longrightarrow> qemu_selected H uuid w' \<Longrightarrow>
    vm_main H (command_line uuid op) w' = (Inr 0, w'') \<Longrightarrow> command_session H uuid w (ops @ [op]) w''"

section \<open>From the arguments to the backend\<close>

lemma load_vm_config_same: "load_vm_config H uuid w = (Inr cfg, w') \<Longrightarrow> w' = w"
  by (auto simp: load_vm_config_def load_config_def read_content_def bnd_def asks_def andthen_def raise_def ret_def print_err_def
      update_def split: if_splits option.splits node.splits content.splits sum.splits)

lemma selected_backend: "qemu_selected H uuid w \<Longrightarrow> backend_for_uuid H uuid w = (Inr (qemu_backend H), w)"
  by (cases "load_vm_config H uuid w"; cases "fst (load_vm_config H uuid w)")
    (auto simp: qemu_selected_def backend_for_uuid_def get_backend_def bnd_def ret_def dest: load_vm_config_same)

lemma command_operations:
  "vm_main H (command_line uuid Stop) = andthen (lifecycle_stop H uuid) (ret 0)"
  "vm_main H (command_line uuid Status) = andthen (show_status H uuid) (ret 0)"
  "vm_main H (command_line uuid (Destroy purge)) = andthen (lifecycle_delete H uuid purge) (ret 0)"
  by (simp_all add: first_operations)

lemma andthen_ret: "andthen m (ret a) w = (Inr b, w') \<longleftrightarrow> (\<exists>x. m w = (Inr x, w')) \<and> b = a"
  by (auto simp: andthen_def bnd_def ret_def split: prod.splits sum.splits)

text \<open>The phase depends on the directory, the PID file and the processes only.\<close>

lemma phase_cong:
  assumes "at H w' (vm_dir_of H uuid) = at H w (vm_dir_of H uuid)"
    and "at H w' (pid_path (vm_dir_of H uuid)) = at H w (pid_path (vm_dir_of H uuid))" and "procs w' = procs w"
  shows "phase_of H uuid w' = phase_of H uuid w"
  unfolding phase_of_def Let_def is_file_def is_dir_def pid_in_def assms ..

lemma phase_frame:
  "phase_of H uuid (set_node H (host_pid_path H uuid) None w) = phase_of H uuid w"
  "phase_of H uuid (w\<lparr>out := x\<rparr>) = phase_of H uuid w"
  by (rule phase_cong; simp add: pid_path_def host_pid_path_def)+

lemma lifecycle_stop_phase:
  assumes "qemu_selected H uuid w" "lifecycle_stop H uuid w = (Inr (), w')"
  shows "\<exists>w1. perform H uuid Stop w = (Inr (), w1) \<and> phase_of H uuid w' = phase_of H uuid w1 \<and> requests w' = requests w1"
  using assms selected_backend [OF assms(1)]
  by (auto simp: lifecycle_stop_def qemu_backend_def bnd_def andthen_def unlink_missing_ok_def print_out_def update_def phase_frame
      split: prod.splits sum.splits if_splits)

lemma lifecycle_delete_phase:
  assumes "qemu_selected H uuid w" "lifecycle_delete H uuid purge w = (Inr (), w')"
  shows "\<exists>w1. perform H uuid (Destroy purge) w = (Inr (), w1) \<and> phase_of H uuid w' = phase_of H uuid w1 \<and> requests w' = requests w1"
  using assms selected_backend [OF assms(1)]
  by (auto simp: lifecycle_delete_def qemu_backend_def bnd_def andthen_def unlink_missing_ok_def print_out_def update_def asks_def phase_frame
      split: prod.splits sum.splits if_splits)

lemma show_status_phase:
  assumes "qemu_selected H uuid w" "show_status H uuid w = (Inr (), w')"
  shows "\<exists>w1. perform H uuid Status w = (Inr (), w1) \<and> phase_of H uuid w' = phase_of H uuid w1 \<and> requests w' = requests w1"
proof -
  have "wp (show_status H uuid) (\<lambda>_ w'. \<exists>st w1. qemu_status H uuid w = (Inr st, w1) \<and> phase_of H uuid w' = phase_of H uuid w1 \<and> requests w' = requests w1)
      (\<lambda>_ _. True) w"
  proof -
    obtain r w1 where r: "qemu_status H uuid w = (r, w1)" by (cases "qemu_status H uuid w")
    have "wp (qemu_status H uuid) (\<lambda>st v. wp (bnd (ret st) (\<lambda>st.
       let log_file = child (vm_dir_of H uuid) ''qemu.log'' in
       andthen (print_out (''UUID:    '' @ uuid))
      (andthen (print_out (''Backend: '' @ status_value st ''backend'' ''qemu''))
      (andthen (print_out (''State:   '' @ state_of st))
      (andthen (when_io (status_value st ''pid'' [] \<noteq> []) (print_out (''PID:     '' @ status_value st ''pid'' [])))
         (bnd (asks (\<lambda>w. is_file H w log_file)) (\<lambda>f. when_io f (print_out (''Log:     '' @ path_str log_file)))))))))
      (\<lambda>_ w'. phase_of H uuid w' = phase_of H uuid v \<and> requests w' = requests v) (\<lambda>_ _. True) v) (\<lambda>_ _. True) w"
      by (rule wp_any) (simp_all add: wps Let_def phase_frame)
    then show ?thesis
      using selected_backend [OF assms(1)] r
      by (auto simp: show_status_def wp_def bnd_def ret_def qemu_backend_def Let_def split: sum.splits prod.splits)
  qed
  from wp_returns [OF this assms(2)] show ?thesis by (auto simp: bnd_def ret_def)
qed

text \<open>A command line that succeeds is the operation of the backend, up to what is printed and the PID file of podman.\<close>

lemma command_performs:
  assumes "qemu_selected H uuid w" "vm_main H (command_line uuid op) w = (Inr 0, w')"
  shows "\<exists>w1. perform H uuid op w = (Inr (), w1) \<and> phase_of H uuid w' = phase_of H uuid w1 \<and> requests w' = requests w1"
proof (cases op)
  case Stop
  then show ?thesis using assms(2) lifecycle_stop_phase [OF assms(1)]
    by (simp add: command_operations andthen_ret del: command_line.simps)
next
  case Status
  then show ?thesis using assms(2) show_status_phase [OF assms(1)]
    by (simp add: command_operations andthen_ret del: command_line.simps perform.simps)
next
  case (Destroy purge)
  then show ?thesis using assms(2) lifecycle_delete_phase [OF assms(1)]
    by (simp add: command_operations andthen_ret del: command_line.simps)
qed

lemma command_phase:
  assumes "plain uuid" "uuid \<noteq> ''_archive''" "qemu_selected H uuid w" "vm_main H (command_line uuid op) w = (Inr 0, w')"
  shows "phase_step (phase_of H uuid w) op (phase_of H uuid w')"
  using command_performs [OF assms(3,4)] perform_phase [OF assms(1,2)] by metis

section \<open>Properties\<close>

text \<open>C30: the command lines implement the state machine. Every session of the command lines \<open>stop\<close>, \<open>status\<close> and
  \<open>delete\<close> that all end with the exit code 0, for a QEMU machine with an ordinary identifier and whatever the external
  programs do, is a run of the phases: after a stop the machine is idle with its directory, after a deletion it is absent,
  and queries keep the phase of a machine without a live process.\<close>

theorem command_lines_refine_phases:
  assumes "plain uuid" "uuid \<noteq> ''_archive''" "command_session H uuid w ops w'"
  shows "phase_run (phase_of H uuid w) ops (phase_of H uuid w')"
  using assms(3)
  by (induction rule: command_session.induct) (auto intro: run_start run_step command_phase [OF assms(1,2)])

text \<open>The demonstration machine with a configuration that selects QEMU, its process gone, with or without its PID file.\<close>

definition demo_qemu_vm :: "node option \<Rightarrow> world" where
  "demo_qemu_vm n = set_node demo_host (pid_path (Path False [''.vms'', ''vm1''])) n
     (set_node demo_host (yaml_path (Path False [''.vms'', ''vm1''])) (Some (File (ConfigDoc demo_qemu))) demo_dead)"

lemma demo_qemu_valid: "validate_config False demo_qemu = Inr demo_qemu"
  by code_simp

lemma demo_qemu_at:
  "m \<noteq> ''..'' \<Longrightarrow> at demo_host (demo_qemu_vm n) (child (Path False [''.vms'', ''vm1'']) m) =
     (if m = ''qemu.pid'' then n else if m = ''vm.yaml'' then Some (File (ConfigDoc demo_qemu))
      else map_of demo_nodes [''work'', ''.vms'', ''vm1'', m])"
  "is_dir demo_host (demo_qemu_vm n) (Path False [''.vms'', ''vm1''])" "procs (demo_qemu_vm n) pid = None"
  by (auto simp: demo_qemu_vm_def yaml_path_def pid_path_def demo_node is_dir_def)

lemma demo_qemu_selected: "qemu_selected demo_host ''vm1'' (demo_qemu_vm n)"
proof -
  have "load_vm_config demo_host ''vm1'' (demo_qemu_vm n) = (Inr demo_qemu, demo_qemu_vm n)"
    by (simp add: load_vm_config_def load_config_def read_content_def bnd_def asks_def ret_def is_file_def yaml_path_def
        demo_qemu_at demo_qemu_valid)
  then show ?thesis by (simp add: qemu_selected_def) (simp add: demo_qemu_def)
qed

lemma demo_qemu_phase:
  "phase_of demo_host ''vm1'' (demo_qemu_vm (Some (File (Text ''7'')))) = Dead 7"
  "phase_of demo_host ''vm1'' (demo_qemu_vm None) = Idle"
  by (simp_all add: phase_of_def Let_def is_file_def pid_in_def pid_path_def demo_qemu_at)

lemma demo_qemu_files:
  "vm_dir_ready demo_host (demo_qemu_vm n) (Path False [''.vms'', ''vm1''])"
  "stored demo_host (demo_qemu_vm n) (Path False [''.vms'', ''vm1'']) = Stored demo_state"
  "at demo_host (demo_qemu_vm n) (pid_path (Path False [''.vms'', ''vm1''])) = n"
  "at demo_host (demo_qemu_vm n) (child (Path False [''.vms'', ''vm1'']) ''pid'') = None"
  "at demo_host (demo_qemu_vm n) (Path False [''.vms'', ''vm1'']) = Some Dir"
  using demo_qemu_at(2) [of n]
  by (simp_all add: vm_dir_ready_def stored_def state_path_def state_tmp_def STATE_FILE_def demo_qemu_at pid_path_def is_dir_def)
    (simp_all add: demo_nodes_def)

lemma demo_qemu_stops:
  assumes "n = None \<or> n = Some (File (Text ''7''))"
  shows "\<exists>w'. command_session demo_host ''vm1'' (demo_qemu_vm n) [Stop] w'"
proof -
  have "wp (lifecycle_stop demo_host ''vm1'') (\<lambda>_ _. True) (\<lambda>_ _. False) (demo_qemu_vm n)"
    unfolding lifecycle_stop_def wp_bnd [of "backend_for_uuid H u" for H u] wp_def [of "backend_for_uuid H u" for H u]
      selected_backend [OF demo_qemu_selected]
    using assms
    by (elim disjE) (simp add: qemu_backend_def qemu_stop_def stop_known_def wps Let_def is_dir_def is_file_def wp_mark_stopped
        ready_unlink_pid host_pid_path_def demo_qemu_files demo_qemu_at(3), simp add: pid_path_def STATE_FILE_def demo_qemu_files)+
  then obtain w' where "vm_main demo_host (command_line ''vm1'' Stop) (demo_qemu_vm n) = (Inr 0, w')"
    by (auto simp: command_operations andthen_ret simp del: command_line.simps dest: wp_exists)
  then show ?thesis using next_command [OF no_command demo_qemu_selected, of Stop] by auto
qed

theorem command_lines_refine_phases_witness:
  "\<exists>w'. command_session demo_host ''vm1'' (demo_qemu_vm (Some (File (Text ''7'')))) [Stop] w' \<and>
     phase_run (Dead 7) [Stop] (phase_of demo_host ''vm1'' w')"
  using demo_qemu_stops [of "Some (File (Text ''7''))"] command_lines_refine_phases [OF demo_plain demo_not_archive] demo_qemu_phase
  by metis



end
