(* ===== verification/Migration.thy ===== *)
theory Migration
  imports Bundles CommandSession
begin

text \<open>
  The commands \<open>export\<close> and \<open>import\<close> of \<open>workspace.cli.vm_main\<close> one after the other: a machine is written to a
  bundle by the first and set up from it by the second, which shares with the first only the directory of the bundle.
\<close>

section \<open>From the arguments to the bundle\<close>

lemma import_operation: "vm_main H [''import'', d] = andthen (import_vm H (mk_path d)) (ret 0)"
proof -
  have "map_of (HANDLERS H) ''import'' = Some (run_import H, True)" by (simp add: HANDLERS_def)
  from main_handler [OF this] show ?thesis by (simp add: run_import_def io_laws)
qed

section \<open>What an import takes from the bundle\<close>

lemma check_bundle_pure: "check_bundle H s w = (Inr x, v) \<Longrightarrow> v = w"
  by (auto simp: check_bundle_def manifest_format_def read_content_def returns raise_def
      split: if_splits option.splits node.splits content.splits)

text \<open>The record of a bundle, as the import writes it.\<close>

definition renewed :: "string \<Rightarrow> int \<Rightarrow> qemu_state \<Rightarrow> qemu_state" where
  "renewed now port s = s\<lparr>qs_created_at := now, qs_last_started_at := None, qs_last_stopped_at := None,
     qs_last_error := None, qs_pid_start := None, qs_ssh_port := Some port\<rparr>"

lemma reset_stored:
  assumes "stored H w d = Stored s"
  shows "wp (reset_imported H d port) (\<lambda>_ w'. w' = saved H d (renewed (h_now H w) port s) w) (\<lambda>_ _. True) w"
  using assms unfolding reset_imported_def renewed_def by (auto simp: wps intro!: wp_save_state_any)

text \<open>Where the file of a bundle was in the first place, it is in the second with the same content.\<close>

definition carried :: "host \<Rightarrow> world \<Rightarrow> path \<Rightarrow> world \<Rightarrow> path \<Rightarrow> string \<Rightarrow> bool" where
  "carried H w s w' d n \<longleftrightarrow>
     (case at H w (p_sub s n) of Some (File c) \<Rightarrow> at H w' (p_sub d n) = Some (File c) | _ \<Rightarrow> True)"

lemma carried_iff:
  "carried H w s w' d n \<longleftrightarrow> (\<forall>c. at H w (p_sub s n) = Some (File c) \<longrightarrow> at H w' (p_sub d n) = Some (File c))"
  by (auto simp: carried_def split: option.split node.split)

lemma carried_trans: "copied H w s d n \<Longrightarrow> carried H w d w' e n \<Longrightarrow> carried H w s w' e n"
  by (simp add: copied_iff carried_iff)

text \<open>What the commands rely on of \<open>qemu-img info\<close>: it only reads.\<close>

definition info_only_reads :: "host \<Rightarrow> path \<Rightarrow> world \<Rightarrow> bool" where
  "info_only_reads H source w =
     (case run_qemu_img H [''info'', path_str (child source ''disk.qcow2'')] w of
        (Inr _, v) \<Rightarrow> same_files (fs v) (fs w) | (Inl _, _) \<Rightarrow> True)"

lemma import_outcome:
  assumes ok: "import_vm H source w = (Inr uuid, w')"
    and reads: "info_only_reads H source w"
  shows "list_all (carried H w source w' (vm_dir_of H uuid)) (filter (\<lambda>n. n \<noteq> ''state.yaml'') BUNDLE_FILES)"
    and "stored H w source = Stored s \<Longrightarrow>
       \<exists>now port. stored H w' (vm_dir_of H uuid) = Stored (renewed now port s) \<and>
         at H w' (port_path (vm_dir_of H uuid)) = Some (File (Text (show_int port)))"
    and "plain uuid \<and> last (out w') = ''VM imported as '' @ uuid"
proof -
  let ?d = "vm_dir_of H uuid"
  from ok obtain r v0 v1 w1 w2 port w3 w4 where info: "run_qemu_img H [''info'', path_str (child source ''disk.qcow2'')] w = (Inr r, v0)"
    and uuid: "uuid7 H v0 = (Inr uuid, v1)" and new: "mkdir_new H ?d v1 = (Inr (), w1)"
    and copy: "copy_bundle H source ?d w1 = (Inr (), w2)"
    and port: "write_text H (port_path ?d) (show_int port) w2 = (Inr (), w3)"
    and reset: "reset_imported H ?d port w3 = (Inr (), w4)"
    and w': "w' = w4\<lparr>out := out w4 @ [''VM imported as '' @ uuid]\<rparr>"
    unfolding import_vm_def Let_def by (auto simp: returns print_out_def update_def dest!: load_config_pure check_bundle_pure)
  have before: "at H w p = Some (File c) \<Longrightarrow> at H w1 p = Some (File c)" for p c
    using reads info uuid7_pure [OF uuid] mkdir_new_Inr [OF new] by (simp add: info_only_reads_def same_files_def at_def)
  have step: "copy_step H source ?d BUNDLE_FILES w1 w2" using wp_returns [OF copy_bundle_effect copy] .
  have arrives: "at H w2 (p_sub ?d n) = Some (File c)" if "n \<in> set BUNDLE_FILES" "at H w (p_sub source n) = Some (File c)" for n c
    using step that(1) before [OF that(2)] by (simp add: copy_step_def copied_iff)
  have w3: "w3 = set_node H (port_path ?d) (Some (File (Text (show_int port)))) w2"
    using port by (simp add: write_text_def write_content_Inr)
  have fs: "fs w' = fs w4" by (simp add: w')
  obtain s' v where s: "imported port s'" "w4 = saved H ?d s' v" "v = w3 \<or> (\<exists>s'. v = saved H ?d s' w3)"
    using wp_returns [OF reset_imported_effect reset] unfolding reborn_def by blast
  have "at H w' (p_sub x n) = at H w2 (p_sub x n)" if "n \<in> set BUNDLE_FILES" "n \<noteq> ''state.yaml''" for x n
    using s that by (auto simp: w3 at_saved_other port_other at_fs [OF fs])
  then show "list_all (carried H w source w' ?d) (filter (\<lambda>n. n \<noteq> ''state.yaml'') BUNDLE_FILES)"
    using arrives by (simp add: list_all_iff carried_iff)
  show "plain uuid \<and> last (out w') = ''VM imported as '' @ uuid" using uuid7_pure [OF uuid] by (simp add: w')
  show "\<exists>now port. stored H w' ?d = Stored (renewed now port s) \<and> at H w' (port_path ?d) = Some (File (Text (show_int port)))"
    if "stored H w source = Stored s"
  proof -
    from that have "at H w2 (state_path ?d) = Some (File (StateDoc s))"
      using arrives [OF bundle_state(2)] by (simp add: stored_iff bundle_state state_path_def STATE_FILE_def)
    then have "stored H w3 ?d = Stored s" by (simp add: stored_iff w3 port_path_def state_path_def STATE_FILE_def)
    from wp_returns [OF reset_stored [OF this] reset] have w4: "w4 = saved H ?d (renewed (h_now H w3) port s) w3" .
    have "at H w' (port_path ?d) = Some (File (Text (show_int port)))"
      by (simp add: at_fs [OF fs] w4 w3 port_path_def STATE_FILE_def)
    moreover have "stored H w' ?d = Stored (renewed (h_now H w3) port s)"
      by (simp add: stored_iff at_fs [OF fs]) (simp add: w4 flip: stored_iff)
    ultimately show ?thesis by blast
  qed
qed

section \<open>An export touches the tree of its destination and the machine only\<close>

definition elsewhere :: "string \<Rightarrow> world \<Rightarrow> world \<Rightarrow> bool" where
  "elsewhere x w w' \<longleftrightarrow> (\<forall>q. if parts q = [] then fs w' q \<in> {fs w q, Some Dir} else hd (parts q) = x \<or> fs w' q = fs w q)"

lemma elsewhere_trans: "elsewhere x w v \<Longrightarrow> elsewhere x v u \<Longrightarrow> elsewhere x w u"
  unfolding elsewhere_def by (metis insert_iff singletonD)

lemma mkdir_elsewhere:
  assumes "resolve (h_cwd H) p = Path True (x # ps)"
  shows "wp (mkdir_parents H p) (\<lambda>_. elsewhere x w) (\<lambda>_ _. True) w"
proof -
  have "parts q = [] \<or> hd (parts q) = x"
    if "q \<in> set (map (\<lambda>k. Path True (take k (parts (resolve (h_cwd H) p)))) [0..<Suc (length (parts (resolve (h_cwd H) p)))])" for q
    using that by (auto simp: assms take_Cons' simp del: upt_Suc split: if_splits)
  then show ?thesis unfolding wp_def mkdir_parents_def Let_def by (auto simp: elsewhere_def simp del: upt_Suc)
qed

lemma write_elsewhere:
  assumes "resolve (h_cwd H) p = Path True (x # ps)"
  shows "elsewhere x w (set_node H p n w)"
  using assms by (auto simp: elsewhere_def set_node_def)

lemma copy_bundled_elsewhere:
  assumes "resolve (h_cwd H) d = Path True (x # ps)" "n \<in> set BUNDLE_FILES"
  shows "wp (copy_bundled H s d n) (\<lambda>_. elsewhere x w) (\<lambda>_ _. True) w"
proof -
  have down: "child (Path True qs) k = Path True (qs @ [k])" for qs k by (simp add: child_def)
  have into: "\<exists>rs. resolve (h_cwd H) (p_sub d n) = Path True (x # rs)"
    using bundle_parent [OF assms(2), of d] bundle_plain [OF assms(2)] assms(1) by (auto simp: down)
  have above: "\<exists>rs. resolve (h_cwd H) (parent (p_sub d n)) = Path True (x # rs)"
    using bundle_parent [OF assms(2), of d] assms(1) by (auto simp: down)
  have copy: "wp (copy_file H (p_sub s n) (p_sub d n)) (\<lambda>_. elsewhere x w) (\<lambda>_ _. True) v" if "elsewhere x w v" for v
    using into that by (auto simp: copy_file_def wps split: option.split node.split intro: elsewhere_trans write_elsewhere)
  show ?thesis
    using above unfolding copy_bundled_def
    by (auto simp: wps intro!: wp_mono [OF mkdir_elsewhere] copy) (simp add: elsewhere_def)
qed

lemma copy_bundle_elsewhere:
  assumes "resolve (h_cwd H) d = Path True (x # ps)"
  shows "wp (copy_bundle H s d) (\<lambda>_. elsewhere x w) (\<lambda>_ _. True) w"
proof -
  have "set ns \<subseteq> set BUNDLE_FILES \<Longrightarrow> elsewhere x w v \<Longrightarrow> wp (each (copy_bundled H s d) ns) (\<lambda>_. elsewhere x w) (\<lambda>_ _. True) v" for ns v
  proof (induction ns arbitrary: v)
    case (Cons n ns)
    from Cons.prems have n: "n \<in> set BUNDLE_FILES" by simp
    show ?case
      using Cons by (auto simp: wps intro!: wp_mono [OF copy_bundled_elsewhere [OF assms n]] intro: elsewhere_trans)
  qed (simp add: wps)
  then show ?thesis by (simp add: copy_bundle_def elsewhere_def)
qed

lemma export_elsewhere:
  assumes "export_vm H uuid dest w = (Inr (), w')" "resolve (h_cwd H) dest = Path True (x # ps)"
    and "load_vm_config H uuid w = (Inr cfg, w)" "backend (isolation cfg) = backend_kind.Qemu" "qemu_stop H uuid w = (Inr (), v)"
  shows "elsewhere x v w'"
proof -
  from assms(1,3-5) obtain w2 w3 w4 where w2: "mkdir_new H dest v = (Inr (), w2)" and w3: "copy_bundle H (vm_dir_of H uuid) dest w2 = (Inr (), w3)"
    and w4: "write_content H (child dest MANIFEST) (manifest_of H w3 uuid dest) w3 = (Inr (), w4)"
    and w': "w' = w4\<lparr>out := out w4 @ [''VM '' @ uuid @ '' exported to '' @ path_str dest]\<rparr>"
    unfolding export_vm_def by (auto simp: returns print_out_def update_def stop_machine_qemu dest!: require_qemu_Inr)
  have down: "child (Path True qs) k = Path True (qs @ [k])" for qs k by (simp add: child_def)
  have "mkdir_parents H dest v = (Inr (), w2)" using w2 by (auto simp: mkdir_new_def returns)
  from wp_returns [OF mkdir_elsewhere [OF assms(2)] this] have "elsewhere x v w2" .
  moreover have "elsewhere x w2 w3" using wp_returns [OF copy_bundle_elsewhere [OF assms(2)] w3] .
  moreover have "elsewhere x w3 w4"
    unfolding write_content_Inr [OF w4] using assms(2) by (intro write_elsewhere) (auto simp: MANIFEST_def down)
  moreover have "elsewhere x w4 w'" by (simp add: w' elsewhere_def)
  ultimately show ?thesis by (blast intro: elsewhere_trans)
qed

section \<open>Properties\<close>

text \<open>C19: a bundle moves a machine. When \<open>workspace-vm export\<close> and then \<open>workspace-vm import\<close> of the same
  directory exit with 0, and \<open>qemu-img info\<close> leaves the files as they are, then the import names a new identifier and
  the directory of the new machine has every file of the bundle that the exported machine has, with the same content. The
  record of the new machine is the one of the exported machine with a new creation time and port and without the process,
  the times and the error of the old life, and the port file holds that port.\<close>

theorem bundles_migrate_machines:
  assumes "is_dir H w (vm_dir_of H uuid)" "vm_main H [''export'', uuid, d] w = (Inr 0, w1)"
    and "vm_main H [''import'', d] w1 = (Inr 0, w2)"
    and "info_only_reads H (mk_path d) w1"
  shows "\<exists>new s now port. last (out w2) = ''VM imported as '' @ new \<and> plain new \<and>
     list_all (carried H w1 (vm_dir_of H uuid) w2 (vm_dir_of H new)) (filter (\<lambda>n. n \<noteq> ''state.yaml'') BUNDLE_FILES) \<and>
     stored H w1 (vm_dir_of H uuid) = Stored s \<and> stored H w2 (vm_dir_of H new) = Stored (renewed now port s) \<and>
     at H w2 (port_path (vm_dir_of H new)) = Some (File (Text (show_int port)))"
proof -
  let ?d = "vm_dir_of H uuid" and ?b = "mk_path d"
  have "export_vm H uuid ?b w = (Inr (), w1)" using assms(2) by (simp add: other_operations andthen_ret)
  from export_outcome [OF assms(1) this] have files: "list_all (copied H w1 ?d ?b) BUNDLE_FILES" and "stopped_clean H w1 ?d" by auto
  then obtain s where s: "stored H w1 ?d = Stored s" by (auto simp: stopped_clean_def)
  with files have bundled: "stored H w1 ?b = Stored s"
    using bundle_state by (auto simp: list_all_iff copied_iff stored_iff state_path_def STATE_FILE_def)
  obtain new where "import_vm H ?b w1 = (Inr new, w2)" using assms(3) by (auto simp: import_operation andthen_ret)
  note taken = import_outcome [OF this assms(4)]
  have "list_all (carried H w1 ?d w2 (vm_dir_of H new)) (filter (\<lambda>n. n \<noteq> ''state.yaml'') BUNDLE_FILES)"
    using files taken(1) by (auto simp: list_all_iff intro: carried_trans)
  then show ?thesis using taken(2) [OF bundled] taken(3) s by blast
qed

text \<open>The machine of the demonstration is moved.\<close>

lemma demo_idle_stopped_node:
  "ps \<notin> {[''work'', ''.vms'', ''vm1'', ''state.yaml''], [''work'', ''.vms'', ''vm1'', ''state.tmp'']} \<Longrightarrow>
   fs demo_idle_stopped (Path True ps) = fs demo_idle (Path True ps)"
  by (simp add: demo_idle_stopped_def saved_def set_node_def state_path_def state_tmp_def STATE_FILE_def resolve_def fold_dots_clean child_def)

lemma demo_idle_stopped_fs:
  "length u = 36 \<Longrightarrow> fs demo_idle_stopped (Path True (''work'' # ''.vms'' # u # ps)) = None"
  "fs demo_idle_stopped (Path True [''work'', ''.vms'']) = None" "fs demo_idle_stopped (Path True [''work'']) = None"
  "fs demo_idle_stopped (Path True []) = None"
proof -
  assume "length u = 36"
  then have "u \<noteq> ''vm1''" by auto
  then show "fs demo_idle_stopped (Path True (''work'' # ''.vms'' # u # ps)) = None"
    by (subst demo_idle_stopped_node) (simp_all add: demo_idle_def)
qed (subst demo_idle_stopped_node; simp add: demo_idle_def)+

lemma demo_moved:
  "\<exists>w1 u w2. vm_main demo_host [''export'', ''vm1'', ''/backup''] demo_idle = (Inr 0, w1) \<and>
     import_vm demo_host demo_backup w1 = (Inr u, w2)"
proof -
  let ?H = demo_host and ?d = "Path False [''.vms'', ''vm1'']"
  have b: "mk_path ''/backup'' = demo_backup" by (simp add: mk_path_def demo_backup_def)
  have r: "resolve (h_cwd ?H) demo_backup = Path True (''backup'' # [])" by (simp add: demo_backup_def resolve_def fold_dots_clean)
  obtain w1 where w1: "export_vm ?H ''vm1'' demo_backup demo_idle = (Inr (), w1)"
    using export_returns [OF demo_idle_facts demo_idle_fresh] by fastforce
  have d: "vm_dir_of ?H ''vm1'' = ?d" by simp
  have "is_dir ?H demo_idle (vm_dir_of ?H ''vm1'')" by (simp add: is_dir_def demo_idle_def demo_at)
  from export_outcome [OF this w1] obtain now ns where files: "list_all (copied ?H w1 ?d demo_backup) BUNDLE_FILES"
    and m: "at ?H w1 (child demo_backup MANIFEST) = Some (File (ManifestDoc (Some FORMAT) ''vm1'' now ns))"
    and "stopped_clean ?H w1 ?d" by auto
  then obtain s where s: "stored ?H w1 ?d = Stored s" by (auto simp: stopped_clean_def)
  have off: "elsewhere ''backup'' demo_idle_stopped w1" by (rule export_elsewhere [OF w1 r demo_idle_facts])
  have same: "fs w1 (Path True (''work'' # qs)) = fs demo_idle_stopped (Path True (''work'' # qs))"
    "fs w1 (Path True []) \<in> {None, Some Dir}" for qs
    using off [unfolded elsewhere_def, rule_format, of "Path True (''work'' # qs)"]
      off [unfolded elsewhere_def, rule_format, of "Path True []"] by (simp_all add: demo_idle_stopped_fs)
  have here: "at ?H w1 (child ?d n) = map_of [([''vm.yaml''], File (ConfigDoc demo_qemu)), ([''disk.qcow2''], File (Text ''disk''))] [n]"
    if "n \<noteq> ''..''" "n \<noteq> ''state.yaml''" "n \<noteq> ''state.tmp''" for n
  proof -
    have "at ?H w1 (child ?d n) = at ?H demo_idle_stopped (child ?d n)"
      using same(1) that by (simp add: at_def resolve_def fold_dots_clean child_def)
    then show ?thesis
      using that by (simp add: demo_idle_stopped_def STATE_FILE_def) (simp add: demo_idle_def demo_at)
  qed
  have arrived: "at ?H w1 (p_sub demo_backup n) = Some (File c)" if "n \<in> set BUNDLE_FILES" "at ?H w1 (p_sub ?d n) = Some (File c)" for n c
    using files that by (simp add: list_all_iff copied_iff)
  have "\<exists>u w'. import_vm ?H demo_backup w1 = (Inr u, w')"
  proof (rule import_returns_on_demo)
    show "at ?H w1 (child demo_backup ''manifest.json'') = Some (File (ManifestDoc (Some FORMAT) ''vm1'' now ns))"
      using m by (simp add: MANIFEST_def)
    show "is_file ?H w1 (child demo_backup ''disk.qcow2'')"
      using arrived [of "''disk.qcow2''"] here by (simp add: p_sub_plain plain_def BUNDLE_FILES_def is_file_def)
    show "at ?H w1 (child demo_backup ''vm.yaml'') = Some (File (ConfigDoc demo_qemu))"
      using arrived [OF bundle_state(4)] here by (simp add: bundle_state)
    show "at ?H w1 (child demo_backup ''state.yaml'') = Some (File (StateDoc s))"
      using arrived [OF bundle_state(2)] s by (simp add: bundle_state stored_iff state_path_def STATE_FILE_def)
  qed (use same in \<open>auto simp: demo_idle_stopped_fs\<close>)
  then show ?thesis using w1 by (auto simp: other_operations andthen_ret b)
qed

lemma demo_info_only_reads: "info_only_reads demo_host p w"
  using quiet_qemu_img [of "[''info'', path_str (child p ''disk.qcow2'')]" w] by (auto simp: info_only_reads_def same_files_def)

theorem bundles_migrate_machines_witness:
  "\<exists>w1 w2 new s now port. vm_main demo_host [''export'', ''vm1'', ''/backup''] demo_idle = (Inr 0, w1) \<and>
     vm_main demo_host [''import'', ''/backup''] w1 = (Inr 0, w2) \<and> last (out w2) = ''VM imported as '' @ new \<and>
     stored demo_host w1 (Path False [''.vms'', ''vm1'']) = Stored s \<and> stored demo_host w2 (vm_dir_of demo_host new) = Stored (renewed now port s)"
proof -
  have b: "mk_path ''/backup'' = demo_backup" by (simp add: mk_path_def demo_backup_def)
  obtain w1 u w2 where w1: "vm_main demo_host [''export'', ''vm1'', ''/backup''] demo_idle = (Inr 0, w1)"
    and u: "import_vm demo_host demo_backup w1 = (Inr u, w2)"
    using demo_moved by blast
  have w2: "vm_main demo_host [''import'', ''/backup''] w1 = (Inr 0, w2)" using u by (auto simp: import_operation andthen_ret b)
  have "is_dir demo_host demo_idle (vm_dir_of demo_host ''vm1'')" by (simp add: is_dir_def demo_idle_def demo_at)
  from bundles_migrate_machines [OF this w1 w2 demo_info_only_reads] w1 w2 show ?thesis by auto
qed

end
