(* ===== verification/GuestEnvironment.thy ===== *)
theory GuestEnvironment
  imports GuestConfig Demo
begin

text \<open>
  The environment that \<open>_apply_env\<close> of \<open>qemu_guest_config.py\<close> puts into a guest, followed to its end: the script that is
  sent over SSH is read as a shell reads it, down to the assignments in the file that it writes.
\<close>

section \<open>A shell reading a file of assignments\<close>

text \<open>One word up to the end of its line, where quotes may go on over lines: the word, and what follows the line.\<close>

fun sh_value :: "quoting \<Rightarrow> string \<Rightarrow> (string \<times> string) option" where
  "sh_value q [] = (if q = Bare then Some ([], []) else None)"
| "sh_value Bare (c # s) =
     (if c = newline then Some ([], s)
      else if c = CHR 0x27 then sh_value Single s
      else if c = CHR 0x22 then sh_value Double s
      else if sh_safe c then map_option (\<lambda>(v, r). (c # v, r)) (sh_value Bare s) else None)"
| "sh_value Single (c # s) =
     (if c = CHR 0x27 then sh_value Bare s else map_option (\<lambda>(v, r). (c # v, r)) (sh_value Single s))"
| "sh_value Double (c # s) =
     (if c = CHR 0x22 then sh_value Bare s
      else if c \<in> {CHR ''$'', CHR ''`'', CHR 0x5C} then None
      else map_option (\<lambda>(v, r). (c # v, r)) (sh_value Double s))"

lemma sh_value_shorter: "sh_value q s = Some (v, r) \<Longrightarrow> length r \<le> length s"
  by (induction q s arbitrary: v r rule: sh_value.induct) (fastforce split: if_splits)+

text \<open>The assignments of a file, line by line; empty lines count for nothing.\<close>

function sh_assignments :: "string \<Rightarrow> (string \<times> string) list option" where
  "sh_assignments [] = Some []"
| "sh_assignments (c # s) =
     (if c = newline then sh_assignments s
      else let n = takeWhile (\<lambda>c. c \<noteq> CHR ''='') (c # s) in
        if \<not> env_name n \<or> length n = length (c # s) then None
        else case sh_value Bare (drop (length n) s) of
               None \<Rightarrow> None
             | Some (v, rest) \<Rightarrow> map_option ((#) (n, v)) (sh_assignments rest))"
  by pat_completeness auto
termination
  by (relation "measure length") (auto dest!: sh_value_shorter intro!: le_less_trans [OF _ le_imp_less_Suc])

text \<open>The here-document of a script: the line that opens it, the text up to the line \<open>EOF\<close>, and the lines that follow.\<close>

definition here_document :: "string \<Rightarrow> (string \<times> string \<times> string list) option" where
  "here_document script =
     (case dropWhile (\<lambda>l. \<not> suffix (''<<'' @ sq @ ''EOF'' @ sq) l) (split_on newline script) of
        [] \<Rightarrow> None
      | l # ls \<Rightarrow> (let body = takeWhile (\<lambda>l. l \<noteq> ''EOF'') ls in
          if length body = length ls then None else Some (l, unlines body, drop (Suc (length body)) ls)))"

section \<open>Facts: values\<close>

lemma nl_newline: "nl = [newline]"
  by (simp add: nl_def newline_def)

lemma newline_special [simp]: "\<not> sh_safe newline" "newline \<noteq> CHR 0x27" "CHR 0x27 \<noteq> newline" "newline \<noteq> CHR ''=''" "newline \<noteq> CHR 0x22"
  "CHR 0x22 \<noteq> newline"
  by (simp_all add: sh_safe_def is_alpha_def is_digit_def newline_def less_eq_char_def)

lemma sh_value_safe: "list_all sh_safe s \<Longrightarrow> sh_value Bare (s @ newline # r) = Some (s, r)"
  by (induction s) (auto dest: sh_safe_not_quote)

lemma sh_value_escape: "sh_value Single (sh_escape s @ sq @ newline # r) = Some (s, r)"
  by (induction s) (auto simp: sq_def dq_def)

lemma sh_value_quote: "sh_value Bare (shlex_quote s @ newline # r) = Some (s, r)"
  using sh_value_escape [of s r] sh_value_safe [of s r] by (auto simp: shlex_quote_def sq_def)

lemma env_name_plain: "env_name n \<Longrightarrow> CHR ''='' \<notin> set n \<and> newline \<notin> set n \<and> n \<noteq> []"
  by (auto simp: env_name_def is_alpha_def is_digit_def newline_def less_eq_char_def list_all_iff split: list.splits)

definition env_line :: "string \<times> string \<Rightarrow> string" where
  "env_line = (\<lambda>(n, v). n @ ''='' @ shlex_quote v)"

lemma assignments_written: "list_all (env_name \<circ> fst) es \<Longrightarrow> sh_assignments (unlines (map env_line es)) = Some es"
proof (induction es)
  case Nil
  show ?case by (simp add: unlines_def)
next
  case (Cons e es)
  obtain n v where e: "e = (n, v)" by (cases e)
  let ?rest = "unlines (map env_line es)"
  from Cons.prems have n: "env_name n" "CHR ''='' \<notin> set n" "newline \<notin> set n" using env_name_plain by (auto simp: e)
  then obtain c m where m: "n = c # m" "c \<noteq> newline" using env_name_plain [OF n(1)] by (cases n) auto
  have u: "unlines (map env_line (e # es)) = c # m @ CHR ''='' # shlex_quote v @ newline # ?rest"
    by (simp add: e env_line_def unlines_def nl_newline m)
  have t: "takeWhile (\<lambda>c. c \<noteq> CHR ''='') (c # m @ CHR ''='' # x) = n" for x
    using n(2) by (auto simp: m takeWhile_append)
  have d: "drop (length n) (m @ CHR ''='' # x) = x" for x by (simp add: m)
  show ?case
    unfolding u sh_assignments.simps Let_def t d using n(1) Cons m by (simp add: sh_value_quote e)
qed

section \<open>Facts: lines\<close>

lemma split_on_append: "split_on c (x @ c # y) = split_on c x @ split_on c y"
  by (induction x) auto

lemma split_on_unlines: "list_all (\<lambda>l. newline \<notin> set l) xs \<Longrightarrow> split_on newline (unlines xs @ t) = xs @ split_on newline t"
  by (induction xs) (auto simp: unlines_def nl_newline split_on_append_sep)

lemma split_on_prepended: "c \<notin> set a \<Longrightarrow> split_on c (a @ x) = (a @ hd (split_on c x)) # tl (split_on c x)"
  by (induction a) auto

lemma split_on_appended:
  assumes "c \<notin> set b"
  shows "split_on c (x @ b) = butlast (split_on c x) @ [last (split_on c x) @ b]"
proof -
  have j: "join [c] (xs @ [y]) @ b = join [c] (xs @ [y @ b])" for xs y
    by (induction xs) (auto simp: join_Cons)
  have "x @ b = join [c] (butlast (split_on c x) @ [last (split_on c x) @ b])"
    using join_split_on [of c x] j [of "butlast (split_on c x)" "last (split_on c x)"] by simp
  moreover have "\<forall>l \<in> set (butlast (split_on c x) @ [last (split_on c x) @ b]). c \<notin> set l"
    using assms by (auto dest!: in_set_butlastD set_split_on_no_sep) (metis last_in_set set_split_on_no_sep split_on_nonempty)
  ultimately show ?thesis by (metis split_on_join snoc_eq_iff_butlast)
qed

lemma split_on_escape: "split_on newline (sh_escape v) = map sh_escape (split_on newline v)"
  by (induction v) (auto simp: sq_def dq_def list.map_sel)

lemma escape_plain: "CHR 0x27 \<notin> set (sh_escape l) \<Longrightarrow> sh_escape l = l"
  by (induction l) (auto simp: sq_def split: if_splits)

text \<open>No line of an assignment is \<open>EOF\<close> when no line of its value is.\<close>

lemma env_line_no_end:
  assumes "env_name n" "''EOF'' \<notin> set (split_on newline v)"
  shows "''EOF'' \<notin> set (split_on newline (env_line (n, v)))"
proof -
  have nn: "newline \<notin> set (n @ ''='')" using env_name_plain [OF assms(1)] by (simp add: newline_def)
  have first: "''EOF'' \<noteq> (n @ ''='') @ x" for x
  proof
    assume "''EOF'' = (n @ ''='') @ x"
    then have "CHR ''='' \<in> set ''EOF''" by simp
    then show False by simp
  qed
  show ?thesis
  proof (cases "newline \<in> set (shlex_quote v)")
    case False
    then have "split_on newline (shlex_quote v) = [shlex_quote v]" by (rule split_on_no_sep)
    then show ?thesis using first [of "shlex_quote v"] split_on_prepended [OF nn, of "shlex_quote v"] by (simp add: env_line_def)
  next
    case True
    then have q: "shlex_quote v = sq @ sh_escape v @ sq"
      by (auto simp: shlex_quote_def sq_def list_all_iff split: if_splits)
    have s: "newline \<notin> set sq" by (simp add: sq_def)
    have nq: "newline \<notin> set ((n @ ''='') @ sq)" using nn s by simp
    have esc: "''EOF'' \<notin> set (map sh_escape (split_on newline v))"
    proof
      assume "''EOF'' \<in> set (map sh_escape (split_on newline v))"
      then obtain l where l: "l \<in> set (split_on newline v)" "sh_escape l = ''EOF''" by force
      then have "l = ''EOF''" using escape_plain [of l] by simp
      with l(1) assms(2) show False by simp
    qed
    let ?L = "butlast (map sh_escape (split_on newline v)) @ [last (map sh_escape (split_on newline v)) @ sq]"
    have lines: "split_on newline (env_line (n, v)) = (((n @ ''='') @ sq) @ hd ?L) # tl ?L"
      using split_on_prepended [OF nq, of "sh_escape v @ sq"] split_on_appended [OF s, of "sh_escape v"]
      by (simp add: env_line_def q split_on_escape)
    have tail: "''EOF'' \<noteq> x @ sq" for x by (simp add: sq_def)
    have "''EOF'' \<notin> set ?L" using esc tail by (auto dest: in_set_butlastD)
    then have "''EOF'' \<notin> set (tl ?L)" by (metis list.set_sel(2) list.sel(2))
    then show ?thesis unfolding lines using first [of "sq @ hd ?L"] by simp
  qed
qed

lemma env_lines_written: "list_all (env_name \<circ> fst) es \<Longrightarrow> env_lines es = Inr (map env_line es)"
  by (simp add: env_lines_Inr env_line_def env_key_match_def list_all_iff)

lemma script_read:
  assumes "list_all (\<lambda>l. ''EOF'' \<notin> set (split_on newline l)) ls"
  shows "here_document (env_script ls) =
    Some (''sudo tee /etc/environment.d/90-workspace.conf >/dev/null <<'' @ sq @ ''EOF'' @ sq, join nl ls @ nl, [[]])"
proof -
  let ?open = "''sudo tee /etc/environment.d/90-workspace.conf >/dev/null <<'' @ sq @ ''EOF'' @ sq"
  let ?pre = "[''set -euo pipefail'', ''sudo install -d -m 0755 /etc/environment.d'']"
  have "''EOF'' \<notin> set (split_on newline (join nl ls))"
    using assms by (induction ls rule: induct_list012) (auto simp: nl_newline split_on_append)
  then have body: "takeWhile (\<lambda>l. l \<noteq> ''EOF'') (split_on newline (join nl ls) @ [''EOF'', []]) = split_on newline (join nl ls)"
    by (subst takeWhile_append2) auto
  have "env_script ls = unlines (?pre @ [?open]) @ join nl ls @ newline # (''EOF'' @ newline # [])"
    by (simp only: env_script_def nl_newline append.simps append_assoc)
  then have lines: "split_on newline (env_script ls) = ?pre @ ?open # split_on newline (join nl ls) @ [''EOF'', []]"
  proof -
    have pre: "list_all (\<lambda>l. newline \<notin> set l) (?pre @ [?open])" by (simp add: newline_def sq_def)
    have tail: "split_on newline ''EOF'' = [''EOF'']" "split_on newline [] = [[]]" by (simp_all add: newline_def)
    assume "env_script ls = unlines (?pre @ [?open]) @ join nl ls @ newline # (''EOF'' @ newline # [])"
    then show ?thesis
      by (simp only: split_on_unlines [OF pre] split_on_append tail) simp
  qed
  have quiet: "\<not> suffix (''<<'' @ sq @ ''EOF'' @ sq) ''set -euo pipefail''"
    "\<not> suffix (''<<'' @ sq @ ''EOF'' @ sq) ''sudo install -d -m 0755 /etc/environment.d''"
    "suffix (''<<'' @ sq @ ''EOF'' @ sq) ?open"
    by (simp_all add: suffix_to_prefix sq_def)
  have "unlines (split_on newline x) = x @ nl" for x
    using join_split_on [of newline x] join_nl_concat [of "split_on newline x"] by (simp add: nl_newline)
  then show ?thesis
    unfolding here_document_def lines using quiet body by simp
qed

lemma apply_env_sends:
  "env_lines es = Inr ls \<Longrightarrow> \<exists>c. requests (snd (apply_env H port key es w)) = requests w @ [Run c] \<and>
     c_input c = env_script ls \<and> c_argv c = [''ssh'', ''-i'', path_str key] @ SSH_OPTS
       @ [''-p'', show_int port, ''workspace@127.0.0.1'', ''bash'', ''-s'']"
proof -
  assume ls: "env_lines es = Inr ls"
  have "wp (run_checked H c) (\<lambda>_ w'. requests w' = requests w @ [Run c]) (\<lambda>_ w'. requests w' = requests w @ [Run c]) w" for c
    by (rule wp_result) (simp_all add: run_checked_requests)
  then have "wp (ssh_script H port key t) (\<lambda>_ w'. \<exists>c. requests w' = requests w @ [Run c] \<and> c_input c = t \<and>
        c_argv c = [''ssh'', ''-i'', path_str key] @ SSH_OPTS @ [''-p'', show_int port, ''workspace@127.0.0.1'', ''bash'', ''-s''])
      (\<lambda>_ w'. \<exists>c. requests w' = requests w @ [Run c] \<and> c_input c = t \<and>
        c_argv c = [''ssh'', ''-i'', path_str key] @ SSH_OPTS @ [''-p'', show_int port, ''workspace@127.0.0.1'', ''bash'', ''-s'']) w" for t
    unfolding ssh_script_def wp_bnd by (rule wp_mono) (auto simp: wps intro!: exI)
  from this [of "env_script ls"] show ?thesis
    by (auto simp: apply_env_def ls bnd_def lift_sum_def wp_def split: prod.splits sum.splits)
qed

section \<open>Property\<close>

text \<open>C12: the environment arrives in the guest as it is configured. When every name is an identifier and no value has a line
  \<open>EOF\<close>, the step sends one script to the shell of the guest; its here-document goes to the environment file and is the whole
  rest of the script; and a shell that reads this file gets exactly the configured names and values, whatever other
  characters and line breaks the values have.\<close>

theorem environment_reaches_the_guest:
  assumes "list_all (env_name \<circ> fst) es" "list_all (\<lambda>(n, v). ''EOF'' \<notin> set (split_on newline v)) es" "es \<noteq> []"
  shows "\<exists>c body. requests (snd (apply_env H port key es w)) = requests w @ [Run c] \<and>
    c_argv c = [''ssh'', ''-i'', path_str key] @ SSH_OPTS @ [''-p'', show_int port, ''workspace@127.0.0.1'', ''bash'', ''-s''] \<and>
    here_document (c_input c) =
      Some (''sudo tee /etc/environment.d/90-workspace.conf >/dev/null <<'' @ sq @ ''EOF'' @ sq, body, [[]]) \<and>
    sh_assignments body = Some es"
proof -
  let ?ls = "map env_line es"
  have "list_all (\<lambda>l. ''EOF'' \<notin> set (split_on newline l)) ?ls"
    using assms(1,2) env_line_no_end by (fastforce simp: list_all_iff)
  note read = script_read [OF this]
  have "join nl ?ls @ nl = unlines ?ls" using assms(3) by (simp add: join_nl_concat)
  then have "sh_assignments (join nl ?ls @ nl) = Some es" using assignments_written [OF assms(1)] by simp
  then show ?thesis using apply_env_sends [OF env_lines_written [OF assms(1)]] read by metis
qed

theorem environment_reaches_the_guest_witness:
  "\<exists>c body line. requests (snd (apply_env demo_host 22 (Path False [''key'']) [(''A'', ''it is $HOME'' @ nl @ ''and more'')] (demo_world [] []))) = [Run c] \<and>
     here_document (c_input c) = Some (line, body, [[]]) \<and> sh_assignments body = Some [(''A'', ''it is $HOME'' @ nl @ ''and more'')]"
proof -
  have names: "list_all (env_name \<circ> fst) [(''A'', ''it is $HOME'' @ nl @ ''and more'')]" by (simp add: env_name_def is_alpha_def less_eq_char_def)
  have lines: "list_all (\<lambda>(n, v). ''EOF'' \<notin> set (split_on newline v)) [(''A'', ''it is $HOME'' @ nl @ ''and more'')]"
  proof -
    have sep: "newline \<notin> set ''it is $HOME''" "newline \<notin> set ''and more''" by (simp_all add: newline_def)
    have "split_on newline (''it is $HOME'' @ newline # ''and more'') = [''it is $HOME'', ''and more'']"
      unfolding split_on_append_sep [OF sep(1)] split_on_no_sep [OF sep(2)] ..
    then show ?thesis by (simp add: nl_newline del: split_on_Cons)
  qed
  have some: "[(''A'', ''it is $HOME'' @ nl @ ''and more'')] \<noteq> []" by simp
  have none: "requests (demo_world [] []) @ [Run c] = [Run c]" for c by simp
  show ?thesis
    using environment_reaches_the_guest [OF names lines some, of demo_host 22 "Path False [''key'']" "demo_world [] []"] unfolding none by blast
qed

end
