(* ===== verification/AuxRegistry.thy ===== *)
theory AuxRegistry
  imports World "HOL-Library.AList" "HOL-Library.Product_Lexorder"
begin

text \<open>
  \<open>workspace/scripts/bootstrap_aux_defs.py\<close>: the registry of the auxiliary installer features, its
  validation, the groups of the installer's menu and the execution order of a selection. The YAML
  reader and pydantic's schema check are third-party code: \<open>parse\<close>, an argument of the loaders, gives the
  parsed model or the exception they raise.
\<close>

section \<open>The models\<close>

datatype scope = AgentScope | RootScope

record aux_arg =
  aa_default :: string
  aa_description :: string

record aux_feature =
  f_id :: string
  f_label :: string
  f_description :: string
  f_group :: string
  f_scope :: scope
  f_action :: string
  f_order :: int
  f_enabled_by_default :: bool
  f_detect_path :: "string option"
  f_detect_mount :: "string option"
  f_detect_cmd :: "string list option"
  f_args :: "(string \<times> aux_arg) list"
  f_requires :: "string list"

record aux_manifest =
  m_groups :: "string list"
  m_features :: "aux_feature list"

record aux_selection =
  s_enabled :: bool
  s_args :: "(string \<times> string) list"

type_synonym aux_defaults = "(string \<times> aux_selection) list"

definition KNOWN_ACTIONS :: "string list" where
  "KNOWN_ACTIONS = [''storage-configure'', ''storage-mount-backup'', ''storage-persist-backup'', ''storage-provision-fast'',
     ''storage-migrate'', ''install-diagnostics'', ''install-agentci'', ''dataops-profiles'']"

section \<open>Validation and loading\<close>

fun validate_features :: "string set \<Rightarrow> aux_feature list \<Rightarrow> exn + string set" where
  "validate_features seen [] = Inr seen"
| "validate_features seen (f # rest) =
     (if f_id f \<in> seen then Inl (ValueError (''duplicate auxiliary feature id: '' @ f_id f))
      else if f_action f \<notin> set KNOWN_ACTIONS
      then Inl (ValueError (''unknown auxiliary action '' @ sq @ f_action f @ sq @ '' for '' @ f_id f))
      else validate_features (insert (f_id f) seen) rest)"

fun validate_requires :: "string set \<Rightarrow> (string \<times> string) list \<Rightarrow> exn + unit" where
  "validate_requires seen [] = Inr ()"
| "validate_requires seen ((dep, f) # rest) =
     (if dep \<notin> seen then Inl (ValueError (''unknown auxiliary dependency '' @ sq @ dep @ sq @ '' for '' @ f))
      else validate_requires seen rest)"

definition validate_registry :: "aux_manifest \<Rightarrow> exn + unit" where
  "validate_registry m =
     (case validate_features {} (m_features m) of
        Inl e \<Rightarrow> Inl e
      | Inr seen \<Rightarrow> validate_requires seen (concat (map (\<lambda>f. map (\<lambda>dep. (dep, f_id f)) (f_requires f)) (m_features m))))"

fun validate_defaults :: "aux_manifest \<Rightarrow> aux_defaults \<Rightarrow> exn + unit" where
  "validate_defaults m [] = Inr ()"
| "validate_defaults m ((feature_id, sel) # rest) =
     (if feature_id \<notin> set (map f_id (m_features m))
      then Inl (ValueError (''unknown auxiliary feature in defaults: '' @ feature_id))
      else validate_defaults m rest)"

definition AUX_YAML :: "path \<Rightarrow> path" where
  "AUX_YAML root = child (child (child root ''workspace'') ''config'') ''install-aux.yaml''"

definition AUX_DEFAULTS_YAML :: "path \<Rightarrow> path" where
  "AUX_DEFAULTS_YAML root = child (child (child root ''workspace'') ''config'') ''install-aux-defaults.yaml''"

definition load_registry :: "host \<Rightarrow> (string \<Rightarrow> exn + aux_manifest) \<Rightarrow> path \<Rightarrow> path option \<Rightarrow> aux_manifest io" where
  "load_registry H parse root p =
     (let target = (case p of None \<Rightarrow> AUX_YAML root | Some q \<Rightarrow> q) in
     bnd (asks (\<lambda>w. is_file H w target)) (\<lambda>f.
       if \<not> f then raise (FileNotFoundError (''auxiliary registry missing: '' @ path_str target))
       else bnd (read_text H target) (\<lambda>text.
            bnd (lift_sum (parse text)) (\<lambda>manifest.
            bnd (lift_sum (validate_registry manifest)) (\<lambda>_. ret manifest)))))"

definition load_defaults :: "host \<Rightarrow> (string \<Rightarrow> exn + aux_defaults) \<Rightarrow> path \<Rightarrow> path option \<Rightarrow> aux_defaults io" where
  "load_defaults H parse root p =
     (let target = (case p of None \<Rightarrow> AUX_DEFAULTS_YAML root | Some q \<Rightarrow> q) in
     bnd (asks (\<lambda>w. is_file H w target)) (\<lambda>f.
       if \<not> f then raise (FileNotFoundError (''auxiliary defaults missing: '' @ path_str target))
       else bnd (read_text H target) (\<lambda>text. lift_sum (parse text))))"

section \<open>Groups of the menu\<close>

text \<open>The loop keeps the order of the groups and a dictionary from groups to their features.\<close>

definition get_list :: "(string \<times> 'a list) list \<Rightarrow> string \<Rightarrow> 'a list" where
  "get_list d k = (case map_of d k of None \<Rightarrow> [] | Some xs \<Rightarrow> xs)"

definition group_step :: "aux_feature \<Rightarrow> string list \<times> (string \<times> aux_feature list) list \<Rightarrow>
    string list \<times> (string \<times> aux_feature list) list" where
  "group_step f = (\<lambda>(order, grouped).
     (if f_group f \<in> set order then order else order @ [f_group f],
      AList.update (f_group f) (get_list grouped (f_group f) @ [f]) grouped))"

definition features_by_group :: "aux_manifest \<Rightarrow> (string \<times> aux_feature list) list" where
  "features_by_group m =
     (case fold group_step (m_features m) (m_groups m, fold (\<lambda>g. AList.update g []) (m_groups m) []) of
        (order, grouped) \<Rightarrow>
          map (\<lambda>g. (g, get_list grouped g)) (filter (\<lambda>g. get_list grouped g \<noteq> []) order))"

section \<open>The execution order\<close>

definition by_id :: "aux_manifest \<Rightarrow> (string \<times> aux_feature) list" where
  "by_id m = fold (\<lambda>f. AList.update (f_id f) f) (m_features m) []"

text \<open>
  The depth-first visit. Its state is the list of results and the set of features being visited, both
  shared by all calls of the closure; \<open>visit_deps\<close> is its loop over the dependencies.
\<close>

type_synonym visit_state = "aux_feature list \<times> string set"

function (sequential) visit :: "(string \<times> aux_feature) list \<Rightarrow> string set \<Rightarrow> aux_feature \<Rightarrow> visit_state \<Rightarrow> exn + visit_state"
  and visit_deps :: "(string \<times> aux_feature) list \<Rightarrow> string set \<Rightarrow> string list \<Rightarrow> visit_state \<Rightarrow> exn + visit_state" where
  "visit ids sel f (result, visiting) =
     (if f_id f \<in> visiting then Inl (ValueError (''auxiliary dependency cycle at '' @ f_id f))
      else if f_id f \<in> set (map f_id result) then Inr (result, visiting)
      else case visit_deps ids sel (f_requires f) (result, insert (f_id f) visiting) of
             Inl e \<Rightarrow> Inl e
           | Inr (result', visiting') \<Rightarrow> Inr (result' @ [f], visiting' - {f_id f}))"
| "visit_deps ids sel [] st = Inr st"
| "visit_deps ids sel (dep # deps) st =
     (if dep \<in> sel then
        (case map_of ids dep of
           None \<Rightarrow> Inl (KeyError dep)
         | Some g \<Rightarrow> (case visit ids sel g st of Inl e \<Rightarrow> Inl e | Inr st' \<Rightarrow> visit_deps ids sel deps st'))
      else visit_deps ids sel deps st)"
  by pat_completeness auto

text \<open>A visit that returns leaves the set of visited features as it found it; so the set of features that can still
  be entered never grows, and shrinks on the way down.\<close>

lemma visiting_restored:
  "visit_visit_deps_dom (Inl (ids, sel, f, st)) \<Longrightarrow> visit ids sel f st = Inr st' \<Longrightarrow> snd st' = snd st"
  "visit_visit_deps_dom (Inr (ids, sel, deps, st)) \<Longrightarrow> visit_deps ids sel deps st = Inr st' \<Longrightarrow> snd st' = snd st"
proof (induction ids sel f st and ids sel deps st arbitrary: st' and st' rule: visit_visit_deps.pinduct)
  case (1 ids sel f result visiting)
  then show ?case by (auto simp: visit.psimps split: if_splits sum.splits)
next
  case (2 ids sel st)
  then show ?case by (simp add: visit_deps.psimps)
next
  case (3 ids sel dep deps st)
  then show ?case by (auto simp: visit_deps.psimps split: if_splits option.splits sum.splits)
qed

definition entries_left :: "(string \<times> aux_feature) list \<Rightarrow> visit_state \<Rightarrow> nat" where
  "entries_left ids st = card (f_id ` snd ` set ids - snd st)"

lemma entries_left_enter:
  "f_id f \<in> f_id ` snd ` set ids \<Longrightarrow> f_id f \<notin> visiting \<Longrightarrow>
   entries_left ids (result, insert (f_id f) visiting) < entries_left ids (result, visiting)"
  unfolding entries_left_def by (rule psubset_card_mono) auto

lemma entries_left_mono: "entries_left ids (result, insert x visiting) \<le> entries_left ids (result, visiting)"
  unfolding entries_left_def by (rule card_mono) auto

lemma entries_left_found: "map_of ids dep = Some g \<Longrightarrow> f_id g \<in> f_id ` snd ` set ids"
  by (force dest: map_of_SomeD)

lemma entries_left_restored:
  "visit_visit_deps_dom (Inl (ids, sel, f, st)) \<Longrightarrow> visit ids sel f st = Inr st' \<Longrightarrow> entries_left ids st' = entries_left ids st"
  by (simp add: entries_left_def visiting_restored(1))

termination visit
proof (relation "measures [\<lambda>x. case x of Inl (ids, _, _, st) \<Rightarrow> entries_left ids st | Inr (ids, _, _, st) \<Rightarrow> entries_left ids st,
    \<lambda>x. case x of Inl (ids, _, f, _) \<Rightarrow> (if f_id f \<in> f_id ` snd ` set ids then 0 else length (f_requires f) + 2)
                | Inr (_, _, deps, _) \<Rightarrow> length deps + 1]", goal_cases)
  case (2 ids sel f result visiting)
  then show ?case
    using entries_left_enter [of f ids visiting result] entries_left_mono [of ids result "f_id f" visiting] by auto
next
  case (3 ids sel dep deps st g)
  then show ?case by (simp add: entries_left_found)
next
  case (4 ids sel dep deps st g st')
  then show ?case by (simp add: entries_left_restored)
qed simp_all

fun visit_all :: "(string \<times> aux_feature) list \<Rightarrow> string set \<Rightarrow> aux_feature list \<Rightarrow> visit_state \<Rightarrow> exn + visit_state" where
  "visit_all ids sel [] st = Inr st"
| "visit_all ids sel (f # rest) st =
     (if f_id f \<in> sel
      then (case visit ids sel f st of Inl e \<Rightarrow> Inl e | Inr st' \<Rightarrow> visit_all ids sel rest st')
      else visit_all ids sel rest st)"

definition ordered_features :: "aux_manifest \<Rightarrow> string set \<Rightarrow> exn + aux_feature list" where
  "ordered_features m selected_ids =
     (case visit_all (by_id m) selected_ids (List.sort_key (\<lambda>f. (f_order f, f_id f)) (map snd (by_id m))) ([], {}) of
        Inl e \<Rightarrow> Inl e
      | Inr (result, _) \<Rightarrow> Inr result)"

section \<open>Facts: validation\<close>

lemma validate_features_Inr:
  "validate_features seen xs = Inr r \<longleftrightarrow> distinct (map f_id xs) \<and> seen \<inter> f_id ` set xs = {} \<and>
     list_all (\<lambda>f. f_action f \<in> set KNOWN_ACTIONS) xs \<and> r = seen \<union> f_id ` set xs"
  by (induction seen xs rule: validate_features.induct) auto

lemma validate_requires_Inr: "validate_requires seen ds = Inr () \<longleftrightarrow> fst ` set ds \<subseteq> seen"
  by (induction seen ds rule: validate_requires.induct) auto

lemma validate_features_raises: "validate_features seen xs = Inl e \<Longrightarrow> \<exists>m. e = ValueError m"
  by (induction seen xs rule: validate_features.induct) (auto split: if_splits)

lemma validate_requires_raises: "validate_requires seen ds = Inl e \<Longrightarrow> \<exists>m. e = ValueError m"
  by (induction seen ds rule: validate_requires.induct) (auto split: if_splits)

definition well_formed :: "aux_manifest \<Rightarrow> bool" where
  "well_formed m \<longleftrightarrow> distinct (map f_id (m_features m)) \<and>
     list_all (\<lambda>f. f_action f \<in> set KNOWN_ACTIONS \<and> set (f_requires f) \<subseteq> f_id ` set (m_features m)) (m_features m)"

lemma required: "fst ` set (concat (map (\<lambda>f. map (\<lambda>dep. (dep, f_id f)) (f_requires f)) xs)) = (\<Union>f \<in> set xs. set (f_requires f))"
  by (induction xs) (auto simp: image_Un image_image)

lemma validate_registry_Inr: "validate_registry m = Inr () \<longleftrightarrow> well_formed m"
proof (cases "validate_features {} (m_features m)")
  case (Inl e)
  then have "\<not> (distinct (map f_id (m_features m)) \<and> list_all (\<lambda>f. f_action f \<in> set KNOWN_ACTIONS) (m_features m))"
    by (metis Int_empty_left sum.distinct(1) validate_features_Inr)
  with Inl show ?thesis by (auto simp: validate_registry_def well_formed_def list_all_iff)
next
  case (Inr seen)
  then have known: "distinct (map f_id (m_features m))" "list_all (\<lambda>f. f_action f \<in> set KNOWN_ACTIONS) (m_features m)"
    and seen: "seen = f_id ` set (m_features m)"
    unfolding validate_features_Inr by simp_all
  have "validate_registry m = Inr () \<longleftrightarrow> (\<Union>f \<in> set (m_features m). set (f_requires f)) \<subseteq> seen"
    unfolding validate_registry_def Inr sum.case validate_requires_Inr required ..
  with known show ?thesis unfolding seen well_formed_def UN_subset_iff by (auto simp: list_all_iff)
qed

lemma validate_registry_raises: "validate_registry m = Inl e \<Longrightarrow> \<exists>msg. e = ValueError msg"
  by (auto simp: validate_registry_def dest: validate_features_raises validate_requires_raises split: sum.splits)

section \<open>Facts: the dictionary of features\<close>

lemma fold_update_new:
  "distinct (map f_id xs) \<Longrightarrow> fst ` set d \<inter> f_id ` set xs = {} \<Longrightarrow>
   fold (\<lambda>f. AList.update (f_id f) f) xs d = d @ map (\<lambda>f. (f_id f, f)) xs"
proof (induction xs arbitrary: d)
  case (Cons f xs)
  then have "f_id f \<notin> fst ` set d" by simp
  then have "AList.update (f_id f) f d = d @ [(f_id f, f)]" by (induction d) auto
  with Cons show ?case by auto
qed simp

lemma by_id_distinct: "distinct (map f_id (m_features m)) \<Longrightarrow> by_id m = map (\<lambda>f. (f_id f, f)) (m_features m)"
  by (simp add: by_id_def fold_update_new)

text \<open>Every key leads to the feature of that name, and every dependency is a key.\<close>

definition linked :: "(string \<times> aux_feature) list \<Rightarrow> bool" where
  "linked ids \<longleftrightarrow> (\<forall>k f. map_of ids k = Some f \<longrightarrow> f_id f = k \<and> set (f_requires f) \<subseteq> dom (map_of ids))"

lemma map_of_by_id:
  "distinct (map f_id xs) \<Longrightarrow> map_of (map (\<lambda>f. (f_id f, f)) xs) k = Some f \<longleftrightarrow> f \<in> set xs \<and> f_id f = k"
  by (subst map_of_eq_Some_iff) (auto simp: comp_def)

lemma linked_by_id: "well_formed m \<Longrightarrow> linked (by_id m)"
  unfolding linked_def well_formed_def
  by (auto simp: by_id_distinct map_of_by_id list_all_iff dom_map_of_conv_image_fst image_image)

section \<open>Facts: the visit\<close>

text \<open>An order is safe when every feature comes once, after all its selected dependencies.\<close>

fun safe_order :: "string set \<Rightarrow> string set \<Rightarrow> aux_feature list \<Rightarrow> bool" where
  "safe_order sel before [] \<longleftrightarrow> True"
| "safe_order sel before (f # rest) \<longleftrightarrow>
     f_id f \<notin> before \<and> list_all (\<lambda>d. d \<in> sel \<longrightarrow> d \<in> before) (f_requires f) \<and> safe_order sel (insert (f_id f) before) rest"

text \<open>The selected features that a selected feature requires.\<close>

definition needs :: "(string \<times> aux_feature) list \<Rightarrow> string set \<Rightarrow> (string \<times> string) set" where
  "needs ids sel = {(x, y). x \<in> sel \<and> y \<in> sel \<and> (\<exists>f. map_of ids x = Some f \<and> y \<in> set (f_requires f))}"

lemma safe_order_append:
  "safe_order sel before (xs @ ys) \<longleftrightarrow> safe_order sel before xs \<and> safe_order sel (before \<union> f_id ` set xs) ys"
  by (induction sel before xs rule: safe_order.induct) (auto simp: insert_commute)

text \<open>What a visit has done when it returns: new features at the end of the result, all of them selected, none of them
  being visited, in a safe order.\<close>

definition extends :: "(string \<times> aux_feature) list \<Rightarrow> string set \<Rightarrow> visit_state \<Rightarrow> visit_state \<Rightarrow> bool" where
  "extends ids sel st st' \<longleftrightarrow> snd st' = snd st \<and> (\<exists>new. fst st' = fst st @ new \<and> f_id ` set new \<inter> snd st = {} \<and>
     (\<forall>f \<in> set new. f_id f \<in> sel \<and> map_of ids (f_id f) = Some f) \<and> safe_order sel (f_id ` set (fst st)) new)"

lemma extends_refl: "extends ids sel st st"
  by (simp add: extends_def)

lemma extends_trans: "extends ids sel a b \<Longrightarrow> extends ids sel b c \<Longrightarrow> extends ids sel a c"
  by (fastforce simp: extends_def safe_order_append image_Un)

lemma extends_results: "extends ids sel st st' \<Longrightarrow> set (fst st) \<subseteq> set (fst st')"
  by (auto simp: extends_def)

definition cycle_error :: "exn \<Rightarrow> bool" where
  "cycle_error e \<longleftrightarrow> (\<exists>x. e = ValueError (''auxiliary dependency cycle at '' @ x))"

lemma visit_outcome:
  "linked ids \<Longrightarrow> map_of ids (f_id f) = Some f \<Longrightarrow> f_id f \<in> sel \<Longrightarrow> \<forall>v \<in> snd st. (v, f_id f) \<in> (needs ids sel)\<^sup>+ \<Longrightarrow>
   (case visit ids sel f st of
      Inl e \<Rightarrow> cycle_error e \<and> (\<exists>x. (x, x) \<in> (needs ids sel)\<^sup>+)
    | Inr st' \<Rightarrow> extends ids sel st st' \<and> f_id f \<in> f_id ` set (fst st'))"
  "linked ids \<Longrightarrow> set deps \<subseteq> dom (map_of ids) \<Longrightarrow> \<forall>v \<in> snd st. \<forall>d \<in> set deps \<inter> sel. (v, d) \<in> (needs ids sel)\<^sup>+ \<Longrightarrow>
   (case visit_deps ids sel deps st of
      Inl e \<Rightarrow> cycle_error e \<and> (\<exists>x. (x, x) \<in> (needs ids sel)\<^sup>+)
    | Inr st' \<Rightarrow> extends ids sel st st' \<and> set deps \<inter> sel \<subseteq> f_id ` set (fst st'))"
proof (induction ids sel f st and ids sel deps st rule: visit_visit_deps.induct)
  case (1 ids sel f result visiting)
  show ?case
  proof (cases "f_id f \<in> visiting \<or> f_id f \<in> f_id ` set result")
    case True
    with 1(5) show ?thesis by (auto simp: cycle_error_def extends_refl)
  next
    case False
    have "(v, d) \<in> (needs ids sel)\<^sup>+" if "v \<in> insert (f_id f) visiting" "d \<in> set (f_requires f) \<inter> sel" for v d
    proof -
      have "(f_id f, d) \<in> needs ids sel" using that 1(3,4) by (auto simp: needs_def)
      with that(1) 1(5) show ?thesis by (auto intro: trancl_into_trancl)
    qed
    moreover have "set (f_requires f) \<subseteq> dom (map_of ids)" using 1(2,3) by (simp add: linked_def)
    ultimately have IH: "case visit_deps ids sel (f_requires f) (result, insert (f_id f) visiting) of
        Inl e \<Rightarrow> cycle_error e \<and> (\<exists>x. (x, x) \<in> (needs ids sel)\<^sup>+)
      | Inr st' \<Rightarrow> extends ids sel (result, insert (f_id f) visiting) st' \<and> set (f_requires f) \<inter> sel \<subseteq> f_id ` set (fst st')"
      using 1(1,2) False by auto
    then show ?thesis
      using False 1(3,4)
      by (auto simp: extends_def safe_order_append list_all_iff split: sum.splits) (auto simp: image_Un)
  qed
next
  case (2 ids sel st)
  show ?case by (simp add: extends_refl)
next
  case (3 ids sel dep deps st)
  show ?case
  proof (cases "dep \<in> sel")
    case False
    with 3 show ?thesis by (auto split: sum.splits)
  next
    case True
    with 3(5) obtain g where g: "map_of ids dep = Some g" by auto
    with 3(4) have fg: "f_id g = dep" by (simp add: linked_def)
    have IH: "case visit ids sel g st of
        Inl e \<Rightarrow> cycle_error e \<and> (\<exists>x. (x, x) \<in> (needs ids sel)\<^sup>+)
      | Inr st' \<Rightarrow> extends ids sel st st' \<and> f_id g \<in> f_id ` set (fst st')"
      using 3(1) [OF True g] 3(4,6) True g fg by auto
    show ?thesis
    proof (cases "visit ids sel g st")
      case (Inl e)
      with IH True g show ?thesis by simp
    next
      case (Inr st')
      with IH have st': "extends ids sel st st'" "dep \<in> f_id ` set (fst st')" by (simp_all add: fg)
      then have "snd st' = snd st" by (simp add: extends_def)
      with 3(2) [OF True g Inr] 3(4-6)
      have "case visit_deps ids sel deps st' of
          Inl e \<Rightarrow> cycle_error e \<and> (\<exists>x. (x, x) \<in> (needs ids sel)\<^sup>+)
        | Inr st'' \<Rightarrow> extends ids sel st' st'' \<and> set deps \<inter> sel \<subseteq> f_id ` set (fst st'')"
        by auto
      with Inr True g st' show ?thesis
        by (auto split: sum.splits intro: extends_trans) (auto simp: extends_def)
    qed
  qed
qed

lemma visit_all_outcome:
  assumes "linked ids"
  shows "list_all (\<lambda>f. map_of ids (f_id f) = Some f) xs \<Longrightarrow> snd st = {} \<Longrightarrow>
   (case visit_all ids sel xs st of
      Inl e \<Rightarrow> cycle_error e \<and> (\<exists>x. (x, x) \<in> (needs ids sel)\<^sup>+)
    | Inr st' \<Rightarrow> extends ids sel st st' \<and> f_id ` set xs \<inter> sel \<subseteq> f_id ` set (fst st'))"
proof (induction xs arbitrary: st)
  case (Cons f xs)
  show ?case
  proof (cases "f_id f \<in> sel")
    case False
    with Cons.IH [of st] Cons.prems show ?thesis by (auto split: sum.splits)
  next
    case True
    with visit_outcome(1) [OF assms, of f sel st] Cons.prems
    have step: "case visit ids sel f st of
        Inl e \<Rightarrow> cycle_error e \<and> (\<exists>x. (x, x) \<in> (needs ids sel)\<^sup>+)
      | Inr st' \<Rightarrow> extends ids sel st st' \<and> f_id f \<in> f_id ` set (fst st')" by auto
    show ?thesis
    proof (cases "visit ids sel f st")
      case (Inl e)
      with step True show ?thesis by simp
    next
      case (Inr st')
      with step have st': "extends ids sel st st'" "f_id f \<in> f_id ` set (fst st')" by simp_all
      then have "snd st' = {}" using Cons.prems(2) by (simp add: extends_def)
      with Cons.IH [of st'] Cons.prems(1) Inr True st' show ?thesis
        by (auto split: sum.splits intro: extends_trans) (auto simp: extends_def)
    qed
  qed
qed (simp add: extends_refl)

text \<open>A safe order has no cycle: every selected dependency stands earlier.\<close>

definition position :: "aux_feature list \<Rightarrow> string \<Rightarrow> nat" where
  "position xs x = length (takeWhile (\<lambda>f. f_id f \<noteq> x) xs)"

lemma position_hit: "x \<notin> f_id ` set as \<Longrightarrow> f_id f = x \<Longrightarrow> position (as @ f # bs) x = length as"
  by (induction as) (auto simp: position_def)

lemma position_append: "x \<in> f_id ` set xs \<Longrightarrow> position (xs @ ys) x < length xs"
  by (induction xs) (auto simp: position_def)

lemma safe_order_earlier:
  assumes "safe_order sel {} xs" "f \<in> set xs" "d \<in> set (f_requires f)" "d \<in> sel"
  shows "position xs d < position xs (f_id f)"
proof -
  obtain as bs where xs: "xs = as @ f # bs" using assms(2) by (meson split_list)
  with assms(1) have new: "f_id f \<notin> f_id ` set as" and before: "list_all (\<lambda>d. d \<in> sel \<longrightarrow> d \<in> f_id ` set as) (f_requires f)"
    by (simp_all add: safe_order_append)
  then have "d \<in> f_id ` set as" using assms(3,4) by (auto simp: list_all_iff)
  then have "position xs d < length as" using position_append [of d as "f # bs"] xs by simp
  moreover have "position xs (f_id f) = length as" using new by (simp add: xs position_hit)
  ultimately show ?thesis by simp
qed

lemma ordered_outcome:
  assumes "well_formed m"
  shows "case ordered_features m sel of
     Inr xs \<Rightarrow> safe_order sel {} xs \<and> set xs = {f \<in> set (m_features m). f_id f \<in> sel} \<and> acyclic (needs (by_id m) sel)
   | Inl e \<Rightarrow> cycle_error e \<and> \<not> acyclic (needs (by_id m) sel)"
proof -
  let ?starts = "List.sort_key (\<lambda>f. (f_order f, f_id f)) (map snd (by_id m))"
  have d: "distinct (map f_id (m_features m))" using assms by (simp add: well_formed_def)
  have found: "map_of (by_id m) k = Some f \<longleftrightarrow> f \<in> set (m_features m) \<and> f_id f = k" for k f
    using map_of_by_id [OF d] by (simp add: by_id_distinct [OF d])
  have starts: "set ?starts = set (m_features m)" by (simp add: by_id_distinct [OF d] image_image)
  have "list_all (\<lambda>f. map_of (by_id m) (f_id f) = Some f) ?starts" unfolding list_all_iff starts by (simp add: found)
  from visit_all_outcome [OF linked_by_id [OF assms] this, of "([], {})" sel]
  have out: "case visit_all (by_id m) sel ?starts ([], {}) of
      Inl e \<Rightarrow> cycle_error e \<and> (\<exists>x. (x, x) \<in> (needs (by_id m) sel)\<^sup>+)
    | Inr st' \<Rightarrow> extends (by_id m) sel ([], {}) st' \<and> f_id ` set (m_features m) \<inter> sel \<subseteq> f_id ` set (fst st')"
    by (simp only: starts fst_conv snd_conv simp_thms)
  show ?thesis
  proof (cases "visit_all (by_id m) sel ?starts ([], {})")
    case (Inl e)
    with out show ?thesis by (simp add: ordered_features_def acyclic_def)
  next
    case (Inr st')
    then obtain xs vis where st': "st' = (xs, vis)" by (cases st')
    with Inr out have safe: "safe_order sel {} xs" and sub: "\<forall>f \<in> set xs. f_id f \<in> sel \<and> map_of (by_id m) (f_id f) = Some f"
      and all: "f_id ` set (m_features m) \<inter> sel \<subseteq> f_id ` set xs"
      by (auto simp: extends_def)
    have set: "set xs = {f \<in> set (m_features m). f_id f \<in> sel}"
    proof
      show "set xs \<subseteq> {f \<in> set (m_features m). f_id f \<in> sel}" using sub by (auto simp: found)
      show "{f \<in> set (m_features m). f_id f \<in> sel} \<subseteq> set xs"
      proof
        fix f assume f: "f \<in> {f \<in> set (m_features m). f_id f \<in> sel}"
        with all obtain g where "g \<in> set xs" "f_id g = f_id f" by auto
        with sub f found show "f \<in> set xs" by (metis mem_Collect_eq option.inject)
      qed
    qed
    have "needs (by_id m) sel \<subseteq> (measure (position xs))\<inverse>"
      using safe_order_earlier [OF safe] set found by (fastforce simp: needs_def)
    then have "acyclic (needs (by_id m) sel)"
      by (meson acyclic_converse acyclic_subset wf_acyclic wf_measure)
    with Inr st' safe set show ?thesis by (simp add: ordered_features_def)
  qed
qed

section \<open>Facts: the groups\<close>

text \<open>The values of a list in the order of their first occurrence.\<close>

fun firsts :: "'a list \<Rightarrow> 'a list" where
  "firsts [] = []"
| "firsts (x # xs) = x # filter (\<lambda>y. y \<noteq> x) (firsts xs)"

lemma get_list_update [simp]: "get_list (AList.update k v d) g = (if g = k then v else get_list d g)"
  by (simp add: get_list_def update_conv')

lemma get_list_empty: "(\<And>g. get_list d g = []) \<Longrightarrow> get_list (fold (\<lambda>g. AList.update g []) gs d) g = []"
  by (induction gs arbitrary: d) auto

lemma group_step_fold:
  "\<exists>grouped'. fold group_step xs (order, grouped) =
      (order @ filter (\<lambda>g. g \<notin> set order) (firsts (map f_group xs)), grouped') \<and>
    (\<forall>g. get_list grouped' g = get_list grouped g @ filter (\<lambda>f. f_group f = g) xs)"
proof (induction xs arbitrary: order grouped)
  case (Cons f xs)
  show ?case
    using Cons.IH [of "fst (group_step f (order, grouped))" "snd (group_step f (order, grouped))"]
    by (auto simp: group_step_def cong: filter_cong) (auto intro!: filter_cong)
qed simp

section \<open>Properties\<close>

text \<open>The registry is checked completely. Loading accepts a manifest exactly when its identifiers are distinct,
  every action is a known one and every dependency is a feature of the manifest; anything else is a \<open>ValueError\<close>.\<close>

theorem registry_checked:
  "(validate_registry m = Inr () \<longleftrightarrow>
      distinct (map f_id (m_features m)) \<and> list_all (\<lambda>f. f_action f \<in> set KNOWN_ACTIONS) (m_features m) \<and>
      list_all (\<lambda>f. list_all (\<lambda>d. d \<in> f_id ` set (m_features m)) (f_requires f)) (m_features m)) \<and>
   (case validate_registry m of Inl e \<Rightarrow> \<exists>msg. e = ValueError msg | Inr _ \<Rightarrow> True)"
  unfolding validate_registry_Inr well_formed_def
  by (auto simp: list_all_iff dest: validate_registry_raises split: sum.split)

text \<open>C20: features run after what they require, and only a cycle prevents it. For a validated registry and any
  selection, the order has exactly the selected features, each once and after all its selected dependencies; it fails
  only with the error that names a cycle, and exactly when the selected features do require each other in a cycle.\<close>

theorem features_in_dependency_order:
  assumes "validate_registry m = Inr ()"
  shows "case ordered_features m sel of
     Inr xs \<Rightarrow> safe_order sel {} xs \<and> set xs = {f \<in> set (m_features m). f_id f \<in> sel} \<and> acyclic (needs (by_id m) sel)
   | Inl e \<Rightarrow> cycle_error e \<and> \<not> acyclic (needs (by_id m) sel)"
  using assms ordered_outcome by (simp add: validate_registry_Inr)

text \<open>Three features of which the first requires the last, and the last one only the unselected second.\<close>

definition demo_feature :: "string \<Rightarrow> int \<Rightarrow> string list \<Rightarrow> aux_feature" where
  "demo_feature i n rs = \<lparr>f_id = i, f_label = i, f_description = [], f_group = ''storage'', f_scope = AgentScope,
     f_action = ''install-agentci'', f_order = n, f_enabled_by_default = False, f_detect_path = None,
     f_detect_mount = None, f_detect_cmd = None, f_args = [], f_requires = rs\<rparr>"

definition demo_manifest :: aux_manifest where
  "demo_manifest = \<lparr>m_groups = [''storage''], m_features =
     [demo_feature ''a'' 1 [''c''], demo_feature ''b'' 2 [], demo_feature ''c'' 3 [''b'']]\<rparr>"

theorem features_in_dependency_order_witness:
  "case ordered_features demo_manifest {''a'', ''c''} of
     Inr xs \<Rightarrow> safe_order {''a'', ''c''} {} xs \<and> map f_id xs = [''c'', ''a''] | Inl _ \<Rightarrow> False"
proof -
  have valid: "validate_registry demo_manifest = Inr ()" by code_simp
  have run: "ordered_features demo_manifest {''a'', ''c''} = Inr [demo_feature ''c'' 3 [''b''], demo_feature ''a'' 1 [''c'']]"
    by code_simp
  from features_in_dependency_order [OF valid, of "{''a'', ''c''}"] show ?thesis
    by (simp add: run demo_feature_def)
qed

text \<open>The menu shows every feature in its group. The dictionary the loop builds gives, for the declared groups and
  then the others in the order of their first use, the features of that group in registry order, without empty groups.\<close>

theorem groups_partition_features:
  "features_by_group m = filter (\<lambda>(g, xs). xs \<noteq> [])
     (map (\<lambda>g. (g, filter (\<lambda>f. f_group f = g) (m_features m)))
        (m_groups m @ filter (\<lambda>g. g \<notin> set (m_groups m)) (firsts (map f_group (m_features m)))))"
proof -
  let ?d = "fold (\<lambda>g. AList.update g []) (m_groups m) []"
  have none: "get_list ?d g = []" for g by (rule get_list_empty) (simp add: get_list_def)
  obtain grouped' where "fold group_step (m_features m) (m_groups m, ?d) =
      (m_groups m @ filter (\<lambda>g. g \<notin> set (m_groups m)) (firsts (map f_group (m_features m))), grouped')"
    "\<And>g. get_list grouped' g = filter (\<lambda>f. f_group f = g) (m_features m)"
    using group_step_fold [of "m_features m" "m_groups m" ?d] unfolding none by auto
  then show ?thesis by (simp add: features_by_group_def filter_map comp_def)
qed

end
