(* ===== verification/AuxRun.thy ===== *)
theory AuxRun
  imports AuxRegistry
begin

text \<open>
  \<open>workspace/scripts/bootstrap_aux.py\<close>: how the selected features are run. What the operating system says of
  the process and its users is the record \<open>aux_env\<close>: the project root, the effective user, the mount points and
  the password database. All commands run with the project root as their working directory, so it is not part of
  a call.
\<close>

record aux_env =
  e_root :: path
  e_uid :: int
  e_ismount :: "world \<Rightarrow> string \<Rightarrow> bool"
  e_pw_dir :: "string \<Rightarrow> string option"

definition DATAOPS_DIR :: "aux_env \<Rightarrow> path" where
  "DATAOPS_DIR E = child (child (e_root E) ''projects'') ''WORKSPACE-DATAOPS''"

record aux_result =
  r_feature_id :: string
  r_success :: bool
  r_message :: string

definition feature_args :: "aux_feature \<Rightarrow> (string \<times> string) list \<Rightarrow> (string \<times> string) list" where
  "feature_args f values =
     map (\<lambda>(name, spec). (name, case map_of values name of None \<Rightarrow> aa_default spec | Some v \<Rightarrow> v)) (f_args f)"

section \<open>Detection\<close>

definition detect_path :: "host \<Rightarrow> aux_env \<Rightarrow> aux_feature \<Rightarrow> bool io" where
  "detect_path H E f =
     (case f_detect_path f of
        None \<Rightarrow> ret False
      | Some d \<Rightarrow>
          if d = [] then ret False
          else bnd (lift_sum (path_expanduser H (mk_path d))) (\<lambda>p.
                 asks (\<lambda>w. p_exists H w (if absolute p then p else p_join (e_root E) p))))"

definition detect_mount :: "aux_env \<Rightarrow> aux_feature \<Rightarrow> bool io" where
  "detect_mount E f = (case f_detect_mount f of None \<Rightarrow> ret False | Some m \<Rightarrow> asks (\<lambda>w. e_ismount E w m))"

definition write_err :: "string \<Rightarrow> unit io" where
  "write_err s = update (\<lambda>w. w\<lparr>err := err w @ [s]\<rparr>)"

definition detect_failure :: "aux_feature \<Rightarrow> int \<Rightarrow> string \<Rightarrow> string" where
  "detect_failure f rc se = (if se \<noteq> [] then se else f_label f @ '' detect failed rc='' @ show_int rc @ nl)"

definition detect_command :: "host \<Rightarrow> aux_feature \<Rightarrow> bool io" where
  "detect_command H f =
     (case f_detect_cmd f of
        None \<Rightarrow> ret False
      | Some cmd \<Rightarrow>
          if cmd = [] then ret False
          else catch (\<lambda>e. is_called_process_error e \<or> is_os_error e)
                 (bnd (run_checked H (plain_call cmd)) (\<lambda>_. ret True))
                 (\<lambda>e. case e of
                    CalledProcessError rc so se \<Rightarrow> andthen (write_err (detect_failure f rc se)) (ret False)
                  | _ \<Rightarrow> andthen (write_err (f_label f @ '' detect failed: '' @ h_str H e @ nl)) (ret False)))"

definition detect_configured :: "host \<Rightarrow> aux_env \<Rightarrow> aux_feature \<Rightarrow> bool io" where
  "detect_configured H E f =
     bnd (detect_path H E f) (\<lambda>p. if p then ret True
     else bnd (detect_mount E f) (\<lambda>m. if m then ret True else detect_command H f))"

section \<open>The fixed commands\<close>

type_synonym commands = "string list list"

definition make_dataops :: "aux_env \<Rightarrow> string list \<Rightarrow> string list" where
  "make_dataops E args = [''make'', ''-C'', path_str (DATAOPS_DIR E)] @ args"

definition arg_of :: "(string \<times> string) list \<Rightarrow> string \<Rightarrow> exn + string" where
  "arg_of args k = (case map_of args k of None \<Rightarrow> Inl (KeyError k) | Some v \<Rightarrow> Inr v)"

definition storage_configure :: "aux_env \<Rightarrow> (string \<times> string) list \<Rightarrow> exn + commands" where
  "storage_configure E args =
     (case arg_of args ''fast'' of Inl e \<Rightarrow> Inl e
      | Inr fast \<Rightarrow> (case arg_of args ''backup'' of Inl e \<Rightarrow> Inl e
      | Inr backup \<Rightarrow>
          Inr [[''bash'', path_str (child (child (child (DATAOPS_DIR E) ''scripts'') ''storage'') ''write-storage-locations.sh''),
                ''--fast'', fast, ''--backup'', backup]]))"

definition storage_mount :: "aux_env \<Rightarrow> (string \<times> string) list \<Rightarrow> exn + commands" where
  "storage_mount E args = Inr [make_dataops E [''storage-mount'', ''NAME=ws-backup'']]"

definition storage_persist :: "aux_env \<Rightarrow> (string \<times> string) list \<Rightarrow> exn + commands" where
  "storage_persist E args = Inr [make_dataops E [''storage-persist'', ''NAME=ws-backup'']]"

definition storage_provision :: "aux_env \<Rightarrow> (string \<times> string) list \<Rightarrow> exn + commands" where
  "storage_provision E args =
     Inr [make_dataops E [''storage-provision'', ''DRY_RUN=1''], make_dataops E [''storage-provision'']]"

definition storage_migrate :: "aux_env \<Rightarrow> (string \<times> string) list \<Rightarrow> exn + commands" where
  "storage_migrate E args = Inr [make_dataops E [''storage-migrate'']]"

definition install_diagnostics :: "aux_env \<Rightarrow> (string \<times> string) list \<Rightarrow> exn + commands" where
  "install_diagnostics E args = Inr [[''make'', ''install-diagnostics'']]"

definition install_agentci :: "aux_env \<Rightarrow> (string \<times> string) list \<Rightarrow> exn + commands" where
  "install_agentci E args =
     Inr [[''make'', ''install-agentci''], [''make'', ''verify-agentci''], [''make'', ''install-moderator''],
          [''make'', ''verify-moderator'']]"

definition dataops_profiles :: "aux_env \<Rightarrow> (string \<times> string) list \<Rightarrow> exn + commands" where
  "dataops_profiles E args =
     (case arg_of args ''profiles'' of Inl e \<Rightarrow> Inl e
      | Inr p \<Rightarrow> Inr [make_dataops E [''runtime-up'', ''PROFILES='' @ p]])"

definition AUX_HANDLERS :: "(string \<times> (aux_env \<Rightarrow> (string \<times> string) list \<Rightarrow> exn + commands)) list" where
  "AUX_HANDLERS =
     [(''storage-configure'', storage_configure), (''storage-mount-backup'', storage_mount),
      (''storage-persist-backup'', storage_persist), (''storage-provision-fast'', storage_provision),
      (''storage-migrate'', storage_migrate), (''install-diagnostics'', install_diagnostics),
      (''install-agentci'', install_agentci), (''dataops-profiles'', dataops_profiles)]"

definition build_commands :: "aux_env \<Rightarrow> aux_feature \<Rightarrow> (string \<times> string) list \<Rightarrow> exn + commands" where
  "build_commands E f values =
     (case map_of AUX_HANDLERS (f_action f) of
        None \<Rightarrow> Inl (ValueError (''unknown auxiliary action: '' @ f_action f))
      | Some handler \<Rightarrow> handler E (feature_args f values))"

section \<open>Running\<close>

definition owner_home :: "aux_env \<Rightarrow> string \<Rightarrow> exn + string" where
  "owner_home E user =
     (case e_pw_dir E user of
        None \<Rightarrow> Inl (ValueError (''SUDO_USER does not resolve: '' @ user))
      | Some d \<Rightarrow> Inr d)"

definition wrap_as_owner :: "host \<Rightarrow> aux_env \<Rightarrow> string list \<Rightarrow> exn + string list" where
  "wrap_as_owner H E command =
     (let user = (case h_env H ''SUDO_USER'' of None \<Rightarrow> [] | Some u \<Rightarrow> u) in
      if user = [] \<or> user = ''root''
      then Inl (ValueError ''agent auxiliary action requires SUDO_USER when run as root'')
      else case owner_home E user of
        Inl e \<Rightarrow> Inl e
      | Inr home \<Rightarrow>
          Inr ([''runuser'', ''-u'', user, ''--'', ''env'', ''HOME='' @ home, ''USER='' @ user, ''LOGNAME='' @ user] @ command))"

definition run_one :: "host \<Rightarrow> aux_feature \<Rightarrow> string list \<Rightarrow> aux_result option io" where
  "run_one H f command =
     catch (\<lambda>e. is_called_process_error e \<or> is_os_error e)
       (bnd (run_checked H (plain_call command)) (\<lambda>_. ret None))
       (\<lambda>e. case e of
          CalledProcessError rc so se \<Rightarrow>
            ret (Some \<lparr>r_feature_id = f_id f, r_success = False, r_message = f_label f @ '' failed (rc='' @ show_int rc @ '')''\<rparr>)
        | _ \<Rightarrow> ret (Some \<lparr>r_feature_id = f_id f, r_success = False, r_message = f_label f @ '': '' @ h_str H e\<rparr>))"

fun run_commands :: "host \<Rightarrow> aux_feature \<Rightarrow> commands \<Rightarrow> aux_result io" where
  "run_commands H f [] = ret \<lparr>r_feature_id = f_id f, r_success = True, r_message = f_label f @ '' complete''\<rparr>"
| "run_commands H f (c # cs) =
     bnd (run_one H f c) (\<lambda>failure. case failure of None \<Rightarrow> run_commands H f cs | Some r \<Rightarrow> ret r)"

fun wrap_all :: "host \<Rightarrow> aux_env \<Rightarrow> commands \<Rightarrow> exn + commands" where
  "wrap_all H E [] = Inr []"
| "wrap_all H E (c # cs) =
     (case wrap_as_owner H E c of Inl e \<Rightarrow> Inl e
      | Inr w \<Rightarrow> (case wrap_all H E cs of Inl e \<Rightarrow> Inl e | Inr ws \<Rightarrow> Inr (w # ws)))"

definition run_feature :: "host \<Rightarrow> aux_env \<Rightarrow> aux_feature \<Rightarrow> (string \<times> string) list \<Rightarrow> int option \<Rightarrow> aux_result io" where
  "run_feature H E f values effective_uid =
     (let uid = (case effective_uid of None \<Rightarrow> e_uid E | Some u \<Rightarrow> u) in
      bnd (lift_sum (build_commands E f values)) (\<lambda>commands.
        if f_scope f = RootScope \<and> uid \<noteq> 0
        then ret \<lparr>r_feature_id = f_id f, r_success = False,
                  r_message = ''root action skipped outside sudo make init: '' @ f_label f\<rparr>
        else bnd (lift_sum (if f_scope f = AgentScope \<and> uid = 0 then wrap_all H E commands else Inr commands)) (\<lambda>commands.
             run_commands H f commands)))"

fun run_selected_from :: "host \<Rightarrow> aux_env \<Rightarrow> (string \<times> (string \<times> string) list) list \<Rightarrow> int option \<Rightarrow> aux_result list \<Rightarrow>
    aux_feature list \<Rightarrow> aux_result list io" where
  "run_selected_from H E values_by_id uid results [] = ret results"
| "run_selected_from H E values_by_id uid results (f # rest) =
     bnd (run_feature H E f (get_list values_by_id (f_id f)) uid) (\<lambda>result.
       if \<not> r_success result
       then andthen (print_err (''ERROR: '' @ r_message result)) (ret (results @ [result]))
       else run_selected_from H E values_by_id uid (results @ [result]) rest)"

definition run_selected :: "host \<Rightarrow> aux_env \<Rightarrow> aux_feature list \<Rightarrow> (string \<times> (string \<times> string) list) list \<Rightarrow> int option \<Rightarrow>
    aux_result list io" where
  "run_selected H E features values_by_id effective_uid = run_selected_from H E values_by_id effective_uid [] features"

section \<open>Facts\<close>

text \<open>Every known action has a handler, so a validated feature can only fail to build its commands for want of an argument.\<close>

lemma known_action_handled: "f_action f \<in> set KNOWN_ACTIONS \<Longrightarrow> \<exists>h. map_of AUX_HANDLERS (f_action f) = Some h"
proof -
  have "map fst AUX_HANDLERS = KNOWN_ACTIONS" by (simp add: AUX_HANDLERS_def KNOWN_ACTIONS_def)
  then have "set KNOWN_ACTIONS = dom (map_of AUX_HANDLERS)" by (metis dom_map_of_conv_image_fst list.set_map)
  moreover assume "f_action f \<in> set KNOWN_ACTIONS"
  ultimately show ?thesis by auto
qed

lemma handlers_raise: "map_of AUX_HANDLERS a = Some h \<Longrightarrow> h E args = Inl e \<Longrightarrow> \<exists>k. e = KeyError k"
proof -
  have "list_all (\<lambda>(a, h). \<forall>e. h E args = Inl e \<longrightarrow> (\<exists>k. e = KeyError k)) AUX_HANDLERS"
    by (auto simp: AUX_HANDLERS_def storage_configure_def storage_mount_def storage_persist_def storage_provision_def
        storage_migrate_def install_diagnostics_def install_agentci_def dataops_profiles_def arg_of_def
        split: option.splits sum.splits)
  moreover assume "map_of AUX_HANDLERS a = Some h" "h E args = Inl e"
  ultimately show ?thesis by (auto simp: list_all_iff dest!: map_of_SomeD)
qed

text \<open>A command either succeeds or yields the failed result of its feature.\<close>

lemma wp_run_one:
  "wp (run_one H f c) (\<lambda>r _. case r of None \<Rightarrow> True | Some r \<Rightarrow> r_feature_id r = f_id f \<and> \<not> r_success r) (\<lambda>_ _. True) w"
  unfolding run_one_def wp_catch wp_bnd
  by (rule wp_mono [where Q = "\<lambda>_ _. True" and E = "\<lambda>_ _. True"]) (auto simp: wps intro: wp_any split: exn.split)

lemma run_commands_id: "wp (run_commands H f cs) (\<lambda>r _. r_feature_id r = f_id f) (\<lambda>_ _. True) w"
  by (induction cs arbitrary: w)
    (auto simp: wps split: option.splits intro!: wp_mono [OF wp_run_one])

lemma run_feature_id: "wp (run_feature H E f values uid) (\<lambda>r _. r_feature_id r = f_id f) (\<lambda>_ _. True) w"
  by (simp add: run_feature_def Let_def wps lift_sum_def run_commands_id split: sum.split)

text \<open>The results of a run over \<open>xs\<close>.\<close>

definition results_of :: "aux_feature list \<Rightarrow> aux_result list \<Rightarrow> bool" where
  "results_of xs rs \<longleftrightarrow> map r_feature_id rs = map f_id (take (length rs) xs) \<and> list_all r_success (butlast rs) \<and>
     (if list_all r_success rs then length rs = length xs else length rs \<le> length xs)"

lemma results_of_Nil: "results_of [] []"
  by (simp add: results_of_def)

lemma results_of_fail: "r_feature_id r = f_id f \<Longrightarrow> \<not> r_success r \<Longrightarrow> results_of (f # xs) [r]"
  by (simp add: results_of_def)

lemma results_of_Cons: "r_feature_id r = f_id f \<Longrightarrow> r_success r \<Longrightarrow> results_of xs rs \<Longrightarrow> results_of (f # xs) (r # rs)"
  by (auto simp: results_of_def)

lemma run_selected_from_results:
  "wp (run_selected_from H E vs uid done xs) (\<lambda>rs _. \<exists>new. rs = done @ new \<and> results_of xs new) (\<lambda>_ _. True) w"
proof (induction xs arbitrary: "done" w)
  case (Cons f xs)
  show ?case
    by (auto simp: wps print_err_def intro!: wp_mono [OF run_feature_id] wp_mono [OF Cons.IH] results_of_fail results_of_Cons)
qed (simp add: wps results_of_Nil)

text \<open>What the requests of a feature may be.\<close>

definition scope_allows :: "host \<Rightarrow> scope \<Rightarrow> int \<Rightarrow> request \<Rightarrow> bool" where
  "scope_allows H s uid r \<longleftrightarrow>
     (case r of
        Run c \<Rightarrow> (case s of
            RootScope \<Rightarrow> uid = 0
          | AgentScope \<Rightarrow> uid \<noteq> 0 \<or> (case h_env H ''SUDO_USER'' of None \<Rightarrow> False | Some user \<Rightarrow> user \<noteq> [] \<and> user \<noteq> ''root'' \<and>
              take 5 (c_argv c) = [''runuser'', ''-u'', user, ''--'', ''env'']))
      | _ \<Rightarrow> False)"

lemma wrap_all_owner:
  "wrap_all H E cs = Inr ws \<Longrightarrow> list_all (\<lambda>c. scope_allows H AgentScope uid (Run (plain_call c))) ws"
  by (induction cs arbitrary: ws)
    (auto simp: wrap_as_owner_def scope_allows_def plain_call_def Let_def split: if_splits option.splits sum.splits)

lemma emits_run_one [emits_intros]: "P (Run (plain_call c)) \<Longrightarrow> emits P (run_one H f c)"
  unfolding run_one_def by (intro emits_intros)

lemma emits_run_commands: "list_all (\<lambda>c. P (Run (plain_call c))) cs \<Longrightarrow> emits P (run_commands H f cs)"
  by (induction cs) (auto intro!: emits_intros)

lemma emits_run_feature:
  "emits (scope_allows H (f_scope f) (case uid of None \<Rightarrow> e_uid E | Some u \<Rightarrow> u)) (run_feature H E f values uid)"
proof -
  have plain: "\<not> (f_scope f = RootScope \<and> u \<noteq> 0) \<Longrightarrow> \<not> (f_scope f = AgentScope \<and> u = 0) \<Longrightarrow>
      list_all (\<lambda>c. scope_allows H (f_scope f) u (Run (plain_call c))) cs" for cs and u :: int
    by (cases "f_scope f") (auto simp: scope_allows_def list_all_iff)
  show ?thesis
    unfolding run_feature_def Let_def
    by (intro emits_lift_bnd emits_if emits_simple emits_run_commands) (auto intro: plain wrap_all_owner split: if_splits)
qed

text \<open>The documented promise not to raise does not hold: as root without \<open>SUDO_USER\<close>, an agent feature raises.\<close>

lemma agent_feature_raises:
  assumes "f_scope f = AgentScope" "f_action f = ''install-agentci''" "h_env H ''SUDO_USER'' = None"
  shows "run_feature H E f values (Some 0) w =
    (Inl (ValueError ''agent auxiliary action requires SUDO_USER when run as root''), w)"
proof -
  have b: "build_commands E f values = install_agentci E (feature_args f values)"
    using assms(2) by (simp add: build_commands_def AUX_HANDLERS_def)
  show ?thesis
    using assms(1,3) by (simp add: run_feature_def b install_agentci_def wrap_as_owner_def bnd_def lift_sum_def ret_def raise_def)
qed

section \<open>Properties\<close>

text \<open>C21: a feature runs with the rights of its scope. Whatever its commands are, a root feature runs none unless
  the effective user is root; and an agent feature, when the effective user is root, runs each of them through
  \<open>runuser\<close> as the invoking user, who is named and not root.\<close>

theorem features_run_with_their_scope:
  "\<exists>rs. requests (snd (run_feature H E f values uid w)) = requests w @ rs \<and>
     list_all (scope_allows H (f_scope f) (case uid of None \<Rightarrow> e_uid E | Some u \<Rightarrow> u)) rs"
  using emits_run_feature [of H f E uid "values"] by (simp add: emits_def)

text \<open>A run stops at its first failure. When it returns, the results belong to the first features of the
  selection in order; all but the last are successes; and it is complete unless the last one failed.\<close>

theorem run_stops_at_first_failure:
  "case fst (run_selected H E xs values_by_id uid w) of
     Inl _ \<Rightarrow> True
   | Inr rs \<Rightarrow> map r_feature_id rs = map f_id (take (length rs) xs) \<and> list_all r_success (butlast rs) \<and>
       (if list_all r_success rs then length rs = length xs else length rs \<le> length xs)"
  using run_selected_from_results [of H E values_by_id uid "[]" xs w]
  by (auto simp: wp_def run_selected_def results_of_def split: prod.splits sum.splits)

end
