(* ===== verification/InstallerUi.thy ===== *)
theory InstallerUi
  imports World
begin

text \<open>
  The printing helpers of the three installers (\<open>bootstrap_installer_ui.py\<close>, \<open>llama_setup_installer_ui.py\<close>,
  \<open>host_setup_installer_ui.py\<close>) and the dialogs they use. The dialogs and the colours belong to the package
  \<open>dataops\<close> and are records of parameters. A character outside ASCII is the list of its UTF-8 bytes.
\<close>

section \<open>Colours and symbols\<close>

record colors =
  cl_cyan :: string
  cl_green :: string
  cl_yellow :: string
  cl_red :: string
  cl_bold :: string
  cl_reset :: string

definition escape :: char where "escape = CHR 0x1B"
definition DIM :: string where "DIM = escape # ''[2m''"

definition tick :: string where "tick = [CHR 0xE2, CHR 0x9C, CHR 0x93]"
definition cross :: string where "cross = [CHR 0xE2, CHR 0x9C, CHR 0x97]"
definition bullet :: string where "bullet = [CHR 0xE2, CHR 0x80, CHR 0xA2]"
definition dash :: string where "dash = [CHR 0xE2, CHR 0x94, CHR 0x80]"
definition side :: string where "side = [CHR 0xE2, CHR 0x94, CHR 0x82]"
definition top_left :: string where "top_left = [CHR 0xE2, CHR 0x94, CHR 0x8C]"
definition top_right :: string where "top_right = [CHR 0xE2, CHR 0x94, CHR 0x90]"
definition bottom_left :: string where "bottom_left = [CHR 0xE2, CHR 0x94, CHR 0x94]"
definition bottom_right :: string where "bottom_right = [CHR 0xE2, CHR 0x94, CHR 0x98]"
definition full_block :: string where "full_block = [CHR 0xE2, CHR 0x96, CHR 0x88]"
definition light_block :: string where "light_block = [CHR 0xE2, CHR 0x96, CHR 0x91]"
definition pointer :: string where "pointer = [CHR 0xE2, CHR 0x96, CHR 0xBA]"
definition double_dash :: string where "double_dash = [CHR 0xE2, CHR 0x95, CHR 0x90]"
definition double_side :: string where "double_side = [CHR 0xE2, CHR 0x95, CHR 0x91]"
definition double_top_left :: string where "double_top_left = [CHR 0xE2, CHR 0x95, CHR 0x94]"
definition double_top_right :: string where "double_top_right = [CHR 0xE2, CHR 0x95, CHR 0x97]"
definition double_bottom_left :: string where "double_bottom_left = [CHR 0xE2, CHR 0x95, CHR 0x9A]"
definition double_bottom_right :: string where "double_bottom_right = [CHR 0xE2, CHR 0x95, CHR 0x9D]"

definition times_str :: "nat \<Rightarrow> string \<Rightarrow> string" where
  "times_str n s = concat (replicate n s)"

section \<open>Boxes\<close>

text \<open>A text without its colour sequences \<open>\x1b\[[0-9;]*m\<close>.\<close>

function strip_ansi :: "string \<Rightarrow> string" where
  "strip_ansi [] = []"
| "strip_ansi (c # s) =
     (if c = escape \<and> s \<noteq> [] \<and> hd s = CHR ''['' then
        (case dropWhile (\<lambda>d. is_digit d \<or> d = CHR '';'') (tl s) of
           [] \<Rightarrow> c # strip_ansi s
         | d # r \<Rightarrow> if d = CHR ''m'' then strip_ansi r else c # strip_ansi s)
      else c # strip_ansi s)"
  by pat_completeness auto

lemma after_sequence_shorter: "dropWhile P (tl s) = d # r \<Longrightarrow> length r < length s"
  using length_dropWhile_le [of P "tl s"] by (cases s) auto

termination strip_ansi
  by (relation "measure length") (auto dest: after_sequence_shorter)

text \<open>The number of characters of a text, which is kept as its UTF-8 bytes: the bytes that continue none.\<close>

definition continues :: "char \<Rightarrow> bool" where
  "continues c \<longleftrightarrow> 128 \<le> (of_char c :: nat) \<and> (of_char c :: nat) < 192"

definition characters :: "string \<Rightarrow> nat" where
  "characters s = length (filter (\<lambda>c. \<not> continues c) s)"

definition visible_width :: "string \<Rightarrow> nat" where
  "visible_width s = characters (strip_ansi s)"

definition pad_to_width :: "string \<Rightarrow> nat \<Rightarrow> string" where
  "pad_to_width content n = content @ replicate (n - visible_width content) (CHR '' '')"

definition box_line :: "nat \<Rightarrow> string \<Rightarrow> string" where
  "box_line box_width content = double_side @ pad_to_width content box_width @ double_side"

text \<open>The boxes of the two banners; the art of the first one is made by the package \<open>art\<close>.\<close>

definition boxed :: "colors \<Rightarrow> nat \<Rightarrow> string list \<Rightarrow> string" where
  "boxed C box_width rows =
     join nl ([cl_cyan C @ double_top_left @ times_str box_width double_dash @ double_top_right]
       @ map (box_line box_width) rows
       @ [double_bottom_left @ times_str box_width double_dash @ double_bottom_right @ cl_reset C])"

definition bootstrap_box_width :: "string list \<Rightarrow> nat" where
  "bootstrap_box_width art = max 64 (Max (set (map characters art)) + 4)"

definition bootstrap_banner :: "colors \<Rightarrow> string list \<Rightarrow> string" where
  "bootstrap_banner C art =
     boxed C (bootstrap_box_width art)
       ([[]] @ map (\<lambda>line. '' '' @ cl_bold C @ line @ cl_reset C @ cl_cyan C) art
        @ [[], '' '' @ cl_yellow C @ ''Bootstrap Component Installer'' @ cl_reset C @ cl_cyan C,
           '' '' @ DIM @ ''Select components to install'' @ cl_reset C @ cl_cyan C,
           '' '' @ DIM @ ''GPU/LLM setup: make llama-setup'' @ cl_reset C @ cl_cyan C, []])"

definition llama_banner :: "colors \<Rightarrow> string" where
  "llama_banner C =
     boxed C 64
       [[], '' '' @ cl_bold C @ ''Llama / Hardware Setup'' @ cl_reset C @ cl_cyan C,
        '' '' @ DIM @ ''GPU prereqs, builds, bundles, systemd deploy'' @ cl_reset C @ cl_cyan C,
        '' '' @ DIM @ ''(General bootstrap: make install)'' @ cl_reset C @ cl_cyan C, []]"

section \<open>Lines\<close>

definition print_section :: "colors \<Rightarrow> string \<Rightarrow> unit io" where
  "print_section C title =
     each print_out
       [nl @ cl_cyan C @ top_left @ times_str 58 dash @ top_right @ cl_reset C,
        cl_cyan C @ side @ cl_reset C @ '' '' @ cl_bold C @ title @ cl_reset C @ replicate (57 - characters title) (CHR '' '')
          @ cl_cyan C @ side @ cl_reset C,
        cl_cyan C @ bottom_left @ times_str 58 dash @ bottom_right @ cl_reset C]"

text \<open>The host installer does not close the middle line.\<close>

definition print_open_section :: "colors \<Rightarrow> string \<Rightarrow> unit io" where
  "print_open_section C title =
     each print_out
       [nl @ cl_cyan C @ top_left @ times_str 58 dash @ top_right @ cl_reset C,
        cl_cyan C @ side @ cl_reset C @ '' '' @ cl_bold C @ title @ cl_reset C,
        cl_cyan C @ bottom_left @ times_str 58 dash @ bottom_right @ cl_reset C]"

definition print_status :: "colors \<Rightarrow> string \<Rightarrow> string \<Rightarrow> string \<Rightarrow> unit io" where
  "print_status C icon message color = print_out (''  '' @ color @ icon @ cl_reset C @ '' '' @ message)"

text \<open>\<open>filled\<close> is thirty times the share that is done; a share of nothing counts as all, as in the model-server setup.\<close>

definition progress_filled :: "nat \<Rightarrow> nat \<Rightarrow> nat" where
  "progress_filled current n = (if n = 0 then 30 else 30 * current div n)"

definition print_progress :: "colors \<Rightarrow> nat \<Rightarrow> nat \<Rightarrow> string \<Rightarrow> unit io" where
  "print_progress C current n label =
     each print_out
       [nl @ cl_cyan C @ ''['' @ times_str (progress_filled current n) full_block
          @ times_str (30 - progress_filled current n) light_block @ '']'' @ cl_reset C @ '' '' @ show_nat current @ ''/'' @ show_nat n,
        cl_bold C @ ''  '' @ pointer @ '' '' @ label @ cl_reset C]"

definition restore_bootstrap_terminal :: "colors \<Rightarrow> unit io" where
  "restore_bootstrap_terminal C = each print_out [cl_reset C, escape # ''[?25h'', escape # ''[r'', escape # ''[999E'']"

definition restore_llama_terminal :: "unit io" where
  "restore_llama_terminal = each print_out [escape # ''[?25h'', escape # ''[r'']"

definition restore_host_terminal :: "colors \<Rightarrow> unit io" where
  "restore_host_terminal C = print_out (cl_reset C)"

section \<open>Dialogs\<close>

text \<open>An item of a menu; a header has no value. \<open>multiselect\<close> takes the items, the title, the preselected and the
  skippable identifiers and the height.\<close>

record 'a menu_item =
  mi_id :: string
  mi_label :: string
  mi_value :: "'a option"
  mi_description :: string
  mi_disabled :: bool

record 'a dialogs =
  dl_multiselect :: "'a menu_item list \<Rightarrow> string \<Rightarrow> string set \<Rightarrow> string set \<Rightarrow> nat \<Rightarrow> 'a menu_item list io"
  dl_confirm :: "string \<Rightarrow> string \<Rightarrow> bool io"
  dl_tty :: bool

text \<open>The values of the selected items; headers have none.\<close>

definition chosen_values :: "'a menu_item list \<Rightarrow> 'a list" where
  "chosen_values items = map (the \<circ> mi_value) (filter (\<lambda>i. mi_value i \<noteq> None) items)"

section \<open>Facts\<close>

lemma strip_ansi_replicate: "strip_ansi (replicate n (CHR '' '')) = replicate n (CHR '' '')"
  by (induction n) (simp_all add: escape_def)

lemma dropWhile_blanks:
  "dropWhile (\<lambda>d. is_digit d \<or> d = CHR '';'') (s @ replicate n (CHR '' '')) =
   dropWhile (\<lambda>d. is_digit d \<or> d = CHR '';'') s @ replicate n (CHR '' '')"
  by (induction s) (cases n, simp_all add: is_digit_def)

lemma strip_ansi_sequence:
  "strip_ansi (escape # CHR ''['' # s) =
     (case dropWhile (\<lambda>d. is_digit d \<or> d = CHR '';'') s of
        [] \<Rightarrow> escape # strip_ansi (CHR ''['' # s)
      | d # r \<Rightarrow> if d = CHR ''m'' then strip_ansi r else escape # strip_ansi (CHR ''['' # s))"
  by (subst strip_ansi.simps) simp

lemma strip_ansi_plain: "\<not> (c = escape \<and> s \<noteq> [] \<and> hd s = CHR ''['') \<Longrightarrow> strip_ansi (c # s) = c # strip_ansi s"
  by (subst strip_ansi.simps) (simp only: if_False)

lemma strip_ansi_blanks: "strip_ansi (s @ replicate n (CHR '' '')) = strip_ansi s @ replicate n (CHR '' '')"
proof (induction s rule: strip_ansi.induct)
  case (2 c s)
  show ?case
  proof (cases "c = escape \<and> s \<noteq> [] \<and> hd s = CHR ''[''")
    case True
    then obtain s' where s: "s = CHR ''['' # s'" and c: "c = escape" by (cases s) auto
    show ?thesis
    proof (cases "dropWhile (\<lambda>d. is_digit d \<or> d = CHR '';'') s'")
      case Nil
      with 2(1) True have "strip_ansi (CHR ''['' # s' @ replicate n (CHR '' '')) = strip_ansi (CHR ''['' # s') @ replicate n (CHR '' '')"
        by (simp add: s del: strip_ansi.simps)
      moreover have "dropWhile (\<lambda>d. is_digit d \<or> d = CHR '';'') (s' @ replicate n (CHR '' '')) = replicate n (CHR '' '')"
        using Nil by (simp add: dropWhile_blanks del: dropWhile_append dropWhile_eq_Nil_conv)
      ultimately show ?thesis using Nil
        by (cases n) (simp_all add: s c strip_ansi_sequence del: strip_ansi.simps dropWhile_append dropWhile_eq_Nil_conv)
    next
      case (Cons d r)
      with 2(2,3) True show ?thesis
        by (simp add: s c strip_ansi_sequence dropWhile_blanks del: strip_ansi.simps dropWhile_append dropWhile_eq_Nil_conv)
    qed
  next
    case False
    then have blank: "\<not> (c = escape \<and> s @ replicate n (CHR '' '') \<noteq> [] \<and> hd (s @ replicate n (CHR '' '')) = CHR ''['')"
      by (cases s; cases n) auto
    from False 2(4) show ?thesis
      by (simp add: strip_ansi_plain [OF False] strip_ansi_plain [OF blank] del: strip_ansi.simps)
  qed
qed (simp add: strip_ansi_replicate)

text \<open>A padded line has the width of the box, whatever its colours.\<close>

lemma padded_width: "visible_width (pad_to_width s n) = max n (visible_width s)"
  by (simp add: visible_width_def pad_to_width_def strip_ansi_blanks characters_def continues_def)

lemma emits_printing [emits_intros]:
  "emits P (print_section C t)" "emits P (print_open_section C t)" "emits P (print_status C i m k)" "emits P (print_progress C c n l)"
  "emits P (restore_bootstrap_terminal C)" "emits P restore_llama_terminal" "emits P (restore_host_terminal C)"
  unfolding print_section_def print_open_section_def print_status_def print_progress_def restore_bootstrap_terminal_def
    restore_llama_terminal_def restore_host_terminal_def
  by (intro emits_intros)+

end
