(* ===== verification/HostSetup.thy ===== *)
theory HostSetup
  imports AuxRun InstallerUi
begin

text \<open>
  \<open>host_setup_installer.py\<close>: the host configuration, with a menu or from a defaults file, over the registry and
  the runner of the auxiliary features. The dialogs, the terminal and \<open>input\<close> are parameters.
\<close>

datatype scope_choice = AllScopes | AgentOnly | RootOnly

definition allowed :: "aux_feature \<Rightarrow> scope_choice \<Rightarrow> int \<Rightarrow> bool" where
  "allowed f choice uid =
     (if choice = AgentOnly then f_scope f = AgentScope
      else if choice = RootOnly then f_scope f = RootScope
      else if uid = 0 then True
      else f_scope f = AgentScope)"

section \<open>Selections\<close>

type_synonym arg_values = "(string \<times> (string \<times> string) list) list"

definition prompt_arg :: "(string \<Rightarrow> string io) \<Rightarrow> string \<times> aux_arg \<Rightarrow> (string \<times> string) io" where
  "prompt_arg input = (\<lambda>(name, spec).
     bnd (input (''  '' @ (if aa_description spec \<noteq> [] then aa_description spec else name) @ '' ['' @ aa_default spec @ '']: ''))
       (\<lambda>answer. ret (name, if strip answer \<noteq> [] then strip answer else aa_default spec)))"

definition prompt_feature :: "colors \<Rightarrow> (string \<Rightarrow> string io) \<Rightarrow> aux_feature \<Rightarrow> arg_values io" where
  "prompt_feature C input f =
     (if f_args f = [] then ret []
      else andthen (print_open_section C (f_label f))
        (bnd (collect (prompt_arg input) (f_args f)) (\<lambda>resolved. ret [(f_id f, resolved)])))"

definition prompt_args :: "colors \<Rightarrow> (string \<Rightarrow> string io) \<Rightarrow> aux_feature list \<Rightarrow> arg_values io" where
  "prompt_args C input features =
     bnd (collect (prompt_feature C input) features) (\<lambda>vss. ret (fold (\<lambda>(k, v). AList.update k v) (concat vss) []))"

text \<open>The items of one feature and of one group, with the identifiers that are configured already.\<close>

definition feature_item :: "host \<Rightarrow> aux_env \<Rightarrow> aux_feature \<Rightarrow> (aux_feature menu_item \<times> string set) io" where
  "feature_item H E f =
     bnd (detect_configured H E f) (\<lambda>configured.
       ret (\<lparr>mi_id = f_id f, mi_label = f_label f, mi_value = Some f,
             mi_description = f_description f @ '' ('' @ (if configured then ''configured'' else ''not configured'') @ '')'',
             mi_disabled = False\<rparr>, if configured then {f_id f} else {}))"

definition group_items :: "host \<Rightarrow> aux_env \<Rightarrow> scope_choice \<Rightarrow> int \<Rightarrow> string \<times> aux_feature list
    \<Rightarrow> (aux_feature menu_item list \<times> string set) io" where
  "group_items H E choice uid = (\<lambda>(group, features).
     let shown = filter (\<lambda>f. allowed f choice uid) features in
     if shown = [] then ret ([], {})
     else bnd (collect (feature_item H E) shown) (\<lambda>xs.
       ret (\<lparr>mi_id = ''_header_'' @ group, mi_label = group, mi_value = None,
             mi_description = show_nat (length shown) @ '' feature(s)'', mi_disabled = False\<rparr> # map fst xs,
            \<Union> (set (map snd xs)))))"

definition default_ids :: "aux_manifest \<Rightarrow> scope_choice \<Rightarrow> int \<Rightarrow> string set" where
  "default_ids m choice uid =
     f_id ` set (filter (\<lambda>f. allowed f choice uid \<and> f_enabled_by_default f) (concat (map snd (features_by_group m))))"

definition select_interactive :: "host \<Rightarrow> aux_env \<Rightarrow> aux_feature dialogs \<Rightarrow> aux_manifest \<Rightarrow> scope_choice \<Rightarrow> int
    \<Rightarrow> aux_feature list io" where
  "select_interactive H E D m choice uid =
     bnd (collect (group_items H E choice uid) (features_by_group m)) (\<lambda>gs.
     bnd (dl_multiselect D (concat (map fst gs)) ''Host configuration'' (default_ids m choice uid) (\<Union> (set (map snd gs))) 20)
       (\<lambda>chosen. ret (chosen_values chosen)))"

fun default_selection :: "aux_manifest \<Rightarrow> scope_choice \<Rightarrow> int \<Rightarrow> aux_defaults \<Rightarrow> exn + (aux_feature \<times> (string \<times> string) list) list" where
  "default_selection m choice uid [] = Inr []"
| "default_selection m choice uid ((i, s) # rest) =
     (case map_of (by_id m) i of
        None \<Rightarrow> Inl (KeyError i)
      | Some f \<Rightarrow>
          if \<not> s_enabled s \<or> \<not> allowed f choice uid then default_selection m choice uid rest
          else (case default_selection m choice uid rest of Inl e \<Rightarrow> Inl e | Inr xs \<Rightarrow> Inr ((f, s_args s) # xs)))"

definition select_defaults :: "aux_manifest \<Rightarrow> aux_defaults \<Rightarrow> scope_choice \<Rightarrow> int \<Rightarrow> exn + (aux_feature list \<times> arg_values)" where
  "select_defaults m defaults choice uid =
     (case validate_defaults m defaults of
        Inl e \<Rightarrow> Inl e
      | Inr _ \<Rightarrow> (case default_selection m choice uid defaults of
          Inl e \<Rightarrow> Inl e
        | Inr xs \<Rightarrow> Inr (map fst xs, map (\<lambda>(f, args). (f_id f, args)) xs)))"

section \<open>The run\<close>

definition feature_line :: "colors \<Rightarrow> aux_feature \<Rightarrow> unit io" where
  "feature_line C f =
     print_status C bullet (f_label f @ '' '' @ DIM @ ''['' @ (if f_scope f = RootScope then ''root'' else ''agent'') @ '']'' @ cl_reset C)
       (cl_cyan C)"

definition result_line :: "colors \<Rightarrow> aux_result \<Rightarrow> unit io" where
  "result_line C r =
     (if r_success r then print_status C tick (r_message r) (cl_green C) else print_status C cross (r_message r) (cl_red C))"

definition apply_features :: "host \<Rightarrow> aux_env \<Rightarrow> colors \<Rightarrow> aux_feature list \<Rightarrow> arg_values \<Rightarrow> int io" where
  "apply_features H E C ordered vs =
     bnd (run_selected H E ordered vs None) (\<lambda>results.
     andthen (each (result_line C) results)
       (if list_ex (\<lambda>r. \<not> r_success r) results then ret 1
        else andthen (print_out (nl @ cl_green C @ ''Host configuration complete.'' @ cl_reset C)) (ret 0)))"

definition confirm_and_apply :: "host \<Rightarrow> aux_env \<Rightarrow> colors \<Rightarrow> aux_feature dialogs \<Rightarrow> aux_manifest \<Rightarrow> bool
    \<Rightarrow> aux_feature list \<Rightarrow> arg_values \<Rightarrow> int io" where
  "confirm_and_apply H E C D m interactive selected vs =
     (if selected = [] then andthen (print_out (cl_yellow C @ ''No host features selected.'' @ cl_reset C)) (ret 0)
      else bnd (lift_sum (ordered_features m (f_id ` set selected))) (\<lambda>ordered.
        andthen (print_open_section C (''Host configuration ('' @ show_nat (length ordered) @ '' feature(s))''))
       (andthen (each (feature_line C) ordered)
       (bnd (if interactive then dl_confirm D ''Apply these actions?'' ''Confirm'' else ret True) (\<lambda>go.
          if \<not> go then andthen (print_out (cl_yellow C @ ''Host configuration cancelled.'' @ cl_reset C)) (ret 0)
          else apply_features H E C ordered vs)))))"

definition host_run :: "host \<Rightarrow> aux_env \<Rightarrow> colors \<Rightarrow> aux_feature dialogs \<Rightarrow> (string \<Rightarrow> string io) \<Rightarrow> (string \<Rightarrow> exn + aux_defaults) \<Rightarrow> path
    \<Rightarrow> aux_manifest \<Rightarrow> scope_choice \<Rightarrow> path option \<Rightarrow> int io" where
  "host_run H E C D input parse_defaults root m choice defaults_path =
     (if dl_tty D \<and> defaults_path = None
      then bnd (select_interactive H E D m choice (e_uid E)) (\<lambda>selected.
           bnd (prompt_args C input selected) (\<lambda>vs. confirm_and_apply H E C D m True selected vs))
      else bnd (load_defaults H parse_defaults root defaults_path) (\<lambda>defaults.
           bnd (lift_sum (select_defaults m defaults choice (e_uid E))) (\<lambda>(selected, vs).
             confirm_and_apply H E C D m False selected vs)))"

definition expected_failure :: "exn \<Rightarrow> bool" where
  "expected_failure e \<longleftrightarrow> (case e of FileNotFoundError s \<Rightarrow> True | _ \<Rightarrow> is_value_error e)"

definition host_main :: "host \<Rightarrow> aux_env \<Rightarrow> colors \<Rightarrow> aux_feature dialogs \<Rightarrow> (string \<Rightarrow> string io) \<Rightarrow> (string \<Rightarrow> exn + aux_manifest)
    \<Rightarrow> (string \<Rightarrow> exn + aux_defaults) \<Rightarrow> path \<Rightarrow> scope_choice \<Rightarrow> path option \<Rightarrow> int io" where
  "host_main H E C D input parse_registry parse_defaults root choice defaults_path =
     finally_do
       (catch expected_failure
         (bnd (load_registry H parse_registry root None) (\<lambda>m. host_run H E C D input parse_defaults root m choice defaults_path))
         (\<lambda>e. andthen (print_err (cl_red C @ ''ERROR:'' @ cl_reset C @ '' '' @ h_str H e)) (ret 1)))
       (restore_host_terminal C)"


section \<open>Facts\<close>

text \<open>What a run with this choice of scopes may send.\<close>

definition choice_allows :: "host \<Rightarrow> scope_choice \<Rightarrow> int \<Rightarrow> request \<Rightarrow> bool" where
  "choice_allows H choice uid r \<longleftrightarrow>
     (case choice of
        AgentOnly \<Rightarrow> scope_allows H AgentScope uid r
      | RootOnly \<Rightarrow> scope_allows H RootScope uid r
      | AllScopes \<Rightarrow> scope_allows H AgentScope uid r \<or> uid = 0 \<and> scope_allows H RootScope uid r)"

lemma allowed_requests: "allowed f choice uid \<Longrightarrow> scope_allows H (f_scope f) uid r \<Longrightarrow> choice_allows H choice uid r"
  by (cases choice; cases "f_scope f") (auto simp: allowed_def choice_allows_def split: if_splits)

lemma default_selection_allowed:
  assumes "well_formed m"
  shows "default_selection m choice uid ds = Inr xs \<Longrightarrow>
    list_all (\<lambda>f. allowed f choice uid \<and> map_of (by_id m) (f_id f) = Some f) (map fst xs)"
proof (induction ds arbitrary: xs)
  case (Cons d rest)
  obtain i s where d: "d = (i, s)" by (cases d)
  have found: "f_id f = i \<and> map_of (by_id m) (f_id f) = Some f" if "map_of (by_id m) i = Some f" for f
    using that assms by (simp add: well_formed_def by_id_distinct map_of_by_id)
  from Cons show ?case unfolding d
    by (cases "map_of (by_id m) i") (auto dest: found split: if_splits sum.splits)
qed simp

lemma emits_run_selected:
  "list_all (\<lambda>f. allowed f choice (e_uid E)) xs \<Longrightarrow> emits (choice_allows H choice (e_uid E)) (run_selected_from H E vs None rs xs)"
proof (induction xs arbitrary: rs)
  case (Cons f xs)
  have "emits (choice_allows H choice (e_uid E)) (run_feature H E f vals None)" for vals
    using emits_run_feature [of H f E None vals] Cons.prems by (auto intro: emits_mono allowed_requests)
  with Cons show ?case by (auto intro!: emits_intros)
qed (simp add: emits_intros)

lemma emits_apply:
  "list_all (\<lambda>f. allowed f choice (e_uid E)) xs \<Longrightarrow> emits (choice_allows H choice (e_uid E)) (apply_features H E C xs vs)"
  unfolding apply_features_def run_selected_def result_line_def by (intro emits_intros emits_run_selected)

text \<open>The order of a selection has only features that were selected.\<close>

lemma ordered_selection:
  assumes "well_formed m" "list_all (\<lambda>f. P f \<and> map_of (by_id m) (f_id f) = Some f) xs" "ordered_features m (f_id ` set xs) = Inr ordered"
  shows "list_all P ordered"
proof -
  have "distinct (map f_id (m_features m))" using assms(1) by (simp add: well_formed_def)
  then have found: "map_of (by_id m) k = Some f \<longleftrightarrow> f \<in> set (m_features m) \<and> f_id f = k" for k f
    by (simp add: by_id_distinct map_of_by_id)
  have "set ordered = {f \<in> set (m_features m). f_id f \<in> f_id ` set xs}"
    using ordered_outcome [OF assms(1), of "f_id ` set xs"] assms(3) by simp
  then show ?thesis
    using assms(2) by (auto simp: list_all_iff) (metis found option.inject)
qed

lemma emits_confirmed:
  assumes "well_formed m" "list_all (\<lambda>f. allowed f choice (e_uid E) \<and> map_of (by_id m) (f_id f) = Some f) xs"
  shows "emits (choice_allows H choice (e_uid E)) (confirm_and_apply H E C D m False xs vs)"
  unfolding confirm_and_apply_def feature_line_def if_False
  by (intro emits_intros emits_lift_bnd emits_apply) (use ordered_selection [OF assms] in auto)

lemma select_defaults_allowed:
  assumes "well_formed m" "select_defaults m defaults choice uid = Inr (xs, vs)"
  shows "list_all (\<lambda>f. allowed f choice uid \<and> map_of (by_id m) (f_id f) = Some f) xs"
  using assms default_selection_allowed [OF assms(1)] by (auto simp: select_defaults_def split: sum.splits)

lemma emits_unattended:
  assumes "well_formed m" "\<not> dl_tty D"
  shows "emits (choice_allows H choice (e_uid E)) (host_run H E C D input pd root m choice p)"
  unfolding host_run_def load_defaults_def Let_def case_prod_beta
  by (use assms in simp) (intro emits_intros emits_lift_bnd emits_confirmed [OF assms(1)]; auto dest: select_defaults_allowed [OF assms(1)])

lemma emits_bnd_result:
  assumes "emits P m" "\<And>a w w'. m w = (Inr a, w') \<Longrightarrow> emits P (f a)"
  shows "emits P (bnd m f)"
  unfolding emits_def
proof
  fix w
  obtain r w' where r: "m w = (r, w')" by (cases "m w")
  show "\<exists>rs. requests (snd (bnd m f w)) = requests w @ rs \<and> list_all P rs"
  proof (cases r)
    case (Inl e)
    then show ?thesis using emitsD [OF assms(1) r] by (simp add: bnd_def r)
  next
    case (Inr a)
    with r have "emits P (f a)" using assms(2) by blast
    from emits_seq [OF assms(1) r this] show ?thesis by (simp add: bnd_def r Inr)
  qed
qed

lemma loaded_registry: "load_registry H pr root p w = (Inr m, w') \<Longrightarrow> well_formed m"
  by (auto simp: load_registry_def Let_def bnd_def asks_def raise_def lift_sum_def ret_def validate_registry_Inr
      split: prod.splits sum.splits if_splits)

lemma emits_load_registry: "emits P (load_registry H pr root p)"
  unfolding load_registry_def by (intro emits_intros)

text \<open>C35: an unattended host configuration keeps to its scope. Whatever the registry, the defaults and the commands do, it
  (without a terminal) sends only commands that the chosen scope allows: with the agent scope none of a root feature, with the root scope none
  unless the effective user is root, and an ordinary user never runs a root feature.\<close>

theorem host_setup_respects_scope:
  "\<exists>rs. requests (snd (host_main H E C (D\<lparr>dl_tty := False\<rparr>) input pr pd root choice p w)) = requests w @ rs \<and>
     list_all (choice_allows H choice (e_uid E)) rs"
proof -
  have "emits (choice_allows H choice (e_uid E)) (host_main H E C (D\<lparr>dl_tty := False\<rparr>) input pr pd root choice p)"
    unfolding host_main_def
    by (rule emits_finally, rule emits_catch, rule emits_bnd_result [OF emits_load_registry], rule emits_unattended)
      (auto intro: loaded_registry intro!: emits_intros)
  then show ?thesis by (simp add: emits_def)
qed

end
