(* ===== verification/Values.thy ===== *)
theory Values
  imports World
begin

text \<open>
  The values that the YAML and JSON readers return, and floating-point numbers. A document is a value of
  \<open>yaml\<close>; a mapping is the list of its entries, a float and any other scalar are kept by their text.
  The readers themselves, and the rounding of floating-point arithmetic, are arguments of the operations that use
  them; comparisons of floats are written out.
\<close>

section \<open>Values of documents\<close>

datatype yaml =
    YNull | YBool bool | YInt int | YFloat string | YStr string | YOther string
  | YList "yaml list" | YMap "(yaml \<times> yaml) list"

fun y_true :: "yaml \<Rightarrow> bool" where
  "y_true YNull \<longleftrightarrow> False"
| "y_true (YBool b) \<longleftrightarrow> b"
| "y_true (YInt i) \<longleftrightarrow> i \<noteq> 0"
| "y_true (YFloat s) \<longleftrightarrow> s \<noteq> ''0.0'' \<and> s \<noteq> ''-0.0''"
| "y_true (YStr s) \<longleftrightarrow> s \<noteq> []"
| "y_true (YOther s) \<longleftrightarrow> True"
| "y_true (YList xs) \<longleftrightarrow> xs \<noteq> []"
| "y_true (YMap kvs) \<longleftrightarrow> kvs \<noteq> []"

fun y_str :: "(yaml \<Rightarrow> string) \<Rightarrow> yaml \<Rightarrow> string" where
  "y_str show YNull = ''None''"
| "y_str show (YBool b) = (if b then ''True'' else ''False'')"
| "y_str show (YInt i) = show_int i"
| "y_str show (YFloat s) = s"
| "y_str show (YStr s) = s"
| "y_str show (YOther s) = s"
| "y_str show v = show v"

type_synonym ymap = "(yaml \<times> yaml) list"

text \<open>\<open>isinstance(v, dict)\<close> and \<open>isinstance(v, list)\<close>; \<open>m.get(k)\<close>; \<open>m[k]\<close>; a loop over a value.\<close>

fun as_map :: "yaml \<Rightarrow> ymap option" where
  "as_map (YMap kvs) = Some kvs"
| "as_map _ = None"

fun as_list :: "yaml \<Rightarrow> yaml list option" where
  "as_list (YList xs) = Some xs"
| "as_list _ = None"

definition y_get :: "ymap \<Rightarrow> string \<Rightarrow> yaml" where
  "y_get m k = (case map_of m (YStr k) of None \<Rightarrow> YNull | Some v \<Rightarrow> v)"

definition y_item :: "(yaml \<Rightarrow> string) \<Rightarrow> ymap \<Rightarrow> string \<Rightarrow> exn + string" where
  "y_item show m k = (case map_of m (YStr k) of None \<Rightarrow> Inl (KeyError k) | Some v \<Rightarrow> Inr (y_str show v))"

text \<open>\<open>str(raw[k]) if raw.get(k) else None\<close>.\<close>

definition y_opt :: "(yaml \<Rightarrow> string) \<Rightarrow> ymap \<Rightarrow> string \<Rightarrow> string option" where
  "y_opt show m k = (if y_true (y_get m k) then Some (y_str show (y_get m k)) else None)"

text \<open>The items of \<open>for x in (v or [])\<close>.\<close>

fun y_iter :: "yaml \<Rightarrow> exn + yaml list" where
  "y_iter (YList xs) = Inr xs"
| "y_iter (YMap kvs) = Inr (map fst kvs)"
| "y_iter (YStr s) = Inr (map (\<lambda>c. YStr [c]) s)"
| "y_iter v = (if y_true v then Inl (TypeError ''object is not iterable'') else Inr [])"

section \<open>Texts\<close>

text \<open>\<open>repr\<close> of a string of single-byte characters.\<close>

definition hex_nibble :: "nat \<Rightarrow> char" where
  "hex_nibble n = (if n < 10 then digit_char n else char_of (87 + n))"

definition repr_char :: "char \<Rightarrow> char \<Rightarrow> string" where
  "repr_char q c =
     (let n = of_char c :: nat in
      if c = q \<or> n = 92 then [CHR 0x5C, c]
      else if n = 9 then [CHR 0x5C, CHR ''t''] else if n = 10 then [CHR 0x5C, CHR ''n''] else if n = 13 then [CHR 0x5C, CHR ''r'']
      else if n < 32 \<or> 127 \<le> n \<and> n \<le> 160 \<or> n = 173
      then [CHR 0x5C, CHR ''x'', hex_nibble (n div 16), hex_nibble (n mod 16)]
      else [c])"

definition py_repr :: "string \<Rightarrow> string" where
  "py_repr s =
     (let q = (if CHR 0x27 \<in> set s \<and> CHR 0x22 \<notin> set s then CHR 0x22 else CHR 0x27)
      in [q] @ concat (map (repr_char q) s) @ [q])"

section \<open>Floats\<close>

text \<open>A float is a finite number \<open>m * 2 ^ e\<close>, an infinity or not a number; every comparison with the last
  one is false.\<close>

datatype pyfloat = NaN | MInf | Fin int int | PInf

fun f_less :: "pyfloat \<Rightarrow> pyfloat \<Rightarrow> bool" where
  "f_less NaN _ \<longleftrightarrow> False"
| "f_less _ NaN \<longleftrightarrow> False"
| "f_less (Fin m e) (Fin n d) \<longleftrightarrow> m * 2 ^ nat (e - min e d) < n * 2 ^ nat (d - min e d)"
| "f_less MInf y \<longleftrightarrow> y \<noteq> MInf"
| "f_less x MInf \<longleftrightarrow> False"
| "f_less x PInf \<longleftrightarrow> x \<noteq> PInf"
| "f_less PInf _ \<longleftrightarrow> False"

text \<open>What the sources use of the built-in conversions, which round and format: \<open>str\<close> of a list or mapping,
  \<open>int(v)\<close> and \<open>float(v)\<close> of a document value, \<open>int(n / x)\<close>, and the text of a float.\<close>

record py_ops =
  py_show :: "yaml \<Rightarrow> string"
  py_to_int :: "yaml \<Rightarrow> exn + int"
  py_to_float :: "yaml \<Rightarrow> exn + pyfloat"
  py_quot :: "int \<Rightarrow> pyfloat \<Rightarrow> exn + int"
  py_ftext :: "pyfloat \<Rightarrow> string"

text \<open>\<open>m.get(k, d)\<close> and the items of \<open>for x in v\<close>.\<close>

definition y_get_or :: "ymap \<Rightarrow> string \<Rightarrow> yaml \<Rightarrow> yaml" where
  "y_get_or m k d = (case map_of m (YStr k) of None \<Rightarrow> d | Some v \<Rightarrow> v)"

fun y_items :: "yaml \<Rightarrow> exn + yaml list" where
  "y_items (YList xs) = Inr xs"
| "y_items (YMap kvs) = Inr (map fst kvs)"
| "y_items (YStr s) = Inr (map (\<lambda>c. YStr [c]) s)"
| "y_items v = Inl (TypeError ''object is not iterable'')"

end
