(* ===== verification/VersionCheck.thy ===== *)
theory VersionCheck
  imports Values "HOL-Library.Product_Lexorder"
begin

text \<open>
  \<open>workspace/scripts/shell/run_check.py\<close>: the health and version check of a registered command, with the
  manifest entries it reads (the typed dictionaries of \<open>shell/extension_registry.py\<close>, a missing key is
  \<open>None\<close>). The pattern that extracts the version is data of a manifest: \<open>search\<close>, an argument, is
  \<open>re.search\<close> with \<open>group(1)\<close> for it.
\<close>

section \<open>Manifest entries\<close>

record check_entry =
  ck_command :: "string list option"
  ck_health_expect :: "string option"
  ck_version_pattern :: "string option"
  ck_timeout :: "int option"

record dep_config =
  dc_name :: "string option"
  dc_type :: "string option"
  dc_path :: "string option"
  dc_container :: "string option"
  dc_required :: "bool option"

text \<open>Keys outside the schema are kept by their names.\<close>

record ext_entry =
  en_name :: "string option"
  en_binary :: "string option"
  en_description :: "string option"
  en_category :: "string option"
  en_features :: "string list option"
  en_banner_priority :: "int option"
  en_hidden :: "bool option"
  en_container :: "string option"
  en_install_hint :: "string option"
  en_min_version :: "string option"
  en_max_version :: "string option"
  en_check :: "check_entry option"
  en_deps :: "dep_config list option"
  en_unknown :: "string list"

text \<open>\<open>entry[key]\<close>, and the truth value of an optional text.\<close>

definition required_key :: "string \<Rightarrow> 'a option \<Rightarrow> exn + 'a" where
  "required_key k x = (case x of None \<Rightarrow> Inl (KeyError k) | Some v \<Rightarrow> Inr v)"

definition given :: "string option \<Rightarrow> bool" where
  "given x \<longleftrightarrow> (case x of None \<Rightarrow> False | Some s \<Rightarrow> s \<noteq> [])"

definition check_empty :: "check_entry option \<Rightarrow> bool" where
  "check_empty c \<longleftrightarrow> (case c of None \<Rightarrow> True
     | Some k \<Rightarrow> ck_command k = None \<and> ck_health_expect k = None \<and> ck_version_pattern k = None \<and> ck_timeout k = None)"

section \<open>Versions\<close>

definition MAX_CHECK_TIMEOUT :: int where "MAX_CHECK_TIMEOUT = 5"

text \<open>\<open>_SEMVER_RE\<close> with \<open>fullmatch\<close>: digits, up to two dotted digit groups, and a suffix of its alphabet.\<close>

definition digits :: "string \<Rightarrow> string \<times> string" where
  "digits s = (takeWhile is_digit s, dropWhile is_digit s)"

fun dotted :: "string \<Rightarrow> string option \<times> string" where
  "dotted [] = (None, [])"
| "dotted (c # s) = (if c = CHR ''.'' \<and> fst (digits s) \<noteq> [] then (Some (fst (digits s)), snd (digits s)) else (None, c # s))"

definition suffix_char :: "char \<Rightarrow> bool" where
  "suffix_char c \<longleftrightarrow> is_digit c \<or> CHR ''A'' \<le> c \<and> c \<le> CHR ''Z'' \<or> CHR ''a'' \<le> c \<and> c \<le> CHR ''z'' \<or> c = CHR ''.'' \<or> c = CHR ''-''"

fun suffix_ok :: "string \<Rightarrow> bool" where
  "suffix_ok [] \<longleftrightarrow> True"
| "suffix_ok (c # s) \<longleftrightarrow> (c = CHR ''-'' \<or> c = CHR ''+'') \<and> s \<noteq> [] \<and> list_all suffix_char s"

definition part_value :: "string option \<Rightarrow> nat" where
  "part_value x = (case x of None \<Rightarrow> 0 | Some d \<Rightarrow> nat_of_digits d)"

definition parse_semver :: "string \<Rightarrow> (nat \<times> nat \<times> nat) option" where
  "parse_semver v =
     (case digits v of (major, r) \<Rightarrow>
      case dotted r of (minor, r) \<Rightarrow>
      case dotted r of (patch, r) \<Rightarrow>
        if v \<noteq> [] \<and> major \<noteq> [] \<and> suffix_ok r then Some (nat_of_digits major, part_value minor, part_value patch) else None)"

definition compare_semver :: "string \<Rightarrow> string \<Rightarrow> int option" where
  "compare_semver a b =
     (case (parse_semver a, parse_semver b) of
        (Some x, Some y) \<Rightarrow> Some (if x < y then -1 else if x > y then 1 else 0)
      | _ \<Rightarrow> None)"

definition constraint_failure_reason :: "string \<Rightarrow> string option \<Rightarrow> string option \<Rightarrow> string option" where
  "constraint_failure_reason version min_version max_version =
     (let above = (if given max_version then
            (case compare_semver version (the max_version) of
               None \<Rightarrow> Some (''unparseable version: '' @ py_repr version)
             | Some c \<Rightarrow> if c > 0 then Some (version @ '' > allowed maxVersion '' @ the max_version) else None)
          else None)
      in if given min_version then
           (case compare_semver version (the min_version) of
              None \<Rightarrow> Some (''unparseable version: '' @ py_repr version)
            | Some c \<Rightarrow> if c < 0 then Some (version @ '' < required minVersion '' @ the min_version) else above)
         else above)"

definition check_version_constraint :: "ext_entry \<Rightarrow> string option \<Rightarrow> string option \<Rightarrow> bool option \<times> string option" where
  "check_version_constraint entry version cause =
     (let min_v = en_min_version entry; max_v = en_max_version entry in
      if \<not> given min_v \<and> \<not> given max_v then (None, None)
      else case version of
        None \<Rightarrow>
          (let bound = (if given min_v then ''>='' @ the min_v else ''<='' @ the max_v) in
           if given cause then (Some False, Some (the cause @ '' (required '' @ bound @ '')''))
           else (Some False, Some (''no version extracted (required '' @ bound @ '')'')))
      | Some v \<Rightarrow>
          (case constraint_failure_reason v min_v max_v of
             Some reason \<Rightarrow> (Some False, Some reason)
           | None \<Rightarrow> (Some True, None)))"

section \<open>Diagnosis\<close>

definition OUTPUT_SNIPPET_CAP :: nat where "OUTPUT_SNIPPET_CAP = 80"

definition first_line_snippet :: "string \<Rightarrow> string" where
  "first_line_snippet output =
     (let stripped = strip output in
      if stripped = [] then [] else take OUTPUT_SNIPPET_CAP (splitlines stripped ! 0))"

definition diagnose_version_failure ::
    "check_entry \<Rightarrow> string option \<Rightarrow> int option \<Rightarrow> string \<Rightarrow> string option \<Rightarrow> string option" where
  "diagnose_version_failure check exc rc output version =
     (if version \<noteq> None \<or> ck_version_pattern check = None then None
      else if given exc then exc
      else case rc of
        Some code \<Rightarrow>
          if code \<noteq> 0 then
            (let snippet = first_line_snippet output in
             if snippet \<noteq> [] then Some (''exit '' @ show_int code @ '', output '' @ py_repr snippet)
             else Some (''exit '' @ show_int code @ '', no output''))
          else Some (''output '' @ py_repr (if first_line_snippet output = [] then ''<empty>'' else first_line_snippet output)
                 @ '' did not match '' @ the (ck_version_pattern check))
      | None \<Rightarrow> Some (''output '' @ py_repr (if first_line_snippet output = [] then ''<empty>'' else first_line_snippet output)
                 @ '' did not match '' @ the (ck_version_pattern check)))"

section \<open>The check\<close>

record check_result =
  hr_healthy :: bool
  hr_version :: "string option"
  hr_version_ok :: "bool option"
  hr_version_reason :: "string option"

record check_record =
  cr_command :: "string list"
  cr_returncode :: "int option"
  cr_stdout :: string
  cr_stderr :: string
  cr_elapsed :: nat
  cr_healthy :: bool
  cr_version :: "string option"
  cr_exception :: "string option"

definition python_path :: "host \<Rightarrow> world \<Rightarrow> path \<Rightarrow> path" where
  "python_path H w root =
     (let venv_py = child (child (child root ''.venv'') ''bin'') ''python'';
          boot_py = child (child (child (child root ''.boot-linux'') ''python-env'') ''bin'') ''python''
      in if p_exists H w venv_py then venv_py else boot_py)"

definition check_command :: "string \<Rightarrow> string \<Rightarrow> string list \<Rightarrow> string list" where
  "check_command binary python cmd =
     map (\<lambda>a. replace_all ''{python}'' python (replace_all ''{binary}'' binary a)) cmd"

text \<open>The outcome of the command: exit code, the two outputs, and the text of the exception that prevented it.\<close>

type_synonym check_outcome = "int option \<times> string \<times> string \<times> string option"

definition run_check_command :: "host \<Rightarrow> string list \<Rightarrow> int \<Rightarrow> check_outcome io" where
  "run_check_command H cmd timeout =
     catch (\<lambda>e. is_subprocess_error e \<or> is_os_error e)
       (bnd (run_checked H (timed_call cmd timeout)) (\<lambda>(so, se). ret (Some 0, so, se, None)))
       (\<lambda>e. case e of
          CalledProcessError rc so se \<Rightarrow> ret (Some rc, so, se, None)
        | TimeoutExpired \<Rightarrow> ret (None, [], [], Some (''TimeoutExpired('' @ show_int timeout @ ''s): '' @ h_str H e))
        | _ \<Rightarrow> ret (None, [], [], Some (''OSError: '' @ h_str H e)))"

definition extracted_version :: "(string \<Rightarrow> string \<Rightarrow> exn + string option) \<Rightarrow> check_entry \<Rightarrow> string option \<Rightarrow> string \<Rightarrow> exn + string option" where
  "extracted_version search check exc output =
     (if exc = None then (case ck_version_pattern check of None \<Rightarrow> Inr None | Some p \<Rightarrow> search p output) else Inr None)"

definition health_ok :: "check_entry \<Rightarrow> string option \<Rightarrow> string \<Rightarrow> bool" where
  "health_ok check exc output =
     (exc = None \<and> (case ck_health_expect check of None \<Rightarrow> True | Some expected \<Rightarrow> sublist expected output))"

definition run_check :: "host \<Rightarrow> (string \<Rightarrow> string \<Rightarrow> exn + string option) \<Rightarrow> ext_entry \<Rightarrow> path \<Rightarrow>
    (check_record \<Rightarrow> unit io) option \<Rightarrow> check_result io" where
  "run_check H search entry root log_hook =
     (if check_empty (en_check entry) then
        (let (v_ok, v_reason) = check_version_constraint entry None None in
         ret \<lparr>hr_healthy = (v_ok \<noteq> Some False), hr_version = None, hr_version_ok = v_ok, hr_version_reason = v_reason\<rparr>)
      else
        (let check = the (en_check entry) in
         bnd (lift_sum (required_key ''binary'' (en_binary entry))) (\<lambda>binary.
         bnd (asks (\<lambda>w. python_path H w root)) (\<lambda>python.
         bnd (lift_sum (required_key ''command'' (ck_command check))) (\<lambda>command.
         let cmd = check_command (path_str (p_sub root binary)) (path_str python) command;
             timeout = min (case ck_timeout check of None \<Rightarrow> MAX_CHECK_TIMEOUT | Some t \<Rightarrow> t) MAX_CHECK_TIMEOUT in
         bnd (asks clock) (\<lambda>start.
         bnd (run_check_command H cmd timeout) (\<lambda>(rc, so, se, exc).
         bnd (asks clock) (\<lambda>now.
         bnd (lift_sum (extracted_version search check exc (so @ se))) (\<lambda>version.
         let (v_ok, v_reason) = check_version_constraint entry version (diagnose_version_failure check exc rc (so @ se) version) in
         andthen (case log_hook of None \<Rightarrow> ret () | Some hook \<Rightarrow>
                    hook \<lparr>cr_command = cmd, cr_returncode = rc, cr_stdout = so, cr_stderr = se, cr_elapsed = now - start,
                          cr_healthy = health_ok check exc (so @ se), cr_version = version, cr_exception = exc\<rparr>)
           (ret \<lparr>hr_healthy = health_ok check exc (so @ se), hr_version = version, hr_version_ok = v_ok,
                 hr_version_reason = v_reason\<rparr>))))))))))"

section \<open>Facts: versions\<close>

lemma digits_show [simp]: "digits (show_nat n @ s) = (show_nat n @ fst (digits s), snd (digits s))"
  using show_nat_digits [of n] by (simp add: digits_def list_all_iff takeWhile_append2 dropWhile_append2)

declare show_nat_nonempty [simp]

lemma suffix_not_digit: "suffix_ok s \<Longrightarrow> digits s = ([], s) \<and> dotted s = (None, s)"
  by (cases s) (auto simp: digits_def is_digit_def)

lemma dotted_show: "dotted (CHR ''.'' # show_nat n @ s) = (Some (show_nat n @ fst (digits s)), snd (digits s))"
  by simp

lemma dot_digits [simp]: "digits (CHR ''.'' # s) = ([], CHR ''.'' # s)"
  by (simp add: digits_def is_digit_def)

lemma nat_of_digits_Nil [simp]: "nat_of_digits (show_nat n @ []) = n"
  by simp

text \<open>A version satisfies a bound when both parse and are in that order; an absent bound is satisfied.\<close>

definition at_least :: "string \<Rightarrow> string option \<Rightarrow> bool" where
  "at_least v lo \<longleftrightarrow> (if given lo then (case (parse_semver (the lo), parse_semver v) of (Some l, Some x) \<Rightarrow> l \<le> x | _ \<Rightarrow> False) else True)"

definition at_most :: "string \<Rightarrow> string option \<Rightarrow> bool" where
  "at_most v hi \<longleftrightarrow> (if given hi then (case (parse_semver v, parse_semver (the hi)) of (Some x, Some h) \<Rightarrow> x \<le> h | _ \<Rightarrow> False) else True)"

lemma compare_semver_sign:
  "compare_semver a b = (case (parse_semver a, parse_semver b) of
     (Some x, Some y) \<Rightarrow> Some (if x < y then -1 else if y < x then 1 else 0) | _ \<Rightarrow> None)"
  by (simp add: compare_semver_def split: option.split)

lemma constraint_reason_None: "constraint_failure_reason v lo hi = None \<longleftrightarrow> at_least v lo \<and> at_most v hi"
  unfolding constraint_failure_reason_def Let_def at_least_def at_most_def compare_semver_sign
  by (auto split: option.splits prod.splits)

lemma constraint_verdict:
  "fst (check_version_constraint entry v cause) =
     (if given (en_min_version entry) \<or> given (en_max_version entry)
      then Some (case v of None \<Rightarrow> False | Some v \<Rightarrow> at_least v (en_min_version entry) \<and> at_most v (en_max_version entry))
      else None)"
  by (auto simp: check_version_constraint_def Let_def simp flip: constraint_reason_None split: option.split)

lemma less_eq_compare: "parse_semver a = Some x \<Longrightarrow> parse_semver b = Some y \<Longrightarrow>
    compare_semver a b = Some (if x < y then -1 else if x = y then 0 else 1)"
  by (auto simp: compare_semver_def)

section \<open>Properties\<close>

text \<open>Versions are read and compared as numbers. A version written as one, two or three numbers, with any
  suffix of a pre-release or a build, is read back as those numbers, missing ones as zero; and two versions of that
  form compare as their triples of numbers do, whatever their suffixes.\<close>

theorem versions_are_read_back:
  assumes "suffix_ok s" "suffix_ok s'"
  shows "parse_semver (show_nat a @ s) = Some (a, 0, 0) \<and>
    parse_semver (show_nat a @ ''.'' @ show_nat b @ s) = Some (a, b, 0) \<and>
    parse_semver (show_nat a @ ''.'' @ show_nat b @ ''.'' @ show_nat c @ s) = Some (a, b, c) \<and>
    compare_semver (show_nat a @ ''.'' @ show_nat b @ ''.'' @ show_nat c @ s) (show_nat d @ ''.'' @ show_nat e @ ''.'' @ show_nat f @ s') =
      Some (if (a, b, c) < (d, e, f) then -1 else if (a, b, c) = (d, e, f) then 0 else 1)"
proof -
  have parse: "parse_semver (show_nat a @ ''.'' @ show_nat b @ ''.'' @ show_nat c @ s) = Some (a, b, c)" if "suffix_ok s" for a b c s
    using that suffix_not_digit [OF that] by (simp add: parse_semver_def part_value_def)
  have "parse_semver (show_nat a @ s) = Some (a, 0, 0)" "parse_semver (show_nat a @ ''.'' @ show_nat b @ s) = Some (a, b, 0)"
    using assms(1) suffix_not_digit [OF assms(1)] by (simp_all add: parse_semver_def part_value_def)
  then show ?thesis using parse assms less_eq_compare by simp
qed

theorem versions_are_read_back_witness:
  "parse_semver (show_nat 1 @ ''.'' @ show_nat 20 @ ''.'' @ show_nat 3 @ ''-rc1'') = Some (1, 20, 3) \<and>
   compare_semver (show_nat 1 @ ''.'' @ show_nat 20 @ ''.'' @ show_nat 3 @ ''-rc1'')
     (show_nat 1 @ ''.'' @ show_nat 3 @ ''.'' @ show_nat 3 @ ''+b'') = Some 1"
proof -
  have s: "suffix_ok ''-rc1''" "suffix_ok ''+b''" by code_simp+
  from versions_are_read_back [OF this, of 1 20 3 1 3 3] show ?thesis by simp
qed

text \<open>The health of a command does not depend on its exit code: a command that fails is healthy unless an expected
  text is missing.\<close>

lemma failing_command_is_healthy:
  "ck_health_expect c = None \<Longrightarrow> health_ok c None output"
  by (simp add: health_ok_def)

end
