(* ===== verification/ExtRegistry.thy ===== *)
theory ExtRegistry
  imports VersionCheck "HOL-Library.AList"
begin

text \<open>
  \<open>workspace/scripts/shell/extension_registry.py\<close> and \<open>version_enforcer.py\<close>: discovery, validation and
  resolution of the command manifests, their grouping, and the enforcement of version bounds. The YAML reader is
  third-party code: \<open>parse\<close> gives the message of its error or the document's \<open>extensions\<close>, if any.
  The text of a set in a message depends on Python's hashing: \<open>show_set\<close> is that text. The cache of the
  container runtime, a list of the module, is passed along as an option.
\<close>

section \<open>Types and constants\<close>

datatype ext_status = READY | ERROR | VERSION_MISMATCH | UNAVAILABLE | HIDDEN

record resolved_extension =
  rx_entry :: ext_entry
  rx_manifest_path :: path
  rx_status :: ext_status
  rx_reason :: string
  rx_version :: "string option"

definition REQUIRED_FIELDS :: "string list" where
  "REQUIRED_FIELDS = [''name'', ''binary'', ''description'', ''category'']"

definition EXCLUDE_DIRS :: "string list" where
  "EXCLUDE_DIRS = [''.git'', ''node_modules'', ''target'', ''.venv'', ''.boot-linux'', ''__pycache__'', ''.mypy_cache'',
     ''.ruff_cache'', ''build'', ''dist'']"

definition MIN_DESC_LEN :: nat where "MIN_DESC_LEN = 5"
definition DEFAULT_BANNER_PRIORITY :: int where "DEFAULT_BANNER_PRIORITY = 500"

definition DEFAULT_CATEGORY_ORDER :: "string list" where
  "DEFAULT_CATEGORY_ORDER = [''core'', ''enterprise'', ''dev'', ''infra'', ''research'', ''docs'', ''agents'']"

section \<open>Discovery\<close>

text \<open>\<open>os.walk\<close> over a tree of directories; \<open>fuel\<close> bounds the depth of the tree.\<close>

definition pruned :: "string \<Rightarrow> bool" where
  "pruned d \<longleftrightarrow> d \<in> set EXCLUDE_DIRS \<or> prefix ''.'' d"

fun walk_manifests :: "nat \<Rightarrow> host \<Rightarrow> world \<Rightarrow> path \<Rightarrow> path list" where
  "walk_manifests 0 H w dir = []"
| "walk_manifests (Suc fuel) H w dir =
     (let names = h_children H w dir;
          dirnames = filter (\<lambda>d. is_dir H w (child dir d) \<and> \<not> pruned d) names;
          filenames = filter (\<lambda>n. \<not> is_dir H w (child dir n)) names
      in (if ''extension.manifest.yaml'' \<in> set filenames then [child dir ''extension.manifest.yaml''] else [])
         @ concat (map (\<lambda>d. walk_manifests fuel H w (child dir d)) dirnames))"

text \<open>Where the visited directories are nested less deeply than the fuel, more fuel changes nothing.\<close>

fun shallower :: "nat \<Rightarrow> host \<Rightarrow> world \<Rightarrow> path \<Rightarrow> bool" where
  "shallower 0 H w dir \<longleftrightarrow> False"
| "shallower (Suc n) H w dir \<longleftrightarrow>
     list_all (\<lambda>d. shallower n H w (child dir d)) (filter (\<lambda>d. is_dir H w (child dir d) \<and> \<not> pruned d) (h_children H w dir))"

lemma walk_manifests_enough:
  "shallower k H w dir \<Longrightarrow> k \<le> n \<Longrightarrow> walk_manifests n H w dir = walk_manifests k H w dir"
proof (induction k arbitrary: dir n)
  case (Suc k)
  from Suc.prems(2) obtain m where n: "n = Suc m" "k \<le> m" by (cases n) simp_all
  have same: "map (\<lambda>d. walk_manifests m H w (child dir d)) ds = map (\<lambda>d. walk_manifests k H w (child dir d)) ds"
    if "list_all (\<lambda>d. shallower k H w (child dir d)) ds" for ds
    using that Suc.IH [OF _ n(2)] by (auto simp: list_all_iff)
  show ?case using same [OF Suc.prems(1) [unfolded shallower.simps]] by (simp only: n(1) walk_manifests.simps Let_def)
qed simp

definition discover_manifests :: "nat \<Rightarrow> host \<Rightarrow> world \<Rightarrow> path \<Rightarrow> path list" where
  "discover_manifests fuel H w root = sort (walk_manifests fuel H w root)"

section \<open>Validation\<close>

definition missing_fields :: "ext_entry \<Rightarrow> string list" where
  "missing_fields e = map fst (filter (\<lambda>(_, v). v = None)
     [(''name'', en_name e), (''binary'', en_binary e), (''description'', en_description e), (''category'', en_category e)])"

text \<open>\<open>_SEMVER_FIELD_RE.match\<close>: the end of the pattern also matches before a final newline.\<close>

definition semver_tail :: "string \<Rightarrow> bool" where
  "semver_tail r \<longleftrightarrow>
     (let body = (if r \<noteq> [] \<and> last r = newline then butlast r else r) in
      case body of [] \<Rightarrow> True | c # s \<Rightarrow> (c = CHR ''-'' \<or> c = CHR ''+'') \<and> s \<noteq> [] \<and> newline \<notin> set s)"

definition is_semver_field :: "string \<Rightarrow> bool" where
  "is_semver_field v \<longleftrightarrow>
     (case digits v of (major, r) \<Rightarrow>
      case dotted r of (minor, r) \<Rightarrow>
      case dotted r of (patch, r) \<Rightarrow> major \<noteq> [] \<and> minor \<noteq> None \<and> patch \<noteq> None \<and> semver_tail r)"

definition has_version_pattern :: "ext_entry \<Rightarrow> bool" where
  "has_version_pattern e \<longleftrightarrow> (case en_check e of None \<Rightarrow> False | Some c \<Rightarrow> given (ck_version_pattern c))"

definition version_field_error :: "string \<Rightarrow> string \<Rightarrow> string option \<Rightarrow> string list" where
  "version_field_error p field x =
     (case x of None \<Rightarrow> []
      | Some v \<Rightarrow> if is_semver_field v then []
                  else [p @ '': '' @ field @ ''='' @ py_repr v @ '' is not a semver (expected MAJOR.MINOR.PATCH[-pre][+build])''])"

definition validate_entry :: "(string list \<Rightarrow> string) \<Rightarrow> ext_entry \<Rightarrow> path \<Rightarrow> string list" where
  "validate_entry show_set entry manifest_path =
     (let p = path_str manifest_path;
          desc = (case en_description entry of None \<Rightarrow> [] | Some d \<Rightarrow> d)
      in (if missing_fields entry \<noteq> [] then [p @ '': missing required fields: '' @ show_set (missing_fields entry)] else [])
       @ (if en_unknown entry \<noteq> [] then [p @ '': unknown fields: '' @ show_set (en_unknown entry)] else [])
       @ (if desc \<noteq> [] \<and> length desc < MIN_DESC_LEN then [p @ '': description too short: '' @ py_repr desc] else [])
       @ (case en_check entry of
            None \<Rightarrow> []
          | Some check \<Rightarrow>
              (let timeout = (case ck_timeout check of None \<Rightarrow> MAX_CHECK_TIMEOUT | Some t \<Rightarrow> t) in
               if timeout > MAX_CHECK_TIMEOUT
               then [p @ '': check timeout '' @ show_int timeout @ ''s exceeds max of '' @ show_int MAX_CHECK_TIMEOUT @ ''s''] else []))
       @ version_field_error p ''minVersion'' (en_min_version entry)
       @ version_field_error p ''maxVersion'' (en_max_version entry)
       @ (if (given (en_min_version entry) \<or> given (en_max_version entry)) \<and> \<not> has_version_pattern entry
          then [p @ '': minVersion/maxVersion requires check.versionPattern to extract the version at runtime''] else []))"

section \<open>Containers and dependencies\<close>

definition get_container_runtime :: "host \<Rightarrow> string option \<Rightarrow> (string option \<times> string option) io" where
  "get_container_runtime H cache =
     (case cache of
        Some r \<Rightarrow> ret (if r = [] then None else Some r, cache)
      | None \<Rightarrow> bnd (asks (\<lambda>w. if given (h_which H w ''podman'') then ''podman''
                                else if given (h_which H w ''docker'') then ''docker'' else [])) (\<lambda>r.
          ret (if r = [] then None else Some r, Some r)))"

definition check_container :: "host \<Rightarrow> string \<Rightarrow> string option \<Rightarrow> (bool \<times> string option) io" where
  "check_container H name cache =
     bnd (get_container_runtime H cache) (\<lambda>(runtime, cache).
       case runtime of
         None \<Rightarrow> ret (False, cache)
       | Some r \<Rightarrow>
           catch (\<lambda>e. is_subprocess_error e \<or> is_os_error e)
             (bnd (run_checked H (timed_call [r, ''ps'', ''--filter'', ''name='' @ name, ''--format'', ''{{.Names}}''] MAX_CHECK_TIMEOUT))
                (\<lambda>(so, se). ret (sublist name so, cache)))
             (\<lambda>e. andthen (update (\<lambda>w. w\<lparr>err := err w @ [''container check for '' @ name @ '' failed: '' @ h_str H e @ nl]\<rparr>))
                (ret (False, cache))))"

definition check_dep :: "host \<Rightarrow> dep_config \<Rightarrow> path \<Rightarrow> string option \<Rightarrow> (bool \<times> string option) io" where
  "check_dep H dep root cache =
     (let dep_type = (case dc_type dep of None \<Rightarrow> [] | Some t \<Rightarrow> t) in
      if dep_type = ''binary'' then
        bnd (lift_sum (required_key ''path'' (dc_path dep))) (\<lambda>p.
        bnd (asks (\<lambda>w. p_exists H w (p_sub root p) \<and> h_executable H (p_sub root p))) (\<lambda>b. ret (b, cache)))
      else if dep_type = ''submodule'' then
        bnd (lift_sum (required_key ''path'' (dc_path dep))) (\<lambda>p.
        bnd (asks (\<lambda>w. is_dir H w (p_sub root p) \<and> h_children H w (p_sub root p) \<noteq> [])) (\<lambda>b. ret (b, cache)))
      else if dep_type = ''container'' then
        bnd (lift_sum (required_key ''name'' (dc_name dep))) (\<lambda>n.
          check_container H (case dc_container dep of None \<Rightarrow> n | Some c \<Rightarrow> c) cache)
      else if dep_type = ''system-package'' then
        bnd (lift_sum (required_key ''name'' (dc_name dep))) (\<lambda>n.
        bnd (asks (\<lambda>w. h_which H w n \<noteq> None)) (\<lambda>b. ret (b, cache)))
      else if dep_type = ''file'' then
        bnd (lift_sum (required_key ''path'' (dc_path dep))) (\<lambda>p.
        bnd (asks (\<lambda>w. p_exists H w (p_sub root p))) (\<lambda>b. ret (b, cache)))
      else ret (False, cache))"

definition dep_required :: "dep_config \<Rightarrow> bool" where
  "dep_required dep = (case dc_required dep of None \<Rightarrow> True | Some r \<Rightarrow> r)"

fun check_deps_from :: "host \<Rightarrow> path \<Rightarrow> string list \<Rightarrow> dep_config list \<Rightarrow> string option \<Rightarrow>
    (ext_status \<times> string \<times> string option) io" where
  "check_deps_from H root reasons [] cache =
     ret (if reasons \<noteq> [] then (ERROR, join ''; '' reasons, cache) else (READY, [], cache))"
| "check_deps_from H root reasons (dep # deps) cache =
     bnd (check_dep H dep root cache) (\<lambda>(present, cache).
       if \<not> present \<and> dep_required dep then
         bnd (lift_sum (required_key ''name'' (dc_name dep))) (\<lambda>n. ret (UNAVAILABLE, ''missing required dep: '' @ n, cache))
       else if \<not> present then
         bnd (lift_sum (required_key ''name'' (dc_name dep))) (\<lambda>n.
           check_deps_from H root (reasons @ [''optional dep missing: '' @ n]) deps cache)
       else check_deps_from H root reasons deps cache)"

definition check_additional_deps :: "host \<Rightarrow> dep_config list \<Rightarrow> path \<Rightarrow> string option \<Rightarrow>
    (ext_status \<times> string \<times> string option) io" where
  "check_additional_deps H deps root cache = check_deps_from H root [] deps cache"

section \<open>Resolution\<close>

definition binary_exists :: "host \<Rightarrow> world \<Rightarrow> path \<Rightarrow> string \<Rightarrow> bool" where
  "binary_exists H w root binary =
     (if suffix ''.py'' binary then is_file H w (p_sub root binary)
      else p_exists H w (p_sub root binary) \<and> h_executable H (p_sub root binary))"

definition resolve_entry :: "host \<Rightarrow> ext_entry \<Rightarrow> path \<Rightarrow> path \<Rightarrow> string option \<Rightarrow> (resolved_extension \<times> string option) io" where
  "resolve_entry H entry manifest_path root cache =
     bnd (lift_sum (required_key ''binary'' (en_binary entry))) (\<lambda>binary.
     bnd (asks (\<lambda>w. binary_exists H w root binary)) (\<lambda>ex.
     if \<not> ex then
       (let reason = ''binary not found: '' @ binary
              @ (if given (en_install_hint entry) then '' (install: '' @ the (en_install_hint entry) @ '')'' else [])
        in ret (\<lparr>rx_entry = entry, rx_manifest_path = manifest_path, rx_status = UNAVAILABLE, rx_reason = reason,
                 rx_version = None\<rparr>, cache))
     else
       bnd (check_additional_deps H (case en_deps entry of None \<Rightarrow> [] | Some ds \<Rightarrow> ds) root cache) (\<lambda>(status, reason, cache).
         ret (\<lparr>rx_entry = entry, rx_manifest_path = manifest_path,
               rx_status = (if en_hidden entry = Some True \<and> status = READY then HIDDEN else status),
               rx_reason = reason, rx_version = None\<rparr>, cache))))"

text \<open>The state of the loop: the names seen with their manifests, the results, and the cache.\<close>

type_synonym resolve_state = "(string \<times> path) list \<times> resolved_extension list \<times> string option"

definition resolve_one :: "host \<Rightarrow> (string list \<Rightarrow> string) \<Rightarrow> path \<Rightarrow> path \<Rightarrow> ext_entry \<Rightarrow> resolve_state \<Rightarrow> resolve_state io" where
  "resolve_one H show_set root manifest_path entry st =
     (case st of (seen, resolved, cache) \<Rightarrow>
      let errors = validate_entry show_set entry manifest_path in
      if errors \<noteq> [] then andthen (each (\<lambda>e. print_err (''ERROR: '' @ e)) errors) (ret st)
      else bnd (lift_sum (required_key ''name'' (en_name entry))) (\<lambda>name.
        case map_of seen name of
          Some first \<Rightarrow>
            andthen (print_err (''ERROR: duplicate extension '' @ sq @ name @ sq @ '' in '' @ path_str manifest_path
                       @ '' (first seen in '' @ path_str first @ ''), skipping'')) (ret st)
        | None \<Rightarrow>
            bnd (resolve_entry H entry manifest_path root cache) (\<lambda>(r, cache).
              ret (AList.update name manifest_path seen, resolved @ [r], cache))))"

fun resolve_entries :: "host \<Rightarrow> (string list \<Rightarrow> string) \<Rightarrow> path \<Rightarrow> path \<Rightarrow> ext_entry list \<Rightarrow> resolve_state \<Rightarrow> resolve_state io" where
  "resolve_entries H show_set root manifest_path [] st = ret st"
| "resolve_entries H show_set root manifest_path (e # es) st =
     bnd (resolve_one H show_set root manifest_path e st) (resolve_entries H show_set root manifest_path es)"

definition parse_manifest :: "host \<Rightarrow> (string \<Rightarrow> string + ext_entry list option) \<Rightarrow> path \<Rightarrow> ext_entry list option io" where
  "parse_manifest H parse manifest_path =
     bnd (read_text H manifest_path) (\<lambda>text.
       case parse text of
         Inl e \<Rightarrow> andthen (print_err (''ERROR: malformed YAML in '' @ path_str manifest_path @ '': '' @ e)) (ret None)
       | Inr entries \<Rightarrow> ret entries)"

fun resolve_manifests :: "host \<Rightarrow> (string \<Rightarrow> string + ext_entry list option) \<Rightarrow> (string list \<Rightarrow> string) \<Rightarrow> path \<Rightarrow> path list \<Rightarrow>
    resolve_state \<Rightarrow> resolve_state io" where
  "resolve_manifests H parse show_set root [] st = ret st"
| "resolve_manifests H parse show_set root (m # ms) st =
     bnd (parse_manifest H parse m) (\<lambda>entries.
       case entries of
         None \<Rightarrow> resolve_manifests H parse show_set root ms st
       | Some es \<Rightarrow> bnd (resolve_entries H show_set root m es st) (resolve_manifests H parse show_set root ms))"

definition resolve_extensions :: "host \<Rightarrow> (string \<Rightarrow> string + ext_entry list option) \<Rightarrow> (string list \<Rightarrow> string) \<Rightarrow> path list \<Rightarrow> path \<Rightarrow>
    string option \<Rightarrow> (resolved_extension list \<times> string option) io" where
  "resolve_extensions H parse show_set manifests root cache =
     bnd (resolve_manifests H parse show_set root manifests ([], [], cache)) (\<lambda>(seen, resolved, cache). ret (resolved, cache))"

section \<open>Categories\<close>

definition category_of :: "resolved_extension \<Rightarrow> string" where
  "category_of x = (case en_category (rx_entry x) of None \<Rightarrow> ''unknown'' | Some c \<Rightarrow> c)"

definition priority_of :: "resolved_extension \<Rightarrow> int" where
  "priority_of x = (case en_banner_priority (rx_entry x) of None \<Rightarrow> DEFAULT_BANNER_PRIORITY | Some p \<Rightarrow> p)"

definition bucket :: "(string \<times> resolved_extension list) list \<Rightarrow> string \<Rightarrow> resolved_extension list" where
  "bucket d k = (case map_of d k of None \<Rightarrow> [] | Some xs \<Rightarrow> xs)"

definition buckets_of :: "resolved_extension list \<Rightarrow> (string \<times> resolved_extension list) list" where
  "buckets_of resolved =
     map (\<lambda>(c, xs). (c, List.sort_key priority_of xs))
       (fold (\<lambda>x d. AList.update (category_of x) (bucket d (category_of x) @ [x]) d) resolved [])"

definition group_by_category :: "resolved_extension list \<Rightarrow> (string \<times> resolved_extension list) list" where
  "group_by_category resolved =
     (let buckets = buckets_of resolved;
          known = filter (\<lambda>c. c \<in> fst ` set buckets) DEFAULT_CATEGORY_ORDER;
          rest = filter (\<lambda>(c, _). c \<notin> set known) buckets
      in map (\<lambda>c. (c, bucket buckets c)) known @ map (\<lambda>c. (c, bucket rest c)) (sort (map fst rest)))"

section \<open>Version enforcement\<close>

definition enforce_one :: "host \<Rightarrow> (string \<Rightarrow> string \<Rightarrow> exn + string option) \<Rightarrow> path \<Rightarrow> resolved_extension \<Rightarrow> resolved_extension io" where
  "enforce_one H search root x =
     (let entry = rx_entry x;
          has_constraint = given (en_min_version entry) \<or> given (en_max_version entry)
      in if \<not> has_constraint \<or> rx_status x \<in> {UNAVAILABLE, HIDDEN} then ret x
         else bnd (run_check H search entry root None) (\<lambda>result.
           if hr_version_ok result = Some False then
             ret (x\<lparr>rx_status := VERSION_MISMATCH,
                    rx_reason := (if given (hr_version_reason result) then the (hr_version_reason result)
                                  else ''version constraint violated''),
                    rx_version := hr_version result\<rparr>)
           else ret (x\<lparr>rx_version := hr_version result\<rparr>)))"

definition enforce_versions :: "host \<Rightarrow> (string \<Rightarrow> string \<Rightarrow> exn + string option) \<Rightarrow> resolved_extension list \<Rightarrow> path \<Rightarrow>
    resolved_extension list io" where
  "enforce_versions H search resolved root = collect (enforce_one H search root) resolved"

section \<open>Facts: validation\<close>

text \<open>A bound that validation accepts and the check cannot read: every version then counts as unparseable.\<close>

lemma accepted_bound_unreadable:
  "is_semver_field ''1.2.3-rc_1'' \<and> parse_semver ''1.2.3-rc_1'' = None \<and>
   constraint_failure_reason ''1.2.4'' (Some ''1.2.3-rc_1'') None = Some (''unparseable version: '' @ py_repr ''1.2.4'')"
  by code_simp

section \<open>Facts: resolution\<close>

definition name_of :: "resolved_extension \<Rightarrow> string option" where
  "name_of r = en_name (rx_entry r)"

text \<open>What the loop keeps: the names seen are those of the results, each once, and every result comes from a
  clean entry of one of the manifests and has not been enforced yet.\<close>

definition resolved_ok :: "(string list \<Rightarrow> string) \<Rightarrow> path set \<Rightarrow> resolve_state \<Rightarrow> bool" where
  "resolved_ok show_set ms st \<longleftrightarrow>
     (case st of (seen, resolved, cache) \<Rightarrow>
        distinct (map name_of resolved) \<and> Some ` dom (map_of seen) = name_of ` set resolved \<and>
        list_all (\<lambda>r. validate_entry show_set (rx_entry r) (rx_manifest_path r) = [] \<and> rx_manifest_path r \<in> ms \<and>
                      rx_version r = None \<and> rx_status r \<noteq> VERSION_MISMATCH) resolved)"

lemma resolved_ok_start: "resolved_ok show_set ms ([], [], cache)"
  by (simp add: resolved_ok_def)

lemma check_deps_status:
  "wp (check_deps_from H root reasons deps cache) (\<lambda>(s, _, _) _. s \<noteq> VERSION_MISMATCH) (\<lambda>_ _. True) w"
proof (induction deps arbitrary: reasons cache w)
  case (Cons dep deps)
  show ?case
    unfolding check_deps_from.simps case_prod_beta
    by (rule after_any) (auto simp: wp_raise wp_ret lift_sum_def intro!: after_any Cons.IH [unfolded case_prod_beta])
qed (simp add: wps)

lemma resolve_entry_result:
  "wp (resolve_entry H entry p root cache)
     (\<lambda>(r, _) _. rx_entry r = entry \<and> rx_manifest_path r = p \<and> rx_version r = None \<and> rx_status r \<noteq> VERSION_MISMATCH) (\<lambda>_ _. True) w"
  unfolding resolve_entry_def check_additional_deps_def
  by (auto simp: wps lift_sum_def required_key_def Let_def split: option.splits intro!: wp_mono [OF check_deps_status])

lemma wp_print_errs: "wp (each (\<lambda>e. print_err (f e)) xs) (\<lambda>_ _. True) E w"
  by (induction xs arbitrary: w) (simp_all add: wps print_err_def)

lemma resolved_ok_step:
  assumes "resolved_ok show_set ms (seen, resolved, cache)" "map_of seen name = None" "name_of r = Some name"
    and "validate_entry show_set (rx_entry r) (rx_manifest_path r) = []" "rx_manifest_path r \<in> ms"
    and "rx_version r = None" "rx_status r \<noteq> VERSION_MISMATCH"
  shows "resolved_ok show_set ms (AList.update name (rx_manifest_path r) seen, resolved @ [r], cache')"
proof -
  have "Some name \<notin> name_of ` set resolved"
    using assms(1,2) unfolding resolved_ok_def by (auto simp flip: ex_in_conv)
  with assms show ?thesis unfolding resolved_ok_def by (auto simp: update_conv')
qed

lemma resolve_one_keeps:
  "resolved_ok show_set ms st \<Longrightarrow> p \<in> ms \<Longrightarrow>
   wp (resolve_one H show_set root p entry st) (\<lambda>st' _. resolved_ok show_set ms st') (\<lambda>_ _. True) w"
  unfolding resolve_one_def
  by (cases st) (auto simp: wps Let_def lift_sum_def required_key_def print_err_def name_of_def split: option.splits
      intro!: wp_mono [OF resolve_entry_result] wp_mono [OF wp_print_errs [unfolded print_err_def]] resolved_ok_step)

lemma resolve_entries_keeps:
  "resolved_ok show_set ms st \<Longrightarrow> p \<in> ms \<Longrightarrow>
   wp (resolve_entries H show_set root p es st) (\<lambda>st' _. resolved_ok show_set ms st') (\<lambda>_ _. True) w"
  by (induction es arbitrary: st w) (auto simp: wps intro: wp_mono [OF resolve_one_keeps])

lemma resolve_manifests_keeps:
  "resolved_ok show_set ms st \<Longrightarrow> set manifests \<subseteq> ms \<Longrightarrow>
   wp (resolve_manifests H parse show_set root manifests st) (\<lambda>st' _. resolved_ok show_set ms st') (\<lambda>_ _. True) w"
proof (induction manifests arbitrary: st w)
  case (Cons m manifests)
  have "wp (case entries of None \<Rightarrow> resolve_manifests H parse show_set root manifests st
      | Some es \<Rightarrow> bnd (resolve_entries H show_set root m es st) (resolve_manifests H parse show_set root manifests))
      (\<lambda>st' _. resolved_ok show_set ms st') (\<lambda>_ _. True) v" for entries v
    using Cons by (auto simp: wps split: option.split intro: wp_mono [OF resolve_entries_keeps])
  then show ?case by (auto intro: after_any)
qed (simp add: wps)

section \<open>Facts: categories\<close>

lemma bucket_update [simp]: "bucket (AList.update k v d) c = (if c = k then v else bucket d c)"
  by (simp add: bucket_def update_conv')

lemma update_keys: "fst ` set (AList.update k v d) = insert k (fst ` set d)"
  by (induction d) auto

lemma buckets_fold:
  fixes d :: "(string \<times> resolved_extension list) list"
  defines "step \<equiv> \<lambda>x d. AList.update (category_of x) (bucket d (category_of x) @ [x]) d"
  shows "bucket (fold step xs d) c = bucket d c @ filter (\<lambda>x. category_of x = c) xs"
    and "fst ` set (fold step xs d) = fst ` set d \<union> category_of ` set xs"
    and "distinct (map fst d) \<Longrightarrow> distinct (map fst (fold step xs d))"
proof -
  show "bucket (fold step xs d) c = bucket d c @ filter (\<lambda>x. category_of x = c) xs"
    by (induction xs arbitrary: d) (auto simp: step_def)
  show "fst ` set (fold step xs d) = fst ` set d \<union> category_of ` set xs"
    by (induction xs arbitrary: d) (auto simp: step_def update_keys)
  show "distinct (map fst d) \<Longrightarrow> distinct (map fst (fold step xs d))"
    by (induction xs arbitrary: d) (auto simp: step_def distinct_update)
qed

lemma bucket_map: "bucket (map (\<lambda>(c, xs). (c, f xs)) d) c = (case map_of d c of None \<Rightarrow> [] | Some xs \<Rightarrow> f xs)"
  by (cases "map_of d c") (simp_all add: bucket_def map_of_map)

lemma buckets_of_facts:
  "bucket (buckets_of xs) c = List.sort_key priority_of (filter (\<lambda>x. category_of x = c) xs)"
  "fst ` set (buckets_of xs) = category_of ` set xs" "distinct (map fst (buckets_of xs))"
proof -
  let ?d = "fold (\<lambda>x d. AList.update (category_of x) (bucket d (category_of x) @ [x]) d) xs []"
  have b: "bucket ?d c = filter (\<lambda>x. category_of x = c) xs" using buckets_fold(1) [of xs "[]" c] by (simp add: bucket_def)
  then show "bucket (buckets_of xs) c = List.sort_key priority_of (filter (\<lambda>x. category_of x = c) xs)"
    unfolding buckets_of_def bucket_map by (cases "map_of ?d c") (simp_all add: bucket_def)
  show "fst ` set (buckets_of xs) = category_of ` set xs"
    using buckets_fold(2) [of xs "[]"] by (simp add: buckets_of_def image_image case_prod_beta)
  show "distinct (map fst (buckets_of xs))"
    using buckets_fold(3) [of "[]" xs] by (simp add: buckets_of_def comp_def case_prod_beta)
qed

lemma bucket_filter: "bucket (filter (\<lambda>(c, _). P c) d) c = (if P c then bucket d c else [])"
  by (induction d) (auto simp: bucket_def)

lemma fst_filter: "fst ` set (filter (\<lambda>(c, _). P c) d) = {c \<in> fst ` set d. P c}"
  by force

lemma sort_distinct: "distinct l \<Longrightarrow> sort l = sorted_list_of_set (set l)"
  by (metis distinct_remdups_id sorted_list_of_set_sort_remdups)

section \<open>Facts: enforcement\<close>

definition constrained :: "ext_entry \<Rightarrow> bool" where
  "constrained e \<longleftrightarrow> given (en_min_version e) \<or> given (en_max_version e)"

definition within_bounds :: "ext_entry \<Rightarrow> string option \<Rightarrow> bool" where
  "within_bounds e version =
     (case version of None \<Rightarrow> False | Some v \<Rightarrow> at_least v (en_min_version e) \<and> at_most v (en_max_version e))"

lemma run_check_verdict:
  "wp (run_check H search entry root None)
     (\<lambda>r _. hr_version_ok r = (if constrained entry then Some (within_bounds entry (hr_version r)) else None)) (\<lambda>_ _. True) w"
proof (cases "check_empty (en_check entry)")
  case True
  then show ?thesis
    by (simp add: run_check_def within_bounds_def constrained_def Let_def case_prod_beta constraint_verdict wps)
next
  case False
  then show ?thesis
    unfolding run_check_def within_bounds_def constrained_def Let_def case_prod_beta if_not_P [OF False]
    by - ((rule after_any)+, simp add: wps constraint_verdict)
qed

text \<open>What enforcement makes of one command.\<close>

definition enforced :: "resolved_extension \<Rightarrow> resolved_extension \<Rightarrow> bool" where
  "enforced x y \<longleftrightarrow> rx_entry y = rx_entry x \<and> rx_manifest_path y = rx_manifest_path x \<and>
     (if \<not> constrained (rx_entry x) \<or> rx_status x \<in> {UNAVAILABLE, HIDDEN} then y = x
      else if within_bounds (rx_entry x) (rx_version y) then rx_status y = rx_status x \<and> rx_reason y = rx_reason x
      else rx_status y = VERSION_MISMATCH)"

lemma enforce_one_result: "wp (enforce_one H search root x) (\<lambda>y _. enforced x y) (\<lambda>_ _. True) w"
  by (auto simp: enforce_one_def Let_def enforced_def constrained_def wps intro!: wp_mono [OF run_check_verdict])

lemma enforce_all_results: "wp (collect (enforce_one H search root) xs) (\<lambda>ys _. list_all2 enforced xs ys) (\<lambda>_ _. True) w"
proof (induction xs arbitrary: w)
  case (Cons x xs)
  show ?case by (auto simp: wps intro!: wp_mono [OF enforce_one_result] wp_mono [OF Cons.IH])
qed (simp add: wps)

section \<open>Properties\<close>

text \<open>A command name is resolved once, from a clean entry. Whatever the manifests contain and the containers answer,
  when resolution returns, no two of its commands have the same name, and every one comes from one of the manifests
  with an entry that validation has nothing to say about.\<close>

theorem resolved_names_are_unique:
  "case fst (resolve_extensions H parse show_set manifests root cache w) of
     Inl _ \<Rightarrow> True
   | Inr (rs, _) \<Rightarrow> distinct (map (\<lambda>r. en_name (rx_entry r)) rs) \<and>
       list_all (\<lambda>r. validate_entry show_set (rx_entry r) (rx_manifest_path r) = [] \<and> rx_manifest_path r \<in> set manifests) rs"
proof -
  have "wp (resolve_extensions H parse show_set manifests root cache)
      (\<lambda>(rs, _) _. distinct (map name_of rs) \<and>
         list_all (\<lambda>r. validate_entry show_set (rx_entry r) (rx_manifest_path r) = [] \<and> rx_manifest_path r \<in> set manifests) rs)
      (\<lambda>_ _. True) w"
    unfolding resolve_extensions_def wp_bnd
    by (rule wp_mono [OF resolve_manifests_keeps [OF resolved_ok_start order.refl]])
      (auto simp: wps resolved_ok_def list_all_iff)
  then show ?thesis
    by (auto simp: wp_def name_of_def [abs_def] split: prod.splits sum.splits)
qed

text \<open>C22: no command with a version out of bounds stays available. Enforcement keeps the list of commands; it leaves
  those without bounds, the unavailable and the hidden ones untouched; and of the others exactly those whose extracted
  version does not parse or is not between the two bounds become a version mismatch.\<close>

theorem version_bounds_enforced:
  "case fst (enforce_versions H search xs root w) of
     Inl _ \<Rightarrow> True
   | Inr ys \<Rightarrow> list_all2 enforced xs ys"
  using enforce_all_results [of H search root xs w]
  by (auto simp: wp_def enforce_versions_def split: prod.splits sum.splits)

text \<open>The categories partition the commands. Grouping through the dictionary of buckets is the same as taking, for
  the known categories that occur in their fixed order and then the others alphabetically, the commands of the category
  in the order of their priorities, those of equal priority in their order of resolution.\<close>

theorem categories_partition_commands:
  "group_by_category xs =
     map (\<lambda>c. (c, List.sort_key priority_of (filter (\<lambda>x. category_of x = c) xs)))
       (filter (\<lambda>c. c \<in> category_of ` set xs) DEFAULT_CATEGORY_ORDER
        @ sorted_list_of_set (category_of ` set xs - set DEFAULT_CATEGORY_ORDER))"
proof -
  let ?known = "filter (\<lambda>c. c \<in> category_of ` set xs) DEFAULT_CATEGORY_ORDER"
  let ?rest = "filter (\<lambda>(c, _). c \<notin> set ?known) (buckets_of xs)"
  have keys: "set (map fst ?rest) = category_of ` set xs - set DEFAULT_CATEGORY_ORDER"
    unfolding set_map fst_filter buckets_of_facts(2) by auto
  have "distinct (map fst ?rest)" using buckets_of_facts(3) by (rule distinct_map_filter)
  then have "sort (map fst ?rest) = sorted_list_of_set (set (map fst ?rest))"
    by (rule sort_distinct)
  then have sort: "sort (map fst ?rest) = sorted_list_of_set (category_of ` set xs - set DEFAULT_CATEGORY_ORDER)"
    by (simp only: keys)
  have "bucket ?rest c = bucket (buckets_of xs) c" if "c \<in> category_of ` set xs - set DEFAULT_CATEGORY_ORDER" for c
    using that by (auto simp: bucket_filter)
  moreover have "set (sorted_list_of_set (category_of ` set xs - set DEFAULT_CATEGORY_ORDER)) =
      category_of ` set xs - set DEFAULT_CATEGORY_ORDER" by simp
  ultimately have "map (\<lambda>c. (c, bucket ?rest c)) (sort (map fst ?rest)) =
      map (\<lambda>c. (c, bucket (buckets_of xs) c)) (sorted_list_of_set (category_of ` set xs - set DEFAULT_CATEGORY_ORDER))"
    unfolding sort by (intro map_cong) auto
  moreover have "group_by_category xs = map (\<lambda>c. (c, bucket (buckets_of xs) c)) ?known @
      map (\<lambda>c. (c, bucket ?rest c)) (sort (map fst ?rest))"
    unfolding group_by_category_def Let_def buckets_of_facts(2) ..
  ultimately show ?thesis unfolding map_append buckets_of_facts(1) by (rule trans [rotated, OF arg_cong])
qed

end
