(* ===== verification/Banner.thy ===== *)
theory Banner
  imports ExtRegistry InstallerUi
begin

text \<open>
  \<open>workspace/scripts/shell/banner_helper.py\<close> and \<open>banner_log.py\<close>: the banner of the registered commands, the two
  listings, and the log that a session of checks keeps only when a check was unhealthy. \<open>banner_env\<close> holds what
  the program takes from outside: the manifest reader and the pattern search, the terminal, the wall clock of the log, and
  \<open>json.dumps\<close>. The thread of a check is run to its end before the frames of its countdown are drawn.
\<close>

section \<open>Styles and categories\<close>

record banner_style =
  bs_color :: "string \<Rightarrow> string"
  bs_dim :: string
  bs_nc :: string
  bs_bold :: string

definition COLORS :: "(string \<times> string) list" where
  "COLORS =
     [(''gold'', ''[38;5;214m''), (''cyan'', ''[0;36m''), (''pink'', ''[38;5;205m''), (''purple'', ''[38;5;99m''),
      (''blue'', ''[0;34m''), (''red'', ''[38;5;203m''), (''green'', ''[0;32m'')]"

text \<open>A name that \<open>_COLORS\<close> lacks is green; \<open>--plain\<close> empties all sequences.\<close>

definition color_named :: "string \<Rightarrow> string" where
  "color_named name = escape # (case map_of COLORS name of Some c \<Rightarrow> c | None \<Rightarrow> the (map_of COLORS ''green''))"

definition ansi_style :: banner_style where
  "ansi_style = \<lparr>bs_color = color_named, bs_dim = escape # ''[2m'', bs_nc = escape # ''[0m'', bs_bold = escape # ''[1m''\<rparr>"

definition plain_style :: banner_style where
  "plain_style = \<lparr>bs_color = (\<lambda>_. []), bs_dim = [], bs_nc = [], bs_bold = []\<rparr>"

text \<open>Title, icon and colour of the known categories.\<close>

definition DEFAULT_CATEGORY_PROPS :: "(string \<times> string \<times> string \<times> string) list" where
  "DEFAULT_CATEGORY_PROPS =
     [(''core'', ''Core Execution & Management'', [CHR 0xF0, CHR 0x9F, CHR 0x9F, CHR 0xA1], ''gold''),
      (''enterprise'', ''Enterprise Services'', [CHR 0xF0, CHR 0x9F, CHR 0x8C, CHR 0x90], ''cyan''),
      (''dev'', ''Development Tools'', [CHR 0xF0, CHR 0x9F, CHR 0x8C, CHR 0xB8], ''pink''),
      (''infra'', ''Infrastructure & Networking'', [CHR 0xF0, CHR 0x9F, CHR 0x94, CHR 0xA7], ''purple''),
      (''research'', ''Research & Documentation'', [CHR 0xF0, CHR 0x9F, CHR 0x93, CHR 0x9A], ''green''),
      (''docs'', ''Document Production'', [CHR 0xF0, CHR 0x9F, CHR 0x93, CHR 0x84], ''blue''),
      (''agents'', ''AI Coding Agents (REQUIRE HUMAN SUPERVISION)'', [CHR 0xF0, CHR 0x9F, CHR 0xA4, CHR 0x96], ''red'')]"

definition UNKNOWN_ICON :: string where
  "UNKNOWN_ICON = [CHR 0xF0, CHR 0x9F, CHR 0x94, CHR 0xB9]"

definition is_letter :: "char \<Rightarrow> bool" where
  "is_letter c \<longleftrightarrow> CHR ''A'' \<le> c \<and> c \<le> CHR ''Z'' \<or> CHR ''a'' \<le> c \<and> c \<le> CHR ''z''"

definition upper_char :: "char \<Rightarrow> char" where
  "upper_char c = (if CHR ''a'' \<le> c \<and> c \<le> CHR ''z'' then char_of ((of_char c :: nat) - 32) else c)"

text \<open>\<open>str.title\<close>: \<open>inside\<close> a word its letters are lowered.\<close>

fun title_case :: "bool \<Rightarrow> string \<Rightarrow> string" where
  "title_case inside [] = []"
| "title_case inside (c # s) = (if inside then lower_char c else upper_char c) # title_case (is_letter c) s"

definition color_for :: "banner_style \<Rightarrow> string \<Rightarrow> string" where
  "color_for S category =
     bs_color S (case map_of DEFAULT_CATEGORY_PROPS category of Some (_, _, color) \<Rightarrow> color | None \<Rightarrow> ''green'')"

definition icon_for :: "string \<Rightarrow> string" where
  "icon_for category = (case map_of DEFAULT_CATEGORY_PROPS category of Some (_, icon, _) \<Rightarrow> icon | None \<Rightarrow> UNKNOWN_ICON)"

definition title_for :: "string \<Rightarrow> string" where
  "title_for category = (case map_of DEFAULT_CATEGORY_PROPS category of Some (title, _, _) \<Rightarrow> title | None \<Rightarrow> title_case False category)"

section \<open>Lines\<close>

definition NAME_PAD :: nat where "NAME_PAD = 20"
definition LINE_BUDGET :: nat where "LINE_BUDGET = 80"
definition FEATURES_PAD :: nat where "FEATURES_PAD = NAME_PAD + 4"
definition STATUS_PAD :: nat where "STATUS_PAD = 18"

definition ellipsis :: string where "ellipsis = [CHR 0xE2, CHR 0x80, CHR 0xA6]"
definition right_arrow :: string where "right_arrow = [CHR 0xE2, CHR 0x86, CHR 0x92]"
definition warning_sign :: string where "warning_sign = [CHR 0xE2, CHR 0x9A, CHR 0xA0]"

text \<open>The first \<open>n\<close> characters of a text.\<close>

fun take_characters :: "nat \<Rightarrow> string \<Rightarrow> string" where
  "take_characters n [] = []"
| "take_characters n (c # s) =
     (if continues c then c # take_characters n s
      else case n of 0 \<Rightarrow> [] | Suc m \<Rightarrow> c # take_characters m s)"

text \<open>The text without its escape sequences, each up to its first letter.\<close>

function without_escapes :: "string \<Rightarrow> string" where
  "without_escapes [] = []"
| "without_escapes (c # s) =
     (if c = escape \<and> s \<noteq> [] \<and> hd s = CHR ''['' then without_escapes (tl (dropWhile (\<lambda>d. \<not> is_letter d) (tl s)))
      else c # without_escapes s)"
  by pat_completeness auto

lemma after_escape_shorter: "length (tl (dropWhile P (tl s))) < Suc (length s)"
  using length_dropWhile_le [of P "tl s"] by simp

termination without_escapes
  by (relation "measure length") (simp_all add: after_escape_shorter del: length_tl)

definition visible_len :: "string \<Rightarrow> nat" where
  "visible_len s = characters (without_escapes s)"

definition truncate_to_fit :: "string \<Rightarrow> nat \<Rightarrow> string" where
  "truncate_to_fit desc suffix_visible =
     (let budget = int LINE_BUDGET - int (4 + NAME_PAD + 2 + 1 + suffix_visible) in
      if budget \<le> 0 \<or> int (characters desc) \<le> budget then desc
      else rstrip (take_characters (nat (max 0 (budget - 1))) desc) @ ellipsis)"

definition ext_description :: "resolved_extension \<Rightarrow> string" where
  "ext_description x = (case en_description (rx_entry x) of None \<Rightarrow> [] | Some d \<Rightarrow> d)"

definition padding :: "nat \<Rightarrow> string \<Rightarrow> string" where
  "padding width name = replicate (max 1 (width - characters name)) (CHR '' '')"

definition format_partial_line :: "banner_style \<Rightarrow> string \<Rightarrow> string \<Rightarrow> string \<Rightarrow> string \<Rightarrow> string" where
  "format_partial_line S name description color mark =
     ''  '' @ color @ ''> '' @ name @ bs_nc S @ padding NAME_PAD name @ right_arrow @ '' ''
     @ truncate_to_fit description (visible_len mark) @ '' '' @ mark"

definition format_features :: "banner_style \<Rightarrow> resolved_extension \<Rightarrow> string option" where
  "format_features S x =
     (case en_features (rx_entry x) of
        None \<Rightarrow> None
      | Some features \<Rightarrow>
          if features = [] then None
          else (let joined = join '', '' features; budget = LINE_BUDGET - FEATURES_PAD;
                    shown = (if budget < characters joined then rstrip (take_characters (budget - 1) joined) @ ellipsis else joined)
                in Some (replicate FEATURES_PAD (CHR '' '') @ bs_dim S @ shown @ bs_nc S)))"

section \<open>The log of a session\<close>

datatype log_record =
    SessionStart string path
  | SessionEnd nat bool
  | Resolved string path ext_status string string string
  | CheckSkipped string string
  | CheckDone string check_record

record banner_env =
  bn_tty :: bool
  bn_timestamp :: "world \<Rightarrow> string"
  bn_dumps :: "world \<Rightarrow> log_record \<Rightarrow> string"
  bn_frames :: "world \<Rightarrow> nat list"
  bn_traceback :: "exn \<Rightarrow> string"
  bn_search :: "string \<Rightarrow> string \<Rightarrow> exn + string option"
  bn_parse :: "string \<Rightarrow> string + ext_entry list option"
  bn_show_set :: "string list \<Rightarrow> string"
  bn_depth :: nat
  bn_file :: path

text \<open>A record is appended to the open file; where the file is gone the descriptor's writes reach no path.\<close>

definition append_to_log :: "host \<Rightarrow> path \<Rightarrow> string \<Rightarrow> unit io" where
  "append_to_log H p s =
     bnd (asks (\<lambda>w. at H w p)) (\<lambda>n.
       case n of Some (File c) \<Rightarrow> write_text H p (content_text H c @ s) | _ \<Rightarrow> ret ())"

definition write_record :: "host \<Rightarrow> banner_env \<Rightarrow> path \<Rightarrow> log_record \<Rightarrow> unit io" where
  "write_record H B p r =
     catch (\<lambda>e. is_os_error e \<or> is_value_error e)
       (bnd (asks (\<lambda>w. bn_dumps B w r)) (\<lambda>line. append_to_log H p (line @ nl)))
       (\<lambda>e. print_err (''[banner-log] write failed: '' @ h_str H e))"

text \<open>The path of the open log, or \<open>None\<close> where it could not be opened.\<close>

definition open_log :: "host \<Rightarrow> banner_env \<Rightarrow> path \<Rightarrow> string \<Rightarrow> path option io" where
  "open_log H B root mode =
     (let logs_dir = child root ''logs'' in
      catch is_os_error
        (andthen (mkdir_parents H logs_dir)
          (bnd (asks (bn_timestamp B)) (\<lambda>stamp.
             let p = child logs_dir (''banner-'' @ mode @ ''-'' @ stamp @ ''.log'') in
             andthen (write_text H p []) (andthen (write_record H B p (SessionStart mode root)) (ret (Some p))))))
        (\<lambda>e. andthen (print_err (''[banner-log] setup failed: '' @ h_str H e)) (ret None)))"

definition log_to :: "host \<Rightarrow> banner_env \<Rightarrow> path option \<Rightarrow> log_record \<Rightarrow> unit io" where
  "log_to H B p r = (case p of None \<Rightarrow> ret () | Some p \<Rightarrow> write_record H B p r)"

definition write_footer :: "banner_env \<Rightarrow> path \<Rightarrow> unit io" where
  "write_footer B p = when_io (bn_tty B) (print_err (escape # ''[2m[banner log: '' @ path_str p @ '']'' @ escape # ''[0m''))"

definition close_log :: "host \<Rightarrow> banner_env \<Rightarrow> path option \<Rightarrow> nat \<Rightarrow> bool \<Rightarrow> unit io" where
  "close_log H B p start had_failure =
     (case p of
        None \<Rightarrow> ret ()
      | Some p \<Rightarrow>
          bnd (asks clock) (\<lambda>now. andthen (write_record H B p (SessionEnd (now - start) had_failure))
            (if had_failure then write_footer B p
             else catch is_os_error (unlink_missing_ok H p)
                    (\<lambda>e. print_err (''[banner-log] failed to remove clean log '' @ path_str p @ '': '' @ h_str H e)))))"

text \<open>The context manager around a body that returns its outcome with the failures it tracked.\<close>

definition banner_log_session :: "host \<Rightarrow> banner_env \<Rightarrow> path \<Rightarrow> string \<Rightarrow> ((log_record \<Rightarrow> unit io) \<Rightarrow> ((exn + 'a) \<times> bool) io) \<Rightarrow> 'a io" where
  "banner_log_session H B root mode body =
     bnd (open_log H B root mode) (\<lambda>p.
     bnd (asks clock) (\<lambda>start.
     bnd (body (log_to H B p)) (\<lambda>(r, had_failure).
       andthen (close_log H B p start had_failure) (lift_sum r))))"

text \<open>The outcome of a computation as its value.\<close>

definition attempt :: "'a io \<Rightarrow> (exn + 'a) io" where
  "attempt m w = (case m w of (r, w') \<Rightarrow> (Inr r, w'))"

definition check_hook :: "(log_record \<Rightarrow> unit io) \<Rightarrow> string \<Rightarrow> check_record \<Rightarrow> unit io" where
  "check_hook log name r = log (CheckDone name r)"

section \<open>Checks\<close>

text \<open>The declared containers that are not running, with the cache of the container runtime.\<close>

fun failed_containers_from :: "host \<Rightarrow> path \<Rightarrow> dep_config list \<Rightarrow> string option \<Rightarrow> (string list \<times> string option) io" where
  "failed_containers_from H root [] cache = ret ([], cache)"
| "failed_containers_from H root (d # deps) cache =
     (if dc_type d \<noteq> Some ''container'' then failed_containers_from H root deps cache
      else bnd (check_dep H d root cache) (\<lambda>(present, cache).
           bnd (failed_containers_from H root deps cache) (\<lambda>(failures, cache).
             ret ((if present then [] else
                     [case dc_container d of Some c \<Rightarrow> c | None \<Rightarrow> (case dc_name d of Some n \<Rightarrow> n | None \<Rightarrow> ''?'')]) @ failures,
                  cache))))"

definition failed_container_deps :: "host \<Rightarrow> resolved_extension \<Rightarrow> path \<Rightarrow> string option \<Rightarrow> (string list \<times> string option) io" where
  "failed_container_deps H x root cache =
     failed_containers_from H root (case en_deps (rx_entry x) of None \<Rightarrow> [] | Some ds \<Rightarrow> ds) cache"

definition two_digits :: "nat \<Rightarrow> string" where
  "two_digits n = replicate (2 - length (show_nat n)) (CHR ''0'') @ show_nat n"

text \<open>A frame of the countdown, from the remaining hundredths of a second.\<close>

definition countdown :: "nat \<Rightarrow> string" where
  "countdown hundredths = ''['' @ two_digits (hundredths div 100) @ '':'' @ two_digits (hundredths mod 100) @ '']''"

definition check_timeout :: "resolved_extension \<Rightarrow> int" where
  "check_timeout x =
     min (case en_check (rx_entry x) of None \<Rightarrow> 5 | Some c \<Rightarrow> (case ck_timeout c of None \<Rightarrow> 5 | Some t \<Rightarrow> t)) 5"

definition no_result :: check_result where
  "no_result = \<lparr>hr_healthy = False, hr_version = None, hr_version_ok = None, hr_version_reason = None\<rparr>"

text \<open>The check in a thread with its countdown. An exception ends the thread without a result, and half a second after
  the timeout the result is not waited for any more. The second component says whether the check reported a failure.\<close>

definition check_with_countdown :: "host \<Rightarrow> banner_env \<Rightarrow> banner_style \<Rightarrow> (log_record \<Rightarrow> unit io) \<Rightarrow> path \<Rightarrow> string \<Rightarrow> string
    \<Rightarrow> resolved_extension \<Rightarrow> (check_result \<times> bool) io" where
  "check_with_countdown H B S log root name color x =
     bnd get_world (\<lambda>w.
     bnd (attempt (run_check H (bn_search B) (rx_entry x) root (Some (check_hook log name)))) (\<lambda>r.
     andthen (each (\<lambda>n. print_out ([CHR 0x0D] @ format_partial_line S name (ext_description x) color (countdown n))) (bn_frames B w))
     (bnd (asks clock) (\<lambda>now.
        case r of
          Inl e \<Rightarrow> andthen (print_err (bn_traceback B e)) (ret (no_result, False))
        | Inr result \<Rightarrow>
            ret (if int (now - clock w) \<le> check_timeout x * int second + int second div 2 then result else no_result,
                 \<not> hr_healthy result)))))"

definition status_suffix :: "banner_style \<Rightarrow> check_result \<Rightarrow> string list \<Rightarrow> string" where
  "status_suffix S r failures =
     (let green = bs_color S ''green''; red = bs_color S ''red''; yellow = bs_color S ''gold'' in
      if hr_version_ok r = Some False
      then yellow @ ''v'' @ (if given (hr_version r) then the (hr_version r) else ''?'') @ '' '' @ warning_sign @ '' ''
           @ (if given (hr_version_reason r) then the (hr_version_reason r) else ''version mismatch'') @ bs_nc S
      else if given (hr_version r) then green @ ''v'' @ the (hr_version r) @ bs_nc S
      else if failures \<noteq> [] then yellow @ warning_sign @ '' container not running: '' @ join '', '' failures @ bs_nc S
      else if hr_healthy r then green @ tick @ bs_nc S
      else red @ cross @ bs_nc S)"

definition not_checked :: check_result where
  "not_checked = \<lparr>hr_healthy = True, hr_version = None, hr_version_ok = None, hr_version_reason = None\<rparr>"

text \<open>What the line of a command reports: the result of its check, or that none was made.\<close>

definition checked_result :: "host \<Rightarrow> banner_env \<Rightarrow> banner_style \<Rightarrow> bool \<Rightarrow> (log_record \<Rightarrow> unit io) \<Rightarrow> path \<Rightarrow> string \<Rightarrow> string
    \<Rightarrow> resolved_extension \<Rightarrow> string list \<Rightarrow> (check_result \<times> bool) io" where
  "checked_result H B S quiet log root name color x failures =
     (if \<not> check_empty (en_check (rx_entry x)) \<and> \<not> quiet \<and> failures = [] then
        (if bn_tty B
         then bnd (check_with_countdown H B S log root name color x) (\<lambda>r.
                andthen (print_out ([CHR 0x0D] @ escape # ''[2K'')) (ret r))
         else bnd (run_check H (bn_search B) (rx_entry x) root (Some (check_hook log name))) (\<lambda>r. ret (r, \<not> hr_healthy r)))
      else andthen (log (CheckSkipped name (if quiet then ''quiet'' else if failures \<noteq> [] then ''container-dep failed'' else ''no check'')))
             (ret (not_checked, False)))"

definition print_extension :: "host \<Rightarrow> banner_env \<Rightarrow> banner_style \<Rightarrow> bool \<Rightarrow> (log_record \<Rightarrow> unit io) \<Rightarrow> path \<Rightarrow> string
    \<Rightarrow> resolved_extension \<Rightarrow> string option \<Rightarrow> (bool \<times> string option) io" where
  "print_extension H B S quiet log root color x cache =
     bnd (failed_container_deps H x root cache) (\<lambda>(failures, cache).
     bnd (lift_sum (required_key ''name'' (en_name (rx_entry x)))) (\<lambda>name.
     bnd (checked_result H B S quiet log root name color x failures) (\<lambda>(r, bad).
     andthen (print_out (format_partial_line S name (ext_description x) color (status_suffix S r failures)))
    (andthen (case format_features S x of None \<Rightarrow> ret () | Some line \<Rightarrow> print_out line)
       (ret (bad, cache))))))"

section \<open>The banner\<close>

definition resolved_record :: "resolved_extension \<Rightarrow> exn + log_record" where
  "resolved_record x =
     sum_map (\<lambda>name. Resolved name (rx_manifest_path x) (rx_status x) (rx_reason x)
         (case en_binary (rx_entry x) of None \<Rightarrow> [] | Some b \<Rightarrow> b) (case en_category (rx_entry x) of None \<Rightarrow> [] | Some c \<Rightarrow> c))
       (required_key ''name'' (en_name (rx_entry x)))"

definition log_resolution_snapshot :: "(log_record \<Rightarrow> unit io) \<Rightarrow> resolved_extension list \<Rightarrow> unit io" where
  "log_resolution_snapshot log resolved = each (\<lambda>x. bnd (lift_sum (resolved_record x)) log) resolved"

definition visible :: "resolved_extension \<Rightarrow> bool" where
  "visible x \<longleftrightarrow> rx_status x \<notin> {UNAVAILABLE, HIDDEN}"

text \<open>The commands of a category; the flag and the cache go from one to the next, and the exception that ends the banner
  keeps the failures tracked before it.\<close>

fun print_extensions :: "host \<Rightarrow> banner_env \<Rightarrow> banner_style \<Rightarrow> bool \<Rightarrow> (log_record \<Rightarrow> unit io) \<Rightarrow> path \<Rightarrow> string
    \<Rightarrow> resolved_extension list \<Rightarrow> bool \<times> string option \<Rightarrow> ((exn + string option) \<times> bool) io" where
  "print_extensions H B S quiet log root color [] (failed, cache) = ret (Inr cache, failed)"
| "print_extensions H B S quiet log root color (x # xs) (failed, cache) =
     bnd (attempt (print_extension H B S quiet log root color x cache)) (\<lambda>r.
       case r of
         Inl e \<Rightarrow> ret (Inl e, failed)
       | Inr (bad, cache) \<Rightarrow>
           andthen (print_out []) (print_extensions H B S quiet log root color xs (failed \<or> bad, cache)))"

fun print_categories :: "host \<Rightarrow> banner_env \<Rightarrow> banner_style \<Rightarrow> bool \<Rightarrow> (log_record \<Rightarrow> unit io) \<Rightarrow> path
    \<Rightarrow> (string \<times> resolved_extension list) list \<Rightarrow> bool \<times> string option \<Rightarrow> ((exn + unit) \<times> bool) io" where
  "print_categories H B S quiet log root [] (failed, cache) = ret (Inr (), failed)"
| "print_categories H B S quiet log root ((cat, xs) # cats) (failed, cache) =
     (if filter visible xs = [] then print_categories H B S quiet log root cats (failed, cache)
      else andthen (print_out (color_for S cat @ icon_for cat @ '' '' @ title_for cat @ '':'' @ bs_nc S))
          (andthen (print_out [])
          (bnd (print_extensions H B S quiet log root (color_for S cat) (filter visible xs) (failed, cache)) (\<lambda>(r, failed).
             case r of
               Inl e \<Rightarrow> ret (Inl e, failed)
             | Inr cache \<Rightarrow> print_categories H B S quiet log root cats (failed, cache)))))"

definition output_banner :: "host \<Rightarrow> banner_env \<Rightarrow> banner_style \<Rightarrow> resolved_extension list \<Rightarrow> path \<Rightarrow> bool \<Rightarrow> string option \<Rightarrow> unit io" where
  "output_banner H B S resolved root quiet cache =
     banner_log_session H B root ''banner'' (\<lambda>log.
       bnd (attempt (log_resolution_snapshot log resolved)) (\<lambda>r.
         case r of
           Inl e \<Rightarrow> ret (Inl e, False)
         | Inr _ \<Rightarrow> print_categories H B S quiet log root (group_by_category resolved) (False, cache)))"

section \<open>The listings\<close>

definition listing_line :: "banner_style \<Rightarrow> (string \<Rightarrow> resolved_extension \<Rightarrow> string) \<Rightarrow> resolved_extension \<Rightarrow> unit io" where
  "listing_line S tail x =
     bnd (lift_sum (required_key ''name'' (en_name (rx_entry x)))) (\<lambda>name.
       print_out (''  '' @ name @ padding STATUS_PAD name @ ext_description x @ tail name x))"

definition listing :: "banner_style \<Rightarrow> string \<Rightarrow> (string \<Rightarrow> resolved_extension \<Rightarrow> string) \<Rightarrow> resolved_extension list \<Rightarrow> unit io" where
  "listing S heading tail xs =
     andthen (print_out (bs_bold S @ heading @ bs_nc S)) (andthen (each (listing_line S tail) xs) (print_out []))"

definition print_hidden :: "banner_style \<Rightarrow> resolved_extension list \<Rightarrow> unit io" where
  "print_hidden S = listing S ''Hidden Extensions:'' (\<lambda>_ _. [])"

definition print_error :: "banner_style \<Rightarrow> resolved_extension list \<Rightarrow> unit io" where
  "print_error S = listing S ''Errored Extensions:''
     (\<lambda>_ x. ''  '' @ bs_color S ''gold'' @ ''ERROR'' @ bs_nc S @ '' ('' @ rx_reason x @ '')'')"

definition print_mismatched :: "banner_style \<Rightarrow> resolved_extension list \<Rightarrow> unit io" where
  "print_mismatched S = listing S ''Version-Mismatched Extensions:''
     (\<lambda>_ x. ''  '' @ bs_color S ''gold'' @ ''VERSION_MISMATCH'' @ bs_nc S @ '' ('' @ rx_reason x @ '')'')"

definition print_unavailable :: "banner_style \<Rightarrow> resolved_extension list \<Rightarrow> unit io" where
  "print_unavailable S = listing S ''Unavailable Extensions:''
     (\<lambda>_ x. ''  '' @ bs_color S ''red'' @ ''UNAVAILABLE'' @ bs_nc S @ '' ('' @ rx_reason x @ '')''
       @ (if given (en_install_hint (rx_entry x)) then '' (install: '' @ the (en_install_hint (rx_entry x)) @ '')'' else []))"

definition with_status :: "ext_status \<Rightarrow> resolved_extension list \<Rightarrow> resolved_extension list" where
  "with_status s = filter (\<lambda>x. rx_status x = s)"

definition output_extras :: "banner_style \<Rightarrow> resolved_extension list \<Rightarrow> unit io" where
  "output_extras S resolved =
     (if with_status HIDDEN resolved \<noteq> [] then print_hidden S (with_status HIDDEN resolved) else print_out ''No hidden extensions.'')"

definition output_doctor :: "host \<Rightarrow> banner_env \<Rightarrow> banner_style \<Rightarrow> resolved_extension list \<Rightarrow> path \<Rightarrow> unit io" where
  "output_doctor H B S resolved root =
     (let errored = with_status ERROR resolved; mismatched = with_status VERSION_MISMATCH resolved;
          unavailable = with_status UNAVAILABLE resolved
      in andthen (banner_log_session H B root ''doctor'' (\<lambda>log.
                    bnd (attempt (log_resolution_snapshot log resolved)) (\<lambda>r. ret (r, False))))
        (andthen (when_io (errored \<noteq> []) (print_error S errored))
        (andthen (when_io (mismatched \<noteq> []) (print_mismatched S mismatched))
        (andthen (when_io (unavailable \<noteq> []) (print_unavailable S unavailable))
           (when_io (errored = [] \<and> mismatched = [] \<and> unavailable = []) (print_out ''No problems detected.''))))))"

section \<open>The program\<close>

fun climb_to_project :: "host \<Rightarrow> world \<Rightarrow> nat \<Rightarrow> path \<Rightarrow> path option" where
  "climb_to_project H w 0 current = None"
| "climb_to_project H w (Suc k) current =
     (if current = parent current then None
      else if p_exists H w (child current ''pyproject.toml'') then Some current
      else climb_to_project H w k (parent current))"

text \<open>\<open>find_workspace_root\<close> of the registry, for the file of the module; its number of parts and one is enough fuel.\<close>

definition registry_root :: "host \<Rightarrow> path \<Rightarrow> path io" where
  "registry_root H this_file =
     (let start = resolve (h_cwd H) this_file;
          search = bnd (asks (\<lambda>w. climb_to_project H w (Suc (length (parts start))) start)) (\<lambda>found.
            case found of None \<Rightarrow> raise (RuntimeError ''Cannot determine WORKSPACE_ROOT'') | Some p \<Rightarrow> ret p)
      in case h_env H ''WORKSPACE_ROOT'' of
           None \<Rightarrow> search | Some r \<Rightarrow> if r \<noteq> [] then ret (mk_path r) else search)"

datatype banner_mode = BannerMode | ExtrasMode | DoctorMode

record banner_args =
  ba_mode :: banner_mode
  ba_quiet :: bool
  ba_plain :: bool

definition banner_main :: "host \<Rightarrow> banner_env \<Rightarrow> banner_args \<Rightarrow> unit io" where
  "banner_main H B a =
     (let S = (if ba_plain a then plain_style else ansi_style);
          quiet = (ba_quiet a \<or> h_env H ''WORKSPACE_QUIET_MODE'' = Some ''1'')
      in bnd (registry_root H (bn_file B)) (\<lambda>root.
         bnd (asks (\<lambda>w. discover_manifests (bn_depth B) H w root)) (\<lambda>manifests.
         bnd (resolve_extensions H (bn_parse B) (bn_show_set B) manifests root None) (\<lambda>(resolved, cache).
         bnd (if ba_mode a = DoctorMode then enforce_versions H (bn_search B) resolved root else ret resolved) (\<lambda>resolved.
           case ba_mode a of
             BannerMode \<Rightarrow> output_banner H B S resolved root quiet cache
           | ExtrasMode \<Rightarrow> output_extras S resolved
           | DoctorMode \<Rightarrow> output_doctor H B S resolved root)))))"

section \<open>What a banner sends\<close>

text \<open>A look at the running containers, and the check of a command with one of the two interpreters.\<close>

fun container_query :: "request \<Rightarrow> bool" where
  "container_query (Run c) \<longleftrightarrow>
     (case c_argv c of [] \<Rightarrow> False | runtime # args \<Rightarrow> take 2 args = [''ps'', ''--filter''] \<and> c_timeout c = Some MAX_CHECK_TIMEOUT)"
| "container_query _ \<longleftrightarrow> False"

definition pythons :: "path \<Rightarrow> path list" where
  "pythons root = [child (child (child root ''.venv'') ''bin'') ''python'',
     child (child (child (child root ''.boot-linux'') ''python-env'') ''bin'') ''python'']"

definition check_call :: "path \<Rightarrow> string \<Rightarrow> check_entry \<Rightarrow> string list \<Rightarrow> path \<Rightarrow> call" where
  "check_call root binary k cmd python =
     timed_call (check_command (path_str (p_sub root binary)) (path_str python) cmd)
       (min (case ck_timeout k of None \<Rightarrow> MAX_CHECK_TIMEOUT | Some t \<Rightarrow> t) MAX_CHECK_TIMEOUT)"

definition check_request :: "path \<Rightarrow> resolved_extension \<Rightarrow> request \<Rightarrow> bool" where
  "check_request root x r \<longleftrightarrow>
     (case (en_binary (rx_entry x), en_check (rx_entry x)) of
        (Some binary, Some k) \<Rightarrow>
          (case ck_command k of None \<Rightarrow> False | Some cmd \<Rightarrow> list_ex (\<lambda>py. r = Run (check_call root binary k cmd py)) (pythons root))
      | _ \<Rightarrow> False)"

definition banner_sends :: "path \<Rightarrow> bool \<Rightarrow> resolved_extension list \<Rightarrow> request \<Rightarrow> bool" where
  "banner_sends root quiet resolved r \<longleftrightarrow>
     container_query r \<or> (if quiet then False else list_ex (\<lambda>x. visible x \<and> check_request root x r) resolved)"

lemma emits_attempt [emits_intros]: "emits P m \<Longrightarrow> emits P (attempt m)"
  by (simp add: emits_def attempt_def case_prod_beta)

lemma emits_asks_bnd: "(\<And>w. emits P (f (g w))) \<Longrightarrow> emits P (bnd (asks g) f)"
  by (simp add: emits_def bnd_def asks_def)

lemma emits_append_to_log [emits_intros]: "emits P (append_to_log H p s)"
  unfolding append_to_log_def by (rule emits_bnd) (auto split: option.split node.split intro: emits_simple)

lemma emits_write_record [emits_intros]: "emits P (write_record H B p r)"
  unfolding write_record_def by (intro emits_intros)

lemma emits_log_to [emits_intros]: "emits P (log_to H B p r)"
  unfolding log_to_def by (intro emits_intros)

lemma emits_session:
  assumes "\<And>log. (\<And>r. emits P (log r)) \<Longrightarrow> emits P (body log)"
  shows "emits P (banner_log_session H B root mode body)"
  unfolding banner_log_session_def open_log_def close_log_def write_footer_def
  by (intro emits_intros assms)

lemma emits_update: "(\<And>w. requests (f w) = requests w) \<Longrightarrow> emits P (update f)"
  by (simp add: emits_def update_def)

lemma emits_check_dep [emits_intros]: "(\<And>r. container_query r \<Longrightarrow> P r) \<Longrightarrow> emits P (check_dep H d root cache)"
  unfolding check_dep_def check_container_def get_container_runtime_def
  by (intro emits_intros emits_update) (auto simp: timed_call_def)

lemma emits_failed_containers [emits_intros]:
  assumes "\<And>r. container_query r \<Longrightarrow> P r"
  shows "emits P (failed_containers_from H root deps cache)"
proof (induction deps arbitrary: cache)
  case (Cons d deps)
  show ?case unfolding failed_containers_from.simps by (intro emits_intros Cons.IH) (use assms in auto)
qed (simp add: emits_simple)

lemma python_path_known: "python_path H w root \<in> set (pythons root)"
  by (simp add: python_path_def pythons_def Let_def)

lemma emits_run_check:
  assumes hook: "\<And>r. emits P (hook r)"
    and command: "\<And>r. check_request root x r \<Longrightarrow> P r"
  shows "emits P (run_check H search (rx_entry x) root (Some hook))"
proof -
  have call: "P (Run (timed_call (check_command (path_str (p_sub root binary)) (path_str (python_path H w root)) cmd)
      (min (case ck_timeout (the (en_check (rx_entry x))) of None \<Rightarrow> MAX_CHECK_TIMEOUT | Some t \<Rightarrow> t) MAX_CHECK_TIMEOUT)))"
    if "required_key ''binary'' (en_binary (rx_entry x)) = Inr binary"
      "required_key ''command'' (ck_command (the (en_check (rx_entry x)))) = Inr cmd"
      "\<not> check_empty (en_check (rx_entry x))" for w binary cmd
    using that python_path_known [of H w root] unfolding list_ex_iff
    by (intro command) (auto simp: check_request_def check_call_def required_key_def check_empty_def list_ex_iff split: option.splits)
  have sent: "emits P (run_check_command H c t)" if "P (Run (timed_call c t))" for c t
    unfolding run_check_command_def
  proof (rule emits_catch)
    show "emits P (bnd (run_checked H (timed_call c t)) (\<lambda>(so, se). ret (Some 0, so, se, None)))"
      using that by (intro emits_intros)
  qed (auto split: exn.split intro: emits_simple)
  show ?thesis
    unfolding run_check_def Let_def case_prod_beta
    apply (rule emits_if, rule emits_simple)
    apply (rule emits_lift_bnd, rule emits_asks_bnd, rule emits_lift_bnd)
    apply (rule emits_bnd, rule emits_simple)
    apply (rule emits_bnd, rule sent, erule (2) call)
    apply (intro emits_intros)
    apply (use hook in auto)
    done
qed

lemma emits_checked_result:
  assumes "\<And>r. emits P (log r)" "\<And>r. quiet = False \<Longrightarrow> check_request root x r \<Longrightarrow> P r"
  shows "emits P (checked_result H B S quiet log root name color x failures)"
  unfolding checked_result_def check_with_countdown_def check_hook_def
  by (intro emits_intros emits_run_check assms(1)) (use assms in auto)

lemma emits_print_extension:
  assumes "\<And>r. emits P (log r)" "\<And>r. container_query r \<Longrightarrow> P r" "\<And>r. quiet = False \<Longrightarrow> check_request root x r \<Longrightarrow> P r"
  shows "emits P (print_extension H B S quiet log root color x cache)"
  unfolding print_extension_def failed_container_deps_def
  by (intro emits_intros emits_checked_result assms(1)) (use assms in auto)

lemma emits_print_extensions:
  assumes "\<And>r. emits P (log r)" "\<And>r. container_query r \<Longrightarrow> P r"
    "\<forall>x \<in> set xs. \<forall>r. quiet = False \<longrightarrow> check_request root x r \<longrightarrow> P r"
  shows "emits P (print_extensions H B S quiet log root color xs (failed, cache))"
  using assms(3)
proof (induction xs arbitrary: failed cache)
  case (Cons x xs)
  have one: "emits P (print_extension H B S quiet log root color x cache)" for cache
    by (rule emits_print_extension [OF assms(1)]) (use assms(2) Cons.prems in simp_all)
  have more: "emits P (print_extensions H B S quiet log root color xs (f, c))" for f c
    by (rule Cons.IH) (use Cons.prems in simp)
  show ?case unfolding print_extensions.simps by (intro emits_intros one more)
qed (simp add: emits_simple)

lemma emits_print_categories:
  assumes "\<And>r. emits P (log r)" "\<And>r. container_query r \<Longrightarrow> P r"
    "\<forall>(c, xs) \<in> set cats. \<forall>x \<in> set xs. visible x \<longrightarrow> (\<forall>r. quiet = False \<longrightarrow> check_request root x r \<longrightarrow> P r)"
  shows "emits P (print_categories H B S quiet log root cats (failed, cache))"
  using assms(3)
proof (induction cats arbitrary: failed cache)
  case (Cons cat cats)
  obtain c xs where cat: "cat = (c, xs)" by (cases cat)
  have one: "emits P (print_extensions H B S quiet log root color (filter visible xs) (f, cache))" for color f cache
    by (rule emits_print_extensions [OF assms(1)]) (use assms(2) Cons.prems cat in auto)
  have more: "emits P (print_categories H B S quiet log root cats (f, cache))" for f cache
    by (rule Cons.IH) (use Cons.prems in simp)
  show ?case unfolding cat print_categories.simps by (intro emits_intros one more)
qed (simp add: emits_simple)

lemma grouped_commands: "(c, xs) \<in> set (group_by_category resolved) \<Longrightarrow> x \<in> set xs \<Longrightarrow> x \<in> set resolved"
  unfolding categories_partition_commands by auto

text \<open>C39: a banner only looks and checks. Whatever the manifests and the answers, the requests of a banner are looks at the
  running containers and, unless it is quiet, the declared checks of its visible commands, each with an interpreter of the
  workspace and at most five seconds.\<close>

theorem banner_only_checks:
  "emits (banner_sends root quiet resolved) (output_banner H B S resolved root quiet cache)"
  unfolding output_banner_def log_resolution_snapshot_def
  by (intro emits_session emits_intros emits_print_categories)
    (auto simp: banner_sends_def list_ex_iff dest: grouped_commands)

section \<open>Width of a line\<close>

lemma characters_append [simp]: "characters (a @ b) = characters a + characters b"
  by (simp add: characters_def)

lemma characters_take: "characters (take_characters n s) \<le> n"
  by (induction n s rule: take_characters.induct) (auto simp: characters_def split: nat.split)

lemma characters_rstrip: "characters (rstrip s) \<le> characters s"
proof -
  have "characters (rev (strip_left t)) \<le> characters (rev t)" for t
    by (induction t) (auto simp: characters_def)
  from this [of "rev s"] show ?thesis by (simp add: rstrip_def)
qed

text \<open>The description and what follows it fit into the columns that the name leaves, as long as what follows is short.\<close>

lemma description_fits:
  assumes "n < 53"
  shows "characters (truncate_to_fit d n) \<le> 53 - n"
proof (cases "characters d \<le> 53 - n")
  case False
  have "characters ellipsis = 1" by (simp add: characters_def ellipsis_def continues_def)
  moreover have "characters (rstrip (take_characters (52 - n) d)) \<le> 52 - n"
    using characters_rstrip [of "take_characters (52 - n) d"] characters_take [of "52 - n" d] by simp
  moreover have "truncate_to_fit d n = rstrip (take_characters (52 - n) d) @ ellipsis"
  proof -
    have "\<not> int (characters d) \<le> 53 - int n" "nat (max 0 (53 - int n - 1)) = 52 - n" using assms False by linarith+
    then show ?thesis using assms by (simp add: truncate_to_fit_def LINE_BUDGET_def NAME_PAD_def Let_def)
  qed
  ultimately show ?thesis using assms by simp
next
  case True
  then have "int (characters d) \<le> 53 - int n" using assms by linarith
  then have "truncate_to_fit d n = d" by (simp add: truncate_to_fit_def LINE_BUDGET_def NAME_PAD_def Let_def)
  with True show ?thesis by simp
qed

text \<open>With a longer one, such as the reason of a version mismatch, the description is not shortened at all.\<close>

lemma long_suffix_keeps_description: "53 \<le> n \<Longrightarrow> truncate_to_fit d n = d"
  by (simp add: truncate_to_fit_def LINE_BUDGET_def NAME_PAD_def)

end
