(* ===== verification/Registration.thy ===== *)
theory Registration
  imports Banner
begin

text \<open>
  \<open>workspace/scripts/register_extensions.py\<close>: the registered commands become links and wrappers in the boot directory, and
  stale interpreters in installed scripts are replaced. Links, ownership, the executable bit and the account database are the record
  \<open>link_ops\<close>.
\<close>

record link_ops =
  lo_symlink :: "path \<Rightarrow> path \<Rightarrow> unit io"
  lo_chown :: "path \<Rightarrow> nat \<times> nat \<Rightarrow> unit io"
  lo_make_executable :: "path \<Rightarrow> unit io"
  lo_account :: "string \<Rightarrow> (nat \<times> nat) option"

definition maybe_chown :: "host \<Rightarrow> link_ops \<Rightarrow> path \<Rightarrow> unit io" where
  "maybe_chown H L p =
     (case h_env H ''SUDO_USER'' of
        None \<Rightarrow> ret ()
      | Some user \<Rightarrow>
          if user = [] then ret ()
          else case lo_account L user of
            None \<Rightarrow> print_err (''Warning: SUDO_USER='' @ py_repr user @ '' not found, skipping chown'' @ nl)
          | Some ids \<Rightarrow>
              catch is_os_error (lo_chown L p ids)
                (\<lambda>e. print_err (''Warning: chown '' @ path_str p @ '' to '' @ user @ '' failed: '' @ h_str H e @ nl)))"

definition wrapper_text :: "path \<Rightarrow> string \<Rightarrow> string" where
  "wrapper_text root script =
     unlines [''#!/usr/bin/env bash'',
       ''exec '' @ dq @ path_str root @ ''/workspace/scripts/bin/run'' @ dq @ '' '' @ dq @ path_str root @ ''/'' @ script @ dq
         @ '' '' @ dq @ ''$@'' @ dq]"

definition create_wrapper :: "host \<Rightarrow> link_ops \<Rightarrow> path \<Rightarrow> path \<Rightarrow> string \<Rightarrow> unit io" where
  "create_wrapper H L p root script =
     andthen (unlink_missing_ok H p)
    (andthen (write_text H p (wrapper_text root script))
    (andthen (lo_make_executable L p) (maybe_chown H L p)))"

definition create_symlink :: "host \<Rightarrow> link_ops \<Rightarrow> path \<Rightarrow> path \<Rightarrow> unit io" where
  "create_symlink H L link_path target =
     andthen (unlink_missing_ok H link_path) (andthen (lo_symlink L link_path target) (maybe_chown H L link_path))"

section \<open>Stale interpreters\<close>

definition missing_absolute_python :: "host \<Rightarrow> world \<Rightarrow> string \<Rightarrow> bool" where
  "missing_absolute_python H w p \<longleftrightarrow> prefix ''/'' p \<and> \<not> p_exists H w (mk_path p)"

definition quote :: char where "quote = CHR 0x22"

definition unquoted :: "string \<Rightarrow> string" where
  "unquoted s = takeWhile (\<lambda>c. c \<noteq> quote) s"

definition python_text :: "string \<Rightarrow> bool" where
  "python_text p \<longleftrightarrow> suffix ''/python'' p \<or> suffix ''/python3'' p"

text \<open>\<open>re.sub\<close> of \<open>"([^"]*?/python3?)"\<close>: a quoted text that ends as an interpreter is replaced where it is stale.\<close>

function requote :: "(string \<Rightarrow> bool) \<Rightarrow> string \<Rightarrow> string \<Rightarrow> string" where
  "requote stale new [] = []"
| "requote stale new (c # s) =
     (if c = quote \<and> quote \<in> set s \<and> python_text (unquoted s)
      then quote # (if stale (unquoted s) then new else unquoted s) @ quote # requote stale new (tl (dropWhile (\<lambda>c. c \<noteq> quote) s))
      else c # requote stale new s)"
  by pat_completeness auto

lemma after_quote_shorter: "length (tl (dropWhile P s)) < Suc (length s)"
  using length_dropWhile_le [of P s] by simp

termination requote
  by (relation "measure (\<lambda>(stale, new, s). length s)") (simp_all add: after_quote_shorter del: length_tl)

definition fix_line :: "(string \<Rightarrow> bool) \<Rightarrow> string \<Rightarrow> string \<Rightarrow> string" where
  "fix_line stale new line = (if sublist ''/python'' line then requote stale new line else line)"

text \<open>The first line is the shebang; a portable one is left alone. The flag says whether it was stale.\<close>

definition fix_shebang :: "(string \<Rightarrow> bool) \<Rightarrow> string \<Rightarrow> string \<Rightarrow> string \<times> bool" where
  "fix_shebang stale new line =
     (let p = strip (drop 2 line) in
      if prefix ''#!'' line \<and> sublist ''/python'' line \<and> \<not> sublist ''/env '' p \<and> stale p then (''#!'' @ new, True) else (line, False))"

definition fix_lines :: "(string \<Rightarrow> bool) \<Rightarrow> string \<Rightarrow> string \<Rightarrow> string list \<Rightarrow> string list \<times> bool" where
  "fix_lines stale python3 python ls =
     (let (first, stale_first) = fix_shebang stale python3 (hd ls); rest = map (fix_line stale python) (tl ls)
      in (first # rest, stale_first \<or> rest \<noteq> tl ls))"

definition venv_python :: "path \<Rightarrow> string \<Rightarrow> string" where
  "venv_python root name = path_str (child (child (child root ''.venv'') ''bin'') name)"

definition fix_stale_shebang :: "host \<Rightarrow> path \<Rightarrow> path \<Rightarrow> unit io" where
  "fix_stale_shebang H binary root =
     bnd (asks (\<lambda>w. is_file H w binary)) (\<lambda>there.
       if \<not> there then ret ()
       else bnd (catch (\<lambda>e. is_os_error e \<or> is_value_error e) (bnd (read_text H binary) (\<lambda>s. ret (Some s)))
                  (\<lambda>e. andthen (print_err (''Warning: cannot read '' @ path_name binary @ '', skipping shebang fix'' @ nl)) (ret None)))
         (\<lambda>content. case content of
            None \<Rightarrow> ret ()
          | Some s \<Rightarrow>
              bnd (asks (missing_absolute_python H)) (\<lambda>stale.
                let (ls, changed) = fix_lines stale (venv_python root ''python3'') (venv_python root ''python'') (split_on newline s) in
                when_io changed
                  (andthen (write_text H binary (join nl ls))
                     (print_out (''  '' @ tick @ '' Fixed stale shebang in '' @ path_name binary))))))"

section \<open>Registration\<close>

definition register_one :: "host \<Rightarrow> link_ops \<Rightarrow> resolved_extension \<Rightarrow> path \<Rightarrow> path \<Rightarrow> unit io" where
  "register_one H L x bin_dir root =
     bnd (lift_sum (required_key ''name'' (en_name (rx_entry x)))) (\<lambda>name.
     bnd (lift_sum (required_key ''binary'' (en_binary (rx_entry x)))) (\<lambda>binary.
       let target_path = p_sub bin_dir name; source_path = p_sub root binary in
       if source_path = target_path
       then print_out (''  '' @ tick @ '' '' @ name @ '' '' @ right_arrow @ '' '' @ binary @ '' (self, skip)'')
       else if suffix ''.py'' binary
       then andthen (create_wrapper H L target_path root binary)
              (print_out (''  '' @ tick @ '' '' @ name @ '' '' @ right_arrow @ '' wrapper('' @ binary @ '')''))
       else andthen (fix_stale_shebang H source_path root)
           (andthen (create_symlink H L target_path source_path)
              (print_out (''  '' @ tick @ '' '' @ name @ '' '' @ right_arrow @ '' '' @ binary)))))"

text \<open>The loop: a command that is unavailable or of a wrong version is skipped, the latter with its reason.\<close>

definition register_or_skip :: "host \<Rightarrow> link_ops \<Rightarrow> path \<Rightarrow> path \<Rightarrow> resolved_extension \<Rightarrow> unit io" where
  "register_or_skip H L bin_dir root x =
     (if rx_status x = UNAVAILABLE then ret ()
      else if rx_status x = VERSION_MISMATCH
      then bnd (lift_sum (required_key ''name'' (en_name (rx_entry x)))) (\<lambda>name.
             print_out (''  '' @ warning_sign @ '' '' @ name @ '' skipped: '' @ rx_reason x))
      else register_one H L x bin_dir root)"

definition print_registered :: "path \<Rightarrow> resolved_extension list \<Rightarrow> unit io" where
  "print_registered bin_dir resolved =
     (let unavailable = length (with_status UNAVAILABLE resolved); mismatched = length (with_status VERSION_MISMATCH resolved);
          registered = length resolved - unavailable - mismatched
      in andthen (print_out (nl @ [CHR 0xE2, CHR 0x9C, CHR 0x85] @ '' Registered '' @ show_nat registered @ '' commands in '' @ path_str bin_dir))
        (andthen (when_io (unavailable \<noteq> 0) (print_out (''   Skipped '' @ show_nat unavailable @ '' unavailable extensions'')))
           (when_io (mismatched \<noteq> 0) (print_out (''   Skipped '' @ show_nat mismatched @ '' version-mismatched extensions'')))))"

definition register_extensions :: "host \<Rightarrow> banner_env \<Rightarrow> link_ops \<Rightarrow> unit io" where
  "register_extensions H B L =
     bnd (registry_root H (bn_file B)) (\<lambda>root.
       let bin_dir = child (child root (if h_system H = ''Darwin'' then ''.boot-macos'' else ''.boot-linux'')) ''bin'' in
       andthen (mkdir_parents H bin_dir)
      (andthen (maybe_chown H L bin_dir)
      (bnd (asks (\<lambda>w. discover_manifests (bn_depth B) H w root)) (\<lambda>manifests.
         if manifests = [] then print_out ''[WARN] No extension.manifest.yaml files found.''
         else bnd (resolve_extensions H (bn_parse B) (bn_show_set B) manifests root None) (\<lambda>(found, _).
              bnd (enforce_versions H (bn_search B) found root) (\<lambda>resolved.
              andthen (print_out ([CHR 0xF0, CHR 0x9F, CHR 0x94, CHR 0x97] @ '' Creating extension symlinks/wrappers...''))
             (andthen (each (register_or_skip H L bin_dir root) resolved)
                (print_registered bin_dir resolved))))))))"

section \<open>The replacement settles\<close>

lemma unquoted_requote: "unquoted (requote stale new s) = unquoted s"
  by (induction stale new s rule: requote.induct) (simp_all add: unquoted_def)

lemma quotes_requote: "quote \<in> set (requote stale new s) \<longleftrightarrow> quote \<in> set s"
  by (induction stale new s rule: requote.induct) auto

lemma requote_quoted:
  assumes "quote \<notin> set p" "python_text p" "\<not> stale p"
  shows "requote stale new (quote # p @ quote # s) = quote # p @ quote # requote stale new s"
proof -
  have "takeWhile (\<lambda>c. c \<noteq> quote) (p @ quote # s) = p" "dropWhile (\<lambda>c. c \<noteq> quote) (p @ quote # s) = quote # s"
    using assms(1) by (induction p) auto
  then show ?thesis using assms by (simp add: unquoted_def)
qed

lemma quote_not_unquoted: "quote \<notin> set (unquoted s)"
  by (auto simp: unquoted_def dest: set_takeWhileD)

lemma requote_idem:
  assumes "quote \<notin> set new" "python_text new" "\<not> stale new"
  shows "requote stale new (requote stale new s) = requote stale new s"
  using assms
proof (induction stale new s rule: requote.induct)
  case (2 stale new c s)
  show ?case
  proof (cases "c = quote \<and> quote \<in> set s \<and> python_text (unquoted s)")
    case True
    let ?p = "if stale (unquoted s) then new else unquoted s"
    have p: "quote \<notin> set ?p" "python_text ?p" "\<not> stale ?p" using True "2.prems" quote_not_unquoted by auto
    define R where "R = requote stale new (tl (dropWhile (\<lambda>c. c \<noteq> quote) s))"
    have once: "requote stale new (c # s) = quote # ?p @ quote # R"
      unfolding requote.simps if_P [OF True] R_def ..
    have "requote stale new (requote stale new (c # s)) = quote # ?p @ quote # requote stale new R"
      unfolding once by (rule requote_quoted [where stale = stale, OF p])
    also have "requote stale new R = R" using "2.IH"(1) [OF True "2.prems"] by (simp only: R_def)
    finally show ?thesis by (simp only: once)
  next
    case False
    then have "\<not> (c = quote \<and> quote \<in> set (requote stale new s) \<and> python_text (unquoted (requote stale new s)))"
      by (simp add: unquoted_requote quotes_requote)
    then show ?thesis unfolding requote.simps if_not_P [OF False] by (simp only: requote.simps if_False "2.IH"(2) [OF False "2.prems"])
  qed
qed simp

text \<open>A line that the replacement leaves without an interpreter is not looked at again.\<close>

lemma fix_line_idem:
  assumes "quote \<notin> set new" "python_text new" "\<not> stale new"
  shows "fix_line stale new (fix_line stale new line) = fix_line stale new line"
  using requote_idem [of new stale line] assms by (simp add: fix_line_def)

lemma fix_shebang_idem:
  assumes "\<not> stale new" "strip new = new"
  shows "fix_shebang stale new (fst (fix_shebang stale new line)) = (fst (fix_shebang stale new line), False)"
  using assms by (simp add: fix_shebang_def Let_def)

text \<open>Fixing a script a second time changes nothing, when the interpreters of the workspace exist.\<close>

theorem shebang_fix_settles:
  assumes "\<not> stale python3" "\<not> stale python" "strip python3 = python3" "quote \<notin> set python" "python_text python"
  shows "fix_lines stale python3 python (fst (fix_lines stale python3 python ls)) = (fst (fix_lines stale python3 python ls), False)"
proof -
  have "map (fix_line stale python) (map (fix_line stale python) xs) = map (fix_line stale python) xs" for xs
    using fix_line_idem [of python stale] assms by simp
  then show ?thesis using fix_shebang_idem [of stale python3 "hd ls"] assms(1,3) by (simp add: fix_lines_def case_prod_beta Let_def)
qed

theorem shebang_fix_settles_witness:
  "fix_lines (\<lambda>p. p = ''/old/bin/python3'') ''/w/bin/python3'' ''/w/bin/python''
     (fst (fix_lines (\<lambda>p. p = ''/old/bin/python3'') ''/w/bin/python3'' ''/w/bin/python''
       [''#!/old/bin/python3'', ''exec '' @ dq @ ''/old/bin/python3'' @ dq]))
   = ([''#!/w/bin/python3'', ''exec '' @ dq @ ''/w/bin/python'' @ dq], False)"
proof -
  have "fst (fix_lines (\<lambda>p. p = ''/old/bin/python3'') ''/w/bin/python3'' ''/w/bin/python''
       [''#!/old/bin/python3'', ''exec '' @ dq @ ''/old/bin/python3'' @ dq]) = [''#!/w/bin/python3'', ''exec '' @ dq @ ''/w/bin/python'' @ dq]"
    by code_simp
  then show ?thesis
    using shebang_fix_settles [of "\<lambda>p. p = ''/old/bin/python3''" "''/w/bin/python3''" "''/w/bin/python''"
        "[''#!/old/bin/python3'', ''exec '' @ dq @ ''/old/bin/python3'' @ dq]"]
    by (simp add: python_text_def quote_def) code_simp
qed

end
