(* ===== verification/GpuProbe.thy ===== *)
theory GpuProbe
  imports Values Demo "HOL-Library.AList" Storage
begin

text \<open>
  \<open>scripts/setup/lib/vulkan_gpu_probe.py\<close>: the discrete GPUs that \<open>vulkaninfo\<close> reports, with the monitors that
  the kernel reports for them, their records for shell scripts, and the choice of one. The regular expressions are
  written out as functions on the text.
\<close>

record vulkan_gpu =
  vg_index :: int
  vg_free_bytes :: int
  vg_budget_bytes :: int
  vg_usage_bytes :: int
  vg_device_name :: string
  vg_pci_slot :: string
  vg_monitor_count :: int

section \<open>Slots and monitors\<close>

text \<open>\<open>f"{n:0wx}"\<close>.\<close>

definition hex_digit :: "nat \<Rightarrow> char" where
  "hex_digit n = (if n < 10 then digit_char n else char_of (87 + n))"

fun hex_text :: "nat \<Rightarrow> string" where
  "hex_text n = (if n < 16 then [hex_digit n] else hex_text (n div 16) @ [hex_digit (n mod 16)])"

declare hex_text.simps [simp del]

definition hex_padded :: "nat \<Rightarrow> nat \<Rightarrow> string" where
  "hex_padded width n = replicate (width - length (hex_text n)) (CHR ''0'') @ hex_text n"

definition pci_slot_from_parts :: "nat \<Rightarrow> nat \<Rightarrow> nat \<Rightarrow> nat \<Rightarrow> string" where
  "pci_slot_from_parts domain bus device func =
     hex_padded 4 domain @ '':'' @ hex_padded 2 bus @ '':'' @ hex_padded 2 device @ ''.'' @ show_nat func"

text \<open>The directories \<open>card[0-9]\<close>; the endings that the source skips do not occur among these names.\<close>

definition is_card :: "string \<Rightarrow> bool" where
  "is_card n \<longleftrightarrow> length n = 5 \<and> prefix ''card'' n \<and> is_digit (last n)"

definition drm_slot :: "host \<Rightarrow> path \<Rightarrow> string io" where
  "drm_slot H dir =
     (let uevent = child (child dir ''device'') ''uevent'' in
      bnd (asks (\<lambda>w. is_file H w uevent)) (\<lambda>there.
        if \<not> there then ret []
        else bnd (read_text H uevent) (\<lambda>s.
          ret (case find_first (prefix ''PCI_SLOT_NAME='') (splitlines s) of
                 None \<Rightarrow> [] | Some line \<Rightarrow> strip (drop (length ''PCI_SLOT_NAME='') line)))))"

definition connected_monitors :: "host \<Rightarrow> path \<Rightarrow> nat io" where
  "connected_monitors H dir =
     bnd (asks (\<lambda>w. filter (\<lambda>n. prefix (path_name dir @ ''-'') n \<and> p_exists H w (child (child dir n) ''status''))
                     (h_children H w dir))) (\<lambda>names.
     bnd (collect (\<lambda>n. read_text H (child (child dir n) ''status'')) names) (\<lambda>states.
       ret (length (filter (\<lambda>s. strip s = ''connected'') states))))"

fun count_cards :: "host \<Rightarrow> path list \<Rightarrow> (string \<times> nat) list \<Rightarrow> (string \<times> nat) list io" where
  "count_cards H [] counts = ret counts"
| "count_cards H (dir # cards) counts =
     bnd (drm_slot H dir) (\<lambda>slot.
       if slot = [] then count_cards H cards counts
       else bnd (connected_monitors H dir) (\<lambda>n. count_cards H cards (AList.update slot n counts)))"

definition drm_monitor_counts :: "host \<Rightarrow> path \<Rightarrow> (string \<times> nat) list io" where
  "drm_monitor_counts H drm_root =
     bnd (asks (\<lambda>w. is_dir H w drm_root)) (\<lambda>there.
       if \<not> there then ret []
       else bnd (asks (\<lambda>w. filter (\<lambda>n. is_card n \<and> is_dir H w (child drm_root n)) (sort (h_children H w drm_root))))
         (\<lambda>names. count_cards H (map (child drm_root) names) []))"

section \<open>Reading the report\<close>

text \<open>\<open>key\s*=\<close> at the start of a text, with what follows.\<close>

definition after_equals :: "string \<Rightarrow> string \<Rightarrow> string option" where
  "after_equals key s =
     (if prefix key s
      then (case dropWhile is_space (drop (length key) s) of
              [] \<Rightarrow> None | c # r \<Rightarrow> if c = CHR ''='' then Some r else None)
      else None)"

text \<open>\<open>\s*(\d+)\<close>, and the group of \<open>\s*(.+)\<close> stripped: the dot stands for no newline, and where only white space
  is left it matches some of it.\<close>

definition number_group :: "string \<Rightarrow> nat option" where
  "number_group r =
     (let ds = takeWhile is_digit (dropWhile is_space r) in if ds = [] then None else Some (nat_of_digits ds))"

definition line_group :: "string \<Rightarrow> string option" where
  "line_group r =
     (let t = dropWhile is_space r in
      if t \<noteq> [] then Some (strip (takeWhile (\<lambda>c. c \<noteq> newline) t))
      else if list_ex (\<lambda>c. c \<noteq> newline) r then Some [] else None)"

text \<open>\<open>re.search\<close>: the first position at which the key and the group match.\<close>

fun search_group :: "(string \<Rightarrow> 'a option) \<Rightarrow> string \<Rightarrow> string \<Rightarrow> 'a option" where
  "search_group grp key [] = None"
| "search_group grp key (c # s) =
     (case Option.bind (after_equals key (c # s)) grp of
        Some v \<Rightarrow> Some v | None \<Rightarrow> search_group grp key s)"

text \<open>\<open>\s*$\<close> in a text of several lines: the rest after the longest white space that ends a line.\<close>

definition line_end :: "string \<Rightarrow> string option" where
  "line_end r =
     find_first (\<lambda>t. t = [] \<or> hd t = newline)
       (map (\<lambda>n. drop n r) (rev [0..<Suc (length (takeWhile is_space r))]))"

definition gpu_header :: "string \<Rightarrow> (nat \<times> string) option" where
  "gpu_header s =
     (let ds = takeWhile is_digit (drop 3 s); r = dropWhile is_digit (drop 3 s) in
      if prefix ''GPU'' s \<and> ds \<noteq> [] \<and> prefix '':'' r
      then map_option (\<lambda>rest. (nat_of_digits ds, rest)) (line_end (tl r)) else None)"

definition heap_header :: "string \<Rightarrow> (nat \<times> string) option" where
  "heap_header s =
     (let t = dropWhile is_space s; u = drop (length ''memoryHeaps['') t;
          ds = takeWhile is_digit u; r = dropWhile is_digit u in
      if prefix ''memoryHeaps['' t \<and> ds \<noteq> [] \<and> prefix '']:'' r
      then map_option (\<lambda>rest. (nat_of_digits ds, rest)) (line_end (drop 2 r)) else None)"

text \<open>\<open>re.split\<close> at headers that begin at the start of a line (\<open>bol\<close>): the text before the first header, and
  every header with the text after it. A header is never empty, so the last case of the match does not arise.\<close>

function split_headers :: "(string \<Rightarrow> ('a \<times> string) option) \<Rightarrow> bool \<Rightarrow> string \<Rightarrow> string \<times> ('a \<times> string) list" where
  "split_headers header bol [] = ([], [])"
| "split_headers header bol (c # s) =
     (case if bol then header (c # s) else None of
        Some (a, rest) \<Rightarrow>
          (if length rest < length (c # s)
           then (let (body, others) = split_headers header ((c # s) ! (length s - length rest) = newline) rest
                 in ([], (a, body) # others))
           else ([], []))
      | None \<Rightarrow> (let (body, others) = split_headers header (c = newline) s in (c # body, others)))"
  by pat_completeness auto
termination split_headers
  by (relation "measure (\<lambda>(header, bol, s). length s)") auto

lemma line_end_le: "line_end r = Some t \<Longrightarrow> length t \<le> length r"
  by (auto simp: line_end_def simp del: upt_Suc dest!: find_first_Some)

lemma headers_shorter:
  "gpu_header s = Some (a, r) \<Longrightarrow> length r < length s"
  "heap_header s = Some (a, r) \<Longrightarrow> length r < length s"
proof -
  show "length r < length s" if "gpu_header s = Some (a, r)"
  proof -
    from that have s: "prefix ''GPU'' s" and r: "line_end (tl (dropWhile is_digit (drop 3 s))) = Some r"
      by (auto simp: gpu_header_def Let_def split: if_splits)
    have "length r \<le> length (drop 3 s)"
      using line_end_le [OF r] length_dropWhile_le [of is_digit "drop 3 s"] by simp
    moreover have "3 \<le> length s" using prefix_length_le [OF s] by simp
    ultimately show ?thesis by simp
  qed
  show "length r < length s" if "heap_header s = Some (a, r)"
  proof -
    define t where "t = drop (length ''memoryHeaps['') (dropWhile is_space s)"
    from that have s: "prefix ''memoryHeaps['' (dropWhile is_space s)" and r: "line_end (drop 2 (dropWhile is_digit t)) = Some r"
      by (auto simp: heap_header_def Let_def t_def split: if_splits)
    have "length r \<le> length t" using line_end_le [OF r] length_dropWhile_le [of is_digit t] by simp
    moreover have "length t < length (dropWhile is_space s)" using prefix_length_le [OF s] by (simp add: t_def)
    ultimately show ?thesis using length_dropWhile_le [of is_space s] by simp
  qed
qed

definition gpu_sections :: "string \<Rightarrow> (nat \<times> string) list" where
  "gpu_sections text = snd (split_headers gpu_header True text)"

definition heap_blocks :: "string \<Rightarrow> string list" where
  "heap_blocks body = map snd (snd (split_headers heap_header True body))"

text \<open>The budget and the use of the first local heap that has both.\<close>

fun local_heap :: "string list \<Rightarrow> (nat \<times> nat) option" where
  "local_heap [] = None"
| "local_heap (block # blocks) =
     (if sublist ''MEMORY_HEAP_DEVICE_LOCAL_BIT'' block
      then (case (search_group number_group ''budget'' block, search_group number_group ''usage'' block) of
              (Some b, Some u) \<Rightarrow> Some (b, u) | _ \<Rightarrow> local_heap blocks)
      else local_heap blocks)"

definition slot_of :: "string \<Rightarrow> string option" where
  "slot_of body =
     (case (search_group number_group ''pciDomain'' body, search_group number_group ''pciBus'' body,
            search_group number_group ''pciDevice'' body, search_group number_group ''pciFunction'' body) of
        (Some domain, Some bus, Some device, Some func) \<Rightarrow> Some (pci_slot_from_parts domain bus device func)
      | _ \<Rightarrow> None)"

definition parse_gpu :: "(string \<times> nat) list \<Rightarrow> nat \<times> string \<Rightarrow> vulkan_gpu list" where
  "parse_gpu monitors = (\<lambda>(idx, body).
     if \<not> sublist ''PHYSICAL_DEVICE_TYPE_DISCRETE_GPU'' body then []
     else case local_heap (heap_blocks body) of
       None \<Rightarrow> []
     | Some (budget, usage) \<Rightarrow>
         [\<lparr>vg_index = int idx, vg_free_bytes = max (int budget - int usage) 0, vg_budget_bytes = int budget,
           vg_usage_bytes = int usage,
           vg_device_name = (case search_group line_group ''deviceName'' body of None \<Rightarrow> ''GPU'' @ show_nat idx | Some n \<Rightarrow> n),
           vg_pci_slot = (case slot_of body of None \<Rightarrow> [] | Some s \<Rightarrow> s),
           vg_monitor_count = (case slot_of body of None \<Rightarrow> 0
             | Some s \<Rightarrow> (case map_of monitors s of None \<Rightarrow> 0 | Some n \<Rightarrow> int n))\<rparr>])"

definition parse_vulkan_discrete_gpus :: "string \<Rightarrow> (string \<times> nat) list \<Rightarrow> vulkan_gpu list" where
  "parse_vulkan_discrete_gpus text monitors = concat (map (parse_gpu monitors) (gpu_sections text))"

section \<open>Choosing\<close>

text \<open>\<open>max\<close> with a key: the first of the greatest.\<close>

fun first_max :: "('a \<Rightarrow> int) \<Rightarrow> 'a \<Rightarrow> 'a list \<Rightarrow> 'a" where
  "first_max key best [] = best"
| "first_max key best (x # xs) = first_max key (if key best < key x then x else best) xs"

definition headless :: "vulkan_gpu \<Rightarrow> bool" where
  "headless g \<longleftrightarrow> vg_monitor_count g = 0"

definition select_best_gpu :: "vulkan_gpu list \<Rightarrow> vulkan_gpu option" where
  "select_best_gpu gpus =
     (case (if filter headless gpus \<noteq> [] then filter headless gpus else gpus) of
        [] \<Rightarrow> None | g # gs \<Rightarrow> Some (first_max vg_free_bytes g gs))"

section \<open>Shell records\<close>

definition record_lines :: "vulkan_gpu \<Rightarrow> string list" where
  "record_lines g =
     [''GPU_INDEX='' @ show_int (vg_index g), ''FREE_BYTES='' @ show_int (vg_free_bytes g),
      ''BUDGET_BYTES='' @ show_int (vg_budget_bytes g), ''USAGE_BYTES='' @ show_int (vg_usage_bytes g),
      ''DEVICE_NAME='' @ vg_device_name g, ''PCI_SLOT='' @ vg_pci_slot g,
      ''MONITOR_COUNT='' @ show_int (vg_monitor_count g), ''---'']"

definition format_shell_records :: "vulkan_gpu list \<Rightarrow> string" where
  "format_shell_records gpus =
     (let lines = concat (map record_lines gpus) in join nl lines @ (if lines \<noteq> [] then nl else []))"

definition int_field :: "(string \<times> string) list \<Rightarrow> string \<Rightarrow> exn + int" where
  "int_field kvs k = (case map_of kvs k of None \<Rightarrow> Inl (KeyError k) | Some v \<Rightarrow> py_int v)"

definition text_field :: "(string \<times> string) list \<Rightarrow> string \<Rightarrow> string" where
  "text_field kvs k = (case map_of kvs k of None \<Rightarrow> [] | Some v \<Rightarrow> v)"

definition gpu_from_record_fields :: "(string \<times> string) list \<Rightarrow> exn + vulkan_gpu" where
  "gpu_from_record_fields kvs =
     sum_bind (int_field kvs ''GPU_INDEX'') (\<lambda>i.
     sum_bind (int_field kvs ''FREE_BYTES'') (\<lambda>f.
     sum_bind (int_field kvs ''BUDGET_BYTES'') (\<lambda>b.
     sum_bind (int_field kvs ''USAGE_BYTES'') (\<lambda>u.
     sum_bind (case map_of kvs ''MONITOR_COUNT'' of None \<Rightarrow> Inr 0 | Some v \<Rightarrow> py_int v) (\<lambda>m.
       Inr \<lparr>vg_index = i, vg_free_bytes = f, vg_budget_bytes = b, vg_usage_bytes = u,
            vg_device_name = text_field kvs ''DEVICE_NAME'', vg_pci_slot = text_field kvs ''PCI_SLOT'',
            vg_monitor_count = m\<rparr>)))))"

fun parse_records :: "(string \<times> string) list \<Rightarrow> string list \<Rightarrow> exn + vulkan_gpu list" where
  "parse_records current [] = (if current \<noteq> [] then sum_map (\<lambda>g. [g]) (gpu_from_record_fields current) else Inr [])"
| "parse_records current (raw_line # lines) =
     (let line = strip raw_line in
      if line = ''---'' then
        (if current \<noteq> []
         then sum_bind (gpu_from_record_fields current) (\<lambda>g. sum_map (\<lambda>gs. g # gs) (parse_records [] lines))
         else parse_records current lines)
      else if CHR ''='' \<notin> set line then parse_records current lines
      else parse_records (AList.update (takeWhile (\<lambda>c. c \<noteq> CHR ''='') line)
                            (tl (dropWhile (\<lambda>c. c \<noteq> CHR ''='') line)) current) lines)"

definition parse_shell_records :: "string \<Rightarrow> exn + vulkan_gpu list" where
  "parse_shell_records text = parse_records [] (splitlines text)"

section \<open>The program\<close>

definition DRM_ROOT :: path where
  "DRM_ROOT = mk_path ''/sys/class/drm''"

definition run_vulkaninfo :: "host \<Rightarrow> string io" where
  "run_vulkaninfo H =
     catch is_called_process_error (bnd (run_checked H (plain_call [''vulkaninfo''])) (\<lambda>(so, se). ret so))
       (\<lambda>e. case e of CalledProcessError rc so se \<Rightarrow> raise (RuntimeError (''vulkaninfo failed (exit '' @ show_int rc @ '')''))
                    | _ \<Rightarrow> raise e)"

definition probe_vulkan_gpus :: "host \<Rightarrow> vulkan_gpu list io" where
  "probe_vulkan_gpus H =
     bnd (run_vulkaninfo H) (\<lambda>text. bnd (drm_monitor_counts H DRM_ROOT) (\<lambda>monitors.
       ret (parse_vulkan_discrete_gpus text monitors)))"

definition load_cached_gpus :: "host \<Rightarrow> path \<Rightarrow> vulkan_gpu list io" where
  "load_cached_gpus H p = bnd (read_text H p) (\<lambda>s. lift_sum (parse_shell_records s))"

text \<open>The arguments: the path of the cache, empty without one, or \<open>None\<close> where they are wrong.\<close>

fun cache_argument :: "string \<Rightarrow> string list \<Rightarrow> string option" where
  "cache_argument cache [] = Some cache"
| "cache_argument cache (arg # args) =
     (if arg = ''--select-best'' then cache_argument cache args
      else if arg = ''--cache-file'' then (case args of [] \<Rightarrow> None | p # rest \<Rightarrow> cache_argument p rest)
      else None)"

definition resolve_cli_gpus :: "host \<Rightarrow> string list \<Rightarrow> vulkan_gpu list option io" where
  "resolve_cli_gpus H args =
     (case cache_argument [] args of
        None \<Rightarrow> ret None
      | Some cache \<Rightarrow> bnd (if cache \<noteq> [] then load_cached_gpus H (mk_path cache) else probe_vulkan_gpus H)
                       (\<lambda>gpus. ret (Some gpus)))"

definition load_cli_gpus :: "host \<Rightarrow> string list \<Rightarrow> vulkan_gpu list option io" where
  "load_cli_gpus H args =
     catch (\<lambda>e. is_os_error e \<or> is_runtime_error e) (resolve_cli_gpus H args)
       (\<lambda>e. andthen (print_err (''error: '' @ h_str H e)) (ret None))"

definition gpu_probe_main :: "host \<Rightarrow> string list \<Rightarrow> int io" where
  "gpu_probe_main H args =
     (if args \<noteq> [] \<and> hd args \<in> {''-h'', ''--help''}
      then andthen (print_out ''usage: vulkan_gpu_probe.py [--select-best] [--cache-file PATH]'') (ret 0)
      else bnd (load_cli_gpus H args) (\<lambda>found.
        case found of
          None \<Rightarrow> andthen (when_io (args \<noteq> []) (print_err ''error: invalid vulkan_gpu_probe arguments'')) (ret 1)
        | Some gpus \<Rightarrow>
            if gpus = [] then ret 1
            else if ''--select-best'' \<in> set args
            then (case select_best_gpu gpus of
                    None \<Rightarrow> ret 1 | Some g \<Rightarrow> andthen (print_out (show_int (vg_index g))) (ret 0))
            else andthen (print_out (format_shell_records gpus)) (ret 0)))"


section \<open>Records round trip\<close>

lemma show_int_chars: "c \<in> set (show_int i) \<Longrightarrow> is_digit c \<or> c = CHR ''-''"
  using show_nat_digits [of "nat i"] show_nat_digits [of "nat (- i)"]
  by (auto simp: show_int_def list_all_iff split: if_splits)

lemma show_int_not_space: "c \<in> set (show_int i) \<Longrightarrow> \<not> is_space c"
  by (drule show_int_chars) (elim disjE, simp add: is_digit_not_space, simp add: is_space_def)

lemma show_int_no_break: "c \<in> set (show_int i) \<Longrightarrow> \<not> is_line_break c"
  using show_int_chars [of c i] by (auto simp: is_digit_iff is_line_break_def)

lemma strip_show_int [simp]: "strip (show_int i) = show_int i"
  by (rule strip_no_space) (blast dest: show_int_not_space)

lemma show_nat_no_minus: "\<not> prefix ''-'' (show_nat n)"
  using show_nat_digits [of n] by (cases "show_nat n") (auto simp: is_digit_iff)

lemma py_int_shown_int [simp]: "py_int (show_int i) = Inr i"
proof (cases "i < 0")
  case True
  then have "strip (CHR ''-'' # show_nat (nat (- i))) = CHR ''-'' # show_nat (nat (- i))"
    using strip_show_int [of i] by (simp add: show_int_def)
  with True show ?thesis by (simp add: py_int_def show_int_def Let_def)
next
  case False
  with py_int_show [of "nat i"] show ?thesis by (simp add: show_int_def)
qed

text \<open>A text that survives as the value of a line: without line breaks and without white space at its end.\<close>

definition line_value :: "string \<Rightarrow> bool" where
  "line_value s \<longleftrightarrow> no_breaks s \<and> rstrip s = s"


lemma line_value_show_int [simp]: "line_value (show_int i)"
proof -
  have "strip_left (rev (show_int i)) = rev (show_int i)"
    using show_int_not_space [of _ i] by (intro strip_left_id) (auto simp: hd_rev)
  then show ?thesis by (auto simp: line_value_def no_breaks_def rstrip_def dest: show_int_no_break)
qed

lemma strip_field:
  assumes "k \<noteq> []" "\<not> is_space (hd k)" "rstrip v = v"
  shows "strip (k @ CHR ''='' # v) = k @ CHR ''='' # v"
proof -
  have "strip_left (k @ CHR ''='' # v) = k @ CHR ''='' # v" using assms(1,2) by (intro strip_left_id) simp
  moreover have "strip_left (rev v) = rev v" using arg_cong [OF assms(3), of rev] by (simp add: rstrip_def)
  moreover have "\<not> is_space CHR ''=''" by (simp add: is_space_def)
  ultimately show ?thesis by (simp add: strip_def rstrip_def strip_left_append_nonspace)
qed

lemma parse_field:
  assumes "k \<noteq> []" "\<not> is_space (hd k)" "CHR ''='' \<notin> set k" "line_value v"
  shows "parse_records kvs ((k @ CHR ''='' # v) # lines) = parse_records (AList.update k v kvs) lines"
proof -
  have line: "strip (k @ CHR ''='' # v) = k @ CHR ''='' # v"
    using assms by (intro strip_field) (simp_all add: line_value_def)
  moreover have "k @ CHR ''='' # v \<noteq> ''---''"
  proof
    assume "k @ CHR ''='' # v = ''---''"
    then have "CHR ''='' \<in> set ''---''" by (metis in_set_conv_decomp)
    then show False by simp
  qed
  moreover have "takeWhile (\<lambda>c. c \<noteq> CHR ''='') (k @ CHR ''='' # v) = k"
      and "dropWhile (\<lambda>c. c \<noteq> CHR ''='') (k @ CHR ''='' # v) = CHR ''='' # v"
    using assms(3) by (induction k) auto
  ultimately show ?thesis by (simp add: Let_def)
qed

lemma parse_fields:
  "list_all (\<lambda>(k, v). k \<noteq> [] \<and> \<not> is_space (hd k) \<and> CHR ''='' \<notin> set k \<and> line_value v) kvs \<Longrightarrow>
   parse_records current (map (\<lambda>(k, v). k @ CHR ''='' # v) kvs @ lines)
   = parse_records (fold (\<lambda>(k, v). AList.update k v) kvs current) lines"
  by (induction kvs arbitrary: current) (auto simp: parse_field simp del: parse_records.simps)

definition clean_texts :: "vulkan_gpu \<Rightarrow> bool" where
  "clean_texts g \<longleftrightarrow> line_value (vg_device_name g) \<and> line_value (vg_pci_slot g)"

lemma parse_separator: "parse_records kvs (''---'' # lines) =
   (if kvs \<noteq> [] then sum_bind (gpu_from_record_fields kvs) (\<lambda>g. sum_map (\<lambda>gs. g # gs) (parse_records [] lines))
    else parse_records kvs lines)"
proof -
  have "strip ''---'' = ''---''" by code_simp
  then show ?thesis by (simp add: Let_def)
qed

definition record_fields :: "vulkan_gpu \<Rightarrow> (string \<times> string) list" where
  "record_fields g =
     [(''GPU_INDEX'', show_int (vg_index g)), (''FREE_BYTES'', show_int (vg_free_bytes g)),
      (''BUDGET_BYTES'', show_int (vg_budget_bytes g)), (''USAGE_BYTES'', show_int (vg_usage_bytes g)),
      (''DEVICE_NAME'', vg_device_name g), (''PCI_SLOT'', vg_pci_slot g), (''MONITOR_COUNT'', show_int (vg_monitor_count g))]"

lemma record_lines_fields: "record_lines g = map (\<lambda>(k, v). k @ CHR ''='' # v) (record_fields g) @ [''---'']"
  by (simp add: record_lines_def record_fields_def)

lemma record_fields_distinct: "fold (\<lambda>(k, v). AList.update k v) (record_fields g) [] = record_fields g"
  by (simp add: record_fields_def)

lemma gpu_from_record: "gpu_from_record_fields (record_fields g) = Inr g"
  by (simp add: gpu_from_record_fields_def int_field_def text_field_def record_fields_def)

lemma parse_record_lines:
  assumes "clean_texts g"
  shows "parse_records [] (record_lines g @ lines) = sum_map (\<lambda>gs. g # gs) (parse_records [] lines)"
proof -
  have "list_all (\<lambda>(k, v). k \<noteq> [] \<and> \<not> is_space (hd k) \<and> CHR ''='' \<notin> set k \<and> line_value v) (record_fields g)"
    using assms by (simp add: record_fields_def clean_texts_def is_space_def)
  from parse_fields [OF this, of "[]" "''---'' # lines"]
  have "parse_records [] (record_lines g @ lines) = parse_records (record_fields g) (''---'' # lines)"
    by (simp add: record_lines_fields record_fields_distinct del: parse_records.simps)
  moreover have "record_fields g \<noteq> []" by (simp add: record_fields_def)
  ultimately show ?thesis by (simp add: parse_separator gpu_from_record del: parse_records.simps)
qed

lemma parse_all_records:
  "list_all clean_texts gpus \<Longrightarrow> parse_records [] (concat (map record_lines gpus)) = Inr gpus"
proof (induction gpus)
  case (Cons g gpus)
  then show ?case by (simp add: parse_record_lines sum_map_def del: parse_records.simps)
qed simp

lemma formatted_lines:
  assumes "list_all clean_texts gpus"
  shows "splitlines (format_shell_records gpus) = concat (map record_lines gpus)"
proof -
  have "no_breaks l" if "g \<in> set gpus" "l \<in> set (record_lines g)" for g l
  proof -
    have "line_value v" if "(k, v) \<in> set (record_fields g)" for k v
      using that assms \<open>g \<in> set gpus\<close> by (auto simp: record_fields_def clean_texts_def list_all_iff)
    moreover have "no_breaks k" if "(k, v) \<in> set (record_fields g)" for k v
      using that by (auto simp: record_fields_def no_breaks_def is_line_break_def)
    moreover have "no_breaks ''---''" by (simp add: no_breaks_def is_line_break_def)
    ultimately show ?thesis
      using that(2) by (auto simp: record_lines_fields no_breaks_def line_value_def is_line_break_def)
  qed
  then have lines: "splitlines (unlines ls) = ls" if "ls = concat (map record_lines gpus)" for ls
    using that by (intro splitlines_join) auto
  define ls where "ls = concat (map record_lines gpus)"
  have "format_shell_records gpus = unlines ls"
    by (simp add: format_shell_records_def Let_def join_nl_concat flip: ls_def)
  with lines [OF ls_def] show ?thesis by (simp add: ls_def)
qed

lemma shell_records_parsed:
  "list_all clean_texts gpus \<Longrightarrow> parse_shell_records (format_shell_records gpus) = Inr gpus"
  by (simp add: parse_shell_records_def formatted_lines parse_all_records)

interpretation gpu_records: text_codec format_shell_records parse_shell_records "list_all clean_texts"
  by unfold_locales (rule shell_records_parsed)

text \<open>A cache file that was written is the list of the GPUs it was written for, and two lists never share a file text.\<close>

lemma cached_gpus_are_read:
  "list_all clean_texts gpus \<Longrightarrow> write_text H p (format_shell_records gpus) w = (Inr (), w') \<Longrightarrow>
   load_cached_gpus H p w' = (Inr gpus, w')"
  unfolding load_cached_gpus_def by (rule gpu_records.written_is_read)

lemma shell_records_differ:
  "list_all clean_texts gpus \<Longrightarrow> list_all clean_texts gpus' \<Longrightarrow>
   format_shell_records gpus = format_shell_records gpus' \<longleftrightarrow> gpus = gpus'"
  by (rule gpu_records.enc_inj)

text \<open>C38: the records round trip. Reading the shell records that were written for some GPUs gives these GPUs back,
  all fields of each, when no device name or slot has a line break or ends in white space.\<close>

theorem shell_records_round_trip:
  assumes "list_all clean_texts gpus"
  shows "parse_shell_records (format_shell_records gpus) = Inr gpus"
  by (rule shell_records_parsed [OF assms])

definition demo_gpus :: "vulkan_gpu list" where
  "demo_gpus =
     [\<lparr>vg_index = 0, vg_free_bytes = 7, vg_budget_bytes = 9, vg_usage_bytes = 2, vg_device_name = ''Arc A770'',
       vg_pci_slot = ''0000:03:00.0'', vg_monitor_count = 1\<rparr>,
      \<lparr>vg_index = 2, vg_free_bytes = 0, vg_budget_bytes = 4, vg_usage_bytes = 5, vg_device_name = ''a=b'',
       vg_pci_slot = [], vg_monitor_count = 0\<rparr>]"

theorem shell_records_round_trip_witness:
  "parse_shell_records (format_shell_records demo_gpus) = Inr demo_gpus"
  by (rule shell_records_round_trip) code_simp

section \<open>The choice\<close>

lemma first_max_greatest:
  "first_max key b xs \<in> set (b # xs) \<and> list_all (\<lambda>x. key x \<le> key (first_max key b xs)) (b # xs)"
  by (induction key b xs rule: first_max.induct) (auto simp: list_all_iff split: if_splits)

text \<open>The chosen GPU is one without monitors when there is one, and of those, or of all, one with the most free memory.\<close>

lemma select_best_prefers_headless:
  assumes "select_best_gpu gpus = Some g"
  shows "g \<in> set gpus"
    and "list_ex headless gpus \<Longrightarrow> headless g"
    and "list_all (\<lambda>h. vg_free_bytes h \<le> vg_free_bytes g) (if list_ex headless gpus then filter headless gpus else gpus)"
proof -
  define pool where "pool = (if list_ex headless gpus then filter headless gpus else gpus)"
  have "filter headless gpus \<noteq> [] \<longleftrightarrow> list_ex headless gpus" by (auto simp: filter_empty_conv list_ex_iff)
  with assms obtain h hs where p: "pool = h # hs" "g = first_max vg_free_bytes h hs"
    by (auto simp: select_best_gpu_def pool_def split: list.splits)
  with first_max_greatest [of vg_free_bytes h hs]
  have g: "g \<in> set pool" "list_all (\<lambda>h. vg_free_bytes h \<le> vg_free_bytes g) pool" by simp_all
  from g(1) show "g \<in> set gpus" by (auto simp: pool_def split: if_splits)
  from g(1) show "list_ex headless gpus \<Longrightarrow> headless g" by (simp add: pool_def)
  from g(2) show "list_all (\<lambda>h. vg_free_bytes h \<le> vg_free_bytes g) (if list_ex headless gpus then filter headless gpus else gpus)"
    by (simp add: pool_def)
qed

text \<open>The choice from a cache that the program has written is the choice among the GPUs it was written for.\<close>

lemma cached_choice:
  assumes "at H w (mk_path p) = Some (File (Text (format_shell_records gpus)))" "p \<noteq> []" "list_all clean_texts gpus"
    "select_best_gpu gpus = Some g"
  shows "gpu_probe_main H [''--select-best'', ''--cache-file'', p] w = (Inr 0, w\<lparr>out := out w @ [show_int (vg_index g)]\<rparr>)"
proof -
  have "load_cli_gpus H [''--select-best'', ''--cache-file'', p] w = (Inr (Some gpus), w)"
    using assms(1,2) shell_records_parsed [OF assms(3)]
    by (simp add: load_cli_gpus_def resolve_cli_gpus_def load_cached_gpus_def read_text_def read_content_def catch_def bnd_def
        ret_def lift_sum_def)
  moreover have "gpus \<noteq> []" using select_best_prefers_headless(1) [OF assms(4)] by auto
  ultimately show ?thesis
    using assms(4) by (simp add: gpu_probe_main_def bnd_def ret_def andthen_def print_out_def update_def)
qed

end
