(* ===== verification/Bootstrap.thy ===== *)
theory Bootstrap
  imports AuxRegistry Values
begin

text \<open>
  \<open>bootstrap_components.py\<close>, \<open>bootstrap_component_defs.py\<close> and \<open>bootstrap_install.py\<close> of
  \<open>workspace/scripts\<close>, with \<open>workspace/config_utils.py\<close>: the components of the workspace, how they are loaded
  and detected, and how a selection is installed. The schema check of the manifests is an argument of the loaders;
  \<open>search\<close> is \<open>re.search\<close> for the pattern of a component, with the group it takes.
\<close>

section \<open>The project root\<close>

fun find_root :: "host \<Rightarrow> world \<Rightarrow> nat \<Rightarrow> path \<Rightarrow> path option" where
  "find_root H w 0 current = None"
| "find_root H w (Suc k) current =
     (if current = parent current then None
      else if p_exists H w (child current ''pyproject.toml'') \<or> p_exists H w (child current ''.git'') then Some current
      else find_root H w k (parent current))"

text \<open>The climb from a file ends at the root of the file system, so the number of its parts and one is enough fuel.\<close>

lemma find_root_enough:
  "length (parts p) < k \<Longrightarrow> find_root H w k p = find_root H w (Suc (length (parts p))) p"
proof (induction "length (parts p)" arbitrary: p k)
  case 0
  then have "parent p = p" by (cases p) (simp add: parent_def)
  with 0 show ?case by (cases k) simp_all
next
  case (Suc n)
  then obtain j where k: "k = Suc j" by (cases k) simp_all
  have n: "n = length (parts (parent p))" using Suc.hyps(2) by (simp add: parent_def)
  show ?case using Suc.hyps(1) [OF n, of j] Suc.prems Suc.hyps(2) by (simp add: k n flip: Suc.hyps(2))
qed

definition project_root_of :: "host \<Rightarrow> world \<Rightarrow> path \<Rightarrow> path option" where
  "project_root_of H w this_file =
     (let start = resolve (h_cwd H) this_file in find_root H w (Suc (length (parts start))) start)"

text \<open>The root, from the cached one; a root that is found becomes the cached one.\<close>

definition get_project_root :: "host \<Rightarrow> path option \<Rightarrow> path \<Rightarrow> path io" where
  "get_project_root H cached this_file =
     (let search = bnd (asks (\<lambda>w. project_root_of H w this_file))
            (\<lambda>found. case found of None \<Rightarrow> raise (RuntimeError ''project root not found'') | Some p \<Rightarrow> ret p)
      in case cached of
           Some p \<Rightarrow> ret p
         | None \<Rightarrow>
             (case h_env H ''WORKSPACE_PROJECT_ROOT'' of
                Some r \<Rightarrow> if r \<noteq> [] then ret (mk_path r) else search
              | None \<Rightarrow> search))"

section \<open>Components\<close>

datatype component_type = Script | Uv | WorkspaceRepo

record component =
  co_name :: string
  co_label :: string
  co_description :: string
  co_type :: component_type
  co_group :: string
  co_package :: "string option"
  co_script :: "string option"
  co_script_path :: "string option"
  co_detect_cmd :: "string list option"
  co_detect_path :: "string option"
  co_version_pattern :: "string option"
  co_version_cmd :: "string list option"

record component_status =
  cs_installed :: bool
  cs_version :: "string option"
  cs_path :: "string option"

definition not_installed :: component_status where
  "not_installed = \<lparr>cs_installed = False, cs_version = None, cs_path = None\<rparr>"

text \<open>The first number in dotted form with the given count of parts: \<open>\d+\.\d+\.\d+\<close> and \<open>\d+\.\d+\<close>.\<close>

fun dotted_number :: "nat \<Rightarrow> string \<Rightarrow> string option" where
  "dotted_number 0 s = Some []"
| "dotted_number (Suc n) s =
     (let ds = takeWhile is_digit s; r = dropWhile is_digit s in
      if ds = [] then None
      else if n = 0 then Some ds
      else case r of
        [] \<Rightarrow> None
      | c # r' \<Rightarrow> if c = CHR ''.'' then map_option (\<lambda>v. ds @ c # v) (dotted_number n r') else None)"

fun find_dotted :: "nat \<Rightarrow> string \<Rightarrow> string \<Rightarrow> string option" where
  "find_dotted n lead [] = None"
| "find_dotted n lead (c # s) =
     (case (if prefix lead (c # s) then dotted_number n (drop (length lead) (c # s)) else None) of
        Some v \<Rightarrow> Some v
      | None \<Rightarrow> find_dotted n lead s)"

text \<open>\<open>search p s\<close> is \<open>None\<close> without a match and otherwise the group, which may have taken no part.\<close>

type_synonym pattern_search = "string \<Rightarrow> string \<Rightarrow> exn + string option option"

definition builtin_version :: "string \<Rightarrow> string option" where
  "builtin_version output =
     (case find_dotted 3 [] output of
        Some v \<Rightarrow> Some v
      | None \<Rightarrow> (case find_dotted 3 ''v'' output of
          Some v \<Rightarrow> Some v
        | None \<Rightarrow> find_dotted 2 [] output))"

definition truthy_opt :: "'a list option \<Rightarrow> bool" where
  "truthy_opt x \<longleftrightarrow> x \<noteq> None \<and> x \<noteq> Some []"

definition extract_version :: "pattern_search \<Rightarrow> component \<Rightarrow> string \<Rightarrow> exn + string option" where
  "extract_version search c output =
     (if output = [] then Inr None
      else if truthy_opt (co_version_pattern c)
      then sum_map (\<lambda>found. case found of Some v \<Rightarrow> v | None \<Rightarrow> builtin_version output)
             (search (the (co_version_pattern c)) output)
      else Inr (builtin_version output))"

definition root_call :: "path \<Rightarrow> string list \<Rightarrow> call" where
  "root_call root argv = call_in root (timed_call argv 5)"

definition probe_failure :: "exn \<Rightarrow> bool" where
  "probe_failure e \<longleftrightarrow> is_called_process_error e \<or> e = TimeoutExpired \<or> is_os_error e"

definition version_from_cmd :: "host \<Rightarrow> pattern_search \<Rightarrow> path \<Rightarrow> component \<Rightarrow> string option io" where
  "version_from_cmd H search root c =
     (if \<not> truthy_opt (co_version_cmd c) then ret None
      else catch probe_failure
        (bnd (run_checked H (root_call root (the (co_version_cmd c)))) (\<lambda>(so, se). lift_sum (extract_version search c (so @ se))))
        (\<lambda>_. ret None))"

definition runnable_binary_present :: "host \<Rightarrow> path \<Rightarrow> component \<Rightarrow> bool io" where
  "runnable_binary_present H root c =
     (if \<not> truthy_opt (co_version_cmd c) then ret True
      else let binary = hd (the (co_version_cmd c)); bin_path = p_sub root binary in
        if prefix ''/'' binary \<or> prefix ''~'' binary then ret True
        else asks (\<lambda>w. (p_exists H w bin_path \<and> h_executable H bin_path) \<or> h_which H w binary \<noteq> None))"

definition status_from_cmd :: "host \<Rightarrow> pattern_search \<Rightarrow> path \<Rightarrow> component \<Rightarrow> component_status io" where
  "status_from_cmd H search root c =
     (if \<not> truthy_opt (co_detect_cmd c) then ret not_installed
      else catch probe_failure
        (bnd (run_checked H (root_call root (the (co_detect_cmd c)))) (\<lambda>(so, se).
         bnd (lift_sum (extract_version search c (so @ se))) (\<lambda>version.
           ret \<lparr>cs_installed = True, cs_version = version, cs_path = None\<rparr>)))
        (\<lambda>_. ret not_installed))"

definition get_status :: "host \<Rightarrow> pattern_search \<Rightarrow> path \<Rightarrow> component \<Rightarrow> component_status io" where
  "get_status H search root c =
     (if \<not> truthy_opt (co_detect_path c) then status_from_cmd H search root c
      else let path = p_sub root (the (co_detect_path c)) in
        bnd (bnd (asks (\<lambda>w. p_exists H w path)) (\<lambda>found. if found then runnable_binary_present H root c else ret False)) (\<lambda>present.
          if \<not> present then status_from_cmd H search root c
          else if truthy_opt (co_version_cmd c)
          then bnd (version_from_cmd H search root c) (\<lambda>version.
                 if version \<noteq> None then ret \<lparr>cs_installed = True, cs_version = version, cs_path = Some (path_str path)\<rparr>
                 else ret not_installed)
          else ret \<lparr>cs_installed = True, cs_version = None, cs_path = Some (path_str path)\<rparr>))"

section \<open>Loading\<close>

definition WORKSPACE_REPOS_GROUP :: string where "WORKSPACE_REPOS_GROUP = ''Workspace Repositories''"

definition config_file :: "path \<Rightarrow> string \<Rightarrow> path" where
  "config_file root name = child (child (child root ''workspace'') ''config'') name"

definition WORKSPACE_CLONES_YAML :: "path \<Rightarrow> path" where
  "WORKSPACE_CLONES_YAML root = config_file root ''workspace-clones.yaml''"

definition COMPONENTS_YAML :: "path \<Rightarrow> path" where
  "COMPONENTS_YAML root = config_file root ''bootstrap-components.yaml''"

definition PACKAGE_JSON :: "path \<Rightarrow> path" where
  "PACKAGE_JSON root = child (child (child root ''workspace'') ''scripts'') ''package.json''"

record manifest_entry = component +
  me_package_ref :: "string option"

record clone_entry =
  cl_id :: string
  cl_remote :: string
  cl_path :: string
  cl_mandatory :: bool

definition to_component :: "manifest_entry \<Rightarrow> (string \<times> string) list \<Rightarrow> component" where
  "to_component entry pkg_versions =
     (let package = (if truthy_opt (me_package_ref entry)
                     then let r = the (me_package_ref entry) in
                       Some (r @ ''@'' @ (case map_of pkg_versions r of None \<Rightarrow> ''latest'' | Some v \<Rightarrow> v))
                     else co_package entry)
      in (component.truncate entry)\<lparr>co_package := package\<rparr>)"

definition load_package_versions :: "host \<Rightarrow> py_ops \<Rightarrow> (string \<Rightarrow> exn + yaml) \<Rightarrow> path \<Rightarrow> (string \<times> string) list io" where
  "load_package_versions H py json_load root =
     bnd (asks (\<lambda>w. p_exists H w (PACKAGE_JSON root))) (\<lambda>there.
       if \<not> there then ret []
       else bnd (catch (\<lambda>e. is_os_error e \<or> e = JSONDecodeError)
                   (bnd (read_text H (PACKAGE_JSON root)) (\<lambda>s. bnd (lift_sum (json_load s)) (\<lambda>v. ret (Some v))))
                   (\<lambda>_. ret None)) (\<lambda>data.
         case data of
           None \<Rightarrow> ret []
         | Some v \<Rightarrow> (case as_map v of
             None \<Rightarrow> raise (AttributeError ''get'')
           | Some m \<Rightarrow> (case as_map (y_get_or m ''dependencies'' (YMap [])) of
               None \<Rightarrow> raise (AttributeError ''items'')
             | Some deps \<Rightarrow> ret (map (\<lambda>(k, v). (y_str (py_show py) k, y_str (py_show py) v)) deps)))))"

definition platform_path :: "host \<Rightarrow> string \<Rightarrow> string" where
  "platform_path H s = replace_all ''.boot-linux'' (if h_system H = ''Darwin'' then ''.boot-macos'' else ''.boot-linux'') s"

definition with_platform_boot_paths :: "host \<Rightarrow> manifest_entry \<Rightarrow> manifest_entry" where
  "with_platform_boot_paths H entry =
     entry\<lparr>co_detect_path := map_option (platform_path H) (co_detect_path entry),
           co_script_path := map_option (platform_path H) (co_script_path entry),
           co_detect_cmd := map_option (map (platform_path H)) (co_detect_cmd entry),
           co_version_cmd := map_option (map (platform_path H)) (co_version_cmd entry)\<rparr>"

definition load_components_yaml :: "host \<Rightarrow> py_ops \<Rightarrow> (string \<Rightarrow> exn + yaml) \<Rightarrow>
    (string \<Rightarrow> exn + (manifest_entry list \<times> string list)) \<Rightarrow> path \<Rightarrow> (component list \<times> string list) io" where
  "load_components_yaml H py json_load parse_manifest root =
     bnd (asks (\<lambda>w. p_exists H w (COMPONENTS_YAML root))) (\<lambda>there.
       if \<not> there then raise (FileNotFoundError (''bootstrap component manifest missing: '' @ path_str (COMPONENTS_YAML root)))
       else bnd (read_text H (COMPONENTS_YAML root)) (\<lambda>s.
            bnd (lift_sum (parse_manifest s)) (\<lambda>(entries, groups).
            bnd (load_package_versions H py json_load root) (\<lambda>versions.
              ret (map (\<lambda>e. to_component (with_platform_boot_paths H e) versions) entries, groups)))))"

definition repo_component :: "clone_entry \<Rightarrow> component" where
  "repo_component entry =
     \<lparr>co_name = cl_id entry, co_label = cl_id entry,
      co_description = (if cl_mandatory entry then ''[mandatory]'' else ''[optional]'') @ '' '' @ cl_remote entry @ '' -> '' @ cl_path entry,
      co_type = WorkspaceRepo, co_group = WORKSPACE_REPOS_GROUP, co_package = None, co_script = None, co_script_path = None,
      co_detect_cmd = None, co_detect_path = Some (cl_path entry), co_version_pattern = None, co_version_cmd = None\<rparr>"

fun is_yaml_error :: "exn \<Rightarrow> bool" where
  "is_yaml_error (YAMLError _) = True"
| "is_yaml_error _ = False"

definition load_workspace_repo_components :: "host \<Rightarrow> (string \<Rightarrow> exn + yaml) \<Rightarrow> (yaml \<Rightarrow> exn + clone_entry list) \<Rightarrow> path
    \<Rightarrow> component list io" where
  "load_workspace_repo_components H yaml_load validate_clones root =
     bnd (asks (\<lambda>w. p_exists H w (WORKSPACE_CLONES_YAML root))) (\<lambda>there.
       if \<not> there then ret []
       else bnd (catch (\<lambda>e. is_os_error e \<or> is_yaml_error e)
                   (bnd (read_text H (WORKSPACE_CLONES_YAML root)) (\<lambda>s. bnd (lift_sum (yaml_load s)) (\<lambda>v. ret (Some v))))
                   (\<lambda>_. ret None)) (\<lambda>raw.
         case raw of
           None \<Rightarrow> ret []
         | Some v \<Rightarrow> bnd (lift_sum (validate_clones (if y_true v then v else YMap []))) (\<lambda>clones. ret (map repo_component clones))))"

text \<open>\<open>ALL_COMPONENTS\<close> and \<open>GROUPS\<close>; a dictionary of groups, filled in the order of the components.\<close>

definition all_groups :: "string list \<Rightarrow> string list" where
  "all_groups group_order = group_order @ [WORKSPACE_REPOS_GROUP]"

definition add_to_group :: "component \<Rightarrow> (string \<times> component list) list \<Rightarrow> (string \<times> component list) list" where
  "add_to_group c groups_map =
     (if co_group c \<in> set (map fst groups_map)
      then AList.update (co_group c) (get_list groups_map (co_group c) @ [c]) groups_map else groups_map)"

definition get_components_by_group :: "string list \<Rightarrow> component list \<Rightarrow> (string \<times> component list) list" where
  "get_components_by_group groups comps =
     fold add_to_group comps (fold (\<lambda>g. AList.update g []) groups [])"

definition get_component_by_name :: "component list \<Rightarrow> string \<Rightarrow> component option" where
  "get_component_by_name comps name = find_first (\<lambda>c. co_name c = name) comps"

section \<open>Installing\<close>

text \<open>What the operating system says: the root of the installation, the effective user and the owners of files.\<close>

record boot_env =
  be_root :: path
  be_uid :: int
  be_owner :: "world \<Rightarrow> path \<Rightarrow> int"

definition install_root :: "host \<Rightarrow> path \<Rightarrow> path" where
  "install_root H config_root = (case h_env H ''WORKSPACE_ROOT'' of None \<Rightarrow> config_root | Some r \<Rightarrow> mk_path r)"

definition BOOT_NAME :: "host \<Rightarrow> string" where
  "BOOT_NAME H = (if h_darwin H then ''.boot-macos'' else ''.boot-linux'')"

definition boot_dir :: "host \<Rightarrow> boot_env \<Rightarrow> path" where
  "boot_dir H E = child (be_root E) (BOOT_NAME H)"

definition ensure_directories :: "host \<Rightarrow> boot_env \<Rightarrow> unit io" where
  "ensure_directories H E =
     (if be_uid E = 0 then raise (PermissionError ''local installation must run as the checkout owner, not root'')
      else bnd get_world (\<lambda>w.
        if p_exists H w (boot_dir H E) \<and> be_owner E w (boot_dir H E) \<noteq> be_uid E
        then raise (PermissionError ''checkout boot directory is not owned by the current user'')
        else if p_exists H w (boot_dir H E) \<and> h_unwritable H (resolve (h_cwd H) (boot_dir H E))
        then raise (PermissionError ''checkout boot directory is not writable'')
        else each (mkdir_parents H) [child (boot_dir H E) ''bin'', child (child (be_root E) ''.venv'') ''bin'']))"

definition get_bootstrap_dir :: "boot_env \<Rightarrow> path" where
  "get_bootstrap_dir E = child (child (child (be_root E) ''workspace'') ''scripts'') ''bootstrap''"

text \<open>The environment of the scripts, as the changes it makes to the one of the process. It is not part of a call.\<close>

definition get_bootstrap_env :: "host \<Rightarrow> boot_env \<Rightarrow> world \<Rightarrow> string \<Rightarrow> string option" where
  "get_bootstrap_env H E w =
     (let env = (h_env H)
            (''BOOT_LINUX_DIR'' := Some (path_str (boot_dir H E)),
             ''VENV_DIR'' := Some (path_str (child (be_root E) ''.venv'')),
             ''PATH'' := Some (path_str (child (boot_dir H E) ''bin'') @ '':'' @ (case h_env H ''PATH'' of None \<Rightarrow> [] | Some p \<Rightarrow> p)));
          rust_home = child (boot_dir H E) ''rust'';
          default_to = (\<lambda>k env. if env k = None then env(k := Some (path_str rust_home)) else env)
      in if is_dir H w rust_home then default_to ''CARGO_HOME'' (default_to ''RUSTUP_HOME'' env) else env)"

definition install_failure :: "exn \<Rightarrow> bool" where
  "install_failure e \<longleftrightarrow> is_os_error e \<or> is_subprocess_error e"

definition run_script_at :: "host \<Rightarrow> boot_env \<Rightarrow> path \<Rightarrow> string \<Rightarrow> bool io" where
  "run_script_at H E script_path failure =
     bnd (asks (\<lambda>w. p_exists H w script_path)) (\<lambda>there.
       if \<not> there then andthen (print_err (''ERROR: bootstrap script not found: '' @ path_str script_path)) (ret False)
       else catch install_failure
              (bnd (run_checked H (call_in (be_root E) (plain_call [''bash'', path_str script_path]))) (\<lambda>_. ret True))
              (\<lambda>e. andthen (print_err (failure @ '': '' @ h_str H e)) (ret False)))"

definition run_bootstrap_script :: "host \<Rightarrow> boot_env \<Rightarrow> string \<Rightarrow> bool io" where
  "run_bootstrap_script H E script_name =
     run_script_at H E (p_sub (get_bootstrap_dir E) script_name)
       (''ERROR: failed to invoke bootstrap script '' @ path_str (p_sub (get_bootstrap_dir E) script_name))"

definition run_script_path :: "host \<Rightarrow> boot_env \<Rightarrow> string \<Rightarrow> bool io" where
  "run_script_path H E script_rel =
     run_script_at H E (p_sub (be_root E) script_rel) (''ERROR: failed to invoke '' @ script_rel)"

definition pull_workspace_repo :: "host \<Rightarrow> boot_env \<Rightarrow> component \<Rightarrow> unit io" where
  "pull_workspace_repo H E c =
     (if \<not> truthy_opt (co_detect_path c) then ret ()
      else let repo_path = p_sub (be_root E) (the (co_detect_path c)) in
        bnd (asks (\<lambda>w. p_exists H w (child repo_path ''.git''))) (\<lambda>cloned.
          if cloned
          then catch is_called_process_error
                 (bnd (run_checked H (call_in repo_path (plain_call [''git'', ''pull'', ''--ff-only'']))) (\<lambda>_. ret ()))
                 (\<lambda>e. print_err (''ERROR: git pull -ff-only failed for '' @ co_name c @ '': '' @ h_str H e))
          else catch is_called_process_error
                 (bnd (run_checked H (call_in (be_root E) (plain_call
                    [''bash'', path_str (child (child (child (child (be_root E) ''workspace'') ''scripts'') ''bin'') ''bootstrap-repos''),
                     ''--include'', co_name c]))) (\<lambda>_. ret ()))
                 (\<lambda>e. print_err (''ERROR: bootstrap-repos failed for '' @ co_name c @ '': '' @ h_str H e))))"

definition install_component :: "host \<Rightarrow> boot_env \<Rightarrow> component \<Rightarrow> bool io" where
  "install_component H E c =
     (case co_type c of
        Script \<Rightarrow> if truthy_opt (co_script_path c) then run_script_path H E (the (co_script_path c))
                  else if truthy_opt (co_script c) then run_bootstrap_script H E (the (co_script c))
                  else ret False
      | Uv \<Rightarrow> ret True
      | WorkspaceRepo \<Rightarrow> andthen (pull_workspace_repo H E c) (ret True))"

definition categorize_components :: "component list \<Rightarrow> component list \<times> component list" where
  "categorize_components comps =
     (let core = filter (\<lambda>c. co_group c = ''Core Dependencies'') comps
      in (core, filter (\<lambda>c. c \<notin> set core) comps))"

record installation_result =
  ir_component_name :: string
  ir_success :: bool
  ir_error :: "string option"

definition make_result :: "string \<Rightarrow> bool \<Rightarrow> installation_result" where
  "make_result name success = \<lparr>ir_component_name = name, ir_success = success, ir_error = None\<rparr>"

text \<open>The callbacks of the user interface, which may be missing.\<close>

record callbacks =
  on_progress :: "(nat \<Rightarrow> nat \<Rightarrow> string \<Rightarrow> unit io) option"
  on_result :: "(component \<Rightarrow> bool \<Rightarrow> unit io) option"

text \<open>The loop of both phases, from the index reached; \<open>lead\<close> is the text before a label.\<close>

fun install_list :: "host \<Rightarrow> boot_env \<Rightarrow> callbacks \<Rightarrow> nat \<Rightarrow> string \<Rightarrow> nat \<Rightarrow> component list
    \<Rightarrow> installation_result list \<Rightarrow> (nat \<times> installation_result list) io" where
  "install_list H E cb n lead idx [] results = ret (idx, results)"
| "install_list H E cb n lead idx (c # rest) results =
     andthen (case on_progress cb of None \<Rightarrow> ret () | Some f \<Rightarrow> f (idx + 1) n (lead @ co_label c))
     (bnd (install_component H E c) (\<lambda>success.
      andthen (case on_result cb of None \<Rightarrow> ret () | Some f \<Rightarrow> f c success)
        (install_list H E cb n lead (idx + 1) rest (results @ [make_result (co_name c) success]))))"

definition install_components :: "host \<Rightarrow> boot_env \<Rightarrow> callbacks \<Rightarrow> component list \<Rightarrow> installation_result list io" where
  "install_components H E cb comps =
     andthen (ensure_directories H E)
       (case categorize_components comps of (core, other) \<Rightarrow>
          bnd (install_list H E cb (length comps) ''Core: '' 0 core []) (\<lambda>(idx, results).
          bnd (install_list H E cb (length comps) [] idx other results) (\<lambda>(_, results). ret results)))"

section \<open>Facts\<close>

text \<open>The dictionary of groups holds, for each group once, its components in order.\<close>

lemma add_to_group_keys: "map fst (fold add_to_group cs d) = map fst d"
proof (induction cs arbitrary: d)
  case (Cons c cs)
  have "map fst (add_to_group c d) = map fst d"
    by (auto simp: add_to_group_def update_keys)
  then show ?case by (simp add: Cons.IH)
qed simp

lemma add_to_group_list:
  "g \<in> set (map fst d) \<Longrightarrow> get_list (fold add_to_group cs d) g = get_list d g @ filter (\<lambda>c. co_group c = g) cs"
proof (induction cs arbitrary: d)
  case (Cons c cs)
  have "g \<in> set (map fst (add_to_group c d))" using Cons.prems by (auto simp: add_to_group_def dom_update)
  then show ?case using Cons.prems by (simp add: Cons.IH) (auto simp: add_to_group_def)
qed simp

lemma install_list_results:
  "wp (install_list H E cb n lead idx cs results)
     (\<lambda>(idx', rs) _. \<exists>new. rs = results @ new \<and> map ir_component_name new = map co_name cs \<and> idx' = idx + length cs)
     (\<lambda>_ _. True) w"
proof (induction cs arbitrary: idx results w)
  case (Cons c cs)
  have "wp (install_list H E cb n lead (Suc idx) cs (results @ [make_result (co_name c) success]))
     (\<lambda>(idx', rs) _. \<exists>new. rs = results @ new \<and> map ir_component_name new = co_name c # map co_name cs \<and> idx' = Suc (idx + length cs))
     (\<lambda>_ _. True) w" for success w
    by (rule wp_mono [OF Cons.IH]) (auto simp: make_result_def intro: exI [of _ "make_result _ _ # _"])
  then show ?case
    unfolding install_list.simps andthen_def by (intro after_any) simp
qed (simp add: wps)

lemma install_components_results:
  "wp (install_components H E cb comps)
     (\<lambda>rs _. map ir_component_name rs = map co_name (filter (\<lambda>c. co_group c = ''Core Dependencies'') comps
        @ filter (\<lambda>c. co_group c \<noteq> ''Core Dependencies'') comps)) (\<lambda>_ _. True) w"
proof -
  have other: "filter (\<lambda>c. c \<in> set comps \<longrightarrow> co_group c \<noteq> ''Core Dependencies'') comps = filter (\<lambda>c. co_group c \<noteq> ''Core Dependencies'') comps"
    by (rule filter_cong) auto
  show ?thesis
    unfolding install_components_def categorize_components_def Let_def prod.case
    by (rule andthen_any, unfold wp_bnd, rule wp_mono [OF install_list_results])
      (auto simp: wps other intro!: wp_mono [OF install_list_results])
qed

text \<open>What may be run for a component.\<close>

fun runs_for :: "boot_env \<Rightarrow> component \<Rightarrow> request \<Rightarrow> bool" where
  "runs_for E c (Run k) \<longleftrightarrow> c_input k = [] \<and>
     (case co_type c of
        Script \<Rightarrow> c_cwd k = Some (be_root E) \<and>
          c_argv k = [''bash'', path_str (if truthy_opt (co_script_path c) then p_sub (be_root E) (the (co_script_path c))
                                         else p_sub (get_bootstrap_dir E) (the (co_script c)))]
      | Uv \<Rightarrow> False
      | WorkspaceRepo \<Rightarrow>
          c_cwd k = Some (p_sub (be_root E) (the (co_detect_path c))) \<and> c_argv k = [''git'', ''pull'', ''--ff-only''] \<or>
          c_cwd k = Some (be_root E) \<and>
          c_argv k = [''bash'', path_str (Path (absolute (be_root E)) (parts (be_root E) @ [''workspace'', ''scripts'', ''bin'', ''bootstrap-repos''])),
            ''--include'', co_name c])"
| "runs_for E c _ \<longleftrightarrow> False"

lemma emits_script: "P (Run (call_in (be_root E) (plain_call [''bash'', path_str p]))) \<Longrightarrow> emits P (run_script_at H E p f)"
  by (auto simp: run_script_at_def print_err_def intro!: emits_intros)

lemma emits_component: "emits (runs_for E c) (install_component H E c)"
proof (cases "co_type c")
  case Script
  then show ?thesis
    by (auto simp: install_component_def run_script_path_def run_bootstrap_script_def call_in_def plain_call_def
        intro!: emits_intros emits_script)
next
  case WorkspaceRepo
  then show ?thesis
    by (auto simp: install_component_def pull_workspace_repo_def Let_def call_in_def plain_call_def print_err_def child_def intro!: emits_intros)
qed (simp add: install_component_def emits_intros)

definition quiet_callbacks :: callbacks where
  "quiet_callbacks = \<lparr>on_progress = None, on_result = None\<rparr>"

lemma emits_install_list:
  "set cs \<subseteq> C \<Longrightarrow> emits (\<lambda>r. \<exists>c \<in> C. runs_for E c r) (install_list H E quiet_callbacks n lead idx cs results)"
proof (induction cs arbitrary: idx results)
  case (Cons c cs)
  have "emits (\<lambda>r. \<exists>c \<in> C. runs_for E c r) (install_component H E c)"
    using Cons.prems by (auto intro: emits_mono [OF emits_component])
  with Cons show ?case by (auto simp: quiet_callbacks_def intro!: emits_intros)
qed (simp add: emits_intros)

lemma emits_install:
  "emits (\<lambda>r. be_uid E \<noteq> 0 \<and> list_ex (\<lambda>c. runs_for E c r) comps) (install_components H E quiet_callbacks comps)"
proof (cases "be_uid E = 0")
  case True
  then show ?thesis
    by (auto simp: install_components_def ensure_directories_def andthen_def bnd_def raise_def emits_def)
next
  case False
  have quiet: "emits (\<lambda>r. be_uid E \<noteq> 0 \<and> list_ex (\<lambda>c. runs_for E c r) comps) (ensure_directories H E)"
    unfolding ensure_directories_def by (auto intro!: emits_intros)
  have list: "set cs \<subseteq> set comps \<Longrightarrow>
      emits (\<lambda>r. be_uid E \<noteq> 0 \<and> list_ex (\<lambda>c. runs_for E c r) comps) (install_list H E quiet_callbacks n lead idx cs results)"
    for n lead idx cs results
    using False by (auto simp: list_ex_iff intro: emits_mono [OF emits_install_list])
  show ?thesis
    unfolding install_components_def categorize_components_def Let_def prod.case
    by (intro emits_andthen emits_bnd quiet list) (auto split: prod.split intro!: emits_bnd list emits_intros)
qed

lemma pull_never_fails: "co_type c = WorkspaceRepo \<Longrightarrow> install_component H E c w = (Inr b, w') \<Longrightarrow> b"
  by (auto simp: install_component_def andthen_def bnd_def ret_def split: prod.splits sum.splits)

section \<open>Properties\<close>

text \<open>Core components come first. When an installation returns, it has one result for every component, in the
  order of the list with the core dependencies before all others.\<close>

theorem core_installed_first:
  "case fst (install_components H E cb comps w) of
     Inl _ \<Rightarrow> True
   | Inr rs \<Rightarrow> map ir_component_name rs =
       map co_name (filter (\<lambda>c. co_group c = ''Core Dependencies'') comps @ filter (\<lambda>c. co_group c \<noteq> ''Core Dependencies'') comps)"
  using install_components_results [of H E cb comps w] by (auto simp: wp_def split: prod.splits sum.splits)

text \<open>C29: an installation runs only the scripts of its components, and nothing as root. Every command of it belongs to
  a component of the list: its script in the root, the pull of its clone, or the script that clones it, without input;
  and there is none when the effective user is root.\<close>

theorem installs_only_components:
  "\<exists>rs. requests (snd (install_components H E quiet_callbacks comps w)) = requests w @ rs \<and>
     list_all (\<lambda>r. be_uid E \<noteq> 0 \<and> list_ex (\<lambda>c. runs_for E c r) comps) rs"
  using emits_install [of E comps H] by (simp add: emits_def)

text \<open>The groups of the menu partition the components of the declared groups.\<close>

lemma components_by_group:
  "g \<in> set groups \<Longrightarrow> get_list (get_components_by_group groups comps) g = filter (\<lambda>c. co_group c = g) comps"
proof -
  assume "g \<in> set groups"
  then have "g \<in> fst ` set (fold (\<lambda>g. AList.update g ([] :: component list)) groups [])"
    by (induction groups arbitrary: g rule: rev_induct) (auto simp: dom_update)
  then show ?thesis
    unfolding get_components_by_group_def
    by (simp add: add_to_group_list) (rule get_list_empty, simp add: get_list_def)
qed

end
