(* ===== verification/RepoChecks.thy ===== *)
theory RepoChecks
  imports Bootstrap
begin

text \<open>
  \<open>workspace/scripts/check_workspace_repos_aligned.py\<close> and \<open>find_duplicates.py\<close>. The YAML reader with its schema check is
  an argument of the first; the order in which Python walks a set is the argument \<open>set_order\<close>. The second walks directories, with
  the depth of the tree as fuel.
\<close>

section \<open>The two lists of repositories\<close>

record moon_sources =
  ms_globs :: "string list"
  ms_sources :: "(string \<times> string) list"

fun find_registries :: "host \<Rightarrow> world \<Rightarrow> nat \<Rightarrow> path \<Rightarrow> path option" where
  "find_registries H w 0 cur = None"
| "find_registries H w (Suc k) cur =
     (if cur = parent cur then None
      else if p_exists H w (child (child cur ''.moon'') ''workspace.yml'') \<and>
              p_exists H w (child (child (child cur ''workspace'') ''config'') ''workspace-clones.yaml'') then Some cur
      else find_registries H w k (parent cur))"

text \<open>A glob that ends in \<open>/moon.yml\<close> covers the paths that begin as it does before its first star, or without a star its own.\<close>

definition glob_covers :: "string \<Rightarrow> string \<Rightarrow> bool" where
  "glob_covers path glob \<longleftrightarrow>
     (let marker = ''/moon.yml''; stem = take (length glob - length marker) glob in
      if \<not> suffix marker glob then False
      else if CHR ''*'' \<notin> set stem then path = stem
      else prefix (takeWhile (\<lambda>c. c \<noteq> CHR ''*'') stem) path)"

definition glob_covered :: "string list \<Rightarrow> string \<Rightarrow> bool" where
  "glob_covered globs path \<longleftrightarrow> list_ex (glob_covers path) globs"

record registry_drift =
  rd_only_in_moon :: "string list"
  rd_only_in_clones :: "string list"
  rd_mismatches :: "(string \<times> string \<times> string) list"

text \<open>The comparison; the umbrella entry is left out, and a repository that is only cloned is allowed where a glob finds it.\<close>

definition compare_registries :: "(string list \<Rightarrow> string list) \<Rightarrow> moon_sources \<Rightarrow> (string \<times> string) list \<Rightarrow> registry_drift" where
  "compare_registries set_order moon clones =
     (let projects = filter (\<lambda>(k, v). v \<noteq> ''.'') (ms_sources moon);
          moon_ids = map fst projects; clone_ids = map fst clones;
          shared = set_order (filter (\<lambda>i. i \<in> set clone_ids) moon_ids)
      in \<lparr>rd_only_in_moon = filter (\<lambda>i. i \<notin> set clone_ids) moon_ids,
          rd_only_in_clones = filter (\<lambda>i. i \<notin> set moon_ids \<and> \<not> glob_covered (ms_globs moon) (the (map_of clones i))) clone_ids,
          rd_mismatches = map (\<lambda>i. (i, the (map_of projects i), the (map_of clones i)))
            (filter (\<lambda>i. map_of projects i \<noteq> map_of clones i) shared)\<rparr>)"

definition aligned :: "registry_drift \<Rightarrow> bool" where
  "aligned d \<longleftrightarrow> rd_only_in_moon d = [] \<and> rd_only_in_clones d = [] \<and> rd_mismatches d = []"

definition list_repr :: "string list \<Rightarrow> string" where
  "list_repr xs = ''['' @ join '', '' (map py_repr xs) @ '']''"

definition print_drift :: "registry_drift \<Rightarrow> unit io" where
  "print_drift d =
     andthen (print_err ([CHR 0xE2, CHR 0x9C, CHR 0x97] @ '' workspace registries drifted between .moon/workspace.yml and workspace/config/workspace-clones.yaml''))
    (andthen (when_io (rd_only_in_moon d \<noteq> [])
        (print_err (''  in .moon/workspace.yml but missing from workspace-clones.yaml: '' @ list_repr (sort (rd_only_in_moon d)))))
    (andthen (when_io (rd_only_in_clones d \<noteq> [])
        (print_err (''  in workspace-clones.yaml but missing from .moon/workspace.yml: '' @ list_repr (sort (rd_only_in_clones d)))))
       (each (\<lambda>(i, m, c). print_err (''  path mismatch for '' @ sq @ i @ sq @ '': moon='' @ py_repr m @ '' vs clones='' @ py_repr c))
          (rd_mismatches d))))"

definition infra_failure :: "exn \<Rightarrow> bool" where
  "infra_failure e \<longleftrightarrow> is_os_error e \<or> (case e of YAMLError _ \<Rightarrow> True | ValueError _ \<Rightarrow> True | _ \<Rightarrow> False)"

definition repos_aligned_main :: "host \<Rightarrow> (string list \<Rightarrow> string list) \<Rightarrow> (string \<Rightarrow> exn + moon_sources)
    \<Rightarrow> (string \<Rightarrow> exn + (string \<times> string) list) \<Rightarrow> path \<Rightarrow> int io" where
  "repos_aligned_main H set_order load_moon load_clones this_file =
     (let start = parent (resolve (h_cwd H) this_file) in
      bnd (asks (\<lambda>w. find_registries H w (Suc (length (parts start))) start)) (\<lambda>found.
        case found of
          None \<Rightarrow> andthen (print_err ''ERROR: cannot find workspace root with both .moon/workspace.yml and workspace/config/workspace-clones.yaml'') (ret 2)
        | Some root \<Rightarrow>
            bnd (catch infra_failure
                   (bnd (read_text H (child (child root ''.moon'') ''workspace.yml'')) (\<lambda>s.
                    bnd (lift_sum (load_moon s)) (\<lambda>moon.
                    bnd (read_text H (child (child (child root ''workspace'') ''config'') ''workspace-clones.yaml'')) (\<lambda>s.
                    bnd (lift_sum (load_clones s)) (\<lambda>clones. ret (Some (moon, clones)))))))
                   (\<lambda>e. andthen (print_err (''ERROR: failed to load registries: '' @ h_str H e)) (ret None)))
              (\<lambda>loaded. case loaded of
                 None \<Rightarrow> ret 2
               | Some (moon, clones) \<Rightarrow>
                   (let d = compare_registries set_order moon clones in
                    if aligned d
                    then andthen (print_out ([CHR 0xE2, CHR 0x9C, CHR 0x93] @ '' .moon/workspace.yml and workspace-clones.yaml are aligned'')) (ret 0)
                    else andthen (print_drift d) (ret 1)))))"

section \<open>What the check decides\<close>

text \<open>A path that a glob of a project file reaches: the glob names it, or the path begins with what stands before the first star.\<close>

definition reached :: "string list \<Rightarrow> string \<Rightarrow> bool" where
  "reached globs path \<longleftrightarrow>
     (\<exists>a rest after. path = a @ rest \<and> CHR ''*'' \<notin> set a \<and> a @ ''*'' @ after @ ''/moon.yml'' \<in> set globs) \<or>
     CHR ''*'' \<notin> set path \<and> path @ ''/moon.yml'' \<in> set globs"

text \<open>Two registries agree when every project of the one but the umbrella is cloned at its path, and every clone is such a project or is
  reached by a glob.\<close>

definition registries_agree :: "moon_sources \<Rightarrow> (string \<times> string) list \<Rightarrow> bool" where
  "registries_agree moon clones \<longleftrightarrow>
     (let projects = filter (\<lambda>(k, v). v \<noteq> ''.'') (ms_sources moon) in
      list_all (\<lambda>i. map_of clones i = map_of projects i) (map fst projects) \<and>
      list_all (\<lambda>i. map_of projects i \<noteq> None \<or> reached (ms_globs moon) (the (map_of clones i))) (map fst clones))"

lemma glob_covers_stem:
  "glob_covers path glob \<longleftrightarrow> (\<exists>stem. glob = stem @ ''/moon.yml'' \<and>
     (if CHR ''*'' \<in> set stem then prefix (takeWhile (\<lambda>c. c \<noteq> CHR ''*'') stem) path else path = stem))"
  by (auto simp: glob_covers_def Let_def suffix_def)

lemma before_star: "CHR ''*'' \<in> set stem \<longleftrightarrow> (\<exists>after. stem = takeWhile (\<lambda>c. c \<noteq> CHR ''*'') stem @ CHR ''*'' # after)"
proof
  assume "CHR ''*'' \<in> set stem"
  then show "\<exists>after. stem = takeWhile (\<lambda>c. c \<noteq> CHR ''*'') stem @ CHR ''*'' # after"
    by (induction stem) auto
next
  assume "\<exists>after. stem = takeWhile (\<lambda>c. c \<noteq> CHR ''*'') stem @ CHR ''*'' # after"
  then obtain after where "stem = takeWhile (\<lambda>c. c \<noteq> CHR ''*'') stem @ CHR ''*'' # after" by blast
  then show "CHR ''*'' \<in> set stem" by (metis in_set_conv_decomp)
qed

lemma glob_covered_reached: "glob_covered globs path \<longleftrightarrow> reached globs path"
proof
  assume "glob_covered globs path"
  then obtain stem where stem: "stem @ ''/moon.yml'' \<in> set globs"
    and m: "if CHR ''*'' \<in> set stem then prefix (takeWhile (\<lambda>c. c \<noteq> CHR ''*'') stem) path else path = stem"
    by (auto simp: glob_covered_def list_ex_iff glob_covers_stem)
  show "reached globs path"
  proof (cases "CHR ''*'' \<in> set stem")
    case True
    then obtain after where after: "stem = takeWhile (\<lambda>c. c \<noteq> CHR ''*'') stem @ CHR ''*'' # after" using before_star by blast
    from m True obtain rest where "path = takeWhile (\<lambda>c. c \<noteq> CHR ''*'') stem @ rest" by (auto simp: prefix_def)
    moreover have "takeWhile (\<lambda>c. c \<noteq> CHR ''*'') stem @ ''*'' @ after @ ''/moon.yml'' \<in> set globs"
      using stem after by (metis append.assoc append_Cons append_Nil)
    moreover have "CHR ''*'' \<notin> set (takeWhile (\<lambda>c. c \<noteq> CHR ''*'') stem)" by (auto dest: set_takeWhileD)
    ultimately show ?thesis unfolding reached_def by blast
  next
    case False
    with m stem show ?thesis unfolding reached_def by simp
  qed
next
  assume "reached globs path"
  then consider (star) a rest after where "path = a @ rest" "CHR ''*'' \<notin> set a" "(a @ ''*'' @ after) @ ''/moon.yml'' \<in> set globs"
    | (named) "CHR ''*'' \<notin> set path" "path @ ''/moon.yml'' \<in> set globs"
    by (auto simp: reached_def)
  then show "glob_covered globs path"
  proof cases
    case star
    have "takeWhile (\<lambda>c. c \<noteq> CHR ''*'') (a @ ''*'' @ after) = a" using star(2) by (auto simp: takeWhile_append)
    then have "glob_covers path ((a @ ''*'' @ after) @ ''/moon.yml'')" unfolding glob_covers_stem using star(1) by fastforce
    with star(3) show ?thesis by (auto simp: glob_covered_def list_ex_iff)
  next
    case named
    then have "glob_covers path (path @ ''/moon.yml'')" unfolding glob_covers_stem by auto
    with named(2) show ?thesis by (auto simp: glob_covered_def list_ex_iff)
  qed
qed

lemma map_of_key: "i \<in> set (map fst xs) \<longleftrightarrow> map_of xs i \<noteq> None"
  by (simp add: map_of_eq_None_iff)

text \<open>C40: the check passes exactly when the registries agree. Whatever the order in which sets are walked, the comparison finds no
  drift exactly when every project but the umbrella (the one at the path of the root) is cloned at its path, and every clone is such
  a project or its path is reached by a glob: named by it, or beginning with what the glob has before its first star.\<close>

theorem check_decides_agreement:
  assumes "\<And>xs. set (set_order xs) = set xs"
  shows "aligned (compare_registries set_order moon clones) \<longleftrightarrow> registries_agree moon clones"
proof -
  define projects where "projects = filter (\<lambda>(k, v). v \<noteq> ''.'') (ms_sources moon)"
  define P C where "P = map_of projects" and "C = map_of clones"
  have M: "i \<in> set (map fst projects) \<longleftrightarrow> P i \<noteq> None" and N: "i \<in> set (map fst clones) \<longleftrightarrow> C i \<noteq> None" for i
    by (simp_all add: P_def C_def map_of_eq_None_iff)
  have "aligned (compare_registries set_order moon clones) \<longleftrightarrow>
      (\<forall>i. P i \<noteq> None \<longrightarrow> C i \<noteq> None) \<and> (\<forall>i. C i \<noteq> None \<longrightarrow> P i \<noteq> None \<or> glob_covered (ms_globs moon) (the (C i))) \<and>
      (\<forall>i. P i \<noteq> None \<longrightarrow> C i \<noteq> None \<longrightarrow> P i = C i)"
    unfolding aligned_def compare_registries_def Let_def registry_drift.simps map_is_Nil_conv filter_empty_conv
      projects_def [symmetric] P_def [symmetric] C_def [symmetric] assms set_filter mem_Collect_eq M N Ball_def by blast
  also have "\<dots> \<longleftrightarrow> (\<forall>i. P i \<noteq> None \<longrightarrow> C i \<noteq> None) \<and> (\<forall>i. C i \<noteq> None \<longrightarrow> P i \<noteq> None \<or> reached (ms_globs moon) (the (C i))) \<and>
      (\<forall>i. P i \<noteq> None \<longrightarrow> C i \<noteq> None \<longrightarrow> P i = C i)" by (simp only: glob_covered_reached)
  finally have "aligned (compare_registries set_order moon clones) \<longleftrightarrow> \<dots>" .
  moreover have "registries_agree moon clones \<longleftrightarrow>
      (\<forall>i. P i \<noteq> None \<longrightarrow> C i = P i) \<and> (\<forall>i. C i \<noteq> None \<longrightarrow> P i \<noteq> None \<or> reached (ms_globs moon) (the (C i)))"
    unfolding registries_agree_def Let_def projects_def [symmetric] P_def [symmetric] C_def [symmetric] list_all_iff Ball_def M N ..
  ultimately show ?thesis by metis
qed

definition demo_moon :: moon_sources where
  "demo_moon = \<lparr>ms_globs = [''projects/*/moon.yml''], ms_sources = [(''root'', ''.''), (''ci'', ''projects/ci'')]\<rparr>"

theorem check_decides_agreement_witness:
  "aligned (compare_registries rev demo_moon [(''ci'', ''projects/ci''), (''extra'', ''projects/extra'')]) \<and>
   \<not> aligned (compare_registries rev demo_moon [(''ci'', ''projects/other'')])"
proof -
  have "registries_agree demo_moon [(''ci'', ''projects/ci''), (''extra'', ''projects/extra'')]"
    "\<not> registries_agree demo_moon [(''ci'', ''projects/other'')]"
    unfolding registries_agree_def Let_def glob_covered_reached [symmetric] by code_simp+
  then show ?thesis using check_decides_agreement [of rev] by simp
qed

section \<open>Duplicate file names\<close>

record listed_file =
  lf_name :: string
  lf_path :: path

definition is_subdirectory :: "host \<Rightarrow> path \<Rightarrow> path \<Rightarrow> bool" where
  "is_subdirectory H above_dir dir \<longleftrightarrow> below (resolve (h_cwd H) above_dir) (resolve (h_cwd H) dir)"

text \<open>The files below a directory, without hidden directories, directories of the name \<open>skip\<close>, and names with an underscore.\<close>

fun walk_files :: "nat \<Rightarrow> host \<Rightarrow> world \<Rightarrow> string option \<Rightarrow> path \<Rightarrow> listed_file list" where
  "walk_files 0 H w skip dir = []"
| "walk_files (Suc depth) H w skip dir =
     (let names = h_children H w dir;
          dirs = filter (\<lambda>d. is_dir H w (child dir d) \<and> \<not> prefix ''.'' d \<and> Some d \<noteq> skip) names;
          files = filter (\<lambda>n. \<not> is_dir H w (child dir n) \<and> \<not> prefix ''_'' n) names
      in map (\<lambda>n. \<lparr>lf_name = n, lf_path = child dir n\<rparr>) files @ concat (map (\<lambda>d. walk_files depth H w skip (child dir d)) dirs))"

definition get_all_filenames :: "nat \<Rightarrow> host \<Rightarrow> world \<Rightarrow> path \<Rightarrow> path option \<Rightarrow> listed_file list" where
  "get_all_filenames depth H w dir dir_to_skip = walk_files depth H w (map_option path_name dir_to_skip) dir"

record duplicate_result =
  dr_duplicates :: "string list"
  dr_entries_a :: "listed_file list"
  dr_entries_b :: "listed_file list"

definition common_names :: "listed_file list \<Rightarrow> listed_file list \<Rightarrow> string list" where
  "common_names a b = filter (\<lambda>n. n \<in> lf_name ` set b) (remdups (map lf_name a))"

definition find_duplicates :: "nat \<Rightarrow> host \<Rightarrow> path \<Rightarrow> path \<Rightarrow> duplicate_result io" where
  "find_duplicates depth H dir_a dir_b =
     bnd (if is_subdirectory H dir_a dir_b
          then andthen (print_out (''Skipping '' @ path_str dir_b @ '' since it'' @ sq @ ''s a child of '' @ path_str dir_a))
                 (asks (\<lambda>w. (get_all_filenames depth H w dir_a (Some dir_b), [])))
          else if is_subdirectory H dir_b dir_a
          then andthen (print_out (''Skipping '' @ path_str dir_a @ '' since it'' @ sq @ ''s a child of '' @ path_str dir_b))
                 (asks (\<lambda>w. ([], get_all_filenames depth H w dir_b (Some dir_a))))
          else asks (\<lambda>w. (get_all_filenames depth H w dir_a None, get_all_filenames depth H w dir_b None)))
       (\<lambda>(a, b). ret \<lparr>dr_duplicates = common_names a b, dr_entries_a = a, dr_entries_b = b\<rparr>)"

text \<open>\<open>Path.suffix\<close> and \<open>Path.stem\<close> of a name.\<close>

definition name_suffix :: "string \<Rightarrow> string" where
  "name_suffix n =
     (let ext = rev (takeWhile (\<lambda>c. c \<noteq> CHR ''.'') (rev n)) in
      if ext \<noteq> [] \<and> length ext + 1 < length n then CHR ''.'' # ext else [])"

definition name_stem :: "string \<Rightarrow> string" where
  "name_stem n = take (length n - length (name_suffix n)) n"

definition numbered :: "path \<Rightarrow> nat \<Rightarrow> path" where
  "numbered p counter =
     (if counter = 0 then p
      else child (parent p) (name_stem (path_name p) @ ''_'' @ show_nat counter @ name_suffix (path_name p)))"

text \<open>The search for a free name, which ends where only finitely many are taken; \<open>fuel\<close> bounds their number.\<close>

fun free_destination :: "host \<Rightarrow> world \<Rightarrow> nat \<Rightarrow> path \<Rightarrow> nat \<Rightarrow> path option" where
  "free_destination H w 0 p counter = None"
| "free_destination H w (Suc fuel) p counter =
     (if p_exists H w (numbered p counter) then free_destination H w fuel p (Suc counter) else Some (numbered p counter))"

lemma free_destination_found:
  assumes "\<not> p_exists H w (numbered p (counter + n))" "n < fuel"
  obtains q where "free_destination H w fuel p counter = Some q" "\<not> p_exists H w q"
proof -
  have "\<exists>q. free_destination H w fuel p counter = Some q \<and> \<not> p_exists H w q"
    using assms
  proof (induction fuel arbitrary: counter n)
    case (Suc fuel)
    show ?case
    proof (cases "p_exists H w (numbered p counter)")
      case True
      with Suc.prems obtain m where "n = Suc m" by (cases n) auto
      with Suc.prems True Suc.IH [of "Suc counter" m] show ?thesis by simp
    qed simp
  qed simp
  with that show thesis by blast
qed

text \<open>One duplicate is moved; a failure is reported and not counted. The last case does not arise with enough fuel.\<close>

definition move_entry :: "host \<Rightarrow> nat \<Rightarrow> path \<Rightarrow> listed_file \<Rightarrow> nat io" where
  "move_entry H fuel trash_path entry =
     catch is_os_error
       (bnd (asks (\<lambda>w. free_destination H w fuel (child trash_path (path_name (lf_path entry))) 0)) (\<lambda>dest.
          case dest of
            Some d \<Rightarrow> andthen (rename_file H (lf_path entry) d)
                       (andthen (print_out (''Moved to trash: '' @ path_str (lf_path entry))) (ret 1))
          | None \<Rightarrow> ret 0))
       (\<lambda>e. andthen (print_err (''Error moving '' @ path_str (lf_path entry) @ '': '' @ h_str H e @ nl)) (ret 0))"

definition move_to_trash :: "host \<Rightarrow> nat \<Rightarrow> string \<Rightarrow> listed_file list \<Rightarrow> path \<Rightarrow> nat io" where
  "move_to_trash H fuel dup entries trash_path =
     bnd (collect (move_entry H fuel trash_path) (filter (\<lambda>e. lf_name e = dup) entries)) (\<lambda>ns. ret (sum_list ns))"

definition duplicates_main :: "nat \<Rightarrow> nat \<Rightarrow> host \<Rightarrow> (string list \<Rightarrow> string list) \<Rightarrow> path \<Rightarrow> path \<Rightarrow> bool \<Rightarrow> unit io" where
  "duplicates_main depth fuel H set_order dir_a dir_b trash =
     bnd (asks (\<lambda>w. is_dir H w dir_a \<and> is_dir H w dir_b)) (\<lambda>valid.
       if \<not> valid then print_out ''Error: Both arguments must be valid directories''
       else bnd (find_duplicates depth H dir_a dir_b) (\<lambda>r.
         if dr_duplicates r = [] then print_out ''No duplicate filenames found.''
         else andthen (print_out (''Found '' @ show_nat (length (dr_duplicates r)) @ '' duplicate filenames:''))
             (andthen (each (\<lambda>d. print_out (''  '' @ d)) (sort (dr_duplicates r)))
             (when_io trash
                (let trash_path = mk_path ''.trash'' in
                 andthen (mkdir_parents H trash_path)
                (andthen (print_out (nl @ ''Moving all duplicate files to '' @ path_str (resolve (h_cwd H) trash_path) @ ''...''))
                (bnd (collect (\<lambda>dup. bnd (move_to_trash H fuel dup (dr_entries_a r) trash_path) (\<lambda>a.
                         bnd (move_to_trash H fuel dup (dr_entries_b r) trash_path) (\<lambda>b. ret (a + b)))) (set_order (dr_duplicates r))) (\<lambda>ns.
                   print_out (''Moved '' @ show_nat (sum_list ns) @ '' files to trash.'')))))))))"

text \<open>A directory and one inside it have no duplicates for this program, because the files of the inner one are never listed.\<close>

lemma nested_never_duplicates:
  assumes "is_subdirectory H dir_a dir_b \<or> is_subdirectory H dir_b dir_a"
  shows "wp (find_duplicates depth H dir_a dir_b) (\<lambda>r _. dr_duplicates r = []) (\<lambda>_ _. False) w"
  using assms by (auto simp: find_duplicates_def wps print_out_def common_names_def)

end
