(* ===== verification/CliTools.thy ===== *)
theory CliTools
  imports Bootstrap
begin

text \<open>
  The front ends of external tools in \<open>workspace/scripts/bin\<close> (\<open>docs.py\<close>, \<open>openssl.py\<close>, \<open>tunnel.py\<close>) and two readers of
  small files, \<open>scripts/utils/read_pin.py\<close> and \<open>scripts/services/gitleaks_report.py\<close>. \<open>args\<close> are the arguments after the name
  of the program; the YAML and JSON readers and the text of a compound value are arguments.
\<close>

section \<open>docs\<close>

definition TOOLS :: "(string \<times> string) list" where
  "TOOLS =
     [(''pandoc'', ''Document converter (Markdown, HTML, DOCX, PDF, etc.)''), (''wkhtmltopdf'', ''HTML to PDF renderer''),
      (''wkhtmltoimage'', ''HTML to image renderer''), (''pdflatex'', ''LaTeX to PDF (pdfTeX engine)''),
      (''xelatex'', ''LaTeX to PDF (XeTeX engine, Unicode)''), (''lualatex'', ''LaTeX to PDF (LuaTeX engine)''),
      (''pdfjam'', ''PDF page manipulation (n-up, merge, crop)'')]"

text \<open>\<open>WORKSPACE_ROOT\<close>, without which the program ends.\<close>

definition required_root :: "host \<Rightarrow> path io" where
  "required_root H =
     (case h_env H ''WORKSPACE_ROOT'' of
        Some r \<Rightarrow> if r \<noteq> [] then ret (mk_path r) else andthen (print_err ''Error: WORKSPACE_ROOT not set'') (raise (SystemExit 1))
      | None \<Rightarrow> andthen (print_err ''Error: WORKSPACE_ROOT not set'') (raise (SystemExit 1)))"

text \<open>A tool of the boot directory, or else of the search path.\<close>

definition find_tool :: "host \<Rightarrow> string \<Rightarrow> string option io" where
  "find_tool H name =
     bnd (required_root H) (\<lambda>root.
       let boot = child (child (child root ''.boot-linux'') ''bin'') name in
       asks (\<lambda>w. if p_exists H w boot then Some (path_str boot) else h_which H w name))"

definition left_padded :: "nat \<Rightarrow> string \<Rightarrow> string" where
  "left_padded width s = s @ replicate (width - length s) (CHR '' '')"

definition help_line :: "host \<Rightarrow> string \<times> string \<Rightarrow> unit io" where
  "help_line H = (\<lambda>(name, desc).
     bnd (find_tool H name) (\<lambda>found.
       print_out (''  '' @ left_padded 16 name @ '' '' @ desc @ '' ('' @ (if truthy_opt found then ''installed'' else ''not found'') @ '')'')))"

definition print_docs_help :: "host \<Rightarrow> unit io" where
  "print_docs_help H =
     andthen (each print_out [''docs: Document production tools'' @ nl, ''Usage: docs <tool> [tool-args...]'' @ nl, ''Tools:''])
    (andthen (each (help_line H) TOOLS)
       (each print_out [nl @ ''Examples:'', ''  docs pandoc README.md -o README.pdf'', ''  docs pandoc README.md -t docx -o README.docx'',
          ''  docs wkhtmltopdf report.html report.pdf'', ''  docs pdflatex paper.tex'', ''  docs xelatex paper.tex'',
          ''  docs pdfjam --nup 2x2 slides.pdf --outfile handout.pdf'']))"

definition docs_main :: "host \<Rightarrow> string list \<Rightarrow> int io" where
  "docs_main H args =
     (case args of
        [] \<Rightarrow> andthen (print_docs_help H) (ret 0)
      | tool # rest \<Rightarrow>
          if tool \<in> {''-h'', ''--help''} then andthen (print_docs_help H) (ret 0)
          else if tool \<notin> fst ` set TOOLS
          then andthen (print_err (''Unknown tool: '' @ tool))
              (andthen (print_err (''Available: '' @ join '', '' (map fst TOOLS))) (ret 1))
          else bnd (find_tool H tool) (\<lambda>binary.
               if \<not> truthy_opt binary
               then andthen (print_err (''Error: '' @ tool @ '' not found. Run bootstrap to install it.'')) (ret 1)
               else bnd (run_checked H (plain_call (the binary # rest))) (\<lambda>_. ret 0)))"

section \<open>openssl\<close>

definition find_cert_dir :: "host \<Rightarrow> string option io" where
  "find_cert_dir H =
     bnd (required_root H) (\<lambda>root.
       let dirs = map (child (child (child root ''workspace'') ''config'')) [''certs'', ''ssl'', ''tls''] in
       asks (\<lambda>w. map_option path_str (find_first (is_dir H w) dirs)))"

text \<open>The command and the value of \<open>SSL_CERT_DIR\<close> that its environment is given, if any.\<close>

definition openssl_main :: "host \<Rightarrow> (string option \<Rightarrow> string list \<Rightarrow> int io) \<Rightarrow> string list \<Rightarrow> int io" where
  "openssl_main H run args =
     bnd (find_tool H ''openssl'') (\<lambda>binary.
       if \<not> truthy_opt binary then andthen (print_err ''Error: openssl not found. Run bootstrap to install it.'') (ret 1)
       else bnd (if list_ex (\<lambda>a. a \<in> {''-CApath'', ''-CAfile''}) args then ret None else find_cert_dir H) (\<lambda>cert_dir.
            run cert_dir (the binary # args)))"

text \<open>The environment is not part of a call: only its command reaches the outside.\<close>

definition run_openssl :: "host \<Rightarrow> string option \<Rightarrow> string list \<Rightarrow> int io" where
  "run_openssl H cert_dir cmd = bnd (run_checked H (plain_call cmd)) (\<lambda>_. ret 0)"

section \<open>tunnel\<close>

definition resolve_cloudflared :: "host \<Rightarrow> world \<Rightarrow> string option" where
  "resolve_cloudflared H w =
     (let env = (\<lambda>k. strip (case h_env H k of None \<Rightarrow> [] | Some v \<Rightarrow> v));
          usable = (\<lambda>p. is_file H w p \<and> h_executable H p);
          explicit = env ''CLOUDFLARED_BIN''; root = env ''WORKSPACE_ROOT'';
          boot_bin = child (child (child (mk_path root) (if h_system H = ''Darwin'' then ''.boot-macos'' else ''.boot-linux'')) ''bin'')
            ''cloudflared''
      in if explicit \<noteq> [] then (if usable (mk_path explicit) then Some (path_str (mk_path explicit)) else None)
         else if root \<noteq> [] \<and> usable boot_bin then Some (path_str boot_bin)
         else (case h_which H w ''cloudflared'' of None \<Rightarrow> None | Some s \<Rightarrow> if s = [] then None else Some s))"

definition resolve_tunnel_config :: "host \<Rightarrow> world \<Rightarrow> string option" where
  "resolve_tunnel_config H w =
     (let vs = map (\<lambda>k. strip (case h_env H k of None \<Rightarrow> [] | Some v \<Rightarrow> v)) [''TUNNEL_CONFIG'', ''CLOUDFLARED_CONFIG''] in
      map_option (\<lambda>v. path_str (mk_path v)) (find_first (\<lambda>v. v \<noteq> [] \<and> is_file H w (mk_path v)) vs))"

definition wrapper_usage :: string where
  "wrapper_usage = unlines
     [''WORKSPACE Cloudflare Tunnel wrapper (cloudflared passthrough)'', [], ''Environment:'',
      ''  CLOUDFLARED_BIN     Path to cloudflared (optional; else boot bin or PATH)'',
      ''  TUNNEL_CONFIG       Config file auto-passed as --config when set'', ''  CLOUDFLARED_CONFIG  Alias for TUNNEL_CONFIG'',
      ''  WORKSPACE_ROOT            Optional; used only to locate .boot-linux/bin/cloudflared'', [], ''Examples:'',
      ''  tunnel tunnel login'', ''  tunnel tunnel create <name>'', ''  tunnel tunnel route dns <name> <hostname>'',
      ''  tunnel tunnel --config /path/to/config.yml run'', [],
      ''Run '' @ sq @ ''tunnel --help'' @ sq @ '' for cloudflared command reference.'']"

definition cloudflared_not_found_message :: "unit io" where
  "cloudflared_not_found_message = print_err ''Error: cloudflared not found. Set CLOUDFLARED_BIN or run bootstrap.''"

definition run_cloudflared :: "host \<Rightarrow> string list \<Rightarrow> int io" where
  "run_cloudflared H cmd =
     bnd (run_raw H (plain_call cmd)) (\<lambda>r.
       case r of
         Exit rc so se \<Rightarrow> ret rc
       | RunTimeout \<Rightarrow> raise TimeoutExpired
       | RunOSError m \<Rightarrow> andthen (print_err (''Error: failed to run '' @ hd cmd @ '': '' @ m)) (ret 1))"

definition tunnel_args :: "host \<Rightarrow> world \<Rightarrow> string list \<Rightarrow> string list" where
  "tunnel_args H w args =
     (if list_ex (\<lambda>a. a \<in> {''--config'', ''-c''}) args then args
      else case resolve_tunnel_config H w of None \<Rightarrow> args | Some c \<Rightarrow> ''--config'' # c # args)"

definition tunnel_main :: "host \<Rightarrow> string list \<Rightarrow> int io" where
  "tunnel_main H args =
     (if args = [] then andthen (print_err wrapper_usage) (ret 0)
      else bnd (asks (resolve_cloudflared H)) (\<lambda>binary.
        if list_ex (\<lambda>a. a \<in> {''-h'', ''--help''}) args then
          (case binary of
             None \<Rightarrow> andthen (print_err wrapper_usage) (andthen cloudflared_not_found_message (ret 1))
           | Some b \<Rightarrow> run_cloudflared H [b, ''--help''])
        else
          (case binary of
             None \<Rightarrow> andthen cloudflared_not_found_message (ret 1)
           | Some b \<Rightarrow> bnd (asks (\<lambda>w. tunnel_args H w args)) (\<lambda>args. run_cloudflared H (b # args)))))"

section \<open>Readers\<close>

text \<open>\<open>read_pin\<close>: the value at a dotted key; \<open>None\<close> where a segment is absent.\<close>

fun read_segments :: "yaml \<Rightarrow> string list \<Rightarrow> yaml option" where
  "read_segments v [] = Some v"
| "read_segments v (part # segments) =
     (case as_map v of
        None \<Rightarrow> None
      | Some kvs \<Rightarrow> (case map_of kvs (YStr part) of None \<Rightarrow> None | Some v' \<Rightarrow> read_segments v' segments))"

definition read_pin :: "yaml \<Rightarrow> string \<Rightarrow> yaml option" where
  "read_pin data dotted_key = read_segments data (split_on (CHR ''.'') dotted_key)"

definition read_pin_main :: "host \<Rightarrow> (string \<Rightarrow> exn + yaml) \<Rightarrow> (yaml \<Rightarrow> string) \<Rightarrow> string list \<Rightarrow> int io" where
  "read_pin_main H safe_load show argv =
     (case argv of
        [pins, key] \<Rightarrow>
          bnd (read_text H (mk_path pins)) (\<lambda>s.
          bnd (lift_sum (safe_load s)) (\<lambda>data.
          andthen (case read_pin data key of
                     None \<Rightarrow> ret () | Some v \<Rightarrow> if v = YNull then ret () else print_out (y_str show v))
            (ret 0)))
      | _ \<Rightarrow> andthen (print_err ''usage: read_pin.py <pins.yaml> <dotted.key>'') (ret 2))"

definition count_findings :: "host \<Rightarrow> (string \<Rightarrow> exn + yaml) \<Rightarrow> path \<Rightarrow> nat io" where
  "count_findings H loads report_path =
     bnd (read_text H report_path) (\<lambda>s.
     bnd (lift_sum (loads s)) (\<lambda>data.
       if data = YNull then ret 0
       else case as_list data of
         None \<Rightarrow> raise (TypeError (''gitleaks report is not a JSON array: '' @ path_str report_path))
       | Some xs \<Rightarrow> ret (length xs)))"

definition gitleaks_main :: "host \<Rightarrow> (string \<Rightarrow> exn + yaml) \<Rightarrow> string list \<Rightarrow> int io" where
  "gitleaks_main H loads argv =
     (case argv of
        [p] \<Rightarrow> bnd (count_findings H loads (mk_path p)) (\<lambda>n. andthen (print_out (show_nat n)) (ret 0))
      | _ \<Rightarrow> andthen (print_err ''usage: gitleaks_report.py <gitleaks-report.json>'') (ret 2))"

section \<open>What the front ends send\<close>

text \<open>The command of a front end: the tool, then the user's arguments, for the tunnel possibly with a configuration before them
  or the request for help in their place.\<close>

definition passes_on :: "string list \<Rightarrow> request \<Rightarrow> bool" where
  "passes_on args r \<longleftrightarrow>
     (case r of Run c \<Rightarrow>
        c_argv c \<noteq> [] \<and> (tl (c_argv c) = args \<or> tl (c_argv c) = [''--help''] \<or>
          take 1 (tl (c_argv c)) = [''--config''] \<and> drop 3 (c_argv c) = args)
      | _ \<Rightarrow> False)"

lemma emits_find_tool [emits_intros]: "emits P (find_tool H name)"
  unfolding find_tool_def required_root_def by (intro emits_intros)

lemma emits_docs_help [emits_intros]: "emits P (print_docs_help H)"
  unfolding print_docs_help_def help_line_def by (intro emits_intros)

lemma emits_cert_dir [emits_intros]: "emits P (find_cert_dir H)"
  unfolding find_cert_dir_def required_root_def by (intro emits_intros)

lemma emits_cloudflared [emits_intros]: "P (Run (plain_call cmd)) \<Longrightarrow> emits P (run_cloudflared H cmd)"
  unfolding run_cloudflared_def by (intro emits_intros)

text \<open>The front ends add nothing to what the user asks of a tool, but the configuration of the tunnel.\<close>

theorem front_ends_pass_on:
  "emits (passes_on (tl args)) (docs_main H args) \<and> emits (passes_on args) (openssl_main H (run_openssl H) args) \<and>
   emits (passes_on args) (tunnel_main H args)"
proof (intro conjI)
  show "emits (passes_on (tl args)) (docs_main H args)"
    unfolding docs_main_def by (intro emits_intros) (simp_all add: passes_on_def plain_call_def)
  show "emits (passes_on args) (openssl_main H (run_openssl H) args)"
    unfolding openssl_main_def run_openssl_def by (intro emits_intros) (simp_all add: passes_on_def plain_call_def)
  have tail: "emits (passes_on args) (bnd (asks (\<lambda>w. tunnel_args H w args)) (\<lambda>args. run_cloudflared H (b # args)))" for b
  proof -
    have "emits (passes_on args) (run_cloudflared H (b # tunnel_args H w args))" for w
      by (rule emits_cloudflared) (simp add: passes_on_def plain_call_def tunnel_args_def split: option.split)
    then show ?thesis by (simp add: emits_def bnd_def asks_def)
  qed
  have told: "emits (passes_on args) (andthen cloudflared_not_found_message (ret 1))"
    unfolding cloudflared_not_found_message_def by (intro emits_intros)
  have usage: "emits (passes_on args) (andthen (print_err wrapper_usage) k)" if "emits (passes_on args) k" for k :: "int io"
    using that by (intro emits_intros)
  have asked: "emits (passes_on args) (run_cloudflared H [b, ''--help''])" for b
    by (rule emits_cloudflared) (simp add: passes_on_def plain_call_def)
  show "emits (passes_on args) (tunnel_main H args)"
    unfolding tunnel_main_def
    by (rule emits_if, rule usage, rule emits_simple, rule emits_bnd, rule emits_simple, rule emits_if)
      (rule emits_option, rule usage, rule told, rule asked, rule emits_option, rule told, rule tail)
qed

end
