(* ===== verification/LlamaRegistry.thy ===== *)
theory LlamaRegistry
  imports Values
begin

text \<open>
  \<open>workspace/scripts/llama_setup_registry.py\<close>: the registry of model-server stacks, read from YAML. \<open>show\<close>
  is \<open>str\<close> of a list or mapping and \<open>to_int\<close> is \<open>int\<close> of a scalar.
\<close>

section \<open>The registry\<close>

record detect_cmd =
  dt_cmd :: "string list"
  dt_expect_rc :: int

record build_step =
  bs_id :: string
  bs_label :: string
  bs_script :: "string option"
  bs_make_target :: "string option"
  bs_make_vars :: "(string \<times> string) list"
  bs_detect_path :: "string option"
  bs_detect_glob :: "string option"

record deploy_spec =
  dp_kind :: string
  dp_model :: "string option"
  dp_gpu :: "string option"
  dp_flavor :: "string option"

record stack_profile =
  st_id :: string
  st_label :: string
  st_description :: string
  st_prereq_ids :: "string list"
  st_build_steps :: "build_step list"
  st_deploy :: "deploy_spec option"

record prereq_spec =
  pq_id :: string
  pq_label :: string
  pq_description :: string
  pq_script :: string
  pq_script_args :: "string list"
  pq_detect_cmds :: "detect_cmd list"
  pq_needs_sudo :: bool

record diagnostic_spec =
  dg_id :: string
  dg_label :: string
  dg_script :: "string option"
  dg_cmd :: "string list option"
  dg_optional :: bool

record llama_registry =
  lr_stacks :: "stack_profile list"
  lr_prereqs :: "prereq_spec list"
  lr_diagnostics :: "diagnostic_spec list"

section \<open>Parsing\<close>

definition parse_build_step :: "(yaml \<Rightarrow> string) \<Rightarrow> yaml \<Rightarrow> exn + build_step" where
  "parse_build_step show entry =
     (case as_map entry of
        None \<Rightarrow> Inl (TypeError ''build step entry must be a mapping'')
      | Some raw \<Rightarrow>
          let make_vars = (case as_map (y_get raw ''make_vars'') of None \<Rightarrow> [] | Some kvs \<Rightarrow> map (\<lambda>(k, v). (y_str show k, y_str show v)) kvs) in
          sum_bind (y_item show raw ''id'') (\<lambda>i.
          sum_bind (y_item show raw ''label'') (\<lambda>l.
            Inr \<lparr>bs_id = i, bs_label = l, bs_script = y_opt show raw ''script'', bs_make_target = y_opt show raw ''make_target'',
                 bs_make_vars = make_vars, bs_detect_path = y_opt show raw ''detect_path'',
                 bs_detect_glob = y_opt show raw ''detect_glob''\<rparr>)))"

definition parse_deploy :: "(yaml \<Rightarrow> string) \<Rightarrow> yaml \<Rightarrow> deploy_spec option" where
  "parse_deploy show raw =
     (case as_map raw of
        None \<Rightarrow> None
      | Some m \<Rightarrow> Some \<lparr>dp_kind = (case map_of m (YStr ''kind'') of None \<Rightarrow> [] | Some v \<Rightarrow> y_str show v),
                       dp_model = y_opt show m ''model'', dp_gpu = y_opt show m ''gpu'', dp_flavor = y_opt show m ''flavor''\<rparr>)"

definition parse_stack :: "(yaml \<Rightarrow> string) \<Rightarrow> yaml \<Rightarrow> exn + stack_profile" where
  "parse_stack show entry =
     (case as_map entry of
        None \<Rightarrow> Inl (TypeError ''stack entry must be a mapping'')
      | Some raw \<Rightarrow>
          sum_bind (case as_list (y_get raw ''build_steps'') of
              None \<Rightarrow> Inr [] | Some xs \<Rightarrow> all_inr (map (parse_build_step show) (filter (\<lambda>e. as_map e \<noteq> None) xs))) (\<lambda>steps.
          let prereq_ids = (case as_list (y_get raw ''prereqs'') of None \<Rightarrow> [] | Some xs \<Rightarrow> map (y_str show) xs) in
          sum_bind (y_item show raw ''id'') (\<lambda>i.
          sum_bind (y_item show raw ''label'') (\<lambda>l.
          sum_bind (y_item show raw ''description'') (\<lambda>d.
            Inr \<lparr>st_id = i, st_label = l, st_description = d, st_prereq_ids = prereq_ids, st_build_steps = steps,
                 st_deploy = parse_deploy show (y_get raw ''deploy'')\<rparr>)))))"

definition parse_detect :: "(yaml \<Rightarrow> string) \<Rightarrow> (yaml \<Rightarrow> exn + int) \<Rightarrow> yaml \<Rightarrow> exn + detect_cmd list" where
  "parse_detect show to_int entry =
     (case as_map entry of
        None \<Rightarrow> Inr []
      | Some m \<Rightarrow>
          let cmd = y_get m ''cmd'' in
          (case (if y_true cmd then as_list cmd else Some []) of
             None \<Rightarrow> Inr []
           | Some xs \<Rightarrow>
               sum_bind (to_int (case map_of m (YStr ''expect_rc'') of None \<Rightarrow> YInt 0 | Some v \<Rightarrow> v)) (\<lambda>rc.
                 Inr [\<lparr>dt_cmd = map (y_str show) xs, dt_expect_rc = rc\<rparr>])))"

definition parse_prereq :: "(yaml \<Rightarrow> string) \<Rightarrow> (yaml \<Rightarrow> exn + int) \<Rightarrow> yaml \<Rightarrow> exn + prereq_spec" where
  "parse_prereq show to_int entry =
     (case as_map entry of
        None \<Rightarrow> Inl (TypeError ''prereq entry must be a mapping'')
      | Some raw \<Rightarrow>
          sum_bind (y_iter (y_get raw ''detect_cmds'')) (\<lambda>ds.
          sum_bind (all_inr (map (parse_detect show to_int) ds)) (\<lambda>detect_cmds.
          let script_args = (case as_list (y_get raw ''script_args'') of None \<Rightarrow> [] | Some xs \<Rightarrow> map (y_str show) xs) in
          sum_bind (y_item show raw ''id'') (\<lambda>i.
          sum_bind (y_item show raw ''label'') (\<lambda>l.
          sum_bind (y_item show raw ''description'') (\<lambda>d.
          sum_bind (y_item show raw ''script'') (\<lambda>s.
            Inr \<lparr>pq_id = i, pq_label = l, pq_description = d, pq_script = s, pq_script_args = script_args,
                 pq_detect_cmds = concat detect_cmds, pq_needs_sudo = y_true (y_get raw ''needs_sudo'')\<rparr>)))))))"

definition parse_diagnostic :: "(yaml \<Rightarrow> string) \<Rightarrow> yaml \<Rightarrow> exn + diagnostic_spec" where
  "parse_diagnostic show entry =
     (case as_map entry of
        None \<Rightarrow> Inl (TypeError ''diagnostic entry must be a mapping'')
      | Some raw \<Rightarrow>
          let cmd = (case as_list (y_get raw ''cmd'') of None \<Rightarrow> None | Some xs \<Rightarrow> Some (map (y_str show) xs)) in
          sum_bind (y_item show raw ''id'') (\<lambda>i.
          sum_bind (y_item show raw ''label'') (\<lambda>l.
            Inr \<lparr>dg_id = i, dg_label = l, dg_script = y_opt show raw ''script'', dg_cmd = cmd,
                 dg_optional = y_true (y_get raw ''optional'')\<rparr>)))"

text \<open>The entries of one section of the document that are mappings, each parsed.\<close>

definition parse_section :: "ymap \<Rightarrow> string \<Rightarrow> (yaml \<Rightarrow> exn + 'a) \<Rightarrow> exn + 'a list" where
  "parse_section data k parse =
     sum_bind (y_iter (y_get data k)) (\<lambda>xs. all_inr (map parse (filter (\<lambda>e. as_map e \<noteq> None) xs)))"

definition parse_registry :: "(yaml \<Rightarrow> string) \<Rightarrow> (yaml \<Rightarrow> exn + int) \<Rightarrow> path \<Rightarrow> yaml \<Rightarrow> exn + llama_registry" where
  "parse_registry show to_int yaml_path doc =
     (case as_map doc of
        None \<Rightarrow> Inl (TypeError (''invalid llama-setup registry: '' @ path_str yaml_path))
      | Some data \<Rightarrow>
          sum_bind (parse_section data ''stacks'' (parse_stack show)) (\<lambda>stacks.
          sum_bind (parse_section data ''prereqs'' (parse_prereq show to_int)) (\<lambda>prereqs.
          sum_bind (parse_section data ''diagnostics'' (parse_diagnostic show)) (\<lambda>diagnostics.
            Inr \<lparr>lr_stacks = stacks, lr_prereqs = prereqs, lr_diagnostics = diagnostics\<rparr>))))"

definition LLAMA_SETUP_YAML :: "path \<Rightarrow> path" where
  "LLAMA_SETUP_YAML root = child (child (child root ''workspace'') ''config'') ''llama-setup.yaml''"

definition load_llama_registry :: "host \<Rightarrow> (string \<Rightarrow> exn + yaml) \<Rightarrow> (yaml \<Rightarrow> string) \<Rightarrow> (yaml \<Rightarrow> exn + int) \<Rightarrow> path \<Rightarrow> path option \<Rightarrow>
    llama_registry io" where
  "load_llama_registry H safe_load show to_int root p =
     (let yaml_path = (case p of None \<Rightarrow> LLAMA_SETUP_YAML root | Some q \<Rightarrow> q) in
      bnd (read_text H yaml_path) (\<lambda>text.
      bnd (lift_sum (safe_load text)) (\<lambda>doc.
        lift_sum (parse_registry show to_int yaml_path doc))))"

definition stack_by_id :: "llama_registry \<Rightarrow> string \<Rightarrow> stack_profile option" where
  "stack_by_id registry i = find_first (\<lambda>s. st_id s = i) (lr_stacks registry)"

definition prereq_by_id :: "llama_registry \<Rightarrow> string \<Rightarrow> prereq_spec option" where
  "prereq_by_id registry i = find_first (\<lambda>p. pq_id p = i) (lr_prereqs registry)"

section \<open>Facts: writing a registry\<close>

text \<open>The document of a registry, with the optional entries left out when they have no value.\<close>

definition dump_opt :: "string \<Rightarrow> string option \<Rightarrow> ymap" where
  "dump_opt k x = (case x of None \<Rightarrow> [] | Some s \<Rightarrow> [(YStr k, YStr s)])"

definition dump_list :: "string list \<Rightarrow> yaml" where
  "dump_list xs = YList (map YStr xs)"

definition dump_step :: "build_step \<Rightarrow> yaml" where
  "dump_step s = YMap ([(YStr ''id'', YStr (bs_id s)), (YStr ''label'', YStr (bs_label s)),
      (YStr ''make_vars'', YMap (map (\<lambda>(k, v). (YStr k, YStr v)) (bs_make_vars s)))]
     @ dump_opt ''script'' (bs_script s) @ dump_opt ''make_target'' (bs_make_target s)
     @ dump_opt ''detect_path'' (bs_detect_path s) @ dump_opt ''detect_glob'' (bs_detect_glob s))"

definition dump_deploy :: "deploy_spec \<Rightarrow> yaml" where
  "dump_deploy d = YMap ([(YStr ''kind'', YStr (dp_kind d))] @ dump_opt ''model'' (dp_model d) @ dump_opt ''gpu'' (dp_gpu d)
     @ dump_opt ''flavor'' (dp_flavor d))"

definition dump_stack :: "stack_profile \<Rightarrow> yaml" where
  "dump_stack s = YMap [(YStr ''id'', YStr (st_id s)), (YStr ''label'', YStr (st_label s)), (YStr ''description'', YStr (st_description s)),
     (YStr ''prereqs'', dump_list (st_prereq_ids s)), (YStr ''build_steps'', YList (map dump_step (st_build_steps s))),
     (YStr ''deploy'', case st_deploy s of None \<Rightarrow> YNull | Some d \<Rightarrow> dump_deploy d)]"

definition dump_detect :: "detect_cmd \<Rightarrow> yaml" where
  "dump_detect d = YMap [(YStr ''cmd'', dump_list (dt_cmd d)), (YStr ''expect_rc'', YInt (dt_expect_rc d))]"

definition dump_prereq :: "prereq_spec \<Rightarrow> yaml" where
  "dump_prereq p = YMap [(YStr ''id'', YStr (pq_id p)), (YStr ''label'', YStr (pq_label p)), (YStr ''description'', YStr (pq_description p)),
     (YStr ''script'', YStr (pq_script p)), (YStr ''script_args'', dump_list (pq_script_args p)),
     (YStr ''detect_cmds'', YList (map dump_detect (pq_detect_cmds p))), (YStr ''needs_sudo'', YBool (pq_needs_sudo p))]"

definition dump_diagnostic :: "diagnostic_spec \<Rightarrow> yaml" where
  "dump_diagnostic g = YMap ([(YStr ''id'', YStr (dg_id g)), (YStr ''label'', YStr (dg_label g)),
      (YStr ''optional'', YBool (dg_optional g))]
     @ dump_opt ''script'' (dg_script g)
     @ (case dg_cmd g of None \<Rightarrow> [] | Some c \<Rightarrow> [(YStr ''cmd'', dump_list c)]))"

definition dump_registry :: "llama_registry \<Rightarrow> yaml" where
  "dump_registry r = YMap [(YStr ''stacks'', YList (map dump_stack (lr_stacks r))),
     (YStr ''prereqs'', YList (map dump_prereq (lr_prereqs r))), (YStr ''diagnostics'', YList (map dump_diagnostic (lr_diagnostics r)))]"

text \<open>Optional texts are not empty: the reader takes an empty text for none.\<close>

definition proper :: "string option \<Rightarrow> bool" where
  "proper x \<longleftrightarrow> x \<noteq> Some []"

definition proper_step :: "build_step \<Rightarrow> bool" where
  "proper_step s \<longleftrightarrow> proper (bs_script s) \<and> proper (bs_make_target s) \<and> proper (bs_detect_path s) \<and> proper (bs_detect_glob s)"

definition proper_stack :: "stack_profile \<Rightarrow> bool" where
  "proper_stack s \<longleftrightarrow> list_all proper_step (st_build_steps s) \<and>
     (case st_deploy s of None \<Rightarrow> True | Some d \<Rightarrow> proper (dp_model d) \<and> proper (dp_gpu d) \<and> proper (dp_flavor d))"

definition proper_registry :: "llama_registry \<Rightarrow> bool" where
  "proper_registry r \<longleftrightarrow> list_all proper_stack (lr_stacks r) \<and> list_all (\<lambda>g. proper (dg_script g)) (lr_diagnostics r)"

lemma all_inr_comp: "(\<And>x. x \<in> set xs \<Longrightarrow> parse (dump x) = Inr (f x)) \<Longrightarrow> all_inr (map (parse \<circ> dump) xs) = Inr (map f xs)"
  by (induction xs) auto

lemma all_inr_dump: "(\<And>x. x \<in> set xs \<Longrightarrow> parse (dump x) = Inr x) \<Longrightarrow> all_inr (map (parse \<circ> dump) xs) = Inr xs"
  using all_inr_comp [of xs parse dump "\<lambda>x. x"] by simp

lemma dump_opt_keys: "YStr k \<in> fst ` set (dump_opt j x) \<longleftrightarrow> x \<noteq> None \<and> j = k"
  by (cases x) (auto simp: dump_opt_def)

lemma y_opt_skip: "j \<noteq> k \<Longrightarrow> y_opt show (dump_opt j x @ m) k = y_opt show m k" "v \<noteq> YStr k \<Longrightarrow> y_opt show ((v, u) # m) k = y_opt show m k"
  by (cases x) (simp_all add: dump_opt_def y_opt_def y_get_def)

lemma y_opt_hit: "proper x \<Longrightarrow> YStr k \<notin> fst ` set m \<Longrightarrow> y_opt show (dump_opt k x @ m) k = x"
  "proper x \<Longrightarrow> y_opt show (dump_opt k x) k = x"
proof -
  show hit: "proper x \<Longrightarrow> YStr k \<notin> fst ` set m \<Longrightarrow> y_opt show (dump_opt k x @ m) k = x" for m
    by (cases x) (auto simp: dump_opt_def y_opt_def y_get_def proper_def dest: map_of_SomeD split: option.split, force dest: map_of_SomeD)
  show "proper x \<Longrightarrow> y_opt show (dump_opt k x) k = x" using hit [of "[]"] by simp
qed

lemmas opt_simps = y_opt_skip y_opt_hit dump_opt_keys image_Un y_item_def

lemmas dump_simps = y_get_def y_item_def y_opt_def dump_list_def

lemma parse_dump_list [simp]: "map (y_str show \<circ> YStr) xs = xs"
  by (induction xs) auto

lemma parse_dump_step: "proper_step s \<Longrightarrow> parse_build_step show (dump_step s) = Inr s"
  by (cases s) (simp add: parse_build_step_def dump_step_def proper_step_def opt_simps y_get_def comp_def case_prod_beta)

lemma parse_dump_deploy: "proper (dp_model d) \<Longrightarrow> proper (dp_gpu d) \<Longrightarrow> proper (dp_flavor d) \<Longrightarrow>
    parse_deploy show (dump_deploy d) = Some d"
  by (cases d) (simp add: parse_deploy_def dump_deploy_def opt_simps)

lemma dump_is_map [simp]: "\<exists>m. as_map (dump_step s) = Some m" "\<exists>m. as_map (dump_stack t) = Some m"
  "\<exists>m. as_map (dump_prereq p) = Some m" "\<exists>m. as_map (dump_diagnostic g) = Some m"
  by (simp_all add: dump_step_def dump_stack_def dump_prereq_def dump_diagnostic_def)

lemma parse_dump_stack: "proper_stack s \<Longrightarrow> parse_stack show (dump_stack s) = Inr s"
proof -
  assume p: "proper_stack s"
  then have "all_inr (map (\<lambda>x. parse_build_step show (dump_step x)) (st_build_steps s)) = Inr (st_build_steps s)"
    by (intro all_inr_dump [unfolded comp_def] parse_dump_step) (simp add: proper_stack_def list_all_iff)
  then show ?thesis
    using p by (cases s) (auto simp: parse_stack_def dump_stack_def dump_simps filter_map comp_def proper_stack_def
        parse_dump_deploy parse_deploy_def [of _ YNull] split: option.splits)
qed

lemma parse_dump_detect: "(\<And>i. to_int (YInt i) = Inr i) \<Longrightarrow> parse_detect show to_int (dump_detect d) = Inr [d]"
  by (cases d) (auto simp: parse_detect_def dump_detect_def dump_simps Let_def)

lemma parse_dump_prereq: "(\<And>i. to_int (YInt i) = Inr i) \<Longrightarrow> parse_prereq show to_int (dump_prereq p) = Inr p"
proof -
  assume i: "\<And>i. to_int (YInt i) = Inr i"
  then have "all_inr (map (parse_detect show to_int \<circ> dump_detect) (pq_detect_cmds p)) = Inr (map (\<lambda>d. [d]) (pq_detect_cmds p))"
    by (intro all_inr_comp) (rule parse_dump_detect)
  then show ?thesis
    by (cases p) (simp add: parse_prereq_def dump_prereq_def dump_simps)
qed

lemma parse_dump_diagnostic: "proper (dg_script g) \<Longrightarrow> parse_diagnostic show (dump_diagnostic g) = Inr g"
  by (cases g) (auto simp: parse_diagnostic_def dump_diagnostic_def proper_def dump_opt_def dump_simps split: option.split)

section \<open>Properties\<close>

text \<open>A registry is read as it was written. For every registry whose optional texts are not empty, the document
  with its stacks, their steps and deployment, its prerequisites with their probes and its diagnostics is parsed back to
  the same registry, in the same order.\<close>

theorem registry_read_back:
  assumes "proper_registry r" "\<And>i. to_int (YInt i) = Inr i"
  shows "parse_registry show to_int p (dump_registry r) = Inr r"
proof -
  have stacks: "all_inr (map (\<lambda>x. parse_stack show (dump_stack x)) (lr_stacks r)) = Inr (lr_stacks r)"
    using assms(1) by (intro all_inr_dump [unfolded comp_def] parse_dump_stack) (simp add: proper_registry_def list_all_iff)
  have prereqs: "all_inr (map (\<lambda>x. parse_prereq show to_int (dump_prereq x)) (lr_prereqs r)) = Inr (lr_prereqs r)"
    by (intro all_inr_dump [unfolded comp_def] parse_dump_prereq assms(2))
  have diagnostics: "all_inr (map (\<lambda>x. parse_diagnostic show (dump_diagnostic x)) (lr_diagnostics r)) = Inr (lr_diagnostics r)"
    using assms(1) by (intro all_inr_dump [unfolded comp_def] parse_dump_diagnostic) (simp add: proper_registry_def list_all_iff)
  show ?thesis
    by (cases r) (use stacks prereqs diagnostics in \<open>simp add: parse_registry_def dump_registry_def parse_section_def y_get_def filter_map comp_def\<close>)
qed

theorem registry_read_back_witness:
  "parse_registry (\<lambda>_. []) (\<lambda>v. case v of YInt i \<Rightarrow> Inr i | _ \<Rightarrow> Inl (ValueError [])) (mk_path ''llama-setup.yaml'')
     (dump_registry \<lparr>lr_stacks = [], lr_prereqs =
        [\<lparr>pq_id = ''gpu'', pq_label = ''GPU'', pq_description = ''driver'', pq_script = ''gpu.sh'', pq_script_args = [''-y''],
          pq_detect_cmds = [\<lparr>dt_cmd = [''true''], dt_expect_rc = 0\<rparr>], pq_needs_sudo = True\<rparr>], lr_diagnostics = []\<rparr>) =
   Inr \<lparr>lr_stacks = [], lr_prereqs =
        [\<lparr>pq_id = ''gpu'', pq_label = ''GPU'', pq_description = ''driver'', pq_script = ''gpu.sh'', pq_script_args = [''-y''],
          pq_detect_cmds = [\<lparr>dt_cmd = [''true''], dt_expect_rc = 0\<rparr>], pq_needs_sudo = True\<rparr>], lr_diagnostics = []\<rparr>"
  by (rule registry_read_back) (simp_all add: proper_registry_def)

end
