(* ===== verification/LlamaSetup.thy ===== *)
theory LlamaSetup
  imports LlamaRegistry Demo
begin

text \<open>
  \<open>workspace/scripts/llama_setup_detect.py\<close> and \<open>llama_setup_install.py\<close>: what of the model-server setup is
  in place, and the execution of an installation plan. The group database, the groups of the process and
  \<open>Path.glob\<close> are the record \<open>setup_env\<close>, with the project root, which is also the working directory of
  every command.
\<close>

record setup_env =
  su_root :: path
  su_gid :: "string \<Rightarrow> int option"
  su_groups :: "int list"
  su_glob :: "world \<Rightarrow> string \<Rightarrow> path list"

section \<open>Detection\<close>

record group_membership = gm_render :: bool  gm_video :: bool
record tool_presence = tp_xpu_smi :: bool  tp_vulkaninfo :: bool  tp_clinfo :: bool

record step_status =
  ss_step_id :: string
  ss_label :: string
  ss_installed :: bool
  ss_detail :: string

record prereq_status =
  ps_prereq_id :: string
  ps_label :: string
  ps_satisfied :: bool
  ps_detail :: string

record stack_status =
  ks_stack_id :: string
  ks_label :: string
  ks_build_steps :: "step_status list"
  ks_ready :: bool

record service_unit = un_name :: string  un_active :: string

record hardware_snapshot =
  hw_groups :: group_membership
  hw_tools :: tool_presence
  hw_gpu_probe_rc :: int
  hw_gpu_probe_lines :: "string list"

record detect_snapshot =
  ds_hardware :: hardware_snapshot
  ds_prereqs :: "prereq_status list"
  ds_stacks :: "stack_status list"
  ds_services :: "service_unit list"

text \<open>An optional text as a condition: the empty text counts as none.\<close>

definition nonempty :: "string option \<Rightarrow> string option" where
  "nonempty x = (if x = Some [] then None else x)"

definition user_in_group :: "setup_env \<Rightarrow> string \<Rightarrow> bool" where
  "user_in_group E g = (case su_gid E g of None \<Rightarrow> False | Some gid \<Rightarrow> gid \<in> set (su_groups E))"

definition write_stderr :: "string \<Rightarrow> unit io" where
  "write_stderr s = update (\<lambda>w. w\<lparr>err := err w @ [s]\<rparr>)"

definition run_detect_cmd :: "host \<Rightarrow> string list \<Rightarrow> int io" where
  "run_detect_cmd H cmd =
     catch (\<lambda>e. is_called_process_error e \<or> is_os_error e)
       (bnd (run_checked H (plain_call cmd)) (\<lambda>_. ret 0))
       (\<lambda>e. case e of
          CalledProcessError rc so se \<Rightarrow> andthen (when_io (se \<noteq> []) (write_stderr se)) (ret rc)
        | _ \<Rightarrow> andthen (write_stderr (''detect command failed: '' @ h_str H e @ nl)) (ret 127))"

fun detects_pass :: "host \<Rightarrow> detect_cmd list \<Rightarrow> (bool \<times> string) io" where
  "detects_pass H [] = ret (True, ''detect checks passed'')"
| "detects_pass H (d # ds) =
     bnd (run_detect_cmd H (dt_cmd d)) (\<lambda>rc.
       if rc \<noteq> dt_expect_rc d then ret (False, join '' '' (dt_cmd d) @ '' -> rc '' @ show_int rc) else detects_pass H ds)"

definition prereq_satisfied :: "host \<Rightarrow> prereq_spec \<Rightarrow> (bool \<times> string) io" where
  "prereq_satisfied H p =
     (if pq_detect_cmds p = [] then ret (False, ''no detect commands configured'') else detects_pass H (pq_detect_cmds p))"

definition relative_to :: "path \<Rightarrow> path \<Rightarrow> path" where
  "relative_to root p = Path False (drop (length (parts root)) (parts p))"

definition step_installed :: "host \<Rightarrow> setup_env \<Rightarrow> world \<Rightarrow> build_step \<Rightarrow> bool \<times> string" where
  "step_installed H E w step =
     (case nonempty (bs_detect_path step) of
        Some dp \<Rightarrow> if is_file H w (p_sub (su_root E) dp) then (True, dp) else (False, ''missing '' @ dp)
      | None \<Rightarrow>
          (case nonempty (bs_detect_glob step) of
             Some g \<Rightarrow> (case sort (su_glob E w g) of
                 m # _ \<Rightarrow> (True, path_str (relative_to (su_root E) m))
               | [] \<Rightarrow> (False, ''no match for '' @ g))
           | None \<Rightarrow> (False, ''no detect rule'')))"

definition step_status_of :: "host \<Rightarrow> setup_env \<Rightarrow> world \<Rightarrow> build_step \<Rightarrow> step_status" where
  "step_status_of H E w step =
     (case step_installed H E w step of (installed, detail) \<Rightarrow>
        \<lparr>ss_step_id = bs_id step, ss_label = bs_label step, ss_installed = installed, ss_detail = detail\<rparr>)"

definition stack_status_of :: "host \<Rightarrow> setup_env \<Rightarrow> world \<Rightarrow> stack_profile \<Rightarrow> stack_status" where
  "stack_status_of H E w stack =
     (let steps = map (step_status_of H E w) (st_build_steps stack) in
      \<lparr>ks_stack_id = st_id stack, ks_label = st_label stack, ks_build_steps = steps, ks_ready = list_all ss_installed steps\<rparr>)"

text \<open>\<open>str.split()\<close>.\<close>

fun split_words :: "string \<Rightarrow> string \<Rightarrow> string list" where
  "split_words cur [] = (if cur = [] then [] else [rev cur])"
| "split_words cur (c # s) =
     (if is_space c then (if cur = [] then split_words [] s else rev cur # split_words [] s) else split_words (c # cur) s)"

definition MIN_SYSTEMCTL_COLUMNS :: nat where "MIN_SYSTEMCTL_COLUMNS = 4"

definition service_units :: "string \<Rightarrow> service_unit list" where
  "service_units output =
     map (\<lambda>ps. \<lparr>un_name = ps ! 0, un_active = ps ! 2\<rparr>)
       (filter (\<lambda>ps. length ps \<ge> MIN_SYSTEMCTL_COLUMNS) (map (split_words []) (splitlines output)))"

definition list_user_services :: "host \<Rightarrow> service_unit list io" where
  "list_user_services H =
     catch (\<lambda>e. is_os_error e \<or> is_subprocess_error e)
       (bnd (run_checked H (plain_call [''systemctl'', ''--user'', ''list-units'', ''llamafile-*.service'', ''llamaserver@*.service'',
               ''--no-pager'', ''--no-legend''])) (\<lambda>(so, _). ret (service_units so)))
       (\<lambda>e. andthen (write_stderr (''systemctl list-units failed: '' @ h_str H e @ nl)) (ret []))"

definition gpu_probe_lines :: "host \<Rightarrow> setup_env \<Rightarrow> (int \<times> string list) io" where
  "gpu_probe_lines H E =
     (let probe_script = p_sub (su_root E) ''scripts/setup/lib/vulkan_gpu_probe.py'' in
      bnd (asks (\<lambda>w. is_file H w probe_script)) (\<lambda>f.
        if \<not> f then ret (1, [''probe script missing''])
        else catch (\<lambda>e. is_called_process_error e \<or> is_os_error e)
          (bnd (run_checked H (plain_call [''uv'', ''run'', ''python'', path_str probe_script])) (\<lambda>(so, _).
             ret (0, filter (\<lambda>l. strip l \<noteq> []) (splitlines so))))
          (\<lambda>e. case e of
             CalledProcessError rc so se \<Rightarrow> ret (rc, [if se \<noteq> [] then strip se else ''probe exit '' @ show_int rc])
           | _ \<Rightarrow> ret (127, [''uv/python unavailable: '' @ h_str H e]))))"

definition collect_hardware_snapshot :: "host \<Rightarrow> setup_env \<Rightarrow> hardware_snapshot io" where
  "collect_hardware_snapshot H E =
     bnd (gpu_probe_lines H E) (\<lambda>(probe_rc, probe_lines).
     bnd (asks (\<lambda>w. is_file H w (mk_path ''/usr/bin/xpu-smi''))) (\<lambda>xpu.
     bnd (run_detect_cmd H [''command'', ''-v'', ''vulkaninfo'']) (\<lambda>v.
     bnd (run_detect_cmd H [''command'', ''-v'', ''clinfo'']) (\<lambda>c.
       ret \<lparr>hw_groups = \<lparr>gm_render = user_in_group E ''render'', gm_video = user_in_group E ''video''\<rparr>,
            hw_tools = \<lparr>tp_xpu_smi = xpu, tp_vulkaninfo = (v = 0), tp_clinfo = (c = 0)\<rparr>,
            hw_gpu_probe_rc = probe_rc, hw_gpu_probe_lines = probe_lines\<rparr>))))"

definition collect_prereq_statuses :: "host \<Rightarrow> llama_registry \<Rightarrow> prereq_status list io" where
  "collect_prereq_statuses H registry =
     collect (\<lambda>p. bnd (prereq_satisfied H p) (\<lambda>(satisfied, detail).
         ret \<lparr>ps_prereq_id = pq_id p, ps_label = pq_label p, ps_satisfied = satisfied, ps_detail = detail\<rparr>)) (lr_prereqs registry)"

definition collect_stack_statuses :: "host \<Rightarrow> setup_env \<Rightarrow> llama_registry \<Rightarrow> stack_status list io" where
  "collect_stack_statuses H E registry = asks (\<lambda>w. map (stack_status_of H E w) (lr_stacks registry))"

definition collect_snapshot :: "host \<Rightarrow> setup_env \<Rightarrow> llama_registry \<Rightarrow> detect_snapshot io" where
  "collect_snapshot H E registry =
     bnd (collect_hardware_snapshot H E) (\<lambda>hw.
     bnd (collect_prereq_statuses H registry) (\<lambda>ps.
     bnd (collect_stack_statuses H E registry) (\<lambda>ks.
     bnd (list_user_services H) (\<lambda>us.
       ret \<lparr>ds_hardware = hw, ds_prereqs = ps, ds_stacks = ks, ds_services = us\<rparr>))))"

definition missing_prereqs_for_stack :: "llama_registry \<Rightarrow> detect_snapshot \<Rightarrow> stack_profile \<Rightarrow> prereq_spec list" where
  "missing_prereqs_for_stack registry snapshot stack =
     (let satisfied_ids = ps_prereq_id ` set (filter ps_satisfied (ds_prereqs snapshot)) in
      concat (map (\<lambda>i. case prereq_by_id registry i of None \<Rightarrow> [] | Some p \<Rightarrow> [p])
        (filter (\<lambda>i. i \<notin> satisfied_ids) (st_prereq_ids stack))))"

section \<open>Installation steps\<close>

record step_result =
  sr_label :: string
  sr_success :: bool
  sr_detail :: string

record install_plan =
  pl_prereqs :: "prereq_spec list"
  pl_stacks :: "stack_profile list"
  pl_run_diagnostics :: bool
  pl_deploy :: bool
  pl_model :: string

text \<open>The command every step ends with, its outcome as a result.\<close>

definition run_labelled :: "host \<Rightarrow> string \<Rightarrow> string list \<Rightarrow> step_result io" where
  "run_labelled H label cmd =
     catch (\<lambda>e. is_os_error e \<or> is_subprocess_error e)
       (bnd (run_checked H (plain_call cmd)) (\<lambda>_. ret \<lparr>sr_label = label, sr_success = True, sr_detail = ''ok''\<rparr>))
       (\<lambda>e. ret \<lparr>sr_label = label, sr_success = False, sr_detail = h_str H e\<rparr>)"

definition run_shell_step :: "host \<Rightarrow> string \<Rightarrow> string list \<Rightarrow> bool \<Rightarrow> step_result io" where
  "run_shell_step H label argv needs_sudo =
     run_labelled H label (if needs_sudo then (if hd argv = ''bash'' then [''sudo'', ''bash''] @ tl argv else ''sudo'' # argv) else argv)"

definition failed :: "string \<Rightarrow> string \<Rightarrow> step_result" where
  "failed label detail = \<lparr>sr_label = label, sr_success = False, sr_detail = detail\<rparr>"

definition run_prereq :: "host \<Rightarrow> setup_env \<Rightarrow> prereq_spec \<Rightarrow> step_result io" where
  "run_prereq H E p =
     (let script_path = p_sub (su_root E) (pq_script p) in
      bnd (asks (\<lambda>w. is_file H w script_path)) (\<lambda>f.
        if \<not> f then ret (failed (pq_label p) (''missing script '' @ pq_script p))
        else run_shell_step H (pq_label p) ([''bash'', path_str script_path] @ pq_script_args p) (pq_needs_sudo p)))"

definition run_build_step :: "host \<Rightarrow> setup_env \<Rightarrow> build_step \<Rightarrow> step_result io" where
  "run_build_step H E step =
     (case nonempty (bs_script step) of
        Some script \<Rightarrow>
          (let script_path = p_sub (su_root E) script in
           bnd (asks (\<lambda>w. is_file H w script_path)) (\<lambda>f.
             if \<not> f then ret (failed (bs_label step) (''missing script '' @ script))
             else run_shell_step H (bs_label step) [''bash'', path_str script_path] False))
      | None \<Rightarrow>
          (case nonempty (bs_make_target step) of
             Some target \<Rightarrow>
               run_labelled H (bs_label step)
                 ([''make'', ''-f'', ''Makefile.llamafile'', target] @ map (\<lambda>(k, v). k @ ''='' @ v) (bs_make_vars step))
           | None \<Rightarrow> ret (failed (bs_label step) ''no build action'')))"

definition or_text :: "string option \<Rightarrow> string \<Rightarrow> string" where
  "or_text x s = (case x of None \<Rightarrow> s | Some t \<Rightarrow> if t = [] then s else t)"

definition deploy_stack :: "host \<Rightarrow> stack_profile \<Rightarrow> string \<Rightarrow> step_result io" where
  "deploy_stack H stack model =
     (case st_deploy stack of
        None \<Rightarrow> ret \<lparr>sr_label = ''deploy'', sr_success = True, sr_detail = ''skipped''\<rparr>
      | Some d \<Rightarrow>
          if dp_kind d = ''llamafile'' then
            run_labelled H (''deploy llamafile ('' @ model @ '')'')
              [''make'', ''-f'', ''Makefile.llamafile'', ''MODEL='' @ (if model \<noteq> [] then model else or_text (dp_model d) ''minicpm5-1b''),
               ''GPU='' @ or_text (dp_gpu d) ''vulkan'', ''install-llamafile'']
          else if dp_kind d = ''llamaserver'' then
            run_labelled H (''deploy llamaserver@'' @ or_text (dp_flavor d) ''vulkan'')
              [''make'', ''-f'', ''Makefile.llamaserver'', ''install-llamaserver'', ''FLAVOR='' @ or_text (dp_flavor d) ''vulkan'']
          else ret (failed ''deploy'' (''unknown kind '' @ dp_kind d)))"

definition diagnostic_argv :: "host \<Rightarrow> setup_env \<Rightarrow> world \<Rightarrow> diagnostic_spec \<Rightarrow> string list option" where
  "diagnostic_argv H E w spec =
     (case nonempty (dg_script spec) of
        Some script \<Rightarrow>
          (let script_path = p_sub (su_root E) script in
           if \<not> is_file H w script_path then None
           else if suffix ''.py'' script then Some [''uv'', ''run'', ''python'', path_str script_path]
           else Some [''bash'', path_str script_path])
      | None \<Rightarrow> (case dg_cmd spec of None \<Rightarrow> None | Some cmd \<Rightarrow> if cmd = [] then None else Some cmd))"

definition diagnostic_result :: "diagnostic_spec \<Rightarrow> int option \<Rightarrow> string \<Rightarrow> step_result" where
  "diagnostic_result spec rc error =
     (if error \<noteq> [] then
        (if dg_optional spec then \<lparr>sr_label = dg_label spec, sr_success = True, sr_detail = ''optional skip: '' @ error\<rparr>
         else failed (dg_label spec) error)
      else case rc of
        Some code \<Rightarrow>
          if code \<noteq> 0 then
            (if dg_optional spec then \<lparr>sr_label = dg_label spec, sr_success = True, sr_detail = ''optional (rc '' @ show_int code @ '')''\<rparr>
             else failed (dg_label spec) (''exit '' @ show_int code))
          else \<lparr>sr_label = dg_label spec, sr_success = True, sr_detail = ''ok''\<rparr>
      | None \<Rightarrow> \<lparr>sr_label = dg_label spec, sr_success = True, sr_detail = ''ok''\<rparr>)"

definition run_diagnostic :: "host \<Rightarrow> setup_env \<Rightarrow> diagnostic_spec \<Rightarrow> step_result io" where
  "run_diagnostic H E spec =
     bnd (asks (\<lambda>w. diagnostic_argv H E w spec)) (\<lambda>argv.
       case argv of
         None \<Rightarrow> ret (diagnostic_result spec None ''no diagnostic command or missing script'')
       | Some cmd \<Rightarrow>
           catch (\<lambda>e. is_called_process_error e \<or> is_os_error e)
             (bnd (run_checked H (plain_call cmd)) (\<lambda>_. ret (diagnostic_result spec (Some 0) [])))
             (\<lambda>e. case e of
                CalledProcessError rc so se \<Rightarrow> ret (diagnostic_result spec (Some rc) [])
              | _ \<Rightarrow> ret (diagnostic_result spec None (h_str H e))))"

section \<open>The plan\<close>

definition collect_work_items :: "install_plan \<Rightarrow> (string \<times> string) list" where
  "collect_work_items plan =
     map (\<lambda>p. (''prereq'', pq_id p)) (pl_prereqs plan)
     @ concat (map (\<lambda>s. map (\<lambda>step. (''build'', st_id s @ '':'' @ bs_id step)) (st_build_steps s)
                 @ (if pl_deploy plan \<and> st_deploy s \<noteq> None then [(''deploy'', st_id s)] else [])) (pl_stacks plan))
     @ (if pl_run_diagnostics plan then [(''diagnostics'', ''all'')] else [])"

text \<open>A dictionary built from a list keeps the last item of a key.\<close>

definition last_by :: "('a \<Rightarrow> string) \<Rightarrow> 'a list \<Rightarrow> string \<Rightarrow> 'a option" where
  "last_by key xs k = map_of (map (\<lambda>x. (key x, x)) (rev xs)) k"

definition find_build_step :: "stack_profile \<Rightarrow> string \<Rightarrow> build_step option" where
  "find_build_step stack step_id = find_first (\<lambda>s. bs_id s = step_id) (st_build_steps stack)"

text \<open>\<open>ref.split(":", 1)\<close> unpacked into two names.\<close>

definition split_ref :: "string \<Rightarrow> exn + (string \<times> string)" where
  "split_ref ref =
     (case dropWhile (\<lambda>c. c \<noteq> CHR '':'') ref of
        [] \<Rightarrow> Inl (ValueError ''not enough values to unpack (expected 2, got 1)'')
      | _ # rest \<Rightarrow> Inr (takeWhile (\<lambda>c. c \<noteq> CHR '':'') ref, rest))"

definition run_prereq_item :: "host \<Rightarrow> setup_env \<Rightarrow> llama_registry \<Rightarrow> string \<Rightarrow> step_result io" where
  "run_prereq_item H E registry ref =
     (case last_by pq_id (lr_prereqs registry) ref of
        None \<Rightarrow> ret (failed ref ''unknown prereq'')
      | Some p \<Rightarrow> run_prereq H E p)"

definition run_build_item :: "host \<Rightarrow> setup_env \<Rightarrow> llama_registry \<Rightarrow> string \<Rightarrow> step_result io" where
  "run_build_item H E registry ref =
     bnd (lift_sum (split_ref ref)) (\<lambda>(stack_id, step_id).
       case last_by st_id (lr_stacks registry) stack_id of
         None \<Rightarrow> ret (failed ref ''unknown stack'')
       | Some stack \<Rightarrow>
           (case find_build_step stack step_id of
              None \<Rightarrow> ret (failed ref ''unknown build step'')
            | Some step \<Rightarrow> run_build_step H E step))"

definition run_deploy_item :: "host \<Rightarrow> llama_registry \<Rightarrow> string \<Rightarrow> string \<Rightarrow> step_result io" where
  "run_deploy_item H registry ref model =
     (case last_by st_id (lr_stacks registry) ref of
        None \<Rightarrow> ret (failed ref ''unknown stack'')
      | Some stack \<Rightarrow> deploy_stack H stack model)"

type_synonym on_progress = "(nat \<Rightarrow> nat \<Rightarrow> string \<Rightarrow> unit io) option"
type_synonym on_result = "(string \<Rightarrow> bool \<Rightarrow> string \<Rightarrow> unit io) option"

definition report :: "on_result \<Rightarrow> step_result \<Rightarrow> unit io" where
  "report on_result r = (case on_result of None \<Rightarrow> ret () | Some f \<Rightarrow> f (sr_label r) (sr_success r) (sr_detail r))"

definition run_diagnostics :: "host \<Rightarrow> setup_env \<Rightarrow> llama_registry \<Rightarrow> on_result \<Rightarrow> step_result list io" where
  "run_diagnostics H E registry on_result =
     collect (\<lambda>d. bnd (run_diagnostic H E d) (\<lambda>r. andthen (report on_result r) (ret r))) (lr_diagnostics registry)"

definition dispatch_work_item :: "host \<Rightarrow> setup_env \<Rightarrow> llama_registry \<Rightarrow> string \<Rightarrow> on_result \<Rightarrow> string \<Rightarrow> string \<Rightarrow> step_result list io" where
  "dispatch_work_item H E registry model on_result kind ref =
     (if kind = ''prereq'' then bnd (run_prereq_item H E registry ref) (\<lambda>r. ret [r])
      else if kind = ''build'' then bnd (run_build_item H E registry ref) (\<lambda>r. ret [r])
      else if kind = ''deploy'' then bnd (run_deploy_item H registry ref model) (\<lambda>r. ret [r])
      else if kind = ''diagnostics'' then run_diagnostics H E registry on_result
      else ret [failed ref (''unknown work kind '' @ kind)])"

fun execute_items :: "host \<Rightarrow> setup_env \<Rightarrow> llama_registry \<Rightarrow> string \<Rightarrow> on_progress \<Rightarrow> on_result \<Rightarrow> nat \<Rightarrow> nat \<Rightarrow>
    (string \<times> string) list \<Rightarrow> step_result list io" where
  "execute_items H E registry model on_progress on_result count current [] = ret []"
| "execute_items H E registry model on_progress on_result count current ((kind, ref) # items) =
     andthen (case on_progress of None \<Rightarrow> ret () | Some f \<Rightarrow> f current count (kind @ '':'' @ ref))
    (bnd (dispatch_work_item H E registry model on_result kind ref) (\<lambda>batch.
     andthen (if kind = ''diagnostics'' then ret () else each (report on_result) batch)
    (bnd (execute_items H E registry model on_progress on_result count (Suc current) items) (\<lambda>results.
       ret (batch @ results)))))"

definition execute_plan :: "host \<Rightarrow> setup_env \<Rightarrow> llama_registry \<Rightarrow> install_plan \<Rightarrow> on_progress \<Rightarrow> on_result \<Rightarrow> step_result list io" where
  "execute_plan H E registry plan on_progress on_result =
     (let work = collect_work_items plan in
      execute_items H E registry (pl_model plan) on_progress on_result (length work) 1 work)"

section \<open>Facts\<close>

text \<open>A program that is given no time limit does not time out.\<close>

definition no_timeouts :: "host \<Rightarrow> bool" where
  "no_timeouts H \<longleftrightarrow> (\<forall>c w. c_timeout c = None \<longrightarrow> r_result (h_run H c w) \<noteq> RunTimeout)"

lemma run_checked_raises:
  "wp (run_checked H c) (\<lambda>_ _. True) (\<lambda>e _. is_called_process_error e \<or> e = TimeoutExpired \<or> is_os_error e) w"
  by (auto simp: run_checked_def wps run_raw_def wp_def Let_def bnd_def ret_def raise_def split: outcome.split)

lemma run_plain_raises:
  "no_timeouts H \<Longrightarrow> wp (run_checked H (plain_call cmd)) (\<lambda>_ _. True) (\<lambda>e _. is_called_process_error e \<or> is_os_error e) w"
  by (auto simp: no_timeouts_def plain_call_def run_checked_def run_raw_def wp_def Let_def bnd_def ret_def raise_def split: outcome.split)

lemma run_labelled_label: "wp (run_labelled H l cmd) (\<lambda>r _. sr_label r = l) (\<lambda>_ _. False) w"
  unfolding run_labelled_def wp_catch wp_bnd
  by (rule wp_mono [OF run_checked_raises]) (auto simp: wps is_subprocess_error_def)

lemma run_shell_label: "wp (run_shell_step H l argv b) (\<lambda>r _. sr_label r = l) (\<lambda>_ _. False) w"
  unfolding run_shell_step_def by (rule run_labelled_label)

lemma run_prereq_label: "wp (run_prereq H E p) (\<lambda>r _. sr_label r = pq_label p) (\<lambda>_ _. False) w"
  by (simp add: run_prereq_def Let_def wps failed_def run_shell_label)

lemma run_build_step_label: "wp (run_build_step H E s) (\<lambda>r _. sr_label r = bs_label s) (\<lambda>_ _. False) w"
  by (simp add: run_build_step_def Let_def wps failed_def run_shell_label run_labelled_label split: option.split)

definition deploy_label :: "stack_profile \<Rightarrow> string \<Rightarrow> string" where
  "deploy_label stack model =
     (case st_deploy stack of
        None \<Rightarrow> ''deploy''
      | Some d \<Rightarrow> if dp_kind d = ''llamafile'' then ''deploy llamafile ('' @ model @ '')''
                  else if dp_kind d = ''llamaserver'' then ''deploy llamaserver@'' @ or_text (dp_flavor d) ''vulkan''
                  else ''deploy'')"

lemma deploy_stack_label: "wp (deploy_stack H s model) (\<lambda>r _. sr_label r = deploy_label s model) (\<lambda>_ _. False) w"
  unfolding deploy_stack_def deploy_label_def
  by (cases "st_deploy s") (auto simp: wps failed_def intro: run_labelled_label)

lemma diagnostic_label: "sr_label (diagnostic_result g rc e) = dg_label g"
  by (simp add: diagnostic_result_def failed_def split: option.split)

lemma run_diagnostic_label: "no_timeouts H \<Longrightarrow> wp (run_diagnostic H E g) (\<lambda>r _. sr_label r = dg_label g) (\<lambda>_ _. False) w"
proof -
  assume n: "no_timeouts H"
  have "wp (catch (\<lambda>e. is_called_process_error e \<or> is_os_error e)
      (bnd (run_checked H (plain_call cmd)) (\<lambda>_. ret (diagnostic_result g (Some 0) [])))
      (\<lambda>e. case e of CalledProcessError rc so se \<Rightarrow> ret (diagnostic_result g (Some rc) [])
          | _ \<Rightarrow> ret (diagnostic_result g None (h_str H e)))) (\<lambda>r _. sr_label r = dg_label g) (\<lambda>_ _. False) w" for cmd
    unfolding wp_catch wp_bnd
    by (rule wp_mono [OF run_plain_raises [OF n]]) (auto simp: wps diagnostic_label split: exn.split)
  then show ?thesis by (simp add: run_diagnostic_def wps diagnostic_label split: option.split)
qed

lemma run_diagnostics_labels:
  assumes "no_timeouts H"
  shows "wp (run_diagnostics H E registry None) (\<lambda>rs _. map sr_label rs = map dg_label (lr_diagnostics registry)) (\<lambda>_ _. False) w"
proof -
  have "wp (collect (\<lambda>d. bnd (run_diagnostic H E d) (\<lambda>r. andthen (report None r) (ret r))) gs)
      (\<lambda>rs _. map sr_label rs = map dg_label gs) (\<lambda>_ _. False) w" for gs w
  proof (induction gs arbitrary: w)
    case (Cons g gs)
    show ?case by (auto simp: wps report_def intro!: wp_mono [OF run_diagnostic_label [OF assms]] wp_mono [OF Cons.IH [unfolded report_def, simplified]])
  qed (simp add: wps)
  then show ?thesis by (simp add: run_diagnostics_def)
qed

lemma last_by_distinct: "distinct (map key xs) \<Longrightarrow> x \<in> set xs \<Longrightarrow> last_by key xs (key x) = Some x"
  unfolding last_by_def by (intro map_of_is_SomeI) (auto simp: comp_def rev_map [symmetric])

lemma find_first_distinct: "distinct (map key xs) \<Longrightarrow> x \<in> set xs \<Longrightarrow> find_first (\<lambda>y. key y = key x) xs = Some x"
  by (induction xs) auto

lemma split_ref_join: "CHR '':'' \<notin> set a \<Longrightarrow> split_ref (a @ CHR '':'' # b) = Inr (a, b)"
proof -
  assume "CHR '':'' \<notin> set a"
  then have "\<forall>c \<in> set a. c \<noteq> CHR '':''" by auto
  then have "dropWhile (\<lambda>c. c \<noteq> CHR '':'') (a @ CHR '':'' # b) = CHR '':'' # b" "takeWhile (\<lambda>c. c \<noteq> CHR '':'') (a @ CHR '':'' # b) = a"
    by (simp_all add: dropWhile_append2 takeWhile_append2)
  then show ?thesis by (simp add: split_ref_def)
qed

text \<open>A plan made from a registry: its prerequisites and stacks are the registry's, whose identifiers are unique,
  those of the steps within their stack, and no stack has a colon in its identifier.\<close>

definition plan_from :: "llama_registry \<Rightarrow> install_plan \<Rightarrow> bool" where
  "plan_from registry plan \<longleftrightarrow>
     distinct (map pq_id (lr_prereqs registry)) \<and> distinct (map st_id (lr_stacks registry)) \<and>
     list_all (\<lambda>p. p \<in> set (lr_prereqs registry)) (pl_prereqs plan) \<and>
     list_all (\<lambda>s. s \<in> set (lr_stacks registry) \<and> CHR '':'' \<notin> set (st_id s) \<and> distinct (map bs_id (st_build_steps s))) (pl_stacks plan)"

definition yields :: "host \<Rightarrow> setup_env \<Rightarrow> llama_registry \<Rightarrow> string \<Rightarrow> string \<times> string \<Rightarrow> string list \<Rightarrow> bool" where
  "yields H E registry model item labels \<longleftrightarrow>
     (\<forall>w. wp (dispatch_work_item H E registry model None (fst item) (snd item)) (\<lambda>rs _. map sr_label rs = labels) (\<lambda>_ _. False) w)"

lemma wp_report_none: "wp (each (report None) rs) Q E w = Q () w"
  by (induction rs) (simp_all add: wps report_def)

lemma execute_items_labels:
  "list_all2 (yields H E registry model) items lss \<Longrightarrow>
   wp (execute_items H E registry model None None n k items) (\<lambda>rs _. map sr_label rs = concat lss) (\<lambda>_ _. False) w"
proof (induction items lss arbitrary: k w rule: list_all2_induct)
  case (Cons item items labels lss)
  obtain kind ref where item: "item = (kind, ref)" by (cases item)
  have run: "wp (dispatch_work_item H E registry model None kind ref) (\<lambda>rs _. map sr_label rs = labels) (\<lambda>_ _. False) v" for v
    using Cons(1) by (simp add: yields_def item)
  have "wp (bnd (execute_items H E registry model None None n (Suc k) items) (\<lambda>results. ret (batch @ results)))
      (\<lambda>rs _. map sr_label rs = labels @ concat lss) (\<lambda>_ _. False) v" if "map sr_label batch = labels" for batch v
    unfolding wp_bnd wp_ret by (rule wp_mono [OF Cons.IH]) (simp_all add: that)
  then have rest: "wp (andthen (if kind = ''diagnostics'' then ret () else each (report None) batch)
        (bnd (execute_items H E registry model None None n (Suc k) items) (\<lambda>results. ret (batch @ results))))
      (\<lambda>rs _. map sr_label rs = labels @ concat lss) (\<lambda>_ _. False) v" if "map sr_label batch = labels" for batch v
    using that by (simp add: wp_andthen wp_ret wp_report_none)
  show ?case
    unfolding item execute_items.simps wp_andthen option.case wp_ret concat.simps
    unfolding wp_bnd [of "dispatch_work_item H E registry model None kind ref"]
    by (rule wp_mono [OF run]) (use rest in \<open>simp_all add: wp_andthen\<close>)
qed (simp add: wps)

lemma yields_items:
  assumes "plan_from registry plan" "no_timeouts H"
  shows "p \<in> set (pl_prereqs plan) \<Longrightarrow> yields H E registry m (''prereq'', pq_id p) [pq_label p]"
    and "s \<in> set (pl_stacks plan) \<Longrightarrow> step \<in> set (st_build_steps s) \<Longrightarrow>
      yields H E registry m (''build'', st_id s @ '':'' @ bs_id step) [bs_label step]"
    and "s \<in> set (pl_stacks plan) \<Longrightarrow> yields H E registry m (''deploy'', st_id s) [deploy_label s m]"
    and "yields H E registry m (''diagnostics'', ''all'') (map dg_label (lr_diagnostics registry))"
proof -
  note p = assms(1) [unfolded plan_from_def list_all_iff]
  show "p \<in> set (pl_prereqs plan) \<Longrightarrow> yields H E registry m (''prereq'', pq_id p) [pq_label p]"
    using p by (auto simp: yields_def dispatch_work_item_def run_prereq_item_def last_by_distinct wps intro: wp_mono [OF run_prereq_label])
  show "s \<in> set (pl_stacks plan) \<Longrightarrow> yields H E registry m (''deploy'', st_id s) [deploy_label s m]"
    using p by (auto simp: yields_def dispatch_work_item_def run_deploy_item_def last_by_distinct wps intro: wp_mono [OF deploy_stack_label])
  show "yields H E registry m (''diagnostics'', ''all'') (map dg_label (lr_diagnostics registry))"
    using run_diagnostics_labels [OF assms(2)] by (simp add: yields_def dispatch_work_item_def)
  assume s: "s \<in> set (pl_stacks plan)" "step \<in> set (st_build_steps s)"
  with p have "last_by st_id (lr_stacks registry) (st_id s) = Some s" "find_build_step s (bs_id step) = Some step"
    "split_ref (st_id s @ '':'' @ bs_id step) = Inr (st_id s, bs_id step)"
    unfolding find_build_step_def by (auto intro: last_by_distinct find_first_distinct split_ref_join [simplified])
  then show "yields H E registry m (''build'', st_id s @ '':'' @ bs_id step) [bs_label step]"
    by (auto simp: yields_def dispatch_work_item_def run_build_item_def lift_sum_def wps intro: wp_mono [OF run_build_step_label])
qed

text \<open>The labels of the results, in the order of the plan.\<close>

definition stack_labels :: "install_plan \<Rightarrow> stack_profile \<Rightarrow> string list list" where
  "stack_labels plan s = map (\<lambda>step. [bs_label step]) (st_build_steps s)
     @ (if pl_deploy plan \<and> st_deploy s \<noteq> None then [[deploy_label s (pl_model plan)]] else [])"

definition plan_labels :: "llama_registry \<Rightarrow> install_plan \<Rightarrow> string list" where
  "plan_labels registry plan =
     map pq_label (pl_prereqs plan)
     @ concat (map (\<lambda>s. map bs_label (st_build_steps s)
         @ (if pl_deploy plan \<and> st_deploy s \<noteq> None then [deploy_label s (pl_model plan)] else [])) (pl_stacks plan))
     @ (if pl_run_diagnostics plan then map dg_label (lr_diagnostics registry) else [])"

lemma list_all2_concat_map: "(\<And>x. x \<in> set xs \<Longrightarrow> list_all2 P (f x) (g x)) \<Longrightarrow> list_all2 P (concat (map f xs)) (concat (map g xs))"
  by (induction xs) (auto intro: list_all2_appendI)

lemma execute_plan_labels:
  assumes "plan_from registry plan" "no_timeouts H"
  shows "wp (execute_plan H E registry plan None None) (\<lambda>rs _. map sr_label rs = plan_labels registry plan) (\<lambda>_ _. False) w"
proof -
  let ?lss = "map (\<lambda>p. [pq_label p]) (pl_prereqs plan) @ concat (map (stack_labels plan) (pl_stacks plan))
     @ (if pl_run_diagnostics plan then [map dg_label (lr_diagnostics registry)] else [])"
  note y = yields_items [OF assms]
  have "list_all2 (yields H E registry (pl_model plan)) (collect_work_items plan) ?lss"
    unfolding collect_work_items_def
  proof (intro list_all2_appendI list_all2_concat_map)
    show "list_all2 (yields H E registry (pl_model plan)) (map (\<lambda>p. (''prereq'', pq_id p)) (pl_prereqs plan))
        (map (\<lambda>p. [pq_label p]) (pl_prereqs plan))"
      using y(1) by (auto simp: list_all2_map1 list_all2_map2 intro: list.rel_refl_strong)
    show "list_all2 (yields H E registry (pl_model plan))
        (map (\<lambda>step. (''build'', st_id s @ '':'' @ bs_id step)) (st_build_steps s)
          @ (if pl_deploy plan \<and> st_deploy s \<noteq> None then [(''deploy'', st_id s)] else [])) (stack_labels plan s)"
      if "s \<in> set (pl_stacks plan)" for s
      unfolding stack_labels_def using y(2,3) [OF that]
      by (intro list_all2_appendI) (auto simp: list_all2_map1 list_all2_map2 intro: list.rel_refl_strong)
    show "list_all2 (yields H E registry (pl_model plan)) (if pl_run_diagnostics plan then [(''diagnostics'', ''all'')] else [])
        (if pl_run_diagnostics plan then [map dg_label (lr_diagnostics registry)] else [])"
      using y(4) by simp
  qed
  from execute_items_labels [OF this]
  have "wp (execute_plan H E registry plan None None) (\<lambda>rs _. map sr_label rs = concat ?lss) (\<lambda>_ _. False) w"
    by (simp add: execute_plan_def Let_def)
  moreover have "concat (concat (map (stack_labels plan) ss)) = concat (map (\<lambda>s. map bs_label (st_build_steps s)
      @ (if pl_deploy plan \<and> st_deploy s \<noteq> None then [deploy_label s (pl_model plan)] else [])) ss)" for ss
    by (induction ss) (simp_all add: stack_labels_def)
  then have "concat ?lss = plan_labels registry plan" by (simp add: plan_labels_def)
  ultimately show ?thesis by simp
qed

lemma missing_prereqs_iff:
  "distinct (map pq_id (lr_prereqs registry)) \<Longrightarrow>
   p \<in> set (missing_prereqs_for_stack registry snapshot stack) \<longleftrightarrow>
     p \<in> set (lr_prereqs registry) \<and> pq_id p \<in> set (st_prereq_ids stack) \<and>
     \<not> list_ex (\<lambda>s. ps_satisfied s \<and> ps_prereq_id s = pq_id p) (ds_prereqs snapshot)"
proof -
  assume d: "distinct (map pq_id (lr_prereqs registry))"
  have found: "prereq_by_id registry i = Some p \<longleftrightarrow> p \<in> set (lr_prereqs registry) \<and> pq_id p = i" for i
    using find_first_distinct [OF d, of p] find_first_Some [of "\<lambda>p. pq_id p = i" "lr_prereqs registry" p]
    unfolding prereq_by_id_def by auto
  show ?thesis
    unfolding missing_prereqs_for_stack_def Let_def
    by (auto simp: list_ex_iff found image_iff split: option.splits) (metis found option.distinct(1))+
qed

section \<open>Properties\<close>

text \<open>C23: a plan runs every item once, whatever fails. For a plan made from a registry, execution always returns, with
  one result for each prerequisite, each build step of each stack, each wanted deployment and each diagnostic, in that
  order and under its label: no failure, missing script or unknown kind ends it early.\<close>

theorem plan_runs_to_the_end:
  assumes "plan_from registry plan" "no_timeouts H"
  shows "\<exists>results w'. execute_plan H E registry plan None None w = (Inr results, w') \<and>
    map sr_label results = plan_labels registry plan"
  using wp_exists [OF execute_plan_labels [OF assms]] .

text \<open>A registry with one stack of one step, and the plan of it.\<close>

definition demo_registry :: llama_registry where
  "demo_registry = \<lparr>lr_stacks = [\<lparr>st_id = ''vulkan'', st_label = ''Vulkan'', st_description = [], st_prereq_ids = [''gpu''],
       st_build_steps = [\<lparr>bs_id = ''build'', bs_label = ''Build'', bs_script = None, bs_make_target = Some ''llamafile'',
         bs_make_vars = [], bs_detect_path = None, bs_detect_glob = None\<rparr>], st_deploy = None\<rparr>],
     lr_prereqs = [\<lparr>pq_id = ''gpu'', pq_label = ''GPU'', pq_description = [], pq_script = ''gpu.sh'', pq_script_args = [],
       pq_detect_cmds = [], pq_needs_sudo = True\<rparr>], lr_diagnostics = []\<rparr>"

definition demo_plan :: install_plan where
  "demo_plan = \<lparr>pl_prereqs = lr_prereqs demo_registry, pl_stacks = lr_stacks demo_registry, pl_run_diagnostics = True,
     pl_deploy = True, pl_model = []\<rparr>"

theorem plan_runs_to_the_end_witness:
  "\<exists>results w'. execute_plan demo_host \<lparr>su_root = mk_path ''/work'', su_gid = (\<lambda>_. None), su_groups = [], su_glob = (\<lambda>_ _. [])\<rparr>
     demo_registry demo_plan None None (demo_world [] []) = (Inr results, w') \<and> map sr_label results = [''GPU'', ''Build'']"
proof -
  have plan: "plan_from demo_registry demo_plan" by (simp add: plan_from_def demo_plan_def demo_registry_def)
  have host: "no_timeouts demo_host" by (simp add: no_timeouts_def)
  have "plan_labels demo_registry demo_plan = [''GPU'', ''Build'']" by (simp add: plan_labels_def demo_plan_def demo_registry_def)
  with plan_runs_to_the_end [OF plan host] show ?thesis by metis
qed

text \<open>Exactly the missing prerequisites are offered. A prerequisite is offered for a stack if and only if the stack
  names it and no probe of the snapshot found it satisfied, when the registry's identifiers are unique.\<close>

theorem missing_prereqs_exact:
  assumes "distinct (map pq_id (lr_prereqs registry))"
  shows "p \<in> set (missing_prereqs_for_stack registry snapshot stack) \<longleftrightarrow>
     p \<in> set (lr_prereqs registry) \<and> pq_id p \<in> set (st_prereq_ids stack) \<and>
     \<not> list_ex (\<lambda>s. ps_satisfied s \<and> ps_prereq_id s = pq_id p) (ds_prereqs snapshot)"
  using missing_prereqs_iff [OF assms] .

definition demo_snapshot :: detect_snapshot where
  "demo_snapshot = \<lparr>ds_hardware = \<lparr>hw_groups = \<lparr>gm_render = True, gm_video = True\<rparr>,
       hw_tools = \<lparr>tp_xpu_smi = False, tp_vulkaninfo = False, tp_clinfo = False\<rparr>, hw_gpu_probe_rc = 0, hw_gpu_probe_lines = []\<rparr>,
     ds_prereqs = [\<lparr>ps_prereq_id = ''gpu'', ps_label = ''GPU'', ps_satisfied = False, ps_detail = []\<rparr>], ds_stacks = [], ds_services = []\<rparr>"

theorem missing_prereqs_exact_witness:
  "hd (lr_prereqs demo_registry) \<in> set (missing_prereqs_for_stack demo_registry demo_snapshot (hd (lr_stacks demo_registry)))"
  by (subst missing_prereqs_exact) (simp_all add: demo_registry_def demo_snapshot_def)

end
