(* ===== verification/LlamaMenu.thy ===== *)
theory LlamaMenu
  imports LlamaSetup InstallerUi
begin

text \<open>
  \<open>llama_setup_installer.py\<close> and the printing of \<open>llama_setup_installer_ui.py\<close>: the plan of the model-server
  setup, made with menus or from a defaults file, its execution and the exit code. The dialogs are parameters.
\<close>

section \<open>What is printed of a snapshot\<close>

definition bool_icon :: "colors \<Rightarrow> bool \<Rightarrow> string" where
  "bool_icon C b = (if b then cl_green C @ tick @ cl_reset C else cl_red C @ cross @ cl_reset C)"

definition plain_status :: "colors \<Rightarrow> string \<Rightarrow> string \<Rightarrow> unit io" where
  "plain_status C icon message = print_status C icon message (cl_reset C)"

definition print_hardware_summary :: "colors \<Rightarrow> hardware_snapshot \<Rightarrow> unit io" where
  "print_hardware_summary C hw =
     (let g = hw_groups hw; t = hw_tools hw; probe_ok = (hw_gpu_probe_rc hw = 0) in
      andthen (print_section C ''Hardware Detection'')
     (andthen (plain_status C (bool_icon C (gm_render g)) (''render group: '' @ (if gm_render g then ''yes'' else ''no - run newgrp render'')))
     (andthen (plain_status C (bool_icon C (gm_video g)) (''video group: '' @ (if gm_video g then ''yes'' else ''no'')))
     (andthen (plain_status C (bool_icon C (tp_xpu_smi t)) (if tp_xpu_smi t then ''xpu-smi installed'' else ''xpu-smi not installed''))
     (andthen (plain_status C (bool_icon C (tp_vulkaninfo t)) (if tp_vulkaninfo t then ''vulkaninfo available'' else ''vulkaninfo missing''))
     (andthen (plain_status C (bool_icon C (tp_clinfo t)) (if tp_clinfo t then ''clinfo available'' else ''clinfo missing''))
     (andthen (plain_status C (bool_icon C probe_ok)
        (''Vulkan GPU probe'' @ (if probe_ok then [] else '' failed (rc '' @ show_int (hw_gpu_probe_rc hw) @ '')'')))
       (each (\<lambda>line. print_out (''    '' @ DIM @ line @ cl_reset C)) (take 12 (hw_gpu_probe_lines hw))))))))))"

definition print_prereq_summary :: "colors \<Rightarrow> prereq_status list \<Rightarrow> unit io" where
  "print_prereq_summary C prereqs =
     andthen (print_section C ''Prerequisite Status'')
       (each (\<lambda>p. plain_status C (bool_icon C (ps_satisfied p)) (ps_label p @ '': '' @ (if ps_satisfied p then ''ready'' else ps_detail p))) prereqs)"

definition print_stack_summary :: "colors \<Rightarrow> stack_status list \<Rightarrow> unit io" where
  "print_stack_summary C stacks =
     andthen (print_section C ''Stack Build Status'')
       (each (\<lambda>s. andthen (plain_status C (bool_icon C (ks_ready s)) (ks_label s))
          (each (\<lambda>step. print_out (''      '' @ bool_icon C (LlamaSetup.ss_installed step) @ '' '' @ LlamaSetup.ss_label step @ '' '' @ DIM
              @ ''('' @ LlamaSetup.ss_detail step @ '')'' @ cl_reset C)) (ks_build_steps s))) stacks)"

definition print_service_summary :: "colors \<Rightarrow> service_unit list \<Rightarrow> unit io" where
  "print_service_summary C services =
     andthen (print_section C ''Systemd Services'')
       (if services = [] then plain_status C bullet (DIM @ ''no llamafile/llamaserver user units running'' @ cl_reset C)
        else each (\<lambda>u. print_status C bullet (un_name u @ '' ['' @ un_active u @ '']'')
               (if un_active u = ''active'' then cl_green C else cl_yellow C)) services)"

definition print_detect_snapshot :: "colors \<Rightarrow> detect_snapshot \<Rightarrow> unit io" where
  "print_detect_snapshot C snapshot =
     andthen (print_hardware_summary C (ds_hardware snapshot))
    (andthen (print_prereq_summary C (ds_prereqs snapshot))
    (andthen (print_stack_summary C (ds_stacks snapshot))
       (print_service_summary C (ds_services snapshot))))"

section \<open>Defaults\<close>

record defaults_config =
  dc_stack_ids :: "string list"
  dc_prereq_ids :: "string list"
  dc_run_diagnostics :: bool
  dc_deploy :: bool
  dc_model :: string

definition LLAMA_DEFAULTS_PATH :: "path \<Rightarrow> path" where
  "LLAMA_DEFAULTS_PATH root = child (child (child root ''workspace'') ''config'') ''llama-setup-defaults.yaml''"

text \<open>\<open>data.get(k) or []\<close>, when it is a list.\<close>

definition string_list :: "(yaml \<Rightarrow> string) \<Rightarrow> ymap \<Rightarrow> string \<Rightarrow> string list" where
  "string_list show data k = (case as_list (y_get data k) of None \<Rightarrow> [] | Some xs \<Rightarrow> map (y_str show) xs)"

definition defaults_of :: "(yaml \<Rightarrow> string) \<Rightarrow> ymap \<Rightarrow> defaults_config" where
  "defaults_of show data =
     \<lparr>dc_stack_ids = string_list show data ''stacks'', dc_prereq_ids = string_list show data ''prereqs'',
      dc_run_diagnostics = y_true (y_get_or data ''run_diagnostics'' (YBool False)),
      dc_deploy = y_true (y_get_or data ''deploy'' (YBool False)),
      dc_model = y_str show (y_get_or data ''model'' (YStr ''minicpm5-1b''))\<rparr>"

definition load_llama_defaults :: "host \<Rightarrow> colors \<Rightarrow> (string \<Rightarrow> exn + yaml) \<Rightarrow> (yaml \<Rightarrow> string) \<Rightarrow> path \<Rightarrow> defaults_config io" where
  "load_llama_defaults H C safe_load show p =
     bnd (asks (\<lambda>w. is_file H w p)) (\<lambda>there.
       if \<not> there then andthen (print_out (cl_red C @ ''Error:'' @ cl_reset C @ '' defaults file not found: '' @ path_str p)) (raise (SystemExit 1))
       else bnd (read_text H p) (\<lambda>s.
            bnd (lift_sum (safe_load s)) (\<lambda>v.
              case as_map v of
                None \<Rightarrow> andthen (print_out (cl_red C @ ''Error:'' @ cl_reset C @ '' invalid defaults file: '' @ path_str p)) (raise (SystemExit 1))
              | Some data \<Rightarrow> ret (defaults_of show data))))"

section \<open>Selections\<close>

text \<open>The dialogs of the setup: one menu, of stacks.\<close>

definition select_stacks :: "stack_profile dialogs \<Rightarrow> llama_registry \<Rightarrow> stack_profile list io" where
  "select_stacks D registry =
     bnd (dl_multiselect D
            (map (\<lambda>s. \<lparr>mi_id = st_id s, mi_label = st_label s, mi_value = Some s, mi_description = st_description s, mi_disabled = False\<rparr>)
               (lr_stacks registry))
            ''Select stack profile(s)'' {''llamafile_vulkan_server''} {} 16)
       (\<lambda>selected. ret (chosen_values selected))"

definition select_extra_prereqs :: "stack_profile dialogs \<Rightarrow> llama_registry \<Rightarrow> string set \<Rightarrow> prereq_spec list io" where
  "select_extra_prereqs D registry known =
     (let optional = filter (\<lambda>p. pq_id p = ''intel_monitoring'' \<and> pq_id p \<notin> known) (lr_prereqs registry) in
      if optional = [] then ret []
      else bnd (dl_confirm D ''Install Intel GPU monitoring (xpu-smi only)?'' ''Optional prereq'') (\<lambda>yes.
             ret (if yes then optional else [])))"

definition confirm_deploy :: "stack_profile dialogs \<Rightarrow> stack_profile list \<Rightarrow> bool io" where
  "confirm_deploy D stacks =
     (let deployable = filter (\<lambda>s. st_deploy s \<noteq> None) stacks in
      if deployable = [] then ret False
      else dl_confirm D (''Deploy systemd services for: '' @ join '', '' (map st_label deployable) @ ''?'') ''Service deploy'')"

section \<open>The plan\<close>

text \<open>The loop over the missing prerequisites of the stacks: \<open>needed\<close> and \<open>seen\<close>.\<close>

fun add_missing :: "prereq_spec list \<Rightarrow> prereq_spec list \<times> string set \<Rightarrow> prereq_spec list \<times> string set" where
  "add_missing [] st = st"
| "add_missing (p # ps) (needed, seen) =
     (if pq_id p \<in> seen then add_missing ps (needed, seen) else add_missing ps (needed @ [p], insert (pq_id p) seen))"

definition build_plan :: "llama_registry \<Rightarrow> stack_profile list \<Rightarrow> detect_snapshot \<Rightarrow> prereq_spec list \<Rightarrow> bool \<Rightarrow> bool \<Rightarrow> string \<Rightarrow> install_plan" where
  "build_plan registry stacks snapshot extra diagnostics deploy model =
     \<lparr>pl_prereqs = fst (add_missing (concat (map (missing_prereqs_for_stack registry snapshot) stacks)) (extra, pq_id ` set extra)),
      pl_stacks = stacks, pl_run_diagnostics = diagnostics, pl_deploy = deploy, pl_model = model\<rparr>"

text \<open>The execution with the number of successes and the labels of the failures, which the callback of the source counts as
  the results come.\<close>

definition run_plan :: "host \<Rightarrow> setup_env \<Rightarrow> colors \<Rightarrow> llama_registry \<Rightarrow> install_plan \<Rightarrow> (nat \<times> string list) io" where
  "run_plan H E C registry plan =
     bnd (execute_plan H E registry plan (Some (print_progress C))
            (Some (\<lambda>label success detail.
               if success then print_status C tick (label @ '' ('' @ detail @ '')'') (cl_green C)
               else print_status C cross (label @ '': '' @ detail) (cl_red C)))) (\<lambda>results.
       ret (length (filter sr_success results), map sr_label (filter (\<lambda>r. \<not> sr_success r) results)))"

definition print_setup_summary :: "colors \<Rightarrow> nat \<Rightarrow> string list \<Rightarrow> int io" where
  "print_setup_summary C success_count failed_labels =
     andthen (print_section C ''Setup Summary'')
       (if failed_labels \<noteq> []
        then andthen (print_status C tick (''Successful steps: '' @ show_nat success_count) (cl_green C))
            (andthen (print_status C cross (''Failed steps: '' @ show_nat (length failed_labels)) (cl_red C))
            (andthen (each (\<lambda>l. print_status C (''  '' @ bullet) l (cl_red C)) failed_labels) (ret 1)))
        else andthen (print_status C tick (''All '' @ show_nat success_count @ '' step(s) completed'') (cl_green C))
            (andthen (each print_out [nl @ cl_cyan C @ times_str 60 dash @ cl_reset C, cl_green C @ ''  Llama setup complete.'' @ cl_reset C,
                        cl_cyan C @ times_str 60 dash @ cl_reset C @ nl]) (ret 0)))"

definition execute_and_report :: "host \<Rightarrow> setup_env \<Rightarrow> colors \<Rightarrow> llama_registry \<Rightarrow> install_plan \<Rightarrow> int io" where
  "execute_and_report H E C registry plan =
     bnd (run_plan H E C registry plan) (\<lambda>(success_count, failed_labels). print_setup_summary C success_count failed_labels)"

section \<open>The program\<close>

definition run_interactive :: "host \<Rightarrow> setup_env \<Rightarrow> colors \<Rightarrow> stack_profile dialogs \<Rightarrow> llama_registry \<Rightarrow> int io" where
  "run_interactive H E C D registry =
     andthen (print_out (llama_banner C))
    (bnd (collect_snapshot H E registry) (\<lambda>snapshot.
     andthen (print_detect_snapshot C snapshot)
    (bnd (select_stacks D registry) (\<lambda>stacks.
       if stacks = [] then andthen (print_out (cl_yellow C @ ''No stacks selected. Exiting.'' @ cl_reset C)) (ret 0)
       else bnd (select_extra_prereqs D registry {}) (\<lambda>extra.
            bnd (confirm_deploy D stacks) (\<lambda>deploy.
            bnd (dl_confirm D ''Run post-setup diagnostics (Vulkan probe, xpu-smi, tests)?'' ''Diagnostics'') (\<lambda>diagnostics.
              let plan = build_plan registry stacks snapshot extra diagnostics deploy ''minicpm5-1b'' in
              andthen (print_section C (''Installing '' @ show_nat (length (pl_stacks plan)) @ '' stack(s)''))
             (andthen (each (\<lambda>s. print_status C bullet (st_label s) (cl_cyan C)) (pl_stacks plan))
             (andthen (print_out []) (execute_and_report H E C registry plan))))))))))"

definition known_stack :: "colors \<Rightarrow> llama_registry \<Rightarrow> string \<Rightarrow> stack_profile list io" where
  "known_stack C registry stack_id =
     (case stack_by_id registry stack_id of
        Some s \<Rightarrow> ret [s]
      | None \<Rightarrow> andthen (print_out (cl_yellow C @ ''Warning:'' @ cl_reset C @ '' unknown stack '' @ quoted stack_id @ '', skipping'')) (ret []))"

definition run_llama_defaults :: "host \<Rightarrow> setup_env \<Rightarrow> colors \<Rightarrow> (string \<Rightarrow> exn + yaml) \<Rightarrow> (yaml \<Rightarrow> string) \<Rightarrow> llama_registry \<Rightarrow> path \<Rightarrow> int io" where
  "run_llama_defaults H E C safe_load show registry p =
     andthen (print_out (cl_cyan C @ ''Running llama-setup CI mode:'' @ cl_reset C @ '' '' @ path_str p @ nl))
    (bnd (load_llama_defaults H C safe_load show p) (\<lambda>config.
     bnd (collect (known_stack C registry) (dc_stack_ids config)) (\<lambda>found.
       let stacks = concat found in
       if stacks = [] then andthen (print_out (cl_yellow C @ ''No valid stacks in defaults. Exiting.'' @ cl_reset C)) (ret 0)
       else bnd (collect_snapshot H E registry) (\<lambda>snapshot.
            let extra = concat (map (\<lambda>i. case last_by pq_id (lr_prereqs registry) i of None \<Rightarrow> [] | Some q \<Rightarrow> [q]) (dc_prereq_ids config));
                plan = build_plan registry stacks snapshot extra (dc_run_diagnostics config) (dc_deploy config) (dc_model config)
            in andthen (print_section C (''Installing '' @ show_nat (length (pl_stacks plan)) @ '' stack(s) (CI)''))
                 (execute_and_report H E C registry plan)))))"

definition llama_main_impl :: "host \<Rightarrow> setup_env \<Rightarrow> colors \<Rightarrow> stack_profile dialogs \<Rightarrow> (string \<Rightarrow> exn + yaml) \<Rightarrow> (yaml \<Rightarrow> string)
    \<Rightarrow> (yaml \<Rightarrow> exn + int) \<Rightarrow> path option \<Rightarrow> int io" where
  "llama_main_impl H E C D safe_load show to_int defaults =
     bnd (load_llama_registry H safe_load show to_int (su_root E) None) (\<lambda>registry.
       case defaults of
         Some p \<Rightarrow> run_llama_defaults H E C safe_load show registry p
       | None \<Rightarrow>
           if \<not> dl_tty D
           then andthen (print_out (cl_red C @ ''Error:'' @ cl_reset C @ '' interactive mode requires a TTY.'' @ nl
                   @ ''Use: make llama-setup-ci  or  --defaults '' @ path_str (LLAMA_DEFAULTS_PATH (su_root E)))) (ret 1)
           else run_interactive H E C D registry)"

definition llama_main :: "host \<Rightarrow> setup_env \<Rightarrow> colors \<Rightarrow> stack_profile dialogs \<Rightarrow> (string \<Rightarrow> exn + yaml) \<Rightarrow> (yaml \<Rightarrow> string)
    \<Rightarrow> (yaml \<Rightarrow> exn + int) \<Rightarrow> path option \<Rightarrow> int io" where
  "llama_main H E C D safe_load show to_int defaults =
     finally_do
       (catch (\<lambda>_. True) (llama_main_impl H E C D safe_load show to_int defaults) (\<lambda>e. andthen restore_llama_terminal (raise e)))
       restore_llama_terminal"

section \<open>Facts\<close>

text \<open>The loop adds the first prerequisite of every identifier that it has not seen.\<close>

lemma add_missing_facts:
  "seen = K \<union> pq_id ` set added \<Longrightarrow> distinct (map pq_id added) \<Longrightarrow> pq_id ` set added \<inter> K = {} \<Longrightarrow>
   \<exists>more seen'. add_missing ps (needed, seen) = (needed @ more, seen') \<and> set more \<subseteq> set ps \<and>
     distinct (map pq_id (added @ more)) \<and> pq_id ` set (added @ more) \<inter> K = {} \<and>
     pq_id ` set ps \<subseteq> K \<union> pq_id ` set (added @ more)"
proof (induction ps arbitrary: needed seen added)
  case (Cons p ps)
  show ?case
  proof (cases "pq_id p \<in> seen")
    case True
    from Cons.IH [OF Cons.prems, of needed] obtain more seen' where
      "add_missing ps (needed, seen) = (needed @ more, seen')" "set more \<subseteq> set ps" "distinct (map pq_id (added @ more))"
      "pq_id ` set (added @ more) \<inter> K = {}" "pq_id ` set ps \<subseteq> K \<union> pq_id ` set (added @ more)" by auto
    with True Cons.prems(1) show ?thesis by (intro exI [of _ more] exI [of _ seen']) auto
  next
    case False
    have "insert (pq_id p) seen = K \<union> pq_id ` set (added @ [p])" "distinct (map pq_id (added @ [p]))"
      "pq_id ` set (added @ [p]) \<inter> K = {}"
      using False Cons.prems by auto
    from Cons.IH [OF this, of "needed @ [p]"] obtain more seen' where
      "add_missing ps (needed @ [p], insert (pq_id p) seen) = (needed @ [p] @ more, seen')" "set more \<subseteq> set ps"
      "distinct (map pq_id (added @ p # more))" "pq_id ` set (added @ p # more) \<inter> K = {}"
      "pq_id ` set ps \<subseteq> K \<union> pq_id ` set (added @ p # more)" by auto
    with False show ?thesis by (intro exI [of _ "p # more"] exI [of _ seen']) auto
  qed
qed (auto)

section \<open>Property\<close>

text \<open>A plan has every missing prerequisite once. Beside the extra ones it was given, a plan has only prerequisites that a
  selected stack misses, of different identifiers that are not among the extra ones, and for every prerequisite that some
  selected stack misses one of its identifier.\<close>

theorem plan_has_missing_prereqs:
  "\<exists>added. pl_prereqs (build_plan registry stacks snapshot extra diag deploy model) = extra @ added \<and>
     distinct (map pq_id added) \<and> pq_id ` set added \<inter> pq_id ` set extra = {} \<and>
     set added \<subseteq> set (concat (map (missing_prereqs_for_stack registry snapshot) stacks)) \<and>
     pq_id ` set (concat (map (missing_prereqs_for_stack registry snapshot) stacks)) \<subseteq> pq_id ` set (extra @ added)"
proof -
  let ?missing = "concat (map (missing_prereqs_for_stack registry snapshot) stacks)"
  obtain more seen' where "add_missing ?missing (extra, pq_id ` set extra) = (extra @ more, seen')"
    and rest: "set more \<subseteq> set ?missing" "distinct (map pq_id more)" "pq_id ` set more \<inter> pq_id ` set extra = {}"
      "pq_id ` set ?missing \<subseteq> pq_id ` set extra \<union> pq_id ` set more"
    using add_missing_facts [of "pq_id ` set extra" "pq_id ` set extra" "[]" ?missing extra] by auto
  then have "pl_prereqs (build_plan registry stacks snapshot extra diag deploy model) = extra @ more"
    by (simp add: build_plan_def)
  with rest show ?thesis unfolding set_append image_Un by blast
qed

end
