(* ===== verification/BootstrapMenu.thy ===== *)
theory BootstrapMenu
  imports Bootstrap InstallerUi
begin

text \<open>
  \<open>bootstrap_installer.py\<close>: the installer of the workspace components, with two menus or from a defaults file.
  The dialogs are parameters; \<open>menu_env\<close> holds the loaded registry (the groups in order, all components, and the
  workspace repositories), the project root, the pattern search and the banner.
\<close>

record menu_env =
  me_groups :: "string list"
  me_components :: "component list"
  me_repos :: "component list"
  me_root :: path
  me_search :: pattern_search
  me_colors :: colors
  me_banner :: string

section \<open>Statuses\<close>

record named_status =
  ns_name :: string
  ns_installed :: bool
  ns_version :: "string option"
  ns_path :: "string option"

definition find_status_by_name :: "named_status list \<Rightarrow> string \<Rightarrow> named_status option" where
  "find_status_by_name statuses name = find_first (\<lambda>s. ns_name s = name) statuses"

definition is_installed :: "named_status option \<Rightarrow> bool" where
  "is_installed status = (case status of None \<Rightarrow> False | Some s \<Rightarrow> ns_installed s)"

definition format_component_label :: "colors \<Rightarrow> component \<Rightarrow> named_status option \<Rightarrow> string" where
  "format_component_label C c status =
     (case status of
        Some s \<Rightarrow> if ns_installed s \<and> truthy_opt (ns_version s)
                  then co_label c @ '' '' @ cl_green C @ ''v'' @ the (ns_version s) @ cl_reset C else co_label c
      | None \<Rightarrow> co_label c)"

definition format_component_description :: "colors \<Rightarrow> component \<Rightarrow> named_status option \<Rightarrow> string" where
  "format_component_description C c status =
     (if is_installed status then co_description c @ '' '' @ cl_green C @ tick @ cl_reset C
      else co_description c @ '' '' @ DIM @ ''(not installed)'' @ cl_reset C)"

definition scan_component :: "host \<Rightarrow> menu_env \<Rightarrow> component \<Rightarrow> named_status io" where
  "scan_component H M c =
     andthen (print_out ([CHR 0x0D] @ ''  Checking '' @ co_label c @ ''...'' @ replicate 20 (CHR '' '')))
       (bnd (get_status H (me_search M) (me_root M) c) (\<lambda>s.
          ret \<lparr>ns_name = co_name c, ns_installed = cs_installed s, ns_version = cs_version s, ns_path = cs_path s\<rparr>))"

definition grouped_components :: "menu_env \<Rightarrow> (string \<times> component list) list" where
  "grouped_components M = get_components_by_group (me_groups M) (me_components M)"

definition scan_components :: "host \<Rightarrow> menu_env \<Rightarrow> named_status list io" where
  "scan_components H M =
     (let C = me_colors M; listed = concat (map snd (grouped_components M)) in
      andthen (print_out (nl @ cl_cyan C @ ''Scanning installed components...'' @ cl_reset C))
     (bnd (collect (scan_component H M) listed) (\<lambda>statuses.
      andthen (print_out ([CHR 0x0D] @ replicate 60 (CHR '' '') @ [CHR 0x0D]))
     (andthen (print_out (''  '' @ cl_green C @ tick @ cl_reset C @ '' Found '' @ show_nat (length (filter ns_installed statuses))
         @ ''/'' @ show_nat (length listed) @ '' components installed'' @ nl))
        (ret statuses)))))"

section \<open>Menus\<close>

definition component_item :: "colors \<Rightarrow> named_status list \<Rightarrow> bool \<Rightarrow> component \<Rightarrow> component menu_item" where
  "component_item C statuses disabled c =
     (let status = find_status_by_name statuses (co_name c) in
      \<lparr>mi_id = co_name c, mi_label = format_component_label C c status, mi_value = Some c,
       mi_description = format_component_description C c status, mi_disabled = disabled\<rparr>)"

definition group_menu :: "colors \<Rightarrow> named_status list \<Rightarrow> string \<times> component list \<Rightarrow> component menu_item list" where
  "group_menu C statuses = (\<lambda>(group, cs).
     if cs = [] \<or> group = WORKSPACE_REPOS_GROUP then []
     else let is_core = (group = ''Core Dependencies'');
              installed_count = length (filter (\<lambda>c. is_installed (find_status_by_name statuses (co_name c))) cs)
          in \<lparr>mi_id = ''_header_'' @ group, mi_label = (if is_core then group @ '' (required)'' else group), mi_value = None,
              mi_description = show_nat installed_count @ ''/'' @ show_nat (length cs) @ '' installed'', mi_disabled = False\<rparr>
             # map (component_item C statuses is_core) cs)"

text \<open>The items with the identifiers of the installed components; nothing is preselected.\<close>

definition build_menu_items :: "menu_env \<Rightarrow> named_status list \<Rightarrow> component menu_item list \<times> string set \<times> string set" where
  "build_menu_items M statuses =
     (let shown = filter (\<lambda>(g, cs). cs \<noteq> [] \<and> g \<noteq> WORKSPACE_REPOS_GROUP) (grouped_components M) in
      (concat (map (group_menu (me_colors M) statuses) (grouped_components M)), {},
       co_name ` set (filter (\<lambda>c. is_installed (find_status_by_name statuses (co_name c))) (concat (map snd shown)))))"

definition is_mandatory_repo :: "component \<Rightarrow> bool" where
  "is_mandatory_repo c = prefix ''[mandatory]'' (co_description c)"

text \<open>The mandatory repositories that the menu did not give back are added.\<close>

definition select_workspace_repos :: "menu_env \<Rightarrow> component dialogs \<Rightarrow> named_status list \<Rightarrow> component list io" where
  "select_workspace_repos M D statuses =
     (let repos = me_repos M; C = me_colors M in
      if repos = [] then ret []
      else andthen (print_section C ''Step 1 of 2 - Select Workspace Repositories'')
     (andthen (print_out (''  '' @ DIM @ ''Mandatory repos are pre-selected and locked. Optional repos opt-in below.'' @ cl_reset C @ nl))
     (bnd (dl_multiselect D (map (\<lambda>c. component_item C statuses (is_mandatory_repo c) c) repos) ''Workspace Repositories''
             (co_name ` set (filter is_mandatory_repo repos))
             (co_name ` set (filter (\<lambda>c. is_installed (find_status_by_name statuses (co_name c))) repos)) 20) (\<lambda>selected.
        let chosen = chosen_values selected; chosen_names = co_name ` set chosen in
        ret (chosen @ filter (\<lambda>c. is_mandatory_repo c \<and> co_name c \<notin> chosen_names) repos)))))"

section \<open>Installing\<close>

definition show_selection_summary :: "colors \<Rightarrow> component list \<Rightarrow> named_status list \<Rightarrow> unit io" where
  "show_selection_summary C comps statuses =
     andthen (print_section C (''Selected '' @ show_nat (length comps) @ '' Component(s)''))
       (each (\<lambda>c. print_status C bullet
           (if is_installed (find_status_by_name statuses (co_name c)) then co_label c @ '' '' @ DIM @ ''(reinstall)'' @ cl_reset C
            else co_label c) (cl_cyan C)) comps)"

definition installer_callbacks :: "colors \<Rightarrow> callbacks" where
  "installer_callbacks C =
     \<lparr>on_progress = Some (print_progress C),
      on_result = Some (\<lambda>c success. if success then print_status C tick (co_label c @ '' installed'') (cl_green C)
                                    else print_status C cross (co_label c @ '' failed'') (cl_red C))\<rparr>"

text \<open>The installation with the number of successes and the labels of the failures, which the callback of the source counts
  as the results come: they are those of the components in the order of the installation.\<close>

definition install_order :: "component list \<Rightarrow> component list" where
  "install_order comps = fst (categorize_components comps) @ snd (categorize_components comps)"

definition run_installation :: "host \<Rightarrow> boot_env \<Rightarrow> colors \<Rightarrow> component list \<Rightarrow> (nat \<times> string list) io" where
  "run_installation H E C comps =
     andthen (ensure_directories H E)
    (andthen (print_status C tick ''Ensured directories exist'' (cl_green C))
    (bnd (install_components H E (installer_callbacks C) comps) (\<lambda>results.
       ret (length (filter ir_success results),
            map (co_label \<circ> fst) (filter (\<lambda>(c, r). \<not> ir_success r) (zip (install_order comps) results))))))"

definition print_install_summary :: "colors \<Rightarrow> nat \<Rightarrow> string list \<Rightarrow> int io" where
  "print_install_summary C success_count failures =
     andthen (print_section C ''Installation Summary'')
       (if failures \<noteq> []
        then andthen (print_status C tick (''Successful: '' @ show_nat success_count) (cl_green C))
            (andthen (print_status C cross (''Failed: '' @ show_nat (length failures)) (cl_red C))
            (andthen (print_out [])
            (andthen (each (\<lambda>name. print_status C (''  '' @ bullet) name (cl_red C)) failures)
               (ret 1))))
        else andthen (print_status C tick (''All '' @ show_nat success_count @ '' component(s) installed successfully!'') (cl_green C))
            (andthen (each print_out [nl @ cl_cyan C @ times_str 60 dash @ cl_reset C,
                 cl_green C @ ''  Installation complete!'' @ cl_reset C, cl_cyan C @ times_str 60 dash @ cl_reset C @ nl])
               (ret 0)))"

section \<open>From a defaults file\<close>

text \<open>\<open>not data or "components" not in data\<close>, then \<open>list(data["components"])\<close>.\<close>

definition listed_components :: "yaml \<Rightarrow> exn + yaml list option" where
  "listed_components data =
     (if \<not> y_true data then Inr None
      else case data of
        YMap kvs \<Rightarrow> (case map_of kvs (YStr ''components'') of None \<Rightarrow> Inr None | Some v \<Rightarrow> sum_map Some (y_items v))
      | YList xs \<Rightarrow> if YStr ''components'' \<in> set xs then Inl (TypeError ''list indices must be integers or slices, not str'') else Inr None
      | YStr s \<Rightarrow> if sublist ''components'' s then Inl (TypeError ''string indices must be integers'') else Inr None
      | _ \<Rightarrow> Inl (TypeError ''argument is not iterable''))"

definition load_install_defaults :: "host \<Rightarrow> menu_env \<Rightarrow> (string \<Rightarrow> exn + yaml) \<Rightarrow> path \<Rightarrow> yaml list io" where
  "load_install_defaults H M safe_load defaults_file =
     (let C = me_colors M in
      bnd (asks (\<lambda>w. p_exists H w defaults_file)) (\<lambda>there.
        if \<not> there
        then andthen (print_out (cl_red C @ ''Error:'' @ cl_reset C @ '' Defaults file not found: '' @ path_str defaults_file))
               (raise (SystemExit 1))
        else bnd (read_text H defaults_file) (\<lambda>s.
             bnd (lift_sum (safe_load s)) (\<lambda>data.
             bnd (lift_sum (listed_components data)) (\<lambda>listed.
               case listed of
                 None \<Rightarrow> andthen (print_out (cl_red C @ ''Error:'' @ cl_reset C @ '' Invalid defaults file: missing '' @ quoted ''components'' @ '' key''))
                           (raise (SystemExit 1))
               | Some names \<Rightarrow> ret names)))))"

text \<open>The names of the file, then the mandatory repositories it does not name. Their join needs texts.\<close>

definition with_mandatory :: "component list \<Rightarrow> yaml list \<Rightarrow> yaml list" where
  "with_mandatory repos names =
     fold (\<lambda>c ns. if YStr (co_name c) \<in> set ns then ns else ns @ [YStr (co_name c)]) (filter is_mandatory_repo repos) names"

fun as_text :: "yaml \<Rightarrow> exn + string" where
  "as_text (YStr s) = Inr s"
| "as_text _ = Inl (TypeError ''sequence item: expected str instance'')"

text \<open>The components of the names, or the first unknown name.\<close>

fun resolve_names :: "component list \<Rightarrow> string list \<Rightarrow> string + component list" where
  "resolve_names comps [] = Inr []"
| "resolve_names comps (name # names) =
     (case get_component_by_name comps name of
        None \<Rightarrow> Inl name
      | Some c \<Rightarrow> (case resolve_names comps names of Inl n \<Rightarrow> Inl n | Inr cs \<Rightarrow> Inr (c # cs)))"

definition pending_component :: "host \<Rightarrow> menu_env \<Rightarrow> component \<Rightarrow> component list io" where
  "pending_component H M c =
     bnd (if co_type c = WorkspaceRepo then ret False
          else bnd (get_status H (me_search M) (me_root M) c) (\<lambda>s. ret (cs_installed s))) (\<lambda>skip.
       if skip then andthen (print_status (me_colors M) bullet (co_label c @ '' already installed; skipping'') DIM) (ret [])
       else ret [c])"

definition run_from_defaults :: "host \<Rightarrow> boot_env \<Rightarrow> menu_env \<Rightarrow> (string \<Rightarrow> exn + yaml) \<Rightarrow> path \<Rightarrow> int io" where
  "run_from_defaults H E M safe_load defaults_file =
     (let C = me_colors M in
      andthen (print_out (cl_cyan C @ ''Running in CI mode with defaults from:'' @ cl_reset C @ '' '' @ path_str defaults_file @ nl))
     (bnd (load_install_defaults H M safe_load defaults_file) (\<lambda>listed.
      bnd (lift_sum (all_inr (map as_text (with_mandatory (me_repos M) listed)))) (\<lambda>names.
      andthen (print_out (''  Components to install: '' @ join '', '' names @ nl))
        (case resolve_names (me_components M) names of
           Inl name \<Rightarrow> andthen (print_err (cl_red C @ ''Error:'' @ cl_reset C @ '' Unknown component '' @ quoted name @ '' in ''
               @ path_str defaults_file @ ''. Fix the selection or add it to bootstrap-components.yaml.'')) (ret 1)
         | Inr comps \<Rightarrow>
             bnd (collect (pending_component H M) comps) (\<lambda>kept.
               let pending = concat kept in
               if pending = [] then andthen (print_out (cl_yellow C @ ''No valid components found. Exiting.'' @ cl_reset C)) (ret 0)
               else andthen (print_section C (''Installing '' @ show_nat (length pending) @ '' Component(s)''))
                   (andthen (each (\<lambda>c. print_status C bullet (co_label c) (cl_cyan C)) pending)
                   (andthen (print_out [])
                   (bnd (run_installation H E C pending) (\<lambda>(success_count, failures).
                      print_install_summary C success_count failures))))))))))"

section \<open>The program\<close>

definition run_menus :: "host \<Rightarrow> boot_env \<Rightarrow> menu_env \<Rightarrow> component dialogs \<Rightarrow> int io" where
  "run_menus H E M D =
     (let C = me_colors M in
      andthen (print_out (me_banner M))
     (bnd (scan_components H M) (\<lambda>statuses.
      bnd (select_workspace_repos M D statuses) (\<lambda>repo_components.
      andthen (print_section C ''Step 2 of 2 - Select Components'')
     (case build_menu_items M statuses of (items, preselected, skippable) \<Rightarrow>
      bnd (dl_multiselect D items ''Select Components'' preselected skippable 20) (\<lambda>selected.
        let comps = repo_components @ chosen_values selected in
        if comps = [] then andthen (print_out (nl @ cl_yellow C @ ''Nothing selected. Exiting.'' @ cl_reset C)) (ret 0)
        else andthen (show_selection_summary C comps statuses)
            (andthen (print_out [])
            (bnd (dl_confirm D (''Install '' @ show_nat (length comps) @ '' component(s)?'') ''Confirm'') (\<lambda>go.
               if \<not> go then andthen (print_out (nl @ cl_yellow C @ ''Installation cancelled.'' @ cl_reset C)) (ret 0)
               else andthen (print_section C ''Installing Components'')
                 (bnd (run_installation H E C comps) (\<lambda>(success_count, failures).
                    print_install_summary C success_count failures)))))))))))"

definition bootstrap_main_impl :: "host \<Rightarrow> boot_env \<Rightarrow> menu_env \<Rightarrow> component dialogs \<Rightarrow> (string \<Rightarrow> exn + yaml) \<Rightarrow> path option \<Rightarrow> int io" where
  "bootstrap_main_impl H E M D safe_load defaults =
     (let C = me_colors M in
      case defaults of
        Some f \<Rightarrow> run_from_defaults H E M safe_load f
      | None \<Rightarrow>
          if \<not> dl_tty D
          then andthen (each print_out
                 [cl_red C @ ''Error:'' @ cl_reset C @ '' This script requires an interactive terminal.'',
                  ''Run it directly, not through a pipe.'',
                  nl @ cl_cyan C @ ''Tip:'' @ cl_reset C @ '' Use --defaults FILE for non-interactive CI mode.'']) (ret 1)
          else run_menus H E M D)"

text \<open>The terminal is restored on an exception, and again at the end.\<close>

definition bootstrap_main :: "host \<Rightarrow> boot_env \<Rightarrow> menu_env \<Rightarrow> component dialogs \<Rightarrow> (string \<Rightarrow> exn + yaml) \<Rightarrow> path option \<Rightarrow> int io" where
  "bootstrap_main H E M D safe_load defaults =
     finally_do
       (catch (\<lambda>_. True) (bootstrap_main_impl H E M D safe_load defaults)
         (\<lambda>e. andthen (restore_bootstrap_terminal (me_colors M)) (raise e)))
       (restore_bootstrap_terminal (me_colors M))"

section \<open>Facts\<close>

lemma with_mandatory_keeps: "set names \<subseteq> set (with_mandatory repos names)"
proof -
  have "set names \<subseteq> set (fold (\<lambda>c ns. if YStr (co_name c) \<in> set ns then ns else ns @ [YStr (co_name c)]) cs names)" for cs
    by (induction cs arbitrary: names) (simp, fastforce)
  then show ?thesis by (simp add: with_mandatory_def)
qed

lemma with_mandatory_has: "c \<in> set repos \<Longrightarrow> is_mandatory_repo c \<Longrightarrow> YStr (co_name c) \<in> set (with_mandatory repos names)"
proof (induction repos arbitrary: names)
  case (Cons r repos)
  let ?names = "if YStr (co_name r) \<in> set names then names else names @ [YStr (co_name r)]"
  have step: "with_mandatory (r # repos) names = (if is_mandatory_repo r then with_mandatory repos ?names else with_mandatory repos names)"
    by (simp add: with_mandatory_def)
  show ?case
  proof (cases "c = r")
    case True
    with Cons.prems(2) have "YStr (co_name c) \<in> set ?names" by simp
    with Cons.prems(2) True show ?thesis unfolding step using with_mandatory_keeps [of ?names repos] by auto
  next
    case False
    with Cons show ?thesis unfolding step by simp
  qed
qed simp

lemma selected_mandatory:
  "wp (select_workspace_repos M D statuses) (\<lambda>chosen _. \<forall>c \<in> set (me_repos M). is_mandatory_repo c \<longrightarrow> co_name c \<in> co_name ` set chosen)
     (\<lambda>_ _. True) w"
proof (cases "me_repos M = []")
  case True
  then show ?thesis by (simp add: select_workspace_repos_def wps)
next
  case False
  then show ?thesis
    unfolding select_workspace_repos_def Let_def if_not_P [OF False]
    by (intro andthen_any after_any) (auto simp: wps)
qed

section \<open>Property\<close>

text \<open>Mandatory repositories are always installed. Whatever the menu gives back, and whatever names the defaults file lists,
  the selection has a repository of the name of every mandatory repository of the registry.\<close>

theorem mandatory_repos_selected:
  "(case fst (select_workspace_repos M D statuses w) of
      Inl _ \<Rightarrow> True
    | Inr chosen \<Rightarrow> list_all (\<lambda>c. co_name c \<in> co_name ` set chosen) (filter is_mandatory_repo (me_repos M))) \<and>
   list_all (\<lambda>c. YStr (co_name c) \<in> set (with_mandatory (me_repos M) names)) (filter is_mandatory_repo (me_repos M))"
  using selected_mandatory [of M D statuses w] with_mandatory_has
  by (auto simp: wp_def list_all_iff split: prod.splits sum.splits)

end
