(* ===== verification/VpnClient.thy ===== *)
theory VpnClient
  imports VpnCore
begin

text \<open>
  \<open>workspace/scripts/bin/run_openvpn_client.py\<close>: the client of the workspace's tunnel, over the operations of
  \<open>vpn_core.py\<close>. The parsed arguments are a record; missing texts are empty, as \<open>main\<close> passes them on.
\<close>

definition SYSTEMD_UNIT :: string where "SYSTEMD_UNIT = ''workspace-openvpn.service''"
definition LAUNCHD_LABEL :: string where "LAUNCHD_LABEL = ''workspace.openvpn.client''"
definition KICKSTART_TIMEOUT :: int where "KICKSTART_TIMEOUT = 10"
definition START_WAIT :: nat where "START_WAIT = 30"
definition LOG_TAIL_LINES :: nat where "LOG_TAIL_LINES = 30"
definition TIMEOUT_EXIT :: int where "TIMEOUT_EXIT = 124"

definition on_mac :: "host \<Rightarrow> bool" where "on_mac H \<longleftrightarrow> h_system H = ''Darwin''"

definition vpn_workspace_root :: "host \<Rightarrow> world \<Rightarrow> path" where
  "vpn_workspace_root H w =
     (if env_stripped H ''WORKSPACE_ROOT'' \<noteq> [] then resolve (h_cwd H) (mk_path (env_stripped H ''WORKSPACE_ROOT''))
      else find_workspace_root H w)"

definition launchd_target :: "host \<Rightarrow> string" where
  "launchd_target H = (if on_mac H then ''system'' else []) @ ''/'' @ LAUNCHD_LABEL"

definition launchctl_cmd :: "host \<Rightarrow> string list \<Rightarrow> string list" where
  "launchctl_cmd H args = (if on_mac H then [''sudo''] else []) @ ''launchctl'' # args"

text \<open>One look at the tunnel of the waiting loop.\<close>

definition vpn_up_probe :: "host \<Rightarrow> path \<Rightarrow> unit \<Rightarrow> (unit + unit) io" where
  "vpn_up_probe H root _ =
     bnd (vpn_connected H root) (\<lambda>up.
       if up then andthen (print_err ''VPN is connected.'') (ret (Inr ()))
       else bnd (workspace_openvpn_running H root) (\<lambda>running.
              andthen (when_io running (print_err ''OpenVPN process is running (tunnel not up yet)...'')) (ret (Inl ()))))"

definition wait_for_vpn_up :: "host \<Rightarrow> path \<Rightarrow> nat \<Rightarrow> bool io" where
  "wait_for_vpn_up H root deadline =
     bnd (asks clock) (\<lambda>now.
     andthen (print_err (''Waiting for VPN (up to '' @ show_nat (max 1 ((deadline - now) div second)) @ ''s)...''))
       (bnd (poll H deadline 1 (vpn_up_probe H root) ()) (\<lambda>r. ret (r = Inr ()))))"

definition command_returncode :: "host \<Rightarrow> call \<Rightarrow> int io" where
  "command_returncode H c =
     catch (\<lambda>e. e = TimeoutExpired \<or> is_called_process_error e)
       (bnd (run_checked H c) (\<lambda>_. ret 0))
       (\<lambda>e. case e of CalledProcessError rc so se \<Rightarrow> ret rc | _ \<Rightarrow> ret TIMEOUT_EXIT)"

definition service_script :: "path \<Rightarrow> path" where
  "service_script root = p_sub root ''workspace/scripts/bootstrap/bootstrap_openvpn_service.sh''"

definition install_service :: "host \<Rightarrow> path \<Rightarrow> int io" where
  "install_service H root =
     bnd (find_openvpn_binary H root) (\<lambda>binary.
       command_returncode H (plain_call [''bash'', path_str (service_script root), path_str root, binary]))"

definition darwin_kickstart :: "host \<Rightarrow> int io" where
  "darwin_kickstart H =
     andthen (print_err (''Starting LaunchDaemon: '' @ launchd_target H))
       (bnd (command_returncode H (timed_call (launchctl_cmd H [''kickstart'', ''-k'', launchd_target H]) KICKSTART_TIMEOUT)) (\<lambda>rc.
          if rc = TIMEOUT_EXIT
          then andthen (print_err ''launchctl kickstart timed out (daemon may still be starting).'') (ret 0)
          else andthen (when_io (rc \<noteq> 0) (print_err (''launchctl kickstart exit '' @ show_int rc))) (ret rc)))"

definition await_tunnel :: "host \<Rightarrow> path \<Rightarrow> int io" where
  "await_tunnel H root =
     bnd (asks clock) (\<lambda>now.
     bnd (wait_for_vpn_up H root (now + START_WAIT * second)) (\<lambda>up.
       if up then ret 0 else andthen (print_err ''VPN did not connect in time.'') (ret 1)))"

definition start_daemon :: "host \<Rightarrow> path \<Rightarrow> int io" where
  "start_daemon H root =
     (if on_mac H then
        (let plist = mk_path (''/Library/LaunchDaemons/'' @ LAUNCHD_LABEL @ ''.plist'') in
         bnd (asks (\<lambda>w. is_file H w plist)) (\<lambda>there.
           if \<not> there
           then andthen (print_err (''LaunchDaemon not installed: '' @ path_str plist @ ''; run: make vpn-install'')) (ret 1)
           else bnd (vpn_connected H root) (\<lambda>up.
             if up then andthen (print_err ''VPN is already connected.'') (ret 0)
             else bnd (darwin_kickstart H) (\<lambda>_. await_tunnel H root))))
      else
        andthen (print_err (''Starting systemd user unit: '' @ SYSTEMD_UNIT))
          (bnd (command_returncode H (plain_call [''systemctl'', ''--user'', ''start'', SYSTEMD_UNIT])) (\<lambda>rc.
             if rc \<noteq> 0 then andthen (print_err (''systemctl start failed (exit '' @ show_int rc @ '')'')) (ret rc)
             else await_tunnel H root)))"

definition stop_service :: "host \<Rightarrow> int io" where
  "stop_service H =
     (if on_mac H
      then andthen (print_err (''Stopping LaunchDaemon: '' @ launchd_target H))
             (command_returncode H (plain_call (launchctl_cmd H [''bootout'', launchd_target H])))
      else andthen (print_err (''Stopping systemd user unit: '' @ SYSTEMD_UNIT))
             (command_returncode H (plain_call [''systemctl'', ''--user'', ''stop'', SYSTEMD_UNIT])))"

definition start_foreground :: "host \<Rightarrow> string \<Rightarrow> path \<Rightarrow> path option \<Rightarrow> int io" where
  "start_foreground H binary config auth =
     (let cmd = openvpn_cmd binary config auth [] in
      andthen (print_out (''Starting OpenVPN client: '' @ join '' '' cmd)) (command_returncode H (plain_call cmd)))"

text \<open>\<open>emit_vpn_log_tail\<close> on a stream.\<close>

definition emit_log_tail_on :: "(string \<Rightarrow> unit io) \<Rightarrow> host \<Rightarrow> nat \<Rightarrow> unit io" where
  "emit_log_tail_on line H n =
     (let p = vpn_log_path H in
      andthen (line (''--- OpenVPN log: '' @ path_str p @ '' (last '' @ show_nat n @ '' lines) ---''))
        (bnd (asks (\<lambda>w. is_file H w p)) (\<lambda>f.
           if \<not> f then line ''(log file not created yet)''
           else bnd (read_vpn_log_lines H p n) (\<lambda>content.
             case content of
               None \<Rightarrow> line ''(cannot read log; try: make vpn-logs)''
             | Some ls \<Rightarrow> if ls = [] then line ''(empty)'' else each line ls))))"

lemma emit_log_tail_out: "emit_log_tail_on print_out = emit_vpn_log_tail"
  by (intro ext) (simp add: emit_log_tail_on_def emit_vpn_log_tail_def)

definition report_daemon_start :: "host \<Rightarrow> int \<Rightarrow> int io" where
  "report_daemon_start H rc =
     andthen (emit_vpn_log_tail H LOG_TAIL_LINES)
    (andthen (if rc \<noteq> 0 then print_err (''vpn: start failed (exit '' @ show_int rc @ ''); log: '' @ path_str (vpn_log_path H))
              else print_err ''vpn: start complete'')
       (ret rc))"

section \<open>Actions\<close>

definition action_health :: "host \<Rightarrow> path \<Rightarrow> int io" where
  "action_health H root =
     bnd (health_result H root) (\<lambda>(status, connected).
       andthen (print_out ([CHR ''{''] @ dq @ ''status'' @ dq @ '': '' @ dq @ status @ dq @ '', '' @ dq @ ''connected'' @ dq @ '': ''
           @ (if connected then ''true'' else ''false'') @ [CHR ''}'']))
         (ret 0))"

definition action_status :: "host \<Rightarrow> path \<Rightarrow> string \<Rightarrow> int io" where
  "action_status H root ovpn_file =
     bnd (catch (\<lambda>e. (\<exists>s. e = FileNotFoundError s) \<or> is_vpn_lookup_error e)
            (bnd (find_openvpn_binary H root) (\<lambda>binary. bnd (resolve_vpn_config H root ovpn_file) (\<lambda>config. ret (Some (binary, config)))))
            (\<lambda>e. andthen (print_err (''status: '' @ h_str H e)) (ret None))) (\<lambda>found.
       case found of
         None \<Rightarrow> ret 1
       | Some (binary, config) \<Rightarrow>
           bnd (health_result H root) (\<lambda>(_, connected).
             andthen (each print_out [''binary:  '' @ binary, ''config:  '' @ path_str config, ''log:     '' @ path_str (vpn_log_path H),
                ''connected: '' @ (if connected then ''yes'' else ''no'')])
               (ret 0)))"

definition action_stop :: "host \<Rightarrow> int io" where
  "action_stop H = bnd (stop_service H) (\<lambda>rc. andthen (emit_log_tail_on print_err H LOG_TAIL_LINES) (ret rc))"

definition action_start :: "host \<Rightarrow> path \<Rightarrow> string \<Rightarrow> string \<Rightarrow> bool \<Rightarrow> int io" where
  "action_start H root ovpn_file auth_file daemon =
     bnd (catch (\<lambda>e. \<exists>s. e = VPNConfigNotFoundError s)
            (bnd (resolve_vpn_config H root ovpn_file) (\<lambda>config. ret (Some config)))
            (\<lambda>e. andthen (print_err (h_str H e)) (ret None))) (\<lambda>found.
       case found of
         None \<Rightarrow> ret 1
       | Some config \<Rightarrow>
           bnd (validate_ovpn H config) (\<lambda>valid.
             if \<not> valid then andthen (print_err (''invalid OpenVPN config: '' @ path_str config)) (ret 1)
             else bnd (asks (\<lambda>w. resolve_vpn_auth H w root auth_file)) (\<lambda>auth.
               if daemon then bnd (start_daemon H root) (report_daemon_start H)
               else bnd (find_openvpn_binary H root) (\<lambda>binary. start_foreground H binary config auth))))"

datatype client_action = Start | StopTunnel | Health | Status | InstallService

record client_args =
  ca_ovpn_file :: string
  ca_auth_file :: string
  ca_action :: client_action
  ca_daemon :: bool

definition client_main :: "host \<Rightarrow> client_args \<Rightarrow> int io" where
  "client_main H a =
     bnd (asks (vpn_workspace_root H)) (\<lambda>root.
       case ca_action a of
         InstallService \<Rightarrow> install_service H root
       | Health \<Rightarrow> action_health H root
       | Status \<Rightarrow> action_status H root (ca_ovpn_file a)
       | StopTunnel \<Rightarrow> action_stop H
       | Start \<Rightarrow> action_start H root (ca_ovpn_file a) (ca_auth_file a) (ca_daemon a))"

section \<open>What the client sends\<close>

text \<open>The looks at the tunnel, and the commands of an action beside them. A client in the foreground is given a
  configuration that is a file.\<close>

definition tunnel_probe :: "string list \<Rightarrow> bool" where
  "tunnel_probe argv \<longleftrightarrow> argv = [''ifconfig'', ''-l''] \<or> argv = [''ip'', ''addr'', ''show'', ''tun0''] \<or> take 2 argv = [''pgrep'', ''-f'']"

definition action_command :: "host \<Rightarrow> path \<Rightarrow> client_args \<Rightarrow> string list \<Rightarrow> bool" where
  "action_command H root a argv \<longleftrightarrow>
     (case ca_action a of
        InstallService \<Rightarrow> take 3 argv = [''bash'', path_str (service_script root), path_str root]
      | Health \<Rightarrow> False
      | Status \<Rightarrow> False
      | StopTunnel \<Rightarrow> argv = (if on_mac H then launchctl_cmd H [''bootout'', launchd_target H] else [''systemctl'', ''--user'', ''stop'', SYSTEMD_UNIT])
      | Start \<Rightarrow>
          if ca_daemon a then argv = (if on_mac H then launchctl_cmd H [''kickstart'', ''-k'', launchd_target H]
                                      else [''systemctl'', ''--user'', ''start'', SYSTEMD_UNIT])
          else take 2 argv = [path_str (child (child (child root (boot_name H)) ''bin'') ''openvpn''), ''--config''])"

fun client_sends :: "host \<Rightarrow> path \<Rightarrow> client_args \<Rightarrow> request \<Rightarrow> bool" where
  "client_sends H root a (Run c) \<longleftrightarrow> tunnel_probe (c_argv c) \<or> action_command H root a (c_argv c)"
| "client_sends H root a _ \<longleftrightarrow> False"

lemma emits_probe_command: "P (Run (plain_call cmd)) \<Longrightarrow> emits P (probe_command H cmd)"
  unfolding probe_command_def by (intro emits_intros)

lemma emits_vpn_connected:
  assumes "\<And>argv. tunnel_probe argv \<Longrightarrow> P (Run (plain_call argv))"
  shows "emits P (vpn_connected H root)" "emits P (workspace_openvpn_running H root)"
proof -
  show running: "emits P (workspace_openvpn_running H root)"
    unfolding workspace_openvpn_running_def process_running_def find_openvpn_binary_def Let_def
    by (intro emits_intros emits_probe_command assms) (simp_all add: tunnel_probe_def)
  show "emits P (vpn_connected H root)"
    unfolding vpn_connected_def tunnel_interface_up_def recent_log_connected_def read_vpn_log_lines_def Let_def
    by (intro emits_intros emits_probe_command running assms) (simp_all add: tunnel_probe_def)
qed

lemma emits_returncode: "P (Run c) \<Longrightarrow> emits P (command_returncode H c)"
  unfolding command_returncode_def by (intro emits_intros)

lemma emits_log_tail: "(\<And>s. emits P (line s)) \<Longrightarrow> emits P (emit_log_tail_on line H n)"
  unfolding emit_log_tail_on_def read_vpn_log_lines_def Let_def by (intro emits_intros)

lemma emits_await:
  assumes "\<And>argv. tunnel_probe argv \<Longrightarrow> P (Run (plain_call argv))"
  shows "emits P (await_tunnel H root)"
  unfolding await_tunnel_def wait_for_vpn_up_def vpn_up_probe_def
  by (intro emits_intros emits_vpn_connected assms)

lemma probe_sent: "tunnel_probe argv \<Longrightarrow> client_sends H root a (Run (plain_call argv))"
  by (simp add: plain_call_def)

lemma emits_looks:
  "emits (client_sends H root a) (vpn_connected H r)" "emits (client_sends H root a) (workspace_openvpn_running H r)"
  "emits (client_sends H root a) (await_tunnel H r)"
  by (rule emits_vpn_connected emits_await, erule probe_sent)+

lemma emits_start_daemon:
  assumes "ca_action a = Start" "ca_daemon a"
  shows "emits (client_sends H root a) (start_daemon H root)"
  unfolding start_daemon_def darwin_kickstart_def Let_def
  using assms by (intro emits_intros emits_looks emits_returncode)
    (auto simp: action_command_def plain_call_def timed_call_def)

lemma emits_foreground:
  assumes "ca_action a = Start" "\<not> ca_daemon a"
  shows "emits (client_sends H root a) (bnd (find_openvpn_binary H root) (\<lambda>binary. start_foreground H binary config auth))"
proof -
  have run: "emits (client_sends H root a) (start_foreground H (path_str (child (child (child root (boot_name H)) ''bin'') ''openvpn'')) config auth)"
    unfolding start_foreground_def Let_def
    using assms by (intro emits_intros emits_returncode) (simp add: action_command_def plain_call_def openvpn_cmd_def)
  have "bnd (find_openvpn_binary H root) (\<lambda>binary. start_foreground H binary config auth) =
      bnd (asks (\<lambda>w. is_file H w (child (child (child root (boot_name H)) ''bin'') ''openvpn''))) (\<lambda>f.
        if f then start_foreground H (path_str (child (child (child root (boot_name H)) ''bin'') ''openvpn'')) config auth
        else raise VPNBinaryNotFoundError)"
    by (intro ext) (simp add: find_openvpn_binary_def Let_def bnd_def asks_def ret_def raise_def)
  then show ?thesis using run by (auto intro!: emits_intros)
qed

lemma emits_client:
  "\<exists>rs. requests (snd (client_main H a w)) = requests w @ rs \<and> list_all (client_sends H (vpn_workspace_root H w) a) rs"
proof -
  let ?root = "vpn_workspace_root H w"
  have "emits (client_sends H ?root a)
      (case ca_action a of
         InstallService \<Rightarrow> install_service H ?root
       | Health \<Rightarrow> action_health H ?root
       | Status \<Rightarrow> action_status H ?root (ca_ovpn_file a)
       | StopTunnel \<Rightarrow> action_stop H
       | Start \<Rightarrow> action_start H ?root (ca_ovpn_file a) (ca_auth_file a) (ca_daemon a))"
  proof (cases "ca_action a")
    case Start
    have tail: "emits (client_sends H ?root a) (emit_vpn_log_tail H LOG_TAIL_LINES)"
      unfolding emit_log_tail_out [symmetric] by (intro emits_log_tail emits_intros)
    show ?thesis
      unfolding Start client_action.case action_start_def validate_ovpn_def report_daemon_start_def Let_def
      by (intro emits_intros emits_start_daemon emits_foreground tail Start)
  next
    case StopTunnel
    then show ?thesis
      by (auto simp: action_stop_def stop_service_def action_command_def plain_call_def
          intro!: emits_intros emits_returncode emits_log_tail)
  next
    case Health
    then show ?thesis by (auto simp: action_health_def health_result_def intro!: emits_intros emits_looks)
  next
    case Status
    then show ?thesis
      by (auto simp: action_status_def health_result_def find_openvpn_binary_def intro!: emits_intros emits_looks)
  next
    case InstallService
    then show ?thesis
      by (auto simp: install_service_def find_openvpn_binary_def action_command_def plain_call_def intro!: emits_intros emits_returncode)
  qed
  then show ?thesis by (simp add: client_main_def bnd_def asks_def emits_def)
qed

section \<open>Property\<close>

text \<open>C37: the client sends only what its action is for. Beside looks at the interfaces and the processes, stopping sends the one
  stop command of the platform, a daemon start the one start command, a foreground start the openvpn binary of the checkout
  with a configuration, the installation the service script of the checkout, and health and status nothing.\<close>

theorem client_sends_its_action:
  "\<exists>rs. requests (snd (client_main H a w)) = requests w @ rs \<and> list_all (client_sends H (vpn_workspace_root H w) a) rs"
  by (rule emits_client)

end
