(* ===== verification/Transcripts.thy ===== *)
theory Transcripts
  imports Values
begin

text \<open>
  \<open>scripts/benchmark/llamafile_transcript_classifier/transcripts.py\<close>: the request-response turns of a recorded
  session. The SQLite database is its three tables, with the documents of the JSON columns already parsed (\<open>None\<close>
  where the text is not JSON; \<open>mr_json\<close> says whether the data of a message are, and \<open>mr_role\<close> is their role); a query is written out over them, and the order of rows of equal sort keys is that
  of the table.
\<close>

section \<open>Data\<close>

record transcript_turn =
  tt_index :: nat
  tt_user :: string
  tt_assistant :: string

record session_transcript =
  se_id :: string
  se_title :: string
  se_text_chars :: nat
  se_message_count :: nat
  se_turns :: "transcript_turn list"

record session_row =
  sr_id :: string
  sr_title :: "string option"
  sr_directory :: string

record message_row =
  mr_id :: string
  mr_session :: string
  mr_time :: int
  mr_role :: "string option"
  mr_json :: bool

record part_row =
  pr_message :: string
  pr_time :: int
  pr_data :: "yaml option"

record opencode_db =
  db_sessions :: "session_row list"
  db_messages :: "message_row list"
  db_parts :: "part_row list"

definition DEFAULT_DB_RELATIVE :: string where
  "DEFAULT_DB_RELATIVE = ''.local/share/opencode/opencode.db''"

definition resolve_db_path :: "host \<Rightarrow> string option \<Rightarrow> path io" where
  "resolve_db_path H value =
     bnd (lift_sum (if value = None \<or> lower (strip (the value)) = ''auto'' then Inr (p_sub (h_home H) DEFAULT_DB_RELATIVE)
                    else path_expanduser H (mk_path (the value)))) (\<lambda>path.
     bnd (asks (\<lambda>w. is_file H w path)) (\<lambda>found.
       if found then ret path else raise (FileNotFoundError (''opencode database not found: '' @ path_str path))))"

section \<open>Texts of messages\<close>

definition part_text :: "py_ops \<Rightarrow> ymap \<Rightarrow> string set \<Rightarrow> string" where
  "part_text py payload allowed =
     (let part_type = y_str (py_show py) (y_get_or payload ''type'' (YStr [])) in
      if part_type \<notin> allowed then []
      else if part_type = ''text'' then (case y_get payload ''text'' of YStr s \<Rightarrow> strip s | _ \<Rightarrow> [])
      else [])"

text \<open>The texts of the payloads that are objects, empty ones left out.\<close>

definition payload_text :: "py_ops \<Rightarrow> string set \<Rightarrow> yaml \<Rightarrow> string" where
  "payload_text py allowed v = (case as_map v of None \<Rightarrow> [] | Some payload \<Rightarrow> part_text py payload allowed)"

definition message_text :: "py_ops \<Rightarrow> string set \<Rightarrow> yaml list \<Rightarrow> string" where
  "message_text py allowed payloads = join (nl @ nl) (filter (\<lambda>t. t \<noteq> []) (map (payload_text py allowed) payloads))"

text \<open>The query for the parts of a message: those that are JSON, by their time.\<close>

definition parts_of :: "opencode_db \<Rightarrow> string \<Rightarrow> yaml list" where
  "parts_of db mid =
     map (\<lambda>p. the (pr_data p))
       (List.sort_key pr_time (filter (\<lambda>p. pr_message p = mid \<and> pr_data p \<noteq> None) (db_parts db)))"

definition session_messages :: "opencode_db \<Rightarrow> string \<Rightarrow> message_row list" where
  "session_messages db sid = List.sort_key mr_time (filter (\<lambda>m. mr_session m = sid) (db_messages db))"

text \<open>The query for the messages of a session, by their time; \<open>json_extract\<close> fails on data that are not JSON.\<close>

definition messages_of :: "opencode_db \<Rightarrow> string \<Rightarrow> exn + message_row list" where
  "messages_of db sid =
     (if list_ex (\<lambda>m. \<not> mr_json m) (session_messages db sid) then Inl (SqliteError ''malformed JSON'')
      else Inr (session_messages db sid))"

definition role_of :: "message_row \<Rightarrow> string" where
  "role_of m = (case mr_role m of None \<Rightarrow> [] | Some r \<Rightarrow> r)"

section \<open>Turns\<close>

text \<open>The inner loop: the texts of the assistant's messages up to the next one of the user, and the rest.\<close>

fun assistant_chunks :: "(string \<Rightarrow> string) \<Rightarrow> message_row list \<Rightarrow> string list \<times> message_row list" where
  "assistant_chunks text [] = ([], [])"
| "assistant_chunks text (m # ms) =
     (if role_of m = ''user'' then ([], m # ms)
      else let (chunks, rest) = assistant_chunks text ms in
           (if role_of m = ''assistant'' \<and> text (mr_id m) \<noteq> [] then text (mr_id m) # chunks else chunks, rest))"

lemma assistant_chunks_length: "length (snd (assistant_chunks text ms)) \<le> length ms"
  by (induction ms) (auto simp: case_prod_beta)

text \<open>The outer loop, from the number of turns found so far.\<close>

function turns_from :: "(string \<Rightarrow> string) \<Rightarrow> nat \<Rightarrow> message_row list \<Rightarrow> transcript_turn list" where
  "turns_from text n [] = []"
| "turns_from text n (m # ms) =
     (if role_of m \<noteq> ''user'' then turns_from text n ms
      else let user_text = text (mr_id m);
               chunks = fst (assistant_chunks text ms);
               rest = snd (assistant_chunks text ms);
               assistant_text = join (nl @ nl) chunks
           in if user_text \<noteq> [] \<and> assistant_text \<noteq> []
              then \<lparr>tt_index = n + 1, tt_user = user_text, tt_assistant = assistant_text\<rparr> # turns_from text (n + 1) rest
              else turns_from text n rest)"
  by pat_completeness auto
termination
  by (relation "measure (\<lambda>(_, _, ms). length ms)") (auto simp: assistant_chunks_length le_imp_less_Suc)

text \<open>\<open>set(include_part_types or ["text"])\<close>\<close>

definition allowed_types :: "string list \<Rightarrow> string set" where
  "allowed_types ts = set (if ts = [] then [''text''] else ts)"

definition parse_session_turns :: "py_ops \<Rightarrow> opencode_db \<Rightarrow> string \<Rightarrow> string list \<Rightarrow> exn + transcript_turn list" where
  "parse_session_turns py db sid types =
     sum_map (turns_from (\<lambda>mid. message_text py (allowed_types types) (parts_of db mid)) 0) (messages_of db sid)"

section \<open>Sessions\<close>

definition body_chars :: "transcript_turn list \<Rightarrow> nat" where
  "body_chars turns = sum_list (map (\<lambda>t. length (tt_user t) + length (tt_assistant t)) turns)"

definition include_types :: "py_ops \<Rightarrow> ymap \<Rightarrow> exn + string list" where
  "include_types py source =
     sum_map (map (y_str (py_show py))) (y_items (y_get_or source ''include_part_types'' (YList [YStr ''text''])))"

definition session_title :: "session_row \<Rightarrow> string" where
  "session_title s = (case sr_title s of None \<Rightarrow> sr_id s | Some t \<Rightarrow> if t = [] then sr_id s else t)"

definition load_session_transcript :: "py_ops \<Rightarrow> opencode_db \<Rightarrow> string \<Rightarrow> ymap \<Rightarrow> exn + session_transcript" where
  "load_session_transcript py db sid source =
     sum_bind (include_types py source) (\<lambda>types.
       case find_first (\<lambda>s. sr_id s = sid) (db_sessions db) of
         None \<Rightarrow> Inl (FileNotFoundError (''session not found: '' @ sid))
       | Some row \<Rightarrow>
           sum_bind (parse_session_turns py db sid types) (\<lambda>turns.
            if turns = [] then Inl (RuntimeError (''session has no replayable turns: '' @ sid))
            else Inr \<lparr>se_id = sid, se_title = session_title row, se_text_chars = body_chars turns,
                   se_message_count = card (mr_id ` set (filter (\<lambda>m. mr_session m = sid) (db_messages db))),
                   se_turns = turns\<rparr>))"

text \<open>The rows the discovery query joins for a session, the parts of its messages; \<open>LENGTH\<close> of the text column.\<close>

definition joined_parts :: "opencode_db \<Rightarrow> session_row \<Rightarrow> (message_row \<times> part_row) list" where
  "joined_parts db s =
     concat (map (\<lambda>m. map (Pair m) (filter (\<lambda>p. pr_message p = mr_id m) (db_parts db)))
       (filter (\<lambda>m. mr_session m = sr_id s) (db_messages db)))"

fun sql_length :: "py_ops \<Rightarrow> yaml \<Rightarrow> nat" where
  "sql_length py YNull = 0"
| "sql_length py (YBool b) = 1"
| "sql_length py v = length (y_str (py_show py) v)"

definition text_part :: "part_row \<Rightarrow> bool" where
  "text_part p = (case pr_data p of Some (YMap m) \<Rightarrow> y_get m ''type'' = YStr ''text'' | _ \<Rightarrow> False)"

definition part_length :: "py_ops \<Rightarrow> part_row \<Rightarrow> nat" where
  "part_length py p = (case pr_data p of Some (YMap m) \<Rightarrow> sql_length py (y_get m ''text'') | _ \<Rightarrow> 0)"

text \<open>The query: the sessions of the project with a text part and enough characters, shortest first. \<open>like\<close> is
  \<open>LIKE\<close> with the text between two percent signs. A part that is not JSON makes \<open>json_extract\<close> fail.\<close>

record catalog_row =
  cr_session :: session_row
  cr_message_count :: nat
  cr_text_chars :: nat

definition catalog_row_of :: "py_ops \<Rightarrow> opencode_db \<Rightarrow> session_row \<Rightarrow> catalog_row" where
  "catalog_row_of py db s =
     (let rows = filter (\<lambda>(m, p). text_part p) (joined_parts db s) in
      \<lparr>cr_session = s, cr_message_count = card (mr_id ` fst ` set rows),
       cr_text_chars = sum_list (map (\<lambda>(m, p). part_length py p) rows)\<rparr>)"

definition catalog_query :: "py_ops \<Rightarrow> (string \<Rightarrow> string \<Rightarrow> bool) \<Rightarrow> opencode_db \<Rightarrow> string \<Rightarrow> int \<Rightarrow> exn + catalog_row list" where
  "catalog_query py like db project_filter min_chars =
     (let sessions = (if project_filter = [] then db_sessions db
                      else filter (\<lambda>s. like project_filter (sr_directory s)) (db_sessions db))
      in if list_ex (\<lambda>s. list_ex (\<lambda>(m, p). pr_data p = None) (joined_parts db s)) sessions
         then Inl (SqliteError ''malformed JSON'')
         else Inr (List.sort_key cr_text_chars
                (filter (\<lambda>r. int (cr_text_chars r) \<ge> min_chars)
                   (map (catalog_row_of py db)
                      (filter (\<lambda>s. list_ex (\<lambda>(m, p). text_part p) (joined_parts db s)) sessions)))))"

fun catalog_of :: "py_ops \<Rightarrow> opencode_db \<Rightarrow> string list \<Rightarrow> int \<Rightarrow> catalog_row list \<Rightarrow> exn + session_transcript list" where
  "catalog_of py db types min_chars [] = Inr []"
| "catalog_of py db types min_chars (r # rs) =
     (let sid = sr_id (cr_session r) in
      sum_bind (parse_session_turns py db sid types) (\<lambda>turns.
        if turns = [] then catalog_of py db types min_chars rs
        else if int (body_chars turns) < min_chars then catalog_of py db types min_chars rs
        else sum_map ((#) \<lparr>se_id = sid, se_title = session_title (cr_session r), se_text_chars = body_chars turns,
                se_message_count = cr_message_count r, se_turns = turns\<rparr>) (catalog_of py db types min_chars rs)))"

definition discover_session_catalog ::
    "py_ops \<Rightarrow> (string \<Rightarrow> string \<Rightarrow> bool) \<Rightarrow> opencode_db \<Rightarrow> ymap \<Rightarrow> exn + session_transcript list" where
  "discover_session_catalog py like db source =
     (let project_filter = strip (y_str (py_show py) (y_get_or source ''project_directory_contains'' (YStr []))) in
      sum_bind (py_to_int py (y_get_or source ''min_text_chars'' (YInt 200))) (\<lambda>min_chars.
      sum_bind (include_types py source) (\<lambda>types.
      sum_bind (catalog_query py like db project_filter min_chars) (\<lambda>rows.
      sum_bind (catalog_of py db types min_chars rows) (\<lambda>catalog.
        if catalog = [] then Inl (RuntimeError ''transcript discovery produced zero replayable sessions'')
        else Inr catalog)))))"

section \<open>The fixture files\<close>

definition fixture_text :: "session_transcript \<Rightarrow> string" where
  "fixture_text s =
     join (nl @ nl) (concat (map (\<lambda>t. [''[user] '' @ tt_user t, ''[assistant] '' @ tt_assistant t]) (se_turns s))) @ nl"

definition fixture_path :: "path \<Rightarrow> session_transcript \<Rightarrow> path" where
  "fixture_path fixtures_dir s = p_sub fixtures_dir (se_id s @ ''.txt'')"

definition manifest_lines :: "string \<Rightarrow> session_transcript \<Rightarrow> string list" where
  "manifest_lines file s =
     [''  - id: '' @ se_id s,
      ''    title: '' @ py_repr (se_title s),
      ''    text_chars: '' @ show_nat (se_text_chars s),
      ''    turn_count: '' @ show_nat (length (se_turns s)),
      ''    message_count: '' @ show_nat (se_message_count s),
      ''    file: '' @ file]"

text \<open>\<open>relative_or_raise\<close> of a path below the root raises a \<open>ValueError\<close> elsewhere.\<close>

definition relative_or_raise :: "path \<Rightarrow> path \<Rightarrow> exn + path" where
  "relative_or_raise p base =
     (if absolute p = absolute base \<and> prefix (parts base) (parts p) then Inr (Path False (drop (length (parts base)) (parts p)))
      else Inl (ValueError (path_str p)))"

definition write_fixture :: "host \<Rightarrow> path \<Rightarrow> path \<Rightarrow> session_transcript \<Rightarrow> string list io" where
  "write_fixture H root fixtures_dir s =
     andthen (write_text H (fixture_path fixtures_dir s) (fixture_text s))
       (bnd (lift_sum (relative_or_raise (fixture_path fixtures_dir s) root)) (\<lambda>file. ret (manifest_lines (path_str file) s)))"

definition sync_fixture_cache :: "host \<Rightarrow> py_ops \<Rightarrow> path \<Rightarrow> path \<Rightarrow> ymap \<Rightarrow> session_transcript list \<Rightarrow> path io" where
  "sync_fixture_cache H py root db_path source catalog =
     (let dir_value = strip (y_str (py_show py) (y_get_or source ''fixtures_dir'' (YStr []))) in
      if dir_value = [] then raise (ValueError ''transcript_source.fixtures_dir is required for fixture sync'')
      else let fixtures_dir = p_sub root dir_value in
        andthen (mkdir_parents H fixtures_dir)
        (bnd (collect (write_fixture H root fixtures_dir) catalog) (\<lambda>entries.
         andthen (write_text H (child fixtures_dir ''manifest.yaml'')
             (join nl ([''# Auto-generated OpenCode transcript fixtures.'', ''db_path: '' @ path_str db_path, ''sessions:'']
                @ concat entries) @ nl))
           (ret fixtures_dir))))"

section \<open>The turns of a sequence of messages\<close>

text \<open>Directly: the exchange that the \<open>i\<close>-th message starts is its text with the texts of the assistant's
  messages before the next one of the user.\<close>

definition exchange_at :: "(string \<Rightarrow> string) \<Rightarrow> message_row list \<Rightarrow> nat \<Rightarrow> string \<times> string" where
  "exchange_at text ms i =
     (text (mr_id (ms ! i)),
      join (nl @ nl) (filter (\<lambda>t. t \<noteq> []) (map (\<lambda>m. text (mr_id m))
        (filter (\<lambda>m. role_of m = ''assistant'') (takeWhile (\<lambda>m. role_of m \<noteq> ''user'') (drop (Suc i) ms))))))"

definition exchanges :: "(string \<Rightarrow> string) \<Rightarrow> message_row list \<Rightarrow> (string \<times> string) list" where
  "exchanges text ms = map (exchange_at text ms) (filter (\<lambda>i. role_of (ms ! i) = ''user'') [0..<length ms])"

lemma assistant_chunks_eq:
  "assistant_chunks text ms =
     (filter (\<lambda>t. t \<noteq> []) (map (\<lambda>m. text (mr_id m))
        (filter (\<lambda>m. role_of m = ''assistant'') (takeWhile (\<lambda>m. role_of m \<noteq> ''user'') ms))),
      dropWhile (\<lambda>m. role_of m \<noteq> ''user'') ms)"
  by (induction ms) auto

lemma exchanges_Cons:
  "exchanges text (m # ms) =
     (if role_of m = ''user'' then [exchange_at text (m # ms) 0] else []) @ exchanges text ms"
proof -
  have idx: "filter P [0..<Suc (length ms)] = (if P 0 then [0] else []) @ map Suc (filter (\<lambda>i. P (Suc i)) [0..<length ms])" for P
    by (simp del: upt_Suc add: upt_conv_Cons map_Suc_upt [symmetric] filter_map comp_def)
  have "exchange_at text (m # ms) (Suc i) = exchange_at text ms i" for i by (simp add: exchange_at_def)
  then show ?thesis by (simp del: upt_Suc add: exchanges_def idx comp_def)
qed

lemma exchanges_skip: "exchanges text (dropWhile (\<lambda>m. role_of m \<noteq> ''user'') ms) = exchanges text ms"
  by (induction ms) (auto simp: exchanges_Cons)

lemma turns_from_exchanges:
  "map (\<lambda>t. (tt_user t, tt_assistant t)) (turns_from text n ms) = filter (\<lambda>(u, a). u \<noteq> [] \<and> a \<noteq> []) (exchanges text ms)"
proof (induction "text" n ms rule: turns_from.induct)
  case (2 "text" n m ms)
  then show ?case
    by (auto simp: exchanges_Cons exchange_at_def assistant_chunks_eq exchanges_skip Let_def)
qed (simp add: exchanges_def)

lemma turns_from_indices: "map tt_index (turns_from text n ms) = [Suc n..<Suc n + length (turns_from text n ms)]"
proof (induction "text" n ms rule: turns_from.induct)
  case (2 "text" n m ms)
  show ?case
  proof (cases "role_of m = ''user'' \<and> text (mr_id m) \<noteq> [] \<and> join (nl @ nl) (fst (assistant_chunks text ms)) \<noteq> []")
    case True
    with 2(2) [OF _ refl refl refl refl] show ?thesis by (simp del: upt_Suc add: upt_conv_Cons Let_def)
  next
    case False
    with 2(1) 2(3) [OF _ refl refl refl refl] show ?thesis by (auto simp: Let_def)
  qed
qed simp

section \<open>Property\<close>

text \<open>C24: the turns are the complete exchanges. Whatever the order in which the roles of the messages occur, the
  turns of a session are exactly its exchanges with a request and an answer that are not empty, in order and numbered
  from one. They are only refused where the data of a message of the session are not JSON.\<close>

theorem turns_are_exchanges:
  "case parse_session_turns py db sid types of
     Inl e \<Rightarrow> e = SqliteError ''malformed JSON'' \<and> list_ex (\<lambda>m. mr_session m = sid \<and> \<not> mr_json m) (db_messages db)
   | Inr turns \<Rightarrow> map (\<lambda>t. (tt_index t, tt_user t, tt_assistant t)) turns =
       (let found = filter (\<lambda>(u, a). u \<noteq> [] \<and> a \<noteq> [])
              (exchanges (\<lambda>mid. message_text py (allowed_types types) (parts_of db mid)) (session_messages db sid))
        in zip [1..<Suc (length found)] found)"
proof (cases "parse_session_turns py db sid types")
  case (Inl e)
  then show ?thesis
    by (auto simp: parse_session_turns_def sum_map_def messages_of_def session_messages_def list_ex_iff split: if_splits)
next
  case (Inr ts)
  let ?found = "filter (\<lambda>(u, a). u \<noteq> [] \<and> a \<noteq> [])
            (exchanges (\<lambda>mid. message_text py (allowed_types types) (parts_of db mid)) (session_messages db sid))"
  from Inr have ts: "ts = turns_from (\<lambda>mid. message_text py (allowed_types types) (parts_of db mid)) 0 (session_messages db sid)"
    by (auto simp: parse_session_turns_def sum_map_Inr messages_of_def split: if_splits)
  have texts: "map (\<lambda>t. (tt_user t, tt_assistant t)) ts = ?found"
    unfolding ts turns_from_exchanges ..
  then have "length ?found = length ts" by (metis length_map)
  moreover have "map tt_index ts = [1..<Suc (length ts)]"
    unfolding ts turns_from_indices by simp
  ultimately have "zip [1..<Suc (length ?found)] ?found = zip (map tt_index ts) (map (\<lambda>t. (tt_user t, tt_assistant t)) ts)"
    by (simp only: texts)
  then show ?thesis by (simp add: Inr Let_def zip_map_map zip_same_conv_map)
qed

end
