(* ===== verification/Sessions.thy ===== *)
theory Sessions
  imports Transcripts
begin

text \<open>
  \<open>llamafile_transcript_classifier/sessions.py\<close>: the selection of sessions by their estimated size. The
  quotient of characters by characters per token is the conversion \<open>py_quot\<close>, which may raise.
\<close>

section \<open>Sizes\<close>

definition BUCKET_THRESHOLD_LARGE :: int where "BUCKET_THRESHOLD_LARGE = 65536"
definition BUCKET_THRESHOLD_MEDIUM :: int where "BUCKET_THRESHOLD_MEDIUM = 16384"

record selected_session =
  sl_id :: string
  sl_title :: string
  sl_bucket_tokens :: int
  sl_estimated_tokens :: int
  sl_turn_count :: nat
  sl_text_chars :: nat

definition estimate_turn_tokens :: "py_ops \<Rightarrow> pyfloat \<Rightarrow> transcript_turn \<Rightarrow> exn + int" where
  "estimate_turn_tokens py per_token t =
     sum_map (max 1) (py_quot py (int (length (tt_user t) + length (tt_assistant t))) per_token)"

definition estimate_session_tokens :: "py_ops \<Rightarrow> pyfloat \<Rightarrow> session_transcript \<Rightarrow> exn + int" where
  "estimate_session_tokens py per_token s =
     sum_map sum_list (all_inr (map (estimate_turn_tokens py per_token) (se_turns s)))"

definition bucket_distance :: "int \<Rightarrow> int \<Rightarrow> int" where
  "bucket_distance estimated bucket =
     (if estimated < bucket then bucket - estimated + bucket else \<bar>estimated - bucket\<bar>)"

definition min_estimated_for_bucket :: "int \<Rightarrow> int" where
  "min_estimated_for_bucket bucket =
     (if bucket \<ge> BUCKET_THRESHOLD_LARGE then bucket div 4
      else if bucket \<ge> BUCKET_THRESHOLD_MEDIUM then bucket div 3
      else bucket div 2)"

definition selected_of :: "py_ops \<Rightarrow> pyfloat \<Rightarrow> (session_transcript \<Rightarrow> exn + int) \<Rightarrow> session_transcript \<Rightarrow> exn + selected_session" where
  "selected_of py per_token bucket s =
     sum_bind (bucket s) (\<lambda>b. sum_map (\<lambda>estimated.
       \<lparr>sl_id = se_id s, sl_title = se_title s, sl_bucket_tokens = b, sl_estimated_tokens = estimated,
        sl_turn_count = length (se_turns s), sl_text_chars = se_text_chars s\<rparr>) (estimate_session_tokens py per_token s))"

section \<open>Picking from a ranking\<close>

text \<open>\<open>sorted\<close> with a key that may raise: the keys are computed in order, equal ones keep their order.\<close>

definition ranked_by :: "(session_transcript \<Rightarrow> exn + int) \<Rightarrow> session_transcript list \<Rightarrow> exn + session_transcript list" where
  "ranked_by key catalog =
     sum_map (\<lambda>ks. map snd (List.sort_key fst (zip ks catalog))) (all_inr (map key catalog))"

text \<open>The loop that both selections share: sessions used already or too small are skipped, and it stops when
  enough have been picked. The result is the picked sessions, the used identifiers, and whether it was stopped.\<close>

fun pick_from :: "py_ops \<Rightarrow> pyfloat \<Rightarrow> int \<Rightarrow> (int \<Rightarrow> bool) \<Rightarrow> int \<Rightarrow> session_transcript list \<Rightarrow> string set
    \<Rightarrow> selected_session list \<Rightarrow> exn + (selected_session list \<times> string set \<times> bool)" where
  "pick_from py per_token bucket too_small wanted [] used picked = Inr (picked, used, False)"
| "pick_from py per_token bucket too_small wanted (s # ranked) used picked =
     (if se_id s \<in> used then pick_from py per_token bucket too_small wanted ranked used picked
      else sum_bind (estimate_session_tokens py per_token s) (\<lambda>estimated.
        if too_small estimated then pick_from py per_token bucket too_small wanted ranked used picked
        else sum_bind (selected_of py per_token (\<lambda>_. Inr bucket) s) (\<lambda>x.
          if int (length (picked @ [x])) \<ge> wanted then Inr (picked @ [x], insert (se_id s) used, True)
          else pick_from py per_token bucket too_small wanted ranked (insert (se_id s) used) (picked @ [x]))))"

definition select_long_sessions ::
    "py_ops \<Rightarrow> pyfloat \<Rightarrow> session_transcript list \<Rightarrow> int \<Rightarrow> int \<Rightarrow> string set \<Rightarrow> int \<Rightarrow> exn + selected_session list" where
  "select_long_sessions py per_token catalog wanted max_context_tokens used min_estimated =
     sum_bind (ranked_by (\<lambda>s. sum_map uminus (estimate_session_tokens py per_token s)) catalog) (\<lambda>ranked.
       sum_map fst (pick_from py per_token max_context_tokens (\<lambda>e. min_estimated \<noteq> 0 \<and> e < min_estimated) wanted ranked used []))"

definition select_explicit_sessions ::
    "py_ops \<Rightarrow> pyfloat \<Rightarrow> session_transcript list \<Rightarrow> string list \<Rightarrow> exn + selected_session list" where
  "select_explicit_sessions py per_token catalog ids =
     (let filtered = filter (\<lambda>s. se_id s \<in> set ids) catalog in
      if filtered = [] then Inl (KeyError (''no sessions matched explicit ids: ['' @ join '', '' (map py_repr (sort (remdups ids))) @ '']''))
      else all_inr (map (selected_of py per_token (estimate_session_tokens py per_token)) filtered))"

definition pick_bucket_sessions ::
    "py_ops \<Rightarrow> pyfloat \<Rightarrow> session_transcript list \<Rightarrow> int \<Rightarrow> int \<Rightarrow> string set \<Rightarrow> exn + (selected_session list \<times> string set)" where
  "pick_bucket_sessions py per_token catalog per_bucket bucket used =
     sum_bind (ranked_by (\<lambda>s. sum_map (\<lambda>e. bucket_distance e bucket) (estimate_session_tokens py per_token s)) catalog) (\<lambda>ranked.
     sum_bind (pick_from py per_token bucket (\<lambda>e. e < min_estimated_for_bucket bucket) per_bucket ranked used [])
       (\<lambda>(picked, used', stopped).
         if stopped then Inr (picked, used')
         else case ranked of
           [] \<Rightarrow> Inr (picked, used')
         | reserve # _ \<Rightarrow>
             if se_id reserve \<in> used' then Inr (picked, used')
             else sum_map (\<lambda>x. (picked @ [x], insert (se_id reserve) used')) (selected_of py per_token (\<lambda>_. Inr bucket) reserve)))"

fun pick_buckets ::
    "py_ops \<Rightarrow> pyfloat \<Rightarrow> session_transcript list \<Rightarrow> int \<Rightarrow> int list \<Rightarrow> string set \<Rightarrow> exn + selected_session list" where
  "pick_buckets py per_token catalog per_bucket [] used = Inr []"
| "pick_buckets py per_token catalog per_bucket (b # bs) used =
     sum_bind (pick_bucket_sessions py per_token catalog per_bucket b used) (\<lambda>(picked, used').
       sum_map ((@) picked) (pick_buckets py per_token catalog per_bucket bs used'))"

definition select_sessions_for_buckets ::
    "py_ops \<Rightarrow> session_transcript list \<Rightarrow> int list \<Rightarrow> pyfloat \<Rightarrow> int \<Rightarrow> string list \<Rightarrow> exn + selected_session list" where
  "select_sessions_for_buckets py catalog buckets per_token per_bucket explicit =
     (if explicit \<noteq> [] then select_explicit_sessions py per_token catalog explicit
      else sum_bind (pick_buckets py per_token catalog per_bucket (sort buckets) {}) (\<lambda>selected.
        if selected = [] then Inl (RuntimeError ''session bucket selection produced zero sessions'') else Inr selected))"

text \<open>The numbers of the configuration. Its defaults are the texts of the source; no explicit identifiers are an empty list.\<close>

record selection_params =
  sp_chars_per_token :: pyfloat
  sp_buckets :: "int list"
  sp_per_bucket :: int
  sp_max_context_tokens :: int
  sp_long_replays :: int
  sp_long_min :: int

definition selection_params_of :: "py_ops \<Rightarrow> ymap \<Rightarrow> exn + selection_params" where
  "selection_params_of py config =
     sum_bind (py_to_float py (y_get_or config ''chars_per_token'' (YFloat ''3.2''))) (\<lambda>per_token.
     sum_bind (y_items (y_get_or config ''size_buckets'' (YList [YInt 1024, YInt 2048, YInt 4096, YInt 8192]))) (\<lambda>items.
     sum_bind (all_inr (map (py_to_int py) items)) (\<lambda>buckets.
     sum_bind (py_to_int py (y_get_or config ''sessions_per_bucket'' (YInt 1))) (\<lambda>per_bucket.
     sum_bind (py_to_int py (y_get_or config ''max_context_tokens'' (YInt 8192))) (\<lambda>max_context.
     sum_bind (py_to_int py (y_get_or config ''long_session_replays'' (YInt 0))) (\<lambda>long_replays.
     sum_map (\<lambda>long_min. \<lparr>sp_chars_per_token = per_token, sp_buckets = buckets, sp_per_bucket = per_bucket,
         sp_max_context_tokens = max_context, sp_long_replays = long_replays, sp_long_min = long_min\<rparr>)
       (py_to_int py (y_get_or config ''long_session_min_estimated_tokens'' (YInt 0)))))))))"

definition select_benchmark_sessions ::
    "py_ops \<Rightarrow> session_transcript list \<Rightarrow> ymap \<Rightarrow> string list \<Rightarrow> exn + selected_session list" where
  "select_benchmark_sessions py catalog config explicit =
     sum_bind (selection_params_of py config) (\<lambda>p.
     sum_bind (select_sessions_for_buckets py catalog (sp_buckets p) (sp_chars_per_token p) (sp_per_bucket p) explicit) (\<lambda>bucketed.
       if explicit \<noteq> [] \<or> sp_long_replays p \<le> 0 then Inr bucketed
       else sum_map ((@) bucketed)
         (select_long_sessions py (sp_chars_per_token p) catalog (sp_long_replays p) (sp_max_context_tokens p)
            (set (map sl_id bucketed)) (sp_long_min p))))"

section \<open>No session twice\<close>

text \<open>What every pick keeps: the picked sessions are new, different, used from now on, and of the catalog.\<close>

definition fresh_picks :: "session_transcript list \<Rightarrow> string set \<Rightarrow> string set \<Rightarrow> selected_session list \<Rightarrow> bool" where
  "fresh_picks catalog used used' xs \<longleftrightarrow>
     distinct (map sl_id xs) \<and> set (map sl_id xs) \<inter> used = {} \<and> used' = used \<union> set (map sl_id xs) \<and>
     set (map sl_id xs) \<subseteq> se_id ` set catalog"

lemma fresh_picks_Nil [simp]: "fresh_picks catalog used used []"
  by (simp add: fresh_picks_def)

lemma fresh_picks_append:
  "fresh_picks c u u' xs \<Longrightarrow> fresh_picks c u' u'' ys \<Longrightarrow> fresh_picks c u u'' (xs @ ys)"
  by (auto simp: fresh_picks_def)

lemma fresh_picks_snoc:
  "fresh_picks c u u' xs \<Longrightarrow> sl_id x = se_id s \<Longrightarrow> se_id s \<notin> u' \<Longrightarrow> s \<in> set c \<Longrightarrow> fresh_picks c u (insert (se_id s) u') (xs @ [x])"
  by (auto simp: fresh_picks_def)

lemma selected_of_id: "selected_of py per_token bucket s = Inr x \<Longrightarrow> sl_id x = se_id s"
  by (auto simp: selected_of_def sum_bind_Inr sum_map_Inr)

lemma ranked_by_set: "ranked_by key catalog = Inr ranked \<Longrightarrow> set ranked = set catalog"
proof -
  assume "ranked_by key catalog = Inr ranked"
  then obtain ks where ks: "map key catalog = map Inr ks" "ranked = map snd (List.sort_key fst (zip ks catalog))"
    by (auto simp: ranked_by_def sum_map_Inr all_inr_Inr)
  from ks(1) have "length ks = length catalog" by (metis length_map)
  then have "map snd (zip ks catalog) = catalog" by simp
  then show ?thesis by (metis ks(2) set_map set_sort)
qed

lemma pick_from_fresh:
  "pick_from py per_token bucket too_small wanted ranked used' picked = Inr (ys, used'', stopped) \<Longrightarrow>
   set ranked \<subseteq> set catalog \<Longrightarrow> fresh_picks catalog used used' picked \<Longrightarrow> fresh_picks catalog used used'' ys"
proof (induction ranked arbitrary: used' picked)
  case (Cons s ranked)
  then show ?case
    by (fastforce simp: sum_bind_Inr dest: selected_of_id intro: fresh_picks_snoc split: if_splits)
qed simp

lemma pick_from_enough:
  "pick_from py per_token bucket too_small wanted ranked used picked = Inr (ys, used', stopped) \<Longrightarrow>
   int (length picked) < max 1 wanted \<Longrightarrow> int (length ys) \<le> max 1 wanted \<and> (stopped \<or> int (length ys) < max 1 wanted)"
proof (induction ranked arbitrary: used picked)
  case (Cons s ranked)
  then show ?case by (force simp: sum_bind_Inr split: if_splits)
qed simp

lemma pick_bucket_fresh:
  assumes "pick_bucket_sessions py per_token catalog per_bucket bucket used = Inr (ys, used')"
  shows "fresh_picks catalog used used' ys" "int (length ys) \<le> max 1 per_bucket"
proof -
  obtain ranked picked used1 stopped where
    ranked: "set ranked = set catalog"
    and picked: "pick_from py per_token bucket (\<lambda>e. e < min_estimated_for_bucket bucket) per_bucket ranked used [] = Inr (picked, used1, stopped)"
    and rest: "(if stopped then Inr (picked, used1) else case ranked of [] \<Rightarrow> Inr (picked, used1)
       | reserve # _ \<Rightarrow> if se_id reserve \<in> used1 then Inr (picked, used1)
           else sum_map (\<lambda>x. (picked @ [x], insert (se_id reserve) used1)) (selected_of py per_token (\<lambda>_. Inr bucket) reserve))
       = Inr (ys, used')"
    using assms unfolding pick_bucket_sessions_def sum_bind_Inr by (auto dest: ranked_by_set)
  have fresh: "fresh_picks catalog used used1 picked" using pick_from_fresh [OF picked] ranked by simp
  have enough: "int (length picked) \<le> max 1 per_bucket" "stopped \<or> int (length picked) < max 1 per_bucket"
    using pick_from_enough [OF picked] by auto
  have "fresh_picks catalog used used' ys \<and> int (length ys) \<le> max 1 per_bucket"
  proof (cases "stopped \<or> ranked = [] \<or> se_id (hd ranked) \<in> used1")
    case True
    then have "ys = picked \<and> used' = used1" using rest by (cases ranked) (simp_all split: if_split_asm)
    then show ?thesis using fresh enough(1) by simp
  next
    case False
    then obtain reserve others where reserve: "ranked = reserve # others" by (cases ranked) auto
    with False rest obtain x where x: "selected_of py per_token (\<lambda>_. Inr bucket) reserve = Inr x"
      and res: "ys = picked @ [x]" "used' = insert (se_id reserve) used1"
      by (auto simp: sum_map_Inr)
    have "reserve \<in> set catalog" using ranked reserve by auto
    then show ?thesis
      using fresh_picks_snoc [OF fresh selected_of_id [OF x]] False reserve enough unfolding res by simp
  qed
  then show "fresh_picks catalog used used' ys" "int (length ys) \<le> max 1 per_bucket" by blast+
qed

lemma pick_buckets_fresh:
  "pick_buckets py per_token catalog per_bucket bs used = Inr ys \<Longrightarrow>
   fresh_picks catalog used (used \<union> set (map sl_id ys)) ys \<and> int (length ys) \<le> max 1 per_bucket * int (length bs)"
proof (induction bs arbitrary: used ys)
  case (Cons b bs)
  then obtain picked used1 rest where
    picked: "pick_bucket_sessions py per_token catalog per_bucket b used = Inr (picked, used1)"
    and rest: "pick_buckets py per_token catalog per_bucket bs used1 = Inr rest" and ys: "ys = picked @ rest"
    by (auto simp: sum_bind_Inr sum_map_Inr)
  note first = pick_bucket_fresh [OF picked]
  have "fresh_picks catalog used (used1 \<union> set (map sl_id rest)) (picked @ rest)"
    using fresh_picks_append [OF first(1)] Cons.IH [OF rest] by blast
  moreover have "used1 = used \<union> set (map sl_id picked)" using first(1) by (simp add: fresh_picks_def)
  ultimately show ?case using first(2) Cons.IH [OF rest] by (simp add: ys Un_assoc algebra_simps)
qed simp

lemma select_long_fresh:
  "select_long_sessions py per_token catalog wanted bucket used m = Inr ys \<Longrightarrow>
   fresh_picks catalog used (used \<union> set (map sl_id ys)) ys \<and> int (length ys) \<le> max 1 wanted"
proof -
  assume "select_long_sessions py per_token catalog wanted bucket used m = Inr ys"
  then obtain ranked used' stopped where ranked: "set ranked = set catalog"
    and picked: "pick_from py per_token bucket (\<lambda>e. m \<noteq> 0 \<and> e < m) wanted ranked used [] = Inr (ys, used', stopped)"
    unfolding select_long_sessions_def sum_bind_Inr sum_map_Inr by (auto dest: ranked_by_set)
  have "fresh_picks catalog used used' ys" using pick_from_fresh [OF picked] ranked by simp
  moreover from this have "used' = used \<union> set (map sl_id ys)" by (simp add: fresh_picks_def)
  ultimately show ?thesis using pick_from_enough [OF picked] by simp
qed

lemma select_benchmark_fresh:
  assumes "select_benchmark_sessions py catalog config [] = Inr xs" "selection_params_of py config = Inr p"
  shows "distinct (map sl_id xs)" "set (map sl_id xs) \<subseteq> se_id ` set catalog"
    "int (length xs) \<le> max 1 (sp_per_bucket p) * int (length (sp_buckets p)) + max 0 (sp_long_replays p)"
proof -
  obtain bucketed where buckets: "pick_buckets py (sp_chars_per_token p) catalog (sp_per_bucket p) (sort (sp_buckets p)) {} = Inr bucketed"
    and rest: "(if sp_long_replays p \<le> 0 then Inr bucketed else sum_map ((@) bucketed)
       (select_long_sessions py (sp_chars_per_token p) catalog (sp_long_replays p) (sp_max_context_tokens p)
         (set (map sl_id bucketed)) (sp_long_min p))) = Inr xs"
    using assms unfolding select_benchmark_sessions_def select_sessions_for_buckets_def
    by (auto simp: sum_bind_Inr split: if_split_asm)
  note first = pick_buckets_fresh [OF buckets]
  have "distinct (map sl_id xs) \<and> set (map sl_id xs) \<subseteq> se_id ` set catalog \<and>
    int (length xs) \<le> max 1 (sp_per_bucket p) * int (length (sp_buckets p)) + max 0 (sp_long_replays p)"
  proof (cases "sp_long_replays p \<le> 0")
    case True
    with first rest show ?thesis by (simp add: fresh_picks_def)
  next
    case False
    with rest obtain ys where "xs = bucketed @ ys" and long: "select_long_sessions py (sp_chars_per_token p) catalog
        (sp_long_replays p) (sp_max_context_tokens p) (set (map sl_id bucketed)) (sp_long_min p) = Inr ys"
      by (auto simp: sum_map_Inr)
    moreover from fresh_picks_append [OF conjunct1 [OF first]] select_long_fresh [OF long]
    have "fresh_picks catalog {} (set (map sl_id bucketed) \<union> set (map sl_id ys)) (bucketed @ ys)" by simp
    ultimately show ?thesis using False first select_long_fresh [OF long] by (simp add: fresh_picks_def)
  qed
  then show "distinct (map sl_id xs)" "set (map sl_id xs) \<subseteq> se_id ` set catalog"
    "int (length xs) \<le> max 1 (sp_per_bucket p) * int (length (sp_buckets p)) + max 0 (sp_long_replays p)"
    by blast+
qed

section \<open>Property\<close>

text \<open>C25: a session is benchmarked at most once. A selection without explicit identifiers contains no session twice,
  not even as a long replay of one picked for a bucket; every one is in the catalog; and there are at most as many as the
  configuration asks for, at least one for a bucket.\<close>

theorem sessions_selected_once:
  "case (selection_params_of py config, select_benchmark_sessions py catalog config []) of
     (Inr p, Inr xs) \<Rightarrow> distinct (map sl_id xs) \<and> set (map sl_id xs) \<subseteq> se_id ` set catalog \<and>
       int (length xs) \<le> max 1 (sp_per_bucket p) * int (length (sp_buckets p)) + max 0 (sp_long_replays p)
   | _ \<Rightarrow> True"
  using select_benchmark_fresh [of py catalog config] by (auto split: sum.split)

end
