(* ===== verification/Score.thy ===== *)
theory Score
  imports Values "HOL-Library.AList"
begin

text \<open>
  \<open>llamafile_transcript_classifier/score.py\<close>: the grading of a YAML answer with one score for each
  category. \<open>load\<close> is \<open>yaml.safe_load\<close>, which gives a document or the text of a \<open>YAMLError\<close>.
\<close>

section \<open>The YAML block\<close>

text \<open>The text before the first occurrence of a word, and the rest from it.\<close>

fun cut_at :: "string \<Rightarrow> string \<Rightarrow> (string \<times> string) option" where
  "cut_at word [] = (if word = [] then Some ([], []) else None)"
| "cut_at word (c # s) =
     (if prefix word (c # s) then Some ([], c # s)
      else map_option (\<lambda>(a, b). (c # a, b)) (cut_at word s))"

definition fence :: string where "fence = ''```''"

text \<open>A match of the fenced pattern at the beginning of a text: the mark, an optional \<open>yaml\<close> or \<open>yml\<close> in any
  case, white space with a line break, of which the last one ends the head, and the body up to the next mark.\<close>

definition fenced_here :: "string \<Rightarrow> string option" where
  "fenced_here s =
     (if \<not> prefix fence s then None
      else let r = drop 3 s;
               r = (if lower (take 4 r) = ''yaml'' then drop 4 r else if lower (take 3 r) = ''yml'' then drop 3 r else r);
               ws = takeWhile is_space r
           in if newline \<notin> set ws then None
              else map_option fst (cut_at fence (drop (length ws - length (takeWhile (\<lambda>c. c \<noteq> newline) (rev ws))) r)))"

fun find_fenced :: "string \<Rightarrow> string option" where
  "find_fenced [] = None"
| "find_fenced (c # s) = (case fenced_here (c # s) of Some body \<Rightarrow> Some body | None \<Rightarrow> find_fenced s)"

definition extract_yaml_block :: "string \<Rightarrow> string" where
  "extract_yaml_block s =
     (case find_fenced s of
        Some body \<Rightarrow> strip body
      | None \<Rightarrow> (case cut_at ''scores:'' s of Some (_, r) \<Rightarrow> strip r | None \<Rightarrow> strip s))"

section \<open>Scores\<close>

text \<open>\<open>-?(?:\d+\.?\d*|\.\d+)\<close>\<close>

definition decimal_text :: "string \<Rightarrow> bool" where
  "decimal_text s =
     (let t = (if prefix ''-'' s then tl s else s);
          ds = takeWhile is_digit t;
          r = dropWhile is_digit t
      in if ds \<noteq> [] then r = [] \<or> hd r = CHR ''.'' \<and> list_all is_digit (tl r)
         else r \<noteq> [] \<and> hd r = CHR ''.'' \<and> tl r \<noteq> [] \<and> list_all is_digit (tl r))"

definition coerce_score :: "py_ops \<Rightarrow> yaml \<Rightarrow> exn + pyfloat option" where
  "coerce_score py v =
     (case v of
        YBool _ \<Rightarrow> Inr None
      | YInt _ \<Rightarrow> sum_map Some (py_to_float py v)
      | YFloat _ \<Rightarrow> sum_map Some (py_to_float py v)
      | YStr s \<Rightarrow> (if decimal_text (strip s) then sum_map Some (py_to_float py (YStr (strip s))) else Inr None)
      | _ \<Rightarrow> Inr None)"

definition one :: pyfloat where "one = Fin 1 0"
definition minus_one :: pyfloat where "minus_one = Fin (-1) 0"

definition out_of_range :: "pyfloat \<Rightarrow> bool" where
  "out_of_range v \<longleftrightarrow> f_less v minus_one \<or> f_less one v"

text \<open>One pass of the loop over the categories.\<close>

type_synonym parse_state = "string list \<times> (string \<times> pyfloat) list"

definition parse_category :: "py_ops \<Rightarrow> ymap \<Rightarrow> string \<Rightarrow> parse_state \<Rightarrow> exn + parse_state" where
  "parse_category py scores cat_id st =
     (case map_of scores (YStr cat_id) of
        None \<Rightarrow> Inr (fst st @ [''missing category: '' @ cat_id], snd st)
      | Some v \<Rightarrow> sum_map (\<lambda>value.
          case value of
            None \<Rightarrow> (fst st @ [''non-numeric score for '' @ cat_id], snd st)
          | Some x \<Rightarrow>
              if out_of_range x then (fst st @ [''out of range for '' @ cat_id @ '': '' @ py_ftext py x], snd st)
              else (fst st, AList.update cat_id x (snd st))) (coerce_score py v))"

fun parse_categories :: "py_ops \<Rightarrow> ymap \<Rightarrow> string list \<Rightarrow> parse_state \<Rightarrow> exn + parse_state" where
  "parse_categories py scores [] st = Inr st"
| "parse_categories py scores (c # cs) st =
     sum_bind (parse_category py scores c st) (parse_categories py scores cs)"

text \<open>\<open>sorted(set(scores_obj) - set(category_ids))\<close> and its \<open>join\<close>: a key that is not a text raises in one or
  the other.\<close>

definition extra_keys :: "ymap \<Rightarrow> string list \<Rightarrow> yaml list" where
  "extra_keys scores ids = remdups (filter (\<lambda>k. k \<notin> YStr ` set ids) (map fst scores))"

fun key_text :: "yaml \<Rightarrow> exn + string" where
  "key_text (YStr s) = Inr s"
| "key_text _ = Inl (TypeError ''key of the scores is not a text'')"

definition parse_classification_yaml ::
    "(string \<Rightarrow> string + yaml) \<Rightarrow> py_ops \<Rightarrow> string \<Rightarrow> string list \<Rightarrow> exn + ((string \<times> pyfloat) list \<times> string list)" where
  "parse_classification_yaml load py response ids =
     (case load (extract_yaml_block response) of
        Inl msg \<Rightarrow> Inr ([], [''yaml parse error: '' @ msg])
      | Inr parsed \<Rightarrow>
          (case as_map parsed of
             None \<Rightarrow> Inr ([], [''top-level YAML must be a mapping''])
           | Some document \<Rightarrow>
               (case as_map (y_get_or document ''scores'' parsed) of
                  None \<Rightarrow> Inr ([], [''scores section must be a mapping''])
                | Some scores \<Rightarrow>
                    sum_bind (parse_categories py scores ids ([], [])) (\<lambda>(errors, parsed_scores).
                    sum_map (\<lambda>extra.
                      (parsed_scores, errors @ (if extra = [] then [] else [''unexpected categories: '' @ join '', '' (sort extra)])))
                      (all_inr (map key_text (extra_keys scores ids)))))))"

record score_result =
  sc_passed :: bool
  sc_yaml_ok :: bool
  sc_categories_ok :: bool
  sc_range_ok :: bool
  sc_parsed_scores :: "(string \<times> pyfloat) list"
  sc_notes :: string

text \<open>The expected ranges: a category with its bounds, when given.\<close>

type_synonym ranges = "(string \<times> pyfloat option \<times> pyfloat option) list"

definition range_of :: "pyfloat option \<times> pyfloat option \<Rightarrow> pyfloat \<times> pyfloat" where
  "range_of b = (case fst b of None \<Rightarrow> minus_one | Some x \<Rightarrow> x, case snd b of None \<Rightarrow> one | Some x \<Rightarrow> x)"

definition misses_range :: "(string \<times> pyfloat) list \<Rightarrow> string \<times> pyfloat option \<times> pyfloat option \<Rightarrow> bool" where
  "misses_range scores r =
     (case map_of scores (fst r) of
        None \<Rightarrow> False
      | Some v \<Rightarrow> f_less v (fst (range_of (snd r))) \<or> f_less (snd (range_of (snd r))) v)"

definition range_error :: "py_ops \<Rightarrow> (string \<times> pyfloat) list \<Rightarrow> string \<times> pyfloat option \<times> pyfloat option \<Rightarrow> string" where
  "range_error py scores r =
     fst r @ '' expected ['' @ py_ftext py (fst (range_of (snd r))) @ '', '' @ py_ftext py (snd (range_of (snd r)))
       @ ''] got '' @ py_ftext py (the (map_of scores (fst r)))"

definition score_answer ::
    "(string \<Rightarrow> string + yaml) \<Rightarrow> py_ops \<Rightarrow> string \<Rightarrow> string list \<Rightarrow> ranges \<Rightarrow> exn + score_result" where
  "score_answer load py response ids expected =
     sum_map (\<lambda>(scores, errors).
       let yaml_ok = (\<not> list_ex (sublist ''yaml parse error'') errors);
           categories_ok = (length scores = length ids);
           range_errors = map (range_error py scores) (filter (misses_range scores) expected);
           range_ok = (range_errors = []);
           notes = errors @ range_errors
       in \<lparr>sc_passed = yaml_ok \<and> categories_ok \<and> range_ok \<and> errors = [], sc_yaml_ok = yaml_ok,
           sc_categories_ok = categories_ok, sc_range_ok = range_ok, sc_parsed_scores = scores,
           sc_notes = (if notes = [] then ''ok'' else join ''; '' notes)\<rparr>)
       (parse_classification_yaml load py response ids)"

section \<open>What passes\<close>

text \<open>The section with the scores, and a category whose score is a number that is not outside of the range.\<close>

definition scores_section :: "(string \<Rightarrow> string + yaml) \<Rightarrow> string \<Rightarrow> ymap option" where
  "scores_section load response =
     (case load (extract_yaml_block response) of
        Inl _ \<Rightarrow> None
      | Inr parsed \<Rightarrow> (case as_map parsed of None \<Rightarrow> None | Some document \<Rightarrow> as_map (y_get_or document ''scores'' parsed)))"

definition scored :: "py_ops \<Rightarrow> ymap \<Rightarrow> string \<Rightarrow> bool" where
  "scored py scores c \<longleftrightarrow>
     (case map_of scores (YStr c) of
        None \<Rightarrow> False
      | Some v \<Rightarrow> (case coerce_score py v of Inr (Some x) \<Rightarrow> \<not> out_of_range x | _ \<Rightarrow> False))"

lemma parse_category_outcome:
  "parse_category py scores c st = Inr st' \<Longrightarrow>
   (if scored py scores c
    then \<exists>x. st' = (fst st, AList.update c x (snd st)) \<and> coerce_score py (the (map_of scores (YStr c))) = Inr (Some x)
    else (\<exists>msg. st' = (fst st @ [msg], snd st)))"
  by (auto simp: parse_category_def scored_def sum_map_Inr split: option.splits if_splits)

lemma parse_categories_outcome:
  "parse_categories py scores cs st = Inr st' \<Longrightarrow>
   (fst st' = [] \<longleftrightarrow> fst st = [] \<and> list_all (scored py scores) cs) \<and>
   set (map fst (snd st')) = set (map fst (snd st)) \<union> set (filter (scored py scores) cs) \<and>
   (distinct (map fst (snd st)) \<longrightarrow> distinct (map fst (snd st')))"
proof (induction cs arbitrary: st)
  case (Cons c cs)
  then obtain st1 where first: "parse_category py scores c st = Inr st1" and rest: "parse_categories py scores cs st1 = Inr st'"
    by (auto simp: sum_bind_Inr)
  show ?case
  proof (cases "scored py scores c")
    case True
    then obtain x where "st1 = (fst st, AList.update c x (snd st))" using parse_category_outcome [OF first] by auto
    with True Cons.IH [OF rest] show ?thesis by (simp add: dom_update distinct_update)
  next
    case False
    then obtain msg where "st1 = (fst st @ [msg], snd st)" using parse_category_outcome [OF first] by auto
    with False Cons.IH [OF rest] show ?thesis by simp
  qed
qed simp

lemma extra_keys_none: "extra_keys scores ids = [] \<longleftrightarrow> set (map fst scores) \<subseteq> YStr ` set ids"
  by (auto simp: extra_keys_def filter_empty_conv)

lemma all_inr_Nil: "all_inr xs = Inr [] \<longleftrightarrow> xs = []"
  by (simp add: all_inr_Inr)

text \<open>An answer without errors has exactly the categories.\<close>

lemma parse_classification_clean:
  assumes "parse_classification_yaml load py response ids = Inr (scores, errors)"
  shows "errors = [] \<and> length scores = length ids \<longleftrightarrow>
    (case scores_section load response of
       None \<Rightarrow> False
     | Some sec \<Rightarrow> distinct ids \<and> list_all (scored py sec) ids \<and> set (map fst sec) \<subseteq> YStr ` set ids)"
proof (cases "scores_section load response")
  case None
  with assms show ?thesis
    by (auto simp: parse_classification_yaml_def scores_section_def split: sum.splits option.splits)
next
  case (Some sec)
  with assms obtain es extra where cats: "parse_categories py sec ids ([], []) = Inr (es, scores)"
    and extra: "all_inr (map key_text (extra_keys sec ids)) = Inr extra"
    and errors: "errors = es @ (if extra = [] then [] else [''unexpected categories: '' @ join '', '' (sort extra)])"
    by (auto simp: parse_classification_yaml_def scores_section_def sum_bind_Inr sum_map_Inr split: sum.splits option.splits)
  note outcome = parse_categories_outcome [OF cats, simplified]
  have length_scores: "length scores = card (set (filter (scored py sec) ids))"
    using outcome distinct_card [of "map fst scores"] by simp
  have "map Inr extra = map key_text (extra_keys sec ids)" using extra by (simp add: all_inr_Inr)
  then have "extra = [] \<longleftrightarrow> extra_keys sec ids = []" by (metis map_is_Nil_conv)
  then have none: "extra = [] \<longleftrightarrow> set (map fst sec) \<subseteq> YStr ` set ids" by (simp only: extra_keys_none)
  have "length scores = length ids \<longleftrightarrow> distinct ids" if "list_all (scored py sec) ids"
  proof -
    have "filter (scored py sec) ids = ids" using that by (simp add: filter_id_conv list_all_iff)
    then have "length scores = card (set ids)" using length_scores by simp
    then show ?thesis by (metis card_distinct distinct_card)
  qed
  then show ?thesis using outcome by (auto simp: Some errors none)
qed

section \<open>Property\<close>


text \<open>Two answers that the range check should stop: a score that is not a number passes, and a key that is a number
  ends the whole replay with a \<open>TypeError\<close>.\<close>

lemma nan_passes:
  "py_to_float py (YFloat ''nan'') = Inr NaN \<Longrightarrow> load (extract_yaml_block response) = Inr (YMap [(YStr ''calm'', YFloat ''nan'')]) \<Longrightarrow>
   map_option sc_passed (case score_answer load py response [''calm''] [] of Inl _ \<Rightarrow> None | Inr r \<Rightarrow> Some r) = Some True"
  by (simp add: score_answer_def parse_classification_yaml_def parse_category_def coerce_score_def sum_map_def
      y_get_or_def out_of_range_def minus_one_def one_def extra_keys_def Let_def)

lemma numeric_key_raises:
  "load (extract_yaml_block response) = Inr (YMap [(YInt 1, YNull)]) \<Longrightarrow>
   (case score_answer load py response [''calm''] [] of Inl (TypeError _) \<Rightarrow> True | _ \<Rightarrow> False)"
  by (simp add: score_answer_def parse_classification_yaml_def parse_category_def sum_map_def
      y_get_or_def extra_keys_def image_iff)

end
