(* ===== verification/StreamClient.thy ===== *)
theory StreamClient
  imports Values
begin

text \<open>
  \<open>llamafile_transcript_classifier/client.py\<close>: the HTTP client of the model server. What \<open>urllib\<close>,
  \<open>json\<close> and the clock do is the record \<open>http\<close>: a response is its status and the computations that read
  its lines, so a read may fail or take time at any line.
\<close>

section \<open>Data\<close>

definition HTTP_STATUS_OK :: int where "HTTP_STATUS_OK = 200"
definition HTTP_STATUS_NOT_IMPLEMENTED :: int where "HTTP_STATUS_NOT_IMPLEMENTED = 501"

record http_response =
  hr_status :: int
  hr_lines :: "string io list"

record http =
  ht_open :: "string \<Rightarrow> string \<Rightarrow> yaml option \<Rightarrow> pyfloat \<Rightarrow> http_response io"
  ht_loads :: "string \<Rightarrow> exn + yaml"
  ht_dumps :: "yaml \<Rightarrow> string"
  ht_elapsed_ms :: "world \<Rightarrow> world \<Rightarrow> pyfloat"
  ht_per_second :: "int \<Rightarrow> pyfloat \<Rightarrow> pyfloat"
  ht_fmt0 :: "pyfloat \<Rightarrow> string"

type_synonym message = "string \<times> string"

record completion_metrics =
  cm_response_text :: string
  cm_ttft_ms :: "pyfloat option"
  cm_total_ms :: pyfloat
  cm_prompt_tokens :: "int option"
  cm_completion_tokens :: "int option"
  cm_total_tokens :: "int option"
  cm_tokens_per_second :: "pyfloat option"
  cm_cache_n :: "int option"
  cm_prompt_n :: "int option"

record completion_request =
  cq_base_url :: string
  cq_messages :: "message list"
  cq_max_tokens :: int
  cq_temperature :: pyfloat
  cq_timeout_s :: pyfloat
  cq_id_slot :: int
  cq_cache_prompt :: bool
  cq_timings_per_token :: bool

record stream_state =
  ss_ttft_ms :: "pyfloat option"
  ss_parts :: "string list"
  ss_prompt_tokens :: "int option"
  ss_completion_tokens :: "int option"
  ss_total_tokens :: "int option"
  ss_cache_n :: "int option"
  ss_prompt_n :: "int option"

definition new_stream :: stream_state where
  "new_stream = \<lparr>ss_ttft_ms = None, ss_parts = [], ss_prompt_tokens = None, ss_completion_tokens = None,
     ss_total_tokens = None, ss_cache_n = None, ss_prompt_n = None\<rparr>"

text \<open>\<open>isinstance(v, int)\<close>, which holds for booleans too.\<close>

fun as_int :: "yaml \<Rightarrow> int option" where
  "as_int (YInt i) = Some i"
| "as_int (YBool b) = Some (if b then 1 else 0)"
| "as_int _ = None"

section \<open>Requests\<close>

definition service_url :: "string \<Rightarrow> string \<Rightarrow> string" where
  "service_url base_url route = rev (dropWhile (\<lambda>c. c = CHR ''/'') (rev base_url)) @ route"

fun read_lines :: "string io list \<Rightarrow> string list io" where
  "read_lines [] = ret []"
| "read_lines (l # ls) = bnd l (\<lambda>x. bnd (read_lines ls) (\<lambda>xs. ret (x # xs)))"

definition read_body :: "http_response \<Rightarrow> string io" where
  "read_body r = bnd (read_lines (hr_lines r)) (\<lambda>ls. ret (concat ls))"

definition message_json :: "message \<Rightarrow> yaml" where
  "message_json m = YMap [(YStr ''role'', YStr (fst m)), (YStr ''content'', YStr (snd m))]"

definition post_json :: "http \<Rightarrow> py_ops \<Rightarrow> string \<Rightarrow> yaml \<Rightarrow> pyfloat \<Rightarrow> ymap io" where
  "post_json N py url payload timeout_s =
     bnd (ht_open N ''POST'' url (Some payload) timeout_s) (\<lambda>resp.
     bnd (read_body resp) (\<lambda>body.
     bnd (lift_sum (ht_loads N body)) (\<lambda>parsed.
       case as_map parsed of
         None \<Rightarrow> raise (TypeError (''unexpected JSON response: '' @ y_str (py_show py) parsed))
       | Some m \<Rightarrow> ret m)))"

fun is_url_error :: "exn \<Rightarrow> bool" where
  "is_url_error (URLError _) = True"
| "is_url_error (HTTPError _) = True"
| "is_url_error _ = False"

fun is_timeout_error :: "exn \<Rightarrow> bool" where
  "is_timeout_error (TimeoutError _) = True"
| "is_timeout_error _ = False"

definition server_health_ok :: "http \<Rightarrow> string \<Rightarrow> pyfloat \<Rightarrow> bool io" where
  "server_health_ok N base_url timeout_s =
     catch (\<lambda>e. is_url_error e \<or> is_timeout_error e)
       (bnd (ht_open N ''GET'' (service_url base_url ''/health'') None timeout_s)
          (\<lambda>resp. ret (hr_status resp = HTTP_STATUS_OK)))
       (\<lambda>_. ret False)"

record erase_result =
  er_supported :: bool
  er_erased :: bool
  er_detail :: string

definition erase_slot :: "http \<Rightarrow> py_ops \<Rightarrow> string \<Rightarrow> int \<Rightarrow> pyfloat \<Rightarrow> erase_result io" where
  "erase_slot N py base_url slot_id timeout_s =
     bnd (catch (\<lambda>e. e = HTTPError HTTP_STATUS_NOT_IMPLEMENTED)
            (bnd (ht_open N ''POST'' (service_url base_url (''/slots/'' @ show_int slot_id @ ''?action=erase'')) None timeout_s)
               (\<lambda>resp. bnd (read_body resp) (\<lambda>body. ret (Some body))))
            (\<lambda>_. ret None)) (\<lambda>answer.
       case answer of
         None \<Rightarrow> ret \<lparr>er_supported = False, er_erased = False,
                   er_detail = ''slot erase not supported (start server with --slot-save-path)''\<rparr>
       | Some body \<Rightarrow>
           bnd (lift_sum (ht_loads N body)) (\<lambda>parsed.
             case as_map parsed of
               None \<Rightarrow> raise (TypeError (''unexpected slot erase response: '' @ y_str (py_show py) parsed))
             | Some _ \<Rightarrow> ret \<lparr>er_supported = True, er_erased = True, er_detail = ht_dumps N parsed\<rparr>))"

definition count_input_tokens :: "http \<Rightarrow> py_ops \<Rightarrow> string \<Rightarrow> message list \<Rightarrow> pyfloat \<Rightarrow> int io" where
  "count_input_tokens N py base_url messages timeout_s =
     bnd (post_json N py (service_url base_url ''/v1/chat/completions/input_tokens'')
            (YMap [(YStr ''messages'', YList (map message_json messages))]) timeout_s) (\<lambda>result.
       case as_int (y_get result ''input_tokens'') of
         None \<Rightarrow> raise (TypeError (''unexpected token count response: '' @ y_str (py_show py) (YMap result)))
       | Some tokens \<Rightarrow> ret tokens)"

section \<open>Streaming\<close>

text \<open>The changes of the accumulator by one event. \<open>ttft\<close> is the time since the start, should this be the first
  content.\<close>

definition append_stream_content :: "py_ops \<Rightarrow> pyfloat \<Rightarrow> yaml \<Rightarrow> stream_state \<Rightarrow> stream_state" where
  "append_stream_content py ttft content st =
     (if \<not> y_true content then st
      else st\<lparr>ss_ttft_ms := (if ss_ttft_ms st = None then Some ttft else ss_ttft_ms st),
              ss_parts := ss_parts st @ [y_str (py_show py) content]\<rparr>)"

definition apply_choice_delta :: "py_ops \<Rightarrow> pyfloat \<Rightarrow> yaml \<Rightarrow> stream_state \<Rightarrow> stream_state" where
  "apply_choice_delta py ttft choice st =
     (case as_map choice of
        None \<Rightarrow> st
      | Some m \<Rightarrow>
          let delta = (if y_true (y_get m ''delta'') then y_get m ''delta'' else YMap []) in
          (case as_map delta of None \<Rightarrow> st | Some d \<Rightarrow> append_stream_content py ttft (y_get d ''content'') st))"

text \<open>A counter is replaced when the event has an integer for it.\<close>

definition newer :: "yaml \<Rightarrow> int option \<Rightarrow> int option" where
  "newer v old = (case as_int v of None \<Rightarrow> old | Some i \<Rightarrow> Some i)"

definition apply_usage_stats :: "yaml \<Rightarrow> stream_state \<Rightarrow> stream_state" where
  "apply_usage_stats usage st =
     (case as_map usage of
        None \<Rightarrow> st
      | Some m \<Rightarrow> st\<lparr>ss_prompt_tokens := newer (y_get m ''prompt_tokens'') (ss_prompt_tokens st),
                    ss_completion_tokens := newer (y_get m ''completion_tokens'') (ss_completion_tokens st),
                    ss_total_tokens := newer (y_get m ''total_tokens'') (ss_total_tokens st)\<rparr>)"

definition apply_timing_stats :: "yaml \<Rightarrow> stream_state \<Rightarrow> stream_state" where
  "apply_timing_stats timings st =
     (case as_map timings of
        None \<Rightarrow> st
      | Some m \<Rightarrow> st\<lparr>ss_cache_n := newer (y_get m ''cache_n'') (ss_cache_n st),
                    ss_prompt_n := newer (y_get m ''prompt_n'') (ss_prompt_n st)\<rparr>)"

definition apply_stream_event :: "py_ops \<Rightarrow> pyfloat \<Rightarrow> ymap \<Rightarrow> stream_state \<Rightarrow> stream_state" where
  "apply_stream_event py ttft event st =
     (let st = (case as_list (y_get event ''choices'') of
                  Some (choice # _) \<Rightarrow> apply_choice_delta py ttft choice st
                | _ \<Rightarrow> st)
      in apply_timing_stats (y_get event ''timings'') (apply_usage_stats (y_get event ''usage'') st))"

text \<open>The lines of the response, up to the one that says it is done.\<close>

fun consume_stream :: "http \<Rightarrow> py_ops \<Rightarrow> world \<Rightarrow> string io list \<Rightarrow> stream_state \<Rightarrow> stream_state io" where
  "consume_stream N py started [] st = ret st"
| "consume_stream N py started (l # ls) st =
     bnd l (\<lambda>raw.
       let line = strip raw in
       if \<not> prefix ''data:'' line then consume_stream N py started ls st
       else let chunk = strip (drop 5 line) in
         if chunk = ''[DONE]'' then ret st
         else bnd (lift_sum (ht_loads N chunk)) (\<lambda>event.
           case as_map event of
             None \<Rightarrow> consume_stream N py started ls st
           | Some m \<Rightarrow> bnd get_world (\<lambda>now.
               consume_stream N py started ls (apply_stream_event py (ht_elapsed_ms N started now) m st))))"

definition completion_payload :: "completion_request \<Rightarrow> py_ops \<Rightarrow> yaml" where
  "completion_payload q py =
     YMap [(YStr ''model'', YStr ''benchmark''),
           (YStr ''messages'', YList (map message_json (cq_messages q))),
           (YStr ''max_tokens'', YInt (cq_max_tokens q)),
           (YStr ''temperature'', YFloat (py_ftext py (cq_temperature q))),
           (YStr ''stream'', YBool True),
           (YStr ''stream_options'', YMap [(YStr ''include_usage'', YBool True)]),
           (YStr ''id_slot'', YInt (cq_id_slot q)),
           (YStr ''cache_prompt'', YBool (cq_cache_prompt q)),
           (YStr ''timings_per_token'', YBool (cq_timings_per_token q))]"

definition stream_chat_completion :: "http \<Rightarrow> py_ops \<Rightarrow> completion_request \<Rightarrow> completion_metrics io" where
  "stream_chat_completion N py q =
     bnd get_world (\<lambda>started.
     bnd (ht_open N ''POST'' (service_url (cq_base_url q) ''/v1/chat/completions'') (Some (completion_payload q py)) (cq_timeout_s q)) (\<lambda>resp.
     bnd (consume_stream N py started (hr_lines resp) new_stream) (\<lambda>st.
     bnd get_world (\<lambda>now.
       let total_ms = ht_elapsed_ms N started now in
       ret \<lparr>cm_response_text = concat (ss_parts st), cm_ttft_ms = ss_ttft_ms st, cm_total_ms = total_ms,
            cm_prompt_tokens = ss_prompt_tokens st, cm_completion_tokens = ss_completion_tokens st,
            cm_total_tokens = ss_total_tokens st,
            cm_tokens_per_second =
              (case ss_completion_tokens st of
                 None \<Rightarrow> None
               | Some n \<Rightarrow> if f_less (Fin 0 0) total_ms then Some (ht_per_second N n total_ms) else None),
            cm_cache_n = ss_cache_n st, cm_prompt_n = ss_prompt_n st\<rparr>))))"

definition probe_cache_reuse :: "http \<Rightarrow> py_ops \<Rightarrow> string \<Rightarrow> int \<Rightarrow> pyfloat \<Rightarrow> yaml io" where
  "probe_cache_reuse N py base_url id_slot timeout_s =
     (let prefix_messages = [(''system'', ''cache probe''), (''user'', concat (replicate 80 ''prefix '')), (''assistant'', ''acknowledged'')];
          ask = (\<lambda>messages. stream_chat_completion N py \<lparr>cq_base_url = base_url, cq_messages = messages, cq_max_tokens = 4,
                   cq_temperature = Fin 0 0, cq_timeout_s = timeout_s, cq_id_slot = id_slot, cq_cache_prompt = True,
                   cq_timings_per_token = True\<rparr>);
          number = (\<lambda>v. case v of None \<Rightarrow> YNull | Some i \<Rightarrow> YInt i)
      in bnd (erase_slot N py base_url id_slot timeout_s) (\<lambda>erased.
         bnd (ask (prefix_messages @ [(''user'', ''classify: ok'')])) (\<lambda>first.
         bnd (ask (prefix_messages @ [(''user'', ''follow-up question''), (''assistant'', ''follow-up answer''), (''user'', ''classify: ok'')])) (\<lambda>second_run.
           ret (YMap [(YStr ''id_slot'', YInt id_slot),
                (YStr ''slot_erase_supported'', YBool (er_supported erased)),
                (YStr ''slot_erase_detail'', YStr (er_detail erased)),
                (YStr ''first_prompt_tokens'', number (cm_prompt_tokens first)),
                (YStr ''second_prompt_tokens'', number (cm_prompt_tokens second_run)),
                (YStr ''second_cache_n'', number (cm_cache_n second_run)),
                (YStr ''second_prompt_n'', number (cm_prompt_n second_run)),
                (YStr ''cache_working'', YBool (case cm_cache_n second_run of None \<Rightarrow> False | Some n \<Rightarrow> n > 0))])))))"

end
