(* ===== verification/Replay.thy ===== *)
theory Replay
  imports Transcripts Score StreamClient
begin

text \<open>
  \<open>replay_window.py\<close>, \<open>task.py\<close>, \<open>replay_steps.py\<close> and \<open>replay.py\<close> of the transcript classifier: a session
  is replayed turn by turn, each time with the last turns that fit into the context window. The token counter asks
  the server, so it is a computation that may fail and may answer differently each time.
\<close>

section \<open>The prompt\<close>

record category_entry =
  ce_id :: string
  ce_description :: string

record task_params =
  tp_session_id :: string
  tp_title :: string
  tp_turn_index :: nat
  tp_turn_count :: nat
  tp_window_start :: "nat option"
  tp_window_count :: "nat option"
  tp_rolled :: bool
  tp_max_context_tokens :: "int option"

definition render_scores_template :: "category_entry list \<Rightarrow> string" where
  "render_scores_template categories =
     join nl (''scores:'' # map (\<lambda>c. ''  '' @ ce_id c @ '': 0.0'') categories)"

definition SAMPLES :: "string list" where
  "SAMPLES = [''0.6'', ''0.5'', ''0.4'', ''-0.9'', ''0.5'', ''0.7'', ''0.5'']"

definition render_example_scores :: "category_entry list \<Rightarrow> string" where
  "render_example_scores categories =
     join nl (''scores:'' # map (\<lambda>(i, c). ''  '' @ ce_id c @ '': '' @ SAMPLES ! (i mod length SAMPLES))
       (zip [0..<length categories] categories))"

definition task_focus :: "task_params \<Rightarrow> string" where
  "task_focus p =
     (if tp_rolled p \<and> tp_window_start p \<noteq> None \<and> tp_window_count p \<noteq> None
      then ''Focus: Rate the assistant in the visible rolling window (turns '' @ show_nat (the (tp_window_start p)) @ ''-''
        @ show_nat (tp_turn_index p) @ '' of '' @ show_nat (tp_turn_count p) @ '', '' @ show_nat (the (tp_window_count p))
        @ '' request-response pairs shown).''
      else ''Focus: Rate the assistant across all turns shown (turn '' @ show_nat (tp_turn_index p) @ '' of ''
        @ show_nat (tp_turn_count p) @ '').'')"

definition render_classification_task :: "category_entry list \<Rightarrow> task_params \<Rightarrow> string" where
  "render_classification_task categories p =
     join nl (
       [''CLASSIFICATION TASK: behavioral assessment only.'',
        ''You are NOT the assistant in the transcript. Do not continue the conversation.'',
        ''Do not explain, plan, apologize, or add commentary.'',
        ''Your entire reply must be YAML scores only.'',
        ''The first line of your reply must be exactly: scores:'',
        ''No markdown fences. No prose before or after the YAML.'',
        [],
        ''Session: '' @ tp_session_id p,
        ''Title: '' @ tp_title p,
        task_focus p]
       @ (case tp_max_context_tokens p of None \<Rightarrow> []
          | Some n \<Rightarrow> [''Context policy: fixed '' @ show_int n @ '' token window; oldest turns drop when the transcript grows.''])
       @ [[], ''Categories (score each from -1.0 to 1.0):'']
       @ map (\<lambda>c. ''- '' @ ce_id c @ '': '' @ strip (ce_description c)) categories
       @ [[], ''Example output (format reference; replace with your assessment):'', render_example_scores categories,
          [], ''Now assess the conversation above. Reply with YAML only.'',
          ''Copy the template below, replace each 0.0 with your decimal score,'',
          ''and output nothing else:'', render_scores_template categories])"

section \<open>The window\<close>

definition build_messages :: "string \<Rightarrow> transcript_turn list \<Rightarrow> string \<Rightarrow> message list" where
  "build_messages system_prompt turns task =
     (''system'', system_prompt)
     # concat (map (\<lambda>t. [(''user'', tt_user t), (''assistant'', tt_assistant t)]) turns)
     @ [(''user'', task)]"

definition estimate_messages_tokens :: "py_ops \<Rightarrow> message list \<Rightarrow> pyfloat \<Rightarrow> exn + int" where
  "estimate_messages_tokens py messages per_token =
     sum_map (max 1) (py_quot py (int (sum_list (map (length \<circ> snd) messages))) per_token)"

record window_context =
  wc_system_prompt :: string
  wc_task :: string
  wc_max_context_tokens :: int
  wc_token_counter :: "(message list \<Rightarrow> int io) option"
  wc_chars_per_token :: pyfloat

definition count_window :: "py_ops \<Rightarrow> window_context \<Rightarrow> transcript_turn list \<Rightarrow> int io" where
  "count_window py context visible =
     (let messages = build_messages (wc_system_prompt context) visible (wc_task context) in
      case wc_token_counter context of
        Some counter \<Rightarrow> counter messages
      | None \<Rightarrow> lift_sum (estimate_messages_tokens py messages (wc_chars_per_token context)))"

text \<open>The visible turns, the index of the first, their number, and whether earlier ones were dropped.\<close>

type_synonym window = "transcript_turn list \<times> nat \<times> nat \<times> bool"

fun select_from :: "py_ops \<Rightarrow> window_context \<Rightarrow> transcript_turn list \<Rightarrow> bool \<Rightarrow> window io" where
  "select_from py context [] rolled = raise (RuntimeError ''select_window_turns could not fit any turn in context window'')"
| "select_from py context (t # ts) rolled =
     bnd (count_window py context (t # ts)) (\<lambda>tokens.
       if tokens \<le> wc_max_context_tokens context then ret (t # ts, tt_index t, length (t # ts), rolled)
       else if ts = [] then ret (t # ts, tt_index t, 1, rolled)
       else select_from py context ts True)"

definition select_window_turns :: "py_ops \<Rightarrow> transcript_turn list \<Rightarrow> nat \<Rightarrow> window_context \<Rightarrow> window io" where
  "select_window_turns py turns end_idx context =
     (if take end_idx turns = [] then raise (ValueError ''select_window_turns requires at least one turn'')
      else select_from py context (take end_idx turns) False)"

section \<open>Steps\<close>

record replay_runtime =
  rr_base_url :: string
  rr_session :: session_transcript
  rr_categories :: "category_entry list"
  rr_category_ids :: "string list"
  rr_system_prompt :: string
  rr_max_context_tokens :: int
  rr_chars_per_token :: pyfloat
  rr_max_tokens :: int
  rr_temperature :: pyfloat
  rr_id_slot :: int
  rr_cache_prompt :: bool
  rr_timeout_s :: pyfloat
  rr_count_tokens :: "message list \<Rightarrow> int io"

record step_prepared =
  sp_visible :: "transcript_turn list"
  sp_window_start :: nat
  sp_window_count :: nat
  sp_rolled :: bool
  sp_messages :: "message list"
  sp_prompt_tokens :: "int option"
  sp_stop_early :: bool

record replay_step_result =
  rs_turn_index :: nat
  rs_turn_count :: nat
  rs_window_start_turn :: nat
  rs_window_turn_count :: nat
  rs_window_rolled :: bool
  rs_prompt_tokens :: "int option"
  rs_cache_n :: "int option"
  rs_prompt_n :: "int option"
  rs_ttft_ms :: "pyfloat option"
  rs_total_ms :: pyfloat
  rs_completion_tokens :: "int option"
  rs_tokens_per_second :: "pyfloat option"
  rs_score :: score_result
  rs_response_preview :: string

datatype mode = RollingWindow | Cumulative

text \<open>\<open>config.get("replay", {})\<close>, whose own \<open>get\<close> is used.\<close>

definition replay_config :: "ymap \<Rightarrow> exn + ymap" where
  "replay_config config =
     (case as_map (y_get_or config ''replay'' (YMap [])) of
        None \<Rightarrow> Inl (AttributeError ''get'')
      | Some m \<Rightarrow> Inr m)"

definition replay_mode :: "py_ops \<Rightarrow> ymap \<Rightarrow> exn + mode" where
  "replay_mode py config =
     sum_bind (replay_config config) (\<lambda>replay_cfg.
       let mode = lower (strip (y_str (py_show py) (y_get_or replay_cfg ''mode'' (YStr ''rolling_window'')))) in
       if mode \<in> {''rolling'', ''rolling_window'', ''window''} then Inr RollingWindow
       else if mode \<in> {''cumulative'', ''grow''} then Inr Cumulative
       else Inl (ValueError (''unsupported replay mode: '' @ mode)))"

definition category_entries :: "py_ops \<Rightarrow> ymap \<Rightarrow> category_entry list" where
  "category_entries py config =
     (case as_list (y_get_or config ''categories'' (YList [])) of
        None \<Rightarrow> []
      | Some items \<Rightarrow>
          concat (map (\<lambda>item. case as_map item of
              Some m \<Rightarrow> (case map_of m (YStr ''id'') of
                  Some v \<Rightarrow> [\<lparr>ce_id = y_str (py_show py) v,
                             ce_description = y_str (py_show py) (y_get_or m ''description'' (YStr []))\<rparr>]
                | None \<Rightarrow> [])
            | None \<Rightarrow> []) items))"

definition counting_failure :: "exn \<Rightarrow> bool" where
  "counting_failure e \<longleftrightarrow> is_os_error e \<or> is_runtime_error e \<or> is_timeout_error e \<or> is_value_error e"

definition safe_token_count :: "py_ops \<Rightarrow> (message list \<Rightarrow> int io) \<Rightarrow> message list \<Rightarrow> pyfloat \<Rightarrow> int io" where
  "safe_token_count py counter messages per_token =
     catch counting_failure (counter messages) (\<lambda>_. lift_sum (estimate_messages_tokens py messages per_token))"

definition task_params_of :: "replay_runtime \<Rightarrow> nat \<Rightarrow> nat \<Rightarrow> nat option \<Rightarrow> nat option \<Rightarrow> bool \<Rightarrow> task_params" where
  "task_params_of R end_idx turn_count start n rolled =
     \<lparr>tp_session_id = se_id (rr_session R), tp_title = se_title (rr_session R), tp_turn_index = end_idx,
      tp_turn_count = turn_count, tp_window_start = start, tp_window_count = n, tp_rolled = rolled,
      tp_max_context_tokens = Some (rr_max_context_tokens R)\<rparr>"

text \<open>The task for a window.\<close>

definition window_task :: "replay_runtime \<Rightarrow> nat \<Rightarrow> nat \<Rightarrow> nat \<Rightarrow> nat \<Rightarrow> bool \<Rightarrow> string" where
  "window_task R end_idx turn_count start n rolled =
     render_classification_task (rr_categories R) (task_params_of R end_idx turn_count (Some start) (Some n) rolled)"

text \<open>The trimming loop, from the visible turns with their task, start, count and mark.\<close>

fun trim_rolling_window :: "py_ops \<Rightarrow> replay_runtime \<Rightarrow> nat \<Rightarrow> nat \<Rightarrow> transcript_turn list \<Rightarrow> string \<Rightarrow> nat \<Rightarrow> nat \<Rightarrow> bool
    \<Rightarrow> (window \<times> message list) io" where
  "trim_rolling_window py R end_idx turn_count (t # u # rest) task start n rolled =
     (let messages = build_messages (rr_system_prompt R) (t # u # rest) task in
      bnd (safe_token_count py (rr_count_tokens R) messages (rr_chars_per_token R)) (\<lambda>measured.
        if measured \<le> rr_max_context_tokens R then ret ((t # u # rest, start, n, rolled), messages)
        else let start' = tt_index u; n' = length (u # rest) in
          trim_rolling_window py R end_idx turn_count (u # rest) (window_task R end_idx turn_count start' n' True) start' n' True))"
| "trim_rolling_window py R end_idx turn_count visible task start n rolled =
     ret ((visible, start, n, rolled), build_messages (rr_system_prompt R) visible task)"

definition prepare_rolling_step :: "py_ops \<Rightarrow> replay_runtime \<Rightarrow> nat \<Rightarrow> nat \<Rightarrow> step_prepared io" where
  "prepare_rolling_step py R end_idx turn_count =
     bnd (select_window_turns py (se_turns (rr_session R)) end_idx
            \<lparr>wc_system_prompt = rr_system_prompt R, wc_task = window_task R end_idx turn_count 1 end_idx (end_idx > 1),
             wc_max_context_tokens = rr_max_context_tokens R, wc_token_counter = Some (rr_count_tokens R),
             wc_chars_per_token = rr_chars_per_token R\<rparr>) (\<lambda>(visible, start, n, rolled).
     bnd (trim_rolling_window py R end_idx turn_count visible (window_task R end_idx turn_count start n rolled) start n rolled)
       (\<lambda>((visible, start, n, rolled), messages).
     bnd (safe_token_count py (rr_count_tokens R) messages (rr_chars_per_token R)) (\<lambda>prompt_tokens.
       ret \<lparr>sp_visible = visible, sp_window_start = start, sp_window_count = n, sp_rolled = rolled, sp_messages = messages,
            sp_prompt_tokens = Some prompt_tokens, sp_stop_early = False\<rparr>)))"

definition prepare_cumulative_step :: "py_ops \<Rightarrow> replay_runtime \<Rightarrow> nat \<Rightarrow> nat \<Rightarrow> step_prepared io" where
  "prepare_cumulative_step py R end_idx turn_count =
     (case take end_idx (se_turns (rr_session R)) of
        [] \<Rightarrow> raise IndexError
      | t # ts \<Rightarrow>
          let task = render_classification_task (rr_categories R) (task_params_of R end_idx turn_count None None False);
              messages = build_messages (rr_system_prompt R) (t # ts) task
          in bnd (catch counting_failure (bnd (rr_count_tokens R messages) (\<lambda>n. ret (Some n))) (\<lambda>_. ret None)) (\<lambda>prompt_tokens.
               ret \<lparr>sp_visible = t # ts, sp_window_start = tt_index t, sp_window_count = length (t # ts), sp_rolled = False,
                    sp_messages = messages, sp_prompt_tokens = prompt_tokens,
                    sp_stop_early = (case prompt_tokens of None \<Rightarrow> False | Some n \<Rightarrow> n > rr_max_context_tokens R)\<rparr>))"

definition prepare_step :: "py_ops \<Rightarrow> replay_runtime \<Rightarrow> nat \<Rightarrow> nat \<Rightarrow> mode \<Rightarrow> step_prepared io" where
  "prepare_step py R end_idx turn_count m =
     (if m = RollingWindow then prepare_rolling_step py R end_idx turn_count
      else prepare_cumulative_step py R end_idx turn_count)"

definition preview_response :: "string \<Rightarrow> string" where
  "preview_response s =
     (let preview = replace_all nl '' '' (strip s) in
      if length preview > 240 then take 240 preview @ ''...'' else preview)"

text \<open>\<open>measured\<close>: the prompt tokens the server reports, else the ones counted before.\<close>

definition measured_tokens :: "completion_metrics \<Rightarrow> step_prepared \<Rightarrow> int option" where
  "measured_tokens metrics p = (case cm_prompt_tokens metrics of Some n \<Rightarrow> Some n | None \<Rightarrow> sp_prompt_tokens p)"

fun show_opt :: "int option \<Rightarrow> string" where
  "show_opt None = ''None''"
| "show_opt (Some n) = show_int n"

definition step_line :: "http \<Rightarrow> nat \<Rightarrow> nat \<Rightarrow> step_prepared \<Rightarrow> completion_metrics \<Rightarrow> string" where
  "step_line N end_idx turn_count p metrics =
     ''  turn '' @ show_nat end_idx @ ''/'' @ show_nat turn_count @ '': window='' @ show_nat (sp_window_start p) @ ''-''
     @ show_nat end_idx @ '' ('' @ show_nat (sp_window_count p) @ '' pairs, '' @ (if sp_rolled p then ''rolled'' else ''grow'')
     @ '') prompt='' @ show_opt (measured_tokens metrics p) @ '' cache=''
     @ show_int (case cm_cache_n metrics of None \<Rightarrow> 0 | Some n \<Rightarrow> n) @ '' ttft=''
     @ (case cm_ttft_ms metrics of None \<Rightarrow> ''n/a'' | Some t \<Rightarrow> ht_fmt0 N t @ ''ms'') @ '' total=''
     @ ht_fmt0 N (cm_total_ms metrics) @ ''ms''"

definition record_step :: "http \<Rightarrow> (string \<Rightarrow> string + yaml) \<Rightarrow> py_ops \<Rightarrow> replay_runtime \<Rightarrow> nat \<Rightarrow> nat \<Rightarrow> step_prepared
    \<Rightarrow> completion_metrics \<Rightarrow> replay_step_result io" where
  "record_step N load py R end_idx turn_count p metrics =
     andthen (print_err (step_line N end_idx turn_count p metrics))
       (bnd (lift_sum (score_answer load py (cm_response_text metrics) (rr_category_ids R) [])) (\<lambda>score.
          ret \<lparr>rs_turn_index = end_idx, rs_turn_count = turn_count, rs_window_start_turn = sp_window_start p,
               rs_window_turn_count = sp_window_count p, rs_window_rolled = sp_rolled p,
               rs_prompt_tokens = measured_tokens metrics p, rs_cache_n = cm_cache_n metrics, rs_prompt_n = cm_prompt_n metrics,
               rs_ttft_ms = cm_ttft_ms metrics, rs_total_ms = cm_total_ms metrics,
               rs_completion_tokens = cm_completion_tokens metrics, rs_tokens_per_second = cm_tokens_per_second metrics,
               rs_score = score, rs_response_preview = preview_response (cm_response_text metrics)\<rparr>))"

section \<open>The replay\<close>

record session_replay =
  sx_session_id :: string
  sx_title :: string
  sx_bucket_tokens :: int
  sx_steps :: "replay_step_result list"

record replay_request =
  rq_base_url :: string
  rq_session :: session_transcript
  rq_bucket_tokens :: int
  rq_config :: ymap
  rq_category_ids :: "string list"
  rq_timeout_s :: pyfloat

definition step_completion :: "replay_runtime \<Rightarrow> step_prepared \<Rightarrow> completion_request" where
  "step_completion R p =
     \<lparr>cq_base_url = rr_base_url R, cq_messages = sp_messages p, cq_max_tokens = rr_max_tokens R,
      cq_temperature = rr_temperature R, cq_timeout_s = rr_timeout_s R, cq_id_slot = rr_id_slot R,
      cq_cache_prompt = rr_cache_prompt R, cq_timings_per_token = True\<rparr>"

text \<open>The loop over the turns: it stops before a prompt that is too large, and in the cumulative mode after one.\<close>

fun replay_turns :: "http \<Rightarrow> (string \<Rightarrow> string + yaml) \<Rightarrow> py_ops \<Rightarrow> replay_runtime \<Rightarrow> mode \<Rightarrow> nat \<Rightarrow> nat list
    \<Rightarrow> replay_step_result list \<Rightarrow> replay_step_result list io" where
  "replay_turns N load py R m turn_count [] steps = ret steps"
| "replay_turns N load py R m turn_count (end_idx # rest) steps =
     bnd (prepare_step py R end_idx turn_count m) (\<lambda>p.
       if sp_stop_early p then ret steps
       else bnd (stream_chat_completion N py (step_completion R p)) (\<lambda>metrics.
            bnd (record_step N load py R end_idx turn_count p metrics) (\<lambda>s.
              if m = Cumulative \<and> (case measured_tokens metrics p of None \<Rightarrow> False | Some n \<Rightarrow> n > rr_max_context_tokens R)
              then ret (steps @ [s])
              else replay_turns N load py R m turn_count rest (steps @ [s]))))"

definition replay_runtime_of :: "http \<Rightarrow> py_ops \<Rightarrow> replay_request \<Rightarrow> exn + (mode \<times> replay_runtime)" where
  "replay_runtime_of N py q =
     (let config = rq_config q in
      sum_bind (replay_config config) (\<lambda>replay_cfg.
      sum_bind (replay_mode py config) (\<lambda>m.
      sum_bind (py_to_int py (y_get_or replay_cfg ''id_slot'' (YInt 0))) (\<lambda>id_slot.
      sum_bind (py_to_int py (y_get_or config ''max_context_tokens'' (YInt 32768))) (\<lambda>max_context.
      sum_bind (py_to_float py (y_get_or config ''chars_per_token'' (YFloat ''3.2''))) (\<lambda>per_token.
      sum_bind (py_to_int py (y_get_or config ''max_completion_tokens'' (YInt 384))) (\<lambda>max_tokens.
      sum_map (\<lambda>temperature.
        (m, \<lparr>rr_base_url = rq_base_url q, rr_session = rq_session q, rr_categories = category_entries py config,
           rr_category_ids = rq_category_ids q,
           rr_system_prompt = strip (y_str (py_show py) (y_get_or config ''system_prompt'' (YStr []))),
           rr_max_context_tokens = max_context, rr_chars_per_token = per_token, rr_max_tokens = max_tokens,
           rr_temperature = temperature, rr_id_slot = id_slot,
           rr_cache_prompt = y_true (y_get_or replay_cfg ''cache_prompt'' (YBool True)), rr_timeout_s = rq_timeout_s q,
           rr_count_tokens = (\<lambda>messages. count_input_tokens N py (rq_base_url q) messages (rq_timeout_s q))\<rparr>))
        (py_to_float py (y_get_or config ''temperature'' (YInt 0))))))))))"

definition replay_session :: "http \<Rightarrow> (string \<Rightarrow> string + yaml) \<Rightarrow> py_ops \<Rightarrow> replay_request \<Rightarrow> session_replay io" where
  "replay_session N load py q =
     bnd (lift_sum (replay_runtime_of N py q)) (\<lambda>(m, R).
     bnd (erase_slot N py (rq_base_url q) (rr_id_slot R) (rq_timeout_s q)) (\<lambda>_.
       let turn_count = length (se_turns (rq_session q)) in
     bnd (replay_turns N load py R m turn_count [1..<Suc turn_count] []) (\<lambda>steps.
       if steps = [] then raise (RuntimeError (''session replay produced zero steps: '' @ se_id (rq_session q)))
       else ret \<lparr>sx_session_id = se_id (rq_session q), sx_title = se_title (rq_session q),
                sx_bucket_tokens = rq_bucket_tokens q, sx_steps = steps\<rparr>)))"

section \<open>Windows are suffixes\<close>

text \<open>A window of some turns: a nonempty suffix of them with the index of its first turn and its length, marked when
  it is not all of them.\<close>

definition window_of :: "transcript_turn list \<Rightarrow> window \<Rightarrow> bool" where
  "window_of turns x \<longleftrightarrow>
     (case x of (visible, start, n, rolled) \<Rightarrow>
        visible \<noteq> [] \<and> suffix visible turns \<and> start = tt_index (hd visible) \<and> n = length visible \<and>
        (rolled \<longleftrightarrow> visible \<noteq> turns))"

lemma suffix_shorter: "suffix (t # ts) xs \<Longrightarrow> ts \<noteq> xs"
  by (auto dest: suffix_length_le)

lemma select_from_window:
  "suffix visible turns \<Longrightarrow> visible \<noteq> [] \<Longrightarrow> (rolled \<longleftrightarrow> visible \<noteq> turns) \<Longrightarrow>
   wp (select_from py cx visible rolled) (\<lambda>x _. window_of turns x) (\<lambda>_ _. True) w"
proof (induction visible arbitrary: rolled w)
  case (Cons t ts)
  have "wp (select_from py cx ts True) (\<lambda>x _. window_of turns x) (\<lambda>_ _. True) w'" if "ts \<noteq> []" for w'
    using that Cons.prems(1) by (intro Cons.IH) (auto dest: suffix_ConsD suffix_shorter)
  then show ?case
    using Cons.prems unfolding select_from.simps by (intro after_any) (auto simp: wps window_of_def)
qed simp

lemma select_window_window:
  "wp (select_window_turns py turns end_idx cx) (\<lambda>x _. window_of (take end_idx turns) x) (\<lambda>_ _. True) w"
  by (auto simp: select_window_turns_def wps intro: select_from_window)

lemma trim_window:
  "window_of turns (visible, start, n, rolled) \<Longrightarrow>
   wp (trim_rolling_window py R end_idx turn_count visible (window_task R end_idx turn_count start n rolled) start n rolled)
     (\<lambda>(x, messages) _. window_of turns x \<and>
        (case x of (visible, start, n, rolled) \<Rightarrow>
           messages = build_messages (rr_system_prompt R) visible (window_task R end_idx turn_count start n rolled)))
     (\<lambda>_ _. True) w"
proof (induction "length visible" arbitrary: visible start n rolled w)
  case 0
  then show ?case by (simp add: window_of_def)
next
  case (Suc k)
  show ?case
  proof (cases "tl visible")
    case Nil
    with Suc(2) obtain t where "visible = [t]" by (cases visible) auto
    with Suc(3) show ?thesis by (simp add: wps)
  next
    case (Cons u rest)
    with Suc(2) obtain t where v: "visible = t # u # rest" by (cases visible) auto
    have "window_of turns (u # rest, tt_index u, length (u # rest), True)"
      using Suc(3) by (auto simp: v window_of_def dest: suffix_ConsD suffix_shorter)
    from Suc(1) [OF _ this] Suc(2,3) show ?thesis
      unfolding v trim_rolling_window.simps Let_def by (intro after_any) (auto simp: v wps)
  qed
qed

lemma prepare_rolling_window:
  "wp (prepare_rolling_step py R end_idx turn_count)
     (\<lambda>p _. window_of (take end_idx (se_turns (rr_session R))) (sp_visible p, sp_window_start p, sp_window_count p, sp_rolled p) \<and>
        sp_messages p = build_messages (rr_system_prompt R) (sp_visible p)
          (window_task R end_idx turn_count (sp_window_start p) (sp_window_count p) (sp_rolled p)) \<and> \<not> sp_stop_early p)
     (\<lambda>_ _. True) w"
  unfolding prepare_rolling_step_def wp_bnd
  by (rule wp_mono [OF select_window_window])
    (auto simp: wps intro!: wp_mono [OF trim_window] after_any)

text \<open>With a counter that always answers the same, the window is the longest one that fits.\<close>

definition fits :: "(message list \<Rightarrow> int) \<Rightarrow> window_context \<Rightarrow> transcript_turn list \<Rightarrow> bool" where
  "fits tokens cx visible \<longleftrightarrow>
     tokens (build_messages (wc_system_prompt cx) visible (wc_task cx)) \<le> wc_max_context_tokens cx"

lemma select_from_longest:
  assumes "wc_token_counter cx = Some (\<lambda>ms. ret (tokens ms))"
  shows "visible \<noteq> [] \<Longrightarrow> \<exists>k < length visible.
     fst (select_from py cx visible rolled w) = Inr (drop k visible, tt_index (visible ! k), length visible - k, if k = 0 then rolled else True) \<and>
     snd (select_from py cx visible rolled w) = w \<and>
     (fits tokens cx (drop k visible) \<or> k = length visible - 1) \<and> (\<forall>j < k. \<not> fits tokens cx (drop j visible))"
proof (induction visible arbitrary: rolled)
  case (Cons t ts)
  have step: "select_from py cx (t # ts) rolled w =
    (if fits tokens cx (t # ts) then ret (t # ts, tt_index t, length (t # ts), rolled)
     else if ts = [] then ret (t # ts, tt_index t, 1, rolled) else select_from py cx ts True) w"
    using assms by (simp add: count_window_def fits_def bnd_def ret_def)
  show ?case
  proof (cases "fits tokens cx (t # ts) \<or> ts = []")
    case True
    then show ?thesis by (intro exI [of _ 0]) (auto simp: step ret_def simp del: select_from.simps)
  next
    case False
    with Cons.IH [of True] obtain k where "k < length ts"
      "fst (select_from py cx ts True w) = Inr (drop k ts, tt_index (ts ! k), length ts - k, True)"
      "snd (select_from py cx ts True w) = w"
      "fits tokens cx (drop k ts) \<or> k = length ts - 1" "\<forall>j < k. \<not> fits tokens cx (drop j ts)"
      by (auto split: if_splits)
    with False show ?thesis by (intro exI [of _ "Suc k"]) (auto simp: step less_Suc_eq_0_disj simp del: select_from.simps)
  qed
qed simp

section \<open>The steps of a replay\<close>

lemma prepare_cumulative_window:
  "wp (prepare_cumulative_step py R end_idx turn_count)
     (\<lambda>p _. window_of (take end_idx (se_turns (rr_session R))) (sp_visible p, sp_window_start p, sp_window_count p, sp_rolled p))
     (\<lambda>_ _. True) w"
proof (cases "take end_idx (se_turns (rr_session R))")
  case (Cons t ts)
  show ?thesis
    unfolding prepare_cumulative_step_def Cons list.case Let_def
    by (rule after_any) (auto simp: wps window_of_def)
next
  case Nil
  show ?thesis unfolding prepare_cumulative_step_def Nil by (simp add: wps)
qed

lemma prepare_step_window:
  "wp (prepare_step py R end_idx turn_count m)
     (\<lambda>p _. window_of (take end_idx (se_turns (rr_session R))) (sp_visible p, sp_window_start p, sp_window_count p, sp_rolled p) \<and>
        (m = RollingWindow \<longrightarrow> \<not> sp_stop_early p)) (\<lambda>_ _. True) w"
proof (cases "m = RollingWindow")
  case True
  then show ?thesis unfolding prepare_step_def by (auto intro: wp_mono [OF prepare_rolling_window])
next
  case False
  then show ?thesis unfolding prepare_step_def by (auto intro: wp_mono [OF prepare_cumulative_window])
qed

definition step_of :: "transcript_turn list \<Rightarrow> replay_step_result \<Rightarrow> bool" where
  "step_of turns s \<longleftrightarrow>
     (\<exists>visible. window_of (take (rs_turn_index s) turns) (visible, rs_window_start_turn s, rs_window_turn_count s, rs_window_rolled s))"

definition steps_of :: "transcript_turn list \<Rightarrow> replay_step_result list \<Rightarrow> bool" where
  "steps_of turns steps \<longleftrightarrow> map rs_turn_index steps = [1..<Suc (length steps)] \<and> list_all (step_of turns) steps"

lemma record_step_wp:
  "(\<And>(s :: replay_step_result) w. rs_turn_index s = end_idx \<Longrightarrow> rs_window_start_turn s = sp_window_start p \<Longrightarrow> rs_window_turn_count s = sp_window_count p \<Longrightarrow>
      rs_window_rolled s = sp_rolled p \<Longrightarrow> Q s w) \<Longrightarrow>
   wp (record_step N load py R end_idx turn_count p metrics) Q (\<lambda>_ _. True) w"
  by (auto simp: record_step_def wps split: sum.split)

lemma replay_turns_steps:
  assumes "steps_of (se_turns (rr_session R)) steps"
  shows "wp (replay_turns N load py R m turn_count [Suc (length steps)..<b] steps)
     (\<lambda>res _. steps_of (se_turns (rr_session R)) res \<and> length res \<le> max (length steps) (b - 1) \<and>
        (m = RollingWindow \<longrightarrow> length res = max (length steps) (b - 1))) (\<lambda>_ _. True) w"
  using assms
proof (induction "b - length steps" arbitrary: steps w)
  case 0
  then show ?case by (cases steps) (auto simp: wps max_def)
next
  case (Suc k)
  show ?case
  proof (cases "Suc (length steps) < b")
    case False
    with Suc(2,3) show ?thesis by (auto simp: wps max_def)
  next
    case True
    then have idx: "[Suc (length steps)..<b] = Suc (length steps) # [Suc (Suc (length steps))..<b]" by (rule upt_conv_Cons)
    let ?this_idx = "Suc (length steps)"
    have one: "wp (bnd (stream_chat_completion N py (step_completion R p)) (\<lambda>metrics.
        bnd (record_step N load py R ?this_idx turn_count p metrics) (\<lambda>s.
          if m = Cumulative \<and> (case measured_tokens metrics p of None \<Rightarrow> False | Some n \<Rightarrow> n > rr_max_context_tokens R)
          then ret (steps @ [s]) else replay_turns N load py R m turn_count [Suc ?this_idx..<b] (steps @ [s]))))
      (\<lambda>res _. steps_of (se_turns (rr_session R)) res \<and> length res \<le> max (length steps) (b - 1) \<and>
        (m = RollingWindow \<longrightarrow> length res = max (length steps) (b - 1))) (\<lambda>_ _. True) w'"
      if "window_of (take ?this_idx (se_turns (rr_session R))) (sp_visible p, sp_window_start p, sp_window_count p, sp_rolled p)" for p w'
    proof (rule after_any, unfold wp_bnd, rule record_step_wp)
      fix metrics and s :: replay_step_result and w''
      assume s: "rs_turn_index s = ?this_idx" "rs_window_start_turn s = sp_window_start p"
        "rs_window_turn_count s = sp_window_count p" "rs_window_rolled s = sp_rolled p"
      have ok: "steps_of (se_turns (rr_session R)) (steps @ [s])"
        using Suc(3) that s by (auto simp: steps_of_def step_of_def)
      have "wp (replay_turns N load py R m turn_count [Suc ?this_idx..<b] (steps @ [s]))
        (\<lambda>res _. steps_of (se_turns (rr_session R)) res \<and> length res \<le> max (length steps) (b - 1) \<and>
          (m = RollingWindow \<longrightarrow> length res = max (length steps) (b - 1))) (\<lambda>_ _. True) w''"
        using Suc(1) [of "steps @ [s]" w''] Suc(2) True ok by (simp add: max_absorb2)
      then show "wp (if m = Cumulative \<and> (case measured_tokens metrics p of None \<Rightarrow> False | Some n \<Rightarrow> n > rr_max_context_tokens R)
          then ret (steps @ [s]) else replay_turns N load py R m turn_count [Suc ?this_idx..<b] (steps @ [s]))
        (\<lambda>res _. steps_of (se_turns (rr_session R)) res \<and> length res \<le> max (length steps) (b - 1) \<and>
          (m = RollingWindow \<longrightarrow> length res = max (length steps) (b - 1))) (\<lambda>_ _. True) w''"
        using ok True by (auto simp: wps)
    qed
    show ?thesis
      unfolding idx replay_turns.simps wp_bnd [of "prepare_step py R ?this_idx turn_count m"]
      by (rule wp_mono [OF prepare_step_window]) (use Suc(3) one in \<open>auto simp: wps\<close>)
  qed
qed

lemma replay_session_steps:
  "wp (replay_session N load py q)
     (\<lambda>r _. sx_steps r \<noteq> [] \<and> steps_of (se_turns (rq_session q)) (sx_steps r) \<and> length (sx_steps r) \<le> length (se_turns (rq_session q)) \<and>
        (replay_mode py (rq_config q) = Inr RollingWindow \<longrightarrow> length (sx_steps r) = length (se_turns (rq_session q)))) (\<lambda>_ _. True) w"
proof (cases "replay_runtime_of N py q")
  case (Inl e)
  then show ?thesis by (simp add: replay_session_def wps)
next
  case (Inr mR)
  obtain m R where mR: "mR = (m, R)" by (cases mR)
  have R: "rr_session R = rq_session q" "replay_mode py (rq_config q) = Inr m"
    using Inr unfolding replay_runtime_of_def Let_def by (auto simp: mR sum_bind_Inr sum_map_Inr)
  let ?n = "length (se_turns (rq_session q))"
  have run: "wp (replay_turns N load py R m ?n [1..<Suc ?n] [])
     (\<lambda>res _. steps_of (se_turns (rr_session R)) res \<and> length res \<le> ?n \<and> (m = RollingWindow \<longrightarrow> length res = ?n)) (\<lambda>_ _. True) w" for w
    using replay_turns_steps [of R "[]" N load py m ?n "Suc ?n" w] by (simp add: steps_of_def del: upt_Suc)
  show ?thesis
    unfolding replay_session_def wp_bnd [of "lift_sum _"] wp_lift_sum Inr mR sum.case prod.case Let_def
    by (rule after_any, unfold wp_bnd, rule wp_mono [OF run]) (auto simp: wps R)
qed

section \<open>Numbered turns\<close>

lemma window_numbered:
  assumes "window_of (take e turns) (visible, start, n, rolled)" "map tt_index turns = [1..<Suc (length turns)]" "e \<le> length turns"
  shows "start + n = Suc e" "1 \<le> n" "rolled \<longleftrightarrow> 1 < start"
proof -
  from assms(1) obtain front where front: "take e turns = front @ visible" and v: "visible \<noteq> []" "start = tt_index (hd visible)"
    "n = length visible" "rolled \<longleftrightarrow> visible \<noteq> take e turns"
    by (auto simp: window_of_def suffix_def)
  have "length front + n = e" using arg_cong [OF front, of length] assms(3) v(3) by simp
  moreover have "length front < length turns" using calculation assms(3) v(1,3) by (cases visible) auto
  then have "tt_index (turns ! length front) = Suc (length front)"
    using arg_cong [OF assms(2), of "\<lambda>xs. xs ! length front"] by (simp del: upt_Suc)
  moreover have "hd visible = take e turns ! length front" using front v(1) by (simp add: hd_conv_nth nth_append)
  moreover have "length front < e" using calculation(1) v(1,3) by (cases visible) auto
  ultimately have "start = Suc (length front)" "n + length front = e" using v(2) by simp_all
  then show "start + n = Suc e" "1 \<le> n" "rolled \<longleftrightarrow> 1 < start"
    using v(1,3,4) front by (auto simp: Suc_le_eq)
qed

lemma loaded_turns_numbered:
  "load_session_transcript py db sid source = Inr s \<Longrightarrow> map tt_index (se_turns s) = [1..<Suc (length (se_turns s))]"
  unfolding load_session_transcript_def
  by (auto simp: sum_bind_Inr sum_map_Inr Let_def parse_session_turns_def turns_from_indices simp del: upt_Suc split: option.splits if_splits)

section \<open>Properties\<close>

text \<open>C27: the window is the longest one that fits. With a counter that always gives the same answer, the selected
  turns are the longest suffix of the turns so far whose prompt is within the limit, or the last turn alone when none
  is; their first index, their number and the mark of a rolled window belong to them; and selection only fails without
  turns.\<close>

theorem longest_window_selected:
  "case select_window_turns py turns end_idx (cx\<lparr>wc_token_counter := Some (\<lambda>ms. ret (tokens ms))\<rparr>) w of
     (Inl e, w') \<Rightarrow> take end_idx turns = [] \<and> w' = w
   | (Inr (visible, start, n, rolled), w') \<Rightarrow>
       w' = w \<and> window_of (take end_idx turns) (visible, start, n, rolled) \<and> (fits tokens cx visible \<or> n = 1) \<and>
       list_all (\<lambda>k. \<not> fits tokens cx (drop k (take end_idx turns))) [0..<length (take end_idx turns) - n]"
proof (cases "take end_idx turns = []")
  case True
  then show ?thesis by (simp add: select_window_turns_def raise_def)
next
  case False
  let ?cx = "cx\<lparr>wc_token_counter := Some (\<lambda>ms. ret (tokens ms))\<rparr>" and ?ts = "take end_idx turns"
  have arith: "(F \<or> l - k = 1) \<and> l - (l - k) = k" if "k < l" "F \<or> k = l - 1" for k l :: nat and F
    using that by auto
  have same: "fits tokens ?cx = fits tokens cx" by (simp add: fits_def fun_eq_iff)
  from select_from_longest [of ?cx tokens ?ts py False w] False obtain k where k: "k < length ?ts"
    "fst (select_from py ?cx ?ts False w) = Inr (drop k ?ts, tt_index (?ts ! k), length ?ts - k, if k = 0 then False else True)"
    "snd (select_from py ?cx ?ts False w) = w" "fits tokens cx (drop k ?ts) \<or> k = length ?ts - 1"
    "\<forall>j < k. \<not> fits tokens cx (drop j ?ts)"
    unfolding same by auto
  have "drop k ?ts \<noteq> ?ts" if "k \<noteq> 0" using that k(1) by (metis diff_less dual_order.strict_trans1 length_drop le_refl nat_less_le not_gr_zero)
  then have "window_of ?ts (drop k ?ts, tt_index (?ts ! k), length ?ts - k, if k = 0 then False else True)"
    using k(1) by (auto simp: window_of_def suffix_drop hd_drop_conv_nth)
  moreover have "select_from py ?cx ?ts False w = (Inr (drop k ?ts, tt_index (?ts ! k), length ?ts - k, if k = 0 then False else True), w)"
    using k(2,3) by (metis prod.collapse)
  then have "select_window_turns py turns end_idx ?cx w =
      (Inr (drop k ?ts, tt_index (?ts ! k), length ?ts - k, if k = 0 then False else True), w)"
    using False by (simp only: select_window_turns_def if_False)
  moreover have "fits tokens cx (drop k ?ts) \<or> length ?ts - k = 1" "length ?ts - (length ?ts - k) = k"
    using arith [OF k(1,4)] by blast+
  ultimately show ?thesis using k(5) by (simp only: prod.case sum.case list_all_iff set_upt) auto
qed


text \<open>A recorded session is replayed turn by turn. When the replay of a session of the database returns, its
  steps are those of the turns 1, 2, ... in order, of all turns in the rolling mode; and each step has seen the turns from
  its recorded start to its own, as many as it records, and is marked exactly when the first was dropped.\<close>

theorem session_replayed_in_order:
  "case load_session_transcript py db sid source of
     Inl _ \<Rightarrow> True
   | Inr s \<Rightarrow> (case fst (replay_session N load py (q\<lparr>rq_session := s\<rparr>) w) of
       Inl _ \<Rightarrow> True
     | Inr r \<Rightarrow> sx_steps r \<noteq> [] \<and> map rs_turn_index (sx_steps r) = [1..<Suc (length (sx_steps r))] \<and>
         (if replay_mode py (rq_config q) = Inr RollingWindow then length (sx_steps r) = length (se_turns s)
          else length (sx_steps r) \<le> length (se_turns s)) \<and>
         list_all (\<lambda>x. 1 \<le> rs_window_turn_count x \<and> rs_window_start_turn x + rs_window_turn_count x = Suc (rs_turn_index x) \<and>
           (rs_window_rolled x \<longleftrightarrow> 1 < rs_window_start_turn x)) (sx_steps r))"
proof (cases "load_session_transcript py db sid source")
  case (Inr s)
  have idx: "rs_turn_index x \<le> length steps" if "map rs_turn_index steps = [1..<Suc (length steps)]" "x \<in> set steps" for steps x
  proof -
    have "rs_turn_index x \<in> set (map rs_turn_index steps)" using that(2) by simp
    then show ?thesis unfolding that(1) by auto
  qed
  have one: "1 \<le> rs_window_turn_count x \<and> rs_window_start_turn x + rs_window_turn_count x = Suc (rs_turn_index x) \<and>
      (rs_window_rolled x \<longleftrightarrow> 1 < rs_window_start_turn x)"
    if "steps_of (se_turns s) steps" "length steps \<le> length (se_turns s)" "x \<in> set steps" for steps x
    using that window_numbered [OF _ loaded_turns_numbered [OF Inr]] idx
    by (fastforce simp: steps_of_def list_all_iff step_of_def)
  show ?thesis
    using replay_session_steps [of N load py "q\<lparr>rq_session := s\<rparr>" w] one Inr
    by (auto simp: wp_def steps_of_def list_all_iff simp del: upt_Suc split: prod.splits sum.splits)
qed simp

text \<open>The selection itself does not fall back on the estimate: a counter that fails ends the step.\<close>

lemma failing_counter_raises:
  "rr_count_tokens R = (\<lambda>_. raise e) \<Longrightarrow> se_turns (rr_session R) \<noteq> [] \<Longrightarrow>
   prepare_rolling_step py R 1 turn_count w = (Inl e, w)"
  by (cases "se_turns (rr_session R)")
    (simp_all add: prepare_rolling_step_def select_window_turns_def count_window_def bnd_def raise_def)

end
