(* ===== verification/Report.thy ===== *)
theory Report
  imports Replay
begin

text \<open>
  \<open>report.py\<close> and \<open>report_analysis.py\<close> of the transcript classifier: the figures of a benchmark run and the text
  of its report. Rounding arithmetic, the order of floats and their decimal texts are the record \<open>number_ops\<close>; what
  is summed, compared, filtered and skipped is written out.
\<close>

section \<open>Arithmetic\<close>

text \<open>\<open>sum\<close> of floats and of the numbers of a document, \<open>x / n\<close>, \<open>(x + y) / 2.0\<close>, \<open>i / j\<close>, \<open>float(i)\<close>,
  \<open>x * 100\<close>, \<open>x / 60\<close>, \<open>sorted\<close>, \<open>round((p / 100.0) * n)\<close>, and the formats with some decimals of a float and
  of a value.\<close>

record number_ops =
  nu_sum :: "pyfloat list \<Rightarrow> pyfloat"
  nu_total :: "yaml list \<Rightarrow> exn + pyfloat"
  nu_div :: "pyfloat \<Rightarrow> nat \<Rightarrow> pyfloat"
  nu_mid :: "pyfloat \<Rightarrow> pyfloat \<Rightarrow> pyfloat"
  nu_ratio :: "int \<Rightarrow> int \<Rightarrow> exn + pyfloat"
  nu_float :: "int \<Rightarrow> exn + pyfloat"
  nu_percent :: "pyfloat \<Rightarrow> pyfloat"
  nu_minutes :: "pyfloat \<Rightarrow> pyfloat"
  nu_sorted :: "pyfloat list \<Rightarrow> pyfloat list"
  nu_round :: "int \<Rightarrow> nat \<Rightarrow> int"
  nu_fixed :: "nat \<Rightarrow> pyfloat \<Rightarrow> string"
  nu_format :: "nat \<Rightarrow> yaml \<Rightarrow> exn + string"

definition NA_CELL :: string where "NA_CELL = ''n/a''"
definition TOKENS_PER_K :: int where "TOKENS_PER_K = 1024"

definition ctx_label :: "int \<Rightarrow> string" where
  "ctx_label tokens = (if tokens < TOKENS_PER_K then show_int tokens else show_int (tokens div TOKENS_PER_K) @ ''K'')"

definition avg :: "number_ops \<Rightarrow> pyfloat list \<Rightarrow> pyfloat option" where
  "avg N vs = (if vs = [] then None else Some (nu_div N (nu_sum N vs) (length vs)))"

definition median :: "number_ops \<Rightarrow> pyfloat list \<Rightarrow> pyfloat option" where
  "median N vs =
     (if vs = [] then None
      else let ordered = nu_sorted N vs; mid = length ordered div 2 in
        if length ordered mod 2 = 1 then Some (ordered ! mid) else Some (nu_mid N (ordered ! (mid - 1)) (ordered ! mid)))"

definition percentile :: "number_ops \<Rightarrow> pyfloat list \<Rightarrow> int \<Rightarrow> pyfloat option" where
  "percentile N vs pct =
     (if vs = [] then None
      else let ordered = nu_sorted N vs in
        Some (ordered ! nat (max 0 (min (nu_round N pct (length ordered - 1)) (int (length ordered) - 1)))))"

text \<open>\<open>min\<close> and \<open>max\<close> of a nonempty list: the first of the smallest and of the largest.\<close>

fun f_min :: "pyfloat list \<Rightarrow> pyfloat" where
  "f_min [] = NaN"
| "f_min (v # vs) = fold (\<lambda>x m. if f_less x m then x else m) vs v"

fun f_max :: "pyfloat list \<Rightarrow> pyfloat" where
  "f_max [] = NaN"
| "f_max (v # vs) = fold (\<lambda>x m. if f_less m x then x else m) vs v"

text \<open>The ratios of two lists as long as the shorter one, of the positive second numbers.\<close>

definition ratios_of :: "number_ops \<Rightarrow> int list \<Rightarrow> int list \<Rightarrow> exn + pyfloat list" where
  "ratios_of N caches prompts = all_inr (map (\<lambda>(c, p). nu_ratio N c p) (filter (\<lambda>(c, p). p > 0) (zip caches prompts)))"

definition somes :: "'a option list \<Rightarrow> 'a list" where
  "somes xs = map the (filter (\<lambda>x. x \<noteq> None) xs)"

section \<open>The summary by measured size\<close>

definition bucket_for_tokens :: "int \<Rightarrow> int list \<Rightarrow> exn + int" where
  "bucket_for_tokens prompt_tokens buckets =
     (case find_first (\<lambda>b. prompt_tokens \<le> b) (sort buckets) of
        Some b \<Rightarrow> Inr b
      | None \<Rightarrow> if buckets = [] then Inl (ValueError ''max() arg is an empty sequence'') else Inr (Max (set buckets)))"

record bucket_summary =
  bk_size_bucket :: int
  bk_steps :: nat
  bk_accuracy :: pyfloat
  bk_prompt_avg :: "pyfloat option"
  bk_prompt_min :: "int option"
  bk_prompt_max :: "int option"
  bk_cache_avg :: "pyfloat option"
  bk_cache_hit :: "pyfloat option"
  bk_ttft_avg :: "pyfloat option"
  bk_total_avg :: "pyfloat option"
  bk_tps_avg :: "pyfloat option"

record growth_row =
  gr_session_id :: string
  gr_title :: string
  gr_turn_index :: nat
  gr_prompt_tokens :: "int option"
  gr_cache_n :: "int option"
  gr_prompt_n :: "int option"
  gr_ttft_ms :: "pyfloat option"
  gr_total_ms :: pyfloat
  gr_tokens_per_second :: "pyfloat option"

record replay_summary =
  su_steps_total :: nat
  su_steps_passed :: nat
  su_accuracy :: pyfloat
  su_sessions_total :: nat
  su_by_bucket :: "bucket_summary list"
  su_growth :: "growth_row list"

definition step_passed :: "replay_step_result \<Rightarrow> bool" where
  "step_passed s = sc_passed (rs_score s)"

text \<open>The dictionary \<open>by_bucket\<close>, filled in the order of the steps.\<close>

fun group_steps :: "int list \<Rightarrow> replay_step_result list \<Rightarrow> (int \<times> replay_step_result list) list
    \<Rightarrow> exn + (int \<times> replay_step_result list) list" where
  "group_steps buckets [] groups = Inr groups"
| "group_steps buckets (s # ss) groups =
     (case rs_prompt_tokens s of
        None \<Rightarrow> group_steps buckets ss groups
      | Some n \<Rightarrow> sum_bind (bucket_for_tokens n buckets) (\<lambda>b.
          group_steps buckets ss (AList.update b ((case map_of groups b of None \<Rightarrow> [] | Some rows \<Rightarrow> rows) @ [s]) groups)))"

definition summarize_bucket :: "number_ops \<Rightarrow> int \<Rightarrow> replay_step_result list \<Rightarrow> exn + bucket_summary" where
  "summarize_bucket N bucket rows =
     (let ttfts = somes (map rs_ttft_ms rows);
          totals = map rs_total_ms rows;
          tps_vals = somes (map rs_tokens_per_second rows);
          prompt_toks = somes (map rs_prompt_tokens rows);
          cache_vals = somes (map rs_cache_n rows)
      in sum_bind (ratios_of N cache_vals prompt_toks) (\<lambda>cache_ratios.
         sum_bind (if rows = [] then Inr (Fin 0 0) else nu_ratio N (int (length (filter step_passed rows))) (int (length rows))) (\<lambda>accuracy.
         sum_bind (all_inr (map (nu_float N) (filter (\<lambda>v. v \<noteq> 0) prompt_toks))) (\<lambda>prompts.
         sum_map (\<lambda>caches.
           \<lparr>bk_size_bucket = bucket, bk_steps = length rows, bk_accuracy = accuracy, bk_prompt_avg = avg N prompts,
            bk_prompt_min = (if prompt_toks = [] then None else Some (Min (set prompt_toks))),
            bk_prompt_max = (if prompt_toks = [] then None else Some (Max (set prompt_toks))),
            bk_cache_avg = avg N caches, bk_cache_hit = avg N cache_ratios, bk_ttft_avg = avg N ttfts,
            bk_total_avg = avg N totals, bk_tps_avg = avg N tps_vals\<rparr>)
           (all_inr (map (nu_float N) cache_vals))))))"

definition all_steps_of :: "session_replay list \<Rightarrow> replay_step_result list" where
  "all_steps_of sessions = concat (map sx_steps sessions)"

definition growth_rows :: "session_replay list \<Rightarrow> growth_row list" where
  "growth_rows sessions =
     concat (map (\<lambda>s. map (\<lambda>x.
       \<lparr>gr_session_id = sx_session_id s, gr_title = sx_title s, gr_turn_index = rs_turn_index x, gr_prompt_tokens = rs_prompt_tokens x,
        gr_cache_n = rs_cache_n x, gr_prompt_n = rs_prompt_n x, gr_ttft_ms = rs_ttft_ms x, gr_total_ms = rs_total_ms x,
        gr_tokens_per_second = rs_tokens_per_second x\<rparr>) (sx_steps s)) sessions)"

definition summarize_replay_results :: "number_ops \<Rightarrow> session_replay list \<Rightarrow> int list \<Rightarrow> exn + replay_summary" where
  "summarize_replay_results N sessions size_buckets =
     (let all_steps = all_steps_of sessions; passed = length (filter step_passed all_steps) in
      sum_bind (group_steps size_buckets all_steps []) (\<lambda>by_bucket.
      sum_bind (all_inr (map (\<lambda>b. summarize_bucket N b (the (map_of by_bucket b))) (sort (map fst by_bucket)))) (\<lambda>blocks.
      sum_map (\<lambda>accuracy.
        \<lparr>su_steps_total = length all_steps, su_steps_passed = passed, su_accuracy = accuracy,
         su_sessions_total = length sessions, su_by_bucket = blocks, su_growth = growth_rows sessions\<rparr>)
        (if all_steps = [] then Inr (Fin 0 0) else nu_ratio N (int passed) (int (length all_steps))))))"


section \<open>Buckets partition the measured steps\<close>

text \<open>The bucket of a measured step: the smallest configured size that its prompt fits into, or the largest size when it fits
  into none.\<close>

definition in_bucket :: "int list \<Rightarrow> int \<Rightarrow> replay_step_result \<Rightarrow> bool" where
  "in_bucket buckets b s =
     (case rs_prompt_tokens s of
        None \<Rightarrow> False
      | Some n \<Rightarrow> b \<in> set buckets \<and>
          (if list_ex (\<lambda>c. n \<le> c) buckets then n \<le> b \<and> list_all (\<lambda>c. n \<le> c \<longrightarrow> b \<le> c) buckets
           else list_all (\<lambda>c. c \<le> b) buckets))"

text \<open>The search through the sorted sizes finds it.\<close>

lemma smallest_bucket:
  "bucket_for_tokens n buckets = Inr b \<longleftrightarrow>
   b \<in> set buckets \<and> (if \<exists>c \<in> set buckets. n \<le> c then n \<le> b \<and> (\<forall>c \<in> set buckets. n \<le> c \<longrightarrow> b \<le> c) else b = Max (set buckets))"
proof -
  have least: "find_first (\<lambda>b. n \<le> b) xs = Some b \<longleftrightarrow> b \<in> set xs \<and> n \<le> b \<and> (\<forall>c \<in> set xs. n \<le> c \<longrightarrow> b \<le> c)"
    if "sorted xs" for xs b
    using that
  proof (induction xs)
    case (Cons x xs)
    then show ?case by (cases "n \<le> x") (auto intro: antisym)
  qed simp
  have none: "find_first (\<lambda>b. n \<le> b) (sort buckets) = None \<longleftrightarrow> \<not> (\<exists>c \<in> set buckets. n \<le> c)"
    by (simp add: find_first_None)
  show ?thesis
  proof (cases "find_first (\<lambda>b. n \<le> b) (sort buckets)")
    case None
    then have "\<not> (\<exists>c \<in> set buckets. n \<le> c)" using none by simp
    with None show ?thesis using Max_in [of "set buckets"] by (auto simp: bucket_for_tokens_def)
  next
    case (Some c)
    then have ex: "\<exists>c \<in> set buckets. n \<le> c" using none by auto
    have c: "c \<in> set buckets" "n \<le> c" "\<forall>d \<in> set buckets. n \<le> d \<longrightarrow> c \<le> d"
      using least [of "sort buckets" c] Some by auto
    have "b \<in> set buckets \<and> n \<le> b \<and> (\<forall>d \<in> set buckets. n \<le> d \<longrightarrow> b \<le> d) \<longleftrightarrow> b = c"
      using c by (auto intro: antisym)
    then have "c = b \<longleftrightarrow> b \<in> set buckets \<and> n \<le> b \<and> (\<forall>d \<in> set buckets. n \<le> d \<longrightarrow> b \<le> d)" by auto
    moreover have "bucket_for_tokens n buckets = Inr c" using Some by (simp add: bucket_for_tokens_def)
    ultimately show ?thesis using ex by (simp only: if_True sum.inject)
  qed
qed

lemma in_bucket_eq:
  "in_bucket buckets b s = (case rs_prompt_tokens s of None \<Rightarrow> False | Some n \<Rightarrow> bucket_for_tokens n buckets = Inr b)"
proof -
  have "b \<in> set buckets \<Longrightarrow> b = Max (set buckets) \<longleftrightarrow> list_all (\<lambda>c. c \<le> b) buckets"
    by (auto simp: list_all_iff intro: Max_eqI [symmetric])
  then show ?thesis
    by (auto simp: in_bucket_def smallest_bucket list_ex_iff list_all_iff split: option.split)
qed

definition rows_of :: "(int \<times> replay_step_result list) list \<Rightarrow> int \<Rightarrow> replay_step_result list" where
  "rows_of groups b = (case map_of groups b of None \<Rightarrow> [] | Some rows \<Rightarrow> rows)"

lemma rows_of_update: "rows_of (AList.update b rows groups) c = (if c = b then rows else rows_of groups c)"
  by (simp add: rows_of_def update_conv)

lemma rows_of_None: "b \<notin> fst ` set groups \<Longrightarrow> rows_of groups b = []"
  by (simp add: rows_of_def map_of_eq_None_iff [symmetric])

lemma rows_of_the: "b \<in> fst ` set groups \<Longrightarrow> the (map_of groups b) = rows_of groups b"
  by (cases "map_of groups b") (auto simp: rows_of_def map_of_eq_None_iff)

lemma group_steps_rows:
  "group_steps buckets ss groups = Inr g \<Longrightarrow> distinct (map fst groups) \<Longrightarrow>
   distinct (map fst g) \<and> rows_of g b = rows_of groups b @ filter (in_bucket buckets b) ss \<and>
   (b \<in> fst ` set g \<longleftrightarrow> b \<in> fst ` set groups \<or> (\<exists>s \<in> set ss. in_bucket buckets b s))"
proof (induction ss arbitrary: groups)
  case (Cons s ss)
  show ?case
  proof (cases "rs_prompt_tokens s")
    case None
    with Cons show ?thesis by (auto simp: in_bucket_eq)
  next
    case (Some n)
    with Cons.prems(1) obtain c where c: "bucket_for_tokens n buckets = Inr c"
      and g: "group_steps buckets ss (AList.update c (rows_of groups c @ [s]) groups) = Inr g"
      by (auto simp: sum_bind_Inr rows_of_def)
    have here: "in_bucket buckets b s \<longleftrightarrow> b = c" using Some c by (auto simp: in_bucket_eq)
    have keys: "fst ` set (AList.update c (rows_of groups c @ [s]) groups) = insert c (fst ` set groups)"
      by (simp add: dom_update)
    have IH: "distinct (map fst g) \<and>
        rows_of g b = rows_of (AList.update c (rows_of groups c @ [s]) groups) b @ filter (in_bucket buckets b) ss \<and>
        (b \<in> fst ` set g \<longleftrightarrow> b \<in> insert c (fst ` set groups) \<or> (\<exists>s \<in> set ss. in_bucket buckets b s))"
      using Cons.IH [OF g] Cons.prems(2) unfolding keys by (simp add: distinct_update)
    show ?thesis
    proof (cases "b = c")
      case True
      with here have "in_bucket buckets b s" by simp
      with IH True show ?thesis by (simp add: rows_of_update)
    next
      case False
      with here have "\<not> in_bucket buckets b s" by simp
      with IH False show ?thesis by (simp add: rows_of_update)
    qed
  qed
qed simp

lemma bucket_for_tokens_in: "bucket_for_tokens n buckets = Inr b \<Longrightarrow> b \<in> set buckets"
  using Max_in [of "set buckets"]
  by (cases "find_first (\<lambda>b. n \<le> b) (sort buckets)") (auto simp: bucket_for_tokens_def dest: find_first_Some split: if_splits)

lemma summarize_bucket_fields:
  "summarize_bucket N b rows = Inr k \<Longrightarrow> bk_size_bucket k = b \<and> bk_steps k = length rows"
  by (auto simp: summarize_bucket_def Let_def sum_bind_Inr sum_map_Inr)

lemma group_steps_defined:
  "group_steps buckets ss groups = Inr g \<Longrightarrow> list_all (\<lambda>s. rs_prompt_tokens s = None \<or> (\<exists>b. in_bucket buckets b s)) ss"
proof (induction ss arbitrary: groups)
  case (Cons s ss)
  then show ?case by (cases "rs_prompt_tokens s") (auto simp: sum_bind_Inr in_bucket_eq)
qed simp

lemma in_bucket_unique: "in_bucket buckets b s \<Longrightarrow> in_bucket buckets c s \<Longrightarrow> c = b"
  by (auto simp: in_bucket_eq split: option.splits)

lemma in_bucket_measured: "in_bucket buckets b s \<Longrightarrow> rs_prompt_tokens s \<noteq> None"
  by (cases "rs_prompt_tokens s") (simp_all add: in_bucket_eq)

text \<open>Over a finite set that has the bucket of every measured step, the sizes of the buckets add up.\<close>

lemma bucket_sizes_add_up:
  "finite B \<Longrightarrow> list_all (\<lambda>s. rs_prompt_tokens s = None \<or> (\<exists>b \<in> B. in_bucket buckets b s)) ss \<Longrightarrow>
   (\<Sum>b \<in> B. length (filter (in_bucket buckets b) ss)) = length (filter (\<lambda>s. rs_prompt_tokens s \<noteq> None) ss)"
proof (induction ss)
  case (Cons s ss)
  then have IH: "(\<Sum>b \<in> B. length (filter (in_bucket buckets b) ss)) = length (filter (\<lambda>s. rs_prompt_tokens s \<noteq> None) ss)"
    by simp
  have split: "length (filter (in_bucket buckets b) (s # ss)) = (if in_bucket buckets b s then 1 else 0) + length (filter (in_bucket buckets b) ss)"
    for b by simp
  have here: "(\<Sum>b \<in> B. if in_bucket buckets b s then 1 else 0) = (if rs_prompt_tokens s = None then 0 else 1 :: nat)"
  proof (cases "rs_prompt_tokens s")
    case None
    then show ?thesis by (simp add: in_bucket_eq)
  next
    case (Some n)
    with Cons.prems(2) obtain c where c: "c \<in> B" "in_bucket buckets c s" by auto
    then have "in_bucket buckets b s \<longleftrightarrow> b = c" for b using in_bucket_unique by blast
    with c(1) Cons.prems(1) Some show ?thesis by simp
  qed
  show ?case unfolding split sum.distrib IH here by simp
qed simp

lemma grouped_count:
  assumes "group_steps buckets ss [] = Inr g"
  shows "sum_list (map (\<lambda>b. length (rows_of g b)) (sort (map fst g))) = length (filter (\<lambda>s. rs_prompt_tokens s \<noteq> None) ss)"
proof -
  have d: "distinct (map fst g)" using group_steps_rows [OF assms] by simp
  have rows: "rows_of g b = filter (in_bucket buckets b) ss" for b
    using group_steps_rows [OF assms, of b] by (simp add: rows_of_def)
  have keys: "b \<in> fst ` set g \<longleftrightarrow> (\<exists>s \<in> set ss. in_bucket buckets b s)" for b
    using group_steps_rows [OF assms, of b] by simp
  have "sum_list (map (\<lambda>b. length (rows_of g b)) (sort (map fst g))) = (\<Sum>b \<in> fst ` set g. length (filter (in_bucket buckets b) ss))"
    using d by (simp add: sum_list_distinct_conv_sum_set rows)
  also have "\<dots> = length (filter (\<lambda>s. rs_prompt_tokens s \<noteq> None) ss)"
    using group_steps_defined [OF assms] keys by (intro bucket_sizes_add_up) (simp, fastforce simp: list_all_iff)
  finally show ?thesis .
qed

text \<open>The blocks of a summary, in terms of the groups.\<close>

lemma summary_blocks:
  assumes "group_steps buckets ss [] = Inr g"
    and "all_inr (map (\<lambda>b. summarize_bucket N b (the (map_of g b))) (sort (map fst g))) = Inr blocks"
  shows "map bk_size_bucket blocks = sort (map fst g)" "map bk_steps blocks = map (\<lambda>b. length (rows_of g b)) (sort (map fst g))"
proof -
  have each: "bk_size_bucket (blocks ! i) = sort (map fst g) ! i \<and> bk_steps (blocks ! i) = length (rows_of g (sort (map fst g) ! i))"
    and len: "length blocks = length g" if "i < length blocks" for i
  proof -
    from assms(2) have eq: "map (\<lambda>b. summarize_bucket N b (the (map_of g b))) (sort (map fst g)) = map Inr blocks"
      by (simp add: all_inr_Inr)
    from arg_cong [OF eq, of length] show len: "length blocks = length g" by simp
    have "sort (map fst g) ! i \<in> set (sort (map fst g))" using that len by (intro nth_mem) simp
    then have mem: "sort (map fst g) ! i \<in> fst ` set g" by simp
    have "summarize_bucket N (sort (map fst g) ! i) (the (map_of g (sort (map fst g) ! i))) = Inr (blocks ! i)"
      using arg_cong [OF eq, of "\<lambda>xs. xs ! i"] that len by simp
    from summarize_bucket_fields [OF this] show "bk_size_bucket (blocks ! i) = sort (map fst g) ! i \<and>
        bk_steps (blocks ! i) = length (rows_of g (sort (map fst g) ! i))"
      by (simp add: rows_of_the [OF mem])
  qed
  have len: "length blocks = length g"
    using arg_cong [OF assms(2) [unfolded all_inr_Inr], of length] by simp
  show "map bk_size_bucket blocks = sort (map fst g)" "map bk_steps blocks = map (\<lambda>b. length (rows_of g b)) (sort (map fst g))"
    using each len by (auto intro!: nth_equalityI)
qed

text \<open>C33: the summary counts every measured step once. Its totals are those of all steps of all sessions; its blocks are
  in ascending order of different configured sizes, a block has exactly the steps for which it is the smallest
  size that the prompt fits into (or the largest size, when the prompt fits into none), and together they have all steps whose
  prompt was measured.\<close>

theorem summary_counts_steps:
  "case summarize_replay_results N sessions buckets of
     Inl _ \<Rightarrow> True
   | Inr s \<Rightarrow>
       let steps = concat (map sx_steps sessions) in
       su_steps_total s = length steps \<and> su_steps_passed s = length (filter step_passed steps) \<and>
       sorted_wrt (<) (map bk_size_bucket (su_by_bucket s)) \<and> set (map bk_size_bucket (su_by_bucket s)) \<subseteq> set buckets \<and>
       list_all (\<lambda>b. bk_steps b = length (filter (in_bucket buckets (bk_size_bucket b)) steps)) (su_by_bucket s) \<and>
       sum_list (map bk_steps (su_by_bucket s)) = length (filter (\<lambda>x. rs_prompt_tokens x \<noteq> None) steps)"
proof (cases "summarize_replay_results N sessions buckets")
  case (Inr s)
  let ?steps = "concat (map sx_steps sessions)"
  from Inr obtain g where g: "group_steps buckets ?steps [] = Inr g"
    and blocks: "all_inr (map (\<lambda>b. summarize_bucket N b (the (map_of g b))) (sort (map fst g))) = Inr (su_by_bucket s)"
    and totals: "su_steps_total s = length ?steps" "su_steps_passed s = length (filter step_passed ?steps)"
    by (auto simp: summarize_replay_results_def all_steps_of_def Let_def sum_bind_Inr sum_map_Inr)
  note b = summary_blocks [OF g blocks]
  have rows: "rows_of g c = filter (in_bucket buckets c) ?steps" and d: "distinct (map fst g)"
    and keys: "c \<in> fst ` set g \<longleftrightarrow> (\<exists>x \<in> set ?steps. in_bucket buckets c x)" for c
    using group_steps_rows [OF g, of c] by (simp_all add: rows_of_def)
  have "sorted_wrt (<) (map bk_size_bucket (su_by_bucket s))"
    unfolding b(1) strict_sorted_iff using d by simp
  moreover have "set (map bk_size_bucket (su_by_bucket s)) \<subseteq> set buckets"
  proof
    fix c
    assume "c \<in> set (map bk_size_bucket (su_by_bucket s))"
    then have "c \<in> fst ` set g" unfolding b(1) by simp
    with keys obtain x where "in_bucket buckets c x" by blast
    then show "c \<in> set buckets"
      by (cases "rs_prompt_tokens x") (auto simp: in_bucket_eq dest: bucket_for_tokens_in)
  qed
  moreover have "bk_steps k = length (filter (in_bucket buckets (bk_size_bucket k)) ?steps)" if "k \<in> set (su_by_bucket s)" for k
  proof -
    have "map bk_steps (su_by_bucket s) = map (\<lambda>k. length (rows_of g (bk_size_bucket k))) (su_by_bucket s)"
      using b by (metis (no_types, lifting) map_map comp_def map_eq_conv)
    with that show ?thesis by (simp add: rows)
  qed
  moreover have "sum_list (map bk_steps (su_by_bucket s)) = length (filter (\<lambda>x. rs_prompt_tokens x \<noteq> None) ?steps)"
    unfolding b(2) by (rule grouped_count [OF g])
  ultimately show ?thesis using Inr totals by (simp add: Let_def list_all_iff)
qed simp

end
