(* ===== verification/ReportAnalysis.thy ===== *)
theory ReportAnalysis
  imports Report
begin

text \<open>
  \<open>report_analysis.py\<close>, the analysis: the figures that the report derives from the steps as they are in the
  payload. There a step is a mapping, or the named tuple of the replay; a named tuple has neither keys nor
  \<open>get\<close>, so the operations on mappings raise at it.
\<close>

section \<open>The payload\<close>

datatype step_value = StepDict ymap | StepTuple replay_step_result

record report_session =
  rp_session_id :: string
  rp_title :: string
  rp_bucket_tokens :: int
  rp_steps :: "step_value list"

text \<open>A mapping needed where a step is used; the error of a named tuple depends on the use.\<close>

fun step_dict :: "exn \<Rightarrow> step_value \<Rightarrow> exn + ymap" where
  "step_dict e (StepDict m) = Inr m"
| "step_dict e (StepTuple _) = Inl e"

definition dict_steps :: "exn \<Rightarrow> report_session \<Rightarrow> exn + ymap list" where
  "dict_steps e s = all_inr (map (step_dict e) (rp_steps s))"

definition not_a_mapping :: exn where "not_a_mapping = TypeError ''ReplayStepResult object is not a mapping''"
definition no_get :: exn where "no_get = AttributeError ''get''"
definition no_string_index :: exn where "no_string_index = TypeError ''tuple indices must be integers or slices, not str''"

text \<open>\<open>v is not None\<close> and \<open>m[k]\<close>.\<close>

definition present :: "yaml \<Rightarrow> bool" where "present v \<longleftrightarrow> v \<noteq> YNull"

definition y_at :: "ymap \<Rightarrow> string \<Rightarrow> exn + yaml" where
  "y_at m k = (case map_of m (YStr k) of None \<Rightarrow> Inl (KeyError k) | Some v \<Rightarrow> Inr v)"

text \<open>\<open>m.get(k, {}).get(l)\<close>\<close>

definition get_get :: "ymap \<Rightarrow> string \<Rightarrow> string \<Rightarrow> yaml \<Rightarrow> exn + yaml" where
  "get_get m k l d = (case as_map (y_get_or m k (YMap [])) of None \<Rightarrow> Inl no_get | Some n \<Rightarrow> Inr (y_get_or n l d))"

section \<open>Steps\<close>

definition collected_step :: "report_session \<Rightarrow> ymap \<Rightarrow> ymap" where
  "collected_step s step =
     fold (\<lambda>(k, v). AList.update k v) step
       [(YStr ''session_id'', YStr (rp_session_id s)), (YStr ''title'', YStr (rp_title s)),
        (YStr ''bucket_tokens'', YInt (rp_bucket_tokens s))]"

definition collect_all_steps :: "report_session list \<Rightarrow> exn + ymap list" where
  "collect_all_steps sessions =
     sum_map concat (all_inr (map (\<lambda>s. sum_map (map (collected_step s)) (dict_steps not_a_mapping s)) sessions))"

text \<open>What one step adds to the four collections.\<close>

record step_metrics =
  sm_ratios :: "pyfloat list"
  sm_ttft :: "(int \<times> pyfloat) list"
  sm_total :: "(int \<times> pyfloat) list"
  sm_scores :: "(string \<times> pyfloat) list"

definition timed_value :: "py_ops \<Rightarrow> ymap \<Rightarrow> string \<Rightarrow> exn + (int \<times> pyfloat) list" where
  "timed_value py step k =
     (case as_int (y_get step ''prompt_tokens'') of
        Some p \<Rightarrow> if present (y_get step k) then sum_map (\<lambda>x. [(p, x)]) (py_to_float py (y_get step k)) else Inr []
      | None \<Rightarrow> Inr [])"

fun is_number :: "yaml \<Rightarrow> bool" where
  "is_number (YInt _) = True"
| "is_number (YBool _) = True"
| "is_number (YFloat _) = True"
| "is_number _ = False"

definition metrics_of :: "number_ops \<Rightarrow> py_ops \<Rightarrow> ymap \<Rightarrow> exn + step_metrics" where
  "metrics_of N py step =
     sum_bind (case (as_int (y_get step ''prompt_tokens''), as_int (y_get step ''cache_n'')) of
                 (Some p, Some c) \<Rightarrow> if p > 0 then sum_map (\<lambda>x. [x]) (nu_ratio N c p) else Inr []
               | _ \<Rightarrow> Inr []) (\<lambda>ratios.
     sum_bind (timed_value py step ''ttft_ms'') (\<lambda>ttft.
     sum_bind (timed_value py step ''total_ms'') (\<lambda>total_ms.
     sum_bind (get_get step ''score'' ''parsed_scores'' (YMap [])) (\<lambda>scores.
     sum_map (\<lambda>values_of. \<lparr>sm_ratios = ratios, sm_ttft = ttft, sm_total = total_ms, sm_scores = values_of\<rparr>)
       (case as_map scores of
          None \<Rightarrow> Inr []
        | Some kvs \<Rightarrow> all_inr (map (\<lambda>(k, v). sum_map (\<lambda>x. (y_str (py_show py) k, x)) (py_to_float py v))
                                (filter (\<lambda>(k, v). is_number v) kvs)))))))"

definition gather_step_metrics :: "number_ops \<Rightarrow> py_ops \<Rightarrow> ymap list \<Rightarrow> exn + step_metrics" where
  "gather_step_metrics N py all_steps =
     sum_map (\<lambda>ms. \<lparr>sm_ratios = concat (map sm_ratios ms), sm_ttft = concat (map sm_ttft ms),
                    sm_total = concat (map sm_total ms), sm_scores = concat (map sm_scores ms)\<rparr>)
       (all_inr (map (metrics_of N py) all_steps))"

section \<open>Sessions, categories and sizes\<close>

record session_summary =
  ss_session_id :: string
  ss_title :: string
  ss_target_bucket :: int
  ss_steps :: nat
  ss_steps_passed :: nat
  ss_turn_count :: yaml
  ss_prompt_min :: "int option"
  ss_prompt_max :: "int option"
  ss_cache_ratio :: "pyfloat option"
  ss_ttft_first :: "yaml option"
  ss_ttft_last :: "yaml option"
  ss_total_sum :: "pyfloat option"

definition ints_of :: "string \<Rightarrow> ymap list \<Rightarrow> int list" where
  "ints_of k steps = somes (map (\<lambda>s. as_int (y_get s k)) steps)"

definition present_of :: "string \<Rightarrow> ymap list \<Rightarrow> yaml list" where
  "present_of k steps = filter present (map (\<lambda>s. y_get s k) steps)"

definition session_summary_of :: "number_ops \<Rightarrow> report_session \<Rightarrow> exn + session_summary" where
  "session_summary_of N s =
     sum_bind (dict_steps no_get s) (\<lambda>steps.
     let prompts = ints_of ''prompt_tokens'' steps; caches = ints_of ''cache_n'' steps;
         ttfts = present_of ''ttft_ms'' steps; totals = present_of ''total_ms'' steps in
     sum_bind (all_inr (map (\<lambda>x. get_get x ''score'' ''passed'' YNull) steps)) (\<lambda>marks.
     sum_bind (ratios_of N caches prompts) (\<lambda>ratios.
     sum_bind (if steps = [] then Inr (YInt 0) else y_at (last steps) ''turn_index'') (\<lambda>turn_count.
     sum_map (\<lambda>total_sum.
       \<lparr>ss_session_id = rp_session_id s, ss_title = rp_title s, ss_target_bucket = rp_bucket_tokens s,
        ss_steps = length steps, ss_steps_passed = length (filter y_true marks), ss_turn_count = turn_count,
        ss_prompt_min = (if prompts = [] then None else Some (Min (set prompts))),
        ss_prompt_max = (if prompts = [] then None else Some (Max (set prompts))),
        ss_cache_ratio = avg N ratios,
        ss_ttft_first = (if ttfts = [] then None else Some (hd ttfts)),
        ss_ttft_last = (if ttfts = [] then None else Some (last ttfts)), ss_total_sum = total_sum\<rparr>)
       (if totals = [] then Inr None else sum_map Some (nu_total N totals))))))"

definition build_session_summaries :: "number_ops \<Rightarrow> report_session list \<Rightarrow> exn + session_summary list" where
  "build_session_summaries N sessions = all_inr (map (session_summary_of N) sessions)"

record category_stat =
  ct_category_id :: string
  ct_count :: nat
  ct_avg :: "pyfloat option"
  ct_min :: pyfloat
  ct_max :: pyfloat

text \<open>The values of a category in the order of the steps, and the statistics of the categories in the order of their names.\<close>

definition build_category_stats :: "number_ops \<Rightarrow> (string \<times> pyfloat) list \<Rightarrow> category_stat list" where
  "build_category_stats N scores =
     map (\<lambda>c. let vals = map snd (filter (\<lambda>(k, v). k = c) scores) in
            \<lparr>ct_category_id = c, ct_count = length vals, ct_avg = avg N vals, ct_min = f_min vals, ct_max = f_max vals\<rparr>)
       (sort (remdups (map fst scores)))"

record latency_bin =
  lb_size_bucket :: int
  lb_steps :: nat
  lb_cache_hit :: "pyfloat option"
  lb_ttft_avg :: "pyfloat option"
  lb_ttft_median :: "pyfloat option"
  lb_total_avg :: "pyfloat option"
  lb_prompt_avg :: "pyfloat option"

definition bin_of :: "int list \<Rightarrow> int \<Rightarrow> int" where
  "bin_of ordered prompt = (case find_first (\<lambda>b. prompt \<le> b) ordered of Some b \<Rightarrow> b | None \<Rightarrow> last ordered)"

definition bin_steps :: "int list \<Rightarrow> ymap list \<Rightarrow> int \<Rightarrow> ymap list" where
  "bin_steps ordered steps b =
     filter (\<lambda>s. case as_int (y_get s ''prompt_tokens'') of None \<Rightarrow> False | Some p \<Rightarrow> bin_of ordered p = b) steps"

definition latency_bin_of :: "number_ops \<Rightarrow> py_ops \<Rightarrow> int \<Rightarrow> ymap list \<Rightarrow> exn + latency_bin" where
  "latency_bin_of N py bucket steps =
     sum_bind (all_inr (map (py_to_float py) (present_of ''ttft_ms'' steps))) (\<lambda>ttfts.
     sum_bind (all_inr (map (\<lambda>s. sum_bind (y_at s ''total_ms'') (py_to_float py)) steps)) (\<lambda>totals.
     let caches = ints_of ''cache_n'' steps; prompts = ints_of ''prompt_tokens'' steps in
     sum_bind (ratios_of N caches prompts) (\<lambda>ratios.
     sum_map (\<lambda>ps.
       \<lparr>lb_size_bucket = bucket, lb_steps = length steps, lb_cache_hit = avg N ratios, lb_ttft_avg = avg N ttfts,
        lb_ttft_median = median N ttfts, lb_total_avg = avg N totals, lb_prompt_avg = avg N ps\<rparr>)
       (all_inr (map (nu_float N) prompts)))))"

definition latency_bins :: "number_ops \<Rightarrow> py_ops \<Rightarrow> ymap list \<Rightarrow> int list \<Rightarrow> exn + latency_bin list" where
  "latency_bins N py steps size_buckets =
     (let ordered = sort size_buckets in
      all_inr (map (\<lambda>b. latency_bin_of N py b (bin_steps ordered steps b))
        (filter (\<lambda>b. bin_steps ordered steps b \<noteq> []) ordered)))"

record extended_summary =
  ex_duration_s :: "pyfloat option"
  ex_steps_total :: nat
  ex_cache_hit_avg :: "pyfloat option"
  ex_cache_hit_median :: "pyfloat option"
  ex_ttft_avg :: "pyfloat option"
  ex_ttft_median :: "pyfloat option"
  ex_ttft_p95 :: "pyfloat option"
  ex_total_avg :: "pyfloat option"
  ex_total_sum :: "pyfloat option"
  ex_prompt_avg :: "pyfloat option"
  ex_prompt_max :: "int option"
  ex_sessions :: "session_summary list"
  ex_categories :: "category_stat list"
  ex_latency :: "latency_bin list"

definition build_extended_summary :: "number_ops \<Rightarrow> py_ops \<Rightarrow> report_session list \<Rightarrow> int list \<Rightarrow> pyfloat option
    \<Rightarrow> exn + extended_summary" where
  "build_extended_summary N py sessions size_buckets duration_s =
     sum_bind (collect_all_steps sessions) (\<lambda>all_steps.
     sum_bind (gather_step_metrics N py all_steps) (\<lambda>m.
     sum_bind (build_session_summaries N sessions) (\<lambda>session_summaries.
     sum_bind (latency_bins N py all_steps size_buckets) (\<lambda>bins.
     let ttft_vals = map snd (sm_ttft m); total_vals = map snd (sm_total m); prompt_vals = map fst (sm_ttft m) in
     sum_map (\<lambda>prompts.
       \<lparr>ex_duration_s = duration_s, ex_steps_total = length all_steps, ex_cache_hit_avg = avg N (sm_ratios m),
        ex_cache_hit_median = median N (sm_ratios m), ex_ttft_avg = avg N ttft_vals, ex_ttft_median = median N ttft_vals,
        ex_ttft_p95 = percentile N ttft_vals 95, ex_total_avg = avg N total_vals,
        ex_total_sum = (if total_vals = [] then None else Some (nu_sum N total_vals)),
        ex_prompt_avg = avg N prompts, ex_prompt_max = (if prompt_vals = [] then None else Some (Max (set prompt_vals))),
        ex_sessions = session_summaries, ex_categories = build_category_stats N (sm_scores m), ex_latency = bins\<rparr>)
       (all_inr (map (nu_float N) prompt_vals))))))"

section \<open>Named tuples are no mappings\<close>

lemma all_inr_Inl: "Inl e \<in> set xs \<Longrightarrow> (\<forall>x \<in> set xs. case x of Inl e' \<Rightarrow> e' = e | Inr _ \<Rightarrow> True) \<Longrightarrow> all_inr xs = Inl e"
  by (induction xs) (auto split: sum.splits)

lemma dict_steps_tuples: "xs \<noteq> [] \<Longrightarrow> rp_steps s = map StepTuple xs \<Longrightarrow> dict_steps e s = Inl e"
  by (cases xs) (simp_all add: dict_steps_def)

lemma collect_tuples:
  "sessions \<noteq> [] \<Longrightarrow> (\<And>s. s \<in> set sessions \<Longrightarrow> \<exists>xs. xs \<noteq> [] \<and> rp_steps s = map StepTuple xs) \<Longrightarrow>
   collect_all_steps sessions = Inl not_a_mapping"
  using dict_steps_tuples by (cases sessions) (fastforce simp: collect_all_steps_def sum_map_def)+

lemma extended_of_tuples:
  "sessions \<noteq> [] \<Longrightarrow> (\<And>s. s \<in> set sessions \<Longrightarrow> \<exists>xs. xs \<noteq> [] \<and> rp_steps s = map StepTuple xs) \<Longrightarrow>
   build_extended_summary N py sessions size_buckets d = Inl not_a_mapping"
  by (simp add: build_extended_summary_def collect_tuples)

end
