(* ===== verification/ReportText.thy ===== *)
theory ReportText
  imports ReportAnalysis Sessions
begin

text \<open>
  The texts of \<open>report.py\<close> and \<open>report_analysis.py\<close>: the sections of the report, made from the payload of
  a run. All keys of the payload exist, because the payload is the one that \<open>main\<close> builds.
\<close>

section \<open>The payload of a run\<close>

record run_report =
  rt_benchmark_name :: string
  rt_backend :: string
  rt_base_url :: string
  rt_config_path :: string
  rt_started_at :: string
  rt_finished_at :: string
  rt_duration_s :: "pyfloat option"
  rt_size_buckets :: "int list"
  rt_max_context_tokens :: int
  rt_replay_mode :: string
  rt_sessions_per_bucket :: int
  rt_long_session_replays :: int
  rt_categories :: "string list"
  rt_cache_probe :: "ymap option"
  rt_db_path :: string
  rt_catalog_size :: nat
  rt_selected :: "selected_session list"
  rt_summary :: replay_summary
  rt_sessions :: "report_session list"
  rt_extended :: "extended_summary option"

text \<open>A figure with some decimals, or the mark of a missing one.\<close>

definition figure :: "number_ops \<Rightarrow> nat \<Rightarrow> pyfloat option \<Rightarrow> string" where
  "figure N d v = (case v of None \<Rightarrow> NA_CELL | Some x \<Rightarrow> nu_fixed N d x)"

definition percent :: "number_ops \<Rightarrow> pyfloat option \<Rightarrow> string" where
  "percent N v = (case v of None \<Rightarrow> NA_CELL | Some x \<Rightarrow> nu_fixed N 1 (nu_percent N x))"

definition table_row :: "string list \<Rightarrow> string" where
  "table_row cells = ''| '' @ join '' | '' cells @ '' |''"

definition int_cell :: "int option \<Rightarrow> string" where
  "int_cell v = show_opt v"

definition yaml_cell :: "number_ops \<Rightarrow> yaml option \<Rightarrow> exn + string" where
  "yaml_cell N v = (case v of None \<Rightarrow> Inr NA_CELL | Some x \<Rightarrow> nu_format N 0 x)"

section \<open>The sections of the analysis\<close>

definition render_executive_summary :: "number_ops \<Rightarrow> run_report \<Rightarrow> extended_summary \<Rightarrow> string list" where
  "render_executive_summary N r x =
     [''## Executive Summary'', [],
      ''This run replayed **'' @ show_nat (su_sessions_total (rt_summary r)) @ ''** OpenCode transcripts with incremental KV-cache reuse up to **''
      @ ctx_label (rt_max_context_tokens r) @ ''** context. **'' @ show_nat (su_steps_passed (rt_summary r)) @ ''/''
      @ show_nat (su_steps_total (rt_summary r)) @ ''** classification steps produced valid YAML (''
      @ nu_fixed N 1 (nu_percent N (su_accuracy (rt_summary r))) @ ''% pass rate).'']
     @ (case ex_duration_s x of None \<Rightarrow> []
        | Some d \<Rightarrow> [''Wall-clock duration: **'' @ nu_fixed N 1 d @ ''s** ('' @ nu_fixed N 1 (nu_minutes N d) @ '' min).''])
     @ (case ex_cache_hit_avg x of None \<Rightarrow> []
        | Some c \<Rightarrow> [''Average cache hit ratio (cache_n / prompt_tokens): **'' @ nu_fixed N 1 (nu_percent N c) @ ''%**.''])
     @ (case ex_prompt_max x of None \<Rightarrow> []
        | Some n \<Rightarrow> [''Peak measured prompt size: **'' @ show_int n @ ''** tokens.''])
     @ (case rt_cache_probe r of None \<Rightarrow> []
        | Some probe \<Rightarrow> if probe = [] then [] else
            [''Preflight cache probe: **'' @ (if y_true (y_get probe ''cache_working'') then ''PASS'' else ''FAIL'')
             @ ''** (slot erase '' @ (if y_true (y_get probe ''slot_erase_supported'') then ''supported'' else ''not supported'') @ '').''])
     @ [[]]"

definition render_run_configuration :: "run_report \<Rightarrow> string list" where
  "render_run_configuration r =
     [''## Run Configuration'', [],
      ''- **Max context:** '' @ ctx_label (rt_max_context_tokens r),
      ''- **Size buckets:** '' @ join '', '' (map ctx_label (rt_size_buckets r)),
      ''- **Base URL:** '' @ rt_base_url r,
      ''- **Backend:** '' @ rt_backend r]
     @ (if rt_started_at r \<noteq> [] then [''- **Started:** '' @ rt_started_at r] else [])
     @ [''- **Finished:** '' @ rt_finished_at r, []]"

definition render_latency_section :: "number_ops \<Rightarrow> extended_summary \<Rightarrow> string list" where
  "render_latency_section N x =
     [''## Latency and Cache Scaling'', [],
      ''| Bucket | Steps | Cache Hit % | TTFT ms Avg | TTFT ms Median | Total ms Avg | Prompt Tok Avg |'',
      ''|--------|-------|-------------|-------------|----------------|-------------|----------------|'']
     @ map (\<lambda>b. table_row [ctx_label (lb_size_bucket b), show_nat (lb_steps b), percent N (lb_cache_hit b),
          figure N 1 (lb_ttft_avg b), figure N 1 (lb_ttft_median b), figure N 1 (lb_total_avg b), figure N 0 (lb_prompt_avg b)])
         (ex_latency x)
     @ [[]]"

definition render_category_section :: "number_ops \<Rightarrow> extended_summary \<Rightarrow> string list" where
  "render_category_section N x =
     (if ex_categories x = [] then []
      else [''## Classification Score Distribution'', [],
            ''| Category | Count | Avg | Min | Max |'', ''|----------|-------|-----|-----|-----|'']
         @ map (\<lambda>c. table_row [ct_category_id c, show_nat (ct_count c), figure N 3 (ct_avg c), nu_fixed N 3 (ct_min c), nu_fixed N 3 (ct_max c)])
             (ex_categories x)
         @ [[]])"

definition session_row_text :: "number_ops \<Rightarrow> py_ops \<Rightarrow> session_summary \<Rightarrow> exn + string" where
  "session_row_text N py s =
     sum_bind (yaml_cell N (ss_ttft_first s)) (\<lambda>first. sum_map (\<lambda>final.
       table_row [''`'' @ ss_session_id s @ ''`'', ctx_label (ss_target_bucket s), show_nat (ss_steps s),
         show_nat (ss_steps_passed s) @ ''/'' @ show_nat (ss_steps s), y_str (py_show py) (ss_turn_count s),
         int_cell (ss_prompt_min s), int_cell (ss_prompt_max s), percent N (ss_cache_ratio s), first, final,
         figure N 0 (ss_total_sum s)])
       (yaml_cell N (ss_ttft_last s)))"

definition render_session_summary_table :: "number_ops \<Rightarrow> py_ops \<Rightarrow> extended_summary \<Rightarrow> exn + string list" where
  "render_session_summary_table N py x =
     sum_map (\<lambda>rows.
       [''## Per-Session Summary'', [],
        ''| Session | Target | Steps | Pass | Turns | Prompt Min | Prompt Max | Cache Hit % | TTFT First | TTFT Last | Total ms |'',
        ''|---------|--------|-------|------|-------|------------|------------|-------------|------------|-----------|----------|'']
       @ rows @ [[]])
     (all_inr (map (session_row_text N py) (ex_sessions x)))"

text \<open>The mode is compared as the configuration writes it, so the other names of the rolling mode get the text of
  the cumulative one.\<close>

definition render_methodology :: "run_report \<Rightarrow> string list" where
  "render_methodology r =
     [''## Methodology'', [],
      (if rt_replay_mode r = ''rolling_window''
       then ''Each OpenCode session is replayed turn-by-turn on a pinned llamafile slot with `cache_prompt=true`. At each turn the classifier sees a fixed ''
         @ ctx_label (rt_max_context_tokens r)
         @ '' rolling window: the last n user/assistant pairs that fit under the token budget. When the transcript grows, oldest turns drop from the front. Metrics are recorded per turn: window bounds, cache reuse, TTFT, total latency, and generation throughput.''
       else ''Each OpenCode session is replayed turn-by-turn on a pinned llamafile slot with `cache_prompt=true`. Every step sends the cumulative transcript (all prior user/assistant pairs) plus a classification task. Metrics are recorded per turn: prompt size, cache reuse, TTFT, total latency, and generation throughput. Steps continue until `max_context_tokens` is exceeded.''),
      []]"

definition render_extended_sections :: "number_ops \<Rightarrow> py_ops \<Rightarrow> run_report \<Rightarrow> extended_summary \<Rightarrow> exn + string list" where
  "render_extended_sections N py r x =
     sum_map (\<lambda>table. render_executive_summary N r x @ render_run_configuration r @ render_latency_section N x
                     @ render_category_section N x @ table @ render_methodology r)
       (render_session_summary_table N py x)"

section \<open>The sections of the report\<close>

definition bucket_summary_lines :: "number_ops \<Rightarrow> replay_summary \<Rightarrow> string list" where
  "bucket_summary_lines N rollup =
     [''## Summary by Measured Context Size'', [],
      ''| Bucket | Steps | Pass Rate | Prompt Tok Avg | Cache Tok Avg | Cache Hit % | TTFT ms Avg | Total ms Avg | Gen tok/s Avg |'',
      ''|--------|-------|-----------|----------------|---------------|------------|-------------|--------------|---------------|'']
     @ map (\<lambda>b. table_row [ctx_label (bk_size_bucket b), show_nat (bk_steps b), nu_fixed N 1 (nu_percent N (bk_accuracy b)) @ ''%'',
          figure N 0 (bk_prompt_avg b), figure N 0 (bk_cache_avg b),
          (case bk_cache_hit b of None \<Rightarrow> NA_CELL | Some c \<Rightarrow> nu_fixed N 1 (nu_percent N c) @ ''%''),
          figure N 1 (bk_ttft_avg b), figure N 1 (bk_total_avg b), figure N 2 (bk_tps_avg b)]) (su_by_bucket rollup)
     @ [[]]"

text \<open>\<open>step["score"]["passed"]\<close>\<close>

definition step_score :: "ymap \<Rightarrow> string \<Rightarrow> exn + yaml" where
  "step_score step k =
     sum_bind (y_at step ''score'') (\<lambda>v. case as_map v of None \<Rightarrow> Inl no_string_index | Some m \<Rightarrow> y_at m k)"

definition curve_row :: "py_ops \<Rightarrow> ymap \<Rightarrow> exn + string" where
  "curve_row py step =
     (let cell = (\<lambda>k. y_str (py_show py) (y_get_or step k (YStr NA_CELL))) in
      sum_bind (step_score step ''passed'') (\<lambda>passed.
      sum_map (\<lambda>turn.
        let start = y_get_or step ''window_start_turn'' turn; n = y_str (py_show py) turn in
        table_row [n, y_str (py_show py) start @ ''-'' @ n @ '' ('' @ cell ''window_turn_count'' @ '')'',
          (if y_true (y_get step ''window_rolled'') then ''yes'' else ''no''), cell ''prompt_tokens'', cell ''cache_n'', cell ''prompt_n'',
          cell ''ttft_ms'', cell ''total_ms'', cell ''tokens_per_second'', (if y_true passed then ''PASS'' else ''FAIL'')])
        (y_at step ''turn_index'')))"

definition session_curve :: "py_ops \<Rightarrow> report_session \<Rightarrow> exn + string list" where
  "session_curve py s =
     sum_bind (dict_steps no_string_index s) (\<lambda>steps. sum_map (\<lambda>rows.
       [''### `'' @ rp_session_id s @ ''`: '' @ rp_title s, [],
        ''| Turn | Window | Rolled | Prompt Tok | Cache Tok | Prompt New | TTFT ms | Total ms | tok/s | Pass |'',
        ''|------|--------|--------|------------|-----------|------------|---------|---------|-------|------|''] @ rows @ [[]])
       (all_inr (map (curve_row py) steps)))"

definition session_curve_lines :: "py_ops \<Rightarrow> report_session list \<Rightarrow> exn + string list" where
  "session_curve_lines py sessions =
     sum_map (\<lambda>ls. [''## Context Growth Curves (per session)'', []] @ concat ls) (all_inr (map (session_curve py) sessions))"

definition transcript_source_lines :: "run_report \<Rightarrow> string list" where
  "transcript_source_lines r =
     [''## Transcript Source'', [], ''- **DB path:** `'' @ rt_db_path r @ ''`'',
      ''- **Catalog size:** '' @ show_nat (rt_catalog_size r) @ '' sessions'']
     @ (if rt_selected r = [] then []
        else ''- **Selected sessions:**''
          # map (\<lambda>i. ''  - `'' @ sl_id i @ ''`: '' @ sl_title i @ '' (bucket='' @ ctx_label (sl_bucket_tokens i) @ '', est=''
                 @ show_int (sl_estimated_tokens i) @ '' tok, turns='' @ show_nat (sl_turn_count i) @ '')'') (rt_selected r))
     @ [[]]"

definition failed_steps :: "report_session \<Rightarrow> exn + ymap list" where
  "failed_steps s =
     sum_bind (dict_steps no_string_index s) (\<lambda>steps.
       sum_map (\<lambda>marks. map snd (filter (\<lambda>(passed, _). \<not> y_true passed) (zip marks steps)))
         (all_inr (map (\<lambda>x. step_score x ''passed'') steps)))"

definition failure_lines :: "py_ops \<Rightarrow> ymap \<Rightarrow> exn + string list" where
  "failure_lines py step =
     sum_bind (y_at step ''turn_index'') (\<lambda>turn. sum_map (\<lambda>notes.
       [''### turn '' @ y_str (py_show py) turn, [], ''- **Notes:** '' @ y_str (py_show py) notes,
        ''- **Response:** '' @ y_str (py_show py) (y_get_or step ''response_preview'' (YStr [])), []])
       (step_score step ''notes''))"

definition render_markdown :: "number_ops \<Rightarrow> py_ops \<Rightarrow> run_report \<Rightarrow> exn + string" where
  "render_markdown N py r =
     sum_bind (case rt_extended r of Some x \<Rightarrow> Inr x
               | None \<Rightarrow> build_extended_summary N py (rt_sessions r) (rt_size_buckets r) (rt_duration_s r)) (\<lambda>x.
     sum_bind (render_extended_sections N py r x) (\<lambda>extended_lines.
     sum_bind (session_curve_lines py (rt_sessions r)) (\<lambda>curves.
     sum_bind (sum_map concat (all_inr (map failed_steps (rt_sessions r)))) (\<lambda>failures.
     sum_map (\<lambda>details.
       join nl (
         [''# '' @ rt_benchmark_name r @ '': Incremental Transcript Classifier Report'', []]
         @ extended_lines @ bucket_summary_lines N (rt_summary r) @ curves
         @ (if failures = [] then [] else [''## Failure Details'', []] @ concat details)
         @ transcript_source_lines r))
       (all_inr (map (failure_lines py) (take 20 failures)))))))"

end
