(* ===== verification/Benchmark.thy ===== *)
theory Benchmark
  imports ReportText
begin

text \<open>
  \<open>config.py\<close>, \<open>__main__.py\<close> and the writing of the report in \<open>report.py\<close>: a run of the transcript
  classifier benchmark from its configuration to its exit code. The parsed arguments are a record. What the program
  takes from outside the modelled host is the record \<open>bench_env\<close>: the matches of the glob, sorted, the database
  at a path and its \<open>LIKE\<close>, two clocks, \<open>json.dumps\<close> and symbolic links.
\<close>

record bench_env =
  bn_glob :: "world \<Rightarrow> path \<Rightarrow> path list"
  bn_db :: "world \<Rightarrow> path \<Rightarrow> opencode_db"
  bn_like :: "string \<Rightarrow> string \<Rightarrow> bool"
  bn_stamp :: "world \<Rightarrow> string"
  bn_elapsed_s :: "world \<Rightarrow> world \<Rightarrow> pyfloat"
  bn_dir_stamp :: "world \<Rightarrow> string"
  bn_dumps :: "run_report \<Rightarrow> exn + string"
  bn_is_symlink :: "world \<Rightarrow> path \<Rightarrow> bool"
  bn_symlink :: "path \<Rightarrow> path \<Rightarrow> unit io"

section \<open>Configuration\<close>

definition REPO_ROOT_MARKER :: string where "REPO_ROOT_MARKER = ''pyproject.toml''"
definition CONFIG_FILENAME :: string where "CONFIG_FILENAME = ''benchmark.yaml''"
definition CONFIG_PARENT_DIRNAME :: string where "CONFIG_PARENT_DIRNAME = ''transcript_classifier''"

definition find_repo_root :: "host \<Rightarrow> path \<Rightarrow> path io" where
  "find_repo_root H start =
     bnd (asks (\<lambda>w. find_first (\<lambda>d. is_file H w (child d REPO_ROOT_MARKER)) (up_dirs (resolve (h_cwd H) start)))) (\<lambda>found.
       case found of
         Some d \<Rightarrow> ret d
       | None \<Rightarrow> raise (FileNotFoundError (''repository root not found (no '' @ REPO_ROOT_MARKER @ '') from '' @ path_str start)))"

definition discover_config_path :: "bench_env \<Rightarrow> path \<Rightarrow> path io" where
  "discover_config_path B repo_root =
     bnd (asks (\<lambda>w. bn_glob B w repo_root)) (\<lambda>matches.
       case matches of
         [] \<Rightarrow> raise (FileNotFoundError (''no '' @ CONFIG_FILENAME @ '' under benchmarks/**/'' @ CONFIG_PARENT_DIRNAME @ ''/ in ''
                 @ path_str repo_root))
       | [m] \<Rightarrow> ret m
       | _ \<Rightarrow> bnd (lift_sum (all_inr (map (\<lambda>p. relative_or_raise p repo_root) matches))) (\<lambda>ps.
           raise (RuntimeError (''multiple transcript classifier configs found: '' @ join '', '' (map path_str ps)))))"

definition read_yaml :: "(string \<Rightarrow> string + yaml) \<Rightarrow> string \<Rightarrow> exn + yaml" where
  "read_yaml load s = (case load s of Inl m \<Rightarrow> Inl (YAMLError m) | Inr v \<Rightarrow> Inr v)"

definition load_bench_config :: "host \<Rightarrow> (string \<Rightarrow> string + yaml) \<Rightarrow> py_ops \<Rightarrow> path \<Rightarrow> ymap io" where
  "load_bench_config H load py config_path =
     bnd (read_text H config_path) (\<lambda>s.
     bnd (lift_sum (read_yaml load s)) (\<lambda>v.
       case as_map v of
         None \<Rightarrow> raise (TypeError (''config must be a mapping: '' @ path_str config_path))
       | Some raw \<Rightarrow>
           let value = y_get_or raw ''repo_root'' (YStr ''auto'') in
           bnd (if value = YStr ''auto'' then find_repo_root H (parent config_path)
                else ret (resolve (h_cwd H) (mk_path (y_str (py_show py) value)))) (\<lambda>root_path.
             ret (AList.update (YStr ''_config_path'') (YStr (path_str (resolve (h_cwd H) config_path)))
                   (AList.update (YStr ''repo_root'') (YStr (path_str root_path)) raw)))))"

definition resolve_config_path :: "host \<Rightarrow> bench_env \<Rightarrow> path option \<Rightarrow> path io" where
  "resolve_config_path H B explicit =
     (case explicit of
        Some p \<Rightarrow>
          let path = resolve (h_cwd H) p in
          bnd (asks (\<lambda>w. is_file H w path)) (\<lambda>there.
            if there then ret path else raise (FileNotFoundError (''config not found: '' @ path_str path)))
      | None \<Rightarrow> bnd (find_repo_root H (h_cwd H)) (discover_config_path B))"

section \<open>The files of the report\<close>

definition config_map :: "ymap \<Rightarrow> string \<Rightarrow> exn + ymap" where
  "config_map config k = (case as_map (y_get_or config k (YMap [])) of None \<Rightarrow> Inl (AttributeError ''get'') | Some m \<Rightarrow> Inr m)"

definition write_reports :: "host \<Rightarrow> bench_env \<Rightarrow> number_ops \<Rightarrow> py_ops \<Rightarrow> path \<Rightarrow> ymap \<Rightarrow> run_report \<Rightarrow> string \<Rightarrow> path io" where
  "write_reports H B N py repo_root config r config_text =
     bnd (lift_sum (config_map config ''benchmark'')) (\<lambda>meta.
     let benchmark_name = y_str (py_show py) (y_get_or meta ''name'' (YStr ''llamafile-transcript-classifier''));
         reports_dir_name = y_str (py_show py) (y_get_or meta ''reports_dir'' (YStr ''docs/benchmarking''));
         backend_dir = p_sub (p_sub (p_sub repo_root reports_dir_name) benchmark_name) (rt_backend r) in
     bnd (asks (bn_dir_stamp B)) (\<lambda>timestamp.
     let run_dir = p_sub backend_dir timestamp; latest_link = child backend_dir ''latest.md'' in
     andthen (mkdir_parents H run_dir)
    (bnd (lift_sum (render_markdown N py r)) (\<lambda>md.
     andthen (write_text H (child run_dir ''report.md'') md)
    (bnd (lift_sum (bn_dumps B r)) (\<lambda>json.
     andthen (write_text H (child run_dir ''report.json'') json)
    (andthen (write_text H (child run_dir ''config.snapshot.yaml'') config_text)
    (andthen (bnd get_world (\<lambda>w. when_io (bn_is_symlink B w latest_link \<or> p_exists H w latest_link) (unlink H latest_link)))
    (andthen (bn_symlink B latest_link (child run_dir ''report.md''))
       (ret (child run_dir ''report.md'')))))))))))"

section \<open>The run\<close>

record bench_args =
  ba_base_url :: string
  ba_config :: "path option"
  ba_session :: "string list"
  ba_timeout :: pyfloat
  ba_backend :: "string option"
  ba_skip_cache_probe :: bool

definition CLASSIFICATION_CATEGORY_COUNT :: nat where "CLASSIFICATION_CATEGORY_COUNT = 7"
definition DEFAULT_BASE_URL :: string where "DEFAULT_BASE_URL = ''http://127.0.0.1:8765''"

definition category_ids_of :: "py_ops \<Rightarrow> ymap \<Rightarrow> exn + string list" where
  "category_ids_of py config =
     sum_bind (y_items (y_get_or config ''categories'' (YList []))) (\<lambda>items.
       all_inr (map (\<lambda>item. case as_map item of
           Some m \<Rightarrow> y_item (py_show py) m ''id''
         | None \<Rightarrow> Inl (TypeError ''indices must be integers'')) items))"

text \<open>\<open>args.backend or os.environ.get("LLAMAFILE_GPU") or "unknown"\<close>\<close>

definition backend_label :: "host \<Rightarrow> bench_args \<Rightarrow> string" where
  "backend_label H a =
     (case ba_backend a of
        Some (c # s) \<Rightarrow> c # s
      | _ \<Rightarrow> (case h_env H ''LLAMAFILE_GPU'' of Some (c # s) \<Rightarrow> c # s | _ \<Rightarrow> ''unknown''))"

text \<open>\<open>result._asdict()\<close>: the mapping of the outer tuple; its steps stay named tuples.\<close>

definition session_asdict :: "session_replay \<Rightarrow> report_session" where
  "session_asdict s =
     \<lparr>rp_session_id = sx_session_id s, rp_title = sx_title s, rp_bucket_tokens = sx_bucket_tokens s,
      rp_steps = map StepTuple (sx_steps s)\<rparr>"

definition cache_preflight :: "http \<Rightarrow> py_ops \<Rightarrow> bench_args \<Rightarrow> ymap \<Rightarrow> int \<Rightarrow> ymap option io" where
  "cache_preflight Ht py a replay_cfg id_slot =
     (if \<not> (y_true (y_get_or replay_cfg ''preflight_cache_probe'' (YBool True)) \<and> \<not> ba_skip_cache_probe a) then ret None
      else andthen (print_err ''running cache preflight probe...'')
        (bnd (probe_cache_reuse Ht py (ba_base_url a) id_slot (if f_less (Fin 120 0) (ba_timeout a) then Fin 120 0 else ba_timeout a))
          (\<lambda>v. let probe = (case as_map v of None \<Rightarrow> [] | Some m \<Rightarrow> m) in
             andthen (when_io (\<not> y_true (y_get probe ''cache_working''))
                 (print_err ''warn: cache preflight probe did not observe cache reuse''))
               (ret (Some probe)))))"

text \<open>The replay of the selected sessions, numbered from one.\<close>

definition replay_one :: "bench_env \<Rightarrow> http \<Rightarrow> (string \<Rightarrow> string + yaml) \<Rightarrow> py_ops \<Rightarrow> bench_args \<Rightarrow> path \<Rightarrow> ymap \<Rightarrow> ymap
    \<Rightarrow> string list \<Rightarrow> nat \<Rightarrow> nat \<times> selected_session \<Rightarrow> session_replay io" where
  "replay_one B Ht load py a db_path source config category_ids n = (\<lambda>(index, pick).
     andthen (print_err (''['' @ show_nat index @ ''/'' @ show_nat n @ ''] replaying '' @ sl_id pick @ '' (target ''
        @ ctx_label (sl_bucket_tokens pick) @ '', '' @ show_nat (sl_turn_count pick) @ '' turns, est=''
        @ show_int (sl_estimated_tokens pick) @ '' tok)...''))
    (bnd (asks (\<lambda>w. bn_db B w db_path)) (\<lambda>db.
     bnd (lift_sum (load_session_transcript py db (sl_id pick) source)) (\<lambda>session.
       replay_session Ht load py
         \<lparr>rq_base_url = ba_base_url a, rq_session = session, rq_bucket_tokens = sl_bucket_tokens pick, rq_config = config,
          rq_category_ids = category_ids, rq_timeout_s = ba_timeout a\<rparr>))))"

definition console_block :: "number_ops \<Rightarrow> bucket_summary \<Rightarrow> string list" where
  "console_block N b =
     [nl @ ''['' @ show_int (bk_size_bucket b div 1024) @ ''K bucket]'',
      ''  steps: '' @ show_nat (bk_steps b),
      ''  pass rate: '' @ nu_fixed N 1 (nu_percent N (bk_accuracy b)) @ ''%'']
     @ (case bk_prompt_avg b of None \<Rightarrow> []
        | Some x \<Rightarrow> [''  prompt tokens: avg='' @ nu_fixed N 0 x @ '' min='' @ show_opt (bk_prompt_min b) @ '' max='' @ show_opt (bk_prompt_max b)])
     @ (case bk_cache_avg b of None \<Rightarrow> [] | Some x \<Rightarrow> [''  cache tokens avg: '' @ nu_fixed N 0 x])
     @ (case bk_ttft_avg b of None \<Rightarrow> [] | Some x \<Rightarrow> [''  TTFT ms avg: '' @ nu_fixed N 1 x])
     @ (case bk_total_avg b of None \<Rightarrow> [] | Some x \<Rightarrow> [''  total latency ms avg: '' @ nu_fixed N 1 x])
     @ (case bk_tps_avg b of None \<Rightarrow> [] | Some x \<Rightarrow> [''  gen tok/s avg: '' @ nu_fixed N 2 x])"

definition console_summary :: "number_ops \<Rightarrow> py_ops \<Rightarrow> run_report \<Rightarrow> string \<Rightarrow> string list" where
  "console_summary N py r report_path =
     [replicate 72 (CHR ''=''), ''LLAMAFILE INCREMENTAL TRANSCRIPT CLASSIFIER BENCHMARK'',
      ''base_url: '' @ rt_base_url r, ''finished: '' @ rt_finished_at r, ''report: '' @ report_path, replicate 72 (CHR ''-''),
      ''overall pass rate: '' @ show_nat (su_steps_passed (rt_summary r)) @ ''/'' @ show_nat (su_steps_total (rt_summary r))
        @ '' ('' @ nu_fixed N 1 (nu_percent N (su_accuracy (rt_summary r))) @ ''%)'',
      ''sessions replayed: '' @ show_nat (su_sessions_total (rt_summary r))]
     @ (case rt_cache_probe r of None \<Rightarrow> []
        | Some probe \<Rightarrow> if probe = [] then [] else
            [''cache probe: '' @ (if y_true (y_get probe ''cache_working'') then ''ok'' else ''FAIL'') @ '' (second cache_n=''
             @ y_str (py_show py) (y_get probe ''second_cache_n'') @ '')''])
     @ concat (map (console_block N) (su_by_bucket (rt_summary r)))
     @ [replicate 72 (CHR ''='')]"


text \<open>What \<open>main\<close> has read before the replays: the configuration with its text, the categories, the probe, the
  database and the selection.\<close>

record prepared_run =
  pr_started :: world
  pr_started_at :: string
  pr_config_path :: path
  pr_config_text :: string
  pr_config :: ymap
  pr_category_ids :: "string list"
  pr_probe :: "ymap option"
  pr_source :: ymap
  pr_db_path :: path
  pr_catalog_size :: nat
  pr_size_buckets :: "int list"
  pr_per_bucket :: int
  pr_selected :: "selected_session list"

definition repo_root_of :: "py_ops \<Rightarrow> ymap \<Rightarrow> path" where
  "repo_root_of py config = mk_path (y_str (py_show py) (y_get config ''repo_root''))"

text \<open>The value of \<open>db_path\<close>, of which \<open>resolve_db_path\<close> takes the text.\<close>

definition db_setting :: "py_ops \<Rightarrow> ymap \<Rightarrow> string option" where
  "db_setting py source = (case y_get source ''db_path'' of YNull \<Rightarrow> None | v \<Rightarrow> Some (y_str (py_show py) v))"

text \<open>The part from the health of the server to the selection.\<close>

definition prepare_sessions :: "host \<Rightarrow> bench_env \<Rightarrow> http \<Rightarrow> py_ops \<Rightarrow> bench_args \<Rightarrow> ymap \<Rightarrow>
    (ymap option \<times> ymap \<times> path \<times> nat \<times> int list \<times> int \<times> selected_session list) io" where
  "prepare_sessions H B Ht py a config =
     bnd (lift_sum (replay_config config)) (\<lambda>replay_cfg.
     bnd (lift_sum (py_to_int py (y_get_or replay_cfg ''id_slot'' (YInt 0)))) (\<lambda>id_slot.
     bnd (cache_preflight Ht py a replay_cfg id_slot) (\<lambda>probe.
     bnd (lift_sum (config_map config ''transcript_source'')) (\<lambda>source.
     bnd (resolve_db_path H (db_setting py source)) (\<lambda>db_path.
     bnd (asks (\<lambda>w. bn_db B w db_path)) (\<lambda>db.
     bnd (lift_sum (discover_session_catalog py (bn_like B) db source)) (\<lambda>catalog.
     andthen (when_io (y_true (y_get_or source ''sync_on_run'' (YBool True)))
       (bnd (sync_fixture_cache H py (repo_root_of py config) db_path source catalog) (\<lambda>_. ret ())))
    (bnd (lift_sum (y_items (y_get_or config ''size_buckets'' (YList [YInt 1024, YInt 2048, YInt 4096, YInt 8192])))) (\<lambda>items.
     bnd (lift_sum (all_inr (map (py_to_int py) items))) (\<lambda>size_buckets.
     bnd (lift_sum (py_to_int py (y_get_or config ''sessions_per_bucket'' (YInt 1)))) (\<lambda>per_bucket.
     bnd (lift_sum (select_benchmark_sessions py catalog config (ba_session a))) (\<lambda>selected.
     bnd (lift_sum (py_to_int py (y_get_or config ''long_session_replays'' (YInt 0)))) (\<lambda>long_replays.
     andthen (print_err (''selected '' @ show_nat (length selected) @ '' sessions (buckets='' @ show_nat (length size_buckets)
        @ '', per_bucket='' @ show_int per_bucket @ '', long_replays='' @ show_int long_replays @ '')''))
       (ret (probe, source, db_path, length catalog, size_buckets, per_bucket, selected)))))))))))))))"

text \<open>The payload and the analysis of the finished replays, and what is written and printed.\<close>

definition report_payload :: "host \<Rightarrow> bench_env \<Rightarrow> py_ops \<Rightarrow> bench_args \<Rightarrow> prepared_run \<Rightarrow> string \<Rightarrow> pyfloat \<Rightarrow> replay_summary
    \<Rightarrow> session_replay list \<Rightarrow> exn + run_report" where
  "report_payload H B py a p finished duration_s summary results =
     (let config = pr_config p in
      sum_bind (config_map config ''benchmark'') (\<lambda>meta.
      sum_bind (relative_or_raise (pr_config_path p) (repo_root_of py config)) (\<lambda>config_path.
      sum_bind (py_to_int py (y_get_or config ''max_context_tokens'' (YInt 32768))) (\<lambda>max_context.
      sum_bind (replay_config config) (\<lambda>replay_cfg.
      sum_map (\<lambda>long_replays.
        \<lparr>rt_benchmark_name = y_str (py_show py) (y_get_or meta ''name'' (YStr ''llamafile-transcript-classifier'')),
         rt_backend = backend_label H a, rt_base_url = ba_base_url a, rt_config_path = path_str config_path,
         rt_started_at = pr_started_at p, rt_finished_at = finished, rt_duration_s = Some duration_s,
         rt_size_buckets = pr_size_buckets p, rt_max_context_tokens = max_context,
         rt_replay_mode = y_str (py_show py) (y_get_or replay_cfg ''mode'' (YStr ''rolling_window'')),
         rt_sessions_per_bucket = pr_per_bucket p, rt_long_session_replays = long_replays,
         rt_categories = pr_category_ids p, rt_cache_probe = pr_probe p, rt_db_path = path_str (pr_db_path p),
         rt_catalog_size = pr_catalog_size p, rt_selected = pr_selected p, rt_summary = summary,
         rt_sessions = map session_asdict results, rt_extended = None\<rparr>)
        (py_to_int py (y_get_or config ''long_session_replays'' (YInt 0))))))))"

definition finish_run :: "host \<Rightarrow> bench_env \<Rightarrow> number_ops \<Rightarrow> py_ops \<Rightarrow> bench_args \<Rightarrow> prepared_run \<Rightarrow> session_replay list \<Rightarrow> int io" where
  "finish_run H B N py a p results =
     bnd get_world (\<lambda>w.
     let duration_s = bn_elapsed_s B (pr_started p) w in
     bnd (lift_sum (summarize_replay_results N results (pr_size_buckets p))) (\<lambda>summary.
     bnd (lift_sum (report_payload H B py a p (bn_stamp B w) duration_s summary results)) (\<lambda>payload.
     bnd (lift_sum (build_extended_summary N py (rt_sessions payload) (rt_size_buckets payload) (Some duration_s))) (\<lambda>extended.
     let payload = payload\<lparr>rt_extended := Some extended\<rparr> in
     bnd (write_reports H B N py (repo_root_of py (pr_config p)) (pr_config p) payload (pr_config_text p)) (\<lambda>md_path.
     bnd (lift_sum (relative_or_raise md_path (repo_root_of py (pr_config p)))) (\<lambda>report_path.
     andthen (each print_out (console_summary N py payload (path_str report_path)))
       (ret (if su_steps_passed summary = su_steps_total summary then 0 else 2))))))))"

definition bench_main :: "host \<Rightarrow> bench_env \<Rightarrow> http \<Rightarrow> (string \<Rightarrow> string + yaml) \<Rightarrow> number_ops \<Rightarrow> py_ops \<Rightarrow> bench_args \<Rightarrow> int io" where
  "bench_main H B Ht load N py a =
     bnd get_world (\<lambda>start.
     bnd (resolve_config_path H B (ba_config a)) (\<lambda>config_path.
     bnd (read_text H config_path) (\<lambda>config_text.
     bnd (load_bench_config H load py config_path) (\<lambda>config.
     bnd (lift_sum (category_ids_of py config)) (\<lambda>category_ids.
       if length category_ids \<noteq> CLASSIFICATION_CATEGORY_COUNT
       then andthen (print_err (''error: expected '' @ show_nat CLASSIFICATION_CATEGORY_COUNT @ '' categories, found ''
              @ show_nat (length category_ids))) (ret 1)
       else bnd (server_health_ok Ht (ba_base_url a) (Fin 10 0)) (\<lambda>healthy.
         if \<not> healthy
         then andthen (print_err (''error: llamafile server not healthy at '' @ ba_base_url a)) (ret 1)
         else bnd (prepare_sessions H B Ht py a config)
           (\<lambda>(probe, source, db_path, catalog_size, size_buckets, per_bucket, selected).
            bnd (collect (replay_one B Ht load py a db_path source config category_ids (length selected))
                   (List.enumerate 1 selected)) (\<lambda>results.
            finish_run H B N py a
              \<lparr>pr_started = start, pr_started_at = bn_stamp B start, pr_config_path = config_path, pr_config_text = config_text,
               pr_config = config, pr_category_ids = category_ids, pr_probe = probe, pr_source = source, pr_db_path = db_path,
               pr_catalog_size = catalog_size, pr_size_buckets = size_buckets, pr_per_bucket = per_bucket,
               pr_selected = selected\<rparr> results))))))))"

section \<open>A run does not reach its report\<close>

text \<open>The selection and the replays are not empty, so the payload has steps; they are named tuples.\<close>

lemma selection_nonempty: "select_benchmark_sessions py catalog config explicit = Inr xs \<Longrightarrow> xs \<noteq> []"
proof -
  assume sel: "select_benchmark_sessions py catalog config explicit = Inr xs"
  have bucketed: "select_sessions_for_buckets py catalog buckets per_token n ids \<noteq> Inr []" for buckets per_token n ids
    by (cases "ids = []")
      (auto simp: select_sessions_for_buckets_def select_explicit_sessions_def Let_def sum_bind_Inr all_inr_Inr split: if_splits)
  show ?thesis
    using sel by (auto simp: select_benchmark_sessions_def sum_bind_Inr sum_map_Inr bucketed split: if_splits)
qed

lemma after_sum: "(\<And>a w. x = Inr a \<Longrightarrow> wp (f a) Q (\<lambda>_ _. True) w) \<Longrightarrow> wp (bnd (lift_sum x) f) Q (\<lambda>_ _. True) w"
  by (auto simp: wps split: sum.split)

lemma after_wp: "wp m P (\<lambda>_ _. True) w \<Longrightarrow> (\<And>a w. P a w \<Longrightarrow> wp (f a) Q (\<lambda>_ _. True) w) \<Longrightarrow> wp (bnd m f) Q (\<lambda>_ _. True) w"
  unfolding wp_bnd by (erule wp_mono) auto

lemma either_any:
  "(b \<Longrightarrow> wp m Q (\<lambda>_ _. True) w) \<Longrightarrow> (\<not> b \<Longrightarrow> wp k Q (\<lambda>_ _. True) w) \<Longrightarrow> wp (if b then m else k) Q (\<lambda>_ _. True) w"
  by simp

lemma wp_collect_all:
  "(\<And>x w. wp (f x) (\<lambda>y _. P y) (\<lambda>_ _. True) w) \<Longrightarrow>
   wp (collect f xs) (\<lambda>ys _. length ys = length xs \<and> list_all P ys) (\<lambda>_ _. True) w"
proof (induction xs arbitrary: w)
  case (Cons x xs)
  show ?case
    unfolding collect.simps by (rule after_wp [OF Cons.prems], rule after_wp [OF Cons.IH [OF Cons.prems]]) (simp add: wps)
qed (simp add: wps)

lemma replay_one_steps:
  "wp (replay_one B Ht load py a db_path source config ids n x) (\<lambda>r _. sx_steps r \<noteq> []) (\<lambda>_ _. True) w"
  unfolding replay_one_def case_prod_beta
  by (rule andthen_any after_any)+ (rule wp_mono [OF replay_session_steps], auto)

lemma prepared_selection:
  "wp (prepare_sessions H B Ht py a config) (\<lambda>(_, _, _, _, _, _, selected) _. selected \<noteq> []) (\<lambda>_ _. True) w"
  unfolding prepare_sessions_def
  by (rule after_sum after_any andthen_any)+ (auto simp: wps dest: selection_nonempty)

lemma finish_run_raises:
  assumes "results \<noteq> []" "list_all (\<lambda>r. sx_steps r \<noteq> []) results"
  shows "\<exists>e. finish_run H B N py a p results w = (Inl e, w)"
proof -
  have tuples: "build_extended_summary N py (map session_asdict results) buckets d = Inl not_a_mapping" for buckets d
    using assms by (intro extended_of_tuples) (auto simp: session_asdict_def list_all_iff)
  have sessions: "rt_sessions r = map session_asdict results"
    if "report_payload H B py a p finished d summary results = Inr r" for finished d summary r
    using that by (auto simp: report_payload_def Let_def sum_bind_Inr sum_map_Inr)
  show ?thesis
    by (auto simp: finish_run_def Let_def bnd_def get_world_def lift_sum_def raise_def ret_def tuples sessions split: sum.split)
qed

text \<open>C34: a run of the benchmark never ends with its report. Whatever the server answers, it returns only the exit code of
  a wrong number of categories or of an unhealthy server; when the replays are done, the analysis raises,
  because the steps in the payload are named tuples and not mappings, and nothing has been written.\<close>

theorem run_never_reports:
  "case fst (bench_main H B Ht load N py a w) of Inl _ \<Rightarrow> True | Inr code \<Rightarrow> code = 1"
proof -
  have done_run: "wp (finish_run H B N py a p results) (\<lambda>code _. code = 1) (\<lambda>_ _. True) w"
    if "results \<noteq> []" "list_all (\<lambda>r. sx_steps r \<noteq> []) results" for results p w
    using finish_run_raises [OF that, of H B N py a p w] by (auto simp: wp_def)
  have replays: "wp (bnd (collect (replay_one B Ht load py a db_path source config ids n) (List.enumerate 1 selected)) (finish_run H B N py a p))
      (\<lambda>code _. code = 1) (\<lambda>_ _. True) w" if "selected \<noteq> []" for selected db_path source config ids n p w
    by (rule after_wp [OF wp_collect_all [OF replay_one_steps]], rule done_run) (use that in auto)
  have "wp (bench_main H B Ht load N py a) (\<lambda>code _. code = 1) (\<lambda>_ _. True) w"
    unfolding bench_main_def
    unfolding bench_main_def case_prod_beta
    by (rule after_wp [OF prepared_selection] replays either_any after_any andthen_any wp_ret [THEN iffD2] refl)+ (simp_all add: case_prod_beta)
  then show ?thesis by (auto simp: wp_def split: prod.splits sum.splits)
qed

end
