(* ===== verification/Archives.thy ===== *)
theory Archives
  imports World
begin

text \<open>
  \<open>workspace/scripts/utils/archive_utils.py\<close>: the test that leaves a path out of an archive, and the archive that is
  written by streaming the output of \<open>tar\<close> through the zstandard compressor. \<open>fnmatch.fnmatch\<close> is written out for
  POSIX, where the case of a name counts. The compressor is an argument: the bytes it makes of the chunks, and the
  error it ends with, if any. The progress bar is not modelled.
\<close>

section \<open>Patterns of \<open>fnmatch\<close>\<close>

text \<open>An entry of a bracket expression: a character, or the range of two.\<close>

datatype class_item = CChar char | CRange char char

fun class_items :: "string \<Rightarrow> class_item list" where
  "class_items (a # CHR ''-'' # b # r) = CRange a b # class_items r"
| "class_items (a # r) = CChar a # class_items r"
| "class_items [] = []"

fun item_empty :: "class_item \<Rightarrow> bool" where
  "item_empty (CRange a b) \<longleftrightarrow> b < a"
| "item_empty (CChar a) \<longleftrightarrow> False"

fun in_item :: "char \<Rightarrow> class_item \<Rightarrow> bool" where
  "in_item c (CChar a) \<longleftrightarrow> c = a"
| "in_item c (CRange a b) \<longleftrightarrow> a \<le> c \<and> c \<le> b"

datatype glob_token = GStar | GAny | GSet bool "class_item list" | GChar char

text \<open>Empty ranges are removed before the exclamation mark is looked for, so that it may come first only then.\<close>

definition set_token :: "string \<Rightarrow> glob_token" where
  "set_token stuff =
     (let items = filter (\<lambda>i. \<not> item_empty i)
            (if prefix ''!'' stuff then CChar (CHR ''!'') # class_items (tl stuff) else class_items stuff)
      in case items of
           CChar a # rest \<Rightarrow> if a = CHR ''!'' then GSet True rest else GSet False items
         | CRange a b # rest \<Rightarrow> if a = CHR ''!'' then GSet True (CChar (CHR ''-'') # CChar b # rest) else GSet False items
         | [] \<Rightarrow> GSet False [])"

text \<open>The text of a bracket expression and what follows it; a bracket right after the opening one, or after its
  exclamation mark, does not close it.\<close>

definition bracket :: "string \<Rightarrow> (string \<times> string) option" where
  "bracket r =
     (let bang = (if prefix ''!'' r then ''!'' else []);
          r1 = drop (length bang) r;
          lead = (if prefix '']'' r1 then '']'' else []);
          r2 = drop (length lead) r1
      in if CHR '']'' \<in> set r2
         then Some (bang @ lead @ takeWhile (\<lambda>c. c \<noteq> CHR '']'') r2, tl (dropWhile (\<lambda>c. c \<noteq> CHR '']'') r2))
         else None)"

lemma after_bracket: "x \<in> set s \<Longrightarrow> length (tl (dropWhile P s)) < length s"
  using length_dropWhile_le [of P s] by (cases s) auto

lemma bracket_shorter: "bracket r = Some (stuff, rest) \<Longrightarrow> length rest < length r"
proof -
  assume "bracket r = Some (stuff, rest)"
  then obtain k where k: "CHR '']'' \<in> set (drop k r)" "rest = tl (dropWhile (\<lambda>c. c \<noteq> CHR '']'') (drop k r))"
    by (auto simp: bracket_def Let_def drop_drop split: if_splits)
  then show ?thesis
    using after_bracket [OF k(1), of "\<lambda>c. c \<noteq> CHR '']''"] by simp
qed

function glob_tokens :: "string \<Rightarrow> glob_token list" where
  "glob_tokens [] = []"
| "glob_tokens (c # r) =
     (if c = CHR ''*'' then GStar # glob_tokens r
      else if c = CHR ''?'' then GAny # glob_tokens r
      else if c = CHR ''['' then
        (case bracket r of
           None \<Rightarrow> GChar c # glob_tokens r
         | Some (stuff, rest) \<Rightarrow> set_token stuff # glob_tokens rest)
      else GChar c # glob_tokens r)"
  by pat_completeness auto
termination
  by (relation "measure length") (auto dest: bracket_shorter)

fun token_char :: "glob_token \<Rightarrow> char \<Rightarrow> bool" where
  "token_char (GChar a) c \<longleftrightarrow> c = a"
| "token_char GAny c \<longleftrightarrow> True"
| "token_char (GSet neg items) c \<longleftrightarrow> list_ex (in_item c) items \<noteq> neg"
| "token_char GStar c \<longleftrightarrow> False"

function match_tokens :: "glob_token list \<Rightarrow> string \<Rightarrow> bool" where
  "match_tokens [] s \<longleftrightarrow> s = []"
| "match_tokens (t # ts) s \<longleftrightarrow>
     (if t = GStar then match_tokens ts s \<or> (case s of [] \<Rightarrow> False | _ # s' \<Rightarrow> match_tokens (t # ts) s')
      else (case s of [] \<Rightarrow> False | c # s' \<Rightarrow> token_char t c \<and> match_tokens ts s'))"
  by pat_completeness auto
termination
  by (relation "measure (\<lambda>(ts, s). length ts + length s)") auto

definition fnmatch :: "string \<Rightarrow> string \<Rightarrow> bool" where
  "fnmatch name pat = match_tokens (glob_tokens pat) name"

declare glob_tokens.simps(2) [simp del] match_tokens.simps(2) [simp del]

section \<open>What is left out\<close>

definition without_trailing_slashes :: "string \<Rightarrow> string" where
  "without_trailing_slashes s = rev (dropWhile (\<lambda>c. c = CHR ''/'') (rev s))"

text \<open>\<open>path.relative_to(root)\<close>, \<open>None\<close> where it raises.\<close>

definition relative_below :: "path \<Rightarrow> path \<Rightarrow> path option" where
  "relative_below p root =
     (if absolute p = absolute root \<and> prefix (parts root) (parts p) then Some (Path False (drop (length (parts root)) (parts p)))
      else None)"

definition pattern_excludes :: "path \<Rightarrow> string \<Rightarrow> bool" where
  "pattern_excludes rel pattern =
     (let clean = without_trailing_slashes pattern in
      fnmatch (path_str rel) clean \<or> fnmatch (path_str rel) pattern \<or> fnmatch (path_name rel) clean \<or>
      list_ex (\<lambda>part. fnmatch part clean) (parts rel))"

definition should_exclude_path :: "string \<Rightarrow> string \<Rightarrow> string list \<Rightarrow> bool \<Rightarrow> bool" where
  "should_exclude_path path_s root_s patterns ignore_exclusions =
     (if ignore_exclusions then False
      else let p = mk_path path_s in
           case (if absolute p then relative_below p (mk_path root_s) else Some p) of
             None \<Rightarrow> False
           | Some rel \<Rightarrow> list_ex (pattern_excludes rel) patterns)"

section \<open>The archive\<close>

definition TAR_FATAL_ERROR :: int where "TAR_FATAL_ERROR = 2"

definition CHUNK_SIZE :: nat where "CHUNK_SIZE = 65536"

text \<open>What is outside: how many bytes of a stream are there at a read, the bytes the compressor makes of the chunks and
  the error it ends with, and the time in the name of an archive.\<close>

record archiver =
  az_avail :: "string \<Rightarrow> nat"
  az_compress :: "string list \<Rightarrow> string \<times> exn option"
  az_stamp :: "world \<Rightarrow> string"

text \<open>A read waits for at least one byte and returns at most a chunk; it returns nothing at the end of the stream only.\<close>

function read_chunks :: "(string \<Rightarrow> nat) \<Rightarrow> string \<Rightarrow> string list" where
  "read_chunks avail s =
     (if s = [] then []
      else let k = max 1 (min CHUNK_SIZE (avail s)) in take k s # read_chunks avail (drop k s))"
  by pat_completeness auto
termination
  by (relation "measure (\<lambda>(avail, s). length s)") (auto simp: max_def)

declare read_chunks.simps [simp del]

definition stream_to_zstd :: "host \<Rightarrow> archiver \<Rightarrow> string \<Rightarrow> path \<Rightarrow> unit io" where
  "stream_to_zstd H Z stdout archive =
     (let res = az_compress Z (read_chunks (az_avail Z) stdout) in
      andthen (write_text H archive [])
     (andthen (write_text H archive (fst res))
        (case snd res of None \<Rightarrow> ret () | Some e \<Rightarrow> raise e)))"

definition tar_command :: "path \<Rightarrow> string list \<Rightarrow> string list" where
  "tar_command root exclusion_patterns =
     [''tar'', ''-cf'', ''-'', ''--ignore-failed-read'', ''--warning=no-file-changed'']
     @ concat (map (\<lambda>pattern. [''--exclude'', pattern]) exclusion_patterns)
     @ [''-C'', path_str (parent root), path_name root]"

definition archive_file :: "path \<Rightarrow> string \<Rightarrow> string option \<Rightarrow> path option \<Rightarrow> path" where
  "archive_file root stamp output_filename output_dir =
     (let out_dir = (case output_dir of None \<Rightarrow> parent root | Some d \<Rightarrow> d);
          generated = path_name root @ ''-'' @ stamp;
          base_name = (case output_filename of None \<Rightarrow> generated | Some n \<Rightarrow> if n = [] then generated else n)
      in p_sub out_dir (base_name @ ''.tar.zst''))"

fun is_exception :: "exn \<Rightarrow> bool" where
  "is_exception (SystemExit _) = False"
| "is_exception _ = True"

text \<open>A \<open>tar\<close> that is not on the search path is the \<open>FileNotFoundError\<close> of its start.\<close>

definition create_archive :: "host \<Rightarrow> archiver \<Rightarrow> path \<Rightarrow> string option \<Rightarrow> string list option \<Rightarrow> bool \<Rightarrow> path option \<Rightarrow> path io" where
  "create_archive H Z root_dir output_filename exclusion_patterns ignore_exclusions output_dir =
     (let root = resolve (h_cwd H) root_dir;
          patterns = (case exclusion_patterns of None \<Rightarrow> [] | Some ps \<Rightarrow> ps) in
      bnd (asks (\<lambda>w. p_exists H w root)) (\<lambda>there.
      if \<not> there then raise (ArchiveError (''Source directory does not exist: '' @ path_str root))
      else bnd (asks (\<lambda>w. archive_file root (az_stamp Z w) output_filename output_dir)) (\<lambda>archive.
           bnd (asks (\<lambda>w. h_which H w ''tar'')) (\<lambda>tar.
           if tar = None then raise (ArchiveError ''tar command not found'')
           else bnd (run_raw H (plain_call (tar_command root patterns))) (\<lambda>r.
             case r of
               Exit rc stdout stderr \<Rightarrow>
                 andthen (catch is_exception (stream_to_zstd H Z stdout archive)
                            (\<lambda>e. raise (ArchiveError (''Archive creation failed: '' @ h_str H e))))
                   (if rc = TAR_FATAL_ERROR then raise (ArchiveError (''tar failed: '' @ stderr)) else ret archive)
             | RunTimeout \<Rightarrow> raise TimeoutExpired
             | RunOSError m \<Rightarrow> raise (OSError m))))))"

section \<open>The language of a pattern\<close>

text \<open>The texts a token stands for, and those of a sequence of tokens.\<close>

fun token_lang :: "glob_token \<Rightarrow> string set" where
  "token_lang GStar = UNIV"
| "token_lang t = {[c] | c. token_char t c}"

fun glob_lang :: "glob_token list \<Rightarrow> string set" where
  "glob_lang [] = {[]}"
| "glob_lang (t # ts) = {x @ y | x y. x \<in> token_lang t \<and> y \<in> glob_lang ts}"

lemma token_lang_char: "t \<noteq> GStar \<Longrightarrow> token_lang t = {[c] | c. token_char t c}"
  by (cases t) auto

lemma char_lang_Cons: "t \<noteq> GStar \<Longrightarrow> c # s \<in> glob_lang (t # ts) \<longleftrightarrow> token_char t c \<and> s \<in> glob_lang ts"
  by (auto simp: token_lang_char) (metis append_Cons append_Nil)

lemma star_lang_Cons: "c # s \<in> glob_lang (GStar # ts) \<longleftrightarrow> c # s \<in> glob_lang ts \<or> s \<in> glob_lang (GStar # ts)"
proof
  assume "c # s \<in> glob_lang (GStar # ts)"
  then obtain x y where "c # s = x @ y" "y \<in> glob_lang ts" by auto
  then show "c # s \<in> glob_lang ts \<or> s \<in> glob_lang (GStar # ts)" by (cases x) auto
next
  have "y \<in> glob_lang ts \<Longrightarrow> c # x @ y \<in> glob_lang (GStar # ts)" for x y
    by (metis (mono_tags, lifting) Cons_eq_appendI UNIV_I glob_lang.simps(2) mem_Collect_eq token_lang.simps(1))
  moreover have "y \<in> glob_lang ts \<Longrightarrow> y \<in> glob_lang (GStar # ts)" for y
    by (auto intro: exI [of _ "[]"])
  ultimately show "c # s \<in> glob_lang ts \<or> s \<in> glob_lang (GStar # ts) \<Longrightarrow> c # s \<in> glob_lang (GStar # ts)"
    by auto
qed

lemma match_tokens_lang: "match_tokens ts s \<longleftrightarrow> s \<in> glob_lang ts"
proof (induction ts s rule: match_tokens.induct)
  case (1 s)
  then show ?case by simp
next
  case (2 t ts s)
  show ?case
  proof (cases "t = GStar")
    case True
    with 2 show ?thesis
      by (cases s) (auto simp: match_tokens.simps(2) star_lang_Cons simp del: glob_lang.simps(2), auto)
  next
    case False
    with 2 have "match_tokens (t # ts) s \<longleftrightarrow> (case s of [] \<Rightarrow> False | c # s' \<Rightarrow> token_char t c \<and> s' \<in> glob_lang ts)"
      by (cases s) (auto simp: match_tokens.simps(2))
    also have "\<dots> \<longleftrightarrow> s \<in> glob_lang (t # ts)"
      using False by (cases s) (simp_all add: char_lang_Cons token_lang_char del: glob_lang.simps(2), simp add: token_lang_char)
    finally show ?thesis .
  qed
qed

section \<open>Reading a stream\<close>

lemma read_chunks_concat: "concat (read_chunks avail s) = s"
proof (induction avail s rule: read_chunks.induct)
  case (1 avail s)
  show ?case
  proof (cases "s = []")
    case False
    with 1 show ?thesis by (simp add: read_chunks.simps [of avail s] Let_def)
  qed (subst read_chunks.simps, simp)
qed

lemma read_chunks_sizes: "list_all (\<lambda>c. c \<noteq> [] \<and> length c \<le> CHUNK_SIZE) (read_chunks avail s)"
proof (induction avail s rule: read_chunks.induct)
  case (1 avail s)
  have "(1::nat) \<le> CHUNK_SIZE" by (simp add: CHUNK_SIZE_def)
  show ?case
  proof (cases "s = []")
    case False
    with 1 \<open>1 \<le> CHUNK_SIZE\<close> show ?thesis by (auto simp: read_chunks.simps [of avail s] Let_def)
  qed (subst read_chunks.simps, simp)
qed

section \<open>Properties\<close>

text \<open>The matcher decides membership in the language of the pattern, the concatenation of what its tokens stand for:
  a star for every text, any other token for one of its characters.\<close>

theorem fnmatch_decides_its_language:
  "fnmatch name pattern \<longleftrightarrow> name \<in> glob_lang (glob_tokens pattern)"
  by (simp add: fnmatch_def match_tokens_lang)

text \<open>C36: an archive that is returned holds what the compressor made of the whole output of \<open>tar\<close>, cut into chunks that
  are not empty, no longer than the buffer, and lose nothing; and \<open>tar\<close> did not end with its fatal status.\<close>

theorem archive_holds_the_whole_stream:
  "case create_archive H Z root_dir name patterns ignore_exclusions dir w of
     (Inl _, _) \<Rightarrow> True
   | (Inr archive, w') \<Rightarrow>
       let ps = (case patterns of None \<Rightarrow> [] | Some ps \<Rightarrow> ps) in
       case r_result (h_run H (plain_call (tar_command (resolve (h_cwd H) root_dir) ps)) w) of
         Exit rc stdout _ \<Rightarrow>
           rc \<noteq> TAR_FATAL_ERROR \<and>
           at H w' archive = Some (File (Text (fst (az_compress Z (read_chunks (az_avail Z) stdout))))) \<and>
           snd (az_compress Z (read_chunks (az_avail Z) stdout)) = None \<and>
           concat (read_chunks (az_avail Z) stdout) = stdout \<and>
           list_all (\<lambda>c. c \<noteq> [] \<and> length c \<le> CHUNK_SIZE) (read_chunks (az_avail Z) stdout)
       | _ \<Rightarrow> False"
proof -
  define ps where "ps = (case patterns of None \<Rightarrow> [] | Some ps \<Rightarrow> ps)"
  have stream: "wp (stream_to_zstd H Z so archive)
      (\<lambda>_ w'. at H w' archive = Some (File (Text (fst (az_compress Z (read_chunks (az_avail Z) so))))) \<and>
         snd (az_compress Z (read_chunks (az_avail Z) so)) = None) (\<lambda>_ _. True) v" for so archive v
    by (auto simp: stream_to_zstd_def Let_def wps is_dir_def split: option.split)
  have "wp (create_archive H Z root_dir name patterns ignore_exclusions dir)
     (\<lambda>archive w'. case r_result (h_run H (plain_call (tar_command (resolve (h_cwd H) root_dir) ps)) w) of
         Exit rc stdout _ \<Rightarrow>
           rc \<noteq> TAR_FATAL_ERROR \<and>
           at H w' archive = Some (File (Text (fst (az_compress Z (read_chunks (az_avail Z) stdout))))) \<and>
           snd (az_compress Z (read_chunks (az_avail Z) stdout)) = None
       | _ \<Rightarrow> False) (\<lambda>_ _. True) w"
    unfolding create_archive_def Let_def ps_def [symmetric]
    by (auto simp: wps split: outcome.split intro!: wp_mono [OF stream])
  then show ?thesis
    by (auto simp: wp_def Let_def ps_def [symmetric] read_chunks_concat read_chunks_sizes split: prod.splits sum.splits outcome.splits)
qed

text \<open>The flag that promises to include every file is not read: the patterns are passed to \<open>tar\<close> whatever it says.\<close>

lemma ignore_flag_is_not_read:
  "create_archive H Z root_dir name patterns True dir = create_archive H Z root_dir name patterns False dir"
  by (simp add: create_archive_def)

text \<open>A pattern that names a directory leaves out the directory, but by this test not what is below it.\<close>

lemma exclusion_is_not_inherited:
  "should_exclude_path ''a/b'' ''/r'' [''a/b/''] False" "\<not> should_exclude_path ''a/b/c'' ''/r'' [''a/b/''] False"
  by code_simp+

end
