(* ===== verification/BannerArt.thy ===== *)
theory BannerArt
  imports Values Paths
begin

text \<open>
  \<open>workspace/utils/banner.py\<close>: the version of the project from its \<open>pyproject.toml\<close> and the lines of the banner with
  it. The TOML reader, the drawing of a text (the package \<open>art\<close>) and the directory of the module are arguments.
\<close>

record art_env =
  ar_toml :: "string \<Rightarrow> exn + ymap"
  ar_show :: "yaml \<Rightarrow> string"
  ar_draw :: "string \<Rightarrow> string \<Rightarrow> exn + string"
  ar_dir :: path

definition find_pyproject :: "host \<Rightarrow> path \<Rightarrow> path io" where
  "find_pyproject H start =
     bnd (asks (\<lambda>w. find_first (is_file H w) (map (\<lambda>d. child d ''pyproject.toml'') (up_dirs start)))) (\<lambda>found.
       case found of Some candidate \<Rightarrow> ret candidate | None \<Rightarrow> raise (FileNotFoundError ''pyproject.toml not found''))"

text \<open>\<open>str(data["project"]["version"])\<close>\<close>

definition project_version :: "(yaml \<Rightarrow> string) \<Rightarrow> ymap \<Rightarrow> exn + string" where
  "project_version show data =
     (case map_of data (YStr ''project'') of
        None \<Rightarrow> Inl (KeyError ''project'')
      | Some project \<Rightarrow>
          (case as_map project of
             None \<Rightarrow> Inl (TypeError ''indices must be integers'')
           | Some m \<Rightarrow> y_item show m ''version''))"

definition get_project_version :: "host \<Rightarrow> art_env \<Rightarrow> path option \<Rightarrow> string io" where
  "get_project_version H A project_root =
     (let start = (case project_root of None \<Rightarrow> ar_dir A | Some p \<Rightarrow> p) in
      bnd (find_pyproject H start) (\<lambda>pyproject.
      bnd (read_text H pyproject) (\<lambda>t.
      bnd (lift_sum (ar_toml A t)) (\<lambda>data. lift_sum (project_version (ar_show A) data)))))"

text \<open>The lines without white space at their ends, and without the empty ones at the end.\<close>

definition art_rows :: "string \<Rightarrow> string list" where
  "art_rows raw = rev (dropWhile (\<lambda>l. l = []) (rev (map rstrip (splitlines raw))))"

definition generate_banner_text :: "host \<Rightarrow> art_env \<Rightarrow> string \<Rightarrow> path option \<Rightarrow> string io" where
  "generate_banner_text H A font project_root =
     bnd (get_project_version H A project_root) (\<lambda>version.
     bnd (lift_sum (ar_draw A font (''[w]orkspace v'' @ version))) (\<lambda>raw. ret (join nl (art_rows raw))))"

definition generate_banner_lines :: "host \<Rightarrow> art_env \<Rightarrow> string \<Rightarrow> path option \<Rightarrow> string list io" where
  "generate_banner_lines H A font project_root =
     bnd (generate_banner_text H A font project_root) (\<lambda>t. ret (splitlines t))"

text \<open>The value after the first \<open>--project-root\<close> of the arguments, if there is one.\<close>

fun root_argument :: "string list \<Rightarrow> string option" where
  "root_argument [] = None"
| "root_argument (a # as) =
     (if a = ''--project-root'' then (case as of [] \<Rightarrow> None | v # _ \<Rightarrow> Some v) else root_argument as)"

definition banner_art_main :: "host \<Rightarrow> art_env \<Rightarrow> string list \<Rightarrow> unit io" where
  "banner_art_main H A argv =
     bnd (generate_banner_text H A ''small'' (map_option (\<lambda>v. resolve (h_cwd H) (mk_path v)) (root_argument argv))) print_out"

section \<open>The rows of a banner\<close>

lemma lines_from_end: "no_breaks x \<Longrightarrow> rev acc @ x \<noteq> [] \<Longrightarrow> lines_from acc x = [rev acc @ x]"
proof (induction acc x rule: lines_from.induct)
  case (3 acc c d s)
  then show ?case by (simp add: no_breaks_def)
qed (auto simp: no_breaks_def)

lemma splitlines_join_nl: "xs \<noteq> [] \<Longrightarrow> last xs \<noteq> [] \<Longrightarrow> list_all no_breaks xs \<Longrightarrow> splitlines (join nl xs) = xs"
proof (induction xs)
  case (Cons x xs)
  show ?case
  proof (cases "xs = []")
    case True
    with Cons.prems show ?thesis by (simp add: splitlines_def lines_from_end)
  next
    case False
    have "splitlines (x @ newline # join nl xs) = x # splitlines (join nl xs)"
      using Cons.prems by (simp add: splitlines_def lines_from_single no_breaks_def)
    moreover have "join nl (x # xs) = x @ newline # join nl xs"
      using False by (simp add: join_Cons nl_def newline_def)
    ultimately show ?thesis using Cons False by simp
  qed
qed simp

lemma rstrip_subset: "set (rstrip s) \<subseteq> set s"
proof -
  have "set (strip_left t) \<subseteq> set t" for t by (induction t) auto
  then show ?thesis by (metis rstrip_def set_rev)
qed

lemma no_breaks_rstrip: "no_breaks s \<Longrightarrow> no_breaks (rstrip s)"
  using rstrip_subset [of s] by (auto simp: no_breaks_def)

lemma rstrip_idem: "rstrip (rstrip s) = rstrip s"
  by (simp add: rstrip_def)

lemma art_rows_clean:
  "list_all (\<lambda>l. no_breaks l \<and> rstrip l = l) (art_rows raw)"
proof -
  have "l \<in> set (art_rows raw) \<Longrightarrow> \<exists>k \<in> set (splitlines raw). l = rstrip k" for l
    unfolding art_rows_def set_rev by (drule set_dropWhileD) auto
  then show ?thesis
    by (force simp: list_all_iff no_breaks_rstrip rstrip_idem dest: splitlines_no_breaks)
qed

lemma art_rows_last: "art_rows raw \<noteq> [] \<Longrightarrow> last (art_rows raw) \<noteq> []"
  using hd_dropWhile [of "\<lambda>l. l = []" "rev (map rstrip (splitlines raw))"]
  by (simp add: art_rows_def last_rev del: dropWhile_eq_Nil_conv)

lemma art_rows_split: "splitlines (join nl (art_rows raw)) = art_rows raw"
proof (cases "art_rows raw = []")
  case False
  then show ?thesis
    using art_rows_clean [of raw] by (intro splitlines_join_nl) (auto simp: art_rows_last list_all_iff)
qed (simp add: splitlines_def)

text \<open>The banner as lines is the banner as text, line by line: joining the rows and splitting them again loses nothing,
  no row ends in white space, and the last one is not empty.\<close>

theorem banner_lines_are_the_rows:
  "case generate_banner_lines H A font project_root w of
     (Inl _, _) \<Rightarrow> True
   | (Inr ls, w') \<Rightarrow>
       generate_banner_text H A font project_root w = (Inr (join nl ls), w') \<and>
       list_all (\<lambda>l. rstrip l = l) ls \<and> (if ls = [] then True else last ls \<noteq> [])"
proof -
  have "\<exists>raw. generate_banner_text H A font project_root w = (Inr (join nl (art_rows raw)), w')"
    if "generate_banner_text H A font project_root w = (Inr t, w')" for t w'
    using that
    by (auto simp: generate_banner_text_def bnd_def ret_def split: prod.splits sum.splits)
  then show ?thesis
    using art_rows_clean art_rows_last
    by (fastforce simp: generate_banner_lines_def bnd_def ret_def art_rows_split list_all_iff split: prod.splits sum.splits)
qed

end
