(* ===== verification/Prototypes.thy ===== *)
theory Prototypes
  imports Values Storage
begin

text \<open>
  The two programs of \<open>workspace/scripts/utils/prototypes\<close>: \<open>git_examiner.py\<close>, a menu over the last commits, and
  \<open>pdf_extractor.py\<close>. The user of the menu is the list of the answers of each round, after which every dialog is
  cancelled; what the console makes of marked-up text, and the reader of a PDF document, are arguments.
\<close>

section \<open>Commits\<close>

record git_commit =
  gc_hash :: string
  gc_author :: string
  gc_date :: string
  gc_msg :: string

record examiner =
  ge_markup :: "string \<Rightarrow> string"
  ge_clear :: string

definition console_print :: "examiner \<Rightarrow> string \<Rightarrow> unit io" where
  "console_print G s = print_out (ge_markup G s)"

definition EXPECTED_GIT_LOG_PARTS :: nat where "EXPECTED_GIT_LOG_PARTS = 4"

text \<open>\<open>s.split(c, n)\<close>: at most \<open>n\<close> cuts.\<close>

fun split_max :: "nat \<Rightarrow> char \<Rightarrow> string \<Rightarrow> string list" where
  "split_max 0 c s = [s]"
| "split_max (Suc n) c s =
     (if c \<in> set s then takeWhile (\<lambda>x. x \<noteq> c) s # split_max n c (tl (dropWhile (\<lambda>x. x \<noteq> c) s)) else [s])"

definition commit_of_line :: "string \<Rightarrow> git_commit list" where
  "commit_of_line line =
     (if CHR ''|'' \<in> set line then
        (case split_max 3 (CHR ''|'') line of
           [h, a, d, m] \<Rightarrow> [\<lparr>gc_hash = h, gc_author = a, gc_date = d, gc_msg = m\<rparr>]
         | _ \<Rightarrow> [])
      else [])"

definition commits_of :: "string \<Rightarrow> git_commit list" where
  "commits_of result = concat (map commit_of_line (splitlines result))"

definition git_failure :: "exn \<Rightarrow> bool" where
  "git_failure e \<longleftrightarrow> is_os_error e \<or> is_called_process_error e"

definition log_command :: "int \<Rightarrow> string list" where
  "log_command limit = [''git'', ''log'', ''-n'', show_int limit, ''--pretty=format:%h|%an|%ar|%s'']"

definition get_commits :: "host \<Rightarrow> examiner \<Rightarrow> int \<Rightarrow> git_commit list io" where
  "get_commits H G limit =
     catch git_failure
       (bnd (run_checked H (plain_call (log_command limit))) (\<lambda>r. ret (commits_of (fst r))))
       (\<lambda>e. andthen (console_print G (''[red]Error fetching commits: '' @ h_str H e @ ''[/red]'')) (ret []))"

definition get_diff :: "host \<Rightarrow> string \<Rightarrow> string io" where
  "get_diff H commit_hash =
     catch git_failure
       (bnd (run_checked H (plain_call [''git'', ''show'', commit_hash])) (\<lambda>r. ret (fst r)))
       (\<lambda>e. ret (''Error fetching diff: '' @ h_str H e))"

definition head_call :: call where
  "head_call = plain_call [''git'', ''rev-parse'', ''--short'', ''HEAD'']"

definition amend_call :: "string \<Rightarrow> call" where
  "amend_call message = plain_call [''git'', ''commit'', ''--amend'', ''-m'', message]"

text \<open>The \<open>else\<close> branch of the \<open>try\<close> is outside the reach of its \<open>except\<close>; printing does not fail here.\<close>

definition reword_commit :: "host \<Rightarrow> examiner \<Rightarrow> string \<Rightarrow> string \<Rightarrow> bool io" where
  "reword_commit H G commit_hash new_message =
     catch git_failure
       (bnd (run_checked H head_call) (\<lambda>r.
          if commit_hash = strip (fst r) then bnd (run_checked H (amend_call new_message)) (\<lambda>_. ret True)
          else andthen (console_print G ''[yellow]Rewording older commits requires rebase. Not implemented.[/yellow]'') (ret False)))
       (\<lambda>e. andthen (console_print G (''[red]Failed to reword: '' @ h_str H e @ ''[/red]'')) (ret False))"

definition analyze_diff :: "host \<Rightarrow> string \<Rightarrow> string \<Rightarrow> path io" where
  "analyze_diff H commit_hash diff_text =
     (let output_dir = mk_path ''output/metadata''; file_path = p_sub output_dir (commit_hash @ ''.md'') in
      andthen (mkdir_parents H output_dir)
     (andthen (write_text H file_path
                (''# Commit Analysis: '' @ commit_hash @ nl @ nl @ ''## Raw Diff'' @ nl @ nl @ ''```diff'' @ nl @ diff_text
                 @ nl @ ''```'' @ nl))
        (ret file_path)))"

section \<open>The menu\<close>

text \<open>The answers of one round; \<open>None\<close> is a cancelled dialog.\<close>

record round_answers =
  ra_select :: "string option"
  ra_action :: "string option"
  ra_message :: "string option"

definition choice_of :: "git_commit \<Rightarrow> string" where
  "choice_of c = gc_hash c @ '' - '' @ gc_msg c @ '' ('' @ gc_author c @ '', '' @ gc_date c @ '')''"

definition commit_action :: "host \<Rightarrow> examiner \<Rightarrow> round_answers \<Rightarrow> string \<Rightarrow> string \<Rightarrow> unit io" where
  "commit_action H G r commit_hash diff =
     (if ra_action r = Some ''View Diff'' then console_print G diff
      else if ra_action r = Some ''Analyze (Save to MD)''
      then bnd (analyze_diff H commit_hash diff) (\<lambda>p. console_print G (''[green]Analysis saved to '' @ path_str p @ ''[/green]''))
      else if ra_action r = Some ''Reword Message''
      then (case ra_message r of
              None \<Rightarrow> ret ()
            | Some m \<Rightarrow>
                if m = [] then ret ()
                else bnd (reword_commit H G commit_hash m) (\<lambda>ok.
                     when_io ok (console_print G ''[green]Message updated successfully.[/green]'')))
      else ret ())"

fun examiner_main :: "host \<Rightarrow> examiner \<Rightarrow> round_answers list \<Rightarrow> unit io" where
  "examiner_main H G rounds =
     bnd (get_commits H G 30) (\<lambda>commits.
     if commits = [] then console_print G ''[red]No commits found.[/red]''
     else case rounds of
            [] \<Rightarrow> ret ()
          | r # rs \<Rightarrow>
              (case ra_select r of
                 None \<Rightarrow> ret ()
               | Some selected \<Rightarrow>
                   if selected = ''Exit'' \<or> selected = [] then ret ()
                   else let commit_hash = hd (split_on (CHR '' '') selected) in
                        bnd (get_diff H commit_hash) (\<lambda>diff.
                        andthen (print_out (ge_clear G))
                       (andthen (console_print G (''[bold blue]Commit: '' @ commit_hash @ ''[/bold blue]''))
                       (andthen (commit_action H G r commit_hash diff) (examiner_main H G rs))))))"

declare examiner_main.simps [simp del]

section \<open>PDF documents\<close>

record pdf_doc =
  pd_pages :: nat
  pd_text :: "nat \<Rightarrow> exn + string"
  pd_images :: "nat \<Rightarrow> int list"
  pd_extract :: "int \<Rightarrow> exn + (string \<times> string)"

record pdf_env =
  pf_open :: "world \<Rightarrow> path \<Rightarrow> exn + pdf_doc"
  pf_data_error :: "exn \<Rightarrow> bool"

fun is_key_error :: "exn \<Rightarrow> bool" where
  "is_key_error (KeyError _) = True"
| "is_key_error _ = False"

text \<open>The indices of the pages from the first to the last one asked for, counted from one.\<close>

definition start_index :: "int \<Rightarrow> int" where
  "start_index start_page = max 0 (start_page - 1)"

definition end_index :: "nat \<Rightarrow> int option \<Rightarrow> int" where
  "end_index total_pages end_page = (case end_page of None \<Rightarrow> int total_pages | Some e \<Rightarrow> min (int total_pages) e)"

definition page_indices :: "nat \<Rightarrow> int \<Rightarrow> int option \<Rightarrow> nat list" where
  "page_indices total_pages start_page end_page = [nat (start_index start_page)..<nat (end_index total_pages end_page)]"

definition extract_image :: "host \<Rightarrow> pdf_env \<Rightarrow> pdf_doc \<Rightarrow> path \<Rightarrow> nat \<Rightarrow> nat \<times> int \<Rightarrow> unit io" where
  "extract_image H F doc images_dir page_num = (\<lambda>(img_num, xref).
     catch (\<lambda>e. is_key_error e \<or> is_os_error e \<or> pf_data_error F e)
       (bnd (lift_sum (pd_extract doc xref)) (\<lambda>base_image.
          write_text H (p_sub images_dir (''page_'' @ show_nat page_num @ ''_img_'' @ show_nat img_num @ ''.'' @ snd base_image))
            (fst base_image)))
       (\<lambda>e. print_out (''  [Warning] Image '' @ show_nat img_num @ '' on page '' @ show_nat page_num @ '': '' @ h_str H e)))"

definition extract_page :: "host \<Rightarrow> pdf_env \<Rightarrow> pdf_doc \<Rightarrow> path \<Rightarrow> path \<Rightarrow> nat \<Rightarrow> unit io" where
  "extract_page H F doc path_output images_dir i =
     (let page_num = i + 1; images = pd_images doc i in
      bnd (lift_sum (pd_text doc i)) (\<lambda>t.
      andthen (write_text H (child path_output (''page_'' @ show_nat page_num @ ''.txt'')) t)
        (each (extract_image H F doc images_dir page_num) (zip [1..<Suc (length images)] images))))"

definition extract_pdf_content :: "host \<Rightarrow> pdf_env \<Rightarrow> string \<Rightarrow> string \<Rightarrow> int \<Rightarrow> int option \<Rightarrow> unit io" where
  "extract_pdf_content H F pdf_path output_dir start_page end_page =
     (let path_pdf = mk_path pdf_path; path_output = mk_path output_dir; images_dir = child path_output ''images'' in
      bnd (asks (\<lambda>w. p_exists H w path_pdf)) (\<lambda>there.
      if \<not> there then print_out (''Error: Input file '' @ quoted (path_str path_pdf) @ '' not found.'')
      else andthen (mkdir_parents H path_output)
          (andthen (mkdir_parents H images_dir)
          (andthen (print_out (''Opening '' @ path_str path_pdf @ ''...''))
          (bnd (catch (\<lambda>e. is_os_error e \<or> pf_data_error F e)
                  (bnd get_world (\<lambda>w. bnd (lift_sum (pf_open F w path_pdf)) (\<lambda>doc. ret (Some doc))))
                  (\<lambda>e. andthen (print_out (''Error opening PDF: '' @ h_str H e)) (ret None))) (\<lambda>opened.
           case opened of
             None \<Rightarrow> ret ()
           | Some doc \<Rightarrow>
               andthen (print_out (''Document has '' @ show_nat (pd_pages doc) @ '' pages.''))
                 (if start_index start_page \<ge> int (pd_pages doc)
                  then print_out (''Start page '' @ show_int start_page @ '' is beyond the document end.'')
                  else andthen (print_out (''Processing pages '' @ show_int (start_index start_page + 1) @ '' to ''
                                 @ show_int (end_index (pd_pages doc) end_page) @ ''...''))
                      (andthen (each (extract_page H F doc path_output images_dir) (page_indices (pd_pages doc) start_page end_page))
                         (print_out (''Extraction complete. Results saved in '' @ quoted (path_str path_output) @ ''.''))))))))))"

section \<open>Properties\<close>

text \<open>A line of the log, as the format of \<open>git log\<close> asks for it.\<close>

definition log_line :: "git_commit \<Rightarrow> string" where
  "log_line c = gc_hash c @ ''|'' @ gc_author c @ ''|'' @ gc_date c @ ''|'' @ gc_msg c"

definition clean_commit :: "git_commit \<Rightarrow> bool" where
  "clean_commit c \<longleftrightarrow> CHR ''|'' \<notin> set (gc_hash c @ gc_author c @ gc_date c) \<and> no_breaks (log_line c)"

lemma split_max_sep: "c \<notin> set x \<Longrightarrow> split_max (Suc n) c (x @ c # s) = x # split_max n c s"
  by (simp add: takeWhile_tail) (metis (mono_tags, lifting) dropWhile_append2 dropWhile.simps(2) list.sel(3) takeWhile_append2 takeWhile_tail)

lemma commit_of_log_line: "clean_commit c \<Longrightarrow> commit_of_line (log_line c) = [c]"
proof -
  assume "clean_commit c"
  then have "split_max 3 (CHR ''|'') (log_line c) = [gc_hash c, gc_author c, gc_date c, gc_msg c]"
    by (simp add: clean_commit_def log_line_def numeral_3_eq_3 split_max_sep del: split_max.simps(2))
  then show ?thesis by (simp add: commit_of_line_def) (simp add: log_line_def)
qed

lemma log_read_back: "list_all clean_commit cs \<Longrightarrow> commits_of (unlines (map log_line cs)) = cs"
proof -
  assume clean: "list_all clean_commit cs"
  then have "splitlines (unlines (map log_line cs)) = map log_line cs"
    by (intro splitlines_join) (auto simp: list_all_iff clean_commit_def)
  moreover have "concat (map commit_of_line (map log_line cs)) = cs"
    using clean by (induction cs) (simp_all add: commit_of_log_line)
  ultimately show ?thesis by (simp add: commits_of_def)
qed

interpretation git_log: text_codec "\<lambda>cs. unlines (map log_line cs)" "\<lambda>t. Inr (commits_of t)" "list_all clean_commit"
  by unfold_locales (simp add: log_read_back)

text \<open>The commits that are read from the log are those it was written for, when no field but the message contains the
  separator and none a line break.\<close>

theorem log_is_read_back:
  assumes "list_all clean_commit cs"
  shows "commits_of (unlines (map log_line cs)) = cs"
  by (rule log_read_back [OF assms])

theorem log_is_read_back_witness:
  "commits_of (unlines (map log_line [\<lparr>gc_hash = ''a1'', gc_author = ''me'', gc_date = ''now'', gc_msg = ''fix | all''\<rparr>])) =
     [\<lparr>gc_hash = ''a1'', gc_author = ''me'', gc_date = ''now'', gc_msg = ''fix | all''\<rparr>]"
  by (rule log_is_read_back) (simp add: clean_commit_def log_line_def no_breaks_def is_line_break_def)

text \<open>An author with the separator in the name shifts the fields.\<close>

lemma separator_in_a_name:
  "commits_of ''a1|me|myself|now|fix'' = [\<lparr>gc_hash = ''a1'', gc_author = ''me'', gc_date = ''myself'', gc_msg = ''now|fix''\<rparr>]"
  by code_simp

text \<open>The menu recovers the hash from the line that was chosen.\<close>

lemma choice_has_its_hash: "CHR '' '' \<notin> set (gc_hash c) \<Longrightarrow> hd (split_on (CHR '' '') (choice_of c)) = gc_hash c"
  by (simp add: choice_of_def split_on_append_sep)

text \<open>A commit is amended exactly when it is the head that \<open>git rev-parse\<close> printed; in every other case nothing but that
  question is asked.\<close>

theorem only_the_head_is_amended:
  "requests (snd (reword_commit H G commit_hash message w)) =
     requests w @ Run head_call #
       (case r_result (h_run H head_call w) of
          Exit rc so _ \<Rightarrow> if rc = 0 \<and> commit_hash = strip so then [Run (amend_call message)] else []
        | _ \<Rightarrow> [])"
proof -
  let ?rs = "requests w @ Run head_call #
       (case r_result (h_run H head_call w) of
          Exit rc so _ \<Rightarrow> if rc = 0 \<and> commit_hash = strip so then [Run (amend_call message)] else [] | _ \<Rightarrow> [])"
  have "wp (reword_commit H G commit_hash message) (\<lambda>_ w'. requests w' = ?rs) (\<lambda>_ w'. requests w' = ?rs) w"
    unfolding reword_commit_def run_checked_def console_print_def
    by (auto simp: wps split: outcome.split)
  then show ?thesis by (auto simp: wp_def split: prod.splits sum.splits)
qed

text \<open>Whatever is answered, the menu runs nothing but four commands of \<open>git\<close>.\<close>

definition examiner_command :: "request \<Rightarrow> bool" where
  "examiner_command q =
     (case q of
        Run c \<Rightarrow> (case c_argv c of
            g # cmd # _ \<Rightarrow> g = ''git'' \<and> cmd \<in> {''log'', ''show'', ''rev-parse'', ''commit''} | _ \<Rightarrow> False)
      | _ \<Rightarrow> False)"

lemma emits_examiner_steps:
  "emits examiner_command (get_commits H G n)" "emits examiner_command (get_diff H h)"
  "emits examiner_command (commit_action H G r h d)"
proof -
  have "emits examiner_command (reword_commit H G h m)" for h m
    unfolding reword_commit_def console_print_def
    by (intro emits_intros) (simp_all add: examiner_command_def plain_call_def head_call_def amend_call_def)
  then show "emits examiner_command (commit_action H G r h d)"
    unfolding commit_action_def analyze_diff_def Let_def console_print_def by (intro emits_intros)
  show "emits examiner_command (get_commits H G n)" "emits examiner_command (get_diff H h)"
    unfolding get_commits_def get_diff_def console_print_def
    by (intro emits_intros, simp_all add: examiner_command_def plain_call_def log_command_def)+
qed

lemma examiner_runs_git: "emits examiner_command (examiner_main H G rounds)"
proof (induction rounds)
  case Nil
  show ?case
    unfolding examiner_main.simps [of H G "[]"] list.case console_print_def by (intro emits_intros emits_examiner_steps)
next
  case (Cons r rs)
  show ?case
    unfolding examiner_main.simps [of H G "r # rs"] list.case Let_def console_print_def
    by (intro emits_intros emits_examiner_steps Cons)
qed

text \<open>The pages that are extracted, counted from one: those between the bounds that the document has.\<close>

lemma pages_between_the_bounds:
  "i \<in> set (page_indices n from_page to_page) \<longleftrightarrow>
     from_page \<le> int i + 1 \<and> i < n \<and> (case to_page of None \<Rightarrow> True | Some e \<Rightarrow> int i + 1 \<le> e)"
  by (auto simp: page_indices_def start_index_def end_index_def split: option.splits)

lemma extraction_runs_nothing: "emits (\<lambda>_. False) (extract_pdf_content H F p d from_page to_page)"
  unfolding extract_pdf_content_def extract_page_def extract_image_def Let_def by (intro emits_intros)

end
