(* ===== verification/StreamEvents.thy ===== *)
theory StreamEvents
  imports Values
begin

text \<open>
  The records of \<open>workspace/types\<close> that carry a stream of an agent: \<open>api.py\<close>, \<open>events.py\<close> and \<open>config.py\<close>, with the
  environment of \<open>common.py\<close> that they name. Every class is a record with its defaults, an optional value an option; the
  clock of the time stamps and what a provider is are arguments.
\<close>

section \<open>Metadata\<close>

record process_environment =
  pe_home :: "string option"
  pe_user :: "string option"
  pe_path :: "string option"
  pe_lang :: "string option"
  pe_lc_all :: "string option"
  pe_pythonunbuffered :: "string option"
  pe_force_color :: "string option"
  pe_disable_autoupdater :: "string option"
  pe_term :: "string option"
  pe_shell :: "string option"

definition empty_env :: process_environment where
  "empty_env = \<lparr>pe_home = None, pe_user = None, pe_path = None, pe_lang = None, pe_lc_all = None, pe_pythonunbuffered = None,
     pe_force_color = None, pe_disable_autoupdater = None, pe_term = None, pe_shell = None\<rparr>"

record provider_extra_metadata =
  px_tool_calls :: "int option"
  px_thinking_tokens :: "int option"
  px_cache_hits :: "int option"
  px_api_calls :: "int option"
  px_rate_limit_remaining :: "int option"

definition default_extra :: provider_extra_metadata where
  "default_extra = \<lparr>px_tool_calls = None, px_thinking_tokens = None, px_cache_hits = None, px_api_calls = None,
     px_rate_limit_remaining = None\<rparr>"

record stream_metadata =
  sd_session_id :: "string option"
  sd_model :: "string option"
  sd_provider :: "string option"
  sd_tokens_used :: "int option"
  sd_cost_usd :: "pyfloat option"
  sd_duration_ms :: "int option"
  sd_extra :: provider_extra_metadata

definition default_stream_metadata :: stream_metadata where
  "default_stream_metadata = \<lparr>sd_session_id = None, sd_model = None, sd_provider = None, sd_tokens_used = None,
     sd_cost_usd = None, sd_duration_ms = None, sd_extra = default_extra\<rparr>"

record provider_metadata =
  pm_session_id :: "string option"
  pm_duration :: "pyfloat option"
  pm_exit_code :: "int option"
  pm_model :: "string option"
  pm_tokens :: "int option"
  pm_extra :: provider_extra_metadata

definition default_provider_metadata :: provider_metadata where
  "default_provider_metadata = \<lparr>pm_session_id = None, pm_duration = None, pm_exit_code = None, pm_model = None,
     pm_tokens = None, pm_extra = default_extra\<rparr>"

record provider_response =
  pr_content :: string
  pr_metadata :: "provider_metadata option"

record mcp_server_config =
  mc_name :: string
  mc_command :: string
  mc_args :: "string list"
  mc_env :: process_environment

definition default_mcp_server :: "string \<Rightarrow> mcp_server_config" where
  "default_mcp_server command = \<lparr>mc_name = [], mc_command = command, mc_args = [], mc_env = empty_env\<rparr>"

record stream_event_data =
  ev_output :: string
  ev_metadata :: provider_metadata

section \<open>Events\<close>

datatype stream_event_type = ChunkEvent | MetadataEvent | ErrorEvent | CompleteEvent

fun event_type_value :: "stream_event_type \<Rightarrow> string" where
  "event_type_value ChunkEvent = ''chunk''"
| "event_type_value MetadataEvent = ''metadata''"
| "event_type_value ErrorEvent = ''error''"
| "event_type_value CompleteEvent = ''complete''"

datatype stream_event_payload = TextPayload string | MetadataPayload stream_metadata | DataPayload stream_event_data

record stream_event =
  se_type :: stream_event_type
  se_data :: stream_event_payload
  se_timestamp :: pyfloat

definition new_event :: "(world \<Rightarrow> pyfloat) \<Rightarrow> stream_event_type \<Rightarrow> stream_event_payload \<Rightarrow> stream_event io" where
  "new_event now t d = asks (\<lambda>w. \<lparr>se_type = t, se_data = d, se_timestamp = now w\<rparr>)"

definition chunk_event :: "(world \<Rightarrow> pyfloat) \<Rightarrow> string \<Rightarrow> stream_event io" where
  "chunk_event now content = new_event now ChunkEvent (TextPayload content)"

definition metadata_event :: "(world \<Rightarrow> pyfloat) \<Rightarrow> stream_metadata \<Rightarrow> stream_event io" where
  "metadata_event now meta = new_event now MetadataEvent (MetadataPayload meta)"

definition error_event :: "(world \<Rightarrow> pyfloat) \<Rightarrow> string \<Rightarrow> stream_event io" where
  "error_event now message = new_event now ErrorEvent (TextPayload message)"

definition complete_event :: "(world \<Rightarrow> pyfloat) \<Rightarrow> string \<Rightarrow> provider_metadata \<Rightarrow> stream_event io" where
  "complete_event now output meta = new_event now CompleteEvent (DataPayload \<lparr>ev_output = output, ev_metadata = meta\<rparr>)"

text \<open>The payload that belongs to a type. The class itself does not ask for it.\<close>

fun payload_fits :: "stream_event_type \<Rightarrow> stream_event_payload \<Rightarrow> bool" where
  "payload_fits ChunkEvent (TextPayload _) = True"
| "payload_fits ErrorEvent (TextPayload _) = True"
| "payload_fits MetadataEvent (MetadataPayload _) = True"
| "payload_fits CompleteEvent (DataPayload _) = True"
| "payload_fits _ _ = False"

section \<open>Configuration of an agent\<close>

record 'p agent_config =
  ac_model :: string
  ac_provider :: 'p
  ac_session_id :: "string option"
  ac_allowed_tools :: "string list option"
  ac_enable_hooks :: bool
  ac_enable_streaming :: "bool option"
  ac_timeout :: "int option"
  ac_mcp_servers :: "mcp_server_config list option"
  ac_capture_content :: bool
  ac_stream_callback :: "(stream_event \<Rightarrow> unit io) option"

definition default_agent_config :: "string \<Rightarrow> 'p \<Rightarrow> 'p agent_config" where
  "default_agent_config m p =
     \<lparr>ac_model = m, ac_provider = p, ac_session_id = None, ac_allowed_tools = None, ac_enable_hooks = True,
      ac_enable_streaming = Some False, ac_timeout = Some 180, ac_mcp_servers = None, ac_capture_content = False,
      ac_stream_callback = None\<rparr>"

section \<open>Facts\<close>

text \<open>Every event that a constructor makes has a payload of its type and the time of its making, and making it changes
  nothing.\<close>

lemma events_fit:
  assumes "ev \<in> {chunk_event now c, metadata_event now m, error_event now c, complete_event now c p}"
  shows "\<exists>e. ev w = (Inr e, w) \<and> payload_fits (se_type e) (se_data e) \<and> se_timestamp e = now w"
  using assms by (auto simp: chunk_event_def metadata_event_def error_event_def complete_event_def new_event_def asks_def)

lemma event_type_value_inj: "event_type_value s = event_type_value t \<longleftrightarrow> s = t"
  by (cases s; cases t) simp_all

end
