(* ===== verification/Spec2Isabelle.thy ===== *)
theory Spec2Isabelle
  imports Migration CommandSession QemuProperties GuestEnvironment Bundles HostSetup Registration GpuProbe RepoChecks CliTools LlamaMenu BootstrapMenu VpnClient Sessions Replay Benchmark Archives BannerArt Prototypes StreamEvents
begin

text \<open>
  A model of the Python code of WORKSPACE-VM, with the theorems that make it correct. The program has five parts, and the
  development models them in this order.

  \<^item> The virtual machines (\<open>src/workspace/cli\<close> and \<open>cli/hypervisor\<close>): \<open>workspace-vm\<close> creates,
    starts, stops, provisions, synchronises, exports and destroys isolated machines, over QEMU or podman.
  \<^item> The registered commands (\<open>src/workspace/scripts/shell\<close>): manifests are discovered, validated and resolved, checked
    for health and version, and shown in a banner.
  \<^item> The installers (\<open>src/workspace/scripts\<close>): components, auxiliary host features and the model servers, each with
    a registry, a detection, an execution and a menu; and the client of the workspace's tunnel.
  \<^item> The transcript classifier benchmark (\<open>src/scripts/benchmark/llamafile_transcript_classifier\<close>): recorded sessions
    are replayed against a model server, scored and reported.
  \<^item> The GPU probe of the setup scripts (\<open>src/scripts/setup/lib\<close>).

  \<^bold>\<open>The world.\<close> A Python function that touches the machine is a computation \<open>'a io\<close> (\<open>World\<close>): it takes the
  world and raises an exception of \<open>exn\<close> or returns a value, with the changed world. The world holds the file system, the
  process table, the monotonic clock, the position in the stream of random draws, the two output streams and the log of the
  requests sent to the outside (external commands, QMP commands, \<open>execvp\<close>). What is outside the repository is the record
  \<open>host\<close>, an argument of every operation, about which nothing is assumed: an external command may change files and
  processes, fail in every way and take time; a write of a file may be refused or may fail half way and leave a torn file
  (\<open>h_torn\<close>), and \<open>expanduser\<close> asks the host for the home of a user (\<open>h_home_of\<close>). \<open>except\<close> clauses are \<open>catch\<close> with the classes they name, \<open>finally\<close> is
  \<open>finally_do\<close>, a raise or early return of the source is a branch. Three kinds of statement are proved of computations:
  \<open>wp\<close>, what holds of every outcome; \<open>emits P\<close>, every request satisfies \<open>P\<close>; and \<open>orderly\<close>, the requests are
  some of a plan in its order. Each has rules that follow the structure of the code, collected in \<open>wps\<close> and
  \<open>emits_intros\<close>. \<open>Prelude\<close> has the text operations of Python, \<open>Paths\<close> has \<open>pathlib\<close>, \<open>Values\<close> the documents that
  YAML and JSON readers give, \<open>Argv\<close> the reading of a command line as options, \<open>Demo\<close> a concrete host for the
  witnesses. Texts are ASCII, and where the code measures other characters they are UTF-8 bytes (\<open>InstallerUi\<close>).

  \<^bold>\<open>The virtual machines.\<close>
  \<^item> \<open>VmTypes\<close>: the configuration of \<open>types/vm.py\<close>; a validated configuration is stable under validation.
  \<^item> \<open>VpnCore\<close>, \<open>VmCore\<close>, \<open>Uuid7\<close>: \<open>vpn_core.py\<close>, \<open>vm_core.py\<close>, \<open>uuid_utils.py\<close>; identifiers as bits of a word.
  \<^item> \<open>QemuState\<close>, \<open>QemuArgv\<close>, \<open>QemuResolve\<close>, \<open>QemuImages\<close>, \<open>QemuProvision\<close>, \<open>GuestConfig\<close>: the files
    \<open>qemu_*.py\<close>. The record of a machine is saved beside the old one and then renamed, so a write that fails
    half way leaves the old record; shared directories are read-only; what is written into a guest
    stays below its directories. \<open>GuestEnvironment\<close> follows the environment of a guest from the configuration through the
    script and its here-document to what a model of the shell reads from the file. \<open>Storage\<close> has the
    contracts of what is stored and read back as the locales \<open>text_codec\<close> and \<open>record_store\<close>; the port file, the
    state file, the records of the GPU probe and the log of the commit menu interpret them.
  \<^item> \<open>QemuBackend\<close>, with its facts in \<open>QemuFacts\<close> and its properties in \<open>QemuProperties\<close>: create, start, stop, rebuild,
    destroy, exec and status of \<open>qemu_backend.py\<close>. A stop that returns leaves no process, escalates in order and never signals a
    recycled process identifier; a start is restricted as configured; a destruction removes or archives exactly the machine.
  \<^item> \<open>MachineSession\<close>: sequences of stops, queries and destructions refine the transition system of the phases of a machine.
    \<open>CommandSession\<close> lifts this to the command line: a sequence of \<open>workspace-vm\<close> invocations refines the phases,
    and the commands that only look leave the machine as it is.
  \<^item> \<open>VmBuild\<close>, \<open>PodmanBackend\<close>: the container pipeline and backend. \<open>Backend\<close>: the interface of both, with the laws its
    callers rely on as the locales \<open>isolation_backend\<close> and \<open>stopping_backend\<close>, interpreted on the two implementations; a status tells
    the state of the process, or of the container. The copy of the SSH key that a build uses is gone after it, except where the
    build was never sent to podman.
  \<^item> \<open>VmLifecycle\<close>, \<open>VmAutostart\<close>, \<open>VmSync\<close>, \<open>VmSnapshots\<close> (with \<open>BundleFacts\<close> and \<open>Bundles\<close>) and \<open>VmMain\<close>: the
    commands over a backend and the command line. An exported bundle is complete, and \<open>Migration\<close> composes
    the two commands: an import of what was exported gives the machine with a new life; a synchronisation copies in order.

  \<^bold>\<open>The registered commands.\<close> \<open>VersionCheck\<close> (\<open>run_check.py\<close>), \<open>ExtRegistry\<close> (\<open>extension_registry.py\<close>,
  \<open>version_enforcer.py\<close>), \<open>Banner\<close> (\<open>banner_helper.py\<close>, \<open>banner_log.py\<close>) and \<open>Registration\<close>
  (\<open>register_extensions.py\<close>): version bounds are enforced exactly, names are unique, categories partition the commands, a
  banner only looks and checks, and replacing the stale interpreters of a script a second time changes nothing.

  \<^bold>\<open>The installers.\<close>
  \<^item> \<open>AuxRegistry\<close>, \<open>AuxRun\<close>, \<open>HostSetup\<close>: \<open>bootstrap_aux_defs.py\<close>, \<open>bootstrap_aux.py\<close>, \<open>host_setup_installer.py\<close>.
    The order of a selection respects the dependencies or names a cycle; features run with the privileges of their scope.
  \<^item> \<open>Bootstrap\<close>, \<open>BootstrapMenu\<close>: \<open>bootstrap_component*.py\<close>, \<open>bootstrap_install.py\<close>, \<open>bootstrap_installer.py\<close>, \<open>config_utils.py\<close>.
  \<^item> \<open>LlamaRegistry\<close>, \<open>LlamaSetup\<close>, \<open>LlamaMenu\<close>: \<open>llama_setup_*.py\<close>; a plan runs to its end with one result per step.
  \<^item> \<open>InstallerUi\<close>: the printing of the three menus. \<open>VpnClient\<close>: \<open>run_openvpn_client.py\<close>. \<open>GpuProbe\<close>: \<open>vulkan_gpu_probe.py\<close>,
    whose shell records are read back as they were written. \<open>BannerArt\<close>: the rows and the version of \<open>utils/banner.py\<close>.
  \<^item> \<open>RepoChecks\<close>: \<open>check_workspace_repos_aligned.py\<close>, which passes exactly when the two lists of repositories agree, and
    \<open>find_duplicates.py\<close>. \<open>CliTools\<close>: the front ends \<open>docs.py\<close>, \<open>openssl.py\<close> and \<open>tunnel.py\<close>, which pass the arguments on, and
    the readers \<open>read_pin.py\<close> and \<open>gitleaks_report.py\<close>.
  \<^item> \<open>Archives\<close>: \<open>archive_utils.py\<close>, with the patterns of \<open>fnmatch\<close> written out: the archive that is left holds the
    whole stream of \<open>tar\<close>, or there is an exception. \<open>Prototypes\<close>: the commit menu \<open>git_examiner.py\<close>, which amends
    the last commit only, and \<open>pdf_extractor.py\<close>. \<open>StreamEvents\<close>: the records and event constructors of
    \<open>workspace/types\<close>.

  \<^bold>\<open>The benchmark.\<close> \<open>Transcripts\<close> and \<open>Sessions\<close> (the turns of a recorded session, the selection of sessions),
  \<open>StreamClient\<close> (\<open>client.py\<close>), \<open>Score\<close>, \<open>Replay\<close> (\<open>replay*.py\<close>, \<open>task.py\<close>), \<open>Report\<close>, \<open>ReportAnalysis\<close>, \<open>ReportText\<close>
  (\<open>report*.py\<close>) and \<open>Benchmark\<close> (\<open>config.py\<close>, \<open>__main__.py\<close>). The turns are the exchanges of the session; the context
  window is the longest that fits; an answer passes exactly when it scores every category in range; the summary counts every step
  once; and a run never ends with its report, because the report treats named tuples as mappings.

  \<^bold>\<open>Loops and bounds.\<close> The waiting loops are \<open>poll\<close>, which ends because a sleep moves the clock to the deadline. The walks up
  a path take the number of its parts and one as fuel (\<open>find_root_enough\<close>), or the twelve steps of the source (\<open>climb\<close>). The
  walk over the manifests takes the depth of the tree (\<open>walk_manifests_enough\<close>), and the search for a free name the number of names
  that are taken (\<open>free_destination_found\<close>). The depth-first ordering of features ends by
  the number of features not yet visited. Python integers are \<open>int\<close> or \<open>nat\<close>; the 128 bits of an identifier are a word.

  \<^bold>\<open>Outside the model.\<close> Packages are parameters: pydantic's parsing and the YAML and JSON readers (their values are the
  input), Jinja templates, SHA-256, \<open>urllib\<close>, SQLite's storage, the dialogs and colours of \<open>dataops\<close>, regular expressions that
  are data of a manifest, and floating-point rounding. Symbolic links (where the code makes one, the making is a parameter), file permissions beyond the executable bit and unwritable paths,
  and concurrent processes that change the world between two steps of one operation other than during external commands and
  sleeps are not modelled; a check's thread is run to its end before its countdown is drawn. Parameters of the later theories
  are the TOML reader and the drawing of \<open>art\<close> (\<open>BannerArt\<close>), the compressor (\<open>Archives\<close>, where the tasks of
  \<open>asyncio\<close> run one after the other), the PDF reader and the markup of the console (\<open>Prototypes\<close>) and the clock of the
  events (\<open>StreamEvents\<close>). Not modelled at all: the typed dictionaries of \<open>types/common.py\<close> and the named tuples of
  \<open>types/results.py\<close> that no code of the repository uses, exception classes without a body, the \<open>__main__\<close> guards, and all code in other languages.
\<close>

end
